(* ===== verification/Prelude.thy ===== *)
theory Prelude
  imports Main "HOL-Library.Word" "HOL-Library.Multiset"
begin

text \<open>
  Shared vocabulary of the development: the machine integer types of the C++ code, the
  ``first match'' list operations that stand for the linear searches through
  \<^verbatim>\<open>std::vector\<close>, the ordered association list that stands for \<^verbatim>\<open>std::map\<close>, and the
  comparator sort that stands for \<^verbatim>\<open>std::sort\<close>. The two interfaces that the components
  rely on, an ordered keyed store and a strict comparator, are stated as locales.
\<close>

type_synonym u8 = "8 word"
type_synonym u16 = "16 word"
type_synonym u32 = "32 word"
type_synonym u64 = "64 word"
type_synonym bytes = "8 word list"

text \<open>A \<^verbatim>\<open>char\<close> and the \<^verbatim>\<open>std::byte\<close> that it is reinterpreted as.\<close>

definition byte_of_char :: "char \<Rightarrow> 8 word" where
  "byte_of_char ch = word_of_nat (of_char ch)"

definition char_of_byte :: "8 word \<Rightarrow> char" where
  "char_of_byte b = char_of (unat b)"

named_theorems fabric_defs \<open>definitions unfolded by the proofs about single operations\<close>
named_theorems frame \<open>what an operation leaves unchanged\<close>

abbreviation size32 :: "'a list \<Rightarrow> u32" where
  "size32 xs \<equiv> word_of_nat (length xs)"

section \<open>64-bit values\<close>

lemma unat_minus_one_64: "unat (- 1 :: u64) = 2 ^ 64 - 1"
  by (simp add: unsigned_minus_1_eq_mask mask_eq_exp_minus_1)

lemma unat_less_64: "unat (x :: u64) < 2 ^ 64"
  using unsigned_less[of x] by simp

lemma unat_less_32: "unat (x :: u32) < 2 ^ 32"
  using unsigned_less[of x] by simp

lemma unat_plus_1_64: "(x :: u64) \<noteq> - 1 \<Longrightarrow> unat (x + 1) = Suc (unat x)"
proof -
  assume "x \<noteq> - 1"
  then have "unat x \<noteq> 2 ^ 64 - 1" by (metis unat_minus_one_64 word_unat_eq_iff)
  with unat_less_64[of x] show ?thesis by (simp add: unat_plus_if')
qed

section \<open>First match in a vector\<close>

text \<open>
  A loop \<^verbatim>\<open>for (auto& r : v) if (r.id == id) return &r;\<close> yields a pointer to the first
  match; writing through the pointer changes that element only.
\<close>

fun update_first :: "('a \<Rightarrow> bool) \<Rightarrow> ('a \<Rightarrow> 'a) \<Rightarrow> 'a list \<Rightarrow> 'a list" where
  "update_first P f [] = []"
| "update_first P f (x # xs) = (if P x then f x # xs else x # update_first P f xs)"

lemma length_update_first [simp]: "length (update_first P f xs) = length xs"
  by (induction xs) auto

lemma map_update_first: "(\<And>x. P x \<Longrightarrow> g (f x) = g x) \<Longrightarrow> map g (update_first P f xs) = map g xs"
  by (induction xs) auto

lemma set_update_first:
  "y \<in> set (update_first P f xs) \<Longrightarrow> y \<in> set xs \<or> (\<exists>x \<in> set xs. P x \<and> find P xs = Some x \<and> y = f x)"
  by (induction xs) (auto split: if_splits)

lemma find_update_first:
  "(\<And>x. P x \<Longrightarrow> P (f x)) \<Longrightarrow> find P (update_first P f xs) = map_option f (find P xs)"
  by (induction xs) auto

lemma find_update_first_other:
  "(\<And>x. P x \<Longrightarrow> \<not> Q x \<and> \<not> Q (f x)) \<Longrightarrow> find Q (update_first P f xs) = find Q xs"
  by (induction xs) auto

lemma update_first_None: "find P xs = None \<Longrightarrow> update_first P f xs = xs"
  by (induction xs) (auto split: if_splits)

lemma find_SomeD: "find P xs = Some x \<Longrightarrow> P x \<and> x \<in> set xs"
  by (induction xs) (auto split: if_splits)

lemma find_NoneD: "find P xs = None \<Longrightarrow> x \<in> set xs \<Longrightarrow> \<not> P x"
  by (simp add: find_None_iff)

section \<open>Ordered association lists: std::map\<close>

type_synonym ('k, 'v) omap = "('k \<times> 'v) list"

text \<open>\<^verbatim>\<open>omap_put\<close> is assignment through the reference that \<^verbatim>\<open>find\<close> or \<^verbatim>\<open>emplace\<close> returns.\<close>

fun omap_put :: "'k::linorder \<Rightarrow> 'v \<Rightarrow> ('k, 'v) omap \<Rightarrow> ('k, 'v) omap" where
  "omap_put k v [] = [(k, v)]"
| "omap_put k v ((k', v') # m) =
     (if k = k' then (k, v) # m
      else if k < k' then (k, v) # (k', v') # m
      else (k', v') # omap_put k v m)"

definition omap_find :: "('k, 'v) omap \<Rightarrow> 'k \<Rightarrow> 'v option" where
  "omap_find m k = map_of m k"

definition omap_ordered :: "('k::linorder, 'v) omap \<Rightarrow> bool" where
  "omap_ordered m \<longleftrightarrow> sorted_wrt (<) (map fst m)"

lemma omap_find_Nil [simp]: "omap_find [] k = None"
  by (simp add: omap_find_def)

lemma omap_find_put [simp]:
  "omap_find (omap_put k v m) k' = (if k' = k then Some v else omap_find m k')"
  by (induction m) (auto simp: omap_find_def)

lemma fst_omap_put: "fst ` set (omap_put k v m) = insert k (fst ` set m)"
  by (induction k v m rule: omap_put.induct) auto

lemma omap_ordered_put: "omap_ordered m \<Longrightarrow> omap_ordered (omap_put k v m)"
proof (induction m)
  case (Cons kv m)
  obtain k' v' where kv: "kv = (k', v')" by (cases kv)
  have "fst ` set (omap_put k v m) = insert k (fst ` set m)" by (rule fst_omap_put)
  with Cons show ?case by (fastforce simp: omap_ordered_def kv)
qed (simp add: omap_ordered_def)

lemma omap_put_put: "omap_put k v (omap_put k u m) = omap_put k v m"
  by (induction m) (auto split: prod.splits)

lemma omap_put_same_keys:
  "omap_find m k = Some w \<Longrightarrow> omap_ordered m \<Longrightarrow> map fst (omap_put k v m) = map fst m"
  by (induction m) (auto simp: omap_find_def omap_ordered_def dest!: map_of_SomeD split: if_splits)

lemma omap_find_in_set: "omap_find m k = Some v \<Longrightarrow> (k, v) \<in> set m"
  by (simp add: omap_find_def map_of_SomeD)

lemma omap_find_mem: "omap_ordered m \<Longrightarrow> (k, v) \<in> set m \<Longrightarrow> omap_find m k = Some v"
  by (auto simp: omap_ordered_def omap_find_def strict_sorted_iff intro!: map_of_is_SomeI)

locale keyed_store =
  fixes put :: "'k \<Rightarrow> 'v \<Rightarrow> 's \<Rightarrow> 's"
    and lookup :: "'s \<Rightarrow> 'k \<Rightarrow> 'v option"
    and wf :: "'s \<Rightarrow> bool"
  assumes lookup_put: "lookup (put k v s) k' = (if k' = k then Some v else lookup s k')"
    and wf_put: "wf s \<Longrightarrow> wf (put k v s)"
begin

lemma put_frame: "k' \<noteq> k \<Longrightarrow> lookup (put k v s) k' = lookup s k'"
  by (simp add: lookup_put)

lemma put_all:
  assumes "\<And>k' v'. lookup s k' = Some v' \<Longrightarrow> P v'" and "P v" and "lookup (put k v s) k' = Some w"
  shows "P w"
  using assms by (cases "k' = k") (auto simp: lookup_put)

lemma put_put_lookup: "lookup (put k v (put k w s)) = lookup (put k v s)"
  by (rule ext) (simp add: lookup_put)

end

interpretation ensembles_store: keyed_store "omap_put :: u64 \<Rightarrow> 'v \<Rightarrow> _" omap_find omap_ordered
  by unfold_locales (auto intro: omap_ordered_put)

section \<open>Sorting with a comparator: std::sort\<close>

fun insort_by :: "('a \<Rightarrow> 'a \<Rightarrow> bool) \<Rightarrow> 'a \<Rightarrow> 'a list \<Rightarrow> 'a list" where
  "insort_by lt x [] = [x]"
| "insort_by lt x (y # ys) = (if lt y x then y # insort_by lt x ys else x # y # ys)"

definition sort_by :: "('a \<Rightarrow> 'a \<Rightarrow> bool) \<Rightarrow> 'a list \<Rightarrow> 'a list" where
  "sort_by lt xs = foldr (insort_by lt) xs []"

lemma sort_by_simps [simp]:
  "sort_by lt [] = []"
  "sort_by lt (x # xs) = insort_by lt x (sort_by lt xs)"
  by (simp_all add: sort_by_def)

lemma mset_insort_by: "mset (insort_by lt x xs) = add_mset x (mset xs)"
  by (induction xs) auto

lemma mset_sort_by [simp]: "mset (sort_by lt xs) = mset xs"
  by (induction xs) (auto simp: mset_insort_by)

lemma set_sort_by [simp]: "set (sort_by lt xs) = set xs"
  by (metis mset_sort_by set_mset_mset)

lemma length_sort_by [simp]: "length (sort_by lt xs) = length xs"
  by (metis mset_sort_by size_mset)

lemma sort_by_Nil_iff [simp]: "sort_by lt xs = [] \<longleftrightarrow> xs = []"
  by (metis length_0_conv length_sort_by)

text \<open>
  \<^verbatim>\<open>std::sort\<close> may return any permutation in which no element precedes one it follows.
  Where the comparator is a strict order that separates elements with different keys, there
  is exactly one such permutation when the keys are distinct, so every implementation of
  \<^verbatim>\<open>std::sort\<close> returns what \<^verbatim>\<open>sort_by\<close> returns.
\<close>

locale comparator =
  fixes lt :: "'a \<Rightarrow> 'a \<Rightarrow> bool" and carrier :: "'a set" and key :: "'a \<Rightarrow> 'k"
  assumes asym: "x \<in> carrier \<Longrightarrow> y \<in> carrier \<Longrightarrow> lt x y \<Longrightarrow> \<not> lt y x"
    and trans: "x \<in> carrier \<Longrightarrow> y \<in> carrier \<Longrightarrow> z \<in> carrier \<Longrightarrow> lt x y \<Longrightarrow> lt y z \<Longrightarrow> lt x z"
    and total: "x \<in> carrier \<Longrightarrow> y \<in> carrier \<Longrightarrow> key x \<noteq> key y \<Longrightarrow> lt x y \<or> lt y x"
begin

lemma sorted_insort_by:
  assumes "set (x # xs) \<subseteq> carrier" and "distinct (map key (x # xs))" and "sorted_wrt lt xs"
  shows "sorted_wrt lt (insort_by lt x xs)"
  using assms
proof (induction xs)
  case (Cons y ys)
  have eq: "set (insort_by lt x ys) = insert x (set ys)"
    by (metis mset_insort_by set_mset_add_mset_insert set_mset_mset)
  show ?case
  proof (cases "lt y x")
    case True
    with Cons eq show ?thesis by auto
  next
    case False
    from Cons.prems total[of x y] False have "lt x y" by auto
    moreover from this Cons.prems have "\<forall>z \<in> set ys. lt x z" by (auto intro: trans[of x y])
    ultimately show ?thesis using Cons.prems False by auto
  qed
qed simp

lemma sorted_sort_by:
  "set xs \<subseteq> carrier \<Longrightarrow> distinct (map key xs) \<Longrightarrow> sorted_wrt lt (sort_by lt xs)"
proof (induction xs)
  case (Cons x xs)
  have "mset (map key (sort_by lt xs)) = mset (map key xs)" by simp
  then have "distinct (map key (x # sort_by lt xs))"
    using Cons.prems by (metis distinct.simps(2) list.simps(9) mset_eq_imp_distinct_iff mset_eq_setD)
  with Cons show ?case by (auto intro!: sorted_insort_by)
qed simp

lemma sorted_unique:
  "sorted_wrt lt xs \<Longrightarrow> sorted_wrt lt ys \<Longrightarrow> mset xs = mset ys \<Longrightarrow> set xs \<subseteq> carrier \<Longrightarrow>
   distinct (map key xs) \<Longrightarrow> xs = ys"
proof (induction xs arbitrary: ys)
  case (Cons x xs)
  from Cons.prems(3) obtain y ys' where ys: "ys = y # ys'" by (cases ys) auto
  have sets: "set (x # xs) = set (y # ys')" using Cons.prems(3) ys by (metis set_mset_mset)
  have "x = y"
  proof (rule ccontr)
    assume "x \<noteq> y"
    with sets have "x \<in> set ys'" "y \<in> set xs" by auto
    with Cons.prems ys have "lt x y" "lt y x" by auto
    moreover from \<open>y \<in> set xs\<close> Cons.prems(4) have "x \<in> carrier" "y \<in> carrier" by auto
    ultimately show False using asym[of x y] by blast
  qed
  with Cons ys show ?case by auto
qed simp

lemma sort_by_unique:
  assumes "mset ys = mset xs" and "set xs \<subseteq> carrier" and "distinct (map key xs)"
    and nodesc: "sorted_wrt (\<lambda>x y. \<not> lt y x) ys"
  shows "ys = sort_by lt xs"
proof -
  have sets: "set ys = set xs" using assms(1) by (metis set_mset_mset)
  have dk: "distinct (map key ys)" using assms(1,3) by (metis mset_eq_imp_distinct_iff mset_map)
  from nodesc dk have "sorted_wrt lt ys" using sets assms(2)
  proof (induction ys arbitrary: xs)
    case (Cons y ys)
    then have "\<forall>z \<in> set ys. lt y z" using total by (metis (no_types, lifting) distinct.simps(2)
      image_eqI list.set_intros(1,2) list.set_map list.simps(9) sorted_wrt.simps(2) subsetD)
    with Cons show ?case by (auto intro: Cons.IH[of "ys"])
  qed simp
  moreover have "sorted_wrt lt (sort_by lt xs)" using assms by (intro sorted_sort_by) auto
  ultimately show ?thesis using sets assms dk by (intro sorted_unique) auto
qed

lemma sort_by_hd_least:
  assumes "set xs \<subseteq> carrier" and "distinct (map key xs)" and "x \<in> set xs" and "x \<noteq> hd (sort_by lt xs)"
  shows "lt (hd (sort_by lt xs)) x"
proof -
  have "sorted_wrt lt (sort_by lt xs)" using assms(1,2) by (rule sorted_sort_by)
  moreover have "x \<in> set (sort_by lt xs)" using assms(3) by simp
  ultimately show ?thesis using assms(4) by (cases "sort_by lt xs") auto
qed

end

end
