(* ===== verification/Outcome.thy ===== *)
theory Outcome
  imports Prelude
begin

text \<open>
  The typed failure classes and the result type of every operation
  (\<^verbatim>\<open>include/ensemble_fabric/outcome.hpp\<close>, \<^verbatim>\<open>src/outcome.cpp\<close>). An error carries its
  code; the diagnostic message that the C++ attaches to it is not modelled.
\<close>

datatype (plugins only: code) EnsembleError =
    E_ok | E_invalid_argument | E_resource_limit_exceeded | E_unsupported_version | E_not_found
    | E_unknown_ensemble | E_unknown_execution | E_unknown_participant | E_unknown_candidate
    | E_unknown_evaluation | E_stale_ensemble_generation | E_stale_execution_generation
    | E_stale_participant_generation | E_stale_worker_boot | E_stale_coordinator_epoch
    | E_stale_candidate_generation | E_stale_evaluation_generation
    | E_participant_not_authoritative | E_participant_unavailable | E_participant_incompatible
    | E_participant_role_mismatch | E_participant_duplicate
    | E_participant_revalidation_required | E_participant_failed | E_required_participant_failed
    | E_malformed_candidate | E_malformed_evaluation | E_malformed_frame
    | E_malformed_persistence | E_checksum_mismatch | E_trailing_data | E_protocol_error
    | E_invalid_enum_value | E_invalid_identity_combination | E_payload_too_large
    | E_invalid_state_transition | E_duplicate_completion | E_duplicate_evaluation
    | E_conflicting_evaluation | E_duplicate_dispatch | E_execution_not_open
    | E_evaluation_target_mismatch | E_quorum_impossible | E_quorum_not_reached
    | E_insufficient_evidence | E_all_candidates_invalid | E_consensus_not_reached
    | E_disagreement_unresolved | E_tie_unresolved | E_fallback_not_authorized
    | E_fallback_exhausted | E_result_already_committed | E_conflicting_result_commit
    | E_no_eligible_candidate | E_ensemble_cancelled | E_ensemble_superseded
    | E_execution_cancelled | E_revalidation_required | E_persistence_io_error
    | E_persistence_corruption | E_transport_error | E_internal_error

primrec error_code :: "EnsembleError \<Rightarrow> u16" where
  "error_code E_ok = 0"
| "error_code E_invalid_argument = 1"
| "error_code E_resource_limit_exceeded = 2"
| "error_code E_unsupported_version = 3"
| "error_code E_not_found = 4"
| "error_code E_unknown_ensemble = 10"
| "error_code E_unknown_execution = 11"
| "error_code E_unknown_participant = 12"
| "error_code E_unknown_candidate = 13"
| "error_code E_unknown_evaluation = 14"
| "error_code E_stale_ensemble_generation = 20"
| "error_code E_stale_execution_generation = 21"
| "error_code E_stale_participant_generation = 22"
| "error_code E_stale_worker_boot = 23"
| "error_code E_stale_coordinator_epoch = 24"
| "error_code E_stale_candidate_generation = 25"
| "error_code E_stale_evaluation_generation = 26"
| "error_code E_participant_not_authoritative = 30"
| "error_code E_participant_unavailable = 31"
| "error_code E_participant_incompatible = 32"
| "error_code E_participant_role_mismatch = 33"
| "error_code E_participant_duplicate = 34"
| "error_code E_participant_revalidation_required = 35"
| "error_code E_participant_failed = 36"
| "error_code E_required_participant_failed = 37"
| "error_code E_malformed_candidate = 40"
| "error_code E_malformed_evaluation = 41"
| "error_code E_malformed_frame = 42"
| "error_code E_malformed_persistence = 43"
| "error_code E_checksum_mismatch = 44"
| "error_code E_trailing_data = 45"
| "error_code E_protocol_error = 46"
| "error_code E_invalid_enum_value = 47"
| "error_code E_invalid_identity_combination = 48"
| "error_code E_payload_too_large = 49"
| "error_code E_invalid_state_transition = 60"
| "error_code E_duplicate_completion = 61"
| "error_code E_duplicate_evaluation = 62"
| "error_code E_conflicting_evaluation = 63"
| "error_code E_duplicate_dispatch = 64"
| "error_code E_execution_not_open = 65"
| "error_code E_evaluation_target_mismatch = 66"
| "error_code E_quorum_impossible = 70"
| "error_code E_quorum_not_reached = 71"
| "error_code E_insufficient_evidence = 72"
| "error_code E_all_candidates_invalid = 73"
| "error_code E_consensus_not_reached = 74"
| "error_code E_disagreement_unresolved = 75"
| "error_code E_tie_unresolved = 76"
| "error_code E_fallback_not_authorized = 77"
| "error_code E_fallback_exhausted = 78"
| "error_code E_result_already_committed = 80"
| "error_code E_conflicting_result_commit = 81"
| "error_code E_no_eligible_candidate = 82"
| "error_code E_ensemble_cancelled = 90"
| "error_code E_ensemble_superseded = 91"
| "error_code E_execution_cancelled = 92"
| "error_code E_revalidation_required = 93"
| "error_code E_persistence_io_error = 100"
| "error_code E_persistence_corruption = 101"
| "error_code E_transport_error = 102"
| "error_code E_internal_error = 110"

primrec error_to_string :: "EnsembleError \<Rightarrow> string" where
  "error_to_string E_ok = ''ok''"
| "error_to_string E_invalid_argument = ''invalid_argument''"
| "error_to_string E_resource_limit_exceeded = ''resource_limit_exceeded''"
| "error_to_string E_unsupported_version = ''unsupported_version''"
| "error_to_string E_not_found = ''not_found''"
| "error_to_string E_unknown_ensemble = ''unknown_ensemble''"
| "error_to_string E_unknown_execution = ''unknown_execution''"
| "error_to_string E_unknown_participant = ''unknown_participant''"
| "error_to_string E_unknown_candidate = ''unknown_candidate''"
| "error_to_string E_unknown_evaluation = ''unknown_evaluation''"
| "error_to_string E_stale_ensemble_generation = ''stale_ensemble_generation''"
| "error_to_string E_stale_execution_generation = ''stale_execution_generation''"
| "error_to_string E_stale_participant_generation = ''stale_participant_generation''"
| "error_to_string E_stale_worker_boot = ''stale_worker_boot''"
| "error_to_string E_stale_coordinator_epoch = ''stale_coordinator_epoch''"
| "error_to_string E_stale_candidate_generation = ''stale_candidate_generation''"
| "error_to_string E_stale_evaluation_generation = ''stale_evaluation_generation''"
| "error_to_string E_participant_not_authoritative = ''participant_not_authoritative''"
| "error_to_string E_participant_unavailable = ''participant_unavailable''"
| "error_to_string E_participant_incompatible = ''participant_incompatible''"
| "error_to_string E_participant_role_mismatch = ''participant_role_mismatch''"
| "error_to_string E_participant_duplicate = ''participant_duplicate''"
| "error_to_string E_participant_revalidation_required = ''participant_revalidation_required''"
| "error_to_string E_participant_failed = ''participant_failed''"
| "error_to_string E_required_participant_failed = ''required_participant_failed''"
| "error_to_string E_malformed_candidate = ''malformed_candidate''"
| "error_to_string E_malformed_evaluation = ''malformed_evaluation''"
| "error_to_string E_malformed_frame = ''malformed_frame''"
| "error_to_string E_malformed_persistence = ''malformed_persistence''"
| "error_to_string E_checksum_mismatch = ''checksum_mismatch''"
| "error_to_string E_trailing_data = ''trailing_data''"
| "error_to_string E_protocol_error = ''protocol_error''"
| "error_to_string E_invalid_enum_value = ''invalid_enum_value''"
| "error_to_string E_invalid_identity_combination = ''invalid_identity_combination''"
| "error_to_string E_payload_too_large = ''payload_too_large''"
| "error_to_string E_invalid_state_transition = ''invalid_state_transition''"
| "error_to_string E_duplicate_completion = ''duplicate_completion''"
| "error_to_string E_duplicate_evaluation = ''duplicate_evaluation''"
| "error_to_string E_conflicting_evaluation = ''conflicting_evaluation''"
| "error_to_string E_duplicate_dispatch = ''duplicate_dispatch''"
| "error_to_string E_execution_not_open = ''execution_not_open''"
| "error_to_string E_evaluation_target_mismatch = ''evaluation_target_mismatch''"
| "error_to_string E_quorum_impossible = ''quorum_impossible''"
| "error_to_string E_quorum_not_reached = ''quorum_not_reached''"
| "error_to_string E_insufficient_evidence = ''insufficient_evidence''"
| "error_to_string E_all_candidates_invalid = ''all_candidates_invalid''"
| "error_to_string E_consensus_not_reached = ''consensus_not_reached''"
| "error_to_string E_disagreement_unresolved = ''disagreement_unresolved''"
| "error_to_string E_tie_unresolved = ''tie_unresolved''"
| "error_to_string E_fallback_not_authorized = ''fallback_not_authorized''"
| "error_to_string E_fallback_exhausted = ''fallback_exhausted''"
| "error_to_string E_result_already_committed = ''result_already_committed''"
| "error_to_string E_conflicting_result_commit = ''conflicting_result_commit''"
| "error_to_string E_no_eligible_candidate = ''no_eligible_candidate''"
| "error_to_string E_ensemble_cancelled = ''ensemble_cancelled''"
| "error_to_string E_ensemble_superseded = ''ensemble_superseded''"
| "error_to_string E_execution_cancelled = ''execution_cancelled''"
| "error_to_string E_revalidation_required = ''revalidation_required''"
| "error_to_string E_persistence_io_error = ''persistence_io_error''"
| "error_to_string E_persistence_corruption = ''persistence_corruption''"
| "error_to_string E_transport_error = ''transport_error''"
| "error_to_string E_internal_error = ''internal_error''"

definition is_authority_failure :: "EnsembleError \<Rightarrow> bool" where
  "is_authority_failure e \<longleftrightarrow> e \<in> {
     E_stale_ensemble_generation, E_stale_execution_generation, E_stale_participant_generation
     , E_stale_worker_boot, E_stale_coordinator_epoch, E_stale_candidate_generation
     , E_stale_evaluation_generation, E_participant_not_authoritative
     , E_participant_revalidation_required, E_ensemble_superseded, E_execution_cancelled
     , E_revalidation_required}"

definition is_retryable_failure :: "EnsembleError \<Rightarrow> bool" where
  "is_retryable_failure e \<longleftrightarrow> e \<in> {
     E_participant_unavailable, E_participant_failed, E_transport_error, E_malformed_candidate}"

definition is_terminal_failure :: "EnsembleError \<Rightarrow> bool" where
  "is_terminal_failure e \<longleftrightarrow> e \<in> {
     E_result_already_committed, E_ensemble_cancelled, E_ensemble_superseded
     , E_all_candidates_invalid, E_quorum_impossible, E_persistence_corruption
     , E_persistence_io_error, E_invalid_argument}"

text \<open>
  \<^verbatim>\<open>Outcome<T>\<close> holds a value or a non-ok error: the constructor from an error turns the
  code \<^verbatim>\<open>ok\<close> into \<^verbatim>\<open>internal_error\<close>.
\<close>

datatype 'a outcome = Ok 'a | Err EnsembleError

type_synonym status = "unit outcome"

definition fail :: "EnsembleError \<Rightarrow> 'a outcome" where
  "fail e = (if e = E_ok then Err E_internal_error else Err e)"

abbreviation ok_status :: status where
  "ok_status \<equiv> Ok ()"

definition is_ok :: "'a outcome \<Rightarrow> bool" where
  "is_ok r \<longleftrightarrow> (case r of Ok _ \<Rightarrow> True | Err _ \<Rightarrow> False)"

definition outcome_code :: "'a outcome \<Rightarrow> EnsembleError" where
  "outcome_code r = (case r of Ok _ \<Rightarrow> E_ok | Err e \<Rightarrow> e)"

lemma is_ok_simps [simp]: "is_ok (Ok x)" "\<not> is_ok (Err e)"
  by (simp_all add: is_ok_def)

lemma outcome_code_simps [simp]: "outcome_code (Ok x) = E_ok" "outcome_code (Err e) = e"
  by (simp_all add: outcome_code_def)

lemma fail_neq_Ok [simp]: "fail e \<noteq> Ok x" "Ok x \<noteq> fail e"
  by (simp_all add: fail_def)

lemma is_ok_fail [simp]: "\<not> is_ok (fail e)"
  by (simp add: fail_def)

lemma outcome_code_fail [simp]: "e \<noteq> E_ok \<Longrightarrow> outcome_code (fail e) = e"
  by (simp add: fail_def)

lemma outcome_code_fail_neq_ok: "outcome_code (fail e) \<noteq> E_ok"
  by (simp add: fail_def)

lemma fail_Err [simp]: "e \<noteq> E_ok \<Longrightarrow> fail e = Err e"
  by (simp add: fail_def)

text \<open>A chain of early returns: the first failing check decides.\<close>

definition require :: "bool \<Rightarrow> EnsembleError \<Rightarrow> status \<Rightarrow> status" where
  "require c e rest = (if c then rest else fail e)"

lemma require_ok [simp]: "is_ok (require c e rest) \<longleftrightarrow> c \<and> is_ok rest"
  by (simp add: require_def)

lemma require_Ok_iff [simp]: "require c e rest = Ok u \<longleftrightarrow> c \<and> rest = Ok u"
  by (simp add: require_def)

definition and_then :: "status \<Rightarrow> status \<Rightarrow> status" where
  "and_then r rest = (case r of Ok _ \<Rightarrow> rest | Err e \<Rightarrow> fail e)"

lemma and_then_Ok_iff [simp]: "and_then r rest = Ok u \<longleftrightarrow> is_ok r \<and> rest = Ok u"
  by (cases r) (simp_all add: and_then_def)

lemma and_then_Ok [simp]: "and_then (Ok x) rest = rest"
  by (simp add: and_then_def)

lemma is_ok_and_then [simp]: "is_ok (and_then r rest) \<longleftrightarrow> is_ok r \<and> is_ok rest"
  by (cases r) (simp_all add: and_then_def)

fun for_all_status :: "('a \<Rightarrow> status) \<Rightarrow> 'a list \<Rightarrow> status" where
  "for_all_status f [] = ok_status"
| "for_all_status f (x # xs) = and_then (f x) (for_all_status f xs)"

lemma is_ok_for_all_status [simp]: "is_ok (for_all_status f xs) \<longleftrightarrow> (\<forall>x \<in> set xs. is_ok (f x))"
  by (induction xs) auto

lemma status_is_ok: "is_ok r \<longleftrightarrow> r = ok_status"
  by (cases r) auto

end
