(* ===== verification/Ids.thy ===== *)
theory Ids
  imports Outcome
begin

text \<open>
  Identities and generations (\<^verbatim>\<open>include/ensemble_fabric/ids.hpp\<close>). A \<^verbatim>\<open>StrongId<Tag>\<close> is a
  64-bit value; the tags are compile-time only, so each identity domain is a synonym.
  The interface of the allocator is the locale \<open>fresh_ids\<close>.
\<close>

type_synonym strong_id = u64
type_synonym EnsembleId = strong_id
type_synonym EnsembleGeneration = strong_id
type_synonym EnsembleExecutionId = strong_id
type_synonym EnsembleAttemptGeneration = strong_id
type_synonym ParticipantId = strong_id
type_synonym ParticipantGeneration = strong_id
type_synonym CandidateId = strong_id
type_synonym CandidateGeneration = strong_id
type_synonym EvaluationId = strong_id
type_synonym EvaluationGeneration = strong_id
type_synonym ResultId = strong_id
type_synonym ResultGeneration = strong_id
type_synonym WorkerId = strong_id
type_synonym WorkerBootId = strong_id
type_synonym CoordinatorEpoch = strong_id
type_synonym StageId = strong_id
type_synonym Sequence = strong_id

definition valid_id :: "strong_id \<Rightarrow> bool" where
  "valid_id i \<longleftrightarrow> i \<noteq> 0"

section \<open>Decimal rendering and strict parsing\<close>

definition digit_char :: "nat \<Rightarrow> char" where
  "digit_char d = char_of (48 + d)"

fun dec_string :: "nat \<Rightarrow> string" where
  "dec_string n = (if n < 10 then [digit_char n] else dec_string (n div 10) @ [digit_char (n mod 10)])"

declare dec_string.simps [simp del]

definition id_to_string :: "strong_id \<Rightarrow> string" where
  "id_to_string i = dec_string (unat i)"

definition is_digit :: "char \<Rightarrow> bool" where
  "is_digit ch \<longleftrightarrow> 48 \<le> (of_char ch :: nat) \<and> (of_char ch :: nat) \<le> 57"

definition digit_value :: "char \<Rightarrow> nat" where
  "digit_value ch = of_char ch - 48"

fun parse_digits :: "u64 \<Rightarrow> string \<Rightarrow> u64 option" where
  "parse_digits acc [] = Some acc"
| "parse_digits acc (ch # str) =
     (if \<not> is_digit ch then None
      else let digit = word_of_nat (digit_value ch)
           in if (- 1 - digit) div 10 < acc then None else parse_digits (acc * 10 + digit) str)"

definition parse_id :: "string \<Rightarrow> strong_id option" where
  "parse_id str =
     (if str = [] \<or> 20 < length str then None
      else case parse_digits 0 str of
             None \<Rightarrow> None
           | Some acc \<Rightarrow> if acc = 0 then None else Some acc)"

text \<open>The value a digit string denotes, over unbounded naturals.\<close>

definition dec_value :: "nat \<Rightarrow> string \<Rightarrow> nat" where
  "dec_value a str = foldl (\<lambda>a ch. a * 10 + digit_value ch) a str"

lemma dec_value_simps [simp]:
  "dec_value a [] = a"
  "dec_value a (ch # str) = dec_value (a * 10 + digit_value ch) str"
  "dec_value a (s @ t) = dec_value (dec_value a s) t"
  by (simp_all add: dec_value_def)

lemma digit_value_less: "is_digit ch \<Longrightarrow> digit_value ch < 10"
  by (auto simp: is_digit_def digit_value_def)

lemma digit_char_props [simp]:
  "d < 10 \<Longrightarrow> is_digit (digit_char d)" "d < 10 \<Longrightarrow> digit_value (digit_char d) = d"
  by (simp_all add: digit_char_def is_digit_def digit_value_def)

lemma dec_value_mono: "a \<le> dec_value a str"
proof (induction str arbitrary: a)
  case (Cons ch str)
  have "a * 10 + digit_value ch \<le> dec_value (a * 10 + digit_value ch) str" by (rule Cons.IH)
  then show ?case by simp
qed simp

lemma overflow_guard:
  assumes "d < 10"
  shows "(- 1 - word_of_nat d) div 10 < (acc :: u64) \<longleftrightarrow> 2 ^ 64 \<le> unat acc * 10 + d"
proof -
  have d: "unat (word_of_nat d :: u64) = d"
    using assms by (simp add: unat_of_nat)
  have "unat (- 1 - word_of_nat d :: u64) = 2 ^ 64 - 1 - d"
    using assms d by (simp add: unat_sub word_le_nat_alt unat_minus_one_64)
  then have "unat ((- 1 - word_of_nat d) div 10 :: u64) = (2 ^ 64 - 1 - d) div 10"
    by (simp add: unat_div)
  with assms show ?thesis by (simp add: word_less_nat_alt) arith
qed

lemma step_no_overflow:
  assumes "d < 10" and "unat acc * 10 + d < 2 ^ 64"
  shows "unat (acc * 10 + word_of_nat d :: u64) = unat acc * 10 + d"
proof -
  have "(unat acc * 10 + d) mod 2 ^ 64 = unat acc * 10 + d" using assms by simp
  moreover have "unat (acc * 10 + word_of_nat d :: u64) = (unat acc * 10 + d) mod 2 ^ 64"
    using assms by (simp add: unat_word_ariths unat_of_nat mod_simps)
  ultimately show ?thesis by simp
qed

lemma parse_digits_spec:
  "parse_digits acc str =
     (if (\<forall>ch \<in> set str. is_digit ch) \<and> dec_value (unat acc) str < 2 ^ 64
      then Some (word_of_nat (dec_value (unat acc) str)) else None)"
proof (induction str arbitrary: acc)
  case Nil
  have "unat acc < 2 ^ 64" by (rule unat_less_64)
  then show ?case by simp
next
  case (Cons ch str)
  show ?case
  proof (cases "is_digit ch")
    case True
    then have d: "digit_value ch < 10" by (rule digit_value_less)
    show ?thesis
    proof (cases "unat acc * 10 + digit_value ch < 2 ^ 64")
      case True
      with d Cons.IH \<open>is_digit ch\<close> show ?thesis
        by (simp add: Let_def overflow_guard step_no_overflow del: One_nat_def)
    next
      case False
      moreover have "unat acc * 10 + digit_value ch \<le> dec_value (unat acc * 10 + digit_value ch) str"
        by (rule dec_value_mono)
      ultimately show ?thesis using d \<open>is_digit ch\<close> by (simp add: Let_def overflow_guard)
    qed
  qed simp
qed

lemma dec_string_digits: "\<forall>ch \<in> set (dec_string n). is_digit ch"
  by (induction n rule: dec_string.induct) (subst dec_string.simps, auto)

lemma dec_value_dec_string: "dec_value 0 (dec_string n) = n"
proof (induction n rule: dec_string.induct)
  case (1 n)
  then show ?case by (subst dec_string.simps) auto
qed

lemma dec_string_length: "0 < k \<Longrightarrow> n < 10 ^ k \<Longrightarrow> length (dec_string n) \<le> k"
proof (induction n arbitrary: k rule: dec_string.induct)
  case (1 n)
  show ?case
  proof (cases "n < 10")
    case True
    then show ?thesis using "1.prems" by (subst dec_string.simps) simp
  next
    case False
    with "1.prems" obtain k' where k: "k = Suc k'" "0 < k'" by (cases k; cases "k - 1") auto
    then have "n div 10 < 10 ^ k'" using "1.prems" by (simp add: less_mult_imp_div_less)
    with 1(1)[OF False] k False show ?thesis by (subst dec_string.simps) auto
  qed
qed

lemma dec_string_nonempty [simp]: "dec_string n \<noteq> []"
  by (subst dec_string.simps) simp

section \<open>Generations and allocators\<close>

lemma word_less_plus_1: "(x :: u64) \<noteq> - 1 \<Longrightarrow> x < x + 1"
  by (simp add: word_less_nat_alt unat_plus_1_64)

definition advance_generation :: "strong_id \<Rightarrow> strong_id option" where
  "advance_generation g = (if g = - 1 then None else Some (g + 1))"

lemma advance_generation_greater: "advance_generation g = Some g' \<Longrightarrow> g < g' \<and> valid_id g'"
proof -
  assume "advance_generation g = Some g'"
  then have g: "g \<noteq> - 1" "g' = g + 1" by (auto simp: advance_generation_def split: if_splits)
  then have "g < g + 1" by (simp add: word_less_plus_1)
  then show ?thesis using g by (auto simp: valid_id_def)
qed

text \<open>\<^verbatim>\<open>IdAllocator\<close> is its high-water mark \<^verbatim>\<open>next_\<close>; a fresh one starts at 1.\<close>

definition allocator_init :: u64 where
  "allocator_init = 1"

definition allocate :: "u64 \<Rightarrow> strong_id option \<times> u64" where
  "allocate next = (if next = - 1 then (None, next) else (Some next, next + 1))"

definition observe :: "strong_id \<Rightarrow> u64 \<Rightarrow> u64" where
  "observe i next = (if next \<le> i \<and> i \<noteq> - 1 then i + 1 else next)"

locale fresh_ids =
  fixes alloc :: "'s \<Rightarrow> 'i option \<times> 's" and see :: "'i \<Rightarrow> 's \<Rightarrow> 's" and used :: "'s \<Rightarrow> 'i set"
  assumes alloc_fresh: "alloc s = (Some i, s') \<Longrightarrow> i \<notin> used s"
    and alloc_used: "alloc s = (Some i, s') \<Longrightarrow> insert i (used s) \<subseteq> used s'"
    and alloc_full: "alloc s = (None, s') \<Longrightarrow> s' = s"
    and see_mono: "used s \<subseteq> used (see i s)"
begin

fun alloc_many :: "nat \<Rightarrow> 's \<Rightarrow> 'i list \<times> 's" where
  "alloc_many 0 s = ([], s)"
| "alloc_many (Suc n) s =
     (case alloc s of (None, s') \<Rightarrow> ([], s')
      | (Some i, s') \<Rightarrow> (case alloc_many n s' of (is, s'') \<Rightarrow> (i # is, s'')))"

lemma alloc_many_fresh:
  "alloc_many n s = (is, s') \<Longrightarrow> distinct is \<and> set is \<inter> used s = {} \<and> used s \<subseteq> used s'"
proof (induction n arbitrary: s "is" s')
  case (Suc n)
  show ?case
  proof (cases "alloc s")
    case (Pair r t)
    show ?thesis
    proof (cases r)
      case None
      with Suc.prems Pair alloc_full[of s t] show ?thesis by auto
    next
      case (Some i)
      with Suc.prems Pair obtain js where js: "alloc_many n t = (js, s')" "is = i # js"
        by (auto split: prod.splits)
      have "insert i (used s) \<subseteq> used t" "i \<notin> used s"
        using Pair Some alloc_used alloc_fresh by auto
      with Suc.IH[OF js(1)] js(2) show ?thesis by auto
    qed
  qed
qed simp

end

interpretation ids: fresh_ids allocate observe "\<lambda>next. {i. i < next}"
proof unfold_locales
  fix s s' i assume "allocate s = (Some i, s')"
  then show "i \<notin> {i. i < s}" "insert i {i. i < s} \<subseteq> {i. i < s'}"
    by (auto simp: allocate_def split: if_splits intro: word_less_plus_1 less_trans)
next
  fix s s' assume "allocate s = (None, s')"
  then show "s' = s" by (auto simp: allocate_def split: if_splits)
next
  fix s i
  show "{j. j < s} \<subseteq> {j. j < observe i s}"
    using word_less_plus_1[of i] by (auto simp: observe_def)
qed

end
