(* ===== verification/Text.thy ===== *)
theory Text
  imports Ids
begin

unbundle bit_operations_syntax

text \<open>
  Text sanitising, bounded decimal parsing, joining and the FNV-1a style hash of
  \<^verbatim>\<open>src/detail/text.cpp\<close>. A \<^verbatim>\<open>std::string\<close> is a list of bytes, here \<open>char\<close>s.
\<close>

abbreviation byte_of :: "char \<Rightarrow> nat" where
  "byte_of ch \<equiv> of_char ch"

definition printable :: "char \<Rightarrow> bool" where
  "printable ch \<longleftrightarrow> 32 \<le> byte_of ch \<and> byte_of ch \<le> 126"

definition is_bounded_ascii :: "string \<Rightarrow> nat \<Rightarrow> bool" where
  "is_bounded_ascii str max_bytes \<longleftrightarrow>
     length str \<le> max_bytes \<and>
     list_all (\<lambda>ch. byte_of ch = 9 \<or> byte_of ch = 10 \<or> printable ch) str"

definition sanitize_char :: "char \<Rightarrow> char" where
  "sanitize_char ch =
     (if byte_of ch = 9 then CHR '' '' else if printable ch then ch else CHR ''?'')"

fun sanitize_loop :: "nat \<Rightarrow> string \<Rightarrow> string \<Rightarrow> string" where
  "sanitize_loop max_bytes out [] = out"
| "sanitize_loop max_bytes out (ch # str) =
     (if max_bytes \<le> length out then out else sanitize_loop max_bytes (out @ [sanitize_char ch]) str)"

definition sanitize_text :: "string \<Rightarrow> nat \<Rightarrow> string" where
  "sanitize_text str max_bytes = sanitize_loop max_bytes [] str"

definition parse_u64 :: "string \<Rightarrow> u64 option" where
  "parse_u64 str = (if str = [] \<or> 20 < length str then None else parse_digits 0 str)"

definition parse_u32 :: "string \<Rightarrow> u32 option" where
  "parse_u32 str =
     (case parse_u64 str of
        None \<Rightarrow> None
      | Some value \<Rightarrow> if 0xFFFFFFFF < value then None else Some (ucast value))"

fun join :: "string list \<Rightarrow> string \<Rightarrow> string" where
  "join [] sep = []"
| "join [p] sep = p"
| "join (p # q # ps) sep = p @ sep @ join (q # ps) sep"

definition fnv_offset :: u64 where
  "fnv_offset = 1469598103934665603"

definition fnv_prime :: u64 where
  "fnv_prime = 1099511628211"

definition fnv1a64_text :: "u64 \<Rightarrow> string \<Rightarrow> u64" where
  "fnv1a64_text seed str =
     foldl (\<lambda>hash ch. (hash XOR word_of_nat (byte_of ch)) * fnv_prime) seed str"

definition fnv1a64_u64 :: "u64 \<Rightarrow> u64 \<Rightarrow> u64" where
  "fnv1a64_u64 seed v =
     foldl (\<lambda>hash i. (hash XOR (drop_bit (i * 8) v AND 0xFF)) * fnv_prime) seed [0..<8]"

definition fnv1a64 :: "string \<Rightarrow> u64" where
  "fnv1a64 str = fnv1a64_text fnv_offset str"

section \<open>Lemmas\<close>

lemma sanitize_loop_spec:
  "length out \<le> n \<Longrightarrow> sanitize_loop n out str = out @ map sanitize_char (take (n - length out) str)"
proof (induction str arbitrary: out)
  case (Cons ch str)
  show ?case
  proof (cases "n - length out")
    case 0
    with Cons.prems show ?thesis by simp
  next
    case (Suc k)
    then have "n - Suc (length out) = k" "\<not> n \<le> length out" by auto
    with Suc Cons show ?thesis by simp
  qed
qed simp

lemma sanitize_text_spec: "sanitize_text str n = map sanitize_char (take n str)"
  by (simp add: sanitize_text_def sanitize_loop_spec)

lemma printable_sanitize_char: "printable (sanitize_char ch)"
  by (simp add: sanitize_char_def printable_def)

lemma sanitize_char_printable: "printable ch \<Longrightarrow> sanitize_char ch = ch"
  by (auto simp: sanitize_char_def printable_def)

lemma sanitize_text_bounded: "is_bounded_ascii (sanitize_text str n) n"
  by (simp add: sanitize_text_spec is_bounded_ascii_def list_all_iff printable_sanitize_char)

lemma sanitize_text_idem: "sanitize_text (sanitize_text str n) n = sanitize_text str n"
  by (simp add: sanitize_text_spec take_map printable_sanitize_char sanitize_char_printable)

end
