(* ===== verification/Roles.thy ===== *)
theory Roles
  imports Text
begin

unbundle bit_operations_syntax

text \<open>
  Participant roles, role sets as bit masks, verification states, judgements and criteria
  (\<^verbatim>\<open>include/ensemble_fabric/role.hpp\<close>, \<^verbatim>\<open>src/role.cpp\<close>). The locale \<open>text_codec\<close> is the
  contract of a \<^verbatim>\<open>to_string\<close>/\<^verbatim>\<open>parse\<close> pair.
\<close>

datatype ParticipantRole =
    R_candidate | R_specialist | R_judge | R_verifier | R_fallback

fun role_code :: "ParticipantRole \<Rightarrow> u8" where
  "role_code R_candidate = 1"
| "role_code R_specialist = 2"
| "role_code R_judge = 3"
| "role_code R_verifier = 4"
| "role_code R_fallback = 5"

fun role_to_string :: "ParticipantRole \<Rightarrow> string" where
  "role_to_string R_candidate = ''CANDIDATE''"
| "role_to_string R_specialist = ''SPECIALIST''"
| "role_to_string R_judge = ''JUDGE''"
| "role_to_string R_verifier = ''VERIFIER''"
| "role_to_string R_fallback = ''FALLBACK''"

definition parse_role :: "string \<Rightarrow> ParticipantRole option" where
  "parse_role str =
     (if str = ''CANDIDATE'' \<or> str = ''candidate'' then Some R_candidate
      else if str = ''SPECIALIST'' \<or> str = ''specialist'' then Some R_specialist
      else if str = ''JUDGE'' \<or> str = ''judge'' then Some R_judge
      else if str = ''VERIFIER'' \<or> str = ''verifier'' then Some R_verifier
      else if str = ''FALLBACK'' \<or> str = ''fallback'' then Some R_fallback
      else None)"

datatype VerificationState =
    V_pass | V_fail | V_abstain | V_unknown

fun verification_code :: "VerificationState \<Rightarrow> u8" where
  "verification_code V_pass = 1"
| "verification_code V_fail = 2"
| "verification_code V_abstain = 3"
| "verification_code V_unknown = 4"

fun verification_to_string :: "VerificationState \<Rightarrow> string" where
  "verification_to_string V_pass = ''PASS''"
| "verification_to_string V_fail = ''FAIL''"
| "verification_to_string V_abstain = ''ABSTAIN''"
| "verification_to_string V_unknown = ''UNKNOWN''"

definition parse_verification_state :: "string \<Rightarrow> VerificationState option" where
  "parse_verification_state str =
     (if str = ''PASS'' \<or> str = ''pass'' then Some V_pass
      else if str = ''FAIL'' \<or> str = ''fail'' then Some V_fail
      else if str = ''ABSTAIN'' \<or> str = ''abstain'' then Some V_abstain
      else if str = ''UNKNOWN'' \<or> str = ''unknown'' then Some V_unknown
      else None)"

datatype CategoricalJudgment =
    J_accept | J_reject | J_abstain | J_unknown

fun judgment_code :: "CategoricalJudgment \<Rightarrow> u8" where
  "judgment_code J_accept = 1"
| "judgment_code J_reject = 2"
| "judgment_code J_abstain = 3"
| "judgment_code J_unknown = 4"

fun judgment_to_string :: "CategoricalJudgment \<Rightarrow> string" where
  "judgment_to_string J_accept = ''ACCEPT''"
| "judgment_to_string J_reject = ''REJECT''"
| "judgment_to_string J_abstain = ''ABSTAIN''"
| "judgment_to_string J_unknown = ''UNKNOWN''"

definition parse_categorical_judgment :: "string \<Rightarrow> CategoricalJudgment option" where
  "parse_categorical_judgment str =
     (if str = ''ACCEPT'' \<or> str = ''accept'' then Some J_accept
      else if str = ''REJECT'' \<or> str = ''reject'' then Some J_reject
      else if str = ''ABSTAIN'' \<or> str = ''abstain'' then Some J_abstain
      else if str = ''UNKNOWN'' \<or> str = ''unknown'' then Some J_unknown
      else None)"

datatype CriterionKind =
    K_hard_predicate | K_ranking_signal

fun criterion_kind_code :: "CriterionKind \<Rightarrow> u8" where
  "criterion_kind_code K_hard_predicate = 1"
| "criterion_kind_code K_ranking_signal = 2"

fun criterion_kind_to_string :: "CriterionKind \<Rightarrow> string" where
  "criterion_kind_to_string K_hard_predicate = ''HARD_PREDICATE''"
| "criterion_kind_to_string K_ranking_signal = ''RANKING_SIGNAL''"

definition parse_criterion_kind :: "string \<Rightarrow> CriterionKind option" where
  "parse_criterion_kind str =
     (if str = ''HARD_PREDICATE'' \<or> str = ''hard_predicate'' then Some K_hard_predicate
      else if str = ''RANKING_SIGNAL'' \<or> str = ''ranking_signal'' then Some K_ranking_signal
      else None)"

fun role_produces_candidates :: "ParticipantRole \<Rightarrow> bool" where
  "role_produces_candidates R_candidate = True"
| "role_produces_candidates R_specialist = True"
| "role_produces_candidates R_fallback = True"
| "role_produces_candidates R_judge = False"
| "role_produces_candidates R_verifier = False"

fun role_evaluates :: "ParticipantRole \<Rightarrow> bool" where
  "role_evaluates R_judge = True"
| "role_evaluates R_verifier = True"
| "role_evaluates R_candidate = False"
| "role_evaluates R_specialist = False"
| "role_evaluates R_fallback = False"

definition role_can_be_selected :: "ParticipantRole \<Rightarrow> bool" where
  "role_can_be_selected r = role_produces_candidates r"

definition role_requires_activation :: "ParticipantRole \<Rightarrow> bool" where
  "role_requires_activation r \<longleftrightarrow> r = R_fallback"

section \<open>Role sets\<close>

type_synonym RoleSet = u32

definition role_bit :: "ParticipantRole \<Rightarrow> u32" where
  "role_bit r = push_bit (unat (role_code r) - 1) 1"

definition roles_none :: RoleSet where "roles_none = 0"
definition roles_of :: "ParticipantRole \<Rightarrow> RoleSet" where "roles_of r = role_bit r"
definition roles_insert :: "ParticipantRole \<Rightarrow> RoleSet \<Rightarrow> RoleSet" where
  "roles_insert r m = m OR role_bit r"
definition roles_erase :: "ParticipantRole \<Rightarrow> RoleSet \<Rightarrow> RoleSet" where
  "roles_erase r m = m AND NOT (role_bit r)"
definition roles_contains :: "RoleSet \<Rightarrow> ParticipantRole \<Rightarrow> bool" where
  "roles_contains m r \<longleftrightarrow> m AND role_bit r \<noteq> 0"
definition roles_contains_all :: "RoleSet \<Rightarrow> RoleSet \<Rightarrow> bool" where
  "roles_contains_all m n \<longleftrightarrow> m AND n = n"
definition roles_contains_any :: "RoleSet \<Rightarrow> RoleSet \<Rightarrow> bool" where
  "roles_contains_any m n \<longleftrightarrow> m AND n \<noteq> 0"
definition roles_intersect :: "RoleSet \<Rightarrow> RoleSet \<Rightarrow> RoleSet" where
  "roles_intersect m n = m AND n"
definition roles_merge :: "RoleSet \<Rightarrow> RoleSet \<Rightarrow> RoleSet" where
  "roles_merge m n = m OR n"
definition roles_empty :: "RoleSet \<Rightarrow> bool" where
  "roles_empty m \<longleftrightarrow> m = 0"

definition roles_size :: "RoleSet \<Rightarrow> u32" where
  "roles_size m = foldl (\<lambda>count i. if m AND push_bit i 1 \<noteq> 0 then count + 1 else count) 0 [0..<32]"

definition role_order :: "ParticipantRole list" where
  "role_order = [R_candidate, R_specialist, R_judge, R_verifier, R_fallback]"

fun roles_to_string_loop :: "RoleSet \<Rightarrow> string \<Rightarrow> ParticipantRole list \<Rightarrow> string" where
  "roles_to_string_loop m out [] = out"
| "roles_to_string_loop m out (r # rs) =
     (if \<not> roles_contains m r then roles_to_string_loop m out rs
      else roles_to_string_loop m (out @ (if out = [] then [] else ''|'') @ role_to_string r) rs)"

definition roles_to_string :: "RoleSet \<Rightarrow> string" where
  "roles_to_string m = (let out = roles_to_string_loop m [] role_order in if out = [] then ''NONE'' else out)"

record CriterionRef =
  cri_id :: u32
  cri_version :: u32

definition criterion_valid :: "CriterionRef \<Rightarrow> bool" where
  "criterion_valid c \<longleftrightarrow> cri_id c \<noteq> 0"

section \<open>The text codec contract\<close>

locale text_codec =
  fixes print :: "'a \<Rightarrow> string" and parse :: "string \<Rightarrow> 'a option"
  assumes parse_print: "parse (print x) = Some x"
begin

lemma print_inj: "print x = print y \<longleftrightarrow> x = y"
  by (metis option.inject parse_print)

lemma parse_onto: "\<exists>s. parse s = Some x"
  using parse_print by blast

end

interpretation role_codec: text_codec role_to_string parse_role
proof
  fix x show "parse_role (role_to_string x) = Some x" by (cases x) (simp_all add: parse_role_def)
qed

interpretation verification_codec: text_codec verification_to_string parse_verification_state
proof
  fix x show "parse_verification_state (verification_to_string x) = Some x"
    by (cases x) (simp_all add: parse_verification_state_def)
qed

interpretation judgment_codec: text_codec judgment_to_string parse_categorical_judgment
proof
  fix x show "parse_categorical_judgment (judgment_to_string x) = Some x"
    by (cases x) (simp_all add: parse_categorical_judgment_def)
qed

interpretation criterion_codec: text_codec criterion_kind_to_string parse_criterion_kind
proof
  fix x show "parse_criterion_kind (criterion_kind_to_string x) = Some x"
    by (cases x) (simp_all add: parse_criterion_kind_def)
qed

section \<open>Role sets as sets\<close>

text \<open>A mask denotes the set of roles it contains; the bit operations are the set operations.\<close>

definition roles_set :: "RoleSet \<Rightarrow> ParticipantRole set" where
  "roles_set m = {r. roles_contains m r}"

definition role_index :: "ParticipantRole \<Rightarrow> nat" where
  "role_index r = unat (role_code r) - 1"

lemma role_index_simps [simp]:
  "role_index R_candidate = 0" "role_index R_specialist = 1" "role_index R_judge = 2"
  "role_index R_verifier = 3" "role_index R_fallback = 4"
  by (simp_all add: role_index_def)

lemma role_index_inj: "role_index r = role_index s \<longleftrightarrow> r = s"
  by (cases r; cases s) simp_all

lemma role_index_less: "role_index r < 32"
  by (cases r) simp_all

lemma bit_role_bit: "bit (role_bit r) n \<longleftrightarrow> n = role_index r"
  using role_index_less[of r]
  by (auto simp: role_bit_def role_index_def bit_exp_iff)

lemma roles_contains_bit: "roles_contains m r \<longleftrightarrow> bit m (role_index r)"
proof -
  have "bit (m AND role_bit r) n \<longleftrightarrow> bit m (role_index r) \<and> n = role_index r" for n
    by (auto simp: bit_and_iff bit_role_bit)
  then have "m AND role_bit r = (if bit m (role_index r) then role_bit r else 0)"
    by (intro bit_word_eqI) (auto simp: bit_role_bit)
  moreover have "role_bit r \<noteq> 0" using bit_role_bit[of r "role_index r"] by auto
  ultimately show ?thesis by (simp add: roles_contains_def)
qed

lemma roles_contains_simps [simp]:
  "roles_contains (roles_insert r m) s \<longleftrightarrow> s = r \<or> roles_contains m s"
  "roles_contains (roles_erase r m) s \<longleftrightarrow> s \<noteq> r \<and> roles_contains m s"
  "roles_contains (roles_merge m n) s \<longleftrightarrow> roles_contains m s \<or> roles_contains n s"
  "roles_contains (roles_intersect m n) s \<longleftrightarrow> roles_contains m s \<and> roles_contains n s"
  "\<not> roles_contains roles_none s"
  "roles_contains (roles_of r) s \<longleftrightarrow> s = r"
  using role_index_less[of s]
  by (auto simp: roles_contains_bit roles_insert_def roles_erase_def roles_merge_def roles_of_def
      roles_intersect_def roles_none_def bit_or_iff bit_and_iff bit_not_iff bit_role_bit role_index_inj)

lemma roles_contains_all_mono: "roles_contains_all m n \<Longrightarrow> roles_contains n r \<Longrightarrow> roles_contains m r"
  by (metis roles_contains_all_def roles_contains_simps(4) roles_intersect_def)

lemma roles_set_simps:
  "roles_set (roles_insert r m) = insert r (roles_set m)"
  "roles_set (roles_erase r m) = roles_set m - {r}"
  "roles_set (roles_merge m n) = roles_set m \<union> roles_set n"
  "roles_set (roles_intersect m n) = roles_set m \<inter> roles_set n"
  by (auto simp: roles_set_def)

end
