(* ===== verification/Participants.thy ===== *)
theory Participants
  imports Roles
begin

unbundle bit_operations_syntax

text \<open>
  Participant declarations, compatibility, registrations and the authority a submission
  carries (\<^verbatim>\<open>participant.hpp\<close>, \<^verbatim>\<open>participant.cpp\<close>, \<^verbatim>\<open>authority.hpp\<close>, \<^verbatim>\<open>authority.cpp\<close>).
\<close>

datatype ParticipantStatus =
    PS_current | PS_unavailable | PS_failed | PS_fenced | PS_revalidation_required | PS_retired

fun participant_status_code :: "ParticipantStatus \<Rightarrow> u8" where
  "participant_status_code PS_current = 1"
| "participant_status_code PS_unavailable = 2"
| "participant_status_code PS_failed = 3"
| "participant_status_code PS_fenced = 4"
| "participant_status_code PS_revalidation_required = 5"
| "participant_status_code PS_retired = 6"

fun participant_status_to_string :: "ParticipantStatus \<Rightarrow> string" where
  "participant_status_to_string PS_current = ''CURRENT''"
| "participant_status_to_string PS_unavailable = ''UNAVAILABLE''"
| "participant_status_to_string PS_failed = ''FAILED''"
| "participant_status_to_string PS_fenced = ''FENCED''"
| "participant_status_to_string PS_revalidation_required = ''REVALIDATION_REQUIRED''"
| "participant_status_to_string PS_retired = ''RETIRED''"

definition parse_participant_status :: "string \<Rightarrow> ParticipantStatus option" where
  "parse_participant_status str =
     (if str = ''CURRENT'' \<or> str = ''current'' then Some PS_current
      else if str = ''UNAVAILABLE'' \<or> str = ''unavailable'' then Some PS_unavailable
      else if str = ''FAILED'' \<or> str = ''failed'' then Some PS_failed
      else if str = ''FENCED'' \<or> str = ''fenced'' then Some PS_fenced
      else if str = ''REVALIDATION_REQUIRED'' \<or> str = ''revalidation_required'' then Some PS_revalidation_required
      else if str = ''RETIRED'' \<or> str = ''retired'' then Some PS_retired
      else None)"

datatype ParticipantFailureKind =
    FK_unavailable | FK_transport_error | FK_malformed_output | FK_internal_error
    | FK_timeout_reported | FK_explicit_abort

fun failure_kind_code :: "ParticipantFailureKind \<Rightarrow> u8" where
  "failure_kind_code FK_unavailable = 1"
| "failure_kind_code FK_transport_error = 2"
| "failure_kind_code FK_malformed_output = 3"
| "failure_kind_code FK_internal_error = 4"
| "failure_kind_code FK_timeout_reported = 5"
| "failure_kind_code FK_explicit_abort = 6"

fun failure_kind_to_string :: "ParticipantFailureKind \<Rightarrow> string" where
  "failure_kind_to_string FK_unavailable = ''UNAVAILABLE''"
| "failure_kind_to_string FK_transport_error = ''TRANSPORT_ERROR''"
| "failure_kind_to_string FK_malformed_output = ''MALFORMED_OUTPUT''"
| "failure_kind_to_string FK_internal_error = ''INTERNAL_ERROR''"
| "failure_kind_to_string FK_timeout_reported = ''TIMEOUT_REPORTED''"
| "failure_kind_to_string FK_explicit_abort = ''EXPLICIT_ABORT''"

definition parse_failure_kind :: "string \<Rightarrow> ParticipantFailureKind option" where
  "parse_failure_kind str =
     (if str = ''UNAVAILABLE'' \<or> str = ''unavailable'' then Some FK_unavailable
      else if str = ''TRANSPORT_ERROR'' \<or> str = ''transport_error'' then Some FK_transport_error
      else if str = ''MALFORMED_OUTPUT'' \<or> str = ''malformed_output'' then Some FK_malformed_output
      else if str = ''INTERNAL_ERROR'' \<or> str = ''internal_error'' then Some FK_internal_error
      else if str = ''TIMEOUT_REPORTED'' \<or> str = ''timeout_reported'' then Some FK_timeout_reported
      else if str = ''EXPLICIT_ABORT'' \<or> str = ''explicit_abort'' then Some FK_explicit_abort
      else None)"

fun failure_error :: "ParticipantFailureKind \<Rightarrow> EnsembleError" where
  "failure_error FK_unavailable = E_participant_unavailable"
| "failure_error FK_transport_error = E_transport_error"
| "failure_error FK_malformed_output = E_malformed_candidate"
| "failure_error FK_internal_error = E_participant_failed"
| "failure_error FK_timeout_reported = E_participant_unavailable"
| "failure_error FK_explicit_abort = E_participant_failed"

section \<open>Compatibility\<close>

record CompatibilityProfile =
  pf_protocol_version :: u16
  pf_capability_mask :: u32
  pf_task_class :: u32
  pf_output_schema :: u32
  pf_model_family :: u32
  pf_backend_features :: u32

definition profile_default :: CompatibilityProfile where
  "profile_default = \<lparr>pf_protocol_version = 1, pf_capability_mask = 0, pf_task_class = 0,
     pf_output_schema = 0, pf_model_family = 0, pf_backend_features = 0\<rparr>"

record CompatibilityRequirement =
  rq_min_protocol_version :: u16
  rq_required_capabilities :: u32
  rq_required_task_class :: u32
  rq_required_output_schema :: u32
  rq_excluded_model_family :: u32
  rq_required_backend_features :: u32
  rq_require_model_family_diversity :: bool

definition requirement_default :: CompatibilityRequirement where
  "requirement_default = \<lparr>rq_min_protocol_version = 1, rq_required_capabilities = 0,
     rq_required_task_class = 0, rq_required_output_schema = 0, rq_excluded_model_family = 0,
     rq_required_backend_features = 0, rq_require_model_family_diversity = False\<rparr>"

definition constrains_task_class :: "CompatibilityRequirement \<Rightarrow> bool" where
  "constrains_task_class rq \<longleftrightarrow> rq_required_task_class rq \<noteq> 0"

definition check_compatibility :: "CompatibilityRequirement \<Rightarrow> CompatibilityProfile \<Rightarrow> status" where
  "check_compatibility rq pf =
     require (\<not> pf_protocol_version pf < rq_min_protocol_version rq) E_participant_incompatible (
     require (\<not> (rq_required_capabilities rq \<noteq> 0 \<and>
                 pf_capability_mask pf AND rq_required_capabilities rq \<noteq> rq_required_capabilities rq))
       E_participant_incompatible (
     require (\<not> (constrains_task_class rq \<and> pf_task_class pf \<noteq> rq_required_task_class rq))
       E_participant_incompatible (
     require (\<not> (rq_required_output_schema rq \<noteq> 0 \<and> pf_output_schema pf \<noteq> rq_required_output_schema rq))
       E_participant_incompatible (
     require (\<not> (rq_excluded_model_family rq \<noteq> 0 \<and> pf_model_family pf = rq_excluded_model_family rq))
       E_participant_incompatible (
     require (\<not> (rq_required_backend_features rq \<noteq> 0 \<and>
                 pf_backend_features pf AND rq_required_backend_features rq \<noteq> rq_required_backend_features rq))
       E_participant_incompatible
     ok_status)))))"

section \<open>Declarations and registrations\<close>

record ParticipantSpec =
  ps_id :: ParticipantId
  ps_label :: string
  ps_roles :: RoleSet
  ps_required :: bool
  ps_domain :: string
  ps_priority :: u32
  ps_execution_budget_units :: u32
  ps_selectable_override :: "bool option"
  ps_compatibility :: CompatibilityRequirement

definition participant_spec_default :: ParticipantSpec where
  "participant_spec_default = \<lparr>ps_id = 0, ps_label = [], ps_roles = roles_none, ps_required = True,
     ps_domain = [], ps_priority = 0, ps_execution_budget_units = 0, ps_selectable_override = None,
     ps_compatibility = requirement_default\<rparr>"

definition selectable :: "ParticipantSpec \<Rightarrow> bool" where
  "selectable p =
     (case ps_selectable_override p of
        Some b \<Rightarrow> b
      | None \<Rightarrow> roles_contains (ps_roles p) R_candidate \<or> roles_contains (ps_roles p) R_specialist \<or>
                roles_contains (ps_roles p) R_fallback)"

record ParticipantRegistration =
  rg_ensemble :: EnsembleId
  rg_ensemble_generation :: EnsembleGeneration
  rg_participant :: ParticipantId
  rg_worker :: WorkerId
  rg_worker_boot :: WorkerBootId
  rg_coordinator_epoch :: CoordinatorEpoch
  rg_profile :: CompatibilityProfile
  rg_claimed_roles :: RoleSet

section \<open>Authority\<close>

record ParticipantAuthority =
  pa_ensemble :: EnsembleId
  pa_ensemble_generation :: EnsembleGeneration
  pa_participant :: ParticipantId
  pa_participant_generation :: ParticipantGeneration
  pa_worker :: WorkerId
  pa_worker_boot :: WorkerBootId
  pa_coordinator_epoch :: CoordinatorEpoch

record CandidateAuthority =
  ca_participant :: ParticipantAuthority
  ca_execution :: EnsembleExecutionId
  ca_attempt_generation :: EnsembleAttemptGeneration
  ca_candidate :: CandidateId
  ca_candidate_generation :: CandidateGeneration

record EvaluationAuthority =
  ea_evaluator :: ParticipantAuthority
  ea_execution :: EnsembleExecutionId
  ea_attempt_generation :: EnsembleAttemptGeneration
  ea_evaluation :: EvaluationId
  ea_evaluation_generation :: EvaluationGeneration
  ea_candidate :: CandidateId
  ea_candidate_generation :: CandidateGeneration

record ExecutionRef =
  xr_ensemble :: EnsembleId
  xr_ensemble_generation :: EnsembleGeneration
  xr_execution :: EnsembleExecutionId
  xr_attempt_generation :: EnsembleAttemptGeneration

definition participant_authority_complete :: "ParticipantAuthority \<Rightarrow> bool" where
  "participant_authority_complete a \<longleftrightarrow>
     valid_id (pa_ensemble a) \<and> valid_id (pa_ensemble_generation a) \<and> valid_id (pa_participant a) \<and>
     valid_id (pa_participant_generation a) \<and> valid_id (pa_worker a) \<and> valid_id (pa_worker_boot a) \<and>
     valid_id (pa_coordinator_epoch a)"

definition candidate_authority_complete :: "CandidateAuthority \<Rightarrow> bool" where
  "candidate_authority_complete a \<longleftrightarrow>
     participant_authority_complete (ca_participant a) \<and> valid_id (ca_execution a) \<and>
     valid_id (ca_attempt_generation a) \<and> valid_id (ca_candidate a) \<and> valid_id (ca_candidate_generation a)"

definition evaluation_authority_complete :: "EvaluationAuthority \<Rightarrow> bool" where
  "evaluation_authority_complete a \<longleftrightarrow>
     participant_authority_complete (ea_evaluator a) \<and> valid_id (ea_execution a) \<and>
     valid_id (ea_attempt_generation a) \<and> valid_id (ea_evaluation a) \<and>
     valid_id (ea_evaluation_generation a) \<and> valid_id (ea_candidate a) \<and>
     valid_id (ea_candidate_generation a)"

definition require_complete :: "ParticipantAuthority \<Rightarrow> status" where
  "require_complete a =
     require (valid_id (pa_ensemble a)) E_invalid_identity_combination (
     require (valid_id (pa_ensemble_generation a)) E_invalid_identity_combination (
     require (valid_id (pa_participant a)) E_invalid_identity_combination (
     require (valid_id (pa_participant_generation a)) E_invalid_identity_combination (
     require (valid_id (pa_worker a)) E_invalid_identity_combination (
     require (valid_id (pa_worker_boot a)) E_invalid_identity_combination (
     require (valid_id (pa_coordinator_epoch a)) E_invalid_identity_combination
     ok_status))))))"

definition validate_participant_authority :: "ParticipantAuthority \<Rightarrow> status" where
  "validate_participant_authority a = require_complete a"

definition validate_candidate_authority :: "CandidateAuthority \<Rightarrow> status" where
  "validate_candidate_authority a =
     and_then (require_complete (ca_participant a)) (
     require (valid_id (ca_execution a)) E_invalid_identity_combination (
     require (valid_id (ca_attempt_generation a)) E_invalid_identity_combination (
     require (valid_id (ca_candidate a)) E_invalid_identity_combination (
     require (valid_id (ca_candidate_generation a)) E_invalid_identity_combination
     ok_status))))"

definition validate_evaluation_authority :: "EvaluationAuthority \<Rightarrow> status" where
  "validate_evaluation_authority a =
     and_then (require_complete (ea_evaluator a)) (
     require (valid_id (ea_execution a)) E_invalid_identity_combination (
     require (valid_id (ea_attempt_generation a)) E_invalid_identity_combination (
     require (valid_id (ea_evaluation a)) E_invalid_identity_combination (
     require (valid_id (ea_evaluation_generation a)) E_invalid_identity_combination (
     require (valid_id (ea_candidate a)) E_invalid_identity_combination (
     require (valid_id (ea_candidate_generation a)) E_invalid_identity_combination
     ok_status))))))"

definition same_actor :: "ParticipantAuthority \<Rightarrow> ParticipantAuthority \<Rightarrow> bool" where
  "same_actor l r \<longleftrightarrow>
     pa_ensemble l = pa_ensemble r \<and> pa_participant l = pa_participant r \<and>
     pa_participant_generation l = pa_participant_generation r \<and> pa_worker l = pa_worker r \<and>
     pa_worker_boot l = pa_worker_boot r \<and> pa_coordinator_epoch l = pa_coordinator_epoch r"

definition describe_participant_authority :: "ParticipantAuthority \<Rightarrow> string" where
  "describe_participant_authority a =
     ''ensemble='' @ id_to_string (pa_ensemble a) @
     '' gen='' @ id_to_string (pa_ensemble_generation a) @
     '' participant='' @ id_to_string (pa_participant a) @
     '' pgen='' @ id_to_string (pa_participant_generation a) @
     '' worker='' @ id_to_string (pa_worker a) @
     '' boot='' @ id_to_string (pa_worker_boot a) @
     '' epoch='' @ id_to_string (pa_coordinator_epoch a)"

definition describe_candidate_authority :: "CandidateAuthority \<Rightarrow> string" where
  "describe_candidate_authority a =
     describe_participant_authority (ca_participant a) @
     '' execution='' @ id_to_string (ca_execution a) @
     '' attempt='' @ id_to_string (ca_attempt_generation a) @
     '' candidate='' @ id_to_string (ca_candidate a) @
     '' cgen='' @ id_to_string (ca_candidate_generation a)"

definition describe_evaluation_authority :: "EvaluationAuthority \<Rightarrow> string" where
  "describe_evaluation_authority a =
     describe_participant_authority (ea_evaluator a) @
     '' execution='' @ id_to_string (ea_execution a) @
     '' attempt='' @ id_to_string (ea_attempt_generation a) @
     '' evaluation='' @ id_to_string (ea_evaluation a) @
     '' egen='' @ id_to_string (ea_evaluation_generation a) @
     '' candidate='' @ id_to_string (ea_candidate a) @
     '' cgen='' @ id_to_string (ea_candidate_generation a)"

section \<open>Lemmas\<close>

interpretation participant_status_codec: text_codec participant_status_to_string parse_participant_status
proof
  fix x show "parse_participant_status (participant_status_to_string x) = Some x"
    by (cases x) (simp_all add: parse_participant_status_def)
qed

interpretation failure_kind_codec: text_codec failure_kind_to_string parse_failure_kind
proof
  fix x show "parse_failure_kind (failure_kind_to_string x) = Some x"
    by (cases x) (simp_all add: parse_failure_kind_def)
qed

lemma failure_error_retryable: "is_retryable_failure (failure_error k)"
  by (cases k) (simp_all add: is_retryable_failure_def)

lemma failure_error_not_ok [simp]: "failure_error k \<noteq> E_ok"
  by (cases k) simp_all

lemma require_complete_iff: "is_ok (require_complete a) \<longleftrightarrow> participant_authority_complete a"
  by (simp add: require_complete_def participant_authority_complete_def)

lemma validate_authority_iff:
  "is_ok (validate_participant_authority a) \<longleftrightarrow> participant_authority_complete a"
  "is_ok (validate_candidate_authority c) \<longleftrightarrow> candidate_authority_complete c"
  "is_ok (validate_evaluation_authority e) \<longleftrightarrow> evaluation_authority_complete e"
  by (simp_all add: validate_participant_authority_def validate_candidate_authority_def
      validate_evaluation_authority_def candidate_authority_complete_def
      evaluation_authority_complete_def require_complete_iff)

lemma check_compatibility_default: "check_compatibility requirement_default profile_default = ok_status"
  by (simp add: check_compatibility_def requirement_default_def profile_default_def
      constrains_task_class_def require_def)

end
