(* ===== verification/Limits.thy ===== *)
theory Limits
  imports Outcome
begin

text \<open>
  The configured bounds and the overflow-checked arithmetic used before allocations that
  untrusted input drives (\<^verbatim>\<open>include/ensemble_fabric/limits.hpp\<close>, \<^verbatim>\<open>src/limits.cpp\<close>).
\<close>

record Limits =
  max_participants_per_ensemble :: u32
  max_stages_per_ensemble :: u32
  max_parallel_branches :: u32
  max_role_quota_entries :: u32
  max_queued_executions :: u32
  max_in_flight_executions :: u32
  max_candidates_per_execution :: u32
  max_evaluations_per_candidate :: u32
  max_evaluations_per_execution :: u32
  max_retries :: u32
  max_fallback_depth :: u32
  max_candidate_payload_bytes :: u32
  max_evaluation_payload_bytes :: u32
  max_metadata_bytes :: u32
  max_frame_bytes :: u32
  max_connections :: u32
  max_persistence_bytes :: u32
  max_records_per_snapshot :: u32
  max_retained_results :: u32
  max_retained_commits :: u32
  max_explanation_entries :: u32
  max_label_bytes :: u32

definition limits_defaults :: Limits where
  "limits_defaults =
     \<lparr>max_participants_per_ensemble = 64, max_stages_per_ensemble = 16, max_parallel_branches = 64,
      max_role_quota_entries = 16, max_queued_executions = 1024, max_in_flight_executions = 64,
      max_candidates_per_execution = 256, max_evaluations_per_candidate = 32,
      max_evaluations_per_execution = 4096, max_retries = 8, max_fallback_depth = 4,
      max_candidate_payload_bytes = 1048576, max_evaluation_payload_bytes = 65536,
      max_metadata_bytes = 4096, max_frame_bytes = 4194304, max_connections = 256,
      max_persistence_bytes = 33554432, max_records_per_snapshot = 4096, max_retained_results = 64,
      max_retained_commits = 256, max_explanation_entries = 256, max_label_bytes = 128\<rparr>"

definition checked_add :: "u64 \<Rightarrow> u64 \<Rightarrow> u64 \<Rightarrow> u64 option" where
  "checked_add lhs rhs limit =
     (if limit < lhs \<or> limit < rhs then None
      else let sum = lhs + rhs in if sum < lhs \<or> limit < sum then None else Some sum)"

definition checked_mul :: "u64 \<Rightarrow> u64 \<Rightarrow> u64 \<Rightarrow> u64 option" where
  "checked_mul lhs rhs limit =
     (if lhs = 0 \<or> rhs = 0 then Some 0
      else if limit < lhs \<or> limit < rhs then None
      else let product = lhs * rhs
           in if product div lhs \<noteq> rhs \<or> limit < product then None else Some product)"

definition validate_limits :: "Limits \<Rightarrow> status" where
  "validate_limits l =
     require (\<not> (max_participants_per_ensemble l = 0 \<or> max_stages_per_ensemble l = 0 \<or>
                 max_parallel_branches l = 0 \<or> max_role_quota_entries l = 0)) E_invalid_argument (
     require (max_in_flight_executions l \<noteq> 0) E_invalid_argument (
     require (\<not> (max_candidates_per_execution l = 0 \<or> max_evaluations_per_candidate l = 0 \<or>
                 max_evaluations_per_execution l = 0)) E_invalid_argument (
     require (\<not> (max_candidate_payload_bytes l = 0 \<or> max_evaluation_payload_bytes l = 0))
       E_invalid_argument (
     require (\<not> max_frame_bytes l < 128) E_invalid_argument (
     require (\<not> max_frame_bytes l < max_candidate_payload_bytes l) E_invalid_argument (
     require (\<not> (max_metadata_bytes l = 0 \<or> max_label_bytes l = 0)) E_invalid_argument (
     require (\<not> (max_records_per_snapshot l = 0 \<or> max_retained_results l = 0)) E_invalid_argument (
     require (\<not> max_persistence_bytes l < 256) E_invalid_argument (
     require (\<not> 4294967295 div 2 < max_evaluations_per_candidate l) E_invalid_argument
     ok_status)))))))))"

lemma validate_limits_defaults [simp]: "validate_limits limits_defaults = ok_status"
  by (simp add: validate_limits_def limits_defaults_def require_def)

lemma checked_add_iff:
  "checked_add lhs rhs limit = Some s \<longleftrightarrow> unat lhs + unat rhs \<le> unat limit \<and> s = lhs + rhs"
proof -
  have l: "unat limit < 2 ^ 64" "unat lhs < 2 ^ 64" "unat rhs < 2 ^ 64" by (rule unat_less_64)+
  show ?thesis
  proof (cases "unat lhs + unat rhs < 2 ^ 64")
    case True
    then have "unat (lhs + rhs) = unat lhs + unat rhs" by (simp add: unat_plus_if')
    then show ?thesis by (auto simp: checked_add_def Let_def word_less_nat_alt)
  next
    case False
    then have "unat (lhs + rhs) = unat lhs + unat rhs - 2 ^ 64" by (simp add: unat_plus_if')
    with False l have "lhs + rhs < lhs" by (simp add: word_less_nat_alt)
    with False l show ?thesis by (auto simp: checked_add_def Let_def word_less_nat_alt)
  qed
qed

lemma checked_mul_iff:
  "checked_mul lhs rhs limit = Some p \<longleftrightarrow>
     unat p = unat lhs * unat rhs \<and> (unat lhs * unat rhs \<le> unat limit)"
proof (cases "lhs = 0 \<or> rhs = 0")
  case True
  then show ?thesis by (auto simp: checked_mul_def unat_eq_0)
next
  case False
  then have nz: "0 < unat lhs" "0 < unat rhs" by (auto simp: unat_gt_0)
  have l: "unat limit < 2 ^ 64" "unat p < 2 ^ 64" by (rule unat_less_64)+
  have m: "unat (lhs * rhs) = unat lhs * unat rhs mod 2 ^ 64" by (simp add: unat_word_ariths)
  show ?thesis
  proof (cases "unat lhs * unat rhs < 2 ^ 64")
    case True
    then have e: "unat (lhs * rhs) = unat lhs * unat rhs" using m by simp
    then have "unat (lhs * rhs div lhs) = unat rhs" using nz by (simp add: unat_div)
    then have "lhs * rhs div lhs = rhs" by (simp add: word_unat_eq_iff)
    moreover have "unat lhs \<le> unat lhs * unat rhs" "unat rhs \<le> unat lhs * unat rhs" using nz by auto
    then have "unat limit < unat lhs * unat rhs" if "limit < lhs \<or> limit < rhs"
      using that by (auto simp: word_less_nat_alt intro: less_le_trans)
    ultimately have "checked_mul lhs rhs limit = (if unat limit < unat lhs * unat rhs then None else Some (lhs * rhs))"
      using False e by (auto simp: checked_mul_def Let_def word_less_nat_alt[of limit "lhs * rhs"])
    moreover have "lhs * rhs = p \<longleftrightarrow> unat p = unat lhs * unat rhs" using e by (metis word_unat_eq_iff)
    ultimately show ?thesis by (simp add: not_less)
  next
    case big: False
    have "unat (lhs * rhs div lhs) \<noteq> unat rhs"
    proof
      assume "unat (lhs * rhs div lhs) = unat rhs"
      then have "unat lhs * unat rhs \<le> unat (lhs * rhs)"
        using times_div_less_eq_dividend[of "unat lhs" "unat (lhs * rhs)"] by (simp add: unat_div)
      moreover have "unat (lhs * rhs) < 2 ^ 64" by (rule unat_less_64)
      ultimately show False using big by linarith
    qed
    then have "checked_mul lhs rhs limit = None" using False by (auto simp: checked_mul_def Let_def)
    moreover have "\<not> unat lhs * unat rhs \<le> unat limit" using big l by linarith
    ultimately show ?thesis by simp
  qed
qed

end
