(* ===== verification/Doubles.thy ===== *)
theory Doubles
  imports Text
begin

text \<open>
  IEEE 754 binary64, the C++ \<^verbatim>\<open>double\<close>, as its 64-bit pattern. Comparison uses the order
  of sign-magnitude integers, which is the order of the numbers where neither operand is a
  NaN. Addition, multiplication and division compute the exact result as an integer times a
  power of two and round it once, to nearest with ties to even. An invalid operation gives
  the quiet NaN; its sign and payload, which IEEE 754 leaves open, are fixed here.
\<close>

type_synonym double = u64

definition d_sign :: "double \<Rightarrow> bool" where
  "d_sign x \<longleftrightarrow> 2 ^ 63 \<le> uint x"

definition d_mag :: "double \<Rightarrow> int" where
  "d_mag x = uint x mod 2 ^ 63"

definition d_exp :: "double \<Rightarrow> int" where
  "d_exp x = d_mag x div 2 ^ 52"

definition d_frac :: "double \<Rightarrow> int" where
  "d_frac x = d_mag x mod 2 ^ 52"

definition d_isnan :: "double \<Rightarrow> bool" where
  "d_isnan x \<longleftrightarrow> d_exp x = 2047 \<and> d_frac x \<noteq> 0"

definition d_isinf :: "double \<Rightarrow> bool" where
  "d_isinf x \<longleftrightarrow> d_exp x = 2047 \<and> d_frac x = 0"

definition d_isfinite :: "double \<Rightarrow> bool" where
  "d_isfinite x \<longleftrightarrow> d_exp x \<noteq> 2047"

definition d_key :: "double \<Rightarrow> int" where
  "d_key x = (if d_sign x then - d_mag x else d_mag x)"

definition d_less :: "double \<Rightarrow> double \<Rightarrow> bool" where
  "d_less x y \<longleftrightarrow> \<not> d_isnan x \<and> \<not> d_isnan y \<and> d_key x < d_key y"

definition d_eq :: "double \<Rightarrow> double \<Rightarrow> bool" where
  "d_eq x y \<longleftrightarrow> \<not> d_isnan x \<and> \<not> d_isnan y \<and> d_key x = d_key y"

definition d_le :: "double \<Rightarrow> double \<Rightarrow> bool" where
  "d_le x y \<longleftrightarrow> \<not> d_isnan x \<and> \<not> d_isnan y \<and> d_key x \<le> d_key y"

definition d_zero :: double where "d_zero = 0"
definition d_one :: double where "d_one = 0x3FF0000000000000"
definition d_two :: double where "d_two = 0x4000000000000000"
definition d_half :: double where "d_half = 0x3FE0000000000000"
definition d_nan :: double where "d_nan = 0x7FF8000000000000"

definition d_inf :: "bool \<Rightarrow> double" where
  "d_inf s = (if s then 0xFFF0000000000000 else 0x7FF0000000000000)"

section \<open>Rounding\<close>

function bit_length :: "int \<Rightarrow> int" where
  "bit_length n = (if n \<le> 0 then 0 else 1 + bit_length (n div 2))"
  by pat_completeness auto
termination by (relation "measure nat") auto

declare bit_length.simps [simp del]

text \<open>\<open>round_shift m sh\<close> is \<open>m / 2^sh\<close> rounded to the nearest integer, ties to even.\<close>

definition round_shift :: "int \<Rightarrow> nat \<Rightarrow> int" where
  "round_shift m sh =
     (let quo = m div 2 ^ sh; rem = m mod 2 ^ sh
      in if 2 ^ sh < 2 * rem \<or> (2 * rem = 2 ^ sh \<and> odd quo) then quo + 1 else quo)"

text \<open>The double nearest to \<open>(-1)^s * m * 2^e\<close>, ties to even.\<close>

definition d_round :: "bool \<Rightarrow> int \<Rightarrow> int \<Rightarrow> double" where
  "d_round s m e =
     (if m = 0 then (if s then 2 ^ 63 else 0)
      else let q = max (e + bit_length m - 53) (- 1074);
               r = (if q \<le> e then m * 2 ^ nat (e - q) else round_shift m (nat (q - e)));
               bits = (q + 1074) * 2 ^ 52 + r
           in if 2047 * 2 ^ 52 \<le> bits then d_inf s
              else word_of_int bits + (if s then 2 ^ 63 else 0))"

definition d_sig :: "double \<Rightarrow> int" where
  "d_sig x = (if d_exp x = 0 then d_frac x else d_frac x + 2 ^ 52)"

definition d_scale :: "double \<Rightarrow> int" where
  "d_scale x = (if d_exp x = 0 then - 1074 else d_exp x - 1075)"

definition d_signed_sig :: "double \<Rightarrow> int \<Rightarrow> int" where
  "d_signed_sig x e = (if d_sign x then - 1 else 1) * d_sig x * 2 ^ nat (d_scale x - e)"

definition d_add :: "double \<Rightarrow> double \<Rightarrow> double" where
  "d_add x y =
     (if d_isnan x \<or> d_isnan y then d_nan
      else if d_isinf x then (if d_isinf y \<and> d_sign x \<noteq> d_sign y then d_nan else x)
      else if d_isinf y then y
      else let e = min (d_scale x) (d_scale y); t = d_signed_sig x e + d_signed_sig y e
           in if t = 0 then (if d_sign x \<and> d_sign y then 2 ^ 63 else 0)
              else d_round (t < 0) \<bar>t\<bar> e)"

definition d_mul :: "double \<Rightarrow> double \<Rightarrow> double" where
  "d_mul x y =
     (let s = (d_sign x \<noteq> d_sign y)
      in if d_isnan x \<or> d_isnan y then d_nan
         else if d_isinf x \<or> d_isinf y
         then (if (d_isfinite x \<and> d_sig x = 0) \<or> (d_isfinite y \<and> d_sig y = 0) then d_nan else d_inf s)
         else d_round s (d_sig x * d_sig y) (d_scale x + d_scale y))"

text \<open>
  The quotient is computed with at least 57 significant bits and a sticky bit, which is
  enough for one correct rounding at any of the 53 or fewer bits kept.
\<close>

definition d_div :: "double \<Rightarrow> double \<Rightarrow> double" where
  "d_div x y =
     (let s = (d_sign x \<noteq> d_sign y)
      in if d_isnan x \<or> d_isnan y then d_nan
         else if d_isinf x then (if d_isinf y then d_nan else d_inf s)
         else if d_isinf y then (if s then 2 ^ 63 else 0)
         else if d_sig y = 0 then (if d_sig x = 0 then d_nan else d_inf s)
         else let n = d_sig x * 2 ^ 110; quo = n div d_sig y; sticky = (if n mod d_sig y = 0 then 0 else 1)
              in d_round s (2 * quo + sticky) (d_scale x - d_scale y - 111))"

definition d_of_u32 :: "u32 \<Rightarrow> double" where
  "d_of_u32 w = d_round False (uint w) 0"

text \<open>Conversion to an unsigned integer truncates; it is used on vote counts only.\<close>

definition d_to_u32 :: "double \<Rightarrow> u32" where
  "d_to_u32 x =
     word_of_int (if 0 \<le> d_scale x then d_sig x * 2 ^ nat (d_scale x) else d_sig x div 2 ^ nat (- d_scale x))"

text \<open>\<^verbatim>\<open>std::min\<close> and \<^verbatim>\<open>std::max\<close> return the first argument unless the second is strictly better.\<close>

definition d_min :: "double \<Rightarrow> double \<Rightarrow> double" where
  "d_min a b = (if d_less b a then b else a)"

definition d_max :: "double \<Rightarrow> double \<Rightarrow> double" where
  "d_max a b = (if d_less a b then b else a)"

definition fnv1a64_double :: "u64 \<Rightarrow> double \<Rightarrow> u64" where
  "fnv1a64_double seed v = fnv1a64_u64 seed v"

text \<open>
  \<^verbatim>\<open>format_double\<close> prints with \<^verbatim>\<open>%.6f\<close> into a buffer of 64 bytes and then builds a string of
  \<^verbatim>\<open>written\<close> bytes, where \<^verbatim>\<open>written\<close> is the length the untruncated text would have. A read
  past the buffer is \<open>None\<close>.
\<close>

definition pad6 :: "nat \<Rightarrow> string" where
  "pad6 n = (let s = dec_string n in replicate (6 - length s) (CHR ''0'') @ s)"

definition fixed6_text :: "double \<Rightarrow> string" where
  "fixed6_text x =
     (let sgn = (if d_sign x then ''-'' else [])
      in if d_isnan x then sgn @ ''nan'' else if d_isinf x then sgn @ ''inf''
         else let m = d_sig x * 10 ^ 6; e = d_scale x;
                  n = nat (if 0 \<le> e then m * 2 ^ nat e else round_shift m (nat (- e)))
              in sgn @ dec_string (n div 10 ^ 6) @ ''.'' @ pad6 (n mod 10 ^ 6))"

definition format_double :: "double \<Rightarrow> string option" where
  "format_double x =
     (let full = fixed6_text x in if length full < 64 then Some full
      else if length full = 64 then Some (take 63 full @ [CHR 0x00]) else None)"

section \<open>The order of the doubles\<close>

lemma d_less_asym: "d_less x y \<Longrightarrow> \<not> d_less y x"
  by (simp add: d_less_def)

lemma d_less_trans: "d_less x y \<Longrightarrow> d_less y z \<Longrightarrow> d_less x z"
  by (simp add: d_less_def)

lemma d_less_total: "\<not> d_isnan x \<Longrightarrow> \<not> d_isnan y \<Longrightarrow> d_less x y \<or> d_eq x y \<or> d_less y x"
  by (auto simp: d_less_def d_eq_def)

lemma d_eq_sym: "d_eq x y \<Longrightarrow> d_eq y x"
  by (simp add: d_eq_def)

lemma d_eq_trans: "d_eq x y \<Longrightarrow> d_eq y z \<Longrightarrow> d_eq x z"
  by (simp add: d_eq_def)

lemma d_eq_refl: "\<not> d_isnan x \<Longrightarrow> d_eq x x"
  by (simp add: d_eq_def)

lemma d_eq_less_trans: "d_eq x y \<Longrightarrow> d_less y z \<Longrightarrow> d_less x z"
  by (simp add: d_eq_def d_less_def)

lemma d_less_eq_trans: "d_less x y \<Longrightarrow> d_eq y z \<Longrightarrow> d_less x z"
  by (simp add: d_eq_def d_less_def)

lemma d_less_not_eq: "d_less x y \<Longrightarrow> \<not> d_eq x y"
  by (simp add: d_eq_def d_less_def)

lemma d_isnan_nan: "d_isnan d_nan"
  by (simp add: d_isnan_def d_exp_def d_frac_def d_mag_def d_nan_def)

lemma d_finite_not_nan: "d_isfinite x \<Longrightarrow> \<not> d_isnan x"
  by (simp add: d_isfinite_def d_isnan_def)

lemma not_nan_inf: "\<not> d_isnan (d_inf s)"
  by (simp add: d_isnan_def d_exp_def d_frac_def d_mag_def d_inf_def)

lemma not_nan_constants:
  "\<not> d_isnan d_zero" "\<not> d_isnan d_one" "\<not> d_isnan d_two" "\<not> d_isnan d_half"
  by (simp_all add: d_isnan_def d_exp_def d_frac_def d_mag_def d_zero_def d_one_def d_two_def d_half_def)

lemma d_mag_signed:
  assumes "0 \<le> b" and "b < 2 ^ 63"
  shows "d_mag (word_of_int b + (if s then 2 ^ 63 else 0)) = b"
proof -
  have "uint (word_of_int b :: u64) = b" using assms by (simp add: uint_word_of_int)
  then show ?thesis using assms by (cases s) (auto simp: d_mag_def uint_plus_if')
qed

text \<open>Rounding a finite value never gives a NaN: it overflows to an infinity.\<close>

lemma round_shift_nonneg: "0 \<le> m \<Longrightarrow> 0 \<le> round_shift m sh"
  by (simp add: round_shift_def Let_def pos_imp_zdiv_nonneg_iff)

lemma d_round_not_nan: "0 \<le> m \<Longrightarrow> \<not> d_isnan (d_round s m e)"
proof (cases "m = 0 \<or> d_round s m e = d_inf s")
  case True
  then show ?thesis
    by (auto simp: not_nan_inf) (simp add: d_round_def d_isnan_def d_exp_def d_frac_def d_mag_def)
next
  case False
  assume m: "0 \<le> m"
  define q where "q = max (e + bit_length m - 53) (- 1074)"
  define r where "r = (if q \<le> e then m * 2 ^ nat (e - q) else round_shift m (nat (q - e)))"
  define b where "b = (q + 1074) * 2 ^ 52 + r"
  from m have "0 \<le> r" "0 \<le> q + 1074" by (auto simp: r_def q_def round_shift_nonneg)
  then have "0 \<le> b" by (simp add: b_def)
  moreover have "b < 2047 * 2 ^ 52" "d_round s m e = word_of_int b + (if s then 2 ^ 63 else 0)"
    using False unfolding d_round_def Let_def b_def r_def q_def by (auto split: if_splits)
  ultimately have "d_mag (d_round s m e) = b" by (simp add: d_mag_signed)
  moreover have "b div 2 ^ 52 < 2047" using \<open>b < 2047 * 2 ^ 52\<close> by (simp add: div_less_iff_less_mult)
  ultimately show ?thesis by (simp add: d_isnan_def d_exp_def)
qed

lemma d_of_u32_not_nan: "\<not> d_isnan (d_of_u32 w)"
  by (simp add: d_of_u32_def d_round_not_nan)

end
