(* ===== verification/Specs.thy ===== *)
theory Specs
  imports Participants Limits Doubles
begin

unbundle bit_operations_syntax

text \<open>
  The ensemble specification, its validation and its digest (\<^verbatim>\<open>spec.hpp\<close>, \<^verbatim>\<open>spec.cpp\<close>).
  Enumerators outside their range cannot be expressed by the datatypes, so the range checks
  of \<^verbatim>\<open>validate_spec\<close> on arbitration factors and triggers have no counterpart.
\<close>

definition unbounded :: u32 where "unbounded = 0xFFFFFFFF"

datatype TopologyMode =
    TM_parallel | TM_sequential

fun topology_code :: "TopologyMode \<Rightarrow> u8" where
  "topology_code TM_parallel = 1"
| "topology_code TM_sequential = 2"

fun topology_to_string :: "TopologyMode \<Rightarrow> string" where
  "topology_to_string TM_parallel = ''PARALLEL''"
| "topology_to_string TM_sequential = ''SEQUENTIAL''"

datatype VoteBasis =
    VB_declared_participants | VB_authoritative_participants | VB_contributing_participants
    | VB_required_participants | VB_eligible_participants

fun vote_basis_code :: "VoteBasis \<Rightarrow> u8" where
  "vote_basis_code VB_declared_participants = 1"
| "vote_basis_code VB_authoritative_participants = 2"
| "vote_basis_code VB_contributing_participants = 3"
| "vote_basis_code VB_required_participants = 4"
| "vote_basis_code VB_eligible_participants = 5"

fun vote_basis_to_string :: "VoteBasis \<Rightarrow> string" where
  "vote_basis_to_string VB_declared_participants = ''DECLARED_PARTICIPANTS''"
| "vote_basis_to_string VB_authoritative_participants = ''AUTHORITATIVE_PARTICIPANTS''"
| "vote_basis_to_string VB_contributing_participants = ''CONTRIBUTING_PARTICIPANTS''"
| "vote_basis_to_string VB_required_participants = ''REQUIRED_PARTICIPANTS''"
| "vote_basis_to_string VB_eligible_participants = ''ELIGIBLE_PARTICIPANTS''"

datatype AggregationKind =
    AK_best_of_n | AK_quorum_vote | AK_weighted_vote | AK_consensus_threshold
    | AK_judge_arbitration | AK_verifier_gated

fun aggregation_kind_code :: "AggregationKind \<Rightarrow> u8" where
  "aggregation_kind_code AK_best_of_n = 1"
| "aggregation_kind_code AK_quorum_vote = 2"
| "aggregation_kind_code AK_weighted_vote = 3"
| "aggregation_kind_code AK_consensus_threshold = 4"
| "aggregation_kind_code AK_judge_arbitration = 5"
| "aggregation_kind_code AK_verifier_gated = 6"

fun aggregation_kind_to_string :: "AggregationKind \<Rightarrow> string" where
  "aggregation_kind_to_string AK_best_of_n = ''BEST_OF_N''"
| "aggregation_kind_to_string AK_quorum_vote = ''QUORUM_VOTE''"
| "aggregation_kind_to_string AK_weighted_vote = ''WEIGHTED_VOTE''"
| "aggregation_kind_to_string AK_consensus_threshold = ''CONSENSUS_THRESHOLD''"
| "aggregation_kind_to_string AK_judge_arbitration = ''JUDGE_ARBITRATION''"
| "aggregation_kind_to_string AK_verifier_gated = ''VERIFIER_GATED''"

datatype ArbitrationFactor =
    AF_judge_acceptance_ratio | AF_verifier_state | AF_vote_count | AF_weighted_vote
    | AF_aggregate_score | AF_min_score | AF_confidence | AF_participant_priority
    | AF_specialist_relevance | AF_execution_cost | AF_latency | AF_provenance_quality
    | AF_fallback_status

fun factor_code :: "ArbitrationFactor \<Rightarrow> u8" where
  "factor_code AF_judge_acceptance_ratio = 1"
| "factor_code AF_verifier_state = 2"
| "factor_code AF_vote_count = 3"
| "factor_code AF_weighted_vote = 4"
| "factor_code AF_aggregate_score = 5"
| "factor_code AF_min_score = 6"
| "factor_code AF_confidence = 7"
| "factor_code AF_participant_priority = 8"
| "factor_code AF_specialist_relevance = 9"
| "factor_code AF_execution_cost = 10"
| "factor_code AF_latency = 11"
| "factor_code AF_provenance_quality = 12"
| "factor_code AF_fallback_status = 13"

fun factor_to_string :: "ArbitrationFactor \<Rightarrow> string" where
  "factor_to_string AF_judge_acceptance_ratio = ''judge_acceptance_ratio''"
| "factor_to_string AF_verifier_state = ''verifier_state''"
| "factor_to_string AF_vote_count = ''vote_count''"
| "factor_to_string AF_weighted_vote = ''weighted_vote''"
| "factor_to_string AF_aggregate_score = ''aggregate_score''"
| "factor_to_string AF_min_score = ''min_score''"
| "factor_to_string AF_confidence = ''confidence''"
| "factor_to_string AF_participant_priority = ''participant_priority''"
| "factor_to_string AF_specialist_relevance = ''specialist_relevance''"
| "factor_to_string AF_execution_cost = ''execution_cost''"
| "factor_to_string AF_latency = ''latency''"
| "factor_to_string AF_provenance_quality = ''provenance_quality''"
| "factor_to_string AF_fallback_status = ''fallback_status''"

datatype TieBreakPolicy =
    TB_report_tie | TB_lowest_candidate_id | TB_highest_score_then_id
    | TB_prefer_required_participant

fun tie_break_code :: "TieBreakPolicy \<Rightarrow> u8" where
  "tie_break_code TB_report_tie = 1"
| "tie_break_code TB_lowest_candidate_id = 2"
| "tie_break_code TB_highest_score_then_id = 3"
| "tie_break_code TB_prefer_required_participant = 4"

fun tie_break_to_string :: "TieBreakPolicy \<Rightarrow> string" where
  "tie_break_to_string TB_report_tie = ''REPORT_TIE''"
| "tie_break_to_string TB_lowest_candidate_id = ''LOWEST_CANDIDATE_ID''"
| "tie_break_to_string TB_highest_score_then_id = ''HIGHEST_SCORE_THEN_ID''"
| "tie_break_to_string TB_prefer_required_participant = ''PREFER_REQUIRED_PARTICIPANT''"

datatype FallbackTrigger =
    FT_participant_unavailable | FT_retry_exhausted | FT_quorum_impossible
    | FT_required_role_unavailable | FT_all_primary_invalid | FT_judge_disagreement
    | FT_insufficient_evidence | FT_required_participant_failed

fun trigger_code :: "FallbackTrigger \<Rightarrow> u8" where
  "trigger_code FT_participant_unavailable = 1"
| "trigger_code FT_retry_exhausted = 2"
| "trigger_code FT_quorum_impossible = 3"
| "trigger_code FT_required_role_unavailable = 4"
| "trigger_code FT_all_primary_invalid = 5"
| "trigger_code FT_judge_disagreement = 6"
| "trigger_code FT_insufficient_evidence = 7"
| "trigger_code FT_required_participant_failed = 8"

fun trigger_to_string :: "FallbackTrigger \<Rightarrow> string" where
  "trigger_to_string FT_participant_unavailable = ''PARTICIPANT_UNAVAILABLE''"
| "trigger_to_string FT_retry_exhausted = ''RETRY_EXHAUSTED''"
| "trigger_to_string FT_quorum_impossible = ''QUORUM_IMPOSSIBLE''"
| "trigger_to_string FT_required_role_unavailable = ''REQUIRED_ROLE_UNAVAILABLE''"
| "trigger_to_string FT_all_primary_invalid = ''ALL_PRIMARY_INVALID''"
| "trigger_to_string FT_judge_disagreement = ''JUDGE_DISAGREEMENT''"
| "trigger_to_string FT_insufficient_evidence = ''INSUFFICIENT_EVIDENCE''"
| "trigger_to_string FT_required_participant_failed = ''REQUIRED_PARTICIPANT_FAILED''"

section \<open>Policies\<close>

record StageSpec =
  st_id :: StageId
  st_label :: string
  st_mode :: TopologyMode
  st_participants :: "ParticipantId list"
  st_required_domains :: "string list"
  st_fallback_stage :: bool

record RoleQuota =
  q_role :: ParticipantRole
  q_min_count :: u32

record QuorumPolicy =
  qp_min_participants :: u32
  qp_role_quota :: "RoleQuota list"
  qp_min_evaluations :: u32
  qp_min_valid_candidates :: u32
  qp_consensus_threshold_percent :: u32
  qp_vote_basis :: VoteBasis
  qp_count_abstentions :: bool
  qp_count_optional_participants :: bool
  qp_count_failed_in_denominator :: bool
  qp_count_unavailable_in_denominator :: bool
  qp_max_failures :: u32
  qp_max_abstentions :: u32

record AggregationPolicy =
  ag_kind :: AggregationKind
  ag_use_weights :: bool
  ag_require_verification_pass :: bool
  ag_require_judge_acceptance :: bool
  ag_min_aggregate_score :: double
  ag_min_judge_acceptance_ratio :: double

record ArbitrationPolicy =
  ab_factors :: "ArbitrationFactor list"
  ab_tie_break :: TieBreakPolicy
  ab_require_unique_winner :: bool
  ab_max_selected :: u32

record FallbackPolicy =
  fb_enabled :: bool
  fb_triggers :: "FallbackTrigger list"
  fb_fallback_participants :: "ParticipantId list"
  fb_eager_speculative :: bool
  fb_max_depth :: u32

record CompletionPolicy =
  cp_require_consensus :: bool
  cp_require_all_required_participants :: bool
  cp_allow_partial_results :: bool

record RetryPolicy =
  rt_max_attempts :: u32
  rt_retry_on_unavailable :: bool
  rt_retry_on_transport_error :: bool
  rt_retry_on_malformed_candidate :: bool
  rt_retry_on_participant_failed :: bool
  rt_replace_participant :: bool
  rt_rerun_evaluations :: bool

record CancellationPolicy =
  cn_cancel_on_required_failure :: bool
  cn_cancel_on_quorum_impossible :: bool
  cn_preserve_committed_results :: bool

record EvidenceRequirement =
  ev_min_candidate_payload_bytes :: u32
  ev_min_evaluations_per_candidate :: u32
  ev_require_rationale :: bool
  ev_mandatory_criteria :: "CriterionRef list"
  ev_unknown_verification_is_failure :: bool
  ev_abstention_is_failure :: bool

record EnsembleSpec =
  sp_id :: EnsembleId
  sp_generation :: EnsembleGeneration
  sp_label :: string
  sp_task_class :: string
  sp_task_class_id :: u32
  sp_participants :: "ParticipantSpec list"
  sp_stages :: "StageSpec list"
  sp_quorum :: QuorumPolicy
  sp_aggregation :: AggregationPolicy
  sp_arbitration :: ArbitrationPolicy
  sp_fallback :: FallbackPolicy
  sp_completion :: CompletionPolicy
  sp_retry :: RetryPolicy
  sp_cancellation :: CancellationPolicy
  sp_evidence :: EvidenceRequirement
  sp_judging_criteria :: "CriterionRef list"
  sp_requirements :: CompatibilityRequirement
  sp_overall_budget_units :: u32
  sp_deterministic_seed :: u64
  sp_fingerprint :: u64

text \<open>The default member initialisers of the policy structures.\<close>

definition quorum_policy_default :: QuorumPolicy where
  "quorum_policy_default = \<lparr>qp_min_participants = 0, qp_role_quota = [], qp_min_evaluations = 0,
     qp_min_valid_candidates = 1, qp_consensus_threshold_percent = 0,
     qp_vote_basis = VB_authoritative_participants, qp_count_abstentions = False,
     qp_count_optional_participants = True, qp_count_failed_in_denominator = False,
     qp_count_unavailable_in_denominator = False, qp_max_failures = unbounded,
     qp_max_abstentions = unbounded\<rparr>"

definition spec_default :: EnsembleSpec where
  "spec_default = \<lparr>sp_id = 0, sp_generation = 0, sp_label = [], sp_task_class = [], sp_task_class_id = 0,
     sp_participants = [], sp_stages = [], sp_quorum = quorum_policy_default,
     sp_aggregation = \<lparr>ag_kind = AK_best_of_n, ag_use_weights = False,
       ag_require_verification_pass = False, ag_require_judge_acceptance = False,
       ag_min_aggregate_score = 0, ag_min_judge_acceptance_ratio = 0\<rparr>,
     sp_arbitration = \<lparr>ab_factors = [], ab_tie_break = TB_lowest_candidate_id,
       ab_require_unique_winner = False, ab_max_selected = 1\<rparr>,
     sp_fallback = \<lparr>fb_enabled = False, fb_triggers = [], fb_fallback_participants = [],
       fb_eager_speculative = False, fb_max_depth = 1\<rparr>,
     sp_completion = \<lparr>cp_require_consensus = False, cp_require_all_required_participants = False,
       cp_allow_partial_results = True\<rparr>,
     sp_retry = \<lparr>rt_max_attempts = 1, rt_retry_on_unavailable = True,
       rt_retry_on_transport_error = False, rt_retry_on_malformed_candidate = False,
       rt_retry_on_participant_failed = False, rt_replace_participant = False,
       rt_rerun_evaluations = True\<rparr>,
     sp_cancellation = \<lparr>cn_cancel_on_required_failure = False,
       cn_cancel_on_quorum_impossible = False, cn_preserve_committed_results = True\<rparr>,
     sp_evidence = \<lparr>ev_min_candidate_payload_bytes = 0, ev_min_evaluations_per_candidate = 0,
       ev_require_rationale = False, ev_mandatory_criteria = [],
       ev_unknown_verification_is_failure = True, ev_abstention_is_failure = False\<rparr>,
     sp_judging_criteria = [], sp_requirements = requirement_default, sp_overall_budget_units = 0,
     sp_deterministic_seed = 0, sp_fingerprint = 0\<rparr>"

definition find_spec_participant :: "EnsembleSpec \<Rightarrow> ParticipantId \<Rightarrow> ParticipantSpec option" where
  "find_spec_participant spec i = find (\<lambda>p. ps_id p = i) (sp_participants spec)"

definition declared_roles :: "EnsembleSpec \<Rightarrow> RoleSet" where
  "declared_roles spec = foldl (\<lambda>roles p. roles_merge roles (ps_roles p)) roles_none (sp_participants spec)"

section \<open>Validation\<close>

definition check_bounded :: "string \<Rightarrow> nat \<Rightarrow> status" where
  "check_bounded str max_bytes = require (is_bounded_ascii str max_bytes) E_invalid_argument ok_status"

definition holds_producing_role :: "ParticipantSpec \<Rightarrow> bool" where
  "holds_producing_role p \<longleftrightarrow>
     list_ex (roles_contains (ps_roles p)) [R_candidate, R_specialist, R_fallback]"

fun validate_participants :: "Limits \<Rightarrow> ParticipantId list \<Rightarrow> ParticipantSpec list \<Rightarrow> status" where
  "validate_participants l seen [] = ok_status"
| "validate_participants l seen (p # ps) =
     require (valid_id (ps_id p)) E_invalid_argument (
     require (ps_id p \<notin> set seen) E_participant_duplicate (
     require (\<not> roles_empty (ps_roles p)) E_invalid_argument (
     and_then (check_bounded (ps_label p) (unat (max_label_bytes l))) (
     and_then (check_bounded (ps_domain p) (unat (max_metadata_bytes l))) (
     require (rq_min_protocol_version (ps_compatibility p) \<noteq> 0) E_invalid_argument (
     validate_participants l (ps_id p # seen) ps))))))"

definition validate_stage_participant :: "EnsembleSpec \<Rightarrow> ParticipantId \<Rightarrow> status" where
  "validate_stage_participant spec i =
     (case find_spec_participant spec i of
        None \<Rightarrow> fail E_invalid_argument
      | Some p \<Rightarrow> require (holds_producing_role p) E_invalid_argument ok_status)"

definition validate_stage_domain :: "EnsembleSpec \<Rightarrow> Limits \<Rightarrow> StageSpec \<Rightarrow> string \<Rightarrow> status" where
  "validate_stage_domain spec l stage domain =
     and_then (check_bounded domain (unat (max_metadata_bytes l))) (
     require (list_ex (\<lambda>i. case find_spec_participant spec i of
                             None \<Rightarrow> False | Some p \<Rightarrow> ps_domain p = domain) (st_participants stage))
       E_invalid_argument ok_status)"

fun validate_stages :: "EnsembleSpec \<Rightarrow> Limits \<Rightarrow> StageId list \<Rightarrow> StageSpec list \<Rightarrow> status" where
  "validate_stages spec l seen [] = ok_status"
| "validate_stages spec l seen (stage # stages) =
     require (valid_id (st_id stage)) E_invalid_argument (
     require (st_id stage \<notin> set seen) E_invalid_argument (
     require (st_participants stage \<noteq> []) E_invalid_argument (
     require (length (st_participants stage) \<le> unat (max_parallel_branches l)) E_resource_limit_exceeded (
     and_then (for_all_status (validate_stage_participant spec) (st_participants stage)) (
     and_then (for_all_status (validate_stage_domain spec l stage) (st_required_domains stage)) (
     validate_stages spec l (st_id stage # seen) stages))))))"

fun validate_quotas :: "RoleSet \<Rightarrow> RoleQuota list \<Rightarrow> status" where
  "validate_quotas all_roles [] = ok_status"
| "validate_quotas all_roles (q # qs) =
     require (q_min_count q \<noteq> 0) E_invalid_argument (
     require (roles_contains all_roles (q_role q)) E_invalid_argument (
     require (list_all (\<lambda>o'. q_role o' \<noteq> q_role q) qs) E_invalid_argument (
     validate_quotas all_roles qs)))"

definition validate_fallback :: "EnsembleSpec \<Rightarrow> Limits \<Rightarrow> status" where
  "validate_fallback spec l =
     (let fb = sp_fallback spec
      in if fb_enabled fb then
           require (fb_triggers fb \<noteq> []) E_invalid_argument (
           require (fb_fallback_participants fb \<noteq> []) E_invalid_argument (
           and_then (for_all_status (\<lambda>i. case find_spec_participant spec i of
                        None \<Rightarrow> fail E_invalid_argument
                      | Some p \<Rightarrow> require (roles_contains (ps_roles p) R_fallback) E_invalid_argument ok_status)
                      (fb_fallback_participants fb)) (
           require (\<not> (fb_max_depth fb = 0 \<or> max_fallback_depth l < fb_max_depth fb)) E_invalid_argument
           ok_status)))
         else require (fb_fallback_participants fb = []) E_invalid_argument ok_status)"

definition criterion_key :: "CriterionRef \<Rightarrow> u64" where
  "criterion_key c = push_bit 32 (ucast (cri_id c)) OR ucast (cri_version c)"

fun validate_criteria :: "u64 list \<Rightarrow> CriterionRef list \<Rightarrow> status" where
  "validate_criteria seen [] = ok_status"
| "validate_criteria seen (c # cs) =
     require (criterion_valid c) E_invalid_argument (
     require (criterion_key c \<notin> set seen) E_invalid_argument (
     validate_criteria (criterion_key c # seen) cs))"

fun validate_stage_total :: "Limits \<Rightarrow> u64 \<Rightarrow> StageSpec list \<Rightarrow> status" where
  "validate_stage_total l tot [] = ok_status"
| "validate_stage_total l tot (stage # stages) =
     (case checked_add tot (word_of_nat (length (st_participants stage)))
             (ucast (max_candidates_per_execution l)) of
        None \<Rightarrow> fail E_resource_limit_exceeded
      | Some tot2 \<Rightarrow> validate_stage_total l tot2 stages)"

definition validate_candidate_bound :: "EnsembleSpec \<Rightarrow> Limits \<Rightarrow> status" where
  "validate_candidate_bound spec l =
     require (\<not> max_candidates_per_execution l < qp_min_valid_candidates (sp_quorum spec))
       E_resource_limit_exceeded (
     and_then (validate_stage_total l 0 (sp_stages spec)) (
     if sp_stages spec = [] then
       require (length (filter (\<lambda>p. roles_contains (ps_roles p) R_candidate \<or>
                                    roles_contains (ps_roles p) R_specialist) (sp_participants spec))
                  \<le> unat (max_candidates_per_execution l)) E_resource_limit_exceeded ok_status
     else ok_status))"

definition validate_policies :: "EnsembleSpec \<Rightarrow> Limits \<Rightarrow> status" where
  "validate_policies spec l =
     (let all_roles = declared_roles spec
      in and_then (validate_quotas all_roles (qp_role_quota (sp_quorum spec))) (
         require (\<not> (ag_require_verification_pass (sp_aggregation spec) \<and>
                     \<not> roles_contains all_roles R_verifier)) E_invalid_argument (
         require (\<not> (ag_require_judge_acceptance (sp_aggregation spec) \<and>
                     \<not> roles_contains all_roles R_judge)) E_invalid_argument (
         require (distinct (ab_factors (sp_arbitration spec))) E_invalid_argument (
         require (distinct (fb_triggers (sp_fallback spec))) E_invalid_argument (
         and_then (validate_fallback spec l) (
         require (rt_max_attempts (sp_retry spec) \<noteq> 0) E_invalid_argument (
         require (\<not> max_retries l + 1 < rt_max_attempts (sp_retry spec)) E_resource_limit_exceeded (
         and_then (validate_criteria [] (ev_mandatory_criteria (sp_evidence spec))) (
         and_then (validate_criteria [] (sp_judging_criteria spec)) (
         and_then (validate_candidate_bound spec l) (
         require (\<not> (cp_require_all_required_participants (sp_completion spec) \<and>
                     qp_max_failures (sp_quorum spec) \<noteq> 0 \<and>
                     qp_max_failures (sp_quorum spec) \<noteq> unbounded)) E_invalid_argument
         ok_status))))))))))))"

definition validate_spec :: "EnsembleSpec \<Rightarrow> Limits \<Rightarrow> status" where
  "validate_spec spec l =
     and_then (validate_limits l) (
     require (valid_id (sp_id spec)) E_invalid_argument (
     and_then (check_bounded (sp_label spec) (unat (max_label_bytes l))) (
     and_then (check_bounded (sp_task_class spec) (unat (max_metadata_bytes l))) (
     require (sp_participants spec \<noteq> []) E_invalid_argument (
     require (length (sp_participants spec) \<le> unat (max_participants_per_ensemble l))
       E_resource_limit_exceeded (
     require (length (sp_stages spec) \<le> unat (max_stages_per_ensemble l)) E_resource_limit_exceeded (
     require (length (qp_role_quota (sp_quorum spec)) \<le> unat (max_role_quota_entries l))
       E_resource_limit_exceeded (
     require (\<not> 100 < qp_consensus_threshold_percent (sp_quorum spec)) E_invalid_argument (
     require (ab_max_selected (sp_arbitration spec) = 1) E_invalid_argument (
     and_then (validate_participants l [] (sp_participants spec)) (
     require (list_ex holds_producing_role (sp_participants spec)) E_invalid_argument (
     and_then (validate_stages spec l [] (sp_stages spec)) (
     validate_policies spec l)))))))))))))"

section \<open>The specification digest\<close>

datatype hash_item = HU u64 | HT string | HD double

fun hash_step :: "u64 \<Rightarrow> hash_item \<Rightarrow> u64" where
  "hash_step h (HU v) = fnv1a64_u64 h v"
| "hash_step h (HT s) = fnv1a64_text h s"
| "hash_step h (HD d) = fnv1a64_double h d"

definition hash_items :: "hash_item list \<Rightarrow> u64" where
  "hash_items items = foldl hash_step fnv_offset items"

abbreviation HW :: "'a::len word \<Rightarrow> hash_item" where "HW w \<equiv> HU (ucast w)"
abbreviation HB :: "bool \<Rightarrow> hash_item" where "HB b \<equiv> HU (if b then 1 else 0)"
abbreviation HN :: "'a list \<Rightarrow> hash_item" where "HN xs \<equiv> HU (word_of_nat (length xs))"

definition participant_items :: "ParticipantSpec \<Rightarrow> hash_item list" where
  "participant_items p =
     [HU (ps_id p), HT (ps_label p), HW (ps_roles p), HB (ps_required p), HT (ps_domain p),
      HW (ps_priority p), HW (ps_execution_budget_units p),
      HW (rq_min_protocol_version (ps_compatibility p)), HW (rq_required_capabilities (ps_compatibility p)),
      HW (rq_required_task_class (ps_compatibility p)), HW (rq_required_output_schema (ps_compatibility p)),
      HW (rq_excluded_model_family (ps_compatibility p)), HW (rq_required_backend_features (ps_compatibility p))]"

definition stage_items :: "StageSpec \<Rightarrow> hash_item list" where
  "stage_items s =
     [HU (st_id s), HT (st_label s), HW (topology_code (st_mode s)), HN (st_participants s)] @
     map HU (st_participants s) @ map HT (st_required_domains s)"

definition quorum_items :: "QuorumPolicy \<Rightarrow> hash_item list" where
  "quorum_items q =
     [HW (qp_min_participants q), HN (qp_role_quota q)] @
     concat (map (\<lambda>r. [HW (role_code (q_role r)), HW (q_min_count r)]) (qp_role_quota q)) @
     [HW (qp_min_evaluations q), HW (qp_min_valid_candidates q), HW (qp_consensus_threshold_percent q),
      HW (vote_basis_code (qp_vote_basis q)), HB (qp_count_abstentions q), HB (qp_count_optional_participants q),
      HB (qp_count_failed_in_denominator q), HB (qp_count_unavailable_in_denominator q),
      HW (qp_max_failures q), HW (qp_max_abstentions q)]"

definition decision_policy_items :: "EnsembleSpec \<Rightarrow> hash_item list" where
  "decision_policy_items spec =
     (let ag = sp_aggregation spec; ab = sp_arbitration spec; fb = sp_fallback spec; cp = sp_completion spec
      in [HW (aggregation_kind_code (ag_kind ag)), HB (ag_use_weights ag), HB (ag_require_verification_pass ag),
          HB (ag_require_judge_acceptance ag), HD (ag_min_aggregate_score ag),
          HD (ag_min_judge_acceptance_ratio ag), HN (ab_factors ab)] @
         map (\<lambda>f. HW (factor_code f)) (ab_factors ab) @
         [HW (tie_break_code (ab_tie_break ab)), HB (ab_require_unique_winner ab), HW (ab_max_selected ab),
          HB (fb_enabled fb), HN (fb_triggers fb)] @
         map (\<lambda>t. HW (trigger_code t)) (fb_triggers fb) @
         [HN (fb_fallback_participants fb)] @ map HU (fb_fallback_participants fb) @
         [HB (fb_eager_speculative fb), HW (fb_max_depth fb), HB (cp_require_consensus cp),
          HB (cp_require_all_required_participants cp), HB (cp_allow_partial_results cp)])"

definition criteria_items :: "CriterionRef list \<Rightarrow> hash_item list" where
  "criteria_items cs = HN cs # concat (map (\<lambda>c. [HW (cri_id c), HW (cri_version c)]) cs)"

definition lifecycle_policy_items :: "EnsembleSpec \<Rightarrow> hash_item list" where
  "lifecycle_policy_items spec =
     (let rt = sp_retry spec; cn = sp_cancellation spec; ev = sp_evidence spec; rq = sp_requirements spec
      in [HW (rt_max_attempts rt), HB (rt_retry_on_unavailable rt), HB (rt_retry_on_transport_error rt),
          HB (rt_retry_on_malformed_candidate rt), HB (rt_retry_on_participant_failed rt),
          HB (rt_replace_participant rt), HB (rt_rerun_evaluations rt),
          HB (cn_cancel_on_required_failure cn), HB (cn_cancel_on_quorum_impossible cn),
          HB (cn_preserve_committed_results cn), HW (ev_min_candidate_payload_bytes ev),
          HW (ev_min_evaluations_per_candidate ev), HB (ev_require_rationale ev)] @
         criteria_items (ev_mandatory_criteria ev) @
         [HB (ev_unknown_verification_is_failure ev), HB (ev_abstention_is_failure ev)] @
         criteria_items (sp_judging_criteria spec) @
         [HW (rq_min_protocol_version rq), HW (rq_required_capabilities rq), HW (rq_required_task_class rq),
          HW (rq_required_output_schema rq), HW (rq_excluded_model_family rq),
          HW (rq_required_backend_features rq), HB (rq_require_model_family_diversity rq),
          HW (sp_overall_budget_units spec), HU (sp_deterministic_seed spec)])"

definition compute_spec_fingerprint :: "EnsembleSpec \<Rightarrow> u64" where
  "compute_spec_fingerprint spec =
     hash_items (
       [HT (sp_label spec), HT (sp_task_class spec), HW (sp_task_class_id spec), HN (sp_participants spec)] @
       concat (map participant_items (sp_participants spec)) @
       [HN (sp_stages spec)] @ concat (map stage_items (sp_stages spec)) @
       quorum_items (sp_quorum spec) @ decision_policy_items spec @ lifecycle_policy_items spec)"

section \<open>What a validated specification guarantees\<close>

lemma validate_participants_distinct:
  "is_ok (validate_participants l seen ps) \<Longrightarrow>
     distinct (map ps_id ps) \<and> set (map ps_id ps) \<inter> set seen = {} \<and> 0 \<notin> set (map ps_id ps)"
  by (induction ps arbitrary: seen) (fastforce simp: valid_id_def)+

lemma validate_participants_all:
  "is_ok (validate_participants l seen ps) \<Longrightarrow> p \<in> set ps \<Longrightarrow> ps_roles p \<noteq> 0"
  by (induction ps arbitrary: seen) (auto simp: roles_empty_def)

lemma find_spec_participantD:
  "find_spec_participant spec i = Some p \<Longrightarrow> p \<in> set (sp_participants spec) \<and> ps_id p = i"
  by (auto simp: find_spec_participant_def dest: find_SomeD)

lemma validate_stages_all:
  "is_ok (validate_stages spec l seen stages) \<Longrightarrow> stage \<in> set stages \<Longrightarrow>
     valid_id (st_id stage) \<and> st_participants stage \<noteq> [] \<and>
     length (st_participants stage) \<le> unat (max_parallel_branches l) \<and>
     (\<forall>i \<in> set (st_participants stage). \<exists>p. find_spec_participant spec i = Some p \<and> holds_producing_role p)"
  by (induction stages arbitrary: seen)
    (auto simp: validate_stage_participant_def split: option.splits)

lemma validate_stages_distinct:
  "is_ok (validate_stages spec l seen stages) \<Longrightarrow>
     distinct (map st_id stages) \<and> set (map st_id stages) \<inter> set seen = {}"
  by (induction stages arbitrary: seen) fastforce+

lemma validate_stage_total_bound:
  assumes "is_ok (validate_stage_total l tot stages)"
    and "\<forall>s \<in> set stages. length (st_participants s) < 2 ^ 64"
    and "unat tot \<le> unat (max_candidates_per_execution l)"
  shows "unat tot + (\<Sum>s \<leftarrow> stages. length (st_participants s)) \<le> unat (max_candidates_per_execution l)"
  using assms
proof (induction stages arbitrary: tot)
  case (Cons s stages)
  have u: "unat (ucast (max_candidates_per_execution l) :: u64) = unat (max_candidates_per_execution l)"
    by (simp add: unsigned_ucast_eq take_bit_nat_eq_self less_le_trans[OF unsigned_less])
  have n: "unat (word_of_nat (length (st_participants s)) :: u64) = length (st_participants s)"
    using Cons.prems(2) by (simp add: unat_of_nat)
  from Cons.prems(1) obtain t where t: "checked_add tot (word_of_nat (length (st_participants s)))
      (ucast (max_candidates_per_execution l)) = Some t" "is_ok (validate_stage_total l t stages)"
    by (auto split: option.splits)
  then have "unat tot + length (st_participants s) \<le> unat (max_candidates_per_execution l)"
    "t = tot + word_of_nat (length (st_participants s))" using u n by (auto simp: checked_add_iff)
  moreover from this have "unat t = unat tot + length (st_participants s)"
    using n unat_less_32[of "max_candidates_per_execution l"] by (simp add: unat_plus_if')
  ultimately show ?case using Cons.IH[of t] t Cons.prems by simp
qed simp

end
