(* ===== verification/Quorum.thy ===== *)
theory Quorum
  imports Specs
begin

text \<open>
  The quorum computation (\<^verbatim>\<open>quorum.hpp\<close>, \<^verbatim>\<open>quorum.cpp\<close>): vote deduplication, the
  denominator, role quotas, budgets, the threshold and the typed quorum state.
\<close>

datatype QuorumState =
    Q_not_evaluated | Q_reached | Q_not_reached | Q_impossible | Q_lost

fun quorum_state_code :: "QuorumState \<Rightarrow> u8" where
  "quorum_state_code Q_not_evaluated = 0"
| "quorum_state_code Q_reached = 1"
| "quorum_state_code Q_not_reached = 2"
| "quorum_state_code Q_impossible = 3"
| "quorum_state_code Q_lost = 4"

fun quorum_state_to_string :: "QuorumState \<Rightarrow> string" where
  "quorum_state_to_string Q_not_evaluated = ''NOT_EVALUATED''"
| "quorum_state_to_string Q_reached = ''REACHED''"
| "quorum_state_to_string Q_not_reached = ''NOT_REACHED''"
| "quorum_state_to_string Q_impossible = ''IMPOSSIBLE''"
| "quorum_state_to_string Q_lost = ''LOST''"

record QuorumReport =
  qr_state :: QuorumState
  qr_basis :: VoteBasis
  qr_denominator :: u32
  qr_contributors :: u32
  qr_abstentions :: u32
  qr_failures :: u32
  qr_excluded_optional :: u32
  qr_excluded_unavailable :: u32
  qr_excluded_stale :: u32
  qr_required_total :: u32
  qr_required_present :: u32
  qr_evaluations :: u32
  qr_valid_candidates :: u32
  qr_duplicate_votes_suppressed :: u32
  qr_stale_votes_rejected :: u32
  qr_threshold_percent :: u32
  qr_threshold_count :: u32
  qr_leading_votes :: u32
  qr_role_quota_met :: u32
  qr_role_quota_required :: u32
  qr_failure_budget_exceeded :: bool
  qr_abstention_budget_exceeded :: bool
  qr_ensemble_generation :: EnsembleGeneration
  qr_coordinator_epoch :: CoordinatorEpoch
  qr_computed_sequence :: Sequence
  qr_members :: "ParticipantId list"
  qr_member_generations :: "ParticipantGeneration list"
  qr_contributors_list :: "ParticipantId list"
  qr_abstaining_members :: "ParticipantId list"
  qr_failed_members :: "ParticipantId list"
  qr_notes :: "string list"

definition quorum_report_default :: QuorumReport where
  "quorum_report_default = \<lparr>qr_state = Q_not_evaluated, qr_basis = VB_authoritative_participants,
     qr_denominator = 0, qr_contributors = 0, qr_abstentions = 0, qr_failures = 0,
     qr_excluded_optional = 0, qr_excluded_unavailable = 0, qr_excluded_stale = 0,
     qr_required_total = 0, qr_required_present = 0, qr_evaluations = 0, qr_valid_candidates = 0,
     qr_duplicate_votes_suppressed = 0, qr_stale_votes_rejected = 0, qr_threshold_percent = 0,
     qr_threshold_count = 0, qr_leading_votes = 0, qr_role_quota_met = 0, qr_role_quota_required = 0,
     qr_failure_budget_exceeded = False, qr_abstention_budget_exceeded = False,
     qr_ensemble_generation = 0, qr_coordinator_epoch = 0, qr_computed_sequence = 0, qr_members = [],
     qr_member_generations = [], qr_contributors_list = [], qr_abstaining_members = [],
     qr_failed_members = [], qr_notes = []\<rparr>"

definition quorum_satisfied :: "QuorumReport \<Rightarrow> bool" where
  "quorum_satisfied r \<longleftrightarrow> qr_state r = Q_reached"

record EligibleVote =
  vo_participant :: ParticipantId
  vo_generation :: ParticipantGeneration
  vo_role :: ParticipantRole
  vo_candidate :: CandidateId
  vo_candidate_generation :: CandidateGeneration
  vo_weight :: double
  vo_abstained :: bool

record QuorumMember =
  qm_participant :: ParticipantId
  qm_generation :: ParticipantGeneration
  qm_roles :: RoleSet
  qm_required :: bool
  qm_authorized :: bool
  qm_available :: bool
  qm_failed :: bool
  qm_fallback :: bool
  qm_role_available :: bool

definition percentage_ceiling :: "u32 \<Rightarrow> u32 \<Rightarrow> u32" where
  "percentage_ceiling tot percent =
     (if percent = 0 then 0
      else let scaled = ucast tot * ucast percent :: u64 in ucast ((scaled + 99) div 100))"

section \<open>Vote deduplication\<close>

type_synonym VoteKey = "u64 \<times> u64 \<times> u64"

definition vote_key :: "EligibleVote \<Rightarrow> VoteKey" where
  "vote_key v = (vo_participant v, vo_generation v, vo_candidate v)"

text \<open>
  \<^verbatim>\<open>unique_votes.emplace(key, vote)\<close> keeps the first vote of a key. The map is iterated only to
  fill sets and per-candidate counters, so its order is not observable.
\<close>

definition emplace_vote :: "EligibleVote list \<times> u32 \<Rightarrow> EligibleVote \<Rightarrow> EligibleVote list \<times> u32" where
  "emplace_vote = (\<lambda>(unique, dups) vote.
     if vote_key vote \<in> set (map vote_key unique) then (unique, dups + 1) else (unique @ [vote], dups))"

definition unique_votes :: "EligibleVote list \<Rightarrow> EligibleVote list \<times> u32" where
  "unique_votes votes = foldl emplace_vote ([], 0) votes"

definition contributor_ids :: "EligibleVote list \<Rightarrow> ParticipantId list" where
  "contributor_ids unique = map vo_participant (filter (\<lambda>v. \<not> vo_abstained v) unique)"

definition abstainer_ids :: "EligibleVote list \<Rightarrow> ParticipantId list" where
  "abstainer_ids unique = map vo_participant (filter vo_abstained unique)"

definition votes_per_candidate :: "EligibleVote list \<Rightarrow> (u64, double) omap" where
  "votes_per_candidate unique =
     foldl (\<lambda>m v. let k = vo_candidate v; old = (case omap_find m k of None \<Rightarrow> d_zero | Some d \<Rightarrow> d)
                  in omap_put k (d_add old d_one) m)
       [] (filter (\<lambda>v. \<not> vo_abstained v) unique)"

definition leading_votes :: "EligibleVote list \<Rightarrow> u32" where
  "leading_votes unique =
     foldl (\<lambda>leading entry. let n = d_to_u32 (snd entry) in if leading < n then n else leading)
       0 (votes_per_candidate unique)"

section \<open>The denominator and the requirements\<close>

definition in_basis :: "VoteBasis \<Rightarrow> ParticipantId list \<Rightarrow> ParticipantId list \<Rightarrow> QuorumMember \<Rightarrow> bool" where
  "in_basis basis contributors abstainers m =
     (case basis of
        VB_declared_participants \<Rightarrow> True
      | VB_authoritative_participants \<Rightarrow> qm_authorized m
      | VB_contributing_participants \<Rightarrow>
          qm_participant m \<in> set contributors \<or> qm_participant m \<in> set abstainers
      | VB_required_participants \<Rightarrow> qm_required m
      | VB_eligible_participants \<Rightarrow> qm_authorized m \<and> qm_available m \<and> \<not> qm_failed m)"

definition in_denominator ::
    "QuorumPolicy \<Rightarrow> ParticipantId list \<Rightarrow> ParticipantId list \<Rightarrow> QuorumMember \<Rightarrow> bool" where
  "in_denominator policy contributors abstainers m \<longleftrightarrow>
     in_basis (qp_vote_basis policy) contributors abstainers m \<and>
     \<not> (\<not> qp_count_optional_participants policy \<and> \<not> qm_required m) \<and>
     \<not> (\<not> qp_count_failed_in_denominator policy \<and> qm_failed m) \<and>
     \<not> (\<not> qp_count_unavailable_in_denominator policy \<and> \<not> qm_available m)"

definition quota_count :: "RoleQuota \<Rightarrow> QuorumMember list \<Rightarrow> u32" where
  "quota_count quota denominator =
     size32 (filter (\<lambda>m. roles_contains (qm_roles m) (q_role quota) \<and> qm_authorized m \<and>
                         qm_role_available m) denominator)"

definition can_still_act :: "QuorumMember \<Rightarrow> bool" where
  "can_still_act m \<longleftrightarrow> qm_authorized m \<and> qm_available m \<and> \<not> qm_failed m \<and> qm_role_available m"

definition quota_possible :: "RoleQuota \<Rightarrow> QuorumMember list \<Rightarrow> u32" where
  "quota_possible quota membership =
     size32 (filter (\<lambda>m. roles_contains (qm_roles m) (q_role quota) \<and> can_still_act m) membership)"

definition quota_achievable :: "QuorumPolicy \<Rightarrow> QuorumMember list \<Rightarrow> bool" where
  "quota_achievable policy membership \<longleftrightarrow>
     list_all (\<lambda>q. \<not> quota_possible q membership < q_min_count q) (qp_role_quota policy)"

abbreviation dec32 :: "u32 \<Rightarrow> string" where
  "dec32 w \<equiv> dec_string (unat w)"

definition quota_notes :: "QuorumPolicy \<Rightarrow> QuorumMember list \<Rightarrow> string list" where
  "quota_notes policy denominator =
     map (\<lambda>q. ''role quota for '' @ role_to_string (q_role q) @ '' not met: have '' @
              dec32 (quota_count q denominator) @ '', need '' @ dec32 (q_min_count q))
       (filter (\<lambda>q. \<not> q_min_count q \<le> quota_count q denominator) (qp_role_quota policy))"

definition shortfall_notes :: "QuorumPolicy \<Rightarrow> u32 \<Rightarrow> u32 \<Rightarrow> u32 \<Rightarrow> string list" where
  "shortfall_notes policy denominator evaluations valid_candidates =
     (if denominator < qp_min_participants policy
      then [''denominator '' @ dec32 denominator @ '' is below the required minimum '' @
            dec32 (qp_min_participants policy)] else []) @
     (if evaluations < qp_min_evaluations policy
      then [''evaluations '' @ dec32 evaluations @ '' are below the required minimum '' @
            dec32 (qp_min_evaluations policy)] else []) @
     (if valid_candidates < qp_min_valid_candidates policy
      then [''valid candidates '' @ dec32 valid_candidates @ '' are below the required minimum '' @
            dec32 (qp_min_valid_candidates policy)] else [])"

section \<open>The computation\<close>

text \<open>The report before the state is decided: every counter and membership list.\<close>

definition quorum_counts ::
    "QuorumPolicy \<Rightarrow> QuorumMember list \<Rightarrow> EligibleVote list \<Rightarrow> u32 \<Rightarrow> EnsembleGeneration \<Rightarrow>
     CoordinatorEpoch \<Rightarrow> Sequence \<Rightarrow> QuorumReport" where
  "quorum_counts policy membership votes valid_candidates generation epoch seq =
     (let (unique, dups) = unique_votes votes;
          contributors = contributor_ids unique;
          abstainers = abstainer_ids unique;
          denominator = filter (in_denominator policy contributors abstainers) membership;
          contributing = filter (\<lambda>m. qm_participant m \<in> set contributors) denominator;
          abstaining = filter (\<lambda>m. qm_participant m \<notin> set contributors \<and>
                                   qm_participant m \<in> set abstainers) denominator;
          failed = filter qm_failed membership
      in quorum_report_default\<lparr>
           qr_basis := qp_vote_basis policy,
           qr_ensemble_generation := generation,
           qr_coordinator_epoch := epoch,
           qr_computed_sequence := seq,
           qr_threshold_percent := qp_consensus_threshold_percent policy,
           qr_valid_candidates := valid_candidates,
           qr_duplicate_votes_suppressed := dups,
           qr_evaluations := size32 unique,
           qr_excluded_stale := size32 (filter (\<lambda>m. \<not> qm_authorized m) membership),
           qr_excluded_optional := size32 (filter (\<lambda>m. \<not> qm_required m) membership),
           qr_failures := size32 failed,
           qr_failed_members := map qm_participant failed,
           qr_excluded_unavailable := size32 (filter (\<lambda>m. \<not> qm_available m) membership),
           qr_denominator := size32 denominator,
           qr_members := map qm_participant denominator,
           qr_member_generations := map qm_generation denominator,
           qr_contributors := size32 contributing,
           qr_contributors_list := map qm_participant contributing,
           qr_abstentions := size32 abstaining,
           qr_abstaining_members := map qm_participant abstaining,
           qr_required_total := size32 (filter qm_required membership),
           qr_required_present :=
             size32 (filter (\<lambda>m. qm_required m \<and> qm_participant m \<in> set contributors) membership),
           qr_role_quota_required := size32 (qp_role_quota policy),
           qr_role_quota_met :=
             size32 (filter (\<lambda>q. q_min_count q \<le> quota_count q denominator) (qp_role_quota policy)),
           qr_notes := quota_notes policy denominator,
           qr_failure_budget_exceeded :=
             (qp_max_failures policy \<noteq> unbounded \<and> qp_max_failures policy < size32 failed),
           qr_abstention_budget_exceeded :=
             (qp_max_abstentions policy \<noteq> unbounded \<and> qp_max_abstentions policy < size32 abstaining),
           qr_threshold_count :=
             (if 0 < qp_consensus_threshold_percent policy
              then percentage_ceiling (size32 denominator) (qp_consensus_threshold_percent policy) else 0),
           qr_leading_votes := leading_votes unique\<rparr>)"

definition quorum_decision :: "QuorumPolicy \<Rightarrow> QuorumMember list \<Rightarrow> QuorumReport \<Rightarrow> QuorumState" where
  "quorum_decision policy membership r =
     (if qr_denominator r < qp_min_participants policy \<or> \<not> quota_achievable policy membership
      then Q_impossible
      else if qp_min_participants policy \<le> qr_denominator r \<and>
              qr_role_quota_met r = qr_role_quota_required r \<and>
              qp_min_evaluations policy \<le> qr_evaluations r \<and>
              qp_min_valid_candidates policy \<le> qr_valid_candidates r \<and>
              \<not> qr_failure_budget_exceeded r \<and> \<not> qr_abstention_budget_exceeded r
      then Q_reached else Q_not_reached)"

definition compute_quorum ::
    "QuorumPolicy \<Rightarrow> QuorumMember list \<Rightarrow> EligibleVote list \<Rightarrow> u32 \<Rightarrow> EnsembleGeneration \<Rightarrow>
     CoordinatorEpoch \<Rightarrow> Sequence \<Rightarrow> QuorumReport" where
  "compute_quorum policy membership votes valid_candidates generation epoch seq =
     (let r = quorum_counts policy membership votes valid_candidates generation epoch seq;
          state = quorum_decision policy membership r
      in r\<lparr>qr_state := state,
           qr_notes := qr_notes r @
             (case state of
                Q_impossible \<Rightarrow> [''quorum is impossible: denominator '' @ dec32 (qr_denominator r) @ '' with '' @
                                 dec32 (size32 (filter can_still_act membership)) @
                                 '' member(s) still capable of contributing'']
              | Q_not_reached \<Rightarrow>
                  shortfall_notes policy (qr_denominator r) (qr_evaluations r) valid_candidates
              | _ \<Rightarrow> [])\<rparr>)"

definition quorum_render :: "QuorumReport \<Rightarrow> string" where
  "quorum_render r =
     ''quorum '' @ quorum_state_to_string (qr_state r) @
     '' basis='' @ vote_basis_to_string (qr_basis r) @
     '' denominator='' @ dec32 (qr_denominator r) @
     '' contributors='' @ dec32 (qr_contributors r) @
     '' abstentions='' @ dec32 (qr_abstentions r) @
     '' failures='' @ dec32 (qr_failures r) @
     '' evaluations='' @ dec32 (qr_evaluations r) @
     '' valid_candidates='' @ dec32 (qr_valid_candidates r) @
     '' threshold_count='' @ dec32 (qr_threshold_count r) @
     '' role_quota='' @ dec32 (qr_role_quota_met r) @ ''/'' @ dec32 (qr_role_quota_required r) @
     '' generation='' @ id_to_string (qr_ensemble_generation r) @
     '' epoch='' @ id_to_string (qr_coordinator_epoch r)"

section \<open>Lemmas\<close>

lemma unique_votes_append: "unique_votes (vs @ [v]) = emplace_vote (unique_votes vs) v"
  by (simp add: unique_votes_def)

lemma unique_votes_keys: "set (map vote_key (fst (unique_votes vs))) = set (map vote_key vs)"
proof (induction vs rule: rev_induct)
  case (snoc v vs)
  then show ?case
    by (cases "unique_votes vs") (auto simp: unique_votes_append emplace_vote_def)
qed (simp add: unique_votes_def)

lemma unique_votes_distinct: "distinct (map vote_key (fst (unique_votes vs)))"
proof (induction vs rule: rev_induct)
  case (snoc v vs)
  then show ?case by (cases "unique_votes vs") (auto simp: unique_votes_append emplace_vote_def)
qed (simp add: unique_votes_def)

lemma unique_votes_length:
  "length (fst (unique_votes vs)) = card (set (map vote_key vs))"
  by (metis unique_votes_keys unique_votes_distinct distinct_card length_map)

lemma unique_votes_duplicate:
  "vote_key v \<in> set (map vote_key vs) \<Longrightarrow>
   unique_votes (vs @ [v]) = (fst (unique_votes vs), snd (unique_votes vs) + 1)"
  using unique_votes_keys[of vs]
  by (cases "unique_votes vs") (simp add: unique_votes_append emplace_vote_def)

lemma percentage_ceiling_unat:
  assumes "percent \<le> 100"
  shows "unat (percentage_ceiling tot percent) = (unat tot * unat percent + 99) div 100"
proof (cases "percent = 0")
  case False
  have p: "unat percent \<le> 100" using assms by (simp add: word_le_nat_alt)
  have t: "unat tot < 2 ^ 32" by (rule unat_less_32)
  have u: "unat (ucast w :: u64) = unat w" for w :: u32
    using unat_less_32[of w] by (simp add: unsigned_ucast_eq take_bit_nat_eq_self)
  have "unat tot * unat percent \<le> 2 ^ 32 * 100" using p t by (intro mult_le_mono) auto
  moreover from this have "unat (ucast tot * ucast percent :: u64) = unat tot * unat percent"
    by (simp add: unat_word_ariths u)
  ultimately have "unat ((ucast tot * ucast percent + 99 :: u64) div 100) = (unat tot * unat percent + 99) div 100"
    by (simp add: unat_div unat_plus_if')
  moreover have "unat tot * unat percent \<le> unat tot * 100" using p by simp
  then have "unat tot * unat percent + 99 < 2 ^ 32 * 100" using t by linarith
  then have "(unat tot * unat percent + 99) div 100 < 2 ^ 32" by (rule less_mult_imp_div_less)
  ultimately show ?thesis using False
    by (simp add: percentage_ceiling_def Let_def unsigned_ucast_eq take_bit_nat_eq_self)
qed (simp add: percentage_ceiling_def)

lemma quorum_state_cases:
  "qr_state (compute_quorum p m v c g e s) = quorum_decision p m (quorum_counts p m v c g e s)"
  by (simp add: compute_quorum_def Let_def)

lemma quorum_decision_range: "quorum_decision p m r \<in> {Q_reached, Q_not_reached, Q_impossible}"
  by (simp add: quorum_decision_def)

end
