(* ===== verification/Consensus.thy ===== *)
theory Consensus
  imports Quorum
begin

text \<open>
  The consensus computation (\<^verbatim>\<open>consensus.hpp\<close>, \<^verbatim>\<open>consensus.cpp\<close>): terminal conditions first,
  then eligibility and quorum, then the vote arithmetic over the ranked tallies.
\<close>

datatype ConsensusState =
    S_not_evaluated | S_consensus | S_consensus_with_abstentions | S_plurality_without_threshold
    | S_quorum_not_reached | S_quorum_impossible | S_disagreement | S_tie
    | S_insufficient_evidence | S_required_participant_failed | S_all_candidates_invalid
    | S_no_eligible_candidate | S_fallback_required | S_cancelled | S_superseded
    | S_revalidation_required | S_committed

fun consensus_state_code :: "ConsensusState \<Rightarrow> u8" where
  "consensus_state_code S_not_evaluated = 0"
| "consensus_state_code S_consensus = 1"
| "consensus_state_code S_consensus_with_abstentions = 2"
| "consensus_state_code S_plurality_without_threshold = 3"
| "consensus_state_code S_quorum_not_reached = 4"
| "consensus_state_code S_quorum_impossible = 5"
| "consensus_state_code S_disagreement = 6"
| "consensus_state_code S_tie = 7"
| "consensus_state_code S_insufficient_evidence = 8"
| "consensus_state_code S_required_participant_failed = 9"
| "consensus_state_code S_all_candidates_invalid = 10"
| "consensus_state_code S_no_eligible_candidate = 11"
| "consensus_state_code S_fallback_required = 12"
| "consensus_state_code S_cancelled = 13"
| "consensus_state_code S_superseded = 14"
| "consensus_state_code S_revalidation_required = 15"
| "consensus_state_code S_committed = 16"

fun consensus_state_to_string :: "ConsensusState \<Rightarrow> string" where
  "consensus_state_to_string S_not_evaluated = ''NOT_EVALUATED''"
| "consensus_state_to_string S_consensus = ''CONSENSUS''"
| "consensus_state_to_string S_consensus_with_abstentions = ''CONSENSUS_WITH_ABSTENTIONS''"
| "consensus_state_to_string S_plurality_without_threshold = ''PLURALITY_WITHOUT_THRESHOLD''"
| "consensus_state_to_string S_quorum_not_reached = ''QUORUM_NOT_REACHED''"
| "consensus_state_to_string S_quorum_impossible = ''QUORUM_IMPOSSIBLE''"
| "consensus_state_to_string S_disagreement = ''DISAGREEMENT''"
| "consensus_state_to_string S_tie = ''TIE''"
| "consensus_state_to_string S_insufficient_evidence = ''INSUFFICIENT_EVIDENCE''"
| "consensus_state_to_string S_required_participant_failed = ''REQUIRED_PARTICIPANT_FAILED''"
| "consensus_state_to_string S_all_candidates_invalid = ''ALL_CANDIDATES_INVALID''"
| "consensus_state_to_string S_no_eligible_candidate = ''NO_ELIGIBLE_CANDIDATE''"
| "consensus_state_to_string S_fallback_required = ''FALLBACK_REQUIRED''"
| "consensus_state_to_string S_cancelled = ''CANCELLED''"
| "consensus_state_to_string S_superseded = ''SUPERSEDED''"
| "consensus_state_to_string S_revalidation_required = ''REVALIDATION_REQUIRED''"
| "consensus_state_to_string S_committed = ''COMMITTED''"

record ConsensusReport =
  cr_state :: ConsensusState
  cr_leading_candidate :: CandidateId
  cr_leading_generation :: CandidateGeneration
  cr_leading_participant :: ParticipantId
  cr_agreeing :: u32
  cr_disagreeing :: u32
  cr_abstaining :: u32
  cr_missing :: u32
  cr_invalid_candidates :: u32
  cr_eligible_candidates :: u32
  cr_candidates_declared :: u32
  cr_threshold_percent :: u32
  cr_threshold_count :: u32
  cr_vote_basis :: u32
  cr_runner_up_votes :: u32
  cr_unresolved_disagreement :: bool
  cr_ensemble_generation :: EnsembleGeneration
  cr_coordinator_epoch :: CoordinatorEpoch
  cr_computed_sequence :: Sequence
  cr_agreeing_members :: "ParticipantId list"
  cr_disagreeing_members :: "ParticipantId list"
  cr_abstaining_members :: "ParticipantId list"
  cr_missing_members :: "ParticipantId list"
  cr_eligible_candidates_list :: "CandidateId list"

definition consensus_report_default :: ConsensusReport where
  "consensus_report_default = \<lparr>cr_state = S_not_evaluated, cr_leading_candidate = 0,
     cr_leading_generation = 0, cr_leading_participant = 0, cr_agreeing = 0, cr_disagreeing = 0,
     cr_abstaining = 0, cr_missing = 0, cr_invalid_candidates = 0, cr_eligible_candidates = 0,
     cr_candidates_declared = 0, cr_threshold_percent = 0, cr_threshold_count = 0, cr_vote_basis = 0,
     cr_runner_up_votes = 0, cr_unresolved_disagreement = False, cr_ensemble_generation = 0,
     cr_coordinator_epoch = 0, cr_computed_sequence = 0, cr_agreeing_members = [],
     cr_disagreeing_members = [], cr_abstaining_members = [], cr_missing_members = [],
     cr_eligible_candidates_list = []\<rparr>"

definition consensus_resolved :: "ConsensusReport \<Rightarrow> bool" where
  "consensus_resolved r \<longleftrightarrow>
     cr_state r = S_consensus \<or> cr_state r = S_consensus_with_abstentions \<or>
     cr_state r = S_plurality_without_threshold"

record CandidateTally =
  ty_candidate :: CandidateId
  ty_generation :: CandidateGeneration
  ty_participant :: ParticipantId
  ty_eligible :: bool
  ty_agreeing :: u32
  ty_disagreeing :: u32
  ty_abstaining :: u32
  ty_weighted_agree :: double
  ty_agreeing_members :: "ParticipantId list"
  ty_disagreeing_members :: "ParticipantId list"
  ty_abstaining_members :: "ParticipantId list"

record ConsensusInputs =
  ci_quorum :: QuorumReport
  ci_tallies :: "CandidateTally list"
  ci_candidates_declared :: u32
  ci_invalid_candidates :: u32
  ci_required_participant_failed :: bool
  ci_require_all_required :: bool
  ci_cancelled :: bool
  ci_superseded :: bool
  ci_revalidation_required :: bool
  ci_fallback_required :: bool
  ci_requires_votes :: bool
  ci_ensemble_generation :: EnsembleGeneration
  ci_coordinator_epoch :: CoordinatorEpoch
  ci_sequence :: Sequence

definition better_tally :: "CandidateTally \<Rightarrow> CandidateTally \<Rightarrow> bool" where
  "better_tally l r \<longleftrightarrow>
     (if ty_agreeing l \<noteq> ty_agreeing r then ty_agreeing r < ty_agreeing l
      else if \<not> d_eq (ty_weighted_agree l) (ty_weighted_agree r)
      then d_less (ty_weighted_agree r) (ty_weighted_agree l)
      else ty_candidate l < ty_candidate r)"

definition ranked_tallies :: "ConsensusInputs \<Rightarrow> CandidateTally list" where
  "ranked_tallies inp = sort_by better_tally (filter ty_eligible (ci_tallies inp))"

definition consensus_base :: "ConsensusInputs \<Rightarrow> ConsensusReport" where
  "consensus_base inp =
     (let q = ci_quorum inp; eligible = filter ty_eligible (ci_tallies inp)
      in consensus_report_default\<lparr>
           cr_ensemble_generation := ci_ensemble_generation inp,
           cr_coordinator_epoch := ci_coordinator_epoch inp,
           cr_computed_sequence := ci_sequence inp,
           cr_candidates_declared := ci_candidates_declared inp,
           cr_invalid_candidates := ci_invalid_candidates inp,
           cr_threshold_percent := qr_threshold_percent q,
           cr_threshold_count := qr_threshold_count q,
           cr_vote_basis := qr_denominator q,
           cr_abstaining := qr_abstentions q,
           cr_abstaining_members := qr_abstaining_members q,
           cr_missing := (if qr_contributors q + qr_abstentions q < qr_denominator q
                          then qr_denominator q - qr_contributors q - qr_abstentions q else 0),
           cr_eligible_candidates_list := map ty_candidate eligible,
           cr_eligible_candidates := size32 eligible\<rparr>)"

text \<open>The early returns, in the order of the code; \<open>None\<close> goes on to the votes.\<close>

definition terminal_condition :: "ConsensusInputs \<Rightarrow> ConsensusState option" where
  "terminal_condition inp =
     (if ci_superseded inp then Some S_superseded
      else if ci_revalidation_required inp then Some S_revalidation_required
      else if ci_cancelled inp then Some S_cancelled
      else if ci_required_participant_failed inp \<and> ci_require_all_required inp
      then Some S_required_participant_failed
      else if qr_state (ci_quorum inp) = Q_impossible then Some S_quorum_impossible
      else if ranked_tallies inp = []
      then (if 0 < ci_candidates_declared inp \<and> ci_candidates_declared inp \<le> ci_invalid_candidates inp
            then Some S_all_candidates_invalid else Some S_no_eligible_candidate)
      else if ci_fallback_required inp then Some S_fallback_required
      else if qr_state (ci_quorum inp) \<noteq> Q_reached then Some S_quorum_not_reached
      else None)"

definition runner_up_votes :: "CandidateTally list \<Rightarrow> u32" where
  "runner_up_votes rest =
     foldl (\<lambda>runner_up t. if runner_up < ty_agreeing t then ty_agreeing t else runner_up) 0 rest"

definition vote_report :: "ConsensusReport \<Rightarrow> CandidateTally \<Rightarrow> CandidateTally list \<Rightarrow> ConsensusReport" where
  "vote_report r leader rest =
     (let disagreeing = concat (map ty_agreeing_members rest) @ ty_disagreeing_members leader
      in r\<lparr>cr_leading_candidate := ty_candidate leader,
           cr_leading_generation := ty_generation leader,
           cr_leading_participant := ty_participant leader,
           cr_agreeing := ty_agreeing leader,
           cr_agreeing_members := ty_agreeing_members leader,
           cr_eligible_candidates := size32 (leader # rest),
           cr_runner_up_votes := runner_up_votes rest,
           cr_disagreeing := size32 disagreeing,
           cr_disagreeing_members := disagreeing\<rparr>)"

definition vote_outcome ::
    "bool \<Rightarrow> ConsensusReport \<Rightarrow> CandidateTally \<Rightarrow> CandidateTally list \<Rightarrow> ConsensusState \<times> bool" where
  "vote_outcome requires_votes r leader rest =
     (let runner_up = runner_up_votes rest
      in if ty_agreeing leader = 0 then
           (if \<not> requires_votes
            then (if length (leader # rest) = 1 then (S_consensus, False)
                  else (S_plurality_without_threshold, False))
            else (S_insufficient_evidence, False))
         else if 0 < cr_threshold_percent r \<and> ty_agreeing leader < cr_threshold_count r then
           (if runner_up = ty_agreeing leader then (S_tie, True) else (S_disagreement, True))
         else if \<not> 0 < cr_threshold_percent r \<and> runner_up = ty_agreeing leader \<and> 0 < runner_up
         then (S_tie, True)
         else if 0 < cr_abstaining r then (S_consensus_with_abstentions, False)
         else if cr_threshold_percent r = 0 then (S_plurality_without_threshold, False)
         else (S_consensus, False))"

definition compute_consensus :: "ConsensusInputs \<Rightarrow> ConsensusReport" where
  "compute_consensus inp =
     (let r = consensus_base inp
      in case terminal_condition inp of
           Some s \<Rightarrow> r\<lparr>cr_state := s\<rparr>
         | None \<Rightarrow>
             (case ranked_tallies inp of
                [] \<Rightarrow> r
              | leader # rest \<Rightarrow>
                  (let r = vote_report r leader rest;
                       (state, unresolved) = vote_outcome (ci_requires_votes inp) r leader rest
                   in r\<lparr>cr_state := state, cr_unresolved_disagreement := unresolved\<rparr>)))"

definition consensus_render :: "ConsensusReport \<Rightarrow> string" where
  "consensus_render r =
     ''consensus '' @ consensus_state_to_string (cr_state r) @
     '' leading='' @ id_to_string (cr_leading_candidate r) @
     '' agreeing='' @ dec32 (cr_agreeing r) @
     '' disagreeing='' @ dec32 (cr_disagreeing r) @
     '' abstaining='' @ dec32 (cr_abstaining r) @
     '' missing='' @ dec32 (cr_missing r) @
     '' eligible='' @ dec32 (cr_eligible_candidates r) @
     '' invalid='' @ dec32 (cr_invalid_candidates r) @
     '' basis='' @ dec32 (cr_vote_basis r) @
     '' threshold='' @ dec32 (cr_threshold_count r) @
     (if cr_unresolved_disagreement r then '' unresolved_disagreement=true'' else [])"

section \<open>The tally order\<close>

lemma better_tally_asym: "better_tally x y \<Longrightarrow> \<not> better_tally y x"
  by (auto simp: better_tally_def d_less_def d_eq_def split: if_splits)

lemma better_tally_trans:
  assumes "\<not> d_isnan (ty_weighted_agree x)" "\<not> d_isnan (ty_weighted_agree y)" "\<not> d_isnan (ty_weighted_agree z)"
    and "better_tally x y" "better_tally y z"
  shows "better_tally x z"
  using assms by (auto simp: better_tally_def d_less_def d_eq_def split: if_splits)

lemma better_tally_total:
  assumes "\<not> d_isnan (ty_weighted_agree x)" "\<not> d_isnan (ty_weighted_agree y)"
    and "ty_candidate x \<noteq> ty_candidate y"
  shows "better_tally x y \<or> better_tally y x"
  using assms by (auto simp: better_tally_def d_less_def d_eq_def)

interpretation tally: comparator better_tally "{t. \<not> d_isnan (ty_weighted_agree t)}" ty_candidate
proof unfold_locales
qed (use better_tally_asym better_tally_trans better_tally_total in blast)+

definition well_formed_tallies :: "CandidateTally list \<Rightarrow> bool" where
  "well_formed_tallies ts \<longleftrightarrow>
     distinct (map ty_candidate ts) \<and> (\<forall>t \<in> set ts. \<not> d_isnan (ty_weighted_agree t))"

lemma well_formed_tallies_filter: "well_formed_tallies ts \<Longrightarrow> well_formed_tallies (filter P ts)"
  by (auto simp: well_formed_tallies_def distinct_map_filter)

lemma ranked_tallies_set: "set (ranked_tallies inp) = {t \<in> set (ci_tallies inp). ty_eligible t}"
  by (simp add: ranked_tallies_def)

lemma ranked_tallies_perm:
  assumes "well_formed_tallies ts" and "mset us = mset ts"
  shows "sort_by better_tally (filter ty_eligible us) = sort_by better_tally (filter ty_eligible ts)"
proof -
  have wf: "well_formed_tallies (filter ty_eligible ts)" using assms(1) by (rule well_formed_tallies_filter)
  have m: "mset (filter ty_eligible us) = mset (filter ty_eligible ts)" using assms(2) by simp
  then have "well_formed_tallies (filter ty_eligible us)"
    using wf unfolding well_formed_tallies_def
    by (metis mset_eq_imp_distinct_iff mset_eq_setD mset_map)
  then have "sorted_wrt better_tally (sort_by better_tally (filter ty_eligible us))"
    by (intro tally.sorted_sort_by) (auto simp: well_formed_tallies_def)
  then have "sorted_wrt (\<lambda>x y. \<not> better_tally y x) (sort_by better_tally (filter ty_eligible us))"
    by (rule sorted_wrt_mono_rel[rotated]) (rule better_tally_asym)
  then show ?thesis using wf m by (intro tally.sort_by_unique) (auto simp: well_formed_tallies_def)
qed

text \<open>The leader has the most agreeing votes, whatever the weights are.\<close>

lemma insort_by_agreeing:
  "sorted_wrt (\<lambda>x y. ty_agreeing y \<le> ty_agreeing x) ts \<Longrightarrow>
   sorted_wrt (\<lambda>x y. ty_agreeing y \<le> ty_agreeing x) (insort_by better_tally t ts)"
proof (induction ts)
  case (Cons u us)
  have "set (insort_by better_tally t us) = insert t (set us)"
    by (metis mset_insort_by set_mset_add_mset_insert set_mset_mset)
  moreover have "ty_agreeing t \<le> ty_agreeing u" if "better_tally u t"
    using that by (auto simp: better_tally_def split: if_splits)
  moreover have "ty_agreeing u \<le> ty_agreeing t" if "\<not> better_tally u t"
    using that by (auto simp: better_tally_def split: if_splits)
  ultimately show ?case using Cons by fastforce
qed simp

lemma ranked_agreeing:
  "ranked_tallies inp = leader # rest \<Longrightarrow> t \<in> set rest \<Longrightarrow> ty_agreeing t \<le> ty_agreeing leader"
proof -
  have "sorted_wrt (\<lambda>x y. ty_agreeing y \<le> ty_agreeing x) (sort_by better_tally ts)" for ts
    by (induction ts) (auto intro: insort_by_agreeing)
  moreover assume "ranked_tallies inp = leader # rest" "t \<in> set rest"
  ultimately show ?thesis by (metis ranked_tallies_def sorted_wrt.simps(2))
qed

lemma foldl_runner_up:
  "r \<le> foldl (\<lambda>a t. if a < ty_agreeing t then ty_agreeing t else a) r ts \<and>
   (\<forall>t \<in> set ts. ty_agreeing t \<le> foldl (\<lambda>a t. if a < ty_agreeing t then ty_agreeing t else a) r ts) \<and>
   (foldl (\<lambda>a t. if a < ty_agreeing t then ty_agreeing t else a) r ts = r \<or>
    foldl (\<lambda>a t. if a < ty_agreeing t then ty_agreeing t else a) r ts \<in> ty_agreeing ` set ts)"
proof (induction ts arbitrary: r)
  case (Cons t ts)
  let ?r = "if r < ty_agreeing t then ty_agreeing t else r"
  have "r \<le> ?r" "ty_agreeing t \<le> ?r" "?r = r \<or> ?r = ty_agreeing t" by auto
  with Cons.IH[of ?r] show ?case by (auto intro: order_trans)
qed simp

lemma runner_up_ge: "t \<in> set rest \<Longrightarrow> ty_agreeing t \<le> runner_up_votes rest"
  using foldl_runner_up[of 0 rest] by (auto simp: runner_up_votes_def)

lemma consensus_cases:
  obtains (terminal) s where "terminal_condition inp = Some s" "compute_consensus inp = (consensus_base inp)\<lparr>cr_state := s\<rparr>"
  | (vote) leader rest where "terminal_condition inp = None" "ranked_tallies inp = leader # rest"
      "cr_state (compute_consensus inp) =
         fst (vote_outcome (ci_requires_votes inp) (vote_report (consensus_base inp) leader rest) leader rest)"
      "cr_leading_candidate (compute_consensus inp) = ty_candidate leader"
      "cr_agreeing (compute_consensus inp) = ty_agreeing leader"
proof (cases "terminal_condition inp")
  case None
  then obtain leader rest where "ranked_tallies inp = leader # rest"
    by (cases "ranked_tallies inp") (auto simp: terminal_condition_def split: if_splits)
  with None show ?thesis
    by (intro vote) (auto simp: compute_consensus_def Let_def vote_report_def split: prod.splits)
qed (auto intro: terminal simp: compute_consensus_def)

lemma terminal_condition_not_resolved:
  "terminal_condition inp = Some s \<Longrightarrow> s \<notin> {S_consensus, S_consensus_with_abstentions,
     S_plurality_without_threshold, S_tie, S_disagreement, S_insufficient_evidence}"
  by (auto simp: terminal_condition_def split: if_splits)

lemma terminal_condition_None:
  "terminal_condition inp = None \<longleftrightarrow>
     \<not> ci_superseded inp \<and> \<not> ci_revalidation_required inp \<and> \<not> ci_cancelled inp \<and>
     \<not> (ci_required_participant_failed inp \<and> ci_require_all_required inp) \<and>
     \<not> ci_fallback_required inp \<and> qr_state (ci_quorum inp) = Q_reached \<and> ranked_tallies inp \<noteq> []"
  by (auto simp: terminal_condition_def)

lemma consensus_base_threshold [simp]:
  "cr_threshold_percent (vote_report (consensus_base inp) l r) = qr_threshold_percent (ci_quorum inp)"
  "cr_threshold_count (vote_report (consensus_base inp) l r) = qr_threshold_count (ci_quorum inp)"
  "cr_abstaining (vote_report (consensus_base inp) l r) = qr_abstentions (ci_quorum inp)"
  by (simp_all add: vote_report_def consensus_base_def Let_def)

end
