(* ===== verification/Hashing.thy ===== *)
theory Hashing
  imports Text
begin

unbundle bit_operations_syntax

text \<open>
  SHA-256 (\<^verbatim>\<open>src/detail/sha256.cpp\<close>) and CRC32C (\<^verbatim>\<open>src/detail/crc32c.cpp\<close>), transcribed. The
  table-driven CRC is proved equal to the bit-serial one.
\<close>

section \<open>SHA-256\<close>

definition round_constants :: "u32 list" where
  "round_constants =
    concat
      [[0x428a2f98, 0x71374491, 0xb5c0fbcf, 0xe9b5dba5, 0x3956c25b, 0x59f111f1, 0x923f82a4, 0xab1c5ed5],
       [0xd807aa98, 0x12835b01, 0x243185be, 0x550c7dc3, 0x72be5d74, 0x80deb1fe, 0x9bdc06a7, 0xc19bf174],
       [0xe49b69c1, 0xefbe4786, 0x0fc19dc6, 0x240ca1cc, 0x2de92c6f, 0x4a7484aa, 0x5cb0a9dc, 0x76f988da],
       [0x983e5152, 0xa831c66d, 0xb00327c8, 0xbf597fc7, 0xc6e00bf3, 0xd5a79147, 0x06ca6351, 0x14292967],
       [0x27b70a85, 0x2e1b2138, 0x4d2c6dfc, 0x53380d13, 0x650a7354, 0x766a0abb, 0x81c2c92e, 0x92722c85],
       [0xa2bfe8a1, 0xa81a664b, 0xc24b8b70, 0xc76c51a3, 0xd192e819, 0xd6990624, 0xf40e3585, 0x106aa070],
       [0x19a4c116, 0x1e376c08, 0x2748774c, 0x34b0bcb5, 0x391c0cb3, 0x4ed8aa4a, 0x5b9cca4f, 0x682e6ff3],
       [0x748f82ee, 0x78a5636f, 0x84c87814, 0x8cc70208, 0x90befffa, 0xa4506ceb, 0xbef9a3f7, 0xc67178f2]]"

definition rotate_right :: "u32 \<Rightarrow> nat \<Rightarrow> u32" where
  "rotate_right v n = drop_bit n v OR push_bit (32 - n) v"

record Sha256 =
  sha_state :: "u32 list"
  sha_buffer :: bytes
  sha_total :: u64

definition sha_init :: Sha256 where
  "sha_init = \<lparr>sha_state = [0x6a09e667, 0xbb67ae85, 0x3c6ef372, 0xa54ff53a, 0x510e527f, 0x9b05688c,
                             0x1f83d9ab, 0x5be0cd19], sha_buffer = [], sha_total = 0\<rparr>"

definition block_word :: "bytes \<Rightarrow> nat \<Rightarrow> u32" where
  "block_word block i =
     push_bit 24 (ucast (block ! (i * 4))) OR push_bit 16 (ucast (block ! (i * 4 + 1))) OR
     push_bit 8 (ucast (block ! (i * 4 + 2))) OR ucast (block ! (i * 4 + 3))"

definition schedule_next :: "u32 list \<Rightarrow> nat \<Rightarrow> u32 list" where
  "schedule_next w i =
     (let s0 = rotate_right (w ! (i - 15)) 7 XOR rotate_right (w ! (i - 15)) 18 XOR drop_bit 3 (w ! (i - 15));
          s1 = rotate_right (w ! (i - 2)) 17 XOR rotate_right (w ! (i - 2)) 19 XOR drop_bit 10 (w ! (i - 2))
      in w @ [w ! (i - 16) + s0 + w ! (i - 7) + s1])"

definition sha_schedule :: "bytes \<Rightarrow> u32 list" where
  "sha_schedule block = foldl schedule_next (map (block_word block) [0..<16]) [16..<64]"

type_synonym sha_regs = "u32 \<times> u32 \<times> u32 \<times> u32 \<times> u32 \<times> u32 \<times> u32 \<times> u32"

definition sha_round :: "u32 list \<Rightarrow> sha_regs \<Rightarrow> nat \<Rightarrow> sha_regs" where
  "sha_round w = (\<lambda>(a, b, c, d, e, f, g, h) i.
     let sigma1 = rotate_right e 6 XOR rotate_right e 11 XOR rotate_right e 25;
         ch = (e AND f) XOR (NOT e AND g);
         temp1 = h + sigma1 + ch + round_constants ! i + w ! i;
         sigma0 = rotate_right a 2 XOR rotate_right a 13 XOR rotate_right a 22;
         majority = (a AND b) XOR (a AND c) XOR (b AND c);
         temp2 = sigma0 + majority
     in (temp1 + temp2, a, b, c, d + temp1, e, f, g))"

definition compress :: "u32 list \<Rightarrow> bytes \<Rightarrow> u32 list" where
  "compress st block =
     (case foldl (sha_round (sha_schedule block))
             (st ! 0, st ! 1, st ! 2, st ! 3, st ! 4, st ! 5, st ! 6, st ! 7) [0..<64] of
        (a, b, c, d, e, f, g, h) \<Rightarrow>
          [st ! 0 + a, st ! 1 + b, st ! 2 + c, st ! 3 + d, st ! 4 + e, st ! 5 + f, st ! 6 + g, st ! 7 + h])"

definition sha_push :: "Sha256 \<Rightarrow> u8 \<Rightarrow> Sha256" where
  "sha_push s raw =
     (let buf = sha_buffer s @ [raw]
      in if length buf = 64
         then s\<lparr>sha_state := compress (sha_state s) buf, sha_buffer := [], sha_total := sha_total s + 1\<rparr>
         else s\<lparr>sha_buffer := buf, sha_total := sha_total s + 1\<rparr>)"

definition sha_update :: "Sha256 \<Rightarrow> bytes \<Rightarrow> Sha256" where
  "sha_update s data = foldl sha_push s data"

definition sha_finish :: "Sha256 \<Rightarrow> bytes" where
  "sha_finish s =
     (let bit_length = sha_total s * 8;
          buf = sha_buffer s @ [0x80];
          (st, buf) = (if 56 < length buf
                       then (compress (sha_state s) (buf @ replicate (64 - length buf) 0), [])
                       else (sha_state s, buf));
          buf = buf @ replicate (56 - length buf) 0;
          buf = buf @ map (\<lambda>i. ucast (drop_bit (56 - i * 8) bit_length AND 0xFF)) [0..<8];
          st = compress st buf
      in concat (map (\<lambda>word. map (\<lambda>b. ucast (drop_bit (24 - b * 8) word AND 0xFF)) [0..<4]) st))"

definition sha256 :: "bytes \<Rightarrow> bytes" where
  "sha256 data = sha_finish (sha_update sha_init data)"

definition sha256_digest64 :: "bytes \<Rightarrow> u64" where
  "sha256_digest64 data = foldl (\<lambda>v b. push_bit 8 v OR ucast b) 0 (take 8 (sha256 data))"

lemma length_compress [simp]: "length (compress st block) = 8"
  by (simp add: compress_def split: prod.splits)

lemma length_sha256: "length (sha256 data) = 32"
  by (simp add: sha256_def sha_finish_def Let_def length_concat comp_def sum_list_triv
      split: prod.splits)

lemma sha_push_buffer: "length (sha_buffer s) < 64 \<Longrightarrow> length (sha_buffer (sha_push s b)) < 64"
  by (simp add: sha_push_def Let_def)

lemma sha_update_buffer: "length (sha_buffer s) < 64 \<Longrightarrow> length (sha_buffer (sha_update s data)) < 64"
  unfolding sha_update_def by (induction data arbitrary: s) (auto simp: sha_push_buffer)

lemma sha_update_append: "sha_update s (a @ b) = sha_update (sha_update s a) b"
  by (simp add: sha_update_def)

section \<open>CRC32C\<close>

definition crc_polynomial :: u32 where "crc_polynomial = 0x82F63B78"

definition crc_bit :: "u32 \<Rightarrow> u32" where
  "crc_bit v = (if v AND 1 \<noteq> 0 then drop_bit 1 v XOR crc_polynomial else drop_bit 1 v)"

definition crc_table_entry :: "u32 \<Rightarrow> u32" where
  "crc_table_entry index = (crc_bit ^^ 8) index"

definition crc_table :: "u32 list" where
  "crc_table = map (\<lambda>i. crc_table_entry (word_of_nat i)) [0..<256]"

definition crc_byte :: "u32 \<Rightarrow> u8 \<Rightarrow> u32" where
  "crc_byte crc b = crc_table ! unat ((crc XOR ucast b) AND 0xFF) XOR drop_bit 8 crc"

definition crc32c_extend :: "u32 \<Rightarrow> bytes \<Rightarrow> u32" where
  "crc32c_extend seed data = NOT (foldl crc_byte (NOT seed) data)"

definition crc32c :: "bytes \<Rightarrow> u32" where
  "crc32c data = crc32c_extend 0 data"

text \<open>The bit-serial reference: eight polynomial steps per input byte.\<close>

definition crc_byte_serial :: "u32 \<Rightarrow> u8 \<Rightarrow> u32" where
  "crc_byte_serial crc b = (crc_bit ^^ 8) (crc XOR ucast b)"

definition crc32c_serial :: "u32 \<Rightarrow> bytes \<Rightarrow> u32" where
  "crc32c_serial seed data = NOT (foldl crc_byte_serial (NOT seed) data)"

lemma and_1_bit: "(v :: u32) AND 1 \<noteq> 0 \<longleftrightarrow> bit v 0"
  by (simp add: and_one_eq bit_0 odd_iff_mod_2_eq_one)

lemma crc_bit_xor: "crc_bit (a XOR b) = crc_bit a XOR crc_bit b"
  by (intro bit_word_eqI) (auto simp: crc_bit_def and_1_bit bit_xor_iff bit_drop_bit_eq)

lemma crc_bits_xor: "(crc_bit ^^ n) (a XOR b) = (crc_bit ^^ n) a XOR (crc_bit ^^ n) b"
  by (induction n) (auto simp: crc_bit_xor)

lemma crc_bits_high: "(\<And>i. i < n \<Longrightarrow> \<not> bit v i) \<Longrightarrow> (crc_bit ^^ n) v = drop_bit n v"
proof (induction n arbitrary: v)
  case (Suc n)
  have "crc_bit v = drop_bit 1 v" using Suc.prems[of 0] by (simp add: crc_bit_def and_1_bit)
  moreover have "(crc_bit ^^ n) (drop_bit 1 v) = drop_bit n (drop_bit 1 v)"
    using Suc.prems by (intro Suc.IH) (simp add: bit_drop_bit_eq)
  ultimately show ?case by (simp add: funpow_swap1 drop_bit_drop_bit)
qed simp

lemma crc_split: "v = (v AND 0xFF) XOR push_bit 8 (drop_bit 8 (v :: u32))"
proof (rule bit_word_eqI)
  fix n assume n: "n < LENGTH(32)"
  have m: "(0xFF :: u32) = mask 8" by (simp add: mask_eq_exp_minus_1)
  have "bit ((v AND 0xFF) XOR push_bit 8 (drop_bit 8 v)) n \<longleftrightarrow>
      ((bit v n \<and> n < 8) \<noteq> (8 \<le> n \<and> bit v n))"
    unfolding m bit_xor_iff bit_and_iff bit_mask_iff bit_push_bit_iff bit_drop_bit_eq using n by auto
  then show "bit v n \<longleftrightarrow> bit ((v AND 0xFF) XOR push_bit 8 (drop_bit 8 v)) n" by auto
qed

lemma crc_table_lookup: "crc_table ! unat (v AND 0xFF) = crc_table_entry (v AND 0xFF)"
proof -
  have "v AND 0xFF \<le> 0xFF" by (rule word_and_le1)
  then have "unat (v AND 0xFF) < 256" by (simp add: word_le_nat_alt)
  then show ?thesis by (simp add: crc_table_def)
qed

lemma crc_byte_eq_serial: "crc_byte crc b = crc_byte_serial crc b"
proof -
  let ?v = "crc XOR ucast b :: u32"
  have hi: "drop_bit 8 ?v = drop_bit 8 crc"
    by (intro bit_word_eqI) (auto simp: bit_drop_bit_eq bit_xor_iff bit_ucast_iff dest: bit_imp_le_length)
  have "(crc_bit ^^ 8) ?v = (crc_bit ^^ 8) (?v AND 0xFF) XOR (crc_bit ^^ 8) (push_bit 8 (drop_bit 8 ?v))"
    by (subst crc_split) (rule crc_bits_xor)
  also have "(crc_bit ^^ 8) (push_bit 8 (drop_bit 8 ?v)) = drop_bit 8 (push_bit 8 (drop_bit 8 ?v))"
    by (rule crc_bits_high) (simp only: bit_push_bit_iff not_le de_Morgan_conj simp_thms)
  also have "\<dots> = drop_bit 8 crc"
    unfolding hi by (intro bit_word_eqI) (auto simp: bit_drop_bit_eq bit_push_bit_iff dest: bit_imp_le_length)
  finally show ?thesis
    by (simp add: crc_byte_def crc_byte_serial_def crc_table_lookup crc_table_entry_def del: funpow.simps)
qed

lemma crc32c_extend_append: "crc32c_extend (crc32c_extend seed a) b = crc32c_extend seed (a @ b)"
  by (simp add: crc32c_extend_def)

end
