(* ===== verification/Candidates.thy ===== *)
theory Candidates
  imports Specs Hashing
begin

text \<open>
  The candidate lifecycle, the submissions of participants and the evidence summary
  (\<^verbatim>\<open>candidate.hpp\<close>, \<^verbatim>\<open>candidate.cpp\<close>, \<^verbatim>\<open>evaluation.hpp\<close>, \<^verbatim>\<open>evaluation.cpp\<close>).
\<close>

section \<open>Candidate states\<close>

datatype CandidateState =
    C_declared | C_dispatched | C_output_received | C_valid | C_invalid | C_eligible
    | C_rejected | C_selected | C_superseded | C_cancelled | C_failed | C_abstained | C_retired

fun candidate_state_code :: "CandidateState \<Rightarrow> u8" where
  "candidate_state_code C_declared = 1"
| "candidate_state_code C_dispatched = 2"
| "candidate_state_code C_output_received = 3"
| "candidate_state_code C_valid = 4"
| "candidate_state_code C_invalid = 5"
| "candidate_state_code C_eligible = 6"
| "candidate_state_code C_rejected = 7"
| "candidate_state_code C_selected = 8"
| "candidate_state_code C_superseded = 9"
| "candidate_state_code C_cancelled = 10"
| "candidate_state_code C_failed = 11"
| "candidate_state_code C_abstained = 12"
| "candidate_state_code C_retired = 13"

fun candidate_state_to_string :: "CandidateState \<Rightarrow> string" where
  "candidate_state_to_string C_declared = ''DECLARED''"
| "candidate_state_to_string C_dispatched = ''DISPATCHED''"
| "candidate_state_to_string C_output_received = ''OUTPUT_RECEIVED''"
| "candidate_state_to_string C_valid = ''VALID''"
| "candidate_state_to_string C_invalid = ''INVALID''"
| "candidate_state_to_string C_eligible = ''ELIGIBLE''"
| "candidate_state_to_string C_rejected = ''REJECTED''"
| "candidate_state_to_string C_selected = ''SELECTED''"
| "candidate_state_to_string C_superseded = ''SUPERSEDED''"
| "candidate_state_to_string C_cancelled = ''CANCELLED''"
| "candidate_state_to_string C_failed = ''FAILED''"
| "candidate_state_to_string C_abstained = ''ABSTAINED''"
| "candidate_state_to_string C_retired = ''RETIRED''"

definition parse_candidate_state :: "string \<Rightarrow> CandidateState option" where
  "parse_candidate_state str =
     (if str = ''DECLARED'' then Some C_declared
      else if str = ''DISPATCHED'' then Some C_dispatched
      else if str = ''OUTPUT_RECEIVED'' then Some C_output_received
      else if str = ''VALID'' then Some C_valid
      else if str = ''INVALID'' then Some C_invalid
      else if str = ''ELIGIBLE'' then Some C_eligible
      else if str = ''REJECTED'' then Some C_rejected
      else if str = ''SELECTED'' then Some C_selected
      else if str = ''SUPERSEDED'' then Some C_superseded
      else if str = ''CANCELLED'' then Some C_cancelled
      else if str = ''FAILED'' then Some C_failed
      else if str = ''ABSTAINED'' then Some C_abstained
      else if str = ''RETIRED'' then Some C_retired
      else None)"

fun legal_targets :: "CandidateState \<Rightarrow> CandidateState list" where
  "legal_targets C_declared = [C_dispatched, C_cancelled, C_superseded, C_failed]"
| "legal_targets C_dispatched = [C_output_received, C_failed, C_abstained, C_cancelled, C_superseded]"
| "legal_targets C_output_received = [C_valid, C_invalid, C_cancelled, C_superseded]"
| "legal_targets C_valid = [C_eligible, C_rejected, C_cancelled, C_superseded, C_retired]"
| "legal_targets C_invalid = [C_retired, C_superseded, C_rejected]"
| "legal_targets C_eligible = [C_selected, C_rejected, C_superseded, C_cancelled, C_retired]"
| "legal_targets C_rejected = [C_retired, C_superseded]"
| "legal_targets C_selected = [C_retired, C_superseded]"
| "legal_targets C_failed = [C_declared, C_retired, C_superseded]"
| "legal_targets C_abstained = [C_retired, C_superseded]"
| "legal_targets C_cancelled = [C_retired]"
| "legal_targets C_superseded = [C_retired]"
| "legal_targets C_retired = []"

definition is_legal_transition :: "CandidateState \<Rightarrow> CandidateState \<Rightarrow> bool" where
  "is_legal_transition from to \<longleftrightarrow> (if from = to then False else to \<in> set (legal_targets from))"

definition is_terminal :: "CandidateState \<Rightarrow> bool" where
  "is_terminal s \<longleftrightarrow> s \<in> {C_failed, C_abstained, C_cancelled, C_superseded, C_retired, C_selected,
                           C_rejected, C_invalid}"

definition is_content_state :: "CandidateState \<Rightarrow> bool" where
  "is_content_state s \<longleftrightarrow> s = C_valid \<or> s = C_eligible \<or> s = C_selected"

definition permits_output :: "CandidateState \<Rightarrow> bool" where
  "permits_output s \<longleftrightarrow> s = C_declared \<or> s = C_dispatched"

definition fingerprint_payload :: "bytes \<Rightarrow> u64" where
  "fingerprint_payload payload = sha256_digest64 payload"

section \<open>Submissions and snapshots\<close>

record CandidateSubmission =
  cs_authority :: CandidateAuthority
  cs_payload :: bytes

record CandidateFailureSubmission =
  fs_authority :: CandidateAuthority
  fs_participant_failure :: u32

record CandidateAbstentionSubmission =
  as_authority :: CandidateAuthority
  as_rationale :: string

record EvaluationSubmission =
  es_authority :: EvaluationAuthority
  es_criterion :: CriterionRef
  es_kind :: CriterionKind
  es_verification :: VerificationState
  es_judgment :: CategoricalJudgment
  es_score_defined :: bool
  es_score :: double
  es_weight :: double
  es_evidence :: bytes
  es_rationale :: string

record CandidateSnapshot =
  csn_id :: CandidateId
  csn_generation :: CandidateGeneration
  csn_ensemble :: EnsembleId
  csn_ensemble_generation :: EnsembleGeneration
  csn_execution :: EnsembleExecutionId
  csn_attempt_generation :: EnsembleAttemptGeneration
  csn_participant :: ParticipantId
  csn_participant_generation :: ParticipantGeneration
  csn_role :: ParticipantRole
  csn_stage :: StageId
  csn_state :: CandidateState
  csn_attempt :: u32
  csn_attempts_used :: u32
  csn_domain :: string
  csn_payload :: bytes
  csn_payload_digest :: u64
  csn_payload_bytes :: u32
  csn_received_sequence :: Sequence
  csn_coordinator_epoch :: CoordinatorEpoch
  csn_worker :: WorkerId
  csn_worker_boot :: WorkerBootId
  csn_failure :: EnsembleError
  csn_failure_detail :: string
  csn_evaluation_count :: u32
  csn_hard_failures :: u32
  csn_fallback :: bool
  csn_current :: bool
  csn_elimination_reason :: string

record EvaluationSnapshot =
  esn_id :: EvaluationId
  esn_generation :: EvaluationGeneration
  esn_ensemble :: EnsembleId
  esn_ensemble_generation :: EnsembleGeneration
  esn_execution :: EnsembleExecutionId
  esn_attempt_generation :: EnsembleAttemptGeneration
  esn_evaluator :: ParticipantId
  esn_evaluator_generation :: ParticipantGeneration
  esn_evaluator_role :: ParticipantRole
  esn_candidate :: CandidateId
  esn_candidate_generation :: CandidateGeneration
  esn_criterion :: CriterionRef
  esn_kind :: CriterionKind
  esn_verification :: VerificationState
  esn_judgment :: CategoricalJudgment
  esn_score_defined :: bool
  esn_score :: double
  esn_weight :: double
  esn_evidence :: bytes
  esn_rationale :: string
  esn_received_sequence :: Sequence
  esn_coordinator_epoch :: CoordinatorEpoch
  esn_worker :: WorkerId
  esn_worker_boot :: WorkerBootId
  esn_current :: bool
  esn_superseded :: bool

record CandidateEvaluationSummary =
  sm_candidate :: CandidateId
  sm_generation :: CandidateGeneration
  sm_evaluations :: u32
  sm_accepts :: u32
  sm_rejects :: u32
  sm_abstentions :: u32
  sm_unknowns :: u32
  sm_distinct_evaluators :: u32
  sm_hard_predicates :: u32
  sm_hard_failures :: u32
  sm_hard_unknowns :: u32
  sm_verifier_pass :: u32
  sm_verifier_fail :: u32
  sm_verifier_abstain :: u32
  sm_verifier_unknown :: u32
  sm_weighted_score_sum :: double
  sm_weight_sum :: double
  sm_min_score :: double
  sm_max_score :: double

definition summary_init :: "CandidateId \<Rightarrow> CandidateGeneration \<Rightarrow> CandidateEvaluationSummary" where
  "summary_init c g = \<lparr>sm_candidate = c, sm_generation = g, sm_evaluations = 0, sm_accepts = 0,
     sm_rejects = 0, sm_abstentions = 0, sm_unknowns = 0, sm_distinct_evaluators = 0,
     sm_hard_predicates = 0, sm_hard_failures = 0, sm_hard_unknowns = 0, sm_verifier_pass = 0,
     sm_verifier_fail = 0, sm_verifier_abstain = 0, sm_verifier_unknown = 0,
     sm_weighted_score_sum = 0, sm_weight_sum = 0, sm_min_score = 0, sm_max_score = 0\<rparr>"

definition mean_score :: "CandidateEvaluationSummary \<Rightarrow> double" where
  "mean_score s = (if d_less d_zero (sm_weight_sum s) then d_div (sm_weighted_score_sum s) (sm_weight_sum s)
                   else d_zero)"

definition fingerprint_evaluation :: "EvaluationSubmission \<Rightarrow> u64" where
  "fingerprint_evaluation s =
     hash_items
       [HU (pa_participant (ea_evaluator (es_authority s))),
        HU (pa_participant_generation (ea_evaluator (es_authority s))),
        HU (ea_candidate (es_authority s)), HU (ea_candidate_generation (es_authority s)),
        HW (cri_id (es_criterion s)), HW (cri_version (es_criterion s)),
        HW (criterion_kind_code (es_kind s)), HW (verification_code (es_verification s)),
        HW (judgment_code (es_judgment s)), HB (es_score_defined s), HD (es_score s), HD (es_weight s),
        HU (sha256_digest64 (es_evidence s)), HT (es_rationale s)]"

section \<open>The lifecycle as a transition system\<close>

interpretation candidate_state_codec: text_codec candidate_state_to_string parse_candidate_state
proof
  fix x show "parse_candidate_state (candidate_state_to_string x) = Some x"
    by (cases x) (simp_all add: parse_candidate_state_def)
qed

inductive lifecycle :: "CandidateState \<Rightarrow> CandidateState \<Rightarrow> bool" where
  stay: "lifecycle s s"
| step: "lifecycle s t \<Longrightarrow> is_legal_transition t u \<Longrightarrow> lifecycle s u"

lemma legal_transition_targets: "is_legal_transition s t \<longleftrightarrow> t \<in> set (legal_targets s)"
  by (cases s) (auto simp: is_legal_transition_def)

lemma lifecycle_closed:
  assumes "lifecycle s t" and "s \<in> A" and "\<And>x y. x \<in> A \<Longrightarrow> y \<in> set (legal_targets x) \<Longrightarrow> y \<in> A"
  shows "t \<in> A"
  using assms by (induction rule: lifecycle.induct) (auto simp: legal_transition_targets)

lemma lifecycle_selected: "lifecycle C_selected t \<Longrightarrow> t \<in> {C_selected, C_superseded, C_retired}"
  by (erule lifecycle_closed) auto

lemma lifecycle_content_no_output:
  "lifecycle s t \<Longrightarrow> is_content_state s \<Longrightarrow> \<not> permits_output t \<and> t \<noteq> C_output_received"
proof -
  let ?A = "{C_valid, C_eligible, C_selected, C_rejected, C_cancelled, C_superseded, C_retired}"
  assume "lifecycle s t" "is_content_state s"
  then have "t \<in> ?A" by (intro lifecycle_closed[of s t ?A]) (auto simp: is_content_state_def)
  then show ?thesis by (auto simp: permits_output_def)
qed

end
