(* ===== verification/Arbitration.thy ===== *)
theory Arbitration
  imports Candidates
begin

text \<open>
  Arbitration (\<^verbatim>\<open>arbitration.hpp\<close>, \<^verbatim>\<open>arbitration.cpp\<close>): hard eligibility, the ranking
  factors in their configured order, and the tie-break policy. A diagnostic text that embeds
  a formatted double is \<open>None\<close> where \<^verbatim>\<open>format_double\<close> reads past its buffer.
\<close>

datatype EliminationReason =
    X_none | X_not_a_content_state | X_invalid_candidate | X_failed_attempt | X_abstained
    | X_stale_generation | X_superseded | X_cancelled | X_participant_not_authoritative
    | X_incompatible_participant | X_verifier_failed | X_hard_predicate_failed
    | X_missing_required_evidence | X_below_minimum_score | X_insufficient_judge_acceptance
    | X_not_selectable_role | X_lost_ranking | X_tie_lost | X_fallback_not_selected

fun elimination_code :: "EliminationReason \<Rightarrow> u8" where
  "elimination_code X_none = 0"
| "elimination_code X_not_a_content_state = 1"
| "elimination_code X_invalid_candidate = 2"
| "elimination_code X_failed_attempt = 3"
| "elimination_code X_abstained = 4"
| "elimination_code X_stale_generation = 5"
| "elimination_code X_superseded = 6"
| "elimination_code X_cancelled = 7"
| "elimination_code X_participant_not_authoritative = 8"
| "elimination_code X_incompatible_participant = 9"
| "elimination_code X_verifier_failed = 10"
| "elimination_code X_hard_predicate_failed = 11"
| "elimination_code X_missing_required_evidence = 12"
| "elimination_code X_below_minimum_score = 13"
| "elimination_code X_insufficient_judge_acceptance = 14"
| "elimination_code X_not_selectable_role = 15"
| "elimination_code X_lost_ranking = 16"
| "elimination_code X_tie_lost = 17"
| "elimination_code X_fallback_not_selected = 18"

fun elimination_to_string :: "EliminationReason \<Rightarrow> string" where
  "elimination_to_string X_none = ''NONE''"
| "elimination_to_string X_not_a_content_state = ''NOT_A_CONTENT_STATE''"
| "elimination_to_string X_invalid_candidate = ''INVALID_CANDIDATE''"
| "elimination_to_string X_failed_attempt = ''FAILED_ATTEMPT''"
| "elimination_to_string X_abstained = ''ABSTAINED''"
| "elimination_to_string X_stale_generation = ''STALE_GENERATION''"
| "elimination_to_string X_superseded = ''SUPERSEDED''"
| "elimination_to_string X_cancelled = ''CANCELLED''"
| "elimination_to_string X_participant_not_authoritative = ''PARTICIPANT_NOT_AUTHORITATIVE''"
| "elimination_to_string X_incompatible_participant = ''INCOMPATIBLE_PARTICIPANT''"
| "elimination_to_string X_verifier_failed = ''VERIFIER_FAILED''"
| "elimination_to_string X_hard_predicate_failed = ''HARD_PREDICATE_FAILED''"
| "elimination_to_string X_missing_required_evidence = ''MISSING_REQUIRED_EVIDENCE''"
| "elimination_to_string X_below_minimum_score = ''BELOW_MINIMUM_SCORE''"
| "elimination_to_string X_insufficient_judge_acceptance = ''INSUFFICIENT_JUDGE_ACCEPTANCE''"
| "elimination_to_string X_not_selectable_role = ''NOT_SELECTABLE_ROLE''"
| "elimination_to_string X_lost_ranking = ''LOST_RANKING''"
| "elimination_to_string X_tie_lost = ''TIE_LOST''"
| "elimination_to_string X_fallback_not_selected = ''FALLBACK_NOT_SELECTED''"

record RankingFactorValue =
  fv_factor :: ArbitrationFactor
  fv_value :: double
  fv_detail :: "string option"

record CandidateRanking =
  rk_candidate :: CandidateId
  rk_generation :: CandidateGeneration
  rk_participant :: ParticipantId
  rk_participant_generation :: ParticipantGeneration
  rk_role :: ParticipantRole
  rk_eligible :: bool
  rk_elimination :: EliminationReason
  rk_elimination_detail :: "string option"
  rk_factors :: "RankingFactorValue list"
  rk_rank :: int
  rk_selected :: bool

record ArbitrationReport =
  ar_ensemble_generation :: EnsembleGeneration
  ar_coordinator_epoch :: CoordinatorEpoch
  ar_computed_sequence :: Sequence
  ar_tie_break :: TieBreakPolicy
  ar_factor_order :: "ArbitrationFactor list"
  ar_ranking :: "CandidateRanking list"
  ar_selected :: CandidateId
  ar_selected_generation :: CandidateGeneration
  ar_selected_participant :: ParticipantId
  ar_selected_role :: ParticipantRole
  ar_tie_unresolved :: bool
  ar_no_eligible_candidate :: bool
  ar_considered :: u32
  ar_eliminated :: u32
  ar_notes :: "string list"

definition arbitration_report_default :: ArbitrationReport where
  "arbitration_report_default = \<lparr>ar_ensemble_generation = 0, ar_coordinator_epoch = 0,
     ar_computed_sequence = 0, ar_tie_break = TB_lowest_candidate_id, ar_factor_order = [],
     ar_ranking = [], ar_selected = 0, ar_selected_generation = 0, ar_selected_participant = 0,
     ar_selected_role = R_candidate, ar_tie_unresolved = False, ar_no_eligible_candidate = False,
     ar_considered = 0, ar_eliminated = 0, ar_notes = []\<rparr>"

record ArbitrationCandidateInput =
  ac_candidate :: CandidateId
  ac_generation :: CandidateGeneration
  ac_participant :: ParticipantId
  ac_participant_generation :: ParticipantGeneration
  ac_role :: ParticipantRole
  ac_state :: CandidateState
  ac_generation_current :: bool
  ac_participant_authoritative :: bool
  ac_compatible :: bool
  ac_required_participant :: bool
  ac_fallback :: bool
  ac_role_selectable :: bool
  ac_participant_priority :: u32
  ac_execution_cost :: u32
  ac_latency :: u32
  ac_specialist_matches :: u32
  ac_payload_bytes :: u32
  ac_evaluation :: CandidateEvaluationSummary

record ArbitrationInputs =
  ai_candidates :: "ArbitrationCandidateInput list"
  ai_policy :: ArbitrationPolicy
  ai_aggregation :: AggregationPolicy
  ai_evidence :: EvidenceRequirement
  ai_quorum_satisfied :: bool
  ai_ensemble_generation :: EnsembleGeneration
  ai_coordinator_epoch :: CoordinatorEpoch
  ai_sequence :: Sequence

definition render_factors :: "ArbitrationFactor list \<Rightarrow> string" where
  "render_factors factors =
     (if factors = [] then ''aggregate_score'' else join (map factor_to_string factors) ''>'')"

section \<open>Ranking factors\<close>

definition higher_is_better :: "ArbitrationFactor \<Rightarrow> bool" where
  "higher_is_better f \<longleftrightarrow> \<not> (f = AF_execution_cost \<or> f = AF_latency)"

definition ratio32 :: "u32 \<Rightarrow> u32 \<Rightarrow> double" where
  "ratio32 a b = d_div (d_of_u32 a) (d_of_u32 b)"

fun factor_value :: "ArbitrationFactor \<Rightarrow> ArbitrationCandidateInput \<Rightarrow> double" where
  "factor_value AF_judge_acceptance_ratio c =
     (let e = ac_evaluation c; decided = sm_accepts e + sm_rejects e
      in if decided = 0 then d_zero else ratio32 (sm_accepts e) decided)"
| "factor_value AF_verifier_state c =
     (let e = ac_evaluation c
      in if 0 < sm_verifier_fail e then d_zero
         else if 0 < sm_verifier_pass e then d_two
         else if 0 < sm_verifier_abstain e then d_half else d_zero)"
| "factor_value AF_vote_count c = d_of_u32 (sm_accepts (ac_evaluation c))"
| "factor_value AF_weighted_vote c =
     (if d_less d_zero (sm_weighted_score_sum (ac_evaluation c))
      then sm_weighted_score_sum (ac_evaluation c) else d_zero)"
| "factor_value AF_aggregate_score c = mean_score (ac_evaluation c)"
| "factor_value AF_min_score c =
     (if sm_evaluations (ac_evaluation c) = 0 then d_zero else sm_min_score (ac_evaluation c))"
| "factor_value AF_confidence c =
     (if sm_evaluations (ac_evaluation c) = 0 then d_zero
      else ratio32 (sm_accepts (ac_evaluation c)) (sm_evaluations (ac_evaluation c)))"
| "factor_value AF_participant_priority c = d_of_u32 (ac_participant_priority c)"
| "factor_value AF_specialist_relevance c = d_of_u32 (ac_specialist_matches c)"
| "factor_value AF_execution_cost c = d_of_u32 (ac_execution_cost c)"
| "factor_value AF_latency c = d_of_u32 (ac_latency c)"
| "factor_value AF_provenance_quality c = (if ac_participant_authoritative c then d_one else d_zero)"
| "factor_value AF_fallback_status c = (if ac_fallback c then d_one else d_zero)"

abbreviation text32 :: "u32 \<Rightarrow> string" where
  "text32 w \<equiv> dec_string (unat w)"

fun factor_detail :: "ArbitrationFactor \<Rightarrow> ArbitrationCandidateInput \<Rightarrow> string option" where
  "factor_detail AF_judge_acceptance_ratio c =
     Some (''accepts='' @ text32 (sm_accepts (ac_evaluation c)) @ '' rejects='' @
           text32 (sm_rejects (ac_evaluation c)))"
| "factor_detail AF_verifier_state c =
     Some (''pass='' @ text32 (sm_verifier_pass (ac_evaluation c)) @
           '' fail='' @ text32 (sm_verifier_fail (ac_evaluation c)) @
           '' abstain='' @ text32 (sm_verifier_abstain (ac_evaluation c)) @
           '' unknown='' @ text32 (sm_verifier_unknown (ac_evaluation c)))"
| "factor_detail AF_vote_count c = Some (''accepts='' @ text32 (sm_accepts (ac_evaluation c)))"
| "factor_detail AF_weighted_vote c =
     map_option (\<lambda>s. ''weighted_score_sum='' @ s) (format_double (sm_weighted_score_sum (ac_evaluation c)))"
| "factor_detail AF_aggregate_score c =
     map_option (\<lambda>s. ''mean_score='' @ s @ '' evaluations='' @ text32 (sm_evaluations (ac_evaluation c)))
       (format_double (mean_score (ac_evaluation c)))"
| "factor_detail AF_min_score c =
     map_option (\<lambda>s. ''min_score='' @ s) (format_double (sm_min_score (ac_evaluation c)))"
| "factor_detail AF_confidence c =
     Some (''confidence_inputs='' @ text32 (sm_evaluations (ac_evaluation c)))"
| "factor_detail AF_participant_priority c =
     Some (''participant_priority='' @ text32 (ac_participant_priority c))"
| "factor_detail AF_specialist_relevance c =
     Some (''domain_matches='' @ text32 (ac_specialist_matches c))"
| "factor_detail AF_execution_cost c = Some (''budget_units='' @ text32 (ac_execution_cost c))"
| "factor_detail AF_latency c = Some (''logical_latency='' @ text32 (ac_latency c))"
| "factor_detail AF_provenance_quality c =
     Some (if ac_participant_authoritative c then ''authoritative'' else ''not_authoritative'')"
| "factor_detail AF_fallback_status c = Some (if ac_fallback c then ''fallback'' else ''primary'')"

definition factor_precedes ::
    "ArbitrationFactor \<Rightarrow> ArbitrationCandidateInput \<Rightarrow> ArbitrationCandidateInput \<Rightarrow> bool" where
  "factor_precedes f l r \<longleftrightarrow>
     (let left = factor_value f l; right = factor_value f r
      in if d_eq left right then False
         else if higher_is_better f then d_less right left else d_less left right)"

definition factor_ties ::
    "ArbitrationFactor \<Rightarrow> ArbitrationCandidateInput \<Rightarrow> ArbitrationCandidateInput \<Rightarrow> bool" where
  "factor_ties f l r \<longleftrightarrow> d_eq (factor_value f l) (factor_value f r)"

text \<open>The comparator handed to \<^verbatim>\<open>std::sort\<close>.\<close>

fun arb_precedes ::
    "ArbitrationFactor list \<Rightarrow> ArbitrationCandidateInput \<Rightarrow> ArbitrationCandidateInput \<Rightarrow> bool" where
  "arb_precedes [] l r = (ac_candidate l < ac_candidate r)"
| "arb_precedes (f # fs) l r =
     (if factor_ties f l r then arb_precedes fs l r else factor_precedes f l r)"

section \<open>Hard eligibility\<close>

record Eligibility =
  el_eligible :: bool
  el_reason :: EliminationReason
  el_detail :: "string option"

definition eliminated :: "EliminationReason \<Rightarrow> string option \<Rightarrow> Eligibility" where
  "eliminated reason detail = \<lparr>el_eligible = False, el_reason = reason, el_detail = detail\<rparr>"

definition admitted :: Eligibility where
  "admitted = \<lparr>el_eligible = True, el_reason = X_none, el_detail = Some []\<rparr>"

definition state_elimination :: "CandidateState \<Rightarrow> Eligibility option" where
  "state_elimination s =
     (case s of
        C_superseded \<Rightarrow> Some (eliminated X_superseded (Some ''candidate was superseded by a newer generation''))
      | C_cancelled \<Rightarrow> Some (eliminated X_cancelled (Some ''candidate was cancelled''))
      | C_failed \<Rightarrow> Some (eliminated X_failed_attempt (Some ''candidate attempt failed''))
      | C_abstained \<Rightarrow> Some (eliminated X_abstained (Some ''participant abstained and produced no content''))
      | C_invalid \<Rightarrow> Some (eliminated X_invalid_candidate (Some ''candidate did not pass validation''))
      | _ \<Rightarrow> if \<not> is_content_state s
             then Some (eliminated X_not_a_content_state (Some ''candidate has not produced content yet''))
             else None)"

definition participant_elimination :: "ArbitrationCandidateInput \<Rightarrow> Eligibility option" where
  "participant_elimination c =
     (if \<not> ac_participant_authoritative c
      then Some (eliminated X_participant_not_authoritative
                   (Some ''producing participant is not authoritative in the current epoch''))
      else if \<not> ac_compatible c
      then Some (eliminated X_incompatible_participant
                   (Some ''producing participant is incompatible with the ensemble requirement''))
      else if \<not> ac_role_selectable c
      then Some (eliminated X_not_selectable_role
                   (Some ''participant role may not become the final answer under this policy''))
      else None)"

definition mandatory_elimination ::
    "EvidenceRequirement \<Rightarrow> CandidateEvaluationSummary \<Rightarrow> Eligibility option" where
  "mandatory_elimination ev e =
     (if ev_mandatory_criteria ev = [] then None
      else if 0 < sm_hard_failures e
      then Some (eliminated X_hard_predicate_failed
             (Some (''failed '' @ text32 (sm_hard_failures e) @ '' mandatory validation predicate(s)'')))
      else if 0 < sm_hard_unknowns e \<and> ev_unknown_verification_is_failure ev
      then Some (eliminated X_hard_predicate_failed
             (Some ''mandatory validation predicate returned UNKNOWN, which this policy treats as failure''))
      else if unat (sm_hard_predicates e) < length (ev_mandatory_criteria ev)
      then Some (eliminated X_missing_required_evidence
             (Some (''missing evidence for '' @
                    dec_string (length (ev_mandatory_criteria ev) - unat (sm_hard_predicates e)) @
                    '' mandatory validation predicate(s)'')))
      else None)"

definition verifier_elimination :: "CandidateEvaluationSummary \<Rightarrow> Eligibility option" where
  "verifier_elimination e =
     (if 0 < sm_verifier_fail e
      then Some (eliminated X_verifier_failed (Some ''a verifier returned FAIL''))
      else if sm_verifier_pass e = 0
      then Some (eliminated X_verifier_failed (Some (
             if 0 < sm_verifier_unknown e
             then ''verification is UNKNOWN; this policy admits only an explicit PASS''
             else if 0 < sm_verifier_abstain e
             then ''verification abstained; this policy admits only an explicit PASS''
             else ''no verifier returned PASS for this candidate'')))
      else None)"

definition judge_elimination :: "AggregationPolicy \<Rightarrow> CandidateEvaluationSummary \<Rightarrow> Eligibility option" where
  "judge_elimination ag e =
     (let decided = sm_accepts e + sm_rejects e;
          ratio = (if decided = 0 then d_zero else ratio32 (sm_accepts e) decided)
      in if decided = 0 \<or> d_less ratio (ag_min_judge_acceptance_ratio ag)
         then Some (eliminated X_insufficient_judge_acceptance
                (Option.bind (format_double ratio) (\<lambda>r. map_option (\<lambda>m.
                   ''judge acceptance ratio '' @ r @ '' is below the required minimum '' @ m)
                   (format_double (ag_min_judge_acceptance_ratio ag)))))
         else None)"

definition score_elimination ::
    "ArbitrationInputs \<Rightarrow> CandidateEvaluationSummary \<Rightarrow> Eligibility option" where
  "score_elimination inp e =
     (if sm_evaluations e < ev_min_evaluations_per_candidate (ai_evidence inp)
      then Some (eliminated X_missing_required_evidence
             (Some (''candidate has '' @ text32 (sm_evaluations e) @ '' evaluation(s), the ensemble requires '' @
                    text32 (ev_min_evaluations_per_candidate (ai_evidence inp)))))
      else if d_less d_zero (ag_min_aggregate_score (ai_aggregation inp)) \<and>
              d_less (mean_score e) (ag_min_aggregate_score (ai_aggregation inp))
      then Some (eliminated X_below_minimum_score
             (Option.bind (format_double (mean_score e)) (\<lambda>r. map_option (\<lambda>m.
                ''aggregate score '' @ r @ '' is below the required minimum '' @ m)
                (format_double (ag_min_aggregate_score (ai_aggregation inp))))))
      else None)"

fun first_elimination :: "Eligibility option list \<Rightarrow> Eligibility" where
  "first_elimination [] = admitted"
| "first_elimination (Some e # xs) = e"
| "first_elimination (None # xs) = first_elimination xs"

definition check_eligibility ::
    "ArbitrationCandidateInput \<Rightarrow> ArbitrationInputs \<Rightarrow> bool \<Rightarrow> bool \<Rightarrow> Eligibility" where
  "check_eligibility c inp verifier_gating judge_gating =
     first_elimination
       [if \<not> ac_generation_current c
        then Some (eliminated X_stale_generation (Some ''candidate generation is no longer current'')) else None,
        state_elimination (ac_state c),
        participant_elimination c,
        mandatory_elimination (ai_evidence inp) (ac_evaluation c),
        if verifier_gating then verifier_elimination (ac_evaluation c) else None,
        if judge_gating then judge_elimination (ai_aggregation inp) (ac_evaluation c) else None,
        score_elimination inp (ac_evaluation c)]"

definition verifier_gating :: "ArbitrationInputs \<Rightarrow> bool" where
  "verifier_gating inp \<longleftrightarrow>
     ag_require_verification_pass (ai_aggregation inp) \<or> ag_kind (ai_aggregation inp) = AK_verifier_gated"

definition judge_gating :: "ArbitrationInputs \<Rightarrow> bool" where
  "judge_gating inp \<longleftrightarrow>
     ag_require_judge_acceptance (ai_aggregation inp) \<or> ag_kind (ai_aggregation inp) = AK_judge_arbitration"

definition eligibility :: "ArbitrationInputs \<Rightarrow> ArbitrationCandidateInput \<Rightarrow> Eligibility" where
  "eligibility inp c = check_eligibility c inp (verifier_gating inp) (judge_gating inp)"

section \<open>The decision\<close>

definition initial_ranking :: "ArbitrationInputs \<Rightarrow> ArbitrationCandidateInput \<Rightarrow> CandidateRanking" where
  "initial_ranking inp c =
     (let e = eligibility inp c
      in \<lparr>rk_candidate = ac_candidate c, rk_generation = ac_generation c, rk_participant = ac_participant c,
          rk_participant_generation = ac_participant_generation c, rk_role = ac_role c,
          rk_eligible = el_eligible e, rk_elimination = el_reason e, rk_elimination_detail = el_detail e,
          rk_factors = (if el_eligible e
                        then map (\<lambda>f. \<lparr>fv_factor = f, fv_value = factor_value f c, fv_detail = factor_detail f c\<rparr>)
                               (ab_factors (ai_policy inp))
                        else []),
          rk_rank = - 1, rk_selected = False\<rparr>)"

definition eligible_candidates :: "ArbitrationInputs \<Rightarrow> ArbitrationCandidateInput list" where
  "eligible_candidates inp = filter (\<lambda>c. el_eligible (eligibility inp c)) (ai_candidates inp)"

definition ranked_candidates :: "ArbitrationInputs \<Rightarrow> ArbitrationCandidateInput list" where
  "ranked_candidates inp = sort_by (arb_precedes (ab_factors (ai_policy inp))) (eligible_candidates inp)"

definition top_tie :: "ArbitrationFactor list \<Rightarrow> ArbitrationCandidateInput list \<Rightarrow> bool" where
  "top_tie factors ranked =
     (case ranked of
        a # b # _ \<Rightarrow> list_all (\<lambda>f. factor_ties f a b) factors
      | _ \<Rightarrow> False)"

fun assign_ranks :: "int \<Rightarrow> ArbitrationCandidateInput list \<Rightarrow> CandidateRanking list \<Rightarrow> CandidateRanking list" where
  "assign_ranks rank [] ranking = ranking"
| "assign_ranks rank (c # cs) ranking =
     assign_ranks (rank + 1) cs
       (update_first (\<lambda>r. rk_candidate r = ac_candidate c) (\<lambda>r. r\<lparr>rk_rank := rank + 1\<rparr>) ranking)"

definition reorder_ranking ::
    "ArbitrationCandidateInput list \<Rightarrow> CandidateRanking list \<Rightarrow> CandidateRanking list" where
  "reorder_ranking ranked ranking =
     List.map_filter (\<lambda>c. find (\<lambda>r. rk_candidate r = ac_candidate c \<and> rk_eligible r) ranking) ranked @
     filter (\<lambda>r. \<not> rk_eligible r) ranking"

definition select_candidate :: "ArbitrationCandidateInput \<Rightarrow> ArbitrationReport \<Rightarrow> ArbitrationReport" where
  "select_candidate c r =
     r\<lparr>ar_selected := ac_candidate c, ar_selected_generation := ac_generation c,
       ar_selected_participant := ac_participant c, ar_selected_role := ac_role c\<rparr>"

definition add_note :: "string \<Rightarrow> ArbitrationReport \<Rightarrow> ArbitrationReport" where
  "add_note n r = r\<lparr>ar_notes := ar_notes r @ [n]\<rparr>"

text \<open>The runner-up wins a tie: every ranking entry with its identity is marked.\<close>

definition select_second :: "ArbitrationCandidateInput \<Rightarrow> string \<Rightarrow> ArbitrationReport \<Rightarrow> ArbitrationReport" where
  "select_second c note r =
     (let r = add_note note (select_candidate c r)
      in r\<lparr>ar_ranking := map (\<lambda>k. if rk_candidate k = ar_selected r then k\<lparr>rk_selected := True\<rparr> else k)
                          (ar_ranking r)\<rparr>)"

definition select_winner :: "ArbitrationFactor list \<Rightarrow> ArbitrationCandidateInput \<Rightarrow> ArbitrationReport \<Rightarrow> ArbitrationReport" where
  "select_winner factors c r =
     (let r = select_candidate c r
      in add_note (''selected by factor order: '' @ render_factors factors)
           (r\<lparr>ar_ranking := update_first (\<lambda>k. rk_candidate k = ar_selected r \<and> rk_eligible k)
                               (\<lambda>k. k\<lparr>rk_selected := True\<rparr>) (ar_ranking r)\<rparr>))"

definition resolve_tie ::
    "ArbitrationFactor list \<Rightarrow> TieBreakPolicy \<Rightarrow> ArbitrationCandidateInput \<Rightarrow> ArbitrationCandidateInput \<Rightarrow>
     ArbitrationReport \<Rightarrow> ArbitrationReport" where
  "resolve_tie factors policy a b r =
     (case policy of
        TB_report_tie \<Rightarrow>
          add_note ''the two highest ranked candidates are indistinguishable on every configured factor; the policy reports a tie''
            (r\<lparr>ar_tie_unresolved := True\<rparr>)
      | TB_lowest_candidate_id \<Rightarrow>
          select_winner factors a
            (add_note ''tie resolved by stable candidate identity (lowest identity wins)'' r)
      | TB_highest_score_then_id \<Rightarrow>
          if d_less (mean_score (ac_evaluation a)) (mean_score (ac_evaluation b))
          then select_second b ''tie resolved by highest aggregate score'' r
          else select_winner factors a
                 (add_note ''tie resolved by stable candidate identity (equal aggregate scores)'' r)
      | TB_prefer_required_participant \<Rightarrow>
          if \<not> ac_required_participant a \<and> ac_required_participant b
          then select_second b ''tie resolved in favour of a required participant'' r
          else select_winner factors a (add_note ''tie resolved by stable candidate identity'' r))"

definition arbitrate :: "ArbitrationInputs \<Rightarrow> ArbitrationReport" where
  "arbitrate inp =
     (let factors = ab_factors (ai_policy inp);
          ranking = map (initial_ranking inp) (ai_candidates inp);
          r = arbitration_report_default\<lparr>
                ar_ensemble_generation := ai_ensemble_generation inp,
                ar_coordinator_epoch := ai_coordinator_epoch inp,
                ar_computed_sequence := ai_sequence inp,
                ar_tie_break := ab_tie_break (ai_policy inp),
                ar_factor_order := factors,
                ar_considered := size32 (ai_candidates inp),
                ar_eliminated := size32 (filter (\<lambda>k. \<not> rk_eligible k) ranking),
                ar_ranking := ranking\<rparr>
      in case ranked_candidates inp of
           [] \<Rightarrow> add_note ''no candidate satisfied hard eligibility'' (r\<lparr>ar_no_eligible_candidate := True\<rparr>)
         | winner # rest \<Rightarrow>
             (let ranked = winner # rest;
                  r = r\<lparr>ar_ranking := reorder_ranking ranked (assign_ranks 0 ranked ranking)\<rparr>
              in if top_tie factors ranked
                 then resolve_tie factors (ab_tie_break (ai_policy inp)) winner (hd rest) r
                 else select_winner factors winner r))"

definition arbitration_render :: "ArbitrationReport \<Rightarrow> string" where
  "arbitration_render r =
     ''arbitration factors='' @ render_factors (ar_factor_order r) @
     '' considered='' @ text32 (ar_considered r) @
     '' eliminated='' @ text32 (ar_eliminated r) @
     '' selected='' @ id_to_string (ar_selected r) @
     '' tie_break='' @ tie_break_to_string (ar_tie_break r) @
     (if ar_tie_unresolved r then '' tie_unresolved=true'' else []) @
     (if ar_no_eligible_candidate r then '' no_eligible_candidate=true'' else [])"

section \<open>The candidate order\<close>

lemma factor_precedes_asym: "factor_precedes f l r \<Longrightarrow> \<not> factor_precedes f r l"
  by (auto simp: factor_precedes_def Let_def d_less_def d_eq_def split: if_splits)

definition comparable :: "ArbitrationFactor list \<Rightarrow> ArbitrationCandidateInput set" where
  "comparable fs = {c. \<forall>f \<in> set fs. \<not> d_isnan (factor_value f c)}"

lemma factor_precedes_iff:
  "\<not> d_isnan (factor_value f l) \<Longrightarrow> \<not> d_isnan (factor_value f r) \<Longrightarrow>
   factor_precedes f l r \<longleftrightarrow> (if higher_is_better f then d_key (factor_value f r) < d_key (factor_value f l)
                            else d_key (factor_value f l) < d_key (factor_value f r))"
  by (auto simp: factor_precedes_def Let_def d_less_def d_eq_def)

lemma factor_ties_iff:
  "\<not> d_isnan (factor_value f l) \<Longrightarrow> \<not> d_isnan (factor_value f r) \<Longrightarrow>
   factor_ties f l r \<longleftrightarrow> d_key (factor_value f l) = d_key (factor_value f r)"
  by (simp add: factor_ties_def d_eq_def)

lemma arb_asym: "arb_precedes fs x y \<Longrightarrow> \<not> arb_precedes fs y x"
proof (induction fs)
  case (Cons f fs)
  have "factor_ties f x y \<longleftrightarrow> factor_ties f y x" by (auto simp: factor_ties_def intro: d_eq_sym)
  with Cons show ?case by (auto split: if_splits dest: factor_precedes_asym)
qed auto

lemma arb_trans:
  "x \<in> comparable fs \<Longrightarrow> y \<in> comparable fs \<Longrightarrow> z \<in> comparable fs \<Longrightarrow>
   arb_precedes fs x y \<Longrightarrow> arb_precedes fs y z \<Longrightarrow> arb_precedes fs x z"
proof (induction fs)
  case (Cons f fs)
  then show ?case
    by (auto simp: comparable_def factor_ties_iff factor_precedes_iff split: if_splits)
qed auto

lemma arb_total:
  "x \<in> comparable fs \<Longrightarrow> y \<in> comparable fs \<Longrightarrow> ac_candidate x \<noteq> ac_candidate y \<Longrightarrow>
   arb_precedes fs x y \<or> arb_precedes fs y x"
proof (induction fs)
  case (Cons f fs)
  then show ?case
    by (auto simp: comparable_def factor_ties_iff factor_precedes_iff split: if_splits)
qed auto

interpretation arb: comparator "arb_precedes fs" "comparable fs" ac_candidate for fs
  by unfold_locales (use arb_asym arb_trans arb_total in blast)+

section \<open>Eligibility and selection\<close>

lemma eliminated_simps [simp]: "\<not> el_eligible (eliminated r d)" "el_reason (eliminated r d) = r"
  by (simp_all add: eliminated_def)

lemma admitted_simps [simp]: "el_eligible admitted" "el_reason admitted = X_none"
  by (simp_all add: admitted_def)

lemma first_elimination_Cons [simp]:
  "first_elimination (x # xs) = (case x of None \<Rightarrow> first_elimination xs | Some e \<Rightarrow> e)"
  by (cases x) simp_all

lemma state_elimination_None: "state_elimination s = None \<longleftrightarrow> is_content_state s"
  by (cases s) (simp_all add: state_elimination_def is_content_state_def)

lemma state_elimination_not_eligible: "state_elimination s = Some e \<Longrightarrow> \<not> el_eligible e"
  by (cases s) (auto simp: state_elimination_def split: if_splits)

lemma elimination_not_eligible:
  "participant_elimination c = Some e \<Longrightarrow> \<not> el_eligible e"
  "mandatory_elimination ev s = Some e \<Longrightarrow> \<not> el_eligible e"
  "verifier_elimination s = Some e \<Longrightarrow> \<not> el_eligible e"
  "judge_elimination ag s = Some e \<Longrightarrow> \<not> el_eligible e"
  "score_elimination inp s = Some e \<Longrightarrow> \<not> el_eligible e"
  by (auto simp: participant_elimination_def mandatory_elimination_def verifier_elimination_def
      judge_elimination_def score_elimination_def Let_def split: if_splits)

lemma check_eligibility_iff:
  "el_eligible (check_eligibility c inp vg jg) \<longleftrightarrow>
     ac_generation_current c \<and> is_content_state (ac_state c) \<and> participant_elimination c = None \<and>
     mandatory_elimination (ai_evidence inp) (ac_evaluation c) = None \<and>
     (vg \<longrightarrow> verifier_elimination (ac_evaluation c) = None) \<and>
     (jg \<longrightarrow> judge_elimination (ai_aggregation inp) (ac_evaluation c) = None) \<and>
     score_elimination inp (ac_evaluation c) = None"
  unfolding check_eligibility_def
  by (auto simp: state_elimination_None[symmetric] split: option.splits if_splits
      dest: elimination_not_eligible state_elimination_not_eligible)

lemma ranked_candidates_set:
  "set (ranked_candidates inp) = {c \<in> set (ai_candidates inp). el_eligible (eligibility inp c)}"
  by (simp add: ranked_candidates_def eligible_candidates_def)

lemma select_simps [simp]:
  "ar_selected (select_winner fs c r) = ac_candidate c"
  "ar_selected_generation (select_winner fs c r) = ac_generation c"
  "ar_selected (select_second c n r) = ac_candidate c"
  "ar_selected_generation (select_second c n r) = ac_generation c"
  "ar_tie_unresolved (select_winner fs c r) = ar_tie_unresolved r"
  "ar_tie_unresolved (select_second c n r) = ar_tie_unresolved r"
  "ar_no_eligible_candidate (select_winner fs c r) = ar_no_eligible_candidate r"
  "ar_no_eligible_candidate (select_second c n r) = ar_no_eligible_candidate r"
  "ar_selected (add_note n r) = ar_selected r"
  "ar_tie_unresolved (add_note n r) = ar_tie_unresolved r"
  "ar_no_eligible_candidate (add_note n r) = ar_no_eligible_candidate r"
  by (simp_all add: select_winner_def select_second_def select_candidate_def add_note_def Let_def)

lemma arbitration_default_simps [simp]:
  "ar_selected arbitration_report_default = 0" "\<not> ar_tie_unresolved arbitration_report_default"
  "\<not> ar_no_eligible_candidate arbitration_report_default"
  by (simp_all add: arbitration_report_default_def)

text \<open>Every decision comes from the ranked eligible candidates.\<close>

lemma arbitrate_cases:
  obtains (none) "ranked_candidates inp = []" "ar_selected (arbitrate inp) = 0"
      "ar_no_eligible_candidate (arbitrate inp)" "\<not> ar_tie_unresolved (arbitrate inp)"
  | (tie) a b rest where "ranked_candidates inp = a # b # rest" "ab_tie_break (ai_policy inp) = TB_report_tie"
      "list_all (\<lambda>f. factor_ties f a b) (ab_factors (ai_policy inp))"
      "ar_selected (arbitrate inp) = 0" "ar_tie_unresolved (arbitrate inp)"
      "\<not> ar_no_eligible_candidate (arbitrate inp)"
  | (first) a rest where "ranked_candidates inp = a # rest" "ar_selected (arbitrate inp) = ac_candidate a"
      "\<not> ar_tie_unresolved (arbitrate inp)" "\<not> ar_no_eligible_candidate (arbitrate inp)"
  | (second) a b rest where "ranked_candidates inp = a # b # rest"
      "list_all (\<lambda>f. factor_ties f a b) (ab_factors (ai_policy inp))"
      "ab_tie_break (ai_policy inp) \<in> {TB_highest_score_then_id, TB_prefer_required_participant}"
      "ar_selected (arbitrate inp) = ac_candidate b"
      "\<not> ar_tie_unresolved (arbitrate inp)" "\<not> ar_no_eligible_candidate (arbitrate inp)"
proof (cases "ranked_candidates inp")
  case Nil
  then show ?thesis by (intro none) (simp_all add: arbitrate_def Let_def)
next
  case ranked: (Cons a rest)
  show ?thesis
  proof (cases "top_tie (ab_factors (ai_policy inp)) (a # rest)")
    case False
    with ranked show ?thesis by (intro first) (simp_all add: arbitrate_def Let_def)
  next
    case True
    then obtain b rest' where rest: "rest = b # rest'" and ties: "list_all (\<lambda>f. factor_ties f a b) (ab_factors (ai_policy inp))"
      by (cases rest) (auto simp: top_tie_def)
    note defs = arbitrate_def Let_def resolve_tie_def ranked rest
    show ?thesis
    proof (cases "ab_tie_break (ai_policy inp)")
      case TB_report_tie
      with True ranked rest ties show ?thesis by (intro tie[of a b rest']) (simp_all add: defs)
    next
      case TB_lowest_candidate_id
      with True ranked rest show ?thesis by (intro first[of a rest]) (simp_all add: defs)
    next
      case TB_highest_score_then_id
      show ?thesis
      proof (cases "d_less (mean_score (ac_evaluation a)) (mean_score (ac_evaluation b))")
        case True
        with \<open>top_tie _ _\<close> TB_highest_score_then_id ranked rest ties show ?thesis
          by (intro second[of a b rest']) (simp_all add: defs)
      next
        case False
        with \<open>top_tie _ _\<close> TB_highest_score_then_id ranked rest show ?thesis
          by (intro first[of a rest]) (simp_all add: defs)
      qed
    next
      case TB_prefer_required_participant
      show ?thesis
      proof (cases "\<not> ac_required_participant a \<and> ac_required_participant b")
        case True
        with \<open>top_tie _ _\<close> TB_prefer_required_participant ranked rest ties show ?thesis
          by (intro second[of a b rest']) (simp_all add: defs)
      next
        case False
        with \<open>top_tie _ _\<close> TB_prefer_required_participant ranked rest show ?thesis
          by (intro first[of a rest]) (auto simp add: defs)
      qed
    qed
  qed
qed

lemma arbitrate_selected_eligible:
  assumes "ar_selected (arbitrate inp) \<noteq> 0"
  shows "\<exists>c \<in> set (ai_candidates inp). ac_candidate c = ar_selected (arbitrate inp) \<and> el_eligible (eligibility inp c)"
proof -
  have r: "c \<in> set (ai_candidates inp) \<and> el_eligible (eligibility inp c)" if "c \<in> set (ranked_candidates inp)" for c
    using that by (simp add: ranked_candidates_set)
  show ?thesis
  proof (cases rule: arbitrate_cases[of inp])
    case (first a rest)
    then show ?thesis using r[of a] by auto
  next
    case (second a b rest)
    then show ?thesis using r[of b] by auto
  qed (use assms in auto)
qed

end
