(* ===== verification/Results.thy ===== *)
theory Results
  imports Consensus Arbitration
begin

text \<open>
  The authoritative result, its commit record and its fingerprint (\<^verbatim>\<open>result.hpp\<close>,
  \<^verbatim>\<open>result.cpp\<close>, \<^verbatim>\<open>explanation.hpp\<close>).
\<close>

datatype EnsembleDecision =
    D_pending | D_committed | D_cancelled | D_superseded | D_failed | D_revalidation_required
    | D_no_eligible_candidate | D_fallback_required

fun decision_code :: "EnsembleDecision \<Rightarrow> u8" where
  "decision_code D_pending = 0"
| "decision_code D_committed = 1"
| "decision_code D_cancelled = 2"
| "decision_code D_superseded = 3"
| "decision_code D_failed = 4"
| "decision_code D_revalidation_required = 5"
| "decision_code D_no_eligible_candidate = 6"
| "decision_code D_fallback_required = 7"

fun decision_to_string :: "EnsembleDecision \<Rightarrow> string" where
  "decision_to_string D_pending = ''PENDING''"
| "decision_to_string D_committed = ''COMMITTED''"
| "decision_to_string D_cancelled = ''CANCELLED''"
| "decision_to_string D_superseded = ''SUPERSEDED''"
| "decision_to_string D_failed = ''FAILED''"
| "decision_to_string D_revalidation_required = ''REVALIDATION_REQUIRED''"
| "decision_to_string D_no_eligible_candidate = ''NO_ELIGIBLE_CANDIDATE''"
| "decision_to_string D_fallback_required = ''FALLBACK_REQUIRED''"

record ExplanationEntry =
  xp_subject :: string
  xp_detail :: "string option"

record ParticipantOutcome =
  po_id :: ParticipantId
  po_generation :: ParticipantGeneration
  po_roles :: RoleSet
  po_required :: bool
  po_final_status :: ParticipantStatus
  po_candidates :: u32
  po_candidates_valid :: u32
  po_candidates_failed :: u32
  po_candidates_abstained :: u32
  po_evaluations :: u32
  po_retries :: u32
  po_fallback :: bool
  po_authoritative :: bool

record CommitRecord =
  cm_result :: ResultId
  cm_generation :: ResultGeneration
  cm_sequence :: Sequence
  cm_coordinator_epoch :: CoordinatorEpoch
  cm_execution :: EnsembleExecutionId
  cm_attempt_generation :: EnsembleAttemptGeneration
  cm_decision :: EnsembleDecision
  cm_commit_fingerprint :: u64

record EnsembleResult =
  rs_id :: ResultId
  rs_generation :: ResultGeneration
  rs_ensemble :: EnsembleId
  rs_ensemble_generation :: EnsembleGeneration
  rs_execution :: EnsembleExecutionId
  rs_attempt_generation :: EnsembleAttemptGeneration
  rs_coordinator_epoch :: CoordinatorEpoch
  rs_decision :: EnsembleDecision
  rs_has_selected :: bool
  rs_selected_candidate :: CandidateId
  rs_selected_candidate_generation :: CandidateGeneration
  rs_selected_participant :: ParticipantId
  rs_selected_participant_generation :: ParticipantGeneration
  rs_selected_role :: ParticipantRole
  rs_payload :: bytes
  rs_payload_digest :: u64
  rs_payload_bytes :: u32
  rs_quorum :: QuorumReport
  rs_consensus :: ConsensusReport
  rs_arbitration :: ArbitrationReport
  rs_participants :: "ParticipantOutcome list"
  rs_candidates :: "CandidateSnapshot list"
  rs_evaluations :: "EvaluationSnapshot list"
  rs_explanation :: "ExplanationEntry list"
  rs_fallback_used :: bool
  rs_fallback_depth :: u32
  rs_commit_sequence :: Sequence
  rs_commit_fingerprint :: u64

definition result_default :: EnsembleResult where
  "result_default = \<lparr>rs_id = 0, rs_generation = 0, rs_ensemble = 0, rs_ensemble_generation = 0,
     rs_execution = 0, rs_attempt_generation = 0, rs_coordinator_epoch = 0, rs_decision = D_pending,
     rs_has_selected = False, rs_selected_candidate = 0, rs_selected_candidate_generation = 0,
     rs_selected_participant = 0, rs_selected_participant_generation = 0, rs_selected_role = R_candidate,
     rs_payload = [], rs_payload_digest = 0, rs_payload_bytes = 0, rs_quorum = quorum_report_default,
     rs_consensus = consensus_report_default, rs_arbitration = arbitration_report_default,
     rs_participants = [], rs_candidates = [], rs_evaluations = [], rs_explanation = [],
     rs_fallback_used = False, rs_fallback_depth = 0, rs_commit_sequence = 0, rs_commit_fingerprint = 0\<rparr>"

definition result_authoritative :: "EnsembleResult \<Rightarrow> bool" where
  "result_authoritative r \<longleftrightarrow> rs_decision r = D_committed \<and> rs_has_selected r"

definition commit_fingerprint :: "EnsembleResult \<Rightarrow> u64" where
  "commit_fingerprint r =
     hash_items
       [HU (rs_ensemble r), HU (rs_ensemble_generation r), HU (rs_execution r),
        HU (rs_attempt_generation r), HU (rs_coordinator_epoch r), HW (decision_code (rs_decision r)),
        HB (rs_has_selected r), HU (rs_selected_candidate r), HU (rs_selected_candidate_generation r),
        HU (rs_selected_participant r), HU (rs_payload_digest r), HB (rs_fallback_used r),
        HW (rs_fallback_depth r), HW (consensus_state_code (cr_state (rs_consensus r)))]"

text \<open>The fields that committing rewrites are not part of the fingerprint.\<close>

lemma commit_fingerprint_frame [simp]:
  "commit_fingerprint (r\<lparr>rs_id := i\<rparr>) = commit_fingerprint r"
  "commit_fingerprint (r\<lparr>rs_generation := g\<rparr>) = commit_fingerprint r"
  "commit_fingerprint (r\<lparr>rs_commit_sequence := s\<rparr>) = commit_fingerprint r"
  "commit_fingerprint (r\<lparr>rs_commit_fingerprint := f\<rparr>) = commit_fingerprint r"
  "commit_fingerprint (r\<lparr>rs_candidates := cs\<rparr>) = commit_fingerprint r"
  by (simp_all add: commit_fingerprint_def)

end
