(* ===== verification/Fabric_State.thy ===== *)
theory Fabric_State
  imports Results
begin

text \<open>
  The mutable state of the runtime (\<^verbatim>\<open>src/fabric_internal.hpp\<close>, the configuration, counters
  and actions of \<^verbatim>\<open>fabric.hpp\<close>) and the searches every operation starts from. Pointers into
  the state become keys: an operation looks a record up, computes its new value and stores it
  back under the same key. The shared mutex makes each operation atomic, so an operation is a
  function from the state to the state and a result.
\<close>

datatype ExecutionStatus =
    XS_none | XS_open | XS_committed | XS_cancelled | XS_superseded | XS_revalidation_required
    | XS_failed | XS_no_eligible_candidate

fun execution_status_code :: "ExecutionStatus \<Rightarrow> u8" where
  "execution_status_code XS_none = 0"
| "execution_status_code XS_open = 1"
| "execution_status_code XS_committed = 2"
| "execution_status_code XS_cancelled = 3"
| "execution_status_code XS_superseded = 4"
| "execution_status_code XS_revalidation_required = 5"
| "execution_status_code XS_failed = 6"
| "execution_status_code XS_no_eligible_candidate = 7"

fun execution_status_to_string :: "ExecutionStatus \<Rightarrow> string" where
  "execution_status_to_string XS_none = ''NONE''"
| "execution_status_to_string XS_open = ''OPEN''"
| "execution_status_to_string XS_committed = ''COMMITTED''"
| "execution_status_to_string XS_cancelled = ''CANCELLED''"
| "execution_status_to_string XS_superseded = ''SUPERSEDED''"
| "execution_status_to_string XS_revalidation_required = ''REVALIDATION_REQUIRED''"
| "execution_status_to_string XS_failed = ''FAILED''"
| "execution_status_to_string XS_no_eligible_candidate = ''NO_ELIGIBLE_CANDIDATE''"

record ParticipantRecord =
  pr_id :: ParticipantId
  pr_generation :: ParticipantGeneration
  pr_declaration :: ParticipantSpec
  pr_status :: ParticipantStatus
  pr_worker :: WorkerId
  pr_worker_boot :: WorkerBootId
  pr_coordinator_epoch :: CoordinatorEpoch
  pr_profile :: CompatibilityProfile
  pr_registered :: bool
  pr_failure_detail :: string
  pr_replacement_count :: u32
  pr_candidates_completed :: u32
  pr_candidates_failed :: u32
  pr_candidates_abstained :: u32
  pr_evaluations_submitted :: u32
  pr_retries_consumed :: u32
  pr_fallback_activated :: bool

definition participant_record_init :: "ParticipantSpec \<Rightarrow> ParticipantRecord" where
  "participant_record_init declaration =
     \<lparr>pr_id = ps_id declaration, pr_generation = 1, pr_declaration = declaration,
      pr_status = PS_revalidation_required, pr_worker = 0, pr_worker_boot = 0, pr_coordinator_epoch = 0,
      pr_profile = profile_default, pr_registered = False, pr_failure_detail = [],
      pr_replacement_count = 0, pr_candidates_completed = 0, pr_candidates_failed = 0,
      pr_candidates_abstained = 0, pr_evaluations_submitted = 0, pr_retries_consumed = 0,
      pr_fallback_activated = False\<rparr>"

definition authoritative :: "CoordinatorEpoch \<Rightarrow> ParticipantRecord \<Rightarrow> bool" where
  "authoritative epoch p \<longleftrightarrow> pr_registered p \<and> pr_status p = PS_current \<and> pr_coordinator_epoch p = epoch"

definition capable :: "ParticipantRecord \<Rightarrow> bool" where
  "capable p \<longleftrightarrow> pr_status p = PS_current \<or> pr_status p = PS_revalidation_required"

record CandidateRecord =
  cd_id :: CandidateId
  cd_generation :: CandidateGeneration
  cd_participant :: ParticipantId
  cd_participant_generation :: ParticipantGeneration
  cd_role :: ParticipantRole
  cd_stage :: StageId
  cd_state :: CandidateState
  cd_attempt :: u32
  cd_attempts_used :: u32
  cd_domain :: string
  cd_payload :: bytes
  cd_payload_digest :: u64
  cd_received_sequence :: Sequence
  cd_worker :: WorkerId
  cd_worker_boot :: WorkerBootId
  cd_coordinator_epoch :: CoordinatorEpoch
  cd_dispatch_sequence :: Sequence
  cd_failure :: EnsembleError
  cd_failure_detail :: string
  cd_evaluation_count :: u32
  cd_hard_failures :: u32
  cd_hard_unknowns :: u32
  cd_hard_predicates :: u32
  cd_budget_units_used :: u32
  cd_latency :: u32
  cd_fallback :: bool
  cd_current :: bool
  cd_elimination_reason :: string

definition candidate_record_default :: CandidateRecord where
  "candidate_record_default =
     \<lparr>cd_id = 0, cd_generation = 0, cd_participant = 0, cd_participant_generation = 0,
      cd_role = R_candidate, cd_stage = 0, cd_state = C_declared, cd_attempt = 1, cd_attempts_used = 0,
      cd_domain = [], cd_payload = [], cd_payload_digest = 0, cd_received_sequence = 0, cd_worker = 0,
      cd_worker_boot = 0, cd_coordinator_epoch = 0, cd_dispatch_sequence = 0, cd_failure = E_ok,
      cd_failure_detail = [], cd_evaluation_count = 0, cd_hard_failures = 0, cd_hard_unknowns = 0,
      cd_hard_predicates = 0, cd_budget_units_used = 0, cd_latency = 0, cd_fallback = False,
      cd_current = True, cd_elimination_reason = []\<rparr>"

definition in_flight :: "CandidateRecord \<Rightarrow> bool" where
  "in_flight c \<longleftrightarrow> cd_state c = C_declared \<or> cd_state c = C_dispatched"

record EvaluationRecord =
  er_id :: EvaluationId
  er_generation :: EvaluationGeneration
  er_evaluator :: ParticipantId
  er_evaluator_generation :: ParticipantGeneration
  er_role :: ParticipantRole
  er_candidate :: CandidateId
  er_candidate_generation :: CandidateGeneration
  er_criterion :: CriterionRef
  er_kind :: CriterionKind
  er_verification :: VerificationState
  er_judgment :: CategoricalJudgment
  er_score_defined :: bool
  er_score :: double
  er_weight :: double
  er_evidence :: bytes
  er_rationale :: string
  er_received_sequence :: Sequence
  er_coordinator_epoch :: CoordinatorEpoch
  er_worker :: WorkerId
  er_worker_boot :: WorkerBootId
  er_fingerprint :: u64
  er_current :: bool

record PendingEvaluation =
  pe_id :: EvaluationId
  pe_generation :: EvaluationGeneration
  pe_evaluator :: ParticipantId
  pe_evaluator_generation :: ParticipantGeneration
  pe_role :: ParticipantRole
  pe_candidate :: CandidateId
  pe_candidate_generation :: CandidateGeneration
  pe_criterion :: CriterionRef
  pe_kind :: CriterionKind
  pe_emitted :: bool
  pe_answered :: bool
  pe_abandoned :: bool

record ExecutionRecord =
  ex_id :: EnsembleExecutionId
  ex_attempt_generation :: EnsembleAttemptGeneration
  ex_status :: ExecutionStatus
  ex_coordinator_epoch :: CoordinatorEpoch
  ex_candidates :: "CandidateRecord list"
  ex_evaluations :: "EvaluationRecord list"
  ex_pending :: "PendingEvaluation list"
  ex_extra_stages :: "StageSpec list"
  ex_stage_index :: nat
  ex_declared_current_stage :: bool
  ex_planning_complete :: bool
  ex_fallback_activated :: bool
  ex_fallback_depth :: u32
  ex_cancelled_sequence :: Sequence
  ex_cancellation_reason :: string
  ex_cancellation_requested :: bool
  ex_cancellation_emitted :: bool
  ex_has_result :: bool
  ex_result :: EnsembleResult
  ex_commits :: "CommitRecord list"
  ex_commit_attempts :: u64
  ex_report_generation :: u64
  ex_quorum :: QuorumReport
  ex_consensus :: ConsensusReport
  ex_arbitration :: ArbitrationReport
  ex_explanation :: "ExplanationEntry list"
  ex_committed_sequence :: Sequence

definition execution_default :: ExecutionRecord where
  "execution_default =
     \<lparr>ex_id = 0, ex_attempt_generation = 1, ex_status = XS_open, ex_coordinator_epoch = 0,
      ex_candidates = [], ex_evaluations = [], ex_pending = [], ex_extra_stages = [],
      ex_stage_index = 0, ex_declared_current_stage = False, ex_planning_complete = False,
      ex_fallback_activated = False, ex_fallback_depth = 0, ex_cancelled_sequence = 0,
      ex_cancellation_reason = [], ex_cancellation_requested = False, ex_cancellation_emitted = False,
      ex_has_result = False, ex_result = result_default, ex_commits = [], ex_commit_attempts = 0,
      ex_report_generation = 0, ex_quorum = quorum_report_default, ex_consensus = consensus_report_default,
      ex_arbitration = arbitration_report_default, ex_explanation = [], ex_committed_sequence = 0\<rparr>"

record EnsembleRecord =
  en_spec :: EnsembleSpec
  en_participants :: "ParticipantRecord list"
  en_has_execution :: bool
  en_execution :: ExecutionRecord
  en_superseded :: bool
  en_history :: "EnsembleResult list"

definition ensemble_record_init :: "EnsembleSpec \<Rightarrow> EnsembleRecord" where
  "ensemble_record_init spec =
     \<lparr>en_spec = spec, en_participants = [], en_has_execution = False, en_execution = execution_default,
      en_superseded = False, en_history = []\<rparr>"

record Counters =
  ct_commits_accepted :: u64
  ct_commits_rejected_conflicting :: u64
  ct_commits_rejected_stale :: u64
  ct_stale_submissions_rejected :: u64
  ct_duplicate_submissions_suppressed :: u64
  ct_duplicate_votes_suppressed :: u64
  ct_fallback_activations :: u64
  ct_retries_issued :: u64
  ct_cancellations :: u64
  ct_supersessions :: u64
  ct_revalidations_required :: u64

definition counters_zero :: Counters where
  "counters_zero = \<lparr>ct_commits_accepted = 0, ct_commits_rejected_conflicting = 0,
     ct_commits_rejected_stale = 0, ct_stale_submissions_rejected = 0,
     ct_duplicate_submissions_suppressed = 0, ct_duplicate_votes_suppressed = 0,
     ct_fallback_activations = 0, ct_retries_issued = 0, ct_cancellations = 0, ct_supersessions = 0,
     ct_revalidations_required = 0\<rparr>"

record FabricConfig =
  cf_limits :: Limits
  cf_initial_epoch :: CoordinatorEpoch
  cf_coordinator_boot :: WorkerBootId
  cf_require_authoritative_participants :: bool
  cf_deterministic_ids :: bool

record Impl =
  im_config :: FabricConfig
  im_epoch :: CoordinatorEpoch
  im_coordinator_boot :: WorkerBootId
  im_ensemble_ids :: u64
  im_candidate_ids :: u64
  im_evaluation_ids :: u64
  im_result_ids :: u64
  im_sequences :: u64
  im_counters :: Counters
  im_ensembles :: "(u64, EnsembleRecord) omap"

definition fabric_init :: "FabricConfig \<Rightarrow> Impl" where
  "fabric_init config =
     \<lparr>im_config = config,
      im_epoch = (if valid_id (cf_initial_epoch config) then cf_initial_epoch config else 1),
      im_coordinator_boot = (if valid_id (cf_coordinator_boot config) then cf_coordinator_boot config else 1),
      im_ensemble_ids = allocator_init, im_candidate_ids = allocator_init,
      im_evaluation_ids = allocator_init, im_result_ids = allocator_init, im_sequences = allocator_init,
      im_counters = counters_zero, im_ensembles = []\<rparr>"

definition config_default :: FabricConfig where
  "config_default = \<lparr>cf_limits = limits_defaults, cf_initial_epoch = 1, cf_coordinator_boot = 0,
     cf_require_authoritative_participants = True, cf_deterministic_ids = True\<rparr>"

abbreviation im_limits :: "Impl \<Rightarrow> Limits" where
  "im_limits im \<equiv> cf_limits (im_config im)"

section \<open>Actions\<close>

record DispatchAction =
  da_execution :: ExecutionRef
  da_candidate :: CandidateId
  da_candidate_generation :: CandidateGeneration
  da_participant :: ParticipantId
  da_participant_generation :: ParticipantGeneration
  da_role :: ParticipantRole
  da_stage :: StageId
  da_attempt :: u32
  da_budget_units :: u32
  da_deterministic_seed :: u64
  da_domain :: string
  da_request :: bytes
  da_sequence :: Sequence

record EvaluationAction =
  va_execution :: ExecutionRef
  va_evaluation :: EvaluationId
  va_evaluation_generation :: EvaluationGeneration
  va_judge :: ParticipantId
  va_judge_generation :: ParticipantGeneration
  va_role :: ParticipantRole
  va_candidate :: CandidateId
  va_candidate_generation :: CandidateGeneration
  va_criterion :: CriterionRef
  va_criterion_kind :: CriterionKind
  va_domain :: string
  va_sequence :: Sequence

record CancelAction =
  xa_execution :: ExecutionRef
  xa_participant :: ParticipantId
  xa_participant_generation :: ParticipantGeneration
  xa_candidate :: CandidateId
  xa_candidate_generation :: CandidateGeneration
  xa_reason :: string
  xa_sequence :: Sequence

record FallbackAction =
  ba_execution :: ExecutionRef
  ba_participant :: ParticipantId
  ba_participant_generation :: ParticipantGeneration
  ba_trigger :: FallbackTrigger
  ba_depth :: u32
  ba_sequence :: Sequence

datatype FabricAction =
    Dispatch DispatchAction | Evaluate EvaluationAction | Cancel CancelAction | Fallback FallbackAction

section \<open>Searches and updates\<close>

definition next_sequence :: "Impl \<Rightarrow> Sequence \<times> Impl" where
  "next_sequence im =
     (case allocate (im_sequences im) of
        (None, s) \<Rightarrow> (1, im\<lparr>im_sequences := s\<rparr>)
      | (Some v, s) \<Rightarrow> (v, im\<lparr>im_sequences := s\<rparr>))"

definition find_ensemble :: "Impl \<Rightarrow> EnsembleId \<Rightarrow> EnsembleRecord option" where
  "find_ensemble im i = omap_find (im_ensembles im) i"

definition put_ensemble :: "EnsembleId \<Rightarrow> EnsembleRecord \<Rightarrow> Impl \<Rightarrow> Impl" where
  "put_ensemble i en im = im\<lparr>im_ensembles := omap_put i en (im_ensembles im)\<rparr>"

definition find_participant :: "EnsembleRecord \<Rightarrow> ParticipantId \<Rightarrow> ParticipantRecord option" where
  "find_participant en i = find (\<lambda>p. pr_id p = i) (en_participants en)"

definition find_candidate :: "ExecutionRecord \<Rightarrow> CandidateId \<Rightarrow> CandidateRecord option" where
  "find_candidate ex i = find (\<lambda>c. cd_id c = i) (ex_candidates ex)"

definition find_pending :: "ExecutionRecord \<Rightarrow> EvaluationId \<Rightarrow> PendingEvaluation option" where
  "find_pending ex i = find (\<lambda>p. pe_id p = i) (ex_pending ex)"

definition set_participant :: "ParticipantRecord \<Rightarrow> EnsembleRecord \<Rightarrow> EnsembleRecord" where
  "set_participant p en =
     en\<lparr>en_participants := update_first (\<lambda>q. pr_id q = pr_id p) (\<lambda>_. p) (en_participants en)\<rparr>"

definition set_candidate :: "CandidateRecord \<Rightarrow> ExecutionRecord \<Rightarrow> ExecutionRecord" where
  "set_candidate c ex =
     ex\<lparr>ex_candidates := update_first (\<lambda>d. cd_id d = cd_id c) (\<lambda>_. c) (ex_candidates ex)\<rparr>"

definition set_pending :: "PendingEvaluation \<Rightarrow> ExecutionRecord \<Rightarrow> ExecutionRecord" where
  "set_pending p ex =
     ex\<lparr>ex_pending := update_first (\<lambda>q. pe_id q = pe_id p) (\<lambda>_. p) (ex_pending ex)\<rparr>"

definition map_execution :: "(ExecutionRecord \<Rightarrow> ExecutionRecord) \<Rightarrow> EnsembleRecord \<Rightarrow> EnsembleRecord" where
  "map_execution f en = en\<lparr>en_execution := f (en_execution en)\<rparr>"

definition execution_open :: "EnsembleRecord \<Rightarrow> bool" where
  "execution_open en \<longleftrightarrow> en_has_execution en \<and> ex_status (en_execution en) = XS_open"

definition execution_ref :: "EnsembleRecord \<Rightarrow> ExecutionRef" where
  "execution_ref en =
     \<lparr>xr_ensemble = sp_id (en_spec en), xr_ensemble_generation = sp_generation (en_spec en),
      xr_execution = ex_id (en_execution en), xr_attempt_generation = ex_attempt_generation (en_execution en)\<rparr>"

definition bump_stale :: "Impl \<Rightarrow> Impl" where
  "bump_stale im = im\<lparr>im_counters := (im_counters im)\<lparr>ct_stale_submissions_rejected :=
     ct_stale_submissions_rejected (im_counters im) + 1\<rparr>\<rparr>"

definition bump_duplicate :: "Impl \<Rightarrow> Impl" where
  "bump_duplicate im = im\<lparr>im_counters := (im_counters im)\<lparr>ct_duplicate_submissions_suppressed :=
     ct_duplicate_submissions_suppressed (im_counters im) + 1\<rparr>\<rparr>"

definition bump_duplicate_vote :: "Impl \<Rightarrow> Impl" where
  "bump_duplicate_vote im = im\<lparr>im_counters := (im_counters im)\<lparr>ct_duplicate_votes_suppressed :=
     ct_duplicate_votes_suppressed (im_counters im) + 1\<rparr>\<rparr>"

definition bump_supersession :: "Impl \<Rightarrow> Impl" where
  "bump_supersession im = im\<lparr>im_counters := (im_counters im)\<lparr>ct_supersessions :=
     ct_supersessions (im_counters im) + 1\<rparr>\<rparr>"

text \<open>A change of the counters and of the ensemble, result and sequence allocators only.\<close>

definition same_ensembles :: "Impl \<Rightarrow> Impl \<Rightarrow> bool" where
  "same_ensembles im im' \<longleftrightarrow>
     im_ensembles im' = im_ensembles im \<and> im_epoch im' = im_epoch im \<and> im_config im' = im_config im \<and>
     im_candidate_ids im' = im_candidate_ids im \<and> im_evaluation_ids im' = im_evaluation_ids im"

lemma same_ensembles_refl [simp, intro]: "same_ensembles im im"
  by (simp add: same_ensembles_def)

lemma same_ensembles_bump [simp]:
  "same_ensembles im (bump_stale im)" "same_ensembles im (bump_duplicate im)"
  "same_ensembles im (bump_duplicate_vote im)" "same_ensembles im (bump_supersession im)"
  by (simp_all add: same_ensembles_def bump_stale_def bump_duplicate_def bump_duplicate_vote_def
      bump_supersession_def)

lemma next_sequence_frame [simp]:
  "im_ensembles (snd (next_sequence im)) = im_ensembles im"
  "im_epoch (snd (next_sequence im)) = im_epoch im"
  "im_config (snd (next_sequence im)) = im_config im"
  "im_candidate_ids (snd (next_sequence im)) = im_candidate_ids im"
  "im_evaluation_ids (snd (next_sequence im)) = im_evaluation_ids im"
  "im_result_ids (snd (next_sequence im)) = im_result_ids im"
  by (simp_all add: next_sequence_def split: prod.splits option.splits)

lemma same_ensembles_trans: "same_ensembles a b \<Longrightarrow> same_ensembles b c \<Longrightarrow> same_ensembles a c"
  by (simp add: same_ensembles_def)

lemma next_sequence_pair:
  "next_sequence im = (s, im') \<Longrightarrow> im_ensembles im' = im_ensembles im \<and> im_epoch im' = im_epoch im \<and>
     im_config im' = im_config im \<and> im_candidate_ids im' = im_candidate_ids im \<and>
     im_evaluation_ids im' = im_evaluation_ids im \<and> im_result_ids im' = im_result_ids im"
  using next_sequence_frame[of im] by simp

lemma put_ensemble_map [simp]:
  "im_ensembles (put_ensemble i en im) = omap_put i en (im_ensembles im)"
  by (simp add: put_ensemble_def)

lemma find_put_ensemble [simp]:
  "find_ensemble (put_ensemble i en im) j = (if j = i then Some en else find_ensemble im j)"
  by (simp add: find_ensemble_def put_ensemble_def)

lemma put_ensemble_frame [simp]:
  "im_epoch (put_ensemble i en im) = im_epoch im" "im_config (put_ensemble i en im) = im_config im"
  "im_counters (put_ensemble i en im) = im_counters im"
  "im_candidate_ids (put_ensemble i en im) = im_candidate_ids im"
  "im_evaluation_ids (put_ensemble i en im) = im_evaluation_ids im"
  by (simp_all add: put_ensemble_def)

lemma find_participantD: "find_participant en i = Some p \<Longrightarrow> p \<in> set (en_participants en) \<and> pr_id p = i"
  by (auto simp: find_participant_def dest: find_SomeD)

lemma find_candidateD: "find_candidate ex i = Some c \<Longrightarrow> c \<in> set (ex_candidates ex) \<and> cd_id c = i"
  by (auto simp: find_candidate_def dest: find_SomeD)

lemma find_pendingD: "find_pending ex i = Some p \<Longrightarrow> p \<in> set (ex_pending ex) \<and> pe_id p = i"
  by (auto simp: find_pending_def dest: find_SomeD)

lemma find_set_candidate:
  "find_candidate (set_candidate c ex) i =
     (if i = cd_id c then map_option (\<lambda>_. c) (find_candidate ex i) else find_candidate ex i)"
  by (auto simp: find_candidate_def set_candidate_def find_update_first find_update_first_other)

lemma find_set_participant:
  "find_participant (set_participant p en) i =
     (if i = pr_id p then map_option (\<lambda>_. p) (find_participant en i) else find_participant en i)"
  by (auto simp: find_participant_def set_participant_def find_update_first find_update_first_other)

end
