(* ===== verification/Fabric_Core.thy ===== *)
theory Fabric_Core
  imports Fabric_State
begin

text \<open>
  Definition, redefinition and supersession of an ensemble, and the admission check of a
  result (\<^verbatim>\<open>src/fabric.cpp\<close>).
\<close>

section \<open>Derived plans\<close>

definition implicit_stage_member :: "EnsembleSpec \<Rightarrow> ParticipantSpec \<Rightarrow> bool" where
  "implicit_stage_member spec p \<longleftrightarrow>
     (roles_contains (ps_roles p) R_candidate \<or> roles_contains (ps_roles p) R_specialist) \<or>
     (fb_eager_speculative (sp_fallback spec) \<and> roles_contains (ps_roles p) R_fallback)"

definition effective_stages :: "EnsembleSpec \<Rightarrow> StageSpec list" where
  "effective_stages spec =
     (if sp_stages spec \<noteq> [] then sp_stages spec
      else let ids = map ps_id (filter (implicit_stage_member spec) (sp_participants spec))
           in if ids = [] then []
              else [\<lparr>st_id = 1, st_label = ''implicit'', st_mode = TM_parallel, st_participants = ids,
                     st_required_domains = [], st_fallback_stage = False\<rparr>])"

definition evaluating_participants :: "EnsembleSpec \<Rightarrow> ParticipantSpec list" where
  "evaluating_participants spec =
     filter (\<lambda>p. roles_contains (ps_roles p) R_judge \<or> roles_contains (ps_roles p) R_verifier)
       (sp_participants spec)"

definition judging_criteria :: "EnsembleSpec \<Rightarrow> CriterionRef list" where
  "judging_criteria spec =
     (if sp_judging_criteria spec \<noteq> [] then sp_judging_criteria spec
      else [\<lparr>cri_id = 1, cri_version = 1\<rparr>])"

section \<open>Defining an ensemble\<close>

definition choose_ensemble_id :: "EnsembleSpec \<Rightarrow> Impl \<Rightarrow> EnsembleId option \<times> Impl" where
  "choose_ensemble_id spec im =
     (if \<not> valid_id (sp_id spec)
      then (case allocate (im_ensemble_ids im) of (r, next) \<Rightarrow> (r, im\<lparr>im_ensemble_ids := next\<rparr>))
      else (Some (sp_id spec), im\<lparr>im_ensemble_ids := observe (sp_id spec) (im_ensemble_ids im)\<rparr>))"

definition choose_generation :: "EnsembleSpec \<Rightarrow> EnsembleRecord option \<Rightarrow> EnsembleGeneration outcome" where
  "choose_generation spec existing =
     (case existing of
        None \<Rightarrow> if valid_id (sp_generation spec) \<and> sp_generation spec \<noteq> 1 then fail E_invalid_argument else Ok 1
      | Some en \<Rightarrow>
          if sp_generation (en_spec en) = - 1 then fail E_resource_limit_exceeded
          else let next_gen = sp_generation (en_spec en) + 1
               in if valid_id (sp_generation spec) \<and> sp_generation spec \<noteq> next_gen
                  then fail E_stale_ensemble_generation else Ok next_gen)"

definition retire_generation :: "Limits \<Rightarrow> EnsembleRecord \<Rightarrow> EnsembleRecord" where
  "retire_generation l en =
     (let history = (if en_has_execution en \<and> ex_has_result (en_execution en)
                     then let h = en_history en @ [ex_result (en_execution en)]
                          in drop (length h - unat (max_retained_results l)) h
                     else en_history en)
      in en\<lparr>en_history := history, en_superseded := False, en_participants := [],
           en_has_execution := False, en_execution := execution_default\<rparr>)"

definition define_ensemble :: "EnsembleSpec \<Rightarrow> Impl \<Rightarrow> Impl \<times> EnsembleGeneration outcome" where
  "define_ensemble spec0 im0 =
     (case choose_ensemble_id spec0 im0 of
        (None, im) \<Rightarrow> (im, fail E_resource_limit_exceeded)
      | (Some i, im) \<Rightarrow>
          (let spec = spec0\<lparr>sp_id := i\<rparr>; existing = find_ensemble im i
           in case choose_generation spec existing of
                Err e \<Rightarrow> (im, fail e)
              | Ok generation \<Rightarrow>
                  (let spec = spec\<lparr>sp_generation := generation\<rparr>
                   in case validate_spec spec (im_limits im) of
                        Err e \<Rightarrow> (im, fail e)
                      | Ok _ \<Rightarrow>
                          (let spec = spec\<lparr>sp_fingerprint := compute_spec_fingerprint spec\<rparr>;
                               (base, im) =
                                 (case existing of
                                    None \<Rightarrow> (ensemble_record_init spec, im)
                                  | Some en \<Rightarrow>
                                      (retire_generation (im_limits im) en,
                                       if execution_open en then bump_supersession im else im));
                               en = base\<lparr>en_spec := spec,
                                          en_participants := map participant_record_init (sp_participants spec)\<rparr>
                           in (put_ensemble i en im, Ok generation)))))"

definition supersede_candidates :: "CandidateRecord list \<Rightarrow> CandidateRecord list" where
  "supersede_candidates cs = map (\<lambda>c. if in_flight c then c\<lparr>cd_state := C_superseded\<rparr> else c) cs"

definition supersede_ensemble :: "EnsembleId \<Rightarrow> EnsembleGeneration \<Rightarrow> Impl \<Rightarrow> Impl \<times> status" where
  "supersede_ensemble i generation im =
     (case find_ensemble im i of
        None \<Rightarrow> (im, fail E_unknown_ensemble)
      | Some en \<Rightarrow>
          if sp_generation (en_spec en) \<noteq> generation then (im, fail E_stale_ensemble_generation)
          else let en = en\<lparr>en_superseded := True\<rparr>;
                   en = (if execution_open en
                         then map_execution (\<lambda>ex. ex\<lparr>ex_status := XS_superseded,
                                ex_candidates := supersede_candidates (ex_candidates ex)\<rparr>) en
                         else en)
               in (bump_supersession (put_ensemble i en im), ok_status))"

definition get_spec :: "EnsembleId \<Rightarrow> Impl \<Rightarrow> EnsembleSpec outcome" where
  "get_spec i im = (case find_ensemble im i of None \<Rightarrow> fail E_unknown_ensemble | Some en \<Rightarrow> Ok (en_spec en))"

definition validate_result :: "EnsembleResult \<Rightarrow> EnsembleSpec \<Rightarrow> CoordinatorEpoch \<Rightarrow> status" where
  "validate_result r spec epoch =
     require (rs_ensemble r = sp_id spec) E_invalid_argument (
     require (rs_ensemble_generation r = sp_generation spec) E_stale_ensemble_generation (
     require (rs_coordinator_epoch r = epoch) E_stale_coordinator_epoch (
     require (\<not> (\<not> valid_id (rs_execution r) \<or> \<not> valid_id (rs_attempt_generation r)))
       E_invalid_identity_combination (
     require (\<not> (rs_decision r = D_committed \<and> \<not> rs_has_selected r)) E_invalid_argument
     ok_status))))"

section \<open>Lemmas\<close>

lemma choose_ensemble_id_frame:
  "choose_ensemble_id spec im = (r, im') \<Longrightarrow> same_ensembles im im'"
  by (auto simp: choose_ensemble_id_def same_ensembles_def split: if_splits prod.splits)

lemma define_ensemble_Ok:
  assumes "define_ensemble spec0 im0 = (im', Ok g)"
  obtains i im spec where
    "choose_ensemble_id spec0 im0 = (Some i, im)"
    "choose_generation (spec0\<lparr>sp_id := i\<rparr>) (find_ensemble im0 i) = Ok g"
    "spec = spec0\<lparr>sp_id := i, sp_generation := g\<rparr>"
    "is_ok (validate_spec spec (im_limits im0))"
    "im_ensembles im' = omap_put i
       ((case find_ensemble im0 i of None \<Rightarrow> ensemble_record_init (spec\<lparr>sp_fingerprint := compute_spec_fingerprint spec\<rparr>)
         | Some en \<Rightarrow> retire_generation (im_limits im0) en)
        \<lparr>en_spec := spec\<lparr>sp_fingerprint := compute_spec_fingerprint spec\<rparr>,
         en_participants := map participant_record_init (sp_participants spec0)\<rparr>) (im_ensembles im0)"
    "im_epoch im' = im_epoch im0" "im_config im' = im_config im0"
    "im_candidate_ids im' = im_candidate_ids im0" "im_evaluation_ids im' = im_evaluation_ids im0"
proof -
  obtain r im where c: "choose_ensemble_id spec0 im0 = (r, im)" by (cases "choose_ensemble_id spec0 im0")
  then have same: "same_ensembles im0 im" by (rule choose_ensemble_id_frame)
  from assms c obtain i where r: "r = Some i" by (cases r) (auto simp: define_ensemble_def)
  have f: "find_ensemble im i = find_ensemble im0 i" "im_limits im = im_limits im0"
    using same by (simp_all add: find_ensemble_def same_ensembles_def)
  show ?thesis
    using assms same by (intro that[of i im "spec0\<lparr>sp_id := i, sp_generation := g\<rparr>"])
      (auto simp: define_ensemble_def c r f Let_def put_ensemble_def bump_supersession_def same_ensembles_def
        split: outcome.splits option.splits if_splits)
qed

lemma define_ensemble_Err:
  "define_ensemble spec im = (im', Err e) \<Longrightarrow> same_ensembles im im'"
  by (auto simp: define_ensemble_def Let_def split: prod.splits option.splits outcome.splits if_splits
      dest!: choose_ensemble_id_frame)

lemma validate_result_iff:
  "is_ok (validate_result r spec epoch) \<longleftrightarrow>
     rs_ensemble r = sp_id spec \<and> rs_ensemble_generation r = sp_generation spec \<and>
     rs_coordinator_epoch r = epoch \<and> rs_execution r \<noteq> 0 \<and> rs_attempt_generation r \<noteq> 0 \<and>
     (rs_decision r = D_committed \<longrightarrow> rs_has_selected r)"
  by (auto simp: validate_result_def valid_id_def)

end
