(* ===== verification/Fabric_Participant.thy ===== *)
theory Fabric_Participant
  imports Fabric_Core
begin

text \<open>
  Participant registration, participant failure with its retry policy, and the invalidation
  of dynamic authority (\<^verbatim>\<open>src/fabric_participant.cpp\<close>). A loop over the candidates by
  reference is a loop over their indices that stores each candidate back before the next one
  is read.
\<close>

section \<open>Evidence and attempts\<close>

definition supersede_candidate_evidence :: "CandidateId \<Rightarrow> ExecutionRecord \<Rightarrow> ExecutionRecord" where
  "supersede_candidate_evidence i ex =
     ex\<lparr>ex_evaluations := map (\<lambda>e. if er_candidate e = i \<and> er_current e then e\<lparr>er_current := False\<rparr> else e)
                            (ex_evaluations ex),
        ex_pending := filter (\<lambda>p. \<not> (pe_candidate p = i \<and> \<not> pe_answered p)) (ex_pending ex)\<rparr>"

definition map_participants_with ::
    "ParticipantId \<Rightarrow> (ParticipantRecord \<Rightarrow> ParticipantRecord) \<Rightarrow> EnsembleRecord \<Rightarrow> EnsembleRecord" where
  "map_participants_with i f en =
     en\<lparr>en_participants := map (\<lambda>p. if pr_id p = i then f p else p) (en_participants en)\<rparr>"

definition fail_candidate ::
    "EnsembleError \<Rightarrow> string \<Rightarrow> EnsembleRecord \<Rightarrow> CandidateRecord \<Rightarrow> EnsembleRecord \<times> CandidateRecord" where
  "fail_candidate failure detail en c =
     (map_execution (supersede_candidate_evidence (cd_id c))
        (map_participants_with (cd_participant c)
           (\<lambda>p. p\<lparr>pr_candidates_failed := pr_candidates_failed p + 1\<rparr>) en),
      c\<lparr>cd_state := C_failed, cd_failure := failure, cd_failure_detail := detail, cd_payload := [],
        cd_payload_digest := 0, cd_evaluation_count := 0\<rparr>)"

definition retry_authorized :: "EnsembleSpec \<Rightarrow> CandidateRecord \<Rightarrow> EnsembleError \<Rightarrow> bool" where
  "retry_authorized spec c failure \<longleftrightarrow>
     (if cd_fallback c \<and> \<not> fb_enabled (sp_fallback spec) then False
      else if rt_max_attempts (sp_retry spec) \<le> cd_attempts_used c then False
      else if failure = E_participant_unavailable then rt_retry_on_unavailable (sp_retry spec)
      else if failure = E_transport_error then rt_retry_on_transport_error (sp_retry spec)
      else if failure = E_malformed_candidate then rt_retry_on_malformed_candidate (sp_retry spec)
      else if failure = E_participant_failed then rt_retry_on_participant_failed (sp_retry spec)
      else False)"

definition rewind_candidate_for_retry ::
    "EnsembleRecord \<Rightarrow> CandidateRecord \<Rightarrow> EnsembleRecord \<times> CandidateRecord" where
  "rewind_candidate_for_retry en c =
     (map_participants_with (cd_participant c)
        (\<lambda>p. p\<lparr>pr_retries_consumed := pr_retries_consumed p + 1\<rparr>)
        (map_execution (supersede_candidate_evidence (cd_id c)) en),
      c\<lparr>cd_generation := cd_generation c + 1, cd_attempt := cd_attempt c + 1, cd_state := C_declared,
        cd_payload := [], cd_payload_digest := 0, cd_failure := E_ok, cd_failure_detail := [],
        cd_evaluation_count := 0, cd_hard_failures := 0, cd_hard_unknowns := 0, cd_hard_predicates := 0,
        cd_budget_units_used := 0, cd_received_sequence := 0, cd_current := True\<rparr>)"

section \<open>Loops over the candidates\<close>

definition candidate_at :: "nat \<Rightarrow> EnsembleRecord \<Rightarrow> CandidateRecord" where
  "candidate_at k en = ex_candidates (en_execution en) ! k"

definition store_candidate_at :: "nat \<Rightarrow> EnsembleRecord \<times> CandidateRecord \<Rightarrow> EnsembleRecord" where
  "store_candidate_at k ec =
     map_execution (\<lambda>ex. ex\<lparr>ex_candidates := (ex_candidates ex)[k := snd ec]\<rparr>) (fst ec)"

fun candidate_loop ::
    "(EnsembleRecord \<Rightarrow> CandidateRecord \<Rightarrow> EnsembleRecord \<times> CandidateRecord) \<Rightarrow> nat list \<Rightarrow>
     EnsembleRecord \<Rightarrow> EnsembleRecord" where
  "candidate_loop f [] en = en"
| "candidate_loop f (k # ks) en = candidate_loop f ks (store_candidate_at k (f en (candidate_at k en)))"

definition for_each_candidate ::
    "(EnsembleRecord \<Rightarrow> CandidateRecord \<Rightarrow> EnsembleRecord \<times> CandidateRecord) \<Rightarrow> EnsembleRecord \<Rightarrow> EnsembleRecord" where
  "for_each_candidate f en = candidate_loop f [0..<length (ex_candidates (en_execution en))] en"

section \<open>Participant failure\<close>

definition participant_failure_step ::
    "ParticipantRecord \<Rightarrow> ParticipantFailureKind \<Rightarrow> string \<Rightarrow> EnsembleRecord \<Rightarrow> CandidateRecord \<Rightarrow>
     EnsembleRecord \<times> CandidateRecord" where
  "participant_failure_step p kind detail en c =
     (if cd_participant c \<noteq> pr_id p then (en, c)
      else if cd_participant_generation c \<noteq> pr_generation p then (en, c)
      else if \<not> in_flight c then (en, c)
      else if retry_authorized (en_spec en) c (failure_error kind)
      then rewind_candidate_for_retry en (c\<lparr>cd_worker := pr_worker p, cd_worker_boot := pr_worker_boot p\<rparr>)
      else fail_candidate (failure_error kind)
             (''participant failure ('' @ failure_kind_to_string kind @ ''): '' @ detail) en c)"

definition handle_participant_failure ::
    "ParticipantRecord \<Rightarrow> ParticipantFailureKind \<Rightarrow> string \<Rightarrow> EnsembleRecord \<Rightarrow> EnsembleRecord" where
  "handle_participant_failure p kind detail en =
     for_each_candidate (participant_failure_step p kind detail) en"

definition report_participant_failure ::
    "ParticipantAuthority \<Rightarrow> ParticipantFailureKind \<Rightarrow> string \<Rightarrow> Impl \<Rightarrow> Impl \<times> status" where
  "report_participant_failure a kind detail im =
     (case validate_participant_authority a of
        Err e \<Rightarrow> (im, fail e)
      | Ok _ \<Rightarrow>
          if pa_coordinator_epoch a \<noteq> im_epoch im then (bump_stale im, fail E_stale_coordinator_epoch)
          else (case find_ensemble im (pa_ensemble a) of
             None \<Rightarrow> (im, fail E_unknown_ensemble)
           | Some en \<Rightarrow>
               if sp_generation (en_spec en) \<noteq> pa_ensemble_generation a
               then (bump_stale im, fail E_stale_ensemble_generation)
               else (case find_participant en (pa_participant a) of
                  None \<Rightarrow> (im, fail E_unknown_participant)
                | Some p \<Rightarrow>
                    if pr_generation p \<noteq> pa_participant_generation a \<or>
                       pr_worker_boot p \<noteq> pa_worker_boot a \<or> pr_worker p \<noteq> pa_worker a
                    then (bump_stale im, fail E_stale_worker_boot)
                    else let p = p\<lparr>pr_status := (if kind = FK_unavailable then PS_unavailable else PS_failed),
                                   pr_registered := False, pr_failure_detail := detail\<rparr>;
                             en = set_participant p en
                         in if execution_open en
                            then let en = handle_participant_failure p kind detail en
                                 in if cn_cancel_on_required_failure (sp_cancellation (en_spec en)) \<and>
                                       ps_required (pr_declaration p)
                                    then (put_ensemble (pa_ensemble a)
                                            (map_execution (\<lambda>ex. ex\<lparr>ex_status := XS_failed\<rparr>) en) im,
                                          fail E_required_participant_failed)
                                    else (put_ensemble (pa_ensemble a) en im, ok_status)
                            else (put_ensemble (pa_ensemble a) en im, ok_status))))"

section \<open>Registration\<close>

definition registration_complete :: "ParticipantRegistration \<Rightarrow> bool" where
  "registration_complete r \<longleftrightarrow>
     valid_id (rg_ensemble r) \<and> valid_id (rg_ensemble_generation r) \<and> valid_id (rg_participant r) \<and>
     valid_id (rg_worker r) \<and> valid_id (rg_worker_boot r) \<and> valid_id (rg_coordinator_epoch r)"

definition admit_participant :: "ParticipantRegistration \<Rightarrow> ParticipantRecord \<Rightarrow> ParticipantRecord" where
  "admit_participant r p =
     (let p = (if valid_id (pr_worker_boot p)
               then p\<lparr>pr_generation := pr_generation p + 1, pr_replacement_count := pr_replacement_count p + 1\<rparr>
               else p)
      in p\<lparr>pr_worker := rg_worker r, pr_worker_boot := rg_worker_boot r,
           pr_coordinator_epoch := rg_coordinator_epoch r, pr_profile := rg_profile r,
           pr_status := PS_current, pr_registered := True, pr_failure_detail := []\<rparr>)"

definition register_participant ::
    "ParticipantRegistration \<Rightarrow> Impl \<Rightarrow> Impl \<times> ParticipantGeneration outcome" where
  "register_participant r im =
     (if \<not> registration_complete r then (im, fail E_invalid_identity_combination)
      else if rg_coordinator_epoch r \<noteq> im_epoch im then (bump_stale im, fail E_stale_coordinator_epoch)
      else case find_ensemble im (rg_ensemble r) of
        None \<Rightarrow> (im, fail E_unknown_ensemble)
      | Some en \<Rightarrow>
          if sp_generation (en_spec en) \<noteq> rg_ensemble_generation r
          then (bump_stale im, fail E_stale_ensemble_generation)
          else (case find_participant en (rg_participant r) of
             None \<Rightarrow> (im, fail E_unknown_participant)
           | Some p \<Rightarrow>
               if pr_registered p \<and> pr_status p = PS_current
               then (bump_duplicate im, fail E_participant_duplicate)
               else if \<not> roles_contains_all (ps_roles (pr_declaration p)) (rg_claimed_roles r)
               then (im, fail E_participant_role_mismatch)
               else (case check_compatibility (ps_compatibility (pr_declaration p)) (rg_profile r) of
                  Err e \<Rightarrow> (im, fail e)
                | Ok _ \<Rightarrow>
                    let p = admit_participant r p
                    in (put_ensemble (rg_ensemble r) (set_participant p en) im, Ok (pr_generation p)))))"

section \<open>Invalidation\<close>

definition invalidate_participant :: "string \<Rightarrow> ParticipantRecord \<Rightarrow> ParticipantRecord" where
  "invalidate_participant reason p =
     (if \<not> pr_registered p \<and> pr_status p = PS_revalidation_required then p
      else p\<lparr>pr_status := PS_revalidation_required, pr_registered := False, pr_failure_detail := reason\<rparr>)"

definition invalidate_execution :: "string \<Rightarrow> ExecutionRecord \<Rightarrow> ExecutionRecord" where
  "invalidate_execution reason ex =
     ex\<lparr>ex_status := XS_revalidation_required,
        ex_candidates := map (\<lambda>c. if in_flight c
          then c\<lparr>cd_state := C_superseded, cd_current := False, cd_failure := E_revalidation_required,
                 cd_failure_detail := reason\<rparr> else c) (ex_candidates ex),
        ex_evaluations := map (\<lambda>e. e\<lparr>er_current := False\<rparr>) (ex_evaluations ex),
        ex_pending := map (\<lambda>p. p\<lparr>pe_abandoned := True\<rparr>) (ex_pending ex)\<rparr>"

definition invalidate_ensemble :: "string \<Rightarrow> EnsembleRecord \<Rightarrow> EnsembleRecord" where
  "invalidate_ensemble reason en =
     (let en = en\<lparr>en_participants := map (invalidate_participant reason) (en_participants en)\<rparr>
      in if execution_open en then map_execution (invalidate_execution reason) en else en)"

definition invalidate_dynamic_authority :: "string \<Rightarrow> Impl \<Rightarrow> Impl \<times> status" where
  "invalidate_dynamic_authority reason im =
     (let opened = length (filter (\<lambda>(i, en). execution_open en) (im_ensembles im))
      in (im\<lparr>im_ensembles := map (\<lambda>(i, en). (i, invalidate_ensemble reason en)) (im_ensembles im),
             im_counters := (im_counters im)\<lparr>ct_revalidations_required :=
               ct_revalidations_required (im_counters im) + word_of_nat opened\<rparr>\<rparr>, ok_status))"

section \<open>Lemmas\<close>

lemma length_store_candidate_at [simp]:
  "length (ex_candidates (en_execution (store_candidate_at k ec))) = length (ex_candidates (en_execution (fst ec)))"
  by (simp add: store_candidate_at_def map_execution_def)

lemma candidate_loop_inv:
  assumes "\<And>en k. P en \<Longrightarrow> k \<in> set ks \<Longrightarrow> P (store_candidate_at k (f en (candidate_at k en)))" and "P en"
  shows "P (candidate_loop f ks en)"
  using assms by (induction ks arbitrary: en) auto

text \<open>The frame of a body: it does not touch the candidate vector or the fields around it.\<close>

definition body_frame :: "(EnsembleRecord \<Rightarrow> CandidateRecord \<Rightarrow> EnsembleRecord \<times> CandidateRecord) \<Rightarrow> bool" where
  "body_frame f \<longleftrightarrow>
     (\<forall>en c. ex_candidates (en_execution (fst (f en c))) = ex_candidates (en_execution en) \<and>
             en_spec (fst (f en c)) = en_spec en \<and> en_has_execution (fst (f en c)) = en_has_execution en \<and>
             en_superseded (fst (f en c)) = en_superseded en \<and> en_history (fst (f en c)) = en_history en)"

lemma candidate_loop_frame:
  assumes "body_frame f"
  shows "en_spec (candidate_loop f ks en) = en_spec en \<and>
         en_has_execution (candidate_loop f ks en) = en_has_execution en \<and>
         en_superseded (candidate_loop f ks en) = en_superseded en \<and>
         length (ex_candidates (en_execution (candidate_loop f ks en))) = length (ex_candidates (en_execution en))"
  using assms
  by (induction ks arbitrary: en) (simp_all add: body_frame_def store_candidate_at_def map_execution_def)

lemma body_frame_participant_failure: "body_frame (participant_failure_step p kind detail)"
  by (auto simp: body_frame_def participant_failure_step_def rewind_candidate_for_retry_def
      fail_candidate_def map_execution_def map_participants_with_def supersede_candidate_evidence_def)

text \<open>A participant failure leaves no in-flight candidate of that participant generation, other
  than one the retry policy re-declared.\<close>

lemma participant_failure_step_result:
  assumes "participant_failure_step p kind detail en c = (en', c')"
  shows "cd_id c' = cd_id c"
    and "cd_participant c' = cd_participant c"
    and "c' = c \<or> (cd_state c' = C_failed \<and> cd_generation c' = cd_generation c) \<or>
         (cd_state c' = C_declared \<and> cd_generation c' = cd_generation c + 1 \<and>
          retry_authorized (en_spec en) c (failure_error kind))"
  using assms
  by (auto simp: participant_failure_step_def rewind_candidate_for_retry_def fail_candidate_def
      split: if_splits)

lemma retry_authorized_bound:
  "retry_authorized spec c failure \<Longrightarrow> cd_attempts_used c < rt_max_attempts (sp_retry spec)"
  by (auto simp: retry_authorized_def split: if_splits)

lemma retry_authorized_retryable: "retry_authorized spec c failure \<Longrightarrow> is_retryable_failure failure"
  by (auto simp: retry_authorized_def is_retryable_failure_def split: if_splits)

lemma admit_participant_simps [simp]:
  "pr_id (admit_participant r p) = pr_id p" "pr_declaration (admit_participant r p) = pr_declaration p"
  "pr_registered (admit_participant r p)" "pr_status (admit_participant r p) = PS_current"
  "pr_coordinator_epoch (admit_participant r p) = rg_coordinator_epoch r"
  "pr_worker_boot (admit_participant r p) = rg_worker_boot r" "pr_worker (admit_participant r p) = rg_worker r"
  "pr_profile (admit_participant r p) = rg_profile r"
  by (simp_all add: admit_participant_def Let_def)

lemma admit_participant_generation:
  "pr_generation (admit_participant r p) =
     (if valid_id (pr_worker_boot p) then pr_generation p + 1 else pr_generation p)"
  by (simp add: admit_participant_def Let_def)

lemma register_participant_Ok:
  assumes "register_participant r im = (im', Ok g)"
  obtains en p where
    "find_ensemble im (rg_ensemble r) = Some en" "find_participant en (rg_participant r) = Some p"
    "registration_complete r" "rg_coordinator_epoch r = im_epoch im"
    "rg_ensemble_generation r = sp_generation (en_spec en)"
    "\<not> (pr_registered p \<and> pr_status p = PS_current)"
    "roles_contains_all (ps_roles (pr_declaration p)) (rg_claimed_roles r)"
    "is_ok (check_compatibility (ps_compatibility (pr_declaration p)) (rg_profile r))"
    "im' = put_ensemble (rg_ensemble r) (set_participant (admit_participant r p) en) im"
    "g = pr_generation (admit_participant r p)"
  using assms unfolding register_participant_def
  by (auto simp: Let_def split: if_splits option.splits outcome.splits)

lemma register_participant_Err:
  "register_participant r im = (im', Err e) \<Longrightarrow> same_ensembles im im'"
  by (auto simp: register_participant_def Let_def split: if_splits option.splits outcome.splits)

lemma invalidate_ensemble_not_authoritative:
  "p \<in> set (en_participants (invalidate_ensemble reason en)) \<Longrightarrow> \<not> pr_registered p"
  by (auto simp: invalidate_ensemble_def invalidate_participant_def map_execution_def execution_open_def
      Let_def split: if_splits)

end
