(* ===== verification/Fabric_Reports.thy ===== *)
theory Fabric_Reports
  imports Fabric_Participant
begin

text \<open>
  The evidence a decision is taken on: snapshots of the records, the evaluation summary of a
  candidate, the fallback triggers, and the recomputation of the quorum, consensus and
  arbitration reports from the current records (\<^verbatim>\<open>summarize_candidate\<close> and
  \<^verbatim>\<open>fallback_trigger_fires\<close> of \<^verbatim>\<open>src/fabric_execution.cpp\<close>, \<^verbatim>\<open>snapshot_candidate\<close>,
  \<^verbatim>\<open>snapshot_evaluation\<close> and \<^verbatim>\<open>compute_reports\<close> of \<^verbatim>\<open>src/fabric_commit.cpp\<close>).
\<close>

section \<open>Snapshots\<close>

definition snapshot_candidate :: "CandidateRecord \<Rightarrow> CandidateSnapshot" where
  "snapshot_candidate c =
     \<lparr>csn_id = cd_id c, csn_generation = cd_generation c, csn_ensemble = 0, csn_ensemble_generation = 0,
      csn_execution = 0, csn_attempt_generation = 0, csn_participant = cd_participant c,
      csn_participant_generation = cd_participant_generation c, csn_role = cd_role c,
      csn_stage = cd_stage c, csn_state = cd_state c, csn_attempt = cd_attempt c,
      csn_attempts_used = cd_attempts_used c, csn_domain = cd_domain c, csn_payload = cd_payload c,
      csn_payload_digest = cd_payload_digest c, csn_payload_bytes = size32 (cd_payload c),
      csn_received_sequence = cd_received_sequence c, csn_coordinator_epoch = cd_coordinator_epoch c,
      csn_worker = cd_worker c, csn_worker_boot = cd_worker_boot c, csn_failure = cd_failure c,
      csn_failure_detail = cd_failure_detail c, csn_evaluation_count = cd_evaluation_count c,
      csn_hard_failures = cd_hard_failures c, csn_fallback = cd_fallback c, csn_current = cd_current c,
      csn_elimination_reason = cd_elimination_reason c\<rparr>"

definition snapshot_evaluation :: "EvaluationRecord \<Rightarrow> EvaluationSnapshot" where
  "snapshot_evaluation e =
     \<lparr>esn_id = er_id e, esn_generation = er_generation e, esn_ensemble = 0, esn_ensemble_generation = 0,
      esn_execution = 0, esn_attempt_generation = 0, esn_evaluator = er_evaluator e,
      esn_evaluator_generation = er_evaluator_generation e, esn_evaluator_role = er_role e,
      esn_candidate = er_candidate e, esn_candidate_generation = er_candidate_generation e,
      esn_criterion = er_criterion e, esn_kind = er_kind e, esn_verification = er_verification e,
      esn_judgment = er_judgment e, esn_score_defined = er_score_defined e, esn_score = er_score e,
      esn_weight = er_weight e, esn_evidence = er_evidence e, esn_rationale = er_rationale e,
      esn_received_sequence = er_received_sequence e, esn_coordinator_epoch = er_coordinator_epoch e,
      esn_worker = er_worker e, esn_worker_boot = er_worker_boot e, esn_current = er_current e,
      esn_superseded = (\<not> er_current e)\<rparr>"

section \<open>The summary of a candidate\<close>

text \<open>An evaluation is evidence about a candidate when it is current and targets the candidate's
  current generation.\<close>

definition is_evidence :: "CandidateRecord \<Rightarrow> EvaluationRecord \<Rightarrow> bool" where
  "is_evidence c e \<longleftrightarrow> er_candidate e = cd_id c \<and> er_current e \<and> er_candidate_generation e = cd_generation c"

definition count_judgment :: "CategoricalJudgment \<Rightarrow> CandidateEvaluationSummary \<Rightarrow> CandidateEvaluationSummary" where
  "count_judgment j s =
     (case j of
        J_accept \<Rightarrow> s\<lparr>sm_accepts := sm_accepts s + 1\<rparr>
      | J_reject \<Rightarrow> s\<lparr>sm_rejects := sm_rejects s + 1\<rparr>
      | J_abstain \<Rightarrow> s\<lparr>sm_abstentions := sm_abstentions s + 1\<rparr>
      | J_unknown \<Rightarrow> s\<lparr>sm_unknowns := sm_unknowns s + 1\<rparr>)"

definition count_hard_predicate ::
    "CriterionKind \<Rightarrow> VerificationState \<Rightarrow> CandidateEvaluationSummary \<Rightarrow> CandidateEvaluationSummary" where
  "count_hard_predicate k v s =
     (if k = K_hard_predicate
      then let s = s\<lparr>sm_hard_predicates := sm_hard_predicates s + 1\<rparr>
           in (case v of
                 V_pass \<Rightarrow> s
               | V_fail \<Rightarrow> s\<lparr>sm_hard_failures := sm_hard_failures s + 1\<rparr>
               | V_abstain \<Rightarrow> s\<lparr>sm_hard_unknowns := sm_hard_unknowns s + 1\<rparr>
               | V_unknown \<Rightarrow> s\<lparr>sm_hard_unknowns := sm_hard_unknowns s + 1\<rparr>)
      else s)"

definition count_verification :: "VerificationState \<Rightarrow> CandidateEvaluationSummary \<Rightarrow> CandidateEvaluationSummary" where
  "count_verification v s =
     (case v of
        V_pass \<Rightarrow> s\<lparr>sm_verifier_pass := sm_verifier_pass s + 1\<rparr>
      | V_fail \<Rightarrow> s\<lparr>sm_verifier_fail := sm_verifier_fail s + 1\<rparr>
      | V_abstain \<Rightarrow> s\<lparr>sm_verifier_abstain := sm_verifier_abstain s + 1\<rparr>
      | V_unknown \<Rightarrow> s\<lparr>sm_verifier_unknown := sm_verifier_unknown s + 1\<rparr>)"

definition add_score :: "bool \<Rightarrow> EvaluationRecord \<Rightarrow> CandidateEvaluationSummary \<Rightarrow> CandidateEvaluationSummary" where
  "add_score first_score e s =
     s\<lparr>sm_weighted_score_sum := d_add (sm_weighted_score_sum s) (d_mul (er_score e) (er_weight e)),
       sm_weight_sum := d_add (sm_weight_sum s) (er_weight e),
       sm_min_score := (if first_score then er_score e else d_min (sm_min_score s) (er_score e)),
       sm_max_score := (if first_score then er_score e else d_max (sm_max_score s) (er_score e))\<rparr>"

text \<open>The loop carries \<^verbatim>\<open>first_score\<close> and the list of distinct evaluators.\<close>

fun summarize_loop ::
    "CandidateRecord \<Rightarrow> EvaluationRecord list \<Rightarrow> bool \<Rightarrow> ParticipantId list \<Rightarrow> CandidateEvaluationSummary \<Rightarrow>
     CandidateEvaluationSummary" where
  "summarize_loop c [] first_score distinct_ids s = s\<lparr>sm_distinct_evaluators := size32 distinct_ids\<rparr>"
| "summarize_loop c (e # es) first_score distinct_ids s =
     (if \<not> is_evidence c e then summarize_loop c es first_score distinct_ids s
      else let s = s\<lparr>sm_evaluations := sm_evaluations s + 1\<rparr>;
               distinct_ids = (if er_evaluator e \<in> set distinct_ids then distinct_ids
                               else distinct_ids @ [er_evaluator e]);
               s = count_verification (er_verification e)
                     (count_hard_predicate (er_kind e) (er_verification e)
                       (count_judgment (er_judgment e) s))
           in if er_score_defined e then summarize_loop c es False distinct_ids (add_score first_score e s)
              else summarize_loop c es first_score distinct_ids s)"

definition summarize_candidate :: "ExecutionRecord \<Rightarrow> CandidateRecord \<Rightarrow> CandidateEvaluationSummary" where
  "summarize_candidate ex c =
     summarize_loop c (ex_evaluations ex) True [] (summary_init (cd_id c) (cd_generation c))"

section \<open>Fallback triggers\<close>

definition capable_holders :: "ParticipantRole \<Rightarrow> EnsembleRecord \<Rightarrow> u32" where
  "capable_holders role en =
     size32 (filter (\<lambda>p. roles_contains (ps_roles (pr_declaration p)) role \<and> capable p) (en_participants en))"

definition capable_participant :: "EnsembleRecord \<Rightarrow> ParticipantId \<Rightarrow> bool" where
  "capable_participant en i = (case find_participant en i of None \<Rightarrow> False | Some p \<Rightarrow> capable p)"

fun fallback_trigger_fires :: "FallbackTrigger \<Rightarrow> EnsembleRecord \<Rightarrow> ExecutionRecord \<Rightarrow> bool" where
  "fallback_trigger_fires FT_participant_unavailable en ex =
     list_ex (\<lambda>p. ps_required (pr_declaration p) \<and>
       (pr_status p = PS_unavailable \<or> pr_status p = PS_fenced \<or>
        (pr_status p = PS_failed \<and> \<not> pr_registered p))) (en_participants en)"
| "fallback_trigger_fires FT_required_participant_failed en ex =
     list_ex (\<lambda>p. ps_required (pr_declaration p) \<and> pr_status p = PS_failed) (en_participants en)"
| "fallback_trigger_fires FT_retry_exhausted en ex =
     list_ex (\<lambda>c. cd_state c = C_failed \<and> rt_max_attempts (sp_retry (en_spec en)) \<le> cd_attempts_used c)
       (ex_candidates ex)"
| "fallback_trigger_fires FT_all_primary_invalid en ex =
     (list_ex (\<lambda>c. \<not> cd_fallback c) (ex_candidates ex) \<and>
      list_all (\<lambda>c. cd_fallback c \<or> \<not> is_content_state (cd_state c)) (ex_candidates ex))"
| "fallback_trigger_fires FT_quorum_impossible en ex = (qr_state (ex_quorum ex) = Q_impossible)"
| "fallback_trigger_fires FT_required_role_unavailable en ex =
     list_ex (\<lambda>q. capable_holders (q_role q) en < q_min_count q) (qp_role_quota (sp_quorum (en_spec en)))"
| "fallback_trigger_fires FT_insufficient_evidence en ex =
     (\<not> list_ex (\<lambda>s. capable_participant en (ps_id s)) (evaluating_participants (en_spec en)))"
| "fallback_trigger_fires FT_judge_disagreement en ex =
     (cr_state (ex_consensus ex) = S_disagreement \<or> cr_state (ex_consensus ex) = S_tie \<or>
      cr_state (ex_consensus ex) = S_insufficient_evidence)"

section \<open>Recomputing the reports\<close>

definition quorum_member :: "CoordinatorEpoch \<Rightarrow> ParticipantRecord \<Rightarrow> QuorumMember" where
  "quorum_member epoch p =
     \<lparr>qm_participant = pr_id p, qm_generation = pr_generation p, qm_roles = ps_roles (pr_declaration p),
      qm_required = ps_required (pr_declaration p), qm_authorized = authoritative epoch p,
      qm_available = (pr_status p \<noteq> PS_unavailable \<and> pr_status p \<noteq> PS_fenced \<and> pr_status p \<noteq> PS_retired),
      qm_failed = (pr_status p = PS_failed), qm_fallback = pr_fallback_activated p,
      qm_role_available = (pr_status p \<noteq> PS_retired)\<rparr>"

definition eligible_vote :: "EvaluationRecord \<Rightarrow> EligibleVote" where
  "eligible_vote e =
     \<lparr>vo_participant = er_evaluator e, vo_generation = er_evaluator_generation e, vo_role = er_role e,
      vo_candidate = er_candidate e, vo_candidate_generation = er_candidate_generation e,
      vo_weight = er_weight e,
      vo_abstained = (er_judgment e = J_abstain \<or> er_verification e = V_abstain)\<rparr>"

definition current_votes :: "ExecutionRecord \<Rightarrow> EligibleVote list" where
  "current_votes ex = map eligible_vote (filter er_current (ex_evaluations ex))"

definition valid_candidate_count :: "ExecutionRecord \<Rightarrow> u32" where
  "valid_candidate_count ex = size32 (filter (\<lambda>c. is_content_state (cd_state c)) (ex_candidates ex))"

definition invalid_candidate_count :: "ExecutionRecord \<Rightarrow> u32" where
  "invalid_candidate_count ex =
     size32 (filter (\<lambda>c. \<not> is_content_state (cd_state c) \<and> (cd_state c = C_invalid \<or> cd_state c = C_failed))
       (ex_candidates ex))"

definition report_quorum :: "EnsembleRecord \<Rightarrow> ExecutionRecord \<Rightarrow> QuorumReport" where
  "report_quorum en ex =
     (compute_quorum (sp_quorum (en_spec en))
        (map (quorum_member (ex_coordinator_epoch ex)) (en_participants en))
        (current_votes ex) (valid_candidate_count ex) (sp_generation (en_spec en))
        (ex_coordinator_epoch ex) (ex_report_generation ex))
     \<lparr>qr_evaluations := size32 (current_votes ex)\<rparr>"

definition tally_vote :: "CandidateTally \<Rightarrow> EvaluationRecord \<Rightarrow> CandidateTally" where
  "tally_vote t e =
     (case er_judgment e of
        J_accept \<Rightarrow> t\<lparr>ty_agreeing := ty_agreeing t + 1, ty_weighted_agree := d_add (ty_weighted_agree t) (er_weight e),
                      ty_agreeing_members := ty_agreeing_members t @ [er_evaluator e]\<rparr>
      | J_reject \<Rightarrow> t\<lparr>ty_disagreeing := ty_disagreeing t + 1,
                      ty_disagreeing_members := ty_disagreeing_members t @ [er_evaluator e]\<rparr>
      | J_abstain \<Rightarrow> t\<lparr>ty_abstaining := ty_abstaining t + 1,
                       ty_abstaining_members := ty_abstaining_members t @ [er_evaluator e]\<rparr>
      | J_unknown \<Rightarrow> t)"

definition candidate_tally :: "ExecutionRecord \<Rightarrow> CandidateRecord \<Rightarrow> CandidateTally" where
  "candidate_tally ex c =
     foldl tally_vote
       \<lparr>ty_candidate = cd_id c, ty_generation = cd_generation c, ty_participant = cd_participant c,
        ty_eligible = is_content_state (cd_state c), ty_agreeing = 0, ty_disagreeing = 0, ty_abstaining = 0,
        ty_weighted_agree = d_zero, ty_agreeing_members = [], ty_disagreeing_members = [],
        ty_abstaining_members = []\<rparr>
       (filter (is_evidence c) (ex_evaluations ex))"

definition required_participant_failed :: "EnsembleRecord \<Rightarrow> bool" where
  "required_participant_failed en \<longleftrightarrow>
     list_ex (\<lambda>p. ps_required (pr_declaration p) \<and> pr_status p = PS_failed) (en_participants en)"

definition fallback_required :: "EnsembleRecord \<Rightarrow> ExecutionRecord \<Rightarrow> bool" where
  "fallback_required en ex \<longleftrightarrow>
     fb_enabled (sp_fallback (en_spec en)) \<and> fb_max_depth (sp_fallback (en_spec en)) \<le> ex_fallback_depth ex \<and>
     \<not> list_ex (\<lambda>c. cd_fallback c \<and> is_content_state (cd_state c)) (ex_candidates ex) \<and>
     list_ex (\<lambda>t. fallback_trigger_fires t en ex) (fb_triggers (sp_fallback (en_spec en)))"

definition consensus_inputs :: "EnsembleRecord \<Rightarrow> ExecutionRecord \<Rightarrow> ConsensusInputs" where
  "consensus_inputs en ex =
     \<lparr>ci_quorum = ex_quorum ex,
      ci_tallies = map (candidate_tally ex) (ex_candidates ex),
      ci_candidates_declared = size32 (ex_candidates ex),
      ci_invalid_candidates = invalid_candidate_count ex,
      ci_required_participant_failed = required_participant_failed en,
      ci_require_all_required = cp_require_all_required_participants (sp_completion (en_spec en)),
      ci_cancelled = (ex_status ex = XS_cancelled),
      ci_superseded = (ex_status ex = XS_superseded \<or> en_superseded en),
      ci_revalidation_required = (ex_status ex = XS_revalidation_required),
      ci_fallback_required = fallback_required en ex,
      ci_requires_votes = (evaluating_participants (en_spec en) \<noteq> []),
      ci_ensemble_generation = sp_generation (en_spec en),
      ci_coordinator_epoch = ex_coordinator_epoch ex,
      ci_sequence = ex_report_generation ex\<rparr>"

definition participant_test :: "EnsembleRecord \<Rightarrow> ParticipantId \<Rightarrow> (ParticipantRecord \<Rightarrow> bool) \<Rightarrow> bool" where
  "participant_test en i P = (case find_participant en i of None \<Rightarrow> False | Some p \<Rightarrow> P p)"

definition arbitration_candidate :: "EnsembleRecord \<Rightarrow> ExecutionRecord \<Rightarrow> CandidateRecord \<Rightarrow> ArbitrationCandidateInput" where
  "arbitration_candidate en ex c =
     \<lparr>ac_candidate = cd_id c, ac_generation = cd_generation c, ac_participant = cd_participant c,
      ac_participant_generation = cd_participant_generation c, ac_role = cd_role c, ac_state = cd_state c,
      ac_generation_current = (cd_current c \<and> cd_generation c \<noteq> 0),
      ac_participant_authoritative =
        participant_test en (cd_participant c) (authoritative (ex_coordinator_epoch ex)),
      ac_compatible = participant_test en (cd_participant c)
        (\<lambda>p. is_ok (check_compatibility (ps_compatibility (pr_declaration p)) (pr_profile p))),
      ac_required_participant = participant_test en (cd_participant c) (\<lambda>p. ps_required (pr_declaration p)),
      ac_fallback = cd_fallback c,
      ac_role_selectable = participant_test en (cd_participant c) (\<lambda>p. selectable (pr_declaration p)),
      ac_participant_priority =
        (case find_participant en (cd_participant c) of None \<Rightarrow> 0 | Some p \<Rightarrow> ps_priority (pr_declaration p)),
      ac_execution_cost = cd_budget_units_used c, ac_latency = cd_latency c,
      ac_specialist_matches =
        (if participant_test en (cd_participant c)
              (\<lambda>p. ps_domain (pr_declaration p) \<noteq> [] \<and> ps_domain (pr_declaration p) = sp_task_class (en_spec en))
         then 1 else 0),
      ac_payload_bytes = size32 (cd_payload c),
      ac_evaluation = summarize_candidate ex c\<rparr>"

definition arbitration_inputs :: "EnsembleRecord \<Rightarrow> ExecutionRecord \<Rightarrow> ArbitrationInputs" where
  "arbitration_inputs en ex =
     \<lparr>ai_candidates = map (arbitration_candidate en ex) (ex_candidates ex),
      ai_policy = sp_arbitration (en_spec en), ai_aggregation = sp_aggregation (en_spec en),
      ai_evidence = sp_evidence (en_spec en), ai_quorum_satisfied = (qr_state (ex_quorum ex) = Q_reached),
      ai_ensemble_generation = sp_generation (en_spec en), ai_coordinator_epoch = ex_coordinator_epoch ex,
      ai_sequence = ex_report_generation ex\<rparr>"

definition record_elimination :: "CandidateRecord list \<Rightarrow> CandidateRanking \<Rightarrow> CandidateRecord list" where
  "record_elimination cs r =
     map (\<lambda>c. if cd_id c = rk_candidate r
              then c\<lparr>cd_elimination_reason :=
                       (if rk_eligible r then [] else elimination_to_string (rk_elimination r))\<rparr>
              else c) cs"

text \<open>The execution is a field of the ensemble record and the code passes both by reference; the
  record itself is only read, so it is passed unchanged beside the execution under update.\<close>

definition compute_reports_execution :: "EnsembleRecord \<Rightarrow> ExecutionRecord \<Rightarrow> ExecutionRecord" where
  "compute_reports_execution en ex =
     (let ex = ex\<lparr>ex_report_generation := ex_report_generation ex + 1\<rparr>;
          ex = ex\<lparr>ex_quorum := report_quorum en ex\<rparr>;
          ex = ex\<lparr>ex_consensus := compute_consensus (consensus_inputs en ex)\<rparr>;
          ex = ex\<lparr>ex_arbitration := arbitrate (arbitration_inputs en ex)\<rparr>
      in ex\<lparr>ex_candidates := foldl record_elimination (ex_candidates ex) (ar_ranking (ex_arbitration ex))\<rparr>)"

definition compute_reports :: "EnsembleRecord \<Rightarrow> EnsembleRecord" where
  "compute_reports en = map_execution (compute_reports_execution en) en"

section \<open>Lemmas\<close>

text \<open>Recomputing the reports touches the three reports, their generation and the elimination
  reasons, nothing else.\<close>

definition strip_reason :: "CandidateRecord \<Rightarrow> CandidateRecord" where
  "strip_reason c = c\<lparr>cd_elimination_reason := []\<rparr>"

lemma record_elimination_strip [simp]: "map strip_reason (record_elimination cs r) = map strip_reason cs"
  by (simp add: record_elimination_def strip_reason_def)

lemma foldl_record_elimination_strip [simp]:
  "map strip_reason (foldl record_elimination cs rs) = map strip_reason cs"
  by (induction rs arbitrary: cs) simp_all

lemma strip_reason_simps [simp]:
  "cd_id (strip_reason c) = cd_id c" "cd_generation (strip_reason c) = cd_generation c"
  "cd_state (strip_reason c) = cd_state c" "cd_participant (strip_reason c) = cd_participant c"
  "cd_payload (strip_reason c) = cd_payload c" "cd_payload_digest (strip_reason c) = cd_payload_digest c"
  "cd_attempts_used (strip_reason c) = cd_attempts_used c" "cd_current (strip_reason c) = cd_current c"
  "cd_stage (strip_reason c) = cd_stage c" "cd_fallback (strip_reason c) = cd_fallback c"
  by (simp_all add: strip_reason_def)

lemma strip_reason_transfer:
  assumes "map strip_reason cs = map strip_reason cs'" and "\<And>c. f (strip_reason c) = f c"
  shows "map f cs = map f cs'"
proof -
  have "map f xs = map f (map strip_reason xs)" for xs by (simp add: assms(2))
  with assms(1) show ?thesis by metis
qed

lemma compute_reports_execution_frame [simp]:
  "ex_id (compute_reports_execution en ex) = ex_id ex"
  "ex_attempt_generation (compute_reports_execution en ex) = ex_attempt_generation ex"
  "ex_status (compute_reports_execution en ex) = ex_status ex"
  "ex_coordinator_epoch (compute_reports_execution en ex) = ex_coordinator_epoch ex"
  "ex_evaluations (compute_reports_execution en ex) = ex_evaluations ex"
  "ex_pending (compute_reports_execution en ex) = ex_pending ex"
  "ex_extra_stages (compute_reports_execution en ex) = ex_extra_stages ex"
  "ex_stage_index (compute_reports_execution en ex) = ex_stage_index ex"
  "ex_has_result (compute_reports_execution en ex) = ex_has_result ex"
  "ex_result (compute_reports_execution en ex) = ex_result ex"
  "ex_commits (compute_reports_execution en ex) = ex_commits ex"
  "ex_cancellation_requested (compute_reports_execution en ex) = ex_cancellation_requested ex"
  "ex_fallback_activated (compute_reports_execution en ex) = ex_fallback_activated ex"
  "ex_fallback_depth (compute_reports_execution en ex) = ex_fallback_depth ex"
  "ex_report_generation (compute_reports_execution en ex) = ex_report_generation ex + 1"
  "map strip_reason (ex_candidates (compute_reports_execution en ex)) = map strip_reason (ex_candidates ex)"
  by (simp_all add: compute_reports_execution_def Let_def)

lemma compute_reports_frame [simp]:
  "en_spec (compute_reports en) = en_spec en"
  "en_participants (compute_reports en) = en_participants en"
  "en_has_execution (compute_reports en) = en_has_execution en"
  "en_superseded (compute_reports en) = en_superseded en"
  "en_history (compute_reports en) = en_history en"
  "en_execution (compute_reports en) = compute_reports_execution en (en_execution en)"
  by (simp_all add: compute_reports_def map_execution_def)

lemma strip_reason_members:
  assumes "map strip_reason cs = map strip_reason cs'" and "\<And>c. f (strip_reason c) = f c"
  shows "f ` set cs = f ` set cs'"
  using strip_reason_transfer[of cs cs' f] assms by (metis list.set_map)

text \<open>The summary counts exactly the current evidence of the candidate's current generation.\<close>

lemma count_simps [simp]:
  "sm_evaluations (count_judgment j s) = sm_evaluations s"
  "sm_evaluations (count_hard_predicate k v s) = sm_evaluations s"
  "sm_evaluations (count_verification v s) = sm_evaluations s"
  "sm_evaluations (add_score b e s) = sm_evaluations s"
  "sm_accepts (count_hard_predicate k v s) = sm_accepts s"
  "sm_accepts (count_verification v s) = sm_accepts s"
  "sm_accepts (add_score b e s) = sm_accepts s"
  "sm_accepts (count_judgment j s) = sm_accepts s + (if j = J_accept then 1 else 0)"
  "sm_hard_failures (count_judgment j s) = sm_hard_failures s"
  "sm_hard_failures (count_verification v s) = sm_hard_failures s"
  "sm_hard_failures (add_score b e s) = sm_hard_failures s"
  "sm_hard_failures (count_hard_predicate k v s) =
     sm_hard_failures s + (if k = K_hard_predicate \<and> v = V_fail then 1 else 0)"
  by (simp_all add: count_judgment_def count_hard_predicate_def count_verification_def add_score_def Let_def
      split: CategoricalJudgment.splits VerificationState.splits)

lemma summarize_loop_counts:
  "sm_evaluations (summarize_loop c es b ds s) = sm_evaluations s + word_of_nat (length (filter (is_evidence c) es))"
  "sm_accepts (summarize_loop c es b ds s) =
     sm_accepts s + word_of_nat (length (filter (\<lambda>e. is_evidence c e \<and> er_judgment e = J_accept) es))"
  "sm_hard_failures (summarize_loop c es b ds s) =
     sm_hard_failures s + word_of_nat (length (filter (\<lambda>e. is_evidence c e \<and>
       er_kind e = K_hard_predicate \<and> er_verification e = V_fail) es))"
  by (induction es arbitrary: b ds s) (simp_all add: Let_def algebra_simps)

lemma summarize_candidate_counts:
  "sm_evaluations (summarize_candidate ex c) = word_of_nat (length (filter (is_evidence c) (ex_evaluations ex)))"
  "sm_accepts (summarize_candidate ex c) =
     word_of_nat (length (filter (\<lambda>e. is_evidence c e \<and> er_judgment e = J_accept) (ex_evaluations ex)))"
  "sm_hard_failures (summarize_candidate ex c) =
     word_of_nat (length (filter (\<lambda>e. is_evidence c e \<and> er_kind e = K_hard_predicate \<and>
       er_verification e = V_fail) (ex_evaluations ex)))"
  by (simp_all add: summarize_candidate_def summarize_loop_counts summary_init_def)

lemma foldl_tally_vote:
  "ty_agreeing (foldl tally_vote t es) =
     ty_agreeing t + word_of_nat (length (filter (\<lambda>e. er_judgment e = J_accept) es))"
  "ty_agreeing_members (foldl tally_vote t es) =
     ty_agreeing_members t @ map er_evaluator (filter (\<lambda>e. er_judgment e = J_accept) es)"
  "ty_candidate (foldl tally_vote t es) = ty_candidate t"
  "ty_eligible (foldl tally_vote t es) = ty_eligible t"
  "ty_generation (foldl tally_vote t es) = ty_generation t"
  "ty_participant (foldl tally_vote t es) = ty_participant t"
  by (induction es arbitrary: t) (auto simp: tally_vote_def split: CategoricalJudgment.splits)

lemma candidate_tally_simps [simp]:
  "ty_candidate (candidate_tally ex c) = cd_id c"
  "ty_eligible (candidate_tally ex c) = is_content_state (cd_state c)"
  "ty_generation (candidate_tally ex c) = cd_generation c"
  "ty_participant (candidate_tally ex c) = cd_participant c"
  by (simp_all add: candidate_tally_def foldl_tally_vote)

lemma candidate_tally_agreeing:
  "ty_agreeing (candidate_tally ex c) =
     word_of_nat (length (filter (\<lambda>e. is_evidence c e \<and> er_judgment e = J_accept) (ex_evaluations ex)))"
  by (simp add: candidate_tally_def foldl_tally_vote conj_commute)

end
