(* ===== verification/Fabric_Execution.thy ===== *)
theory Fabric_Execution
  imports Fabric_Reports
begin

text \<open>
  Opening an execution and driving it forward (\<^verbatim>\<open>src/fabric_execution.cpp\<close>). The locals of
  \<^verbatim>\<open>advance\<close> are a record: the runtime (allocators, counters, epoch), the ensemble record under
  update, the actions emitted so far and the flag \<^verbatim>\<open>progress\<close>. An early return with an error
  keeps what was already written to the record and drops the actions, as the code does.
\<close>

section \<open>Stages\<close>

definition stage_role :: "ParticipantSpec \<Rightarrow> StageSpec \<Rightarrow> ParticipantRole" where
  "stage_role p stage =
     (if st_fallback_stage stage \<and> roles_contains (ps_roles p) R_fallback then R_fallback
      else if roles_contains (ps_roles p) R_specialist then R_specialist
      else if roles_contains (ps_roles p) R_candidate then R_candidate
      else R_fallback)"

definition stage_complete :: "StageSpec \<Rightarrow> ExecutionRecord \<Rightarrow> bool" where
  "stage_complete stage ex \<longleftrightarrow>
     list_all (\<lambda>i. let own = filter (\<lambda>c. cd_participant c = i \<and> cd_stage c = st_id stage) (ex_candidates ex)
                   in own \<noteq> [] \<and> list_all (\<lambda>c. \<not> in_flight c) own) (st_participants stage)"

definition all_stages :: "EnsembleRecord \<Rightarrow> StageSpec list" where
  "all_stages en = effective_stages (en_spec en) @ ex_extra_stages (en_execution en)"

definition execution_settled :: "EnsembleRecord \<Rightarrow> bool" where
  "execution_settled en \<longleftrightarrow>
     (let ex = en_execution en
      in if \<not> en_has_execution en then False
         else if ex_status ex \<noteq> XS_open then True
         else if ex_stage_index ex < length (all_stages en) then False
         else list_all (\<lambda>c. \<not> (in_flight c \<and> capable_participant en (cd_participant c))) (ex_candidates ex) \<and>
              list_all (\<lambda>p. pe_answered p \<or> pe_abandoned p \<or> \<not> capable_participant en (pe_evaluator p))
                (ex_pending ex))"

section \<open>Opening\<close>

definition open_execution ::
    "EnsembleId \<Rightarrow> EnsembleGeneration \<Rightarrow> Impl \<Rightarrow> Impl \<times> EnsembleExecutionId outcome" where
  "open_execution i generation im =
     (case find_ensemble im i of
        None \<Rightarrow> (im, fail E_unknown_ensemble)
      | Some en \<Rightarrow>
          if sp_generation (en_spec en) \<noteq> generation then (im, fail E_stale_ensemble_generation)
          else if en_superseded en then (im, fail E_ensemble_superseded)
          else if execution_open en then (im, fail E_invalid_state_transition)
          else if unat (max_in_flight_executions (im_limits im)) \<le>
                  length (filter (\<lambda>(j, e). execution_open e) (im_ensembles im))
          then (im, fail E_resource_limit_exceeded)
          else if en_has_execution en \<and> ex_id (en_execution en) = - 1 then (im, fail E_resource_limit_exceeded)
          else let x = (if en_has_execution en then ex_id (en_execution en) + 1 else 1)
               in (put_ensemble i (en\<lparr>en_execution := execution_default\<lparr>ex_id := x, ex_attempt_generation := 1,
                                         ex_status := XS_open, ex_coordinator_epoch := im_epoch im\<rparr>,
                                      en_has_execution := True\<rparr>) im, Ok x))"

definition is_settled :: "EnsembleId \<Rightarrow> EnsembleGeneration \<Rightarrow> Impl \<Rightarrow> bool outcome" where
  "is_settled i generation im =
     (case find_ensemble im i of
        None \<Rightarrow> fail E_unknown_ensemble
      | Some en \<Rightarrow> if sp_generation (en_spec en) \<noteq> generation then fail E_stale_ensemble_generation
                   else Ok (execution_settled en))"

section \<open>The locals of advance\<close>

record Work =
  wk_im :: Impl
  wk_en :: EnsembleRecord
  wk_actions :: "FabricAction list"
  wk_progress :: bool

abbreviation wk_ex :: "Work \<Rightarrow> ExecutionRecord" where
  "wk_ex w \<equiv> en_execution (wk_en w)"

definition wk_map_ex :: "(ExecutionRecord \<Rightarrow> ExecutionRecord) \<Rightarrow> Work \<Rightarrow> Work" where
  "wk_map_ex f w = w\<lparr>wk_en := map_execution f (wk_en w)\<rparr>"

definition wk_made_progress :: "Work \<Rightarrow> Work" where
  "wk_made_progress w = w\<lparr>wk_progress := True\<rparr>"

definition wk_emit :: "FabricAction \<Rightarrow> Work \<Rightarrow> Work" where
  "wk_emit a w = w\<lparr>wk_actions := wk_actions w @ [a]\<rparr>"

definition wk_next_sequence :: "Work \<Rightarrow> Sequence \<times> Work" where
  "wk_next_sequence w = (case next_sequence (wk_im w) of (s, im) \<Rightarrow> (s, w\<lparr>wk_im := im\<rparr>))"

section \<open>Declaring the candidates of a stage\<close>

definition declared_candidate ::
    "EnsembleRecord \<Rightarrow> StageSpec \<Rightarrow> ParticipantSpec \<Rightarrow> ParticipantId \<Rightarrow> CandidateId \<Rightarrow> CandidateRecord" where
  "declared_candidate en stage declaration pid i =
     candidate_record_default\<lparr>
       cd_id := i, cd_generation := 1, cd_participant := pid,
       cd_participant_generation :=
         (case find_participant en pid of Some p \<Rightarrow> pr_generation p | None \<Rightarrow> 1),
       cd_role := stage_role declaration stage, cd_stage := st_id stage, cd_state := C_declared,
       cd_domain := ps_domain declaration, cd_fallback := st_fallback_stage stage\<rparr>"

definition declare_candidate :: "StageSpec \<Rightarrow> ParticipantId \<Rightarrow> Work \<Rightarrow> Work \<times> status" where
  "declare_candidate stage pid w =
     (case find_spec_participant (en_spec (wk_en w)) pid of
        None \<Rightarrow> (w, ok_status)
      | Some declaration \<Rightarrow>
          if list_ex (\<lambda>c. cd_participant c = pid \<and> cd_stage c = st_id stage) (ex_candidates (wk_ex w))
          then (w, ok_status)
          else if unat (max_candidates_per_execution (im_limits (wk_im w))) \<le> length (ex_candidates (wk_ex w))
          then (w, fail E_resource_limit_exceeded)
          else (case allocate (im_candidate_ids (wk_im w)) of
                  (None, s) \<Rightarrow> (w\<lparr>wk_im := (wk_im w)\<lparr>im_candidate_ids := s\<rparr>\<rparr>, fail E_resource_limit_exceeded)
                | (Some i, s) \<Rightarrow>
                    (wk_map_ex (\<lambda>ex. ex\<lparr>ex_candidates := ex_candidates ex @
                                  [declared_candidate (wk_en w) stage declaration pid i]\<rparr>)
                       (w\<lparr>wk_im := (wk_im w)\<lparr>im_candidate_ids := s\<rparr>\<rparr>), ok_status)))"

fun declare_loop :: "StageSpec \<Rightarrow> ParticipantId list \<Rightarrow> Work \<Rightarrow> Work \<times> status" where
  "declare_loop stage [] w = (w, ok_status)"
| "declare_loop stage (p # ps) w =
     (case declare_candidate stage p w of
        (w, Ok _) \<Rightarrow> declare_loop stage ps w
      | (w, Err e) \<Rightarrow> (w, fail e))"

definition declare_stage :: "StageSpec \<Rightarrow> Work \<Rightarrow> Work \<times> status" where
  "declare_stage stage w =
     (if ex_declared_current_stage (wk_ex w) then (w, ok_status)
      else case declare_loop stage (st_participants stage) w of
             (w, Err e) \<Rightarrow> (w, fail e)
           | (w, Ok _) \<Rightarrow>
               (wk_made_progress (wk_map_ex (\<lambda>ex. ex\<lparr>ex_declared_current_stage := True\<rparr>) w), ok_status))"

section \<open>Dispatching the declared candidates of a stage\<close>

definition earlier_pending :: "StageSpec \<Rightarrow> CandidateRecord \<Rightarrow> ExecutionRecord \<Rightarrow> bool" where
  "earlier_pending stage c ex \<longleftrightarrow>
     list_ex (\<lambda>d. cd_stage d = st_id stage \<and> cd_id d \<noteq> cd_id c \<and> cd_id d < cd_id c \<and> in_flight d)
       (ex_candidates ex)"

definition wk_store_candidate :: "nat \<Rightarrow> CandidateRecord \<Rightarrow> Work \<Rightarrow> Work" where
  "wk_store_candidate k c w = w\<lparr>wk_en := store_candidate_at k (wk_en w, c)\<rparr>"

definition unavailable_candidate :: "nat \<Rightarrow> ParticipantRecord \<Rightarrow> CandidateRecord \<Rightarrow> Work \<Rightarrow> Work" where
  "unavailable_candidate k p c w =
     (if \<not> capable p \<and>
         \<not> (rt_replace_participant (sp_retry (en_spec (wk_en w))) \<and>
            cd_attempts_used c < rt_max_attempts (sp_retry (en_spec (wk_en w))))
      then wk_made_progress (w\<lparr>wk_en := store_candidate_at k (fail_candidate E_participant_unavailable
             (''participant '' @ id_to_string (pr_id p) @ '' is '' @ participant_status_to_string (pr_status p) @
              '' and cannot serve this candidate'') (wk_en w) c)\<rparr>)
      else w)"

definition dispatch_candidate :: "nat \<Rightarrow> ParticipantRecord \<Rightarrow> CandidateRecord \<Rightarrow> Work \<Rightarrow> Work" where
  "dispatch_candidate k p c w =
     (case wk_next_sequence w of (s, w) \<Rightarrow>
        wk_made_progress (wk_emit (Dispatch
          \<lparr>da_execution = execution_ref (wk_en w), da_candidate = cd_id c,
           da_candidate_generation = cd_generation c, da_participant = cd_participant c,
           da_participant_generation = pr_generation p, da_role = cd_role c, da_stage = cd_stage c,
           da_attempt = cd_attempt c, da_budget_units = ps_execution_budget_units (pr_declaration p),
           da_deterministic_seed = sp_deterministic_seed (en_spec (wk_en w)), da_domain = cd_domain c,
           da_request = map byte_of_char (sp_task_class (en_spec (wk_en w))), da_sequence = s\<rparr>)
        (wk_store_candidate k
          (c\<lparr>cd_state := C_dispatched, cd_dispatch_sequence := s, cd_attempts_used := cd_attempts_used c + 1,
             cd_coordinator_epoch := im_epoch (wk_im w), cd_worker := pr_worker p,
             cd_worker_boot := pr_worker_boot p\<rparr>) w)))"

fun dispatch_loop :: "StageSpec \<Rightarrow> nat list \<Rightarrow> bool \<Rightarrow> Work \<Rightarrow> Work" where
  "dispatch_loop stage [] dispatched_any w = w"
| "dispatch_loop stage (k # ks) dispatched_any w =
     (let c = candidate_at k (wk_en w)
      in if cd_stage c \<noteq> st_id stage \<or> cd_state c \<noteq> C_declared then dispatch_loop stage ks dispatched_any w
         else case find_participant (wk_en w) (cd_participant c) of
           None \<Rightarrow> dispatch_loop stage ks dispatched_any w
         | Some p \<Rightarrow>
             (let c = c\<lparr>cd_participant_generation := pr_generation p\<rparr>;
                  w = wk_store_candidate k c w
              in if \<not> authoritative (im_epoch (wk_im w)) p
                 then dispatch_loop stage ks dispatched_any (unavailable_candidate k p c w)
                 else if st_mode stage = TM_sequential \<and> \<not> dispatched_any \<and> earlier_pending stage c (wk_ex w)
                 then w
                 else let w = dispatch_candidate k p c w
                      in if st_mode stage = TM_sequential then w else dispatch_loop stage ks True w))"

definition dispatch_stage :: "StageSpec \<Rightarrow> Work \<Rightarrow> Work" where
  "dispatch_stage stage w = dispatch_loop stage [0..<length (ex_candidates (wk_ex w))] False w"

text \<open>The inner loop of \<^verbatim>\<open>advance\<close> reads \<^verbatim>\<open>stages[stage_index]\<close> and only ever increments the index:
  it is a recursion over the stages from the index on.\<close>

fun stage_loop :: "StageSpec list \<Rightarrow> Work \<Rightarrow> Work \<times> status" where
  "stage_loop [] w = (w, ok_status)"
| "stage_loop (stage # stages) w =
     (case declare_stage stage w of
        (w, Err e) \<Rightarrow> (w, fail e)
      | (w, Ok _) \<Rightarrow>
          (let w = dispatch_stage stage w
           in if \<not> stage_complete stage (wk_ex w) then (w, ok_status)
              else stage_loop stages (wk_made_progress (wk_map_ex (\<lambda>ex.
                     ex\<lparr>ex_stage_index := ex_stage_index ex + 1, ex_declared_current_stage := False\<rparr>) w))))"

section \<open>Planning the evaluations\<close>

definition unevaluated_candidate :: "ExecutionRecord \<Rightarrow> CandidateRecord \<Rightarrow> bool" where
  "unevaluated_candidate ex c \<longleftrightarrow>
     is_content_state (cd_state c) \<and> \<not> list_ex (\<lambda>e. er_candidate e = cd_id c) (ex_evaluations ex) \<and>
     \<not> list_ex (\<lambda>p. pe_candidate p = cd_id c) (ex_pending ex)"

definition reopen_planning :: "Work \<Rightarrow> Work" where
  "reopen_planning w =
     (if ex_planning_complete (wk_ex w) \<and> evaluating_participants (en_spec (wk_en w)) \<noteq> [] \<and>
         list_ex (unevaluated_candidate (wk_ex w)) (ex_candidates (wk_ex w))
      then wk_made_progress (wk_map_ex (\<lambda>ex. ex\<lparr>ex_planning_complete := False\<rparr>) w)
      else w)"

text \<open>The nested loops of the planner visit, for every candidate with content and every evaluating
  participant, first the mandatory criteria of a verifier, then the criteria of a judge.\<close>

record PlanItem =
  pl_candidate :: CandidateRecord
  pl_evaluator :: ParticipantId
  pl_role :: ParticipantRole
  pl_criterion :: CriterionRef
  pl_kind :: CriterionKind

definition evaluator_plan :: "EnsembleSpec \<Rightarrow> CandidateRecord \<Rightarrow> ParticipantSpec \<Rightarrow> PlanItem list" where
  "evaluator_plan spec c ev =
     (if roles_contains (ps_roles ev) R_verifier
      then map (\<lambda>cr. \<lparr>pl_candidate = c, pl_evaluator = ps_id ev, pl_role = R_verifier, pl_criterion = cr,
                     pl_kind = K_hard_predicate\<rparr>) (ev_mandatory_criteria (sp_evidence spec)) else []) @
     (if roles_contains (ps_roles ev) R_judge
      then map (\<lambda>cr. \<lparr>pl_candidate = c, pl_evaluator = ps_id ev, pl_role = R_judge, pl_criterion = cr,
                     pl_kind = K_ranking_signal\<rparr>) (judging_criteria spec) else [])"

definition evaluation_plan :: "EnsembleSpec \<Rightarrow> CandidateRecord list \<Rightarrow> PlanItem list" where
  "evaluation_plan spec cs =
     concat (map (\<lambda>c. concat (map (evaluator_plan spec c) (evaluating_participants spec)))
       (filter (\<lambda>c. is_content_state (cd_state c)) cs))"

definition planned_pending :: "EnsembleRecord \<Rightarrow> PlanItem \<Rightarrow> EvaluationId \<Rightarrow> PendingEvaluation" where
  "planned_pending en item i =
     \<lparr>pe_id = i, pe_generation = 1, pe_evaluator = pl_evaluator item,
      pe_evaluator_generation =
        (case find_participant en (pl_evaluator item) of Some p \<Rightarrow> pr_generation p | None \<Rightarrow> 1),
      pe_role = pl_role item, pe_candidate = cd_id (pl_candidate item),
      pe_candidate_generation = cd_generation (pl_candidate item), pe_criterion = pl_criterion item,
      pe_kind = pl_kind item, pe_emitted = False, pe_answered = False, pe_abandoned = False\<rparr>"

fun plan_loop :: "PlanItem list \<Rightarrow> Work \<Rightarrow> Work \<times> status" where
  "plan_loop [] w = (w, ok_status)"
| "plan_loop (item # items) w =
     (case allocate (im_evaluation_ids (wk_im w)) of
        (None, s) \<Rightarrow> (w\<lparr>wk_im := (wk_im w)\<lparr>im_evaluation_ids := s\<rparr>\<rparr>, fail E_resource_limit_exceeded)
      | (Some i, s) \<Rightarrow>
          plan_loop items
            (wk_map_ex (\<lambda>ex. ex\<lparr>ex_pending := ex_pending ex @ [planned_pending (wk_en w) item i]\<rparr>)
               (w\<lparr>wk_im := (wk_im w)\<lparr>im_evaluation_ids := s\<rparr>\<rparr>)))"

definition plan_evaluations :: "Work \<Rightarrow> Work \<times> status" where
  "plan_evaluations w =
     (let w = reopen_planning w
      in if ex_planning_complete (wk_ex w) then (w, ok_status)
         else case plan_loop (evaluation_plan (en_spec (wk_en w)) (ex_candidates (wk_ex w)))
                     (wk_map_ex (\<lambda>ex. ex\<lparr>ex_planning_complete := True\<rparr>) w) of
                (w, Err e) \<Rightarrow> (w, fail e)
              | (w, Ok _) \<Rightarrow> (wk_made_progress w, ok_status))"

section \<open>Emitting the planned evaluations\<close>

definition emit_pending :: "PendingEvaluation \<Rightarrow> Work \<Rightarrow> PendingEvaluation \<times> Work" where
  "emit_pending p w =
     (if pe_answered p \<or> pe_abandoned p \<or> pe_emitted p then (p, w)
      else case find_participant (wk_en w) (pe_evaluator p) of
        None \<Rightarrow> (p\<lparr>pe_abandoned := True\<rparr>, w)
      | Some ev \<Rightarrow>
          if pe_evaluator_generation p \<noteq> pr_generation ev then (p\<lparr>pe_abandoned := True\<rparr>, w)
          else if \<not> authoritative (im_epoch (wk_im w)) ev
          then (if \<not> capable ev then (p\<lparr>pe_abandoned := True\<rparr>, wk_made_progress w) else (p, w))
          else (case find_candidate (wk_ex w) (pe_candidate p) of
             None \<Rightarrow> (p\<lparr>pe_abandoned := True\<rparr>, wk_made_progress w)
           | Some c \<Rightarrow>
               if cd_generation c \<noteq> pe_candidate_generation p \<or> \<not> is_content_state (cd_state c)
               then (p\<lparr>pe_abandoned := True\<rparr>, wk_made_progress w)
               else (case wk_next_sequence w of (s, w) \<Rightarrow>
                  (p\<lparr>pe_emitted := True\<rparr>, wk_made_progress (wk_emit (Evaluate
                     \<lparr>va_execution = execution_ref (wk_en w), va_evaluation = pe_id p,
                      va_evaluation_generation = pe_generation p, va_judge = pe_evaluator p,
                      va_judge_generation = pr_generation ev, va_role = pe_role p,
                      va_candidate = pe_candidate p, va_candidate_generation = pe_candidate_generation p,
                      va_criterion = pe_criterion p, va_criterion_kind = pe_kind p,
                      va_domain = cd_domain c, va_sequence = s\<rparr>) w)))))"

fun emit_loop :: "PendingEvaluation list \<Rightarrow> Work \<Rightarrow> PendingEvaluation list \<times> Work" where
  "emit_loop [] w = ([], w)"
| "emit_loop (p # ps) w =
     (case emit_pending p w of (p, w) \<Rightarrow> (case emit_loop ps w of (ps, w) \<Rightarrow> (p # ps, w)))"

definition emit_evaluations :: "Work \<Rightarrow> Work" where
  "emit_evaluations w =
     (case emit_loop (ex_pending (wk_ex w)) w of
        (ps, w) \<Rightarrow> wk_map_ex (\<lambda>ex. ex\<lparr>ex_pending := ps\<rparr>) w)"

section \<open>Fallback activation\<close>

definition work_outstanding :: "ExecutionRecord \<Rightarrow> bool" where
  "work_outstanding ex \<longleftrightarrow>
     list_ex (\<lambda>p. pe_emitted p \<and> \<not> pe_answered p \<and> \<not> pe_abandoned p) (ex_pending ex) \<or>
     list_ex in_flight (ex_candidates ex)"

definition fallback_stage :: "EnsembleSpec \<Rightarrow> u32 \<Rightarrow> StageSpec" where
  "fallback_stage spec depth =
     \<lparr>st_id = ucast (1000 + depth + 1), st_label = ''fallback'', st_mode = TM_parallel,
      st_participants = fb_fallback_participants (sp_fallback spec), st_required_domains = [],
      st_fallback_stage = True\<rparr>"

definition activate_participant :: "FallbackTrigger \<Rightarrow> ParticipantId \<Rightarrow> Work \<Rightarrow> Work" where
  "activate_participant trigger i w =
     (let found = find_participant (wk_en w) i;
          w = (case found of None \<Rightarrow> w
               | Some p \<Rightarrow> w\<lparr>wk_en := set_participant (p\<lparr>pr_fallback_activated := True\<rparr>) (wk_en w)\<rparr>)
      in case wk_next_sequence w of (s, w) \<Rightarrow>
           wk_emit (Fallback
             \<lparr>ba_execution = execution_ref (wk_en w), ba_participant = i,
              ba_participant_generation = (case found of Some p \<Rightarrow> pr_generation p | None \<Rightarrow> 1),
              ba_trigger = trigger, ba_depth = ex_fallback_depth (wk_ex w), ba_sequence = s\<rparr>) w)"

definition activate_fallback :: "FallbackTrigger \<Rightarrow> Work \<Rightarrow> Work" where
  "activate_fallback trigger w =
     (let stage = fallback_stage (en_spec (wk_en w)) (ex_fallback_depth (wk_ex w));
          w = wk_map_ex (\<lambda>ex. ex\<lparr>ex_extra_stages := ex_extra_stages ex @ [stage], ex_fallback_activated := True,
                ex_fallback_depth := ex_fallback_depth ex + 1, ex_planning_complete := False\<rparr>) w;
          w = w\<lparr>wk_im := (wk_im w)\<lparr>im_counters := (im_counters (wk_im w))\<lparr>ct_fallback_activations :=
                ct_fallback_activations (im_counters (wk_im w)) + 1\<rparr>\<rparr>\<rparr>
      in wk_made_progress (fold (activate_participant trigger) (st_participants stage) w))"

definition fallback_step :: "Work \<Rightarrow> Work" where
  "fallback_step w =
     (let w = w\<lparr>wk_en := compute_reports (wk_en w)\<rparr>; fb = sp_fallback (en_spec (wk_en w))
      in if fb_enabled fb \<and> \<not> ex_fallback_activated (wk_ex w) \<and>
            ex_fallback_depth (wk_ex w) < fb_max_depth fb \<and> \<not> work_outstanding (wk_ex w)
         then (case find (\<lambda>t. fallback_trigger_fires t (wk_en w) (wk_ex w)) (fb_triggers fb) of
                 None \<Rightarrow> w
               | Some trigger \<Rightarrow> activate_fallback trigger w)
         else w)"

section \<open>Advancing an execution\<close>

definition advance_pass :: "Work \<Rightarrow> Work \<times> status" where
  "advance_pass w0 =
     (let w = w0\<lparr>wk_progress := False\<rparr>
      in case stage_loop (drop (ex_stage_index (wk_ex w)) (all_stages (wk_en w))) w of
           (w, Err e) \<Rightarrow> (w, fail e)
         | (w, Ok _) \<Rightarrow>
             if ex_stage_index (wk_ex w) < length (all_stages (wk_en w)) then (w, ok_status)
             else (case plan_evaluations w of
                     (w, Err e) \<Rightarrow> (w, fail e)
                   | (w, Ok _) \<Rightarrow> (fallback_step (emit_evaluations w), ok_status)))"

fun advance_loop :: "nat \<Rightarrow> Work \<Rightarrow> Work \<times> status" where
  "advance_loop 0 w = (w, ok_status)"
| "advance_loop (Suc guard) w =
     (case advance_pass w of
        (w, Err e) \<Rightarrow> (w, fail e)
      | (w, Ok _) \<Rightarrow> if wk_progress w then advance_loop guard w else (w, ok_status))"

definition cancel_step :: "CandidateRecord \<Rightarrow> Work \<Rightarrow> CandidateRecord \<times> Work" where
  "cancel_step c w =
     (if \<not> in_flight c then (c, w)
      else case wk_next_sequence w of (s, w) \<Rightarrow>
        (c\<lparr>cd_state := C_cancelled, cd_current := False\<rparr>,
         wk_emit (Cancel
           \<lparr>xa_execution = execution_ref (wk_en w), xa_participant = cd_participant c,
            xa_participant_generation = cd_participant_generation c, xa_candidate = cd_id c,
            xa_candidate_generation = cd_generation c,
            xa_reason = ex_cancellation_reason (wk_ex w), xa_sequence = s\<rparr>) w))"

fun cancel_loop :: "CandidateRecord list \<Rightarrow> Work \<Rightarrow> CandidateRecord list \<times> Work" where
  "cancel_loop [] w = ([], w)"
| "cancel_loop (c # cs) w =
     (case cancel_step c w of (c, w) \<Rightarrow> (case cancel_loop cs w of (cs, w) \<Rightarrow> (c # cs, w)))"

definition emit_cancellation :: "Work \<Rightarrow> Work" where
  "emit_cancellation w =
     (if ex_cancellation_emitted (wk_ex w) then w
      else let w = wk_map_ex (\<lambda>ex. ex\<lparr>ex_cancellation_emitted := True\<rparr>) w;
               w = w\<lparr>wk_im := (wk_im w)\<lparr>im_counters := (im_counters (wk_im w))\<lparr>ct_cancellations :=
                      ct_cancellations (im_counters (wk_im w)) + 1\<rparr>\<rparr>\<rparr>
           in case cancel_loop (ex_candidates (wk_ex w)) w of (cs, w) \<Rightarrow>
                wk_map_ex (\<lambda>ex. ex\<lparr>ex_candidates := cs,
                  ex_pending := map (\<lambda>p. p\<lparr>pe_abandoned := True\<rparr>) (ex_pending ex)\<rparr>) w)"

definition supersede_open_execution :: "ExecutionRecord \<Rightarrow> ExecutionRecord" where
  "supersede_open_execution ex =
     ex\<lparr>ex_status := XS_superseded,
        ex_candidates := map (\<lambda>c. if in_flight c then c\<lparr>cd_state := C_superseded, cd_current := False\<rparr> else c)
          (ex_candidates ex)\<rparr>"

definition advance_open :: "Work \<Rightarrow> Work \<times> status" where
  "advance_open w =
     (case advance_loop 64 w of
        (w, Err e) \<Rightarrow> (w, fail e)
      | (w, Ok _) \<Rightarrow> (w\<lparr>wk_en := compute_reports (wk_en w)\<rparr>, ok_status))"

definition finish_advance :: "EnsembleId \<Rightarrow> Work \<times> status \<Rightarrow> Impl \<times> FabricAction list outcome" where
  "finish_advance i r =
     (put_ensemble i (wk_en (fst r)) (wk_im (fst r)),
      case snd r of Ok _ \<Rightarrow> Ok (wk_actions (fst r)) | Err e \<Rightarrow> fail e)"

definition advance :: "EnsembleId \<Rightarrow> EnsembleGeneration \<Rightarrow> Impl \<Rightarrow> Impl \<times> FabricAction list outcome" where
  "advance i generation im =
     (case find_ensemble im i of
        None \<Rightarrow> (im, fail E_unknown_ensemble)
      | Some en \<Rightarrow>
          if sp_generation (en_spec en) \<noteq> generation then (im, fail E_stale_ensemble_generation)
          else if \<not> en_has_execution en then (im, Ok [])
          else let w = \<lparr>wk_im = im, wk_en = en, wk_actions = [], wk_progress = True\<rparr>
               in if ex_status (wk_ex w) = XS_cancelled then finish_advance i (emit_cancellation w, ok_status)
                  else if ex_status (wk_ex w) \<noteq> XS_open then (im, Ok [])
                  else if en_superseded en then finish_advance i (wk_map_ex supersede_open_execution w, ok_status)
                  else finish_advance i (advance_open w))"

end
