(* ===== verification/Fabric_Progress.thy ===== *)
theory Fabric_Progress
  imports Fabric_Execution
begin

text \<open>
  Invariants of \<^verbatim>\<open>advance\<close>. The locale states, one elementary update at a time, what a property of
  the locals has to be stable under; the loops carry it then. It is interpreted on the frame that
  the commit gate relies on, on the uniqueness of the candidate identities, on the retry bound and
  on the authority of the emitted actions.
\<close>

section \<open>Elementary updates\<close>

lemma wk_map_ex_simps [simp]:
  "wk_im (wk_map_ex f w) = wk_im w" "wk_actions (wk_map_ex f w) = wk_actions w"
  "wk_progress (wk_map_ex f w) = wk_progress w"
  "en_execution (wk_en (wk_map_ex f w)) = f (wk_ex w)"
  "en_spec (wk_en (wk_map_ex f w)) = en_spec (wk_en w)"
  "en_participants (wk_en (wk_map_ex f w)) = en_participants (wk_en w)"
  "en_has_execution (wk_en (wk_map_ex f w)) = en_has_execution (wk_en w)"
  "en_superseded (wk_en (wk_map_ex f w)) = en_superseded (wk_en w)"
  "en_history (wk_en (wk_map_ex f w)) = en_history (wk_en w)"
  by (simp_all add: wk_map_ex_def map_execution_def)

lemma wk_made_progress_simps [simp]:
  "wk_im (wk_made_progress w) = wk_im w" "wk_en (wk_made_progress w) = wk_en w"
  "wk_actions (wk_made_progress w) = wk_actions w" "wk_progress (wk_made_progress w)"
  by (simp_all add: wk_made_progress_def)

lemma wk_emit_simps [simp]:
  "wk_im (wk_emit a w) = wk_im w" "wk_en (wk_emit a w) = wk_en w"
  "wk_actions (wk_emit a w) = wk_actions w @ [a]" "wk_progress (wk_emit a w) = wk_progress w"
  by (simp_all add: wk_emit_def)

lemma wk_next_sequence_simps [simp]:
  "wk_en (snd (wk_next_sequence w)) = wk_en w" "wk_actions (snd (wk_next_sequence w)) = wk_actions w"
  "wk_progress (snd (wk_next_sequence w)) = wk_progress w"
  "im_epoch (wk_im (snd (wk_next_sequence w))) = im_epoch (wk_im w)"
  "im_ensembles (wk_im (snd (wk_next_sequence w))) = im_ensembles (wk_im w)"
  "im_config (wk_im (snd (wk_next_sequence w))) = im_config (wk_im w)"
  "im_candidate_ids (wk_im (snd (wk_next_sequence w))) = im_candidate_ids (wk_im w)"
  "im_evaluation_ids (wk_im (snd (wk_next_sequence w))) = im_evaluation_ids (wk_im w)"
  using next_sequence_frame[of "wk_im w"]
  by (cases "next_sequence (wk_im w)"; simp add: wk_next_sequence_def)+

lemma wk_next_sequence_frame:
  "wk_next_sequence w = (s, w') \<Longrightarrow> wk_en w' = wk_en w \<and> wk_actions w' = wk_actions w \<and>
     wk_progress w' = wk_progress w \<and> im_epoch (wk_im w') = im_epoch (wk_im w) \<and>
     im_ensembles (wk_im w') = im_ensembles (wk_im w) \<and> im_config (wk_im w') = im_config (wk_im w) \<and>
     im_candidate_ids (wk_im w') = im_candidate_ids (wk_im w) \<and>
     im_evaluation_ids (wk_im w') = im_evaluation_ids (wk_im w)"
  using wk_next_sequence_simps[of w] by simp

lemma wk_store_candidate_simps [simp]:
  "wk_im (wk_store_candidate k c w) = wk_im w" "wk_actions (wk_store_candidate k c w) = wk_actions w"
  "wk_progress (wk_store_candidate k c w) = wk_progress w"
  "ex_candidates (wk_ex (wk_store_candidate k c w)) = (ex_candidates (wk_ex w))[k := c]"
  "en_spec (wk_en (wk_store_candidate k c w)) = en_spec (wk_en w)"
  "en_participants (wk_en (wk_store_candidate k c w)) = en_participants (wk_en w)"
  "find_participant (wk_en (wk_store_candidate k c w)) i = find_participant (wk_en w) i"
  by (simp_all add: wk_store_candidate_def store_candidate_at_def map_execution_def find_participant_def)

lemma candidate_at_store [simp]:
  "k < length (ex_candidates (wk_ex w)) \<Longrightarrow> candidate_at k (wk_en (wk_store_candidate k c w)) = c"
  by (simp add: candidate_at_def)

lemma length_candidates_steps [simp]:
  "length (ex_candidates (wk_ex (unavailable_candidate k p c w))) = length (ex_candidates (wk_ex w))"
  "length (ex_candidates (wk_ex (dispatch_candidate k p c w))) = length (ex_candidates (wk_ex w))"
  by (simp_all add: unavailable_candidate_def fail_candidate_def map_execution_def map_participants_with_def
      supersede_candidate_evidence_def dispatch_candidate_def split: prod.splits)
     (auto dest!: wk_next_sequence_frame)

section \<open>The interface\<close>

definition dispatchable :: "nat \<Rightarrow> ParticipantRecord \<Rightarrow> CandidateRecord \<Rightarrow> Work \<Rightarrow> bool" where
  "dispatchable k p c w \<longleftrightarrow>
     k < length (ex_candidates (wk_ex w)) \<and> c = candidate_at k (wk_en w) \<and> cd_state c = C_declared \<and>
     find_participant (wk_en w) (cd_participant c) = Some p"

locale work_invariant =
  fixes I :: "Work \<Rightarrow> bool"
  assumes inv_progress: "I w \<Longrightarrow> I (w\<lparr>wk_progress := b\<rparr>)"
    and inv_declare: "I w \<Longrightarrow> I (fst (declare_candidate stage i w))"
    and inv_declared: "I w \<Longrightarrow> I (wk_map_ex (\<lambda>ex. ex\<lparr>ex_declared_current_stage := True\<rparr>) w)"
    and inv_next_stage: "I w \<Longrightarrow> I (wk_map_ex (\<lambda>ex. ex\<lparr>ex_stage_index := Suc (ex_stage_index ex),
           ex_declared_current_stage := False\<rparr>) w)"
    and inv_refresh: "I w \<Longrightarrow> dispatchable k p c w \<Longrightarrow>
           I (wk_store_candidate k (c\<lparr>cd_participant_generation := pr_generation p\<rparr>) w)"
    and inv_unavailable: "I w \<Longrightarrow> dispatchable k p c w \<Longrightarrow> \<not> authoritative (im_epoch (wk_im w)) p \<Longrightarrow>
           I (unavailable_candidate k p c w)"
    and inv_dispatch: "I w \<Longrightarrow> dispatchable k p c w \<Longrightarrow> authoritative (im_epoch (wk_im w)) p \<Longrightarrow>
           cd_participant_generation c = pr_generation p \<Longrightarrow> I (dispatch_candidate k p c w)"
    and inv_planning: "I w \<Longrightarrow> I (wk_map_ex (\<lambda>ex. ex\<lparr>ex_planning_complete := b\<rparr>) w)"
    and inv_plan: "I w \<Longrightarrow> I (fst (plan_loop [item] w))"
    and inv_emit: "I w \<Longrightarrow> I (emit_evaluations w)"
    and inv_reports: "I w \<Longrightarrow> I (w\<lparr>wk_en := compute_reports (wk_en w)\<rparr>)"
    and inv_fallback: "I w \<Longrightarrow> I (activate_fallback t w)"
begin

lemma inv_made_progress: "I w \<Longrightarrow> I (wk_made_progress w)"
  by (simp add: wk_made_progress_def inv_progress)

lemma inv_declare_loop: "I w \<Longrightarrow> I (fst (declare_loop stage ps w))"
proof (induction ps arbitrary: w)
  case (Cons i ps)
  obtain w1 r where d: "declare_candidate stage i w = (w1, r)" by (cases "declare_candidate stage i w")
  have "I w1" using inv_declare[OF Cons.prems, of stage i] by (simp add: d)
  then show ?case using Cons.IH[of w1] d by (cases r) simp_all
qed simp

lemma inv_declare_stage: "I w \<Longrightarrow> I (fst (declare_stage stage w))"
  using inv_declare_loop[of w stage "st_participants stage"]
  by (auto simp: declare_stage_def inv_made_progress inv_declared split: prod.splits outcome.splits)

lemma inv_dispatch_loop:
  "I w \<Longrightarrow> \<forall>k \<in> set ks. k < length (ex_candidates (wk_ex w)) \<Longrightarrow> I (dispatch_loop stage ks b w)"
proof (induction ks arbitrary: b w)
  case (Cons k ks)
  let ?c = "candidate_at k (wk_en w)"
  show ?case
  proof (cases "cd_stage ?c \<noteq> st_id stage \<or> cd_state ?c \<noteq> C_declared \<or>
                find_participant (wk_en w) (cd_participant ?c) = None")
    case True
    then show ?thesis using Cons by (auto simp: Let_def)
  next
    case False
    then obtain p where p: "find_participant (wk_en w) (cd_participant ?c) = Some p" by auto
    let ?c' = "?c\<lparr>cd_participant_generation := pr_generation p\<rparr>"
    let ?w = "wk_store_candidate k ?c' w"
    have "dispatchable k p ?c w" using False p Cons.prems by (simp add: dispatchable_def)
    then have w: "I ?w" "dispatchable k p ?c' ?w"
      using Cons.prems by (auto simp: inv_refresh dispatchable_def)
    show ?thesis using False p w Cons.prems(2)
      by (auto simp: Let_def intro!: Cons.IH inv_unavailable inv_dispatch)
  qed
qed simp

lemma inv_stage_loop: "I w \<Longrightarrow> I (fst (stage_loop stages w))"
proof (induction stages arbitrary: w)
  case (Cons stage stages)
  obtain w' r where d: "declare_stage stage w = (w', r)" by (cases "declare_stage stage w")
  have "I w'" using inv_declare_stage[OF Cons.prems, of stage] d by simp
  moreover from this have "I (dispatch_stage stage w')"
    by (simp add: dispatch_stage_def inv_dispatch_loop)
  ultimately show ?case using d
    by (auto simp: Let_def inv_made_progress inv_next_stage intro: Cons.IH split: outcome.splits)
qed simp

lemma inv_plan_loop: "I w \<Longrightarrow> I (fst (plan_loop items w))"
proof (induction items arbitrary: w)
  case (Cons item items)
  have "I (fst (plan_loop [item] w))" by (rule inv_plan) (rule Cons.prems)
  then show ?case using Cons.IH by (auto split: prod.splits option.splits)
qed simp

lemma inv_plan_evaluations: "I w \<Longrightarrow> I (fst (plan_evaluations w))"
proof -
  assume "I w"
  then have r: "I (reopen_planning w)" by (simp add: reopen_planning_def inv_made_progress inv_planning)
  show ?thesis
    using inv_plan_loop[OF inv_planning[OF r, of True],
        of "evaluation_plan (en_spec (wk_en (reopen_planning w))) (ex_candidates (wk_ex (reopen_planning w)))"] r
    by (auto simp: plan_evaluations_def Let_def inv_made_progress split: prod.splits outcome.splits)
qed

lemma inv_fallback_step: "I w \<Longrightarrow> I (fallback_step w)"
  using inv_reports[of w] by (auto simp: fallback_step_def Let_def inv_fallback split: option.splits)

lemma inv_advance_pass: "I w \<Longrightarrow> I (fst (advance_pass w))"
proof -
  assume "I w"
  then have w: "I (w\<lparr>wk_progress := False\<rparr>)" by (rule inv_progress)
  obtain w' r where s: "stage_loop (drop (ex_stage_index (wk_ex w)) (all_stages (wk_en w)))
      (w\<lparr>wk_progress := False\<rparr>) = (w', r)" by (cases "stage_loop (drop (ex_stage_index (wk_ex w))
      (all_stages (wk_en w))) (w\<lparr>wk_progress := False\<rparr>)")
  have w': "I w'" using inv_stage_loop[OF w] s by (metis fst_conv)
  obtain w'' r' where p: "plan_evaluations w' = (w'', r')" by (cases "plan_evaluations w'")
  have "I w''" using inv_plan_evaluations[OF w'] p by simp
  with w' s p show ?thesis
    by (auto simp: advance_pass_def Let_def inv_fallback_step inv_emit split: outcome.splits)
qed

lemma inv_advance_loop: "I w \<Longrightarrow> I (fst (advance_loop n w))"
proof (induction n arbitrary: w)
  case (Suc n)
  have "I (fst (advance_pass w))" by (rule inv_advance_pass) (rule Suc.prems)
  then show ?case using Suc.IH by (auto split: prod.splits outcome.splits)
qed simp

lemma inv_advance_open: "I w \<Longrightarrow> I (fst (advance_open w))"
  using inv_advance_loop[of w 64] by (auto simp: advance_open_def inv_reports split: prod.splits outcome.splits)

end

section \<open>What the steps leave alone\<close>

definition commit_frame :: "EnsembleRecord \<Rightarrow> EnsembleRecord \<Rightarrow> bool" where
  "commit_frame en en' \<longleftrightarrow>
     en_spec en' = en_spec en \<and> en_has_execution en' = en_has_execution en \<and>
     en_superseded en' = en_superseded en \<and> en_history en' = en_history en \<and>
     ex_id (en_execution en') = ex_id (en_execution en) \<and>
     ex_attempt_generation (en_execution en') = ex_attempt_generation (en_execution en) \<and>
     ex_coordinator_epoch (en_execution en') = ex_coordinator_epoch (en_execution en) \<and>
     ex_has_result (en_execution en') = ex_has_result (en_execution en) \<and>
     ex_result (en_execution en') = ex_result (en_execution en) \<and>
     ex_commits (en_execution en') = ex_commits (en_execution en) \<and>
     ex_cancellation_requested (en_execution en') = ex_cancellation_requested (en_execution en)"

text \<open>The part of a participant record that carries its authority.\<close>

definition authority_of :: "ParticipantRecord \<Rightarrow>
    ParticipantId \<times> ParticipantGeneration \<times> ParticipantStatus \<times> bool \<times> CoordinatorEpoch \<times> WorkerId \<times> WorkerBootId" where
  "authority_of p = (pr_id p, pr_generation p, pr_status p, pr_registered p, pr_coordinator_epoch p, pr_worker p,
     pr_worker_boot p)"

definition same_authority :: "EnsembleRecord \<Rightarrow> EnsembleRecord \<Rightarrow> bool" where
  "same_authority en en' \<longleftrightarrow> map authority_of (en_participants en') = map authority_of (en_participants en)"

lemma commit_frame_refl [simp]: "commit_frame en en"
  by (simp add: commit_frame_def)

lemma commit_frame_trans: "commit_frame a b \<Longrightarrow> commit_frame b c \<Longrightarrow> commit_frame a c"
  by (simp add: commit_frame_def)

lemma same_authority_refl [simp]: "same_authority en en"
  by (simp add: same_authority_def)

lemma same_authority_trans: "same_authority a b \<Longrightarrow> same_authority b c \<Longrightarrow> same_authority a c"
  by (simp add: same_authority_def)

lemma fail_candidate_frames:
  "commit_frame en (fst (fail_candidate e d en c))" "same_authority en (fst (fail_candidate e d en c))"
  by (auto simp: fail_candidate_def commit_frame_def same_authority_def map_execution_def authority_of_def
      map_participants_with_def supersede_candidate_evidence_def)

lemma store_candidate_at_frames:
  "commit_frame (fst ec) (store_candidate_at k ec)" "same_authority (fst ec) (store_candidate_at k ec)"
  by (auto simp: store_candidate_at_def commit_frame_def same_authority_def map_execution_def)

lemma find_authority:
  assumes "same_authority en en'" and "find_participant en' i = Some p'"
  obtains p where "find_participant en i = Some p" "authority_of p = authority_of p'"
proof -
  have "map authority_of xs = map authority_of ys \<Longrightarrow> find (\<lambda>p. pr_id p = i) ys = Some p' \<Longrightarrow>
    \<exists>p. find (\<lambda>p. pr_id p = i) xs = Some p \<and> authority_of p = authority_of p'" for xs ys
  proof (induction xs arbitrary: ys)
    case (Cons x xs)
    then obtain y zs where "ys = y # zs" "authority_of y = authority_of x" "map authority_of xs = map authority_of zs"
      by (cases ys) auto
    with Cons show ?case by (auto simp: authority_of_def split: if_splits)
  qed simp
  with assms that show thesis unfolding same_authority_def find_participant_def by metis
qed

lemma set_participant_authority:
  assumes "find_participant en (pr_id p) = Some q" "authority_of p = authority_of q"
  shows "same_authority en (set_participant p en)"
proof -
  have "find (\<lambda>q. pr_id q = i) ps = Some q \<Longrightarrow> authority_of p = authority_of q \<Longrightarrow>
    map authority_of (update_first (\<lambda>q. pr_id q = i) (\<lambda>_. p) ps) = map authority_of ps" for ps i
    by (induction ps) auto
  with assms show ?thesis by (simp add: same_authority_def set_participant_def find_participant_def)
qed

lemma emit_pending_frame:
  "emit_pending p w = (p', w') \<Longrightarrow> wk_en w' = wk_en w \<and> im_epoch (wk_im w') = im_epoch (wk_im w) \<and>
     im_candidate_ids (wk_im w') = im_candidate_ids (wk_im w) \<and>
     im_evaluation_ids (wk_im w') = im_evaluation_ids (wk_im w) \<and>
     im_ensembles (wk_im w') = im_ensembles (wk_im w) \<and> im_config (wk_im w') = im_config (wk_im w) \<and>
     pe_id p' = pe_id p"
  by (auto simp: emit_pending_def dest!: wk_next_sequence_frame split: if_splits option.splits prod.splits)

lemma emit_loop_frame:
  "emit_loop ps w = (ps', w') \<Longrightarrow> wk_en w' = wk_en w \<and> im_epoch (wk_im w') = im_epoch (wk_im w) \<and>
     im_candidate_ids (wk_im w') = im_candidate_ids (wk_im w) \<and>
     im_evaluation_ids (wk_im w') = im_evaluation_ids (wk_im w) \<and>
     im_ensembles (wk_im w') = im_ensembles (wk_im w) \<and> im_config (wk_im w') = im_config (wk_im w) \<and>
     map pe_id ps' = map pe_id ps"
proof (induction ps arbitrary: w ps' w')
  case (Cons p ps)
  then obtain p1 w1 where "emit_pending p w = (p1, w1)" by (cases "emit_pending p w")
  with Cons emit_pending_frame[of p w p1 w1] show ?case by (auto split: prod.splits)
qed simp

lemma activate_participant_frame:
  "wk_ex (activate_participant t i w) = wk_ex w \<and> commit_frame (wk_en w) (wk_en (activate_participant t i w)) \<and>
   same_authority (wk_en w) (wk_en (activate_participant t i w)) \<and>
   im_epoch (wk_im (activate_participant t i w)) = im_epoch (wk_im w) \<and>
   im_candidate_ids (wk_im (activate_participant t i w)) = im_candidate_ids (wk_im w) \<and>
   im_evaluation_ids (wk_im (activate_participant t i w)) = im_evaluation_ids (wk_im w) \<and>
   im_ensembles (wk_im (activate_participant t i w)) = im_ensembles (wk_im w) \<and>
   im_config (wk_im (activate_participant t i w)) = im_config (wk_im w)"
proof (cases "find_participant (wk_en w) i")
  case None
  then show ?thesis by (auto simp: activate_participant_def dest!: wk_next_sequence_frame split: prod.splits)
next
  case (Some p)
  let ?en = "set_participant (p\<lparr>pr_fallback_activated := True\<rparr>) (wk_en w)"
  have "pr_id p = i" using Some by (simp add: find_participantD)
  then have "same_authority (wk_en w) ?en"
    using Some by (intro set_participant_authority[of _ _ p]) (simp_all add: authority_of_def)
  moreover have "commit_frame (wk_en w) ?en" "en_execution ?en = wk_ex w"
    by (simp_all add: commit_frame_def set_participant_def)
  ultimately show ?thesis using Some
    by (auto simp: activate_participant_def dest!: wk_next_sequence_frame split: prod.splits)
qed

lemma fold_activate_frame:
  "wk_ex (fold (activate_participant t) is w) = wk_ex w \<and>
   commit_frame (wk_en w) (wk_en (fold (activate_participant t) is w)) \<and>
   same_authority (wk_en w) (wk_en (fold (activate_participant t) is w)) \<and>
   im_epoch (wk_im (fold (activate_participant t) is w)) = im_epoch (wk_im w) \<and>
   im_candidate_ids (wk_im (fold (activate_participant t) is w)) = im_candidate_ids (wk_im w) \<and>
   im_evaluation_ids (wk_im (fold (activate_participant t) is w)) = im_evaluation_ids (wk_im w) \<and>
   im_ensembles (wk_im (fold (activate_participant t) is w)) = im_ensembles (wk_im w) \<and>
   im_config (wk_im (fold (activate_participant t) is w)) = im_config (wk_im w)"
proof (induction "is" arbitrary: w)
  case (Cons i "is")
  show ?case using Cons[of "activate_participant t i w"] activate_participant_frame[of t i w]
    by (auto intro: commit_frame_trans same_authority_trans)
qed simp

end
