(* ===== verification/Fabric_Advance.thy ===== *)
theory Fabric_Advance
  imports Fabric_Progress
begin

text \<open>
  The laws of \<^verbatim>\<open>advance\<close>, each an interpretation of \<open>work_invariant\<close>: it leaves alone what the
  commit gate reads, it never reuses a candidate or evaluation identity, it dispatches a
  candidate at most as often as the retry policy allows, and every action it emits names a
  participant that holds current authority.
\<close>

section \<open>The commit frame\<close>

lemma declare_candidate_frame:
  "commit_frame (wk_en w) (wk_en (fst (declare_candidate stage i w))) \<and>
   same_authority (wk_en w) (wk_en (fst (declare_candidate stage i w))) \<and>
   im_epoch (wk_im (fst (declare_candidate stage i w))) = im_epoch (wk_im w) \<and>
   im_ensembles (wk_im (fst (declare_candidate stage i w))) = im_ensembles (wk_im w) \<and>
   im_config (wk_im (fst (declare_candidate stage i w))) = im_config (wk_im w)"
  by (auto simp: declare_candidate_def commit_frame_def same_authority_def split: option.splits prod.splits)

lemma plan_one_frame:
  "commit_frame (wk_en w) (wk_en (fst (plan_loop [item] w))) \<and>
   same_authority (wk_en w) (wk_en (fst (plan_loop [item] w))) \<and>
   im_epoch (wk_im (fst (plan_loop [item] w))) = im_epoch (wk_im w) \<and>
   im_ensembles (wk_im (fst (plan_loop [item] w))) = im_ensembles (wk_im w) \<and>
   im_config (wk_im (fst (plan_loop [item] w))) = im_config (wk_im w)"
  by (auto simp: commit_frame_def same_authority_def split: option.splits prod.splits)

lemma store_fail_frames:
  "commit_frame en (store_candidate_at k (fail_candidate e d en c))"
  "same_authority en (store_candidate_at k (fail_candidate e d en c))"
  using fail_candidate_frames[of en e d c] store_candidate_at_frames[of "fail_candidate e d en c" k]
  by (blast intro: commit_frame_trans same_authority_trans)+

lemma unavailable_split:
  obtains "unavailable_candidate k p c w = w"
  | d where "unavailable_candidate k p c w =
      wk_made_progress (w\<lparr>wk_en := store_candidate_at k (fail_candidate E_participant_unavailable d (wk_en w) c)\<rparr>)"
  unfolding unavailable_candidate_def by metis

lemma unavailable_frame:
  "commit_frame (wk_en w) (wk_en (unavailable_candidate k p c w)) \<and>
   same_authority (wk_en w) (wk_en (unavailable_candidate k p c w)) \<and>
   wk_im (unavailable_candidate k p c w) = wk_im w \<and>
   wk_actions (unavailable_candidate k p c w) = wk_actions w"
  by (simp add: unavailable_candidate_def store_fail_frames)

lemma store_frame:
  "commit_frame (wk_en w) (wk_en (wk_store_candidate k c w)) \<and>
   same_authority (wk_en w) (wk_en (wk_store_candidate k c w))"
  using store_candidate_at_frames[of "(wk_en w, c)" k] by (simp add: wk_store_candidate_def)

lemma dispatch_frame:
  "commit_frame (wk_en w) (wk_en (dispatch_candidate k p c w)) \<and>
   same_authority (wk_en w) (wk_en (dispatch_candidate k p c w)) \<and>
   im_epoch (wk_im (dispatch_candidate k p c w)) = im_epoch (wk_im w) \<and>
   im_candidate_ids (wk_im (dispatch_candidate k p c w)) = im_candidate_ids (wk_im w) \<and>
   im_evaluation_ids (wk_im (dispatch_candidate k p c w)) = im_evaluation_ids (wk_im w) \<and>
   im_ensembles (wk_im (dispatch_candidate k p c w)) = im_ensembles (wk_im w) \<and>
   im_config (wk_im (dispatch_candidate k p c w)) = im_config (wk_im w)"
  using store_frame
  by (auto simp: dispatch_candidate_def dest!: wk_next_sequence_frame split: prod.splits) (metis store_frame)+

lemma emit_evaluations_frame:
  "commit_frame (wk_en w) (wk_en (emit_evaluations w)) \<and> same_authority (wk_en w) (wk_en (emit_evaluations w)) \<and>
   im_epoch (wk_im (emit_evaluations w)) = im_epoch (wk_im w) \<and>
   im_candidate_ids (wk_im (emit_evaluations w)) = im_candidate_ids (wk_im w) \<and>
   im_evaluation_ids (wk_im (emit_evaluations w)) = im_evaluation_ids (wk_im w) \<and>
   im_ensembles (wk_im (emit_evaluations w)) = im_ensembles (wk_im w) \<and>
   im_config (wk_im (emit_evaluations w)) = im_config (wk_im w) \<and>
   ex_candidates (wk_ex (emit_evaluations w)) = ex_candidates (wk_ex w) \<and>
   map pe_id (ex_pending (wk_ex (emit_evaluations w))) = map pe_id (ex_pending (wk_ex w))"
  by (auto simp: emit_evaluations_def commit_frame_def same_authority_def dest!: emit_loop_frame
      split: prod.splits)

lemma activate_fallback_frame:
  "commit_frame (wk_en w) (wk_en (activate_fallback t w)) \<and> same_authority (wk_en w) (wk_en (activate_fallback t w)) \<and>
   im_epoch (wk_im (activate_fallback t w)) = im_epoch (wk_im w) \<and>
   im_candidate_ids (wk_im (activate_fallback t w)) = im_candidate_ids (wk_im w) \<and>
   im_evaluation_ids (wk_im (activate_fallback t w)) = im_evaluation_ids (wk_im w) \<and>
   im_ensembles (wk_im (activate_fallback t w)) = im_ensembles (wk_im w) \<and>
   im_config (wk_im (activate_fallback t w)) = im_config (wk_im w) \<and>
   ex_candidates (wk_ex (activate_fallback t w)) = ex_candidates (wk_ex w) \<and>
   ex_pending (wk_ex (activate_fallback t w)) = ex_pending (wk_ex w)"
proof -
  let ?stage = "fallback_stage (en_spec (wk_en w)) (ex_fallback_depth (wk_ex w))"
  define w1 where "w1 = wk_map_ex (\<lambda>ex. ex\<lparr>ex_extra_stages := ex_extra_stages ex @ [?stage],
    ex_fallback_activated := True, ex_fallback_depth := ex_fallback_depth ex + 1, ex_planning_complete := False\<rparr>) w"
  define w2 where "w2 = w1\<lparr>wk_im := (wk_im w1)\<lparr>im_counters := (im_counters (wk_im w1))\<lparr>ct_fallback_activations :=
    ct_fallback_activations (im_counters (wk_im w1)) + 1\<rparr>\<rparr>\<rparr>"
  have a: "activate_fallback t w = wk_made_progress (fold (activate_participant t) (st_participants ?stage) w2)"
    by (simp add: activate_fallback_def w2_def w1_def Let_def)
  have "commit_frame (wk_en w) (wk_en w2)" "same_authority (wk_en w) (wk_en w2)"
    by (simp_all add: w2_def w1_def commit_frame_def same_authority_def)
  with fold_activate_frame[of t "st_participants ?stage" w2] show ?thesis
    by (auto simp: a intro: commit_frame_trans same_authority_trans) (simp_all add: w2_def w1_def)
qed

lemma reports_frame:
  "commit_frame (wk_en w) (compute_reports (wk_en w)) \<and> same_authority (wk_en w) (compute_reports (wk_en w))"
  by (simp add: commit_frame_def same_authority_def)

text \<open>The runtime around the ensemble: epoch, configuration and the other ensembles.\<close>

definition runtime_frame :: "Impl \<Rightarrow> EnsembleRecord \<Rightarrow> Work \<Rightarrow> bool" where
  "runtime_frame im en w \<longleftrightarrow>
     commit_frame en (wk_en w) \<and> same_authority en (wk_en w) \<and> im_epoch (wk_im w) = im_epoch im \<and>
     im_ensembles (wk_im w) = im_ensembles im \<and> im_config (wk_im w) = im_config im"

lemma runtime_frameI:
  assumes "runtime_frame im en w" "commit_frame (wk_en w) (wk_en w')" "same_authority (wk_en w) (wk_en w')"
    "im_epoch (wk_im w') = im_epoch (wk_im w)" "im_ensembles (wk_im w') = im_ensembles (wk_im w)"
    "im_config (wk_im w') = im_config (wk_im w)"
  shows "runtime_frame im en w'"
  using assms by (auto simp: runtime_frame_def intro: commit_frame_trans same_authority_trans)

interpretation frame: work_invariant "runtime_frame im en" for im en
proof unfold_locales
  fix w b stage i k item t and p :: ParticipantRecord and c :: CandidateRecord
  assume w: "runtime_frame im en w"
  note step = runtime_frameI[OF w]
  show "runtime_frame im en (w\<lparr>wk_progress := b\<rparr>)" using w by (simp add: runtime_frame_def)
  show "runtime_frame im en (fst (declare_candidate stage i w))"
    using declare_candidate_frame[of w stage i] by (intro step) auto
  show "runtime_frame im en (wk_map_ex (\<lambda>ex. ex\<lparr>ex_declared_current_stage := True\<rparr>) w)"
    by (intro step) (auto simp: commit_frame_def same_authority_def)
  show "runtime_frame im en (wk_map_ex (\<lambda>ex. ex\<lparr>ex_stage_index := Suc (ex_stage_index ex),
          ex_declared_current_stage := False\<rparr>) w)"
    by (intro step) (auto simp: commit_frame_def same_authority_def)
  show "runtime_frame im en (wk_map_ex (\<lambda>ex. ex\<lparr>ex_planning_complete := b\<rparr>) w)"
    by (intro step) (auto simp: commit_frame_def same_authority_def)
  show "runtime_frame im en (fst (plan_loop [item] w))"
    using plan_one_frame[of w item] by (intro step) auto
  show "runtime_frame im en (emit_evaluations w)"
    using emit_evaluations_frame[of w] by (intro step) auto
  show "runtime_frame im en (w\<lparr>wk_en := compute_reports (wk_en w)\<rparr>)"
    using reports_frame[of w] by (intro step) auto
  show "runtime_frame im en (activate_fallback t w)"
    using activate_fallback_frame[of w t] by (intro step) auto
  show "runtime_frame im en (wk_store_candidate k (c\<lparr>cd_participant_generation := pr_generation p\<rparr>) w)"
    using store_frame by (intro step) auto
  show "runtime_frame im en (unavailable_candidate k p c w)"
    using unavailable_frame[of w k p c] by (intro step) auto
  show "runtime_frame im en (dispatch_candidate k p c w)"
    using dispatch_frame[of w k p c] by (intro step) auto
qed

section \<open>Fresh identities\<close>

definition ids_ok :: "u64 \<Rightarrow> u64 \<Rightarrow> ExecutionRecord \<Rightarrow> bool" where
  "ids_ok next_candidate next_evaluation ex \<longleftrightarrow>
     distinct (map cd_id (ex_candidates ex)) \<and> (\<forall>c \<in> set (ex_candidates ex). cd_id c < next_candidate) \<and>
     distinct (map pe_id (ex_pending ex)) \<and> (\<forall>p \<in> set (ex_pending ex). pe_id p < next_evaluation)"

definition fresh_work :: "Work \<Rightarrow> bool" where
  "fresh_work w \<longleftrightarrow> ids_ok (im_candidate_ids (wk_im w)) (im_evaluation_ids (wk_im w)) (wk_ex w)"

lemma ids_ok_alt:
  "ids_ok n m ex \<longleftrightarrow>
     distinct (map cd_id (ex_candidates ex)) \<and> set (map cd_id (ex_candidates ex)) \<subseteq> {i. i < n} \<and>
     distinct (map pe_id (ex_pending ex)) \<and> set (map pe_id (ex_pending ex)) \<subseteq> {i. i < m}"
  by (auto simp: ids_ok_def)

lemma fresh_work_cong:
  assumes "fresh_work w" "map cd_id (ex_candidates (wk_ex w')) = map cd_id (ex_candidates (wk_ex w))"
    "map pe_id (ex_pending (wk_ex w')) = map pe_id (ex_pending (wk_ex w))"
    "im_candidate_ids (wk_im w') = im_candidate_ids (wk_im w)"
    "im_evaluation_ids (wk_im w') = im_evaluation_ids (wk_im w)"
  shows "fresh_work w'"
  using assms by (simp only: fresh_work_def ids_ok_alt)

lemma map_id_list_update:
  "k < length cs \<Longrightarrow> cd_id c = cd_id (cs ! k) \<Longrightarrow> map cd_id (cs[k := c]) = map cd_id cs"
  by (simp add: map_update list_update_same_conv)

lemma ids_ok_mono:
  "ids_ok n m ex \<Longrightarrow> n \<le> n' \<Longrightarrow> m \<le> m' \<Longrightarrow> ids_ok n' m' ex"
  by (auto simp: ids_ok_def)

lemma reports_ids: "map cd_id (ex_candidates (compute_reports_execution en ex)) = map cd_id (ex_candidates ex)"
  by (rule strip_reason_transfer) simp_all

lemma supersede_evidence_ids:
  "ids_ok n m ex \<Longrightarrow> ids_ok n m (supersede_candidate_evidence i ex)"
  by (auto simp: ids_ok_def supersede_candidate_evidence_def distinct_map_filter)

lemma allocate_cases:
  "allocate n = (r, n') \<Longrightarrow> (r = None \<and> n' = n) \<or> (r = Some n \<and> n' = n + 1 \<and> n < n')"
  by (auto simp: allocate_def intro: word_less_plus_1 split: if_splits)

lemma fresh_declare: "fresh_work w \<Longrightarrow> fresh_work (fst (declare_candidate stage i w))"
  by (auto simp: declare_candidate_def fresh_work_def ids_ok_def declared_candidate_def
      dest!: allocate_cases split: option.splits prod.splits)

lemma fresh_plan: "fresh_work w \<Longrightarrow> fresh_work (fst (plan_loop [item] w))"
  by (auto simp: fresh_work_def ids_ok_def planned_pending_def
      dest!: allocate_cases split: option.splits prod.splits)

lemma fresh_unavailable:
  assumes "fresh_work w" "dispatchable k p c w" shows "fresh_work (unavailable_candidate k p c w)"
proof -
  have c: "k < length (ex_candidates (wk_ex w))" "cd_id c = cd_id (ex_candidates (wk_ex w) ! k)"
    using assms(2) by (auto simp: dispatchable_def candidate_at_def)
  then show ?thesis using assms(1) supersede_evidence_ids[of _ _ "wk_ex w" "cd_id c"]
    by (auto simp: unavailable_candidate_def fresh_work_def store_candidate_at_def fail_candidate_def
        map_execution_def map_participants_with_def ids_ok_alt map_id_list_update
        supersede_candidate_evidence_def simp del: set_map)
qed

interpretation fresh: work_invariant fresh_work
proof unfold_locales
  fix w b stage i item t
  assume w: "fresh_work w"
  note step = fresh_work_cong[OF w]
  show "fresh_work (w\<lparr>wk_progress := b\<rparr>)" using w by (simp add: fresh_work_def)
  show "fresh_work (fst (declare_candidate stage i w))" using w by (rule fresh_declare)
  show "fresh_work (wk_map_ex (\<lambda>ex. ex\<lparr>ex_declared_current_stage := True\<rparr>) w)" by (intro step) auto
  show "fresh_work (wk_map_ex (\<lambda>ex. ex\<lparr>ex_stage_index := Suc (ex_stage_index ex),
          ex_declared_current_stage := False\<rparr>) w)" by (intro step) auto
  show "fresh_work (wk_map_ex (\<lambda>ex. ex\<lparr>ex_planning_complete := b\<rparr>) w)" by (intro step) auto
  show "fresh_work (fst (plan_loop [item] w))" using w by (rule fresh_plan)
  show "fresh_work (emit_evaluations w)" using emit_evaluations_frame[of w] by (intro step) auto
  show "fresh_work (w\<lparr>wk_en := compute_reports (wk_en w)\<rparr>)" by (intro step) (simp_all add: reports_ids)
  show "fresh_work (activate_fallback t w)" using activate_fallback_frame[of w t] by (intro step) auto
next
  fix w k p c
  assume w: "fresh_work w" and d: "dispatchable k p c w"
  then have c: "k < length (ex_candidates (wk_ex w))" "cd_id c = cd_id (ex_candidates (wk_ex w) ! k)"
    by (auto simp: dispatchable_def candidate_at_def)
  note step = fresh_work_cong[OF w]
  show "fresh_work (wk_store_candidate k (c\<lparr>cd_participant_generation := pr_generation p\<rparr>) w)"
    using c by (intro step) (simp_all add: map_id_list_update wk_store_candidate_def store_candidate_at_def
        map_execution_def)
  show "fresh_work (unavailable_candidate k p c w)" using w d by (rule fresh_unavailable)
  show "fresh_work (dispatch_candidate k p c w)" using c dispatch_frame[of w k p c]
    by (intro step) (auto simp: dispatch_candidate_def map_id_list_update wk_store_candidate_def
        store_candidate_at_def map_execution_def dest!: wk_next_sequence_frame split: prod.splits)
qed

section \<open>The retry bound\<close>

definition attempts_ok :: "EnsembleSpec \<Rightarrow> ExecutionRecord \<Rightarrow> bool" where
  "attempts_ok spec ex \<longleftrightarrow>
     (\<forall>c \<in> set (ex_candidates ex). cd_attempts_used c \<le> rt_max_attempts (sp_retry spec) \<and>
        (cd_state c = C_declared \<longrightarrow> cd_attempts_used c < rt_max_attempts (sp_retry spec)))"

definition bounded_work :: "Work \<Rightarrow> bool" where
  "bounded_work w \<longleftrightarrow>
     rt_max_attempts (sp_retry (en_spec (wk_en w))) \<noteq> 0 \<and> attempts_ok (en_spec (wk_en w)) (wk_ex w)"

lemma bounded_work_cong:
  assumes "bounded_work w" "en_spec (wk_en w') = en_spec (wk_en w)"
    "ex_candidates (wk_ex w') = ex_candidates (wk_ex w)"
  shows "bounded_work w'"
  using assms by (simp add: bounded_work_def attempts_ok_def)

lemma bounded_work_update:
  assumes "bounded_work w" "en_spec (wk_en w') = en_spec (wk_en w)"
    "ex_candidates (wk_ex w') = (ex_candidates (wk_ex w))[k := c]"
    "cd_attempts_used c \<le> rt_max_attempts (sp_retry (en_spec (wk_en w)))"
    "cd_state c = C_declared \<Longrightarrow> cd_attempts_used c < rt_max_attempts (sp_retry (en_spec (wk_en w)))"
  shows "bounded_work w'"
  using assms set_update_subset_insert[of "ex_candidates (wk_ex w)" k c]
  by (auto simp: bounded_work_def attempts_ok_def)

lemma attempts_ok_reports: "attempts_ok spec (compute_reports_execution en ex) \<longleftrightarrow> attempts_ok spec ex"
proof -
  let ?f = "\<lambda>c. (cd_attempts_used c, cd_state c)"
  have "?f ` set (ex_candidates (compute_reports_execution en ex)) = ?f ` set (ex_candidates ex)"
    by (rule strip_reason_members) simp_all
  moreover have "attempts_ok spec x \<longleftrightarrow> (\<forall>(n, s) \<in> ?f ` set (ex_candidates x).
      n \<le> rt_max_attempts (sp_retry spec) \<and> (s = C_declared \<longrightarrow> n < rt_max_attempts (sp_retry spec)))" for x
    by (auto simp: attempts_ok_def)
  ultimately show ?thesis by (simp only:)
qed

lemma inc_le_of_less: "(a :: u32) < b \<Longrightarrow> a + 1 \<le> b"
  by (metis inc_le)

interpretation bounded: work_invariant bounded_work
proof unfold_locales
  fix w b stage i item t
  assume w: "bounded_work w"
  note step = bounded_work_cong[OF w]
  show "bounded_work (w\<lparr>wk_progress := b\<rparr>)" using w by (simp add: bounded_work_def)
  show "bounded_work (fst (declare_candidate stage i w))" using w
    by (auto simp: bounded_work_def attempts_ok_def declare_candidate_def declared_candidate_def
        candidate_record_default_def word_gt_0 split: option.splits prod.splits)
  show "bounded_work (wk_map_ex (\<lambda>ex. ex\<lparr>ex_declared_current_stage := True\<rparr>) w)" by (intro step) auto
  show "bounded_work (wk_map_ex (\<lambda>ex. ex\<lparr>ex_stage_index := Suc (ex_stage_index ex),
          ex_declared_current_stage := False\<rparr>) w)" by (intro step) auto
  show "bounded_work (wk_map_ex (\<lambda>ex. ex\<lparr>ex_planning_complete := b\<rparr>) w)" by (intro step) auto
  show "bounded_work (fst (plan_loop [item] w))" by (intro step) (auto split: prod.splits option.splits)
  show "bounded_work (emit_evaluations w)"
    using emit_evaluations_frame[of w] by (intro step) (auto simp: commit_frame_def)
  show "bounded_work (w\<lparr>wk_en := compute_reports (wk_en w)\<rparr>)"
    using w by (simp add: bounded_work_def attempts_ok_reports)
  show "bounded_work (activate_fallback t w)"
    using activate_fallback_frame[of w t] by (intro step) (auto simp: commit_frame_def)
next
  fix w k p c
  assume w: "bounded_work w" and d: "dispatchable k p c w"
  then have "c \<in> set (ex_candidates (wk_ex w))" "cd_state c = C_declared"
    by (auto simp: dispatchable_def candidate_at_def)
  with w have lt: "cd_attempts_used c < rt_max_attempts (sp_retry (en_spec (wk_en w)))"
    by (auto simp: bounded_work_def attempts_ok_def)
  note step = bounded_work_update[OF w, of _ k]
  show "bounded_work (wk_store_candidate k (c\<lparr>cd_participant_generation := pr_generation p\<rparr>) w)"
    using lt by (intro step[where c = "c\<lparr>cd_participant_generation := pr_generation p\<rparr>"]) auto
  show "bounded_work (unavailable_candidate k p c w)"
  proof (rule unavailable_split[of k p c w])
    fix d
    assume u: "unavailable_candidate k p c w =
      wk_made_progress (w\<lparr>wk_en := store_candidate_at k (fail_candidate E_participant_unavailable d (wk_en w) c)\<rparr>)"
    show ?thesis unfolding u using lt by (intro step[where c = "snd (fail_candidate E_participant_unavailable d (wk_en w) c)"])
      (simp_all add: store_candidate_at_def fail_candidate_def map_execution_def
        map_participants_with_def supersede_candidate_evidence_def)
  qed (use w in simp)
  show "bounded_work (dispatch_candidate k p c w)" using lt
    by (intro step[where c = "c\<lparr>cd_state := C_dispatched, cd_dispatch_sequence := fst (wk_next_sequence w),
          cd_attempts_used := cd_attempts_used c + 1, cd_coordinator_epoch := im_epoch (wk_im w),
          cd_worker := pr_worker p, cd_worker_boot := pr_worker_boot p\<rparr>"])
      (auto simp: dispatch_candidate_def inc_le_of_less dest!: wk_next_sequence_frame split: prod.splits)
qed

section \<open>Growing allocators and an open status\<close>

definition growing_work :: "u64 \<Rightarrow> u64 \<Rightarrow> ExecutionStatus \<Rightarrow> Work \<Rightarrow> bool" where
  "growing_work n m st w \<longleftrightarrow>
     n \<le> im_candidate_ids (wk_im w) \<and> m \<le> im_evaluation_ids (wk_im w) \<and> ex_status (wk_ex w) = st"

lemma fail_candidate_status: "ex_status (en_execution (fst (fail_candidate e d en c))) = ex_status (en_execution en)"
  by (simp add: fail_candidate_def map_execution_def map_participants_with_def supersede_candidate_evidence_def)

lemma store_candidate_status:
  "ex_status (en_execution (store_candidate_at k ec)) = ex_status (en_execution (fst ec))"
  by (simp add: store_candidate_at_def map_execution_def)

interpretation growing: work_invariant "growing_work n m st" for n m st
proof unfold_locales
  fix w b stage i k item t and p :: ParticipantRecord and c :: CandidateRecord
  assume w: "growing_work n m st w"
  show "growing_work n m st (w\<lparr>wk_progress := b\<rparr>)" using w by (simp add: growing_work_def)
  show "growing_work n m st (fst (declare_candidate stage i w))" using w
    by (auto simp: growing_work_def declare_candidate_def dest!: allocate_cases split: option.splits prod.splits)
  show "growing_work n m st (wk_map_ex (\<lambda>ex. ex\<lparr>ex_declared_current_stage := True\<rparr>) w)"
    using w by (simp add: growing_work_def)
  show "growing_work n m st (wk_map_ex (\<lambda>ex. ex\<lparr>ex_stage_index := Suc (ex_stage_index ex),
          ex_declared_current_stage := False\<rparr>) w)" using w by (simp add: growing_work_def)
  show "growing_work n m st (wk_map_ex (\<lambda>ex. ex\<lparr>ex_planning_complete := b\<rparr>) w)"
    using w by (simp add: growing_work_def)
  show "growing_work n m st (fst (plan_loop [item] w))" using w
    by (auto simp: growing_work_def dest!: allocate_cases split: option.splits prod.splits)
  show "growing_work n m st (emit_evaluations w)" using w
    by (auto simp: growing_work_def emit_evaluations_def dest!: emit_loop_frame split: prod.splits)
  show "growing_work n m st (w\<lparr>wk_en := compute_reports (wk_en w)\<rparr>)" using w by (simp add: growing_work_def)
  show "growing_work n m st (activate_fallback t w)"
    using w fold_activate_frame by (simp add: growing_work_def activate_fallback_def Let_def)
  show "growing_work n m st (wk_store_candidate k (c\<lparr>cd_participant_generation := pr_generation p\<rparr>) w)"
    using w by (simp add: growing_work_def wk_store_candidate_def store_candidate_status)
  show "growing_work n m st (unavailable_candidate k p c w)" using w
    by (simp add: growing_work_def unavailable_candidate_def store_candidate_status fail_candidate_status)
  show "growing_work n m st (dispatch_candidate k p c w)" using w dispatch_frame[of w k p c]
    by (auto simp: growing_work_def dispatch_candidate_def wk_store_candidate_def store_candidate_status
        dest!: wk_next_sequence_frame split: prod.splits)
qed

section \<open>The authority of the actions\<close>

definition holds_authority :: "CoordinatorEpoch \<Rightarrow> EnsembleRecord \<Rightarrow> ParticipantId \<Rightarrow> ParticipantGeneration \<Rightarrow> bool" where
  "holds_authority e en i g \<longleftrightarrow>
     (\<exists>p. find_participant en i = Some p \<and> authoritative e p \<and> pr_generation p = g)"

fun action_authorized :: "CoordinatorEpoch \<Rightarrow> EnsembleRecord \<Rightarrow> FabricAction \<Rightarrow> bool" where
  "action_authorized e en (Dispatch d) =
     (da_execution d = execution_ref en \<and> holds_authority e en (da_participant d) (da_participant_generation d))"
| "action_authorized e en (Evaluate v) =
     (va_execution v = execution_ref en \<and> holds_authority e en (va_judge v) (va_judge_generation v))"
| "action_authorized e en (Cancel x) = (xa_execution x = execution_ref en)"
| "action_authorized e en (Fallback b) = (ba_execution b = execution_ref en)"

definition authorized_work :: "Impl \<Rightarrow> EnsembleRecord \<Rightarrow> Work \<Rightarrow> bool" where
  "authorized_work im en w \<longleftrightarrow>
     runtime_frame im en w \<and> (\<forall>a \<in> set (wk_actions w). action_authorized (im_epoch im) en a)"

lemma runtime_frame_ref: "runtime_frame im en w \<Longrightarrow> execution_ref (wk_en w) = execution_ref en"
  by (simp add: runtime_frame_def commit_frame_def execution_ref_def)

lemma runtime_frame_authority:
  assumes "runtime_frame im en w" "find_participant (wk_en w) i = Some p" "authoritative (im_epoch (wk_im w)) p"
  shows "holds_authority (im_epoch im) en i (pr_generation p)"
proof -
  have "same_authority en (wk_en w)" using assms(1) by (simp add: runtime_frame_def)
  then obtain q where "find_participant en i = Some q" "authority_of q = authority_of p"
    using assms(2) by (rule find_authority)
  with assms show ?thesis
    by (auto simp: holds_authority_def authoritative_def authority_of_def runtime_frame_def)
qed

lemma authorized_workI:
  assumes "authorized_work im en w" "runtime_frame im en w'" "set (wk_actions w') \<subseteq> set (wk_actions w)"
  shows "authorized_work im en w'"
  using assms by (auto simp: authorized_work_def)

lemma authorized_emit_pending:
  assumes "authorized_work im en w" "emit_pending p w = (p', w')"
  shows "authorized_work im en w'"
proof -
  have f: "runtime_frame im en w'"
    using assms emit_pending_frame[OF assms(2)] by (auto simp: authorized_work_def runtime_frame_def)
  have w: "runtime_frame im en w" "\<forall>a \<in> set (wk_actions w). action_authorized (im_epoch im) en a"
    using assms(1) by (auto simp: authorized_work_def)
  then have "\<forall>a \<in> set (wk_actions w'). action_authorized (im_epoch im) en a"
    using assms(2) runtime_frame_authority[OF w(1)] runtime_frame_ref[OF w(1)]
    by (auto simp: emit_pending_def dest!: wk_next_sequence_frame split: if_splits option.splits prod.splits)
  with f show ?thesis by (simp add: authorized_work_def)
qed

lemma authorized_emit_loop:
  "authorized_work im en w \<Longrightarrow> emit_loop ps w = (ps', w') \<Longrightarrow> authorized_work im en w'"
proof (induction ps arbitrary: w ps' w')
  case (Cons p ps)
  obtain p1 w1 where e: "emit_pending p w = (p1, w1)" by (cases "emit_pending p w")
  obtain ps1 w2 where l: "emit_loop ps w1 = (ps1, w2)" by (cases "emit_loop ps w1")
  have "authorized_work im en w1" using Cons.prems(1) e by (rule authorized_emit_pending)
  moreover have "w' = w2" using Cons.prems(2) e l by simp
  ultimately show ?case using Cons.IH[of w1 ps1 w2] l by simp
qed simp

lemma authorized_activate:
  assumes "authorized_work im en w" shows "authorized_work im en (activate_participant t i w)"
proof -
  have f: "runtime_frame im en (activate_participant t i w)"
    using assms activate_participant_frame[of t i w]
    by (auto simp: authorized_work_def runtime_frame_def intro: commit_frame_trans same_authority_trans)
  have "set (wk_actions (activate_participant t i w)) \<subseteq> set (wk_actions w) \<union>
      {Fallback b | b. ba_execution b = execution_ref (wk_en (activate_participant t i w))}"
    by (auto simp: activate_participant_def Let_def dest!: wk_next_sequence_frame
        split: prod.splits option.splits)
  with f runtime_frame_ref[OF f] assms show ?thesis by (auto simp: authorized_work_def)
qed

lemma authorized_fold_activate:
  "authorized_work im en w \<Longrightarrow> authorized_work im en (fold (activate_participant t) is w)"
  by (induction "is" arbitrary: w) (simp_all add: authorized_activate)

lemma activate_fallback_split:
  obtains w2 "is" where "activate_fallback t w = wk_made_progress (fold (activate_participant t) is w2)"
    "wk_actions w2 = wk_actions w" "commit_frame (wk_en w) (wk_en w2)" "same_authority (wk_en w) (wk_en w2)"
    "im_epoch (wk_im w2) = im_epoch (wk_im w)" "im_ensembles (wk_im w2) = im_ensembles (wk_im w)"
    "im_config (wk_im w2) = im_config (wk_im w)"
proof -
  let ?stage = "fallback_stage (en_spec (wk_en w)) (ex_fallback_depth (wk_ex w))"
  define w1 where "w1 = wk_map_ex (\<lambda>ex. ex\<lparr>ex_extra_stages := ex_extra_stages ex @ [?stage],
    ex_fallback_activated := True, ex_fallback_depth := ex_fallback_depth ex + 1, ex_planning_complete := False\<rparr>) w"
  define w2 where "w2 = w1\<lparr>wk_im := (wk_im w1)\<lparr>im_counters := (im_counters (wk_im w1))\<lparr>ct_fallback_activations :=
    ct_fallback_activations (im_counters (wk_im w1)) + 1\<rparr>\<rparr>\<rparr>"
  have a: "activate_fallback t w = wk_made_progress (fold (activate_participant t) (st_participants ?stage) w2)"
    by (simp add: activate_fallback_def w2_def w1_def Let_def)
  show thesis by (rule that[OF a]) (simp_all add: w2_def w1_def commit_frame_def same_authority_def)
qed

interpretation authorized: work_invariant "authorized_work im en" for im en
proof unfold_locales
  fix w b stage i item t and k :: nat and p :: ParticipantRecord and c :: CandidateRecord
  assume w: "authorized_work im en w"
  then have f: "runtime_frame im en w" by (simp add: authorized_work_def)
  note step = authorized_workI[OF w]
  show "authorized_work im en (w\<lparr>wk_progress := b\<rparr>)" using f by (intro step frame.inv_progress) simp_all
  show "authorized_work im en (fst (declare_candidate stage i w))"
    using f by (intro step frame.inv_declare) (auto simp: declare_candidate_def split: option.splits prod.splits)
  show "authorized_work im en (wk_map_ex (\<lambda>ex. ex\<lparr>ex_declared_current_stage := True\<rparr>) w)"
    using f by (intro step frame.inv_declared) simp_all
  show "authorized_work im en (wk_map_ex (\<lambda>ex. ex\<lparr>ex_stage_index := Suc (ex_stage_index ex),
          ex_declared_current_stage := False\<rparr>) w)" using f by (intro step frame.inv_next_stage) simp_all
  show "authorized_work im en (wk_map_ex (\<lambda>ex. ex\<lparr>ex_planning_complete := b\<rparr>) w)"
    using f by (intro step frame.inv_planning) simp_all
  show "authorized_work im en (fst (plan_loop [item] w))"
    using f by (intro step frame.inv_plan) (auto split: option.splits prod.splits)
  show "authorized_work im en (w\<lparr>wk_en := compute_reports (wk_en w)\<rparr>)"
    using f by (intro step frame.inv_reports) simp_all
  show "authorized_work im en (emit_evaluations w)"
  proof (cases "emit_loop (ex_pending (wk_ex w)) w")
    case (Pair ps w')
    with authorized_emit_loop[OF w Pair] frame.inv_emit[OF f] show ?thesis
      by (simp add: emit_evaluations_def authorized_work_def)
  qed
  show "authorized_work im en (activate_fallback t w)"
  proof (rule activate_fallback_split[of t w])
    fix w2 "is"
    assume e: "activate_fallback t w = wk_made_progress (fold (activate_participant t) is w2)"
      and a: "wk_actions w2 = wk_actions w"
      and fr: "commit_frame (wk_en w) (wk_en w2)" "same_authority (wk_en w) (wk_en w2)"
        "im_epoch (wk_im w2) = im_epoch (wk_im w)" "im_ensembles (wk_im w2) = im_ensembles (wk_im w)"
        "im_config (wk_im w2) = im_config (wk_im w)"
    have "authorized_work im en w2" using a runtime_frameI[OF f fr] by (intro step) simp_all
    then have x: "authorized_work im en (fold (activate_participant t) is w2)" by (rule authorized_fold_activate)
    show ?thesis unfolding e
      by (rule authorized_workI[OF x frame.inv_made_progress]) (use x in \<open>simp_all add: authorized_work_def\<close>)
  qed
next
  fix w k p c
  assume w: "authorized_work im en w" and d: "dispatchable k p c w"
  then have f: "runtime_frame im en w" by (simp add: authorized_work_def)
  note step = authorized_workI[OF w]
  show "authorized_work im en (wk_store_candidate k (c\<lparr>cd_participant_generation := pr_generation p\<rparr>) w)"
    using f d by (intro step frame.inv_refresh) simp_all
  show "authorized_work im en (unavailable_candidate k p c w)"
    using f unavailable_frame[of w k p c] by (intro step runtime_frameI[OF f]) auto
next
  fix w k p c
  assume w: "authorized_work im en w" and d: "dispatchable k p c w"
    and a: "authoritative (im_epoch (wk_im w)) p" and g: "cd_participant_generation c = pr_generation p"
  then have f: "runtime_frame im en w" by (simp add: authorized_work_def)
  have "holds_authority (im_epoch im) en (cd_participant c) (pr_generation p)"
    using d a by (intro runtime_frame_authority[OF f]) (auto simp: dispatchable_def)
  with w frame.inv_dispatch[OF f d a g] runtime_frame_ref[OF f]
  show "authorized_work im en (dispatch_candidate k p c w)"
    by (auto simp: authorized_work_def dispatch_candidate_def dest!: wk_next_sequence_frame split: prod.splits)
qed

end
