(* ===== verification/Fabric_Ingest.thy ===== *)
theory Fabric_Ingest
  imports Fabric_Reports
begin

text \<open>
  Admission of candidate outputs, candidate failures, abstentions and evaluations
  (\<^verbatim>\<open>src/fabric_ingest.cpp\<close>). Every submission carries an authority; it is located against the
  current records first, and the counters the rejection paths bump are part of the result.
\<close>

section \<open>Typed rejections\<close>

fun rejected_output_state :: "CandidateState \<Rightarrow> status" where
  "rejected_output_state C_cancelled = fail E_execution_cancelled"
| "rejected_output_state C_superseded = fail E_ensemble_superseded"
| "rejected_output_state C_failed = fail E_invalid_state_transition"
| "rejected_output_state C_abstained = fail E_invalid_state_transition"
| "rejected_output_state C_invalid = fail E_duplicate_completion"
| "rejected_output_state C_valid = fail E_duplicate_completion"
| "rejected_output_state C_eligible = fail E_duplicate_completion"
| "rejected_output_state C_selected = fail E_duplicate_completion"
| "rejected_output_state C_rejected = fail E_duplicate_completion"
| "rejected_output_state C_retired = fail E_invalid_state_transition"
| "rejected_output_state C_output_received = fail E_invalid_state_transition"
| "rejected_output_state C_declared = fail E_invalid_state_transition"
| "rejected_output_state C_dispatched = ok_status"

section \<open>Locating a candidate under an authority\<close>

record Located =
  lo_ensemble :: EnsembleRecord
  lo_candidate :: CandidateRecord
  lo_participant :: ParticipantRecord

definition locate_participant ::
    "ParticipantAuthority \<Rightarrow> EnsembleRecord \<Rightarrow> Impl \<Rightarrow> Impl \<times> ParticipantRecord outcome" where
  "locate_participant a en im =
     (case find_participant en (pa_participant a) of
        None \<Rightarrow> (im, fail E_unknown_participant)
      | Some p \<Rightarrow>
          if pr_generation p \<noteq> pa_participant_generation a
          then (bump_stale im, fail E_stale_participant_generation)
          else if pr_worker p \<noteq> pa_worker a \<or> pr_worker_boot p \<noteq> pa_worker_boot a
          then (bump_stale im, fail E_stale_worker_boot)
          else if \<not> authoritative (im_epoch im) p then (im, fail E_participant_not_authoritative)
          else (im, Ok p))"

definition locate_execution ::
    "ParticipantAuthority \<Rightarrow> EnsembleExecutionId \<Rightarrow> EnsembleAttemptGeneration \<Rightarrow> Impl \<Rightarrow>
     Impl \<times> EnsembleRecord outcome" where
  "locate_execution a x attempt im =
     (if pa_coordinator_epoch a \<noteq> im_epoch im then (bump_stale im, fail E_stale_coordinator_epoch)
      else case find_ensemble im (pa_ensemble a) of
        None \<Rightarrow> (im, fail E_unknown_ensemble)
      | Some en \<Rightarrow>
          if sp_generation (en_spec en) \<noteq> pa_ensemble_generation a
          then (bump_stale im, fail E_stale_ensemble_generation)
          else if \<not> en_has_execution en \<or> ex_id (en_execution en) \<noteq> x
          then (bump_stale im, fail E_stale_execution_generation)
          else if ex_attempt_generation (en_execution en) \<noteq> attempt
          then (bump_stale im, fail E_stale_execution_generation)
          else (im, Ok en))"

definition locate_candidate :: "CandidateAuthority \<Rightarrow> Impl \<Rightarrow> Impl \<times> Located outcome" where
  "locate_candidate a im =
     (case validate_candidate_authority a of
        Err e \<Rightarrow> (im, fail e)
      | Ok _ \<Rightarrow>
          (case locate_execution (ca_participant a) (ca_execution a) (ca_attempt_generation a) im of
             (im, Err e) \<Rightarrow> (im, fail e)
           | (im, Ok en) \<Rightarrow>
               (case locate_participant (ca_participant a) en im of
                  (im, Err e) \<Rightarrow> (im, fail e)
                | (im, Ok p) \<Rightarrow>
                    (case find_candidate (en_execution en) (ca_candidate a) of
                       None \<Rightarrow> (im, fail E_unknown_candidate)
                     | Some c \<Rightarrow>
                         if cd_generation c \<noteq> ca_candidate_generation a
                         then (bump_stale im, fail E_stale_candidate_generation)
                         else if cd_participant c \<noteq> pr_id p then (im, fail E_participant_role_mismatch)
                         else (im, Ok \<lparr>lo_ensemble = en, lo_candidate = c, lo_participant = p\<rparr>)))))"

section \<open>Candidate submissions\<close>

definition reject_submission :: "CandidateRecord \<Rightarrow> Impl \<Rightarrow> Impl \<times> status" where
  "reject_submission c im =
     (if \<not> permits_output (cd_state c) then bump_duplicate im else im, rejected_output_state (cd_state c))"

definition logical_latency :: "Sequence \<Rightarrow> Sequence \<Rightarrow> u32" where
  "logical_latency dispatched received =
     (if valid_id dispatched \<and> valid_id received \<and> dispatched \<le> received
      then ucast (received - dispatched) else 0)"

definition store_candidate_participant ::
    "EnsembleId \<Rightarrow> CandidateRecord \<Rightarrow> ParticipantRecord \<Rightarrow> EnsembleRecord \<Rightarrow> Impl \<Rightarrow> Impl" where
  "store_candidate_participant i c p en im =
     put_ensemble i (set_participant p (map_execution (set_candidate c) en)) im"

definition submit_candidate :: "CandidateSubmission \<Rightarrow> Impl \<Rightarrow> Impl \<times> status" where
  "submit_candidate sub im =
     (case locate_candidate (cs_authority sub) im of
        (im, Err e) \<Rightarrow> (im, fail e)
      | (im, Ok l) \<Rightarrow>
          (let en = lo_ensemble l; c = lo_candidate l; p = lo_participant l;
               i = pa_ensemble (ca_participant (cs_authority sub)); payload = cs_payload sub
           in if cd_state c \<noteq> C_dispatched then reject_submission c im
              else if unat (max_candidate_payload_bytes (im_limits im)) < length payload
              then (im, fail E_resource_limit_exceeded)
              else if unat (max_frame_bytes (im_limits im)) < length payload then (im, fail E_payload_too_large)
              else (case next_sequence im of (s, im) \<Rightarrow>
                (let c = c\<lparr>cd_state := C_output_received, cd_payload := payload,
                           cd_payload_digest := fingerprint_payload payload, cd_received_sequence := s,
                           cd_latency := logical_latency (cd_dispatch_sequence c) s,
                           cd_budget_units_used := ps_execution_budget_units (pr_declaration p)\<rparr>;
                     too_small = length payload < unat (ev_min_candidate_payload_bytes (sp_evidence (en_spec en)))
                 in if payload = [] \<or> too_small
                    then (store_candidate_participant i
                            (c\<lparr>cd_state := C_invalid, cd_failure := E_malformed_candidate,
                               cd_failure_detail := (if payload = [] then ''empty candidate payload''
                                 else ''candidate payload is smaller than the ensemble evidence requirement''),
                               cd_payload := [], cd_payload_digest := 0\<rparr>)
                            (p\<lparr>pr_candidates_failed := pr_candidates_failed p + 1\<rparr>) en im, ok_status)
                    else (store_candidate_participant i
                            (c\<lparr>cd_state := C_valid, cd_failure := E_ok, cd_failure_detail := []\<rparr>)
                            (p\<lparr>pr_candidates_completed := pr_candidates_completed p + 1\<rparr>) en im, ok_status)))))"

definition failure_kind_of :: "u32 \<Rightarrow> ParticipantFailureKind" where
  "failure_kind_of n =
     (if n = 1 then FK_unavailable else if n = 2 then FK_transport_error else if n = 3 then FK_malformed_output
      else if n = 4 then FK_internal_error else if n = 5 then FK_timeout_reported else FK_explicit_abort)"

definition submit_candidate_failure :: "CandidateFailureSubmission \<Rightarrow> Impl \<Rightarrow> Impl \<times> status" where
  "submit_candidate_failure sub im =
     (case locate_candidate (fs_authority sub) im of
        (im, Err e) \<Rightarrow> (im, fail e)
      | (im, Ok l) \<Rightarrow>
          (let en = lo_ensemble l; c = lo_candidate l; i = pa_ensemble (ca_participant (fs_authority sub))
           in if cd_state c \<noteq> C_dispatched then reject_submission c im
              else if fs_participant_failure sub < 1 \<or> 6 < fs_participant_failure sub
              then (im, fail E_invalid_enum_value)
              else let kind = failure_kind_of (fs_participant_failure sub);
                       (en, c) = (if retry_authorized (en_spec en) c (failure_error kind)
                                  then rewind_candidate_for_retry en c
                                  else fail_candidate (failure_error kind)
                                         (''participant reported '' @ failure_kind_to_string kind) en c)
                   in (put_ensemble i (map_execution (set_candidate c) en) im, ok_status)))"

definition submit_candidate_abstention :: "CandidateAbstentionSubmission \<Rightarrow> Impl \<Rightarrow> Impl \<times> status" where
  "submit_candidate_abstention sub im =
     (case locate_candidate (as_authority sub) im of
        (im, Err e) \<Rightarrow> (im, fail e)
      | (im, Ok l) \<Rightarrow>
          (let en = lo_ensemble l; c = lo_candidate l; p = lo_participant l;
               i = pa_ensemble (ca_participant (as_authority sub))
           in if cd_state c \<noteq> C_dispatched then reject_submission c im
              else (case next_sequence im of (s, im) \<Rightarrow>
                (store_candidate_participant i
                   (c\<lparr>cd_state := C_abstained,
                      cd_failure_detail := sanitize_text (as_rationale sub) (unat (max_metadata_bytes (im_limits im))),
                      cd_payload := [], cd_payload_digest := 0, cd_received_sequence := s\<rparr>)
                   (p\<lparr>pr_candidates_abstained := pr_candidates_abstained p + 1\<rparr>) en im, ok_status))))"

section \<open>Evaluation submissions\<close>

definition role_admitted :: "ParticipantSpec \<Rightarrow> bool" where
  "role_admitted d \<longleftrightarrow>
     \<not> (\<not> role_evaluates (if roles_contains (ps_roles d) R_verifier then R_verifier else R_judge) \<or>
        (\<not> roles_contains (ps_roles d) R_judge \<and> \<not> roles_contains (ps_roles d) R_verifier))"

definition matches_plan :: "EvaluationSubmission \<Rightarrow> PendingEvaluation \<Rightarrow> bool" where
  "matches_plan sub q \<longleftrightarrow>
     \<not> (pe_evaluator q \<noteq> pa_participant (ea_evaluator (es_authority sub)) \<or>
        pe_candidate q \<noteq> ea_candidate (es_authority sub) \<or>
        pe_candidate_generation q \<noteq> ea_candidate_generation (es_authority sub) \<or>
        pe_criterion q \<noteq> es_criterion sub \<or> pe_kind q \<noteq> es_kind sub)"

definition check_content :: "EnsembleSpec \<Rightarrow> Limits \<Rightarrow> ParticipantSpec \<Rightarrow> EvaluationSubmission \<Rightarrow> status" where
  "check_content spec l d sub =
     (let verifier = roles_contains (ps_roles d) R_verifier
      in require (\<not> (verifier \<and> es_kind sub \<noteq> K_hard_predicate)) E_malformed_evaluation (
         require (\<not> (\<not> verifier \<and> es_kind sub \<noteq> K_ranking_signal)) E_malformed_evaluation (
         require (\<not> unat (max_evaluation_payload_bytes l) < length (es_evidence sub)) E_resource_limit_exceeded (
         require (\<not> unat (max_metadata_bytes l) < length (es_rationale sub)) E_resource_limit_exceeded (
         require (\<not> (ev_require_rationale (sp_evidence spec) \<and> es_rationale sub = [])) E_malformed_evaluation (
         require (\<not> (es_score_defined sub \<and> \<not> d_isfinite (es_score sub))) E_malformed_evaluation (
         require (\<not> (\<not> d_isfinite (es_weight sub) \<or> d_le (es_weight sub) d_zero)) E_malformed_evaluation
         ok_status)))))))"

definition same_vote :: "EvaluationSubmission \<Rightarrow> EvaluationRecord \<Rightarrow> bool" where
  "same_vote sub e \<longleftrightarrow>
     \<not> (er_evaluator e \<noteq> pa_participant (ea_evaluator (es_authority sub)) \<or>
        er_evaluator_generation e \<noteq> pa_participant_generation (ea_evaluator (es_authority sub)) \<or>
        er_criterion e \<noteq> es_criterion sub \<or> er_candidate e \<noteq> ea_candidate (es_authority sub))"

definition evaluation_record ::
    "EvaluationSubmission \<Rightarrow> PendingEvaluation \<Rightarrow> ParticipantRecord \<Rightarrow> Limits \<Rightarrow> CoordinatorEpoch \<Rightarrow> Sequence \<Rightarrow>
     EvaluationRecord" where
  "evaluation_record sub q p l epoch s =
     \<lparr>er_id = pe_id q, er_generation = pe_generation q,
      er_evaluator = pa_participant (ea_evaluator (es_authority sub)),
      er_evaluator_generation = pa_participant_generation (ea_evaluator (es_authority sub)),
      er_role = pe_role q, er_candidate = ea_candidate (es_authority sub),
      er_candidate_generation = ea_candidate_generation (es_authority sub),
      er_criterion = es_criterion sub, er_kind = es_kind sub, er_verification = es_verification sub,
      er_judgment = es_judgment sub, er_score_defined = es_score_defined sub, er_score = es_score sub,
      er_weight = es_weight sub, er_evidence = es_evidence sub,
      er_rationale = sanitize_text (es_rationale sub) (unat (max_metadata_bytes l)),
      er_received_sequence = s, er_coordinator_epoch = epoch, er_worker = pr_worker p,
      er_worker_boot = pr_worker_boot p, er_fingerprint = fingerprint_evaluation sub, er_current = True\<rparr>"

definition refresh_summary :: "CandidateRecord \<Rightarrow> ExecutionRecord \<Rightarrow> ExecutionRecord" where
  "refresh_summary c ex =
     (let s = summarize_candidate ex c
      in set_candidate (c\<lparr>cd_evaluation_count := sm_evaluations s, cd_hard_failures := sm_hard_failures s,
           cd_hard_unknowns := sm_hard_unknowns s, cd_hard_predicates := sm_hard_predicates s\<rparr>) ex)"

definition record_evaluation ::
    "EvaluationSubmission \<Rightarrow> PendingEvaluation \<Rightarrow> CandidateRecord \<Rightarrow> ParticipantRecord \<Rightarrow> EnsembleRecord \<Rightarrow> Impl \<Rightarrow> Impl" where
  "record_evaluation sub q c p en im =
     (case next_sequence im of (s, im) \<Rightarrow>
        (let en = map_execution (\<lambda>ex. refresh_summary c (set_pending (q\<lparr>pe_answered := True\<rparr>)
               (ex\<lparr>ex_evaluations := ex_evaluations ex @
                    [evaluation_record sub q p (im_limits im) (im_epoch im) s]\<rparr>))) en;
             en = set_participant (p\<lparr>pr_evaluations_submitted := pr_evaluations_submitted p + 1\<rparr>) en
         in put_ensemble (pa_ensemble (ea_evaluator (es_authority sub))) en im))"

definition admit_evaluation ::
    "EvaluationSubmission \<Rightarrow> EnsembleRecord \<Rightarrow> ParticipantRecord \<Rightarrow> CandidateRecord \<Rightarrow> PendingEvaluation \<Rightarrow> Impl \<Rightarrow>
     Impl \<times> EvaluationId outcome" where
  "admit_evaluation sub en p c q im =
     (if pe_generation q \<noteq> ea_evaluation_generation (es_authority sub)
      then (bump_stale im, fail E_stale_evaluation_generation)
      else if pe_answered q then (bump_duplicate_vote im, fail E_duplicate_evaluation)
      else if pe_abandoned q then (im, fail E_revalidation_required)
      else if \<not> matches_plan sub q then (im, fail E_evaluation_target_mismatch)
      else case check_content (en_spec en) (im_limits im) (pr_declaration p) sub of
        Err e \<Rightarrow> (im, fail e)
      | Ok _ \<Rightarrow>
          (case find (same_vote sub) (ex_evaluations (en_execution en)) of
             Some existing \<Rightarrow>
               (bump_duplicate_vote im,
                if er_fingerprint existing = fingerprint_evaluation sub then fail E_duplicate_evaluation
                else fail E_conflicting_evaluation)
           | None \<Rightarrow> (record_evaluation sub q c p en im, Ok (ea_evaluation (es_authority sub)))))"

definition submit_evaluation :: "EvaluationSubmission \<Rightarrow> Impl \<Rightarrow> Impl \<times> EvaluationId outcome" where
  "submit_evaluation sub im =
     (let a = es_authority sub
      in case validate_evaluation_authority a of
        Err e \<Rightarrow> (im, fail e)
      | Ok _ \<Rightarrow>
          (case locate_execution (ea_evaluator a) (ea_execution a) (ea_attempt_generation a) im of
             (im, Err e) \<Rightarrow> (im, fail e)
           | (im, Ok en) \<Rightarrow>
               (case locate_participant (ea_evaluator a) en im of
                  (im, Err e) \<Rightarrow> (im, fail e)
                | (im, Ok p) \<Rightarrow>
                    if \<not> role_admitted (pr_declaration p) then (im, fail E_participant_role_mismatch)
                    else (case find_candidate (en_execution en) (ea_candidate a) of
                       None \<Rightarrow> (im, fail E_unknown_candidate)
                     | Some c \<Rightarrow>
                         if cd_generation c \<noteq> ea_candidate_generation a
                         then (bump_stale im, fail E_stale_candidate_generation)
                         else if \<not> is_content_state (cd_state c) then (im, fail E_invalid_state_transition)
                         else (case find_pending (en_execution en) (ea_evaluation a) of
                            None \<Rightarrow> (im, fail E_invalid_identity_combination)
                          | Some q \<Rightarrow> admit_evaluation sub en p c q im)))))"

section \<open>Lemmas\<close>

lemma failure_kind_of_code: "failure_kind_of (ucast (failure_kind_code k)) = k"
  by (cases k) (simp_all add: failure_kind_of_def)

lemma locate_execution_frame: "locate_execution a x t im = (im', r) \<Longrightarrow> same_ensembles im im'"
  by (auto simp: locate_execution_def split: if_splits option.splits)

lemma locate_participant_frame: "locate_participant a en im = (im', r) \<Longrightarrow> same_ensembles im im'"
  by (auto simp: locate_participant_def split: if_splits option.splits)

lemma locate_execution_Ok:
  "locate_execution a x t im = (im', Ok en) \<Longrightarrow>
     im' = im \<and> find_ensemble im (pa_ensemble a) = Some en \<and> pa_coordinator_epoch a = im_epoch im \<and>
     sp_generation (en_spec en) = pa_ensemble_generation a \<and> en_has_execution en \<and>
     ex_id (en_execution en) = x \<and> ex_attempt_generation (en_execution en) = t"
  by (auto simp: locate_execution_def split: if_splits option.splits)

lemma locate_participant_Ok:
  "locate_participant a en im = (im', Ok p) \<Longrightarrow>
     im' = im \<and> find_participant en (pa_participant a) = Some p \<and> authoritative (im_epoch im) p \<and>
     pr_generation p = pa_participant_generation a \<and> pr_worker p = pa_worker a \<and>
     pr_worker_boot p = pa_worker_boot a"
  by (auto simp: locate_participant_def split: if_splits option.splits)

lemmas locate_frames = locate_execution_frame locate_participant_frame

text \<open>Locating succeeds exactly on a complete authority that agrees with every current record.\<close>

definition located_by :: "CandidateAuthority \<Rightarrow> Impl \<Rightarrow> Located \<Rightarrow> bool" where
  "located_by a im l \<longleftrightarrow>
     candidate_authority_complete a \<and> pa_coordinator_epoch (ca_participant a) = im_epoch im \<and>
     find_ensemble im (pa_ensemble (ca_participant a)) = Some (lo_ensemble l) \<and>
     sp_generation (en_spec (lo_ensemble l)) = pa_ensemble_generation (ca_participant a) \<and>
     en_has_execution (lo_ensemble l) \<and> ex_id (en_execution (lo_ensemble l)) = ca_execution a \<and>
     ex_attempt_generation (en_execution (lo_ensemble l)) = ca_attempt_generation a \<and>
     find_participant (lo_ensemble l) (pa_participant (ca_participant a)) = Some (lo_participant l) \<and>
     pr_generation (lo_participant l) = pa_participant_generation (ca_participant a) \<and>
     pr_worker (lo_participant l) = pa_worker (ca_participant a) \<and>
     pr_worker_boot (lo_participant l) = pa_worker_boot (ca_participant a) \<and>
     authoritative (im_epoch im) (lo_participant l) \<and>
     find_candidate (en_execution (lo_ensemble l)) (ca_candidate a) = Some (lo_candidate l) \<and>
     cd_generation (lo_candidate l) = ca_candidate_generation a \<and>
     cd_participant (lo_candidate l) = pr_id (lo_participant l)"

lemma validate_candidate_authority_complete:
  "validate_candidate_authority a = Ok u \<longleftrightarrow> candidate_authority_complete a"
  by (auto simp: validate_candidate_authority_def require_complete_def candidate_authority_complete_def
      participant_authority_complete_def)

lemma locate_candidate_Ok: "locate_candidate a im = (im', Ok l) \<Longrightarrow> im' = im \<and> located_by a im l"
  unfolding locate_candidate_def located_by_def
  by (auto split: outcome.splits prod.splits option.splits if_splits
      simp: validate_candidate_authority_complete dest!: locate_execution_Ok locate_participant_Ok)

end
