(* ===== verification/Fabric_Commit.thy ===== *)
theory Fabric_Commit
  imports Fabric_Execution
begin

text \<open>
  The decision, the result prepared from it, and the commit gate (\<^verbatim>\<open>src/fabric_commit.cpp\<close>).
  \<^verbatim>\<open>finalize\<close> takes the lock three times (check, prepare, commit); its model is the composition
  of the three, and the machine of \<open>Fabric_Machine\<close> interleaves \<^verbatim>\<open>prepare_result\<close> and
  \<^verbatim>\<open>commit_result\<close> with every other operation.
\<close>

section \<open>From the consensus state to the decision\<close>

fun consensus_error :: "ConsensusState \<Rightarrow> EnsembleError" where
  "consensus_error S_quorum_not_reached = E_quorum_not_reached"
| "consensus_error S_quorum_impossible = E_quorum_impossible"
| "consensus_error S_disagreement = E_disagreement_unresolved"
| "consensus_error S_tie = E_tie_unresolved"
| "consensus_error S_insufficient_evidence = E_insufficient_evidence"
| "consensus_error S_required_participant_failed = E_required_participant_failed"
| "consensus_error S_all_candidates_invalid = E_all_candidates_invalid"
| "consensus_error S_no_eligible_candidate = E_no_eligible_candidate"
| "consensus_error S_fallback_required = E_fallback_not_authorized"
| "consensus_error S_cancelled = E_ensemble_cancelled"
| "consensus_error S_superseded = E_ensemble_superseded"
| "consensus_error S_revalidation_required = E_revalidation_required"
| "consensus_error _ = E_consensus_not_reached"

definition decision_for :: "ConsensusState \<Rightarrow> bool \<Rightarrow> EnsembleDecision" where
  "decision_for state has_selection =
     (case state of
        S_cancelled \<Rightarrow> D_cancelled
      | S_superseded \<Rightarrow> D_superseded
      | S_revalidation_required \<Rightarrow> D_revalidation_required
      | S_fallback_required \<Rightarrow> D_fallback_required
      | S_quorum_not_reached \<Rightarrow> D_failed
      | S_quorum_impossible \<Rightarrow> D_failed
      | S_required_participant_failed \<Rightarrow> D_failed
      | _ \<Rightarrow> if has_selection then D_committed else D_no_eligible_candidate)"

fun status_for :: "EnsembleDecision \<Rightarrow> ExecutionStatus" where
  "status_for D_committed = XS_committed"
| "status_for D_cancelled = XS_cancelled"
| "status_for D_superseded = XS_superseded"
| "status_for D_revalidation_required = XS_revalidation_required"
| "status_for D_no_eligible_candidate = XS_no_eligible_candidate"
| "status_for D_failed = XS_failed"
| "status_for D_fallback_required = XS_failed"
| "status_for D_pending = XS_failed"

section \<open>The explanation\<close>

definition xp :: "string \<Rightarrow> string \<Rightarrow> ExplanationEntry" where
  "xp subject detail = \<lparr>xp_subject = subject, xp_detail = Some detail\<rparr>"

definition ranking_explanation :: "CandidateRanking \<Rightarrow> ExplanationEntry list" where
  "ranking_explanation r =
     (if rk_eligible r
      then xp (''candidate '' @ id_to_string (rk_candidate r))
              (''eligible rank='' @ (if rk_rank r < 0 then ''-'' @ dec_string (nat (- rk_rank r))
                                     else dec_string (nat (rk_rank r))) @
               '' participant='' @ id_to_string (rk_participant r) @ '' role='' @ role_to_string (rk_role r)) #
           map (\<lambda>f. \<lparr>xp_subject = ''  factor'',
                     xp_detail = Option.bind (format_double (fv_value f)) (\<lambda>v. map_option (\<lambda>d.
                       factor_to_string (fv_factor f) @ ''='' @ v @ '' ('' @ d @ '')'') (fv_detail f))\<rparr>)
             (rk_factors r)
      else [\<lparr>xp_subject = ''candidate '' @ id_to_string (rk_candidate r),
             xp_detail = map_option (\<lambda>d. ''eliminated: '' @ elimination_to_string (rk_elimination r) @ '' - '' @ d)
               (rk_elimination_detail r)\<rparr>])"

definition build_explanation :: "EnsembleRecord \<Rightarrow> ExecutionRecord \<Rightarrow> u32 \<Rightarrow> ExplanationEntry list" where
  "build_explanation en ex max_entries =
     take (unat max_entries)
       ([xp ''ensemble'' (''id='' @ id_to_string (sp_id (en_spec en)) @ '' generation='' @
             id_to_string (sp_generation (en_spec en)) @ '' label='' @ [CHR 0x27] @ sp_label (en_spec en) @ [CHR 0x27]),
         xp ''epoch'' (''coordinator_epoch='' @ id_to_string (ex_coordinator_epoch ex)),
         xp ''quorum'' (quorum_render (ex_quorum ex)),
         xp ''consensus'' (consensus_render (ex_consensus ex)),
         xp ''arbitration'' (arbitration_render (ex_arbitration ex))] @
        map (xp ''quorum_note'') (qr_notes (ex_quorum ex)) @
        concat (map ranking_explanation (ar_ranking (ex_arbitration ex))) @
        map (xp ''arbitration_note'') (ar_notes (ex_arbitration ex)) @
        (if ex_fallback_activated ex
         then [xp ''fallback'' (''activated at depth '' @ dec_string (unat (ex_fallback_depth ex)))] else []) @
        (if ex_cancellation_emitted ex
         then [xp ''cancellation'' (''reason: '' @ ex_cancellation_reason ex)] else []))"

section \<open>Preparing a result\<close>

definition own_candidates :: "ParticipantRecord \<Rightarrow> ExecutionRecord \<Rightarrow> CandidateRecord list" where
  "own_candidates p ex = filter (\<lambda>c. cd_participant c = pr_id p) (ex_candidates ex)"

definition participant_outcome :: "ExecutionRecord \<Rightarrow> ParticipantRecord \<Rightarrow> ParticipantOutcome" where
  "participant_outcome ex p =
     \<lparr>po_id = pr_id p, po_generation = pr_generation p, po_roles = ps_roles (pr_declaration p),
      po_required = ps_required (pr_declaration p), po_final_status = pr_status p,
      po_candidates = size32 (own_candidates p ex),
      po_candidates_valid = size32 (filter (\<lambda>c. is_content_state (cd_state c)) (own_candidates p ex)),
      po_candidates_failed = size32 (filter (\<lambda>c. cd_state c = C_failed) (own_candidates p ex)),
      po_candidates_abstained = size32 (filter (\<lambda>c. cd_state c = C_abstained) (own_candidates p ex)),
      po_evaluations = pr_evaluations_submitted p, po_retries = pr_retries_consumed p,
      po_fallback = pr_fallback_activated p,
      po_authoritative = authoritative (ex_coordinator_epoch ex) p\<rparr>"

definition candidate_views :: "EnsembleRecord \<Rightarrow> ExecutionRecord \<Rightarrow> u32 \<Rightarrow> CandidateSnapshot list" where
  "candidate_views en ex max_entries =
     map (\<lambda>c. (snapshot_candidate c)\<lparr>csn_ensemble := sp_id (en_spec en),
            csn_ensemble_generation := sp_generation (en_spec en), csn_execution := ex_id ex,
            csn_attempt_generation := ex_attempt_generation ex\<rparr>)
       (take (unat max_entries) (ex_candidates ex))"

definition evaluation_views :: "EnsembleRecord \<Rightarrow> ExecutionRecord \<Rightarrow> u32 \<Rightarrow> EvaluationSnapshot list" where
  "evaluation_views en ex max_entries =
     map (\<lambda>e. (snapshot_evaluation e)\<lparr>esn_ensemble := sp_id (en_spec en),
            esn_ensemble_generation := sp_generation (en_spec en), esn_execution := ex_id ex,
            esn_attempt_generation := ex_attempt_generation ex\<rparr>)
       (take (unat max_entries) (ex_evaluations ex))"

definition tie_resolved_by_policy :: "EnsembleRecord \<Rightarrow> ExecutionRecord \<Rightarrow> bool" where
  "tie_resolved_by_policy en ex \<longleftrightarrow>
     cr_state (ex_consensus ex) = S_tie \<and> ab_tie_break (sp_arbitration (en_spec en)) \<noteq> TB_report_tie \<and>
     \<not> ar_tie_unresolved (ex_arbitration ex)"

definition has_selection :: "EnsembleRecord \<Rightarrow> ExecutionRecord \<Rightarrow> bool" where
  "has_selection en ex \<longleftrightarrow>
     valid_id (ar_selected (ex_arbitration ex)) \<and> \<not> ar_no_eligible_candidate (ex_arbitration ex) \<and>
     \<not> ar_tie_unresolved (ex_arbitration ex) \<and>
     (consensus_resolved (ex_consensus ex) \<or> tie_resolved_by_policy en ex)"

definition base_result :: "EnsembleRecord \<Rightarrow> ExecutionRecord \<Rightarrow> u32 \<Rightarrow> EnsembleResult" where
  "base_result en ex max_entries =
     result_default\<lparr>
       rs_id := ex_id ex, rs_generation := 1, rs_ensemble := sp_id (en_spec en),
       rs_ensemble_generation := sp_generation (en_spec en), rs_execution := ex_id ex,
       rs_attempt_generation := ex_attempt_generation ex, rs_coordinator_epoch := ex_coordinator_epoch ex,
       rs_quorum := ex_quorum ex, rs_consensus := ex_consensus ex, rs_arbitration := ex_arbitration ex,
       rs_fallback_used := ex_fallback_activated ex, rs_fallback_depth := ex_fallback_depth ex,
       rs_decision := decision_for (cr_state (ex_consensus ex)) (has_selection en ex),
       rs_participants := map (participant_outcome ex) (en_participants en),
       rs_candidates := candidate_views en ex max_entries,
       rs_evaluations := evaluation_views en ex max_entries\<rparr>"

definition select_content :: "CandidateRecord \<Rightarrow> EnsembleResult \<Rightarrow> EnsembleResult" where
  "select_content c r =
     r\<lparr>rs_has_selected := True, rs_selected_candidate := cd_id c,
       rs_selected_candidate_generation := cd_generation c, rs_selected_participant := cd_participant c,
       rs_selected_participant_generation := cd_participant_generation c, rs_selected_role := cd_role c,
       rs_payload := cd_payload c, rs_payload_digest := cd_payload_digest c,
       rs_payload_bytes := size32 (cd_payload c)\<rparr>"

definition seal_result :: "EnsembleRecord \<Rightarrow> ExecutionRecord \<Rightarrow> u32 \<Rightarrow> EnsembleResult \<Rightarrow> EnsembleResult" where
  "seal_result en ex max_entries r =
     (let r = r\<lparr>rs_explanation := build_explanation en ex max_entries\<rparr>
      in r\<lparr>rs_commit_fingerprint := commit_fingerprint r\<rparr>)"

definition derive_result :: "EnsembleRecord \<Rightarrow> u32 \<Rightarrow> EnsembleResult outcome" where
  "derive_result en max_entries =
     (let ex = en_execution en; r = base_result en ex max_entries
      in if rs_decision r = D_committed \<and> has_selection en ex
         then (case find_candidate ex (ar_selected (ex_arbitration ex)) of
                 None \<Rightarrow> fail E_internal_error
               | Some c \<Rightarrow> if \<not> is_content_state (cd_state c) then fail E_internal_error
                           else Ok (seal_result en ex max_entries (select_content c r)))
         else Ok (seal_result en ex max_entries r))"

definition prepare_result :: "EnsembleId \<Rightarrow> EnsembleGeneration \<Rightarrow> Impl \<Rightarrow> Impl \<times> EnsembleResult outcome" where
  "prepare_result i generation im =
     (case find_ensemble im i of
        None \<Rightarrow> (im, fail E_unknown_ensemble)
      | Some en \<Rightarrow>
          if sp_generation (en_spec en) \<noteq> generation then (im, fail E_stale_ensemble_generation)
          else if \<not> en_has_execution en then (im, fail E_unknown_execution)
          else if ex_has_result (en_execution en) then (im, Ok (ex_result (en_execution en)))
          else let en = compute_reports en
               in (put_ensemble i en im, derive_result en (max_explanation_entries (im_limits im))))"

section \<open>The commit gate\<close>

definition bump_commit_accepted :: "Impl \<Rightarrow> Impl" where
  "bump_commit_accepted im = im\<lparr>im_counters := (im_counters im)\<lparr>ct_commits_accepted :=
     ct_commits_accepted (im_counters im) + 1\<rparr>\<rparr>"

definition bump_commit_conflict :: "Impl \<Rightarrow> Impl" where
  "bump_commit_conflict im = im\<lparr>im_counters := (im_counters im)\<lparr>ct_commits_rejected_conflicting :=
     ct_commits_rejected_conflicting (im_counters im) + 1\<rparr>\<rparr>"

definition bump_commit_stale :: "Impl \<Rightarrow> Impl" where
  "bump_commit_stale im = im\<lparr>im_counters := (im_counters im)\<lparr>ct_commits_rejected_stale :=
     ct_commits_rejected_stale (im_counters im) + 1\<rparr>\<rparr>"

definition commit_record :: "EnsembleResult \<Rightarrow> CommitRecord" where
  "commit_record r =
     \<lparr>cm_result = rs_id r, cm_generation = rs_generation r, cm_sequence = rs_commit_sequence r,
      cm_coordinator_epoch = rs_coordinator_epoch r, cm_execution = rs_execution r,
      cm_attempt_generation = rs_attempt_generation r, cm_decision = rs_decision r,
      cm_commit_fingerprint = rs_commit_fingerprint r\<rparr>"

definition retain_last :: "nat \<Rightarrow> 'a list \<Rightarrow> 'a list" where
  "retain_last n xs = (if n < length xs then drop (length xs - n) xs else xs)"

definition settle_candidate :: "CandidateId \<Rightarrow> CandidateRecord \<Rightarrow> CandidateRecord" where
  "settle_candidate selected c =
     (if cd_id c = selected then c\<lparr>cd_state := C_selected\<rparr>
      else if is_content_state (cd_state c) then c\<lparr>cd_state := C_rejected\<rparr> else c)"

definition stored_result :: "EnsembleResult \<Rightarrow> ResultId \<Rightarrow> Sequence \<Rightarrow> EnsembleResult" where
  "stored_result r i s =
     (let r = r\<lparr>rs_id := i, rs_generation := 1, rs_commit_sequence := s\<rparr>
      in r\<lparr>rs_commit_fingerprint := commit_fingerprint r\<rparr>)"

definition store_commit :: "Limits \<Rightarrow> EnsembleResult \<Rightarrow> EnsembleRecord \<Rightarrow> EnsembleRecord" where
  "store_commit l r en =
     map_execution (\<lambda>ex. ex\<lparr>ex_result := r, ex_has_result := True, ex_committed_sequence := rs_commit_sequence r,
         ex_status := status_for (rs_decision r),
         ex_commits := retain_last (unat (max_retained_commits l)) (ex_commits ex @ [commit_record r])\<rparr>) en"

definition publish_commit :: "Limits \<Rightarrow> EnsembleResult \<Rightarrow> EnsembleRecord \<Rightarrow> EnsembleRecord \<times> EnsembleResult" where
  "publish_commit l r en0 =
     (let en = store_commit l r en0
      in if rs_decision r = D_committed
         then let en = map_execution (\<lambda>ex. ex\<lparr>ex_candidates :=
                         map (settle_candidate (rs_selected_candidate r)) (ex_candidates ex)\<rparr>) en;
                  r = r\<lparr>rs_candidates := candidate_views en (en_execution en) (max_explanation_entries l)\<rparr>
              in (map_execution (\<lambda>ex. ex\<lparr>ex_result := r\<rparr>) en, r)
         else (en, r))"

definition commit_blocked :: "EnsembleRecord \<Rightarrow> EnsembleError option" where
  "commit_blocked en =
     (let ex = en_execution en
      in if ex_cancellation_requested ex \<or> ex_status ex = XS_cancelled then Some E_ensemble_cancelled
         else if ex_status ex = XS_superseded \<or> en_superseded en then Some E_ensemble_superseded
         else if ex_status ex = XS_revalidation_required then Some E_revalidation_required
         else None)"

definition count_commit_attempt :: "EnsembleRecord \<Rightarrow> EnsembleRecord" where
  "count_commit_attempt en = map_execution (\<lambda>ex. ex\<lparr>ex_commit_attempts := ex_commit_attempts ex + 1\<rparr>) en"

definition commit_result :: "EnsembleResult \<Rightarrow> Impl \<Rightarrow> Impl \<times> EnsembleResult outcome" where
  "commit_result r im =
     (let i = rs_ensemble r
      in case find_ensemble im i of
        None \<Rightarrow> (im, fail E_unknown_ensemble)
      | Some en \<Rightarrow>
          (case validate_result r (en_spec en) (im_epoch im) of
             Err e \<Rightarrow> (if e = E_stale_ensemble_generation \<or> e = E_stale_coordinator_epoch
                       then bump_commit_stale im else im, fail e)
           | Ok _ \<Rightarrow>
               if \<not> en_has_execution en \<or> ex_id (en_execution en) \<noteq> rs_execution r
               then (im, fail E_stale_execution_generation)
               else let en = count_commit_attempt en;
                        im = put_ensemble i en im
                    in if ex_has_result (en_execution en)
                       then (if rs_commit_fingerprint (ex_result (en_execution en)) = rs_commit_fingerprint r
                             then (im, Ok (ex_result (en_execution en)))
                             else (bump_commit_conflict im, fail E_conflicting_result_commit))
                       else (case commit_blocked en of
                          Some e \<Rightarrow> (im, fail e)
                        | None \<Rightarrow>
                            (case allocate (im_result_ids im) of
                               (None, s) \<Rightarrow> (im\<lparr>im_result_ids := s\<rparr>, fail E_resource_limit_exceeded)
                             | (Some x, s) \<Rightarrow>
                                 (case next_sequence (im\<lparr>im_result_ids := s\<rparr>) of (q, im) \<Rightarrow>
                                    (let r = stored_result r x q; (en, r) = publish_commit (im_limits im) r en;
                                         im = put_ensemble i en im
                                     in (if rs_decision r = D_committed then bump_commit_accepted im else im,
                                         Ok r)))))))"

definition finalize_check :: "EnsembleId \<Rightarrow> EnsembleGeneration \<Rightarrow> Impl \<Rightarrow> EnsembleExecutionId outcome" where
  "finalize_check i generation im =
     (case find_ensemble im i of
        None \<Rightarrow> fail E_unknown_ensemble
      | Some en \<Rightarrow>
          if sp_generation (en_spec en) \<noteq> generation then fail E_stale_ensemble_generation
          else if \<not> en_has_execution en then fail E_unknown_execution
          else if \<not> execution_settled en then fail E_invalid_state_transition
          else (case ex_status (en_execution en) of
                  XS_revalidation_required \<Rightarrow> fail E_revalidation_required
                | XS_cancelled \<Rightarrow> fail E_ensemble_cancelled
                | XS_superseded \<Rightarrow> fail E_ensemble_superseded
                | _ \<Rightarrow> if en_superseded en then fail E_ensemble_superseded
                       else Ok (ex_id (en_execution en))))"

definition finalize :: "EnsembleId \<Rightarrow> EnsembleGeneration \<Rightarrow> Impl \<Rightarrow> Impl \<times> EnsembleResult outcome" where
  "finalize i generation im =
     (case finalize_check i generation im of
        Err e \<Rightarrow> (im, fail e)
      | Ok x \<Rightarrow>
          (case prepare_result i generation im of
             (im, Err e) \<Rightarrow> (im, fail e)
           | (im, Ok r) \<Rightarrow>
               if rs_execution r \<noteq> x then (im, fail E_internal_error)
               else (case commit_result r im of
                  (im, Err e) \<Rightarrow> (im, fail e)
                | (im, Ok r) \<Rightarrow>
                    if rs_decision r \<noteq> D_committed then (im, fail (consensus_error (cr_state (rs_consensus r))))
                    else (im, Ok r))))"

section \<open>Cancellation and the current result\<close>

definition cancel_ensemble :: "EnsembleId \<Rightarrow> EnsembleGeneration \<Rightarrow> string \<Rightarrow> Impl \<Rightarrow> Impl \<times> status" where
  "cancel_ensemble i generation reason im =
     (case find_ensemble im i of
        None \<Rightarrow> (im, fail E_unknown_ensemble)
      | Some en \<Rightarrow>
          if sp_generation (en_spec en) \<noteq> generation then (im, fail E_stale_ensemble_generation)
          else if \<not> en_has_execution en then (im, fail E_unknown_execution)
          else if ex_has_result (en_execution en) then (im, fail E_result_already_committed)
          else if ex_status (en_execution en) = XS_cancelled then (im, ok_status)
          else (case next_sequence im of (s, im) \<Rightarrow>
            (put_ensemble i (map_execution (\<lambda>ex. ex\<lparr>ex_cancellation_requested := True,
               ex_cancellation_reason := sanitize_text reason (unat (max_metadata_bytes (im_limits im))),
               ex_cancelled_sequence := s, ex_status := XS_cancelled, ex_committed_sequence := 0\<rparr>) en) im,
             ok_status)))"

definition current_result :: "EnsembleId \<Rightarrow> Impl \<Rightarrow> EnsembleResult outcome" where
  "current_result i im =
     (case find_ensemble im i of
        None \<Rightarrow> fail E_unknown_ensemble
      | Some en \<Rightarrow> if \<not> en_has_execution en \<or> \<not> ex_has_result (en_execution en) then fail E_not_found
                   else Ok (ex_result (en_execution en)))"

section \<open>Lemmas\<close>

lemma count_commit_attempt_simps [simp]:
  "en_spec (count_commit_attempt en) = en_spec en"
  "en_participants (count_commit_attempt en) = en_participants en"
  "en_has_execution (count_commit_attempt en) = en_has_execution en"
  "en_superseded (count_commit_attempt en) = en_superseded en"
  "en_history (count_commit_attempt en) = en_history en"
  "en_execution (count_commit_attempt en) =
     (en_execution en)\<lparr>ex_commit_attempts := ex_commit_attempts (en_execution en) + 1\<rparr>"
  "commit_blocked (count_commit_attempt en) = commit_blocked en"
  by (simp_all add: count_commit_attempt_def map_execution_def commit_blocked_def Let_def)

lemma commit_blocked_None:
  "commit_blocked en = None \<longleftrightarrow> \<not> ex_cancellation_requested (en_execution en) \<and> \<not> en_superseded en \<and>
     ex_status (en_execution en) \<notin> {XS_cancelled, XS_superseded, XS_revalidation_required}"
  by (auto simp: commit_blocked_def Let_def)

end
