(* ===== verification/Lifecycle_Spec.thy ===== *)
theory Lifecycle_Spec
  imports Results
begin

text \<open>
  An abstract specification of what the runtime promises about one ensemble: its definition
  generation, whether that generation is superseded, and the current execution with its
  cancellation flag and its result. Redefinition and opening move to a strictly greater
  (generation, execution) pair; within one pair the result is written at most once, and never
  after a cancellation or a supersession.
\<close>

record AbsExecution =
  ax_id :: EnsembleExecutionId
  ax_cancelled :: bool
  ax_result :: "EnsembleResult option"

record AbsEnsemble =
  ae_generation :: EnsembleGeneration
  ae_superseded :: bool
  ae_execution :: "AbsExecution option"

inductive abs_step :: "AbsEnsemble \<Rightarrow> AbsEnsemble \<Rightarrow> bool" where
  abs_stutter: "abs_step a a"
| abs_redefine: "ae_generation a \<noteq> - 1 \<Longrightarrow>
    abs_step a \<lparr>ae_generation = ae_generation a + 1, ae_superseded = False, ae_execution = None\<rparr>"
| abs_supersede: "abs_step a (a\<lparr>ae_superseded := True\<rparr>)"
| abs_open_first: "\<not> ae_superseded a \<Longrightarrow> ae_execution a = None \<Longrightarrow>
    abs_step a (a\<lparr>ae_execution := Some \<lparr>ax_id = 1, ax_cancelled = False, ax_result = None\<rparr>\<rparr>)"
| abs_open_next: "\<not> ae_superseded a \<Longrightarrow> ae_execution a = Some x \<Longrightarrow> ax_id x \<noteq> - 1 \<Longrightarrow>
    abs_step a (a\<lparr>ae_execution := Some \<lparr>ax_id = ax_id x + 1, ax_cancelled = False, ax_result = None\<rparr>\<rparr>)"
| abs_cancel: "ae_execution a = Some x \<Longrightarrow> ax_result x = None \<Longrightarrow>
    abs_step a (a\<lparr>ae_execution := Some (x\<lparr>ax_cancelled := True\<rparr>)\<rparr>)"
| abs_commit: "\<not> ae_superseded a \<Longrightarrow> ae_execution a = Some x \<Longrightarrow> ax_result x = None \<Longrightarrow> \<not> ax_cancelled x \<Longrightarrow>
    rs_ensemble_generation r = ae_generation a \<Longrightarrow> rs_execution r = ax_id x \<Longrightarrow>
    abs_step a (a\<lparr>ae_execution := Some (x\<lparr>ax_result := Some r\<rparr>)\<rparr>)"

section \<open>The execution key\<close>

definition abs_key :: "AbsEnsemble \<Rightarrow> u64 \<times> u64" where
  "abs_key a = (ae_generation a, case ae_execution a of None \<Rightarrow> 0 | Some x \<Rightarrow> ax_id x)"

definition key_le :: "u64 \<times> u64 \<Rightarrow> u64 \<times> u64 \<Rightarrow> bool" where
  "key_le k l \<longleftrightarrow> fst k < fst l \<or> (fst k = fst l \<and> snd k \<le> snd l)"

lemma key_le_refl [simp]: "key_le k k"
  by (simp add: key_le_def)

lemma key_le_trans: "key_le a b \<Longrightarrow> key_le b c \<Longrightarrow> key_le a c"
  by (auto simp: key_le_def)

lemma key_le_antisym: "key_le a b \<Longrightarrow> key_le b a \<Longrightarrow> a = b"
  by (auto simp: key_le_def intro: prod_eqI)

lemma abs_step_key: "abs_step a b \<Longrightarrow> key_le (abs_key a) (abs_key b)"
  by (erule abs_step.cases) (simp_all add: abs_key_def key_le_def word_less_plus_1 less_imp_le)

definition abs_result :: "AbsEnsemble \<Rightarrow> EnsembleResult option" where
  "abs_result a = Option.bind (ae_execution a) ax_result"

definition abs_fenced :: "AbsEnsemble \<Rightarrow> bool" where
  "abs_fenced a \<longleftrightarrow> ae_superseded a \<or> (\<exists>x. ae_execution a = Some x \<and> ax_cancelled x)"

text \<open>Execution identities start at 1, so an ensemble without an execution has a key of its own.\<close>

definition abs_ok :: "AbsEnsemble \<Rightarrow> bool" where
  "abs_ok a \<longleftrightarrow> (\<forall>x. ae_execution a = Some x \<longrightarrow> ax_id x \<noteq> 0)"

lemma abs_step_ok: "abs_step a b \<Longrightarrow> abs_ok a \<Longrightarrow> abs_ok b"
  by (erule abs_step.cases) (simp_all add: abs_ok_def eq_neg_iff_add_eq_0)

lemma abs_step_stable:
  assumes "abs_step a b" "abs_key a = abs_key b" "abs_ok a"
  shows "abs_result a = Some r \<Longrightarrow> abs_result b = Some r"
    and "abs_fenced a \<Longrightarrow> abs_fenced b"
    and "abs_fenced a \<Longrightarrow> abs_result a = None \<Longrightarrow> abs_result b = None"
  using assms by (cases rule: abs_step.cases; auto simp: abs_key_def abs_result_def abs_fenced_def abs_ok_def)+

section \<open>Runs\<close>

lemma abs_run:
  assumes "rtranclp abs_step a b" "abs_ok a"
  shows "abs_ok b" "key_le (abs_key a) (abs_key b)"
  using assms by (induction rule: rtranclp_induct) (auto intro: abs_step_ok key_le_trans abs_step_key)

lemma abs_run_same_key:
  assumes "rtranclp abs_step a b" "abs_step b c" "abs_ok a" "abs_key a = abs_key c"
  shows "abs_key a = abs_key b"
  using abs_run(2)[OF assms(1,3)] abs_step_key[OF assms(2)] assms(4) key_le_antisym by metis

lemma abs_run_result_stable:
  assumes "rtranclp abs_step a b" "abs_ok a" "abs_key a = abs_key b" "abs_result a = Some r"
  shows "abs_result b = Some r"
  using assms
proof (induction rule: rtranclp_induct)
  case (step b c)
  then show ?case
    using abs_run_same_key[of a b c] abs_step_stable(1)[of b c r] abs_run(1)[of a b] by simp
qed simp

lemma abs_run_fenced:
  assumes "rtranclp abs_step a b" "abs_ok a" "abs_key a = abs_key b" "abs_fenced a" "abs_result a = None"
  shows "abs_fenced b \<and> abs_result b = None"
  using assms
proof (induction rule: rtranclp_induct)
  case (step b c)
  then show ?case
    using abs_run_same_key[of a b c] abs_step_stable(2,3)[of b c] abs_run(1)[of a b] by simp
qed simp

section \<open>Simulation of the specification\<close>

text \<open>The interface between the runtime and the specification: a partial view of the concrete
  state such that every concrete step is a step of the specification on what the view shows.\<close>

locale simulation =
  fixes cstep :: "'c \<Rightarrow> 'c \<Rightarrow> bool" and view :: "'c \<Rightarrow> 'a option" and astep :: "'a \<Rightarrow> 'a \<Rightarrow> bool"
  assumes simulates: "cstep s s' \<Longrightarrow> view s = Some a \<Longrightarrow> \<exists>b. view s' = Some b \<and> astep a b"
begin

lemma simulates_run:
  assumes "rtranclp cstep s s'" "view s = Some a"
  shows "\<exists>b. view s' = Some b \<and> rtranclp astep a b"
  using assms
proof (induction rule: rtranclp_induct)
  case (step t u)
  then show ?case using simulates by (meson rtranclp.rtrancl_into_rtrancl)
qed auto

end

end
