(* ===== verification/Fabric_Machine.thy ===== *)
theory Fabric_Machine
  imports Fabric_Advance Fabric_Ingest Fabric_Commit Lifecycle_Spec
begin

text \<open>
  A running runtime as a state machine. Every public operation that changes the state is a step,
  except \<^verbatim>\<open>recover_state\<close>, which replaces the state and belongs to the larger machine of
  \<open>Runtime_Machine\<close>; the arguments are arbitrary, so a run is any interleaving of the calls of
  any clients. The steps are the critical sections: \<^verbatim>\<open>finalize\<close> takes the lock once for its checks,
  once to prepare and once to commit, so its interleavings are those of \<^verbatim>\<open>prepare_result\<close> and
  \<^verbatim>\<open>commit_result\<close>; \<^verbatim>\<open>restart\<close> takes it to read the epoch, to invalidate and to start the next
  epoch, so its last section is a step of its own next to the uninterrupted restart. The machine
  is shown to refine the lifecycle specification.
\<close>

section \<open>Restart\<close>

text \<open>\<^verbatim>\<open>generate_worker_boot_id\<close> draws a random identity; it is the argument \<open>boot\<close>.\<close>

definition next_epoch :: "WorkerBootId \<Rightarrow> Impl \<Rightarrow> Impl" where
  "next_epoch boot im =
     im\<lparr>im_epoch := im_epoch im + 1,
        im_coordinator_boot := (if valid_id (cf_coordinator_boot (im_config im))
                                then cf_coordinator_boot (im_config im) else boot)\<rparr>"

definition restart :: "string \<Rightarrow> WorkerBootId \<Rightarrow> Impl \<Rightarrow> Impl \<times> CoordinatorEpoch outcome" where
  "restart reason boot im =
     (if im_epoch im = - 1 then (im, fail E_resource_limit_exceeded)
      else case invalidate_dynamic_authority reason im of
        (im, Err e) \<Rightarrow> (im, fail e)
      | (im, Ok _) \<Rightarrow> (let im = next_epoch boot im in (im, Ok (im_epoch im))))"

lemma restart_unfold:
  "restart reason boot im =
     (if im_epoch im = - 1 then (im, fail E_resource_limit_exceeded)
      else let im = fst (invalidate_dynamic_authority reason im);
               im = im\<lparr>im_epoch := im_epoch im + 1,
                       im_coordinator_boot := (if valid_id (cf_coordinator_boot (im_config im))
                                               then cf_coordinator_boot (im_config im) else boot)\<rparr>
           in (im, Ok (im_epoch im)))"
  by (simp add: restart_def invalidate_dynamic_authority_def next_epoch_def Let_def)

section \<open>Steps\<close>

inductive fabric_step :: "Impl \<Rightarrow> Impl \<Rightarrow> bool" where
  step_define: "fabric_step im (fst (define_ensemble spec im))"
| step_supersede: "fabric_step im (fst (supersede_ensemble i g im))"
| step_open: "fabric_step im (fst (open_execution i g im))"
| step_cancel: "fabric_step im (fst (cancel_ensemble i g reason im))"
| step_register: "fabric_step im (fst (register_participant r im))"
| step_report_failure: "fabric_step im (fst (report_participant_failure a kind detail im))"
| step_invalidate: "fabric_step im (fst (invalidate_dynamic_authority reason im))"
| step_restart: "fabric_step im (fst (restart reason boot im))"
| step_next_epoch: "fabric_step im (next_epoch boot im)"
| step_advance: "fabric_step im (fst (advance i g im))"
| step_submit_candidate: "fabric_step im (fst (submit_candidate cs im))"
| step_submit_failure: "fabric_step im (fst (submit_candidate_failure fs im))"
| step_submit_abstention: "fabric_step im (fst (submit_candidate_abstention as im))"
| step_submit_evaluation: "fabric_step im (fst (submit_evaluation es im))"
| step_prepare: "fabric_step im (fst (prepare_result i g im))"
| step_commit: "fabric_step im (fst (commit_result res im))"

definition reachable :: "FabricConfig \<Rightarrow> Impl \<Rightarrow> bool" where
  "reachable config im \<longleftrightarrow> rtranclp fabric_step (fabric_init config) im"

section \<open>The abstraction\<close>

definition abs_ensemble :: "EnsembleRecord \<Rightarrow> AbsEnsemble" where
  "abs_ensemble en =
     \<lparr>ae_generation = sp_generation (en_spec en), ae_superseded = en_superseded en,
      ae_execution =
        (if en_has_execution en
         then Some \<lparr>ax_id = ex_id (en_execution en), ax_cancelled = ex_cancellation_requested (en_execution en),
                    ax_result = (if ex_has_result (en_execution en) then Some (ex_result (en_execution en)) else None)\<rparr>
         else None)\<rparr>"

definition view :: "EnsembleId \<Rightarrow> Impl \<Rightarrow> AbsEnsemble option" where
  "view i im = map_option abs_ensemble (find_ensemble im i)"

text \<open>A step simulates the specification on every ensemble; an ensemble that appears is fresh.\<close>

definition simulated :: "Impl \<Rightarrow> Impl \<Rightarrow> bool" where
  "simulated im im' \<longleftrightarrow>
     (\<forall>i. case find_ensemble im i of
            None \<Rightarrow> find_ensemble im' i = None \<or>
                    view i im' = Some \<lparr>ae_generation = 1, ae_superseded = False, ae_execution = None\<rparr>
          | Some en \<Rightarrow> \<exists>en'. find_ensemble im' i = Some en' \<and> abs_step (abs_ensemble en) (abs_ensemble en'))"

lemma commit_frame_abs: "commit_frame en en' \<Longrightarrow> abs_ensemble en' = abs_ensemble en"
  by (simp add: commit_frame_def abs_ensemble_def)

lemma simulated_same: "im_ensembles im' = im_ensembles im \<Longrightarrow> simulated im im'"
  by (auto simp: simulated_def find_ensemble_def abs_stutter split: option.splits)

lemma simulated_put:
  assumes "im_ensembles im' = omap_put i en' (im_ensembles im)" "find_ensemble im i = Some en"
    "abs_step (abs_ensemble en) (abs_ensemble en')"
  shows "simulated im im'"
proof -
  have f: "find_ensemble im' j = (if j = i then Some en' else find_ensemble im j)" for j
    using assms(1) by (simp add: find_ensemble_def)
  show ?thesis unfolding simulated_def using assms(2,3) by (auto simp: f abs_stutter split: option.splits)
qed

lemma simulated_frame:
  assumes "im_ensembles im' = omap_put i en' (im_ensembles im)" "find_ensemble im i = Some en" "commit_frame en en'"
  shows "simulated im im'"
  using assms simulated_put[of im' i en' im en] commit_frame_abs[of en en'] abs_stutter by metis

section \<open>Every operation refines the specification\<close>

lemma cancel_loop_frame:
  "cancel_loop cs w = (cs', w') \<Longrightarrow> wk_en w' = wk_en w \<and> im_epoch (wk_im w') = im_epoch (wk_im w) \<and>
     im_ensembles (wk_im w') = im_ensembles (wk_im w) \<and> im_config (wk_im w') = im_config (wk_im w) \<and>
     im_candidate_ids (wk_im w') = im_candidate_ids (wk_im w) \<and>
     im_evaluation_ids (wk_im w') = im_evaluation_ids (wk_im w)"
proof (induction cs arbitrary: w cs' w')
  case (Cons c cs)
  obtain c1 w1 where "cancel_step c w = (c1, w1)" by (cases "cancel_step c w")
  moreover from this have "wk_en w1 = wk_en w \<and> im_epoch (wk_im w1) = im_epoch (wk_im w) \<and>
     im_ensembles (wk_im w1) = im_ensembles (wk_im w) \<and> im_config (wk_im w1) = im_config (wk_im w) \<and>
     im_candidate_ids (wk_im w1) = im_candidate_ids (wk_im w) \<and>
     im_evaluation_ids (wk_im w1) = im_evaluation_ids (wk_im w)"
    by (auto simp: cancel_step_def dest!: wk_next_sequence_frame split: if_splits prod.splits)
  ultimately show ?case using Cons by (auto split: prod.splits)
qed simp

lemma same_ensembles_simulated: "same_ensembles im im' \<Longrightarrow> simulated im im'"
  by (simp add: same_ensembles_def simulated_same)

lemma bump_ensembles [simp]:
  "im_ensembles (bump_stale im) = im_ensembles im" "im_ensembles (bump_duplicate im) = im_ensembles im"
  "im_ensembles (bump_duplicate_vote im) = im_ensembles im"
  "im_ensembles (bump_supersession im) = im_ensembles im"
  "im_ensembles (bump_commit_accepted im) = im_ensembles im"
  "im_ensembles (bump_commit_conflict im) = im_ensembles im"
  "im_ensembles (bump_commit_stale im) = im_ensembles im"
  by (simp_all add: bump_stale_def bump_duplicate_def bump_duplicate_vote_def bump_supersession_def
      bump_commit_accepted_def bump_commit_conflict_def bump_commit_stale_def)

lemma choose_generation_Ok:
  "choose_generation spec existing = Ok g \<longleftrightarrow>
     (valid_id (sp_generation spec) \<longrightarrow> sp_generation spec = g) \<and>
     (case existing of None \<Rightarrow> g = 1
      | Some en \<Rightarrow> sp_generation (en_spec en) \<noteq> - 1 \<and> g = sp_generation (en_spec en) + 1)"
  by (auto simp: choose_generation_def Let_def split: option.splits)

lemma sim_define: "simulated im (fst (define_ensemble spec im))"
proof (cases "define_ensemble spec im")
  case (Pair im' r)
  show ?thesis
  proof (cases r)
    case (Err e)
    then show ?thesis using Pair define_ensemble_Err same_ensembles_simulated by force
  next
    case (Ok g)
    with Pair have "define_ensemble spec im = (im', Ok g)" by simp
    then show ?thesis
    proof (cases rule: define_ensemble_Ok)
      case (1 i im1 sp)
      show ?thesis
      proof (cases "find_ensemble im i")
        case None
        have "find_ensemble im' j = (if j = i then Some ((ensemble_record_init
            (sp\<lparr>sp_fingerprint := compute_spec_fingerprint sp\<rparr>))\<lparr>en_spec := sp\<lparr>sp_fingerprint := compute_spec_fingerprint sp\<rparr>,
            en_participants := map participant_record_init (sp_participants spec)\<rparr>) else find_ensemble im j)" for j
          using 1 None by (simp add: find_ensemble_def)
        then show ?thesis using 1 None Pair
          by (auto simp: simulated_def view_def abs_stutter abs_ensemble_def ensemble_record_init_def
              choose_generation_Ok split: option.splits)
      next
        case (Some en)
        then have "sp_generation (en_spec en) \<noteq> - 1" "g = sp_generation (en_spec en) + 1"
          using 1 by (auto simp: choose_generation_Ok)
        then have "abs_step (abs_ensemble en) \<lparr>ae_generation = g, ae_superseded = False, ae_execution = None\<rparr>"
          using abs_redefine[of "abs_ensemble en"] by (simp add: abs_ensemble_def)
        then show ?thesis using 1 Some Pair
          by (auto intro!: simulated_put[of im' i _ im en] simp: abs_ensemble_def retire_generation_def Let_def)
      qed
    qed
  qed
qed

lemma sim_supersede: "simulated im (fst (supersede_ensemble i g im))"
proof (cases "find_ensemble im i")
  case None
  then show ?thesis by (simp add: supersede_ensemble_def simulated_same)
next
  case (Some en)
  let ?sup = "en\<lparr>en_superseded := True\<rparr>"
  define en' where "en' = (if execution_open ?sup
    then map_execution (\<lambda>ex. ex\<lparr>ex_status := XS_superseded, ex_candidates := supersede_candidates (ex_candidates ex)\<rparr>) ?sup
    else ?sup)"
  have "abs_ensemble en' = (abs_ensemble en)\<lparr>ae_superseded := True\<rparr>"
    by (simp add: en'_def abs_ensemble_def map_execution_def)
  then have "abs_step (abs_ensemble en) (abs_ensemble en')" by (simp add: abs_supersede)
  with Some show ?thesis
    using simulated_put[of "bump_supersession (put_ensemble i en' im)" i en' im en]
    by (auto simp: supersede_ensemble_def en'_def[symmetric] simulated_same)
qed

lemma sim_open: "simulated im (fst (open_execution i g im))"
proof (cases "snd (open_execution i g im)")
  case (Err e)
  then show ?thesis
    by (auto simp: open_execution_def Let_def intro!: simulated_same split: option.splits if_splits)
next
  case (Ok x)
  obtain en0 where f: "find_ensemble im i = Some en0" using Ok
    by (cases "find_ensemble im i") (simp_all add: open_execution_def)
  obtain en where en: "find_ensemble im i = Some en" "\<not> en_superseded en"
      "en_has_execution en \<longrightarrow> ex_id (en_execution en) \<noteq> - 1"
      "x = (if en_has_execution en then ex_id (en_execution en) + 1 else 1)"
    and im': "fst (open_execution i g im) = put_ensemble i (en\<lparr>en_execution := execution_default\<lparr>ex_id := x,
      ex_attempt_generation := 1, ex_status := XS_open, ex_coordinator_epoch := im_epoch im\<rparr>,
      en_has_execution := True\<rparr>) im"
  proof (rule that[OF f])
    show "\<not> en_superseded en0" "en_has_execution en0 \<longrightarrow> ex_id (en_execution en0) \<noteq> - 1"
      "x = (if en_has_execution en0 then ex_id (en_execution en0) + 1 else 1)"
      using Ok f by (simp_all add: open_execution_def Let_def split: if_splits)
    then show "fst (open_execution i g im) = put_ensemble i (en0\<lparr>en_execution := execution_default\<lparr>ex_id := x,
      ex_attempt_generation := 1, ex_status := XS_open, ex_coordinator_epoch := im_epoch im\<rparr>,
      en_has_execution := True\<rparr>) im"
      using Ok f by (simp add: open_execution_def Let_def split: if_splits)
  qed
  let ?a = "abs_ensemble en"
  have "abs_step ?a (?a\<lparr>ae_execution := Some \<lparr>ax_id = x, ax_cancelled = False, ax_result = None\<rparr>\<rparr>)"
  proof (cases "en_has_execution en")
    case True
    then show ?thesis using en abs_open_next[of ?a] by (simp add: abs_ensemble_def)
  next
    case False
    then show ?thesis using en abs_open_first[of ?a] by (simp add: abs_ensemble_def)
  qed
  moreover have e: "abs_ensemble (en\<lparr>en_execution := execution_default\<lparr>ex_id := x, ex_attempt_generation := 1,
      ex_status := XS_open, ex_coordinator_epoch := im_epoch im\<rparr>, en_has_execution := True\<rparr>) =
      ?a\<lparr>ae_execution := Some \<lparr>ax_id = x, ax_cancelled = False, ax_result = None\<rparr>\<rparr>"
    by (simp add: abs_ensemble_def execution_default_def)
  ultimately show ?thesis unfolding im' by (intro simulated_put[OF put_ensemble_map en(1)]) (unfold e)
qed

lemma sim_cancel: "simulated im (fst (cancel_ensemble i g reason im))"
proof (cases "find_ensemble im i")
  case None
  then show ?thesis by (simp add: cancel_ensemble_def simulated_same)
next
  case (Some en)
  obtain q im1 where n: "next_sequence im = (q, im1)" by (cases "next_sequence im")
  have "abs_step (abs_ensemble en) (abs_ensemble (map_execution (\<lambda>ex. ex\<lparr>ex_cancellation_requested := True,
      ex_cancellation_reason := s, ex_cancelled_sequence := q, ex_status := XS_cancelled,
      ex_committed_sequence := 0\<rparr>) en))"
    if "en_has_execution en" "\<not> ex_has_result (en_execution en)" for s
    using abs_cancel[of "abs_ensemble en"] that by (simp add: abs_ensemble_def map_execution_def)
  then show ?thesis using Some next_sequence_pair[OF n]
    by (auto simp: cancel_ensemble_def n simulated_same intro: simulated_put[of _ i _ im en])
qed

lemma sim_advance: "simulated im (fst (advance i g im))"
proof (cases "find_ensemble im i")
  case None
  then show ?thesis by (simp add: advance_def simulated_same)
next
  case (Some en)
  let ?w = "\<lparr>wk_im = im, wk_en = en, wk_actions = [], wk_progress = True\<rparr>"
  have finish: "simulated im (fst (finish_advance i r))" if "runtime_frame im en (fst r)" for r
    using that Some by (intro simulated_frame[of _ i "wk_en (fst r)" im en])
      (simp_all add: finish_advance_def runtime_frame_def)
  have w: "runtime_frame im en ?w" by (simp add: runtime_frame_def)
  have c: "runtime_frame im en (emit_cancellation ?w)" using cancel_loop_frame
    by (auto simp: emit_cancellation_def runtime_frame_def Let_def commit_frame_def same_authority_def
        split: prod.splits)
  have s: "runtime_frame im en (wk_map_ex supersede_open_execution ?w)"
    by (simp add: runtime_frame_def supersede_open_execution_def commit_frame_def same_authority_def)
  show ?thesis using Some finish c s frame.inv_advance_open[OF w]
    by (simp add: advance_def simulated_same Let_def)
qed

lemma sim_prepare: "simulated im (fst (prepare_result i g im))"
  using simulated_frame[of "put_ensemble i (compute_reports en) im" i "compute_reports en" im en for en]
  by (auto simp: prepare_result_def Let_def simulated_same commit_frame_def split: option.splits)


lemma sim_register: "simulated im (fst (register_participant r im))"
proof (cases "snd (register_participant r im)")
  case (Err e)
  then show ?thesis using register_participant_Err[of r im "fst (register_participant r im)" e]
    by (metis prod.collapse same_ensembles_simulated)
next
  case (Ok g)
  then have "register_participant r im = (fst (register_participant r im), Ok g)" by (metis prod.collapse)
  then show ?thesis
  proof (cases rule: register_participant_Ok)
    case (1 en p)
    then show ?thesis
      by (intro simulated_frame[of _ "rg_ensemble r" "set_participant (admit_participant r p) en" im en])
        (simp_all add: commit_frame_def set_participant_def)
  qed
qed

lemma loop_commit_frame:
  assumes "\<And>en c. commit_frame en (fst (f en c))"
  shows "commit_frame en (candidate_loop f ks en)"
proof (induction ks arbitrary: en)
  case (Cons k ks)
  have "commit_frame en (store_candidate_at k (f en (candidate_at k en)))"
    using assms store_candidate_at_frames(1) by (rule commit_frame_trans)
  with Cons.IH show ?case by (auto intro: commit_frame_trans)
qed simp

lemma rewind_frame: "commit_frame en (fst (rewind_candidate_for_retry en c))"
  by (simp add: rewind_candidate_for_retry_def commit_frame_def map_participants_with_def map_execution_def
      supersede_candidate_evidence_def)

lemma handle_failure_frame: "commit_frame en (handle_participant_failure p kind detail en)"
  unfolding handle_participant_failure_def for_each_candidate_def
  by (rule loop_commit_frame)
     (simp add: participant_failure_step_def rewind_frame fail_candidate_frames(1))

lemma sim_report_failure: "simulated im (fst (report_participant_failure a kind detail im))"
proof (cases "find_ensemble im (pa_ensemble a)")
  case None
  then show ?thesis by (auto simp: report_participant_failure_def simulated_same split: outcome.splits)
next
  case (Some en)
  have put: "simulated im (put_ensemble (pa_ensemble a) en' im)" if "commit_frame en en'" for en'
    using that Some by (intro simulated_frame[of _ "pa_ensemble a" en' im en]) simp_all
  have set_p: "commit_frame en (set_participant q en)" for q
    by (simp add: commit_frame_def set_participant_def)
  have handled: "commit_frame en (handle_participant_failure q kind detail (set_participant q en))" for q
    using set_p handle_failure_frame by (rule commit_frame_trans)
  have failed: "commit_frame en (map_execution (\<lambda>ex. ex\<lparr>ex_status := XS_failed\<rparr>) e)" if "commit_frame en e" for e
    using that by (simp add: commit_frame_def map_execution_def)
  define st where "st = (if kind = FK_unavailable then PS_unavailable else PS_failed)"
  show ?thesis using Some unfolding report_participant_failure_def st_def[symmetric] Let_def
    by (simp add: simulated_same set_p handled failed put split: outcome.splits option.splits)
qed

lemma locate_candidate_frame: "locate_candidate a im = (im', r) \<Longrightarrow> same_ensembles im im'"
  by (auto simp: locate_candidate_def dest!: locate_frames intro: same_ensembles_trans
      split: outcome.splits prod.splits option.splits if_splits)

lemma reject_submission_frame: "same_ensembles im (fst (reject_submission c im))"
  by (simp add: reject_submission_def)

lemma store_participant_simulated:
  assumes "find_ensemble im i = Some en" "im_ensembles im' = im_ensembles im"
  shows "simulated im (store_candidate_participant i c p en im')"
  using assms by (intro simulated_frame[of _ i "set_participant p (map_execution (set_candidate c) en)" im en])
    (simp_all add: store_candidate_participant_def commit_frame_def set_participant_def map_execution_def
      set_candidate_def)

lemma sim_submit_candidate: "simulated im (fst (submit_candidate cs im))"
proof (cases "locate_candidate (cs_authority cs) im")
  case (Pair im1 r)
  show ?thesis
  proof (cases r)
    case (Err e)
    then show ?thesis using Pair locate_candidate_frame same_ensembles_simulated
      by (auto simp: submit_candidate_def)
  next
    case (Ok l)
    then have l: "im1 = im" "find_ensemble im (pa_ensemble (ca_participant (cs_authority cs))) = Some (lo_ensemble l)"
      using Pair locate_candidate_Ok by (auto simp: located_by_def)
    obtain s im2 where n: "next_sequence im = (s, im2)" by (cases "next_sequence im")
    show ?thesis using l Pair Ok next_sequence_pair[OF n] reject_submission_frame
      by (auto simp: submit_candidate_def n Let_def simulated_same same_ensembles_simulated
          intro!: store_participant_simulated)
  qed
qed

lemma sim_submit_abstention: "simulated im (fst (submit_candidate_abstention as im))"
proof (cases "locate_candidate (as_authority as) im")
  case (Pair im1 r)
  show ?thesis
  proof (cases r)
    case (Err e)
    then show ?thesis using Pair locate_candidate_frame same_ensembles_simulated
      by (auto simp: submit_candidate_abstention_def)
  next
    case (Ok l)
    then have l: "im1 = im" "find_ensemble im (pa_ensemble (ca_participant (as_authority as))) = Some (lo_ensemble l)"
      using Pair locate_candidate_Ok by (auto simp: located_by_def)
    obtain s im2 where n: "next_sequence im = (s, im2)" by (cases "next_sequence im")
    show ?thesis using l Pair Ok next_sequence_pair[OF n] reject_submission_frame
      by (auto simp: submit_candidate_abstention_def n Let_def simulated_same same_ensembles_simulated
          intro!: store_participant_simulated)
  qed
qed

lemma sim_submit_failure: "simulated im (fst (submit_candidate_failure fs im))"
proof (cases "locate_candidate (fs_authority fs) im")
  case (Pair im1 r)
  show ?thesis
  proof (cases r)
    case (Err e)
    then show ?thesis using Pair locate_candidate_frame same_ensembles_simulated
      by (auto simp: submit_candidate_failure_def)
  next
    case (Ok l)
    let ?i = "pa_ensemble (ca_participant (fs_authority fs))" and ?en = "lo_ensemble l"
    have l: "im1 = im" "find_ensemble im ?i = Some ?en"
      using Pair Ok locate_candidate_Ok by (auto simp: located_by_def)
    have put: "simulated im (put_ensemble ?i (map_execution (set_candidate c) en') im)"
      if "commit_frame ?en en'" for c en'
      using that l by (intro simulated_frame[of _ ?i "map_execution (set_candidate c) en'" im ?en])
        (simp_all add: commit_frame_def map_execution_def set_candidate_def)
    have f1: "rewind_candidate_for_retry ?en c = (en', c') \<Longrightarrow> commit_frame ?en en'" for en' c c'
      using rewind_frame[of ?en c] by auto
    have f2: "fail_candidate e d ?en c = (en', c') \<Longrightarrow> commit_frame ?en en'" for en' c c' e d
      using fail_candidate_frames(1)[of ?en e d c] by auto
    show ?thesis using l Pair Ok reject_submission_frame
      by (auto simp: submit_candidate_failure_def Let_def simulated_same same_ensembles_simulated
          intro!: put intro: f1 f2 split: prod.splits if_splits)
  qed
qed

lemma record_evaluation_simulated:
  assumes "find_ensemble im (pa_ensemble (ea_evaluator (es_authority es))) = Some en"
  shows "simulated im (record_evaluation es q c p en im)"
proof -
  obtain s im1 where n: "next_sequence im = (s, im1)" by (cases "next_sequence im")
  show ?thesis using assms next_sequence_pair[OF n]
    by (auto simp: record_evaluation_def n Let_def commit_frame_def set_participant_def map_execution_def
        refresh_summary_def set_candidate_def set_pending_def
        intro!: simulated_frame[of _ "pa_ensemble (ea_evaluator (es_authority es))" _ im en])
qed

lemma admit_evaluation_cases:
  "fst (admit_evaluation es en p c q im) = record_evaluation es q c p en im \<or>
   same_ensembles im (fst (admit_evaluation es en p c q im))"
  by (auto simp: admit_evaluation_def split: outcome.splits option.splits)

lemma submit_evaluation_cases:
  "same_ensembles im (fst (submit_evaluation es im)) \<and> \<not> is_ok (snd (submit_evaluation es im)) \<or>
   (\<exists>en p c q. find_ensemble im (pa_ensemble (ea_evaluator (es_authority es))) = Some en \<and>
      find_participant en (pa_participant (ea_evaluator (es_authority es))) = Some p \<and>
      authoritative (im_epoch im) p \<and>
      find_candidate (en_execution en) (ea_candidate (es_authority es)) = Some c \<and> is_content_state (cd_state c) \<and>
      find_pending (en_execution en) (ea_evaluation (es_authority es)) = Some q \<and>
      submit_evaluation es im = admit_evaluation es en p c q im)"
  by (auto simp: submit_evaluation_def Let_def dest!: locate_execution_Ok locate_participant_Ok
      dest: locate_frames intro: same_ensembles_trans split: outcome.splits prod.splits option.splits)

lemma sim_submit_evaluation: "simulated im (fst (submit_evaluation es im))"
  using submit_evaluation_cases[of im es]
proof (elim disjE exE conjE)
  fix en p c q
  assume f: "find_ensemble im (pa_ensemble (ea_evaluator (es_authority es))) = Some en"
    and e: "submit_evaluation es im = admit_evaluation es en p c q im"
  show ?thesis using admit_evaluation_cases[of es en p c q im] record_evaluation_simulated[OF f] e
    by (auto dest: same_ensembles_simulated)
qed (rule same_ensembles_simulated)

lemma stored_result_simps [simp]:
  "rs_decision (stored_result r i s) = rs_decision r" "rs_execution (stored_result r i s) = rs_execution r"
  "rs_ensemble_generation (stored_result r i s) = rs_ensemble_generation r"
  "rs_selected_candidate (stored_result r i s) = rs_selected_candidate r"
  "rs_consensus (stored_result r i s) = rs_consensus r" "rs_ensemble (stored_result r i s) = rs_ensemble r"
  by (simp_all add: stored_result_def Let_def)

lemma publish_commit_abs:
  assumes "publish_commit l r en = (en', r')" "\<not> en_superseded en" "en_has_execution en"
    "\<not> ex_has_result (en_execution en)" "\<not> ex_cancellation_requested (en_execution en)"
    "rs_ensemble_generation r = sp_generation (en_spec en)" "rs_execution r = ex_id (en_execution en)"
  shows "abs_step (abs_ensemble en) (abs_ensemble en')"
    and "en_execution en' = (en_execution en')\<lparr>ex_has_result := True, ex_result := r'\<rparr>"
proof -
  have r': "rs_ensemble_generation r' = sp_generation (en_spec en)" "rs_execution r' = ex_id (en_execution en)"
    using assms by (auto simp: publish_commit_def Let_def split: if_splits)
  let ?x = "\<lparr>ax_id = ex_id (en_execution en), ax_cancelled = False, ax_result = None\<rparr>"
  have e: "abs_ensemble en' = (abs_ensemble en)\<lparr>ae_execution := Some (?x\<lparr>ax_result := Some r'\<rparr>)\<rparr>"
    using assms by (auto simp: publish_commit_def store_commit_def abs_ensemble_def map_execution_def Let_def split: if_splits)
  show "abs_step (abs_ensemble en) (abs_ensemble en')"
    unfolding e using assms r' by (intro abs_commit) (simp_all add: abs_ensemble_def)
  show "en_execution en' = (en_execution en')\<lparr>ex_has_result := True, ex_result := r'\<rparr>"
    using assms(1) by (auto simp: publish_commit_def store_commit_def map_execution_def Let_def split: if_splits)
qed

text \<open>The three ways a commit ends: rejected or repeated without touching the result, or the first
  accepted commit of the execution.\<close>

lemma commit_result_cases:
  assumes "commit_result r im = (im', out)"
  obtains (rejected) "im_ensembles im' = im_ensembles im" "\<not> is_ok out"
  | (counted) en where "find_ensemble im (rs_ensemble r) = Some en" "en_has_execution en"
      "im_ensembles im' = omap_put (rs_ensemble r)
         (count_commit_attempt en) (im_ensembles im)"
      "\<forall>v. out = Ok v \<longrightarrow> ex_has_result (en_execution en) \<and> v = ex_result (en_execution en) \<and>
         rs_commit_fingerprint v = rs_commit_fingerprint r"
      "ex_has_result (en_execution en) \<and> rs_commit_fingerprint (ex_result (en_execution en)) \<noteq> rs_commit_fingerprint r
         \<longrightarrow> out = Err E_conflicting_result_commit"
  | (accepted) en en1 en' v x s where "find_ensemble im (rs_ensemble r) = Some en" "en_has_execution en"
      "\<not> ex_has_result (en_execution en)" "commit_blocked en = None"
      "is_ok (validate_result r (en_spec en) (im_epoch im))" "rs_execution r = ex_id (en_execution en)"
      "en1 = count_commit_attempt en"
      "publish_commit (im_limits im) (stored_result r x s) en1 = (en', v)" "out = Ok v"
      "im_ensembles im' = omap_put (rs_ensemble r) en' (im_ensembles im)"
      "im_candidate_ids im' = im_candidate_ids im" "im_evaluation_ids im' = im_evaluation_ids im"
proof (cases "find_ensemble im (rs_ensemble r)")
  case None
  with assms rejected show thesis by (auto simp: commit_result_def)
next
  case (Some en)
  show thesis
  proof (cases "is_ok (validate_result r (en_spec en) (im_epoch im)) \<and> en_has_execution en \<and>
                ex_id (en_execution en) = rs_execution r")
    case False
    with assms Some rejected show thesis
      by (cases "validate_result r (en_spec en) (im_epoch im)") (auto simp: commit_result_def Let_def split: if_splits)
  next
    case True
    then obtain u where v: "validate_result r (en_spec en) (im_epoch im) = Ok u"
      by (cases "validate_result r (en_spec en) (im_epoch im)") auto
    let ?en = "count_commit_attempt en"
    have r: "im_result_ids (put_ensemble i e im) = im_result_ids im" for i e by (simp add: put_ensemble_def)
    show thesis
    proof (cases "ex_has_result (en_execution en)")
      case has: True
      show thesis using assms Some True v has
        by (intro counted[OF Some]) (auto simp: commit_result_def Let_def split: if_splits)
    next
      case no: False
      show thesis
      proof (cases "commit_blocked en = None \<and> fst (allocate (im_result_ids im)) \<noteq> None")
        case False
        show thesis using assms Some True v no False
          by (intro counted[OF Some]) (auto simp: commit_result_def Let_def r
              split: if_splits option.splits prod.splits)
      next
        case ok: True
        then obtain x s where x: "allocate (im_result_ids im) = (Some x, s)"
          by (cases "allocate (im_result_ids im)") auto
        let ?im = "put_ensemble (rs_ensemble r) ?en im"
        obtain q im2 where q: "next_sequence (?im\<lparr>im_result_ids := s\<rparr>) = (q, im2)"
          by (cases "next_sequence (?im\<lparr>im_result_ids := s\<rparr>)")
        obtain en' v' where p: "publish_commit (im_limits im) (stored_result r x q) ?en = (en', v')"
          by (cases "publish_commit (im_limits im) (stored_result r x q) ?en")
        have im2: "im_ensembles im2 = omap_put (rs_ensemble r) ?en (im_ensembles im)" "im_config im2 = im_config im"
          "im_candidate_ids im2 = im_candidate_ids im" "im_evaluation_ids im2 = im_evaluation_ids im"
          using next_sequence_pair[OF q] by (simp_all add: put_ensemble_def)
        have c: "commit_result r im = (if rs_decision v' = D_committed
            then bump_commit_accepted (put_ensemble (rs_ensemble r) en' im2)
            else put_ensemble (rs_ensemble r) en' im2, Ok v')"
          using True v no ok x q p im2(2) Some by (simp add: commit_result_def Let_def r)
        show thesis using accepted[OF Some _ no _ _ _ refl p] True ok assms c im2
          by (auto simp: put_ensemble_def bump_commit_accepted_def omap_put_put split: if_splits)
      qed
    qed
  qed
qed

lemma count_attempt_frame: "commit_frame en (count_commit_attempt en)"
  by (simp add: commit_frame_def)

lemma sim_commit: "simulated im (fst (commit_result r im))"
proof (cases "commit_result r im")
  case (Pair im' out)
  then show ?thesis
  proof (cases rule: commit_result_cases)
    case rejected
    then show ?thesis using Pair by (simp add: simulated_same)
  next
    case (counted en)
    show ?thesis using Pair simulated_frame[OF counted(3,1) count_attempt_frame] by simp
  next
    case (accepted en en1 en' v x s)
    have "abs_step (abs_ensemble en1) (abs_ensemble en')"
      using accepted(2-6) by (intro publish_commit_abs(1)[OF accepted(8)])
        (simp_all add: accepted(7) commit_blocked_None validate_result_iff)
    moreover have "abs_ensemble en1 = abs_ensemble en"
      using accepted(7) commit_frame_abs[OF count_attempt_frame] by simp
    ultimately show ?thesis using Pair simulated_put[OF accepted(10,1)] by simp
  qed
qed

lemma find_invalidate:
  "find_ensemble (fst (invalidate_dynamic_authority reason im)) i =
     map_option (invalidate_ensemble reason) (find_ensemble im i)"
proof -
  have "omap_find (map (\<lambda>(i, en). (i, f en)) m) i = map_option f (omap_find m i)" for f and m :: "(u64, EnsembleRecord) omap"
    by (induction m) (auto simp: omap_find_def)
  then show ?thesis by (simp add: find_ensemble_def invalidate_dynamic_authority_def Let_def)
qed

lemma invalidate_frame: "commit_frame en (invalidate_ensemble reason en)"
  by (simp add: commit_frame_def invalidate_ensemble_def invalidate_execution_def map_execution_def Let_def)

lemma sim_invalidate: "simulated im (fst (invalidate_dynamic_authority reason im))"
  by (auto simp: simulated_def find_invalidate commit_frame_abs[OF invalidate_frame] abs_stutter split: option.splits)

lemma sim_next_epoch: "simulated im (next_epoch boot im)"
  by (simp add: simulated_same next_epoch_def)

lemma sim_restart: "simulated im (fst (restart reason boot im))"
proof -
  have "find_ensemble (fst (restart reason boot im)) i =
      (if im_epoch im = - 1 then find_ensemble im i
       else find_ensemble (fst (invalidate_dynamic_authority reason im)) i)" for i
    by (simp add: restart_unfold Let_def find_ensemble_def)
  then show ?thesis
    by (auto simp: simulated_def find_invalidate commit_frame_abs[OF invalidate_frame] abs_stutter split: option.splits)
qed

lemma fabric_step_simulated: "fabric_step im im' \<Longrightarrow> simulated im im'"
  by (induction rule: fabric_step.induct)
     (simp_all add: sim_define sim_supersede sim_open sim_cancel sim_register sim_report_failure sim_invalidate
        sim_restart sim_next_epoch sim_advance sim_submit_candidate sim_submit_failure sim_submit_abstention
        sim_submit_evaluation sim_prepare sim_commit)

lemma simulated_view:
  "simulated im im' \<Longrightarrow> view i im = Some a \<Longrightarrow> \<exists>b. view i im' = Some b \<and> abs_step a b"
proof -
  assume "simulated im im'" "view i im = Some a"
  then obtain en en' where "a = abs_ensemble en" "find_ensemble im' i = Some en'"
    "abs_step (abs_ensemble en) (abs_ensemble en')"
    by (auto simp: simulated_def view_def dest!: spec[of _ i])
  then show ?thesis by (auto simp: view_def)
qed

interpretation lifecycle: simulation fabric_step "view i" abs_step for i
  by unfold_locales (rule simulated_view[OF fabric_step_simulated])

end
