(* ===== verification/Fabric_Safety.thy ===== *)
theory Fabric_Safety
  imports Fabric_Machine "HOL-Library.Sublist"
begin

text \<open>
  The invariant of the reachable states of the runtime: every ensemble record is keyed by its own
  identity, its participants are the declared ones, candidate and evaluation identities are
  unique and below the allocators' marks, no candidate is dispatched more often than the retry
  policy allows, and the execution status, the result and the commit log agree.
\<close>

section \<open>The invariant of one ensemble\<close>

definition commit_ok :: "EnsembleRecord \<Rightarrow> bool" where
  "commit_ok en \<longleftrightarrow>
     (let ex = en_execution en
      in if ex_has_result ex
         then ex_status ex = status_for (rs_decision (ex_result ex)) \<and> rs_execution (ex_result ex) = ex_id ex \<and>
              rs_ensemble_generation (ex_result ex) = sp_generation (en_spec en) \<and> length (ex_commits ex) \<le> 1
         else ex_status ex \<noteq> XS_committed \<and> ex_commits ex = [])"

definition ensemble_ok :: "u64 \<Rightarrow> u64 \<Rightarrow> EnsembleId \<Rightarrow> EnsembleRecord \<Rightarrow> bool" where
  "ensemble_ok n m i en \<longleftrightarrow>
     sp_id (en_spec en) = i \<and> sp_generation (en_spec en) \<noteq> 0 \<and> rt_max_attempts (sp_retry (en_spec en)) \<noteq> 0 \<and>
     map pr_id (en_participants en) = map ps_id (sp_participants (en_spec en)) \<and>
     distinct (map ps_id (sp_participants (en_spec en))) \<and>
     ids_ok n m (en_execution en) \<and> attempts_ok (en_spec en) (en_execution en) \<and> commit_ok en"

definition fabric_ok :: "Impl \<Rightarrow> bool" where
  "fabric_ok im \<longleftrightarrow>
     (\<forall>i en. find_ensemble im i = Some en \<longrightarrow> ensemble_ok (im_candidate_ids im) (im_evaluation_ids im) i en)"

section \<open>Moves of a candidate\<close>

text \<open>What every operation other than a dispatch may do to a candidate: its identity and its
  attempt count stay, and it is (re-)declared only with attempts left.\<close>

definition candidate_moves :: "EnsembleSpec \<Rightarrow> CandidateRecord \<Rightarrow> CandidateRecord \<Rightarrow> bool" where
  "candidate_moves spec c c' \<longleftrightarrow>
     cd_id c' = cd_id c \<and> cd_attempts_used c' = cd_attempts_used c \<and>
     (cd_state c' = C_declared \<longrightarrow>
        cd_state c = C_declared \<or> cd_attempts_used c < rt_max_attempts (sp_retry spec))"

abbreviation moves :: "EnsembleSpec \<Rightarrow> CandidateRecord list \<Rightarrow> CandidateRecord list \<Rightarrow> bool" where
  "moves spec \<equiv> list_all2 (candidate_moves spec)"

lemma candidate_moves_refl [simp]: "candidate_moves spec c c"
  by (simp add: candidate_moves_def)

lemma moves_refl [simp]: "moves spec cs cs"
  by (simp add: list_all2_refl)

lemma moves_trans: "moves spec a b \<Longrightarrow> moves spec b c \<Longrightarrow> moves spec a c"
  by (rule list_all2_trans[where ?P1.0 = "candidate_moves spec" and ?P2.0 = "candidate_moves spec"])
     (auto simp: candidate_moves_def)

lemma moves_map: "(\<And>c. c \<in> set cs \<Longrightarrow> candidate_moves spec c (f c)) \<Longrightarrow> moves spec cs (map f cs)"
  by (simp add: list_all2_conv_all_nth)

lemma moves_update_first:
  "find P cs = Some c \<Longrightarrow> candidate_moves spec c c' \<Longrightarrow> moves spec cs (update_first P (\<lambda>_. c') cs)"
  by (induction cs) (auto split: if_splits)

lemma moves_list_update:
  "candidate_moves spec (cs ! k) c' \<Longrightarrow> moves spec cs (cs[k := c'])"
  by (cases "k < length cs") (auto simp: list_all2_conv_all_nth nth_list_update list_update_beyond)

lemma moves_ids: "moves spec cs cs' \<Longrightarrow> map cd_id cs' = map cd_id cs"
  by (induction rule: list_all2_induct) (auto simp: candidate_moves_def)

lemma moves_attempts:
  assumes "moves spec (ex_candidates ex) (ex_candidates ex')" "attempts_ok spec ex"
  shows "attempts_ok spec ex'"
proof -
  define within where "within c \<longleftrightarrow> cd_attempts_used c \<le> rt_max_attempts (sp_retry spec) \<and>
    (cd_state c = C_declared \<longrightarrow> cd_attempts_used c < rt_max_attempts (sp_retry spec))" for c :: CandidateRecord
  have step: "candidate_moves spec c c' \<Longrightarrow> within c \<Longrightarrow> within c'" for c c'
    by (auto simp: candidate_moves_def within_def)
  have "moves spec cs cs' \<Longrightarrow> \<forall>c \<in> set cs. within c \<Longrightarrow> \<forall>c \<in> set cs'. within c" for cs cs'
    by (induction rule: list_all2_induct) (auto dest: step)
  with assms show ?thesis by (simp add: attempts_ok_def within_def)
qed

lemma subseq_subset: "subseq xs ys \<Longrightarrow> set xs \<subseteq> set ys"
  by (induction rule: list_emb.induct) auto

lemma subseq_distinct: "subseq xs ys \<Longrightarrow> distinct ys \<Longrightarrow> distinct xs"
  by (induction rule: list_emb.induct) (auto dest: subseq_subset)

lemma ids_ok_subseq:
  assumes "ids_ok n m ex" "map cd_id (ex_candidates ex') = map cd_id (ex_candidates ex)"
    "subseq (map pe_id (ex_pending ex')) (map pe_id (ex_pending ex))" "n \<le> n'" "m \<le> m'"
  shows "ids_ok n' m' ex'"
proof -
  note old = assms(1)[unfolded ids_ok_alt]
  have "set (map pe_id (ex_pending ex')) \<subseteq> set (map pe_id (ex_pending ex))"
    using assms(3) by (rule subseq_subset)
  also have "\<dots> \<subseteq> {i. i < m}" using old by blast
  also have "\<dots> \<subseteq> {i. i < m'}" using assms(5) by auto
  finally have p: "set (map pe_id (ex_pending ex')) \<subseteq> {i. i < m'}" .
  have "set (map cd_id (ex_candidates ex)) \<subseteq> {i. i < n}" using old by blast
  also have "\<dots> \<subseteq> {i. i < n'}" using assms(4) by auto
  finally have c: "set (map cd_id (ex_candidates ex)) \<subseteq> {i. i < n'}" .
  have "distinct (map pe_id (ex_pending ex'))" using assms(3) old subseq_distinct by blast
  with p c old show ?thesis unfolding ids_ok_alt assms(2) by blast
qed

text \<open>A quiet change of an ensemble record: the commit frame and the participant identities stay,
  candidates move, and pending evaluations are only dropped or answered.\<close>

definition quiet :: "EnsembleRecord \<Rightarrow> EnsembleRecord \<Rightarrow> bool" where
  "quiet en en' \<longleftrightarrow>
     commit_frame en en' \<and> map pr_id (en_participants en') = map pr_id (en_participants en) \<and>
     moves (en_spec en) (ex_candidates (en_execution en)) (ex_candidates (en_execution en')) \<and>
     subseq (map pe_id (ex_pending (en_execution en'))) (map pe_id (ex_pending (en_execution en)))"

lemma quiet_refl [simp]: "quiet en en"
  by (simp add: quiet_def)

lemma quiet_trans:
  assumes "quiet a b" "quiet b c" shows "quiet a c"
proof -
  have "en_spec b = en_spec a" using assms(1) by (simp add: quiet_def commit_frame_def)
  then have "moves (en_spec a) (ex_candidates (en_execution a)) (ex_candidates (en_execution c))"
    using assms by (auto simp: quiet_def intro: moves_trans)
  moreover have "commit_frame a c" using assms commit_frame_trans unfolding quiet_def by blast
  moreover have "subseq (map pe_id (ex_pending (en_execution c))) (map pe_id (ex_pending (en_execution a)))"
    using assms subseq_order.trans unfolding quiet_def by blast
  ultimately show ?thesis using assms by (simp add: quiet_def)
qed

lemma ensemble_ok_quiet:
  assumes "ensemble_ok n m i en" "quiet en en'"
    "ex_status (en_execution en') = ex_status (en_execution en) \<or>
     \<not> ex_has_result (en_execution en) \<and> ex_status (en_execution en') \<noteq> XS_committed"
    "n \<le> n'" "m \<le> m'"
  shows "ensemble_ok n' m' i en'"
proof -
  have q: "moves (en_spec en) (ex_candidates (en_execution en)) (ex_candidates (en_execution en'))"
    "subseq (map pe_id (ex_pending (en_execution en'))) (map pe_id (ex_pending (en_execution en)))"
    using assms(2) by (auto simp: quiet_def)
  have "ids_ok n' m' (en_execution en')"
    using assms(1,4,5) by (intro ids_ok_subseq[OF _ moves_ids[OF q(1)] q(2)]) (auto simp: ensemble_ok_def)
  moreover have "attempts_ok (en_spec en) (en_execution en')"
    using assms(1) moves_attempts[OF q(1)] by (auto simp: ensemble_ok_def)
  ultimately show ?thesis using assms(1-3)
    by (auto simp: ensemble_ok_def quiet_def commit_frame_def commit_ok_def Let_def)
qed

lemma ensemble_ok_status:
  "ensemble_ok n m i en \<Longrightarrow> ex_status (en_execution en) = XS_open \<Longrightarrow> \<not> ex_has_result (en_execution en)"
  by (cases "rs_decision (ex_result (en_execution en))") (auto simp: ensemble_ok_def commit_ok_def Let_def)

lemma ensemble_ok_mono: "ensemble_ok n m i en \<Longrightarrow> n \<le> n' \<Longrightarrow> m \<le> m' \<Longrightarrow> ensemble_ok n' m' i en"
  by (auto simp: ensemble_ok_def intro: ids_ok_mono)

lemma fabric_ok_same:
  assumes "fabric_ok im" "im_ensembles im' = im_ensembles im" "im_candidate_ids im \<le> im_candidate_ids im'"
    "im_evaluation_ids im \<le> im_evaluation_ids im'"
  shows "fabric_ok im'"
  using assms by (auto simp: fabric_ok_def find_ensemble_def intro: ensemble_ok_mono)

lemma fabric_ok_put:
  assumes "fabric_ok im" "im_ensembles im' = omap_put i en' (im_ensembles im)"
    "im_candidate_ids im \<le> im_candidate_ids im'" "im_evaluation_ids im \<le> im_evaluation_ids im'"
    "ensemble_ok (im_candidate_ids im') (im_evaluation_ids im') i en'"
  shows "fabric_ok im'"
  using assms by (auto simp: fabric_ok_def find_ensemble_def intro: ensemble_ok_mono)

section \<open>Every operation keeps the invariant\<close>

lemma ok_same_ensembles: "fabric_ok im \<Longrightarrow> same_ensembles im im' \<Longrightarrow> fabric_ok im'"
  by (auto simp: same_ensembles_def intro: fabric_ok_same)

lemma bump_ids [simp]:
  "im_candidate_ids (bump_supersession im) = im_candidate_ids im" "im_evaluation_ids (bump_supersession im) = im_evaluation_ids im"
  "im_candidate_ids (bump_commit_accepted im) = im_candidate_ids im" "im_evaluation_ids (bump_commit_accepted im) = im_evaluation_ids im"
  "im_candidate_ids (bump_commit_conflict im) = im_candidate_ids im" "im_evaluation_ids (bump_commit_conflict im) = im_evaluation_ids im"
  "im_candidate_ids (bump_commit_stale im) = im_candidate_ids im" "im_evaluation_ids (bump_commit_stale im) = im_evaluation_ids im"
  by (simp_all add: bump_supersession_def bump_commit_accepted_def bump_commit_conflict_def bump_commit_stale_def)

lemma find_ok: "fabric_ok im \<Longrightarrow> find_ensemble im i = Some en \<Longrightarrow>
    ensemble_ok (im_candidate_ids im) (im_evaluation_ids im) i en"
  by (simp add: fabric_ok_def)

text \<open>An operation that stores one record back and leaves the allocators alone.\<close>

lemma ok_put_quiet:
  assumes "fabric_ok im" "find_ensemble im i = Some en" "im_ensembles im' = omap_put i en' (im_ensembles im)"
    "im_candidate_ids im' = im_candidate_ids im" "im_evaluation_ids im' = im_evaluation_ids im" "quiet en en'"
    "ex_status (en_execution en') = ex_status (en_execution en) \<or>
     \<not> ex_has_result (en_execution en) \<and> ex_status (en_execution en') \<noteq> XS_committed"
  shows "fabric_ok im'"
  using assms by (intro fabric_ok_put[of im im' i en'] ensemble_ok_quiet[OF find_ok[OF assms(1,2)]]) simp_all

lemma default_execution_ok [simp]:
  "ids_ok n m execution_default" "attempts_ok spec execution_default"
  by (simp_all add: ids_ok_def attempts_ok_def execution_default_def)

lemma validate_spec_facts:
  assumes "is_ok (validate_spec spec l)"
  shows "rt_max_attempts (sp_retry spec) \<noteq> 0" "distinct (map ps_id (sp_participants spec))" "sp_id spec \<noteq> 0"
  using assms validate_participants_distinct[of l "[]" "sp_participants spec"]
  by (auto simp: validate_spec_def validate_policies_def Let_def valid_id_def)

lemma ok_define: "fabric_ok im \<Longrightarrow> fabric_ok (fst (define_ensemble spec im))"
proof (cases "snd (define_ensemble spec im)")
  case (Err e)
  assume "fabric_ok im"
  then show ?thesis using Err define_ensemble_Err[of spec im "fst (define_ensemble spec im)" e] ok_same_ensembles
    by (metis prod.collapse)
next
  case (Ok g)
  assume ok: "fabric_ok im"
  have "define_ensemble spec im = (fst (define_ensemble spec im), Ok g)" using Ok by (metis prod.collapse)
  then show ?thesis
  proof (cases rule: define_ensemble_Ok)
    case (1 i im1 sp)
    note v = validate_spec_facts[OF 1(4)]
    have g: "g \<noteq> 0" using 1(2) by (auto simp: choose_generation_Ok eq_neg_iff_add_eq_0 split: option.splits)
    show ?thesis using 1 v g
      by (intro fabric_ok_put[OF ok 1(5)])
        (auto simp: ensemble_ok_def commit_ok_def retire_generation_def ensemble_record_init_def Let_def
          execution_default_def[THEN arg_cong[where f = ex_status]] execution_default_def[THEN arg_cong[where f = ex_has_result]]
          execution_default_def[THEN arg_cong[where f = ex_commits]] participant_record_init_def o_def split: option.splits)
  qed
qed

lemma ok_supersede: "fabric_ok im \<Longrightarrow> fabric_ok (fst (supersede_ensemble i g im))"
proof (cases "find_ensemble im i")
  case None
  then show "fabric_ok im \<Longrightarrow> ?thesis" by (simp add: supersede_ensemble_def)
next
  case (Some en)
  assume ok: "fabric_ok im"
  let ?sup = "en\<lparr>en_superseded := True\<rparr>"
  define en' where "en' = (if execution_open ?sup
    then map_execution (\<lambda>ex. ex\<lparr>ex_status := XS_superseded, ex_candidates := supersede_candidates (ex_candidates ex)\<rparr>) ?sup
    else ?sup)"
  have e: "ensemble_ok (im_candidate_ids im) (im_evaluation_ids im) i ?sup"
    using find_ok[OF ok Some] by (auto simp: ensemble_ok_def commit_ok_def Let_def)
  have "moves (en_spec en) (ex_candidates (en_execution en)) (supersede_candidates (ex_candidates (en_execution en)))"
    by (auto simp: supersede_candidates_def candidate_moves_def intro!: moves_map)
  then have "quiet ?sup en'" by (simp add: quiet_def en'_def commit_frame_def map_execution_def)
  then have "ensemble_ok (im_candidate_ids im) (im_evaluation_ids im) i en'"
    using ensemble_ok_status[OF e]
    by (intro ensemble_ok_quiet[OF e]) (auto simp: en'_def map_execution_def execution_open_def)
  with Some ok show ?thesis
    using fabric_ok_put[of im "bump_supersession (put_ensemble i en' im)" i en']
    by (auto simp: supersede_ensemble_def en'_def[symmetric])
qed

lemma ok_open: "fabric_ok im \<Longrightarrow> fabric_ok (fst (open_execution i g im))"
proof (cases "find_ensemble im i")
  case None
  then show "fabric_ok im \<Longrightarrow> ?thesis" by (simp add: open_execution_def)
next
  case (Some en)
  assume ok: "fabric_ok im"
  have e: "ensemble_ok (im_candidate_ids im) (im_evaluation_ids im) i en" using ok Some by (rule find_ok)
  have "ensemble_ok (im_candidate_ids im) (im_evaluation_ids im) i (en\<lparr>en_execution := execution_default\<lparr>ex_id := x,
      ex_attempt_generation := 1, ex_status := XS_open, ex_coordinator_epoch := im_epoch im\<rparr>, en_has_execution := True\<rparr>)" for x
    using e by (simp add: ensemble_ok_def commit_ok_def ids_ok_def attempts_ok_def execution_default_def)
  then show ?thesis using Some ok
    by (auto simp: open_execution_def Let_def intro: fabric_ok_put[OF ok put_ensemble_map])
qed

lemma ok_cancel: "fabric_ok im \<Longrightarrow> fabric_ok (fst (cancel_ensemble i g reason im))"
proof (cases "find_ensemble im i")
  case None
  then show "fabric_ok im \<Longrightarrow> ?thesis" by (simp add: cancel_ensemble_def)
next
  case (Some en)
  assume ok: "fabric_ok im"
  obtain q im1 where n: "next_sequence im = (q, im1)" by (cases "next_sequence im")
  have "ensemble_ok (im_candidate_ids im) (im_evaluation_ids im) i
      (map_execution (\<lambda>ex. ex\<lparr>ex_cancellation_requested := True, ex_cancellation_reason := s,
        ex_cancelled_sequence := q, ex_status := XS_cancelled, ex_committed_sequence := 0\<rparr>) en)"
    if "\<not> ex_has_result (en_execution en)" for s
    using find_ok[OF ok Some] that
    by (simp add: ensemble_ok_def commit_ok_def map_execution_def ids_ok_def attempts_ok_def Let_def)
  then show ?thesis using Some ok next_sequence_pair[OF n]
    by (auto simp: cancel_ensemble_def n intro: fabric_ok_put[OF ok])
qed

lemma set_participant_ids [simp]:
  "map pr_id (en_participants (set_participant p en)) = map pr_id (en_participants en)"
proof -
  have "map pr_id (update_first (\<lambda>q. pr_id q = pr_id p) (\<lambda>_. p) ps) = map pr_id ps" for ps
    by (induction ps) auto
  then show ?thesis by (simp add: set_participant_def)
qed

lemma set_participant_frame [simp]:
  "en_execution (set_participant p en) = en_execution en" "en_spec (set_participant p en) = en_spec en"
  "en_has_execution (set_participant p en) = en_has_execution en"
  "en_superseded (set_participant p en) = en_superseded en" "en_history (set_participant p en) = en_history en"
  by (simp_all add: set_participant_def)

lemma quiet_set_participant: "quiet en (set_participant p en)"
  by (simp add: quiet_def commit_frame_def)

lemma ok_register: "fabric_ok im \<Longrightarrow> fabric_ok (fst (register_participant r im))"
proof (cases "snd (register_participant r im)")
  case (Err e)
  assume "fabric_ok im"
  then show ?thesis using Err register_participant_Err[of r im "fst (register_participant r im)" e] ok_same_ensembles
    by (metis prod.collapse)
next
  case (Ok g)
  assume ok: "fabric_ok im"
  have "register_participant r im = (fst (register_participant r im), Ok g)" using Ok by (metis prod.collapse)
  then show ?thesis
  proof (cases rule: register_participant_Ok)
    case (1 en p)
    then show ?thesis
      by (intro ok_put_quiet[OF ok 1(1), of _ "set_participant (admit_participant r p) en"])
        (simp_all add: quiet_set_participant)
  qed
qed

lemma quiet_candidate_body:
  assumes "candidate_moves (en_spec en) (candidate_at k en) (snd ec)" "quiet en (fst ec)"
    "ex_candidates (en_execution (fst ec)) = ex_candidates (en_execution en)"
  shows "quiet en (store_candidate_at k ec)"
  using assms moves_list_update[of "en_spec en" "ex_candidates (en_execution en)" k "snd ec"]
    commit_frame_trans[OF _ store_candidate_at_frames(1)[of ec k]]
  by (auto simp: quiet_def store_candidate_at_def map_execution_def candidate_at_def)

lemma quiet_fail_rewind:
  "quiet en (fst (fail_candidate e d en c))" "quiet en (fst (rewind_candidate_for_retry en c))"
  "ex_status (en_execution (fst (rewind_candidate_for_retry en c))) = ex_status (en_execution en)"
  "ex_candidates (en_execution (fst (fail_candidate e d en c))) = ex_candidates (en_execution en)"
  "ex_candidates (en_execution (fst (rewind_candidate_for_retry en c))) = ex_candidates (en_execution en)"
  using fail_candidate_frames(1)[of en e d c] rewind_frame[of en c]
  by (auto simp: quiet_def fail_candidate_def rewind_candidate_for_retry_def map_execution_def
      map_participants_with_def supersede_candidate_evidence_def o_def intro!: subseq_map)

lemma failure_step_moves:
  "candidate_moves (en_spec en) c (snd (participant_failure_step p kind detail en c))"
  by (auto simp: participant_failure_step_def candidate_moves_def rewind_candidate_for_retry_def fail_candidate_def
      in_flight_def dest!: retry_authorized_bound)

lemma failure_step_quiet:
  "quiet en (fst (participant_failure_step p kind detail en c))"
  "ex_candidates (en_execution (fst (participant_failure_step p kind detail en c))) = ex_candidates (en_execution en)"
  "ex_status (en_execution (fst (participant_failure_step p kind detail en c))) = ex_status (en_execution en)"
  by (simp_all add: participant_failure_step_def quiet_fail_rewind fail_candidate_status)

lemma handle_failure_quiet:
  "quiet en (handle_participant_failure p kind detail en) \<and>
   ex_status (en_execution (handle_participant_failure p kind detail en)) = ex_status (en_execution en)"
  unfolding handle_participant_failure_def for_each_candidate_def
proof (rule candidate_loop_inv)
  fix e k
  assume "quiet en e \<and> ex_status (en_execution e) = ex_status (en_execution en)"
  then show "quiet en (store_candidate_at k (participant_failure_step p kind detail e (candidate_at k e))) \<and>
    ex_status (en_execution (store_candidate_at k (participant_failure_step p kind detail e (candidate_at k e)))) =
      ex_status (en_execution en)"
    using quiet_candidate_body[OF failure_step_moves[of e "candidate_at k e" p kind detail] failure_step_quiet(1,2)]
    by (auto simp: store_candidate_status failure_step_quiet intro: quiet_trans)
qed simp

end
