(* ===== verification/Fabric_Invariant.thy ===== *)
theory Fabric_Invariant
  imports Fabric_Safety
begin

text \<open>
  The invariant of Fabric_Safety is kept by the remaining operations of the runtime (participant
  failures, invalidation, restart, advance, the submissions, prepare and commit), and therefore
  holds in every reachable state.
\<close>

section \<open>Participant failures, invalidation and restart\<close>

lemma ok_report_failure: "fabric_ok im \<Longrightarrow> fabric_ok (fst (report_participant_failure a kind detail im))"
proof (cases "find_ensemble im (pa_ensemble a)")
  case None
  assume "fabric_ok im"
  then show ?thesis using None
    by (auto simp: report_participant_failure_def intro: ok_same_ensembles split: outcome.splits)
next
  case (Some en)
  assume ok: "fabric_ok im"
  have bump: "fabric_ok (bump_stale im)" using ok by (rule ok_same_ensembles) simp
  have put: "fabric_ok (put_ensemble (pa_ensemble a) en' im)"
    if "quiet en en'" "ex_status (en_execution en') = ex_status (en_execution en) \<or>
      \<not> ex_has_result (en_execution en) \<and> ex_status (en_execution en') \<noteq> XS_committed" for en'
    using ok Some that by (intro ok_put_quiet[OF ok Some, of _ en']) simp_all
  have set_p: "quiet en (set_participant q en)" for q by (rule quiet_set_participant)
  have handled: "quiet en (handle_participant_failure q kind detail (set_participant q en))"
    "ex_status (en_execution (handle_participant_failure q kind detail (set_participant q en))) =
       ex_status (en_execution en)" for q
    using quiet_trans[OF set_p] handle_failure_quiet[of "set_participant q en" q kind detail] by auto
  have failed: "quiet en (map_execution (\<lambda>ex. ex\<lparr>ex_status := XS_failed\<rparr>) e)" if "quiet en e" for e
    using that by (simp add: quiet_def commit_frame_def map_execution_def)
  have status: "ex_status (en_execution (map_execution (\<lambda>ex. ex\<lparr>ex_status := XS_failed\<rparr>) e)) \<noteq> XS_committed" for e
    by (simp add: map_execution_def)
  have open_no_result: "\<not> ex_has_result (en_execution en)" if "execution_open (set_participant q en)" for q
    using that ensemble_ok_status[OF find_ok[OF ok Some]] by (simp add: execution_open_def)
  define st where "st = (if kind = FK_unavailable then PS_unavailable else PS_failed)"
  show ?thesis using Some ok unfolding report_participant_failure_def st_def[symmetric] Let_def
    by (simp add: bump set_p handled failed status open_no_result put split: outcome.splits option.splits)
qed

lemma invalidate_quiet: "quiet en (invalidate_ensemble reason en)"
proof -
  have "moves (en_spec en) cs (map (\<lambda>c. if in_flight c then c\<lparr>cd_state := C_superseded, cd_current := False,
      cd_failure := E_revalidation_required, cd_failure_detail := reason\<rparr> else c) cs)" for cs
    by (rule moves_map) (simp add: candidate_moves_def)
  moreover have "map pr_id (map (invalidate_participant reason) ps) = map pr_id ps" for ps
    by (simp add: invalidate_participant_def)
  ultimately show ?thesis
    using invalidate_frame[of en reason]
    by (simp add: quiet_def invalidate_ensemble_def invalidate_execution_def map_execution_def Let_def o_def)
qed

lemma invalidate_status:
  "ex_status (en_execution (invalidate_ensemble reason en)) = ex_status (en_execution en) \<or>
   execution_open en \<and> ex_status (en_execution (invalidate_ensemble reason en)) \<noteq> XS_committed"
  by (simp add: invalidate_ensemble_def invalidate_execution_def map_execution_def execution_open_def Let_def)

lemma ok_invalidate:
  assumes "fabric_ok im" shows "fabric_ok (fst (invalidate_dynamic_authority reason im))"
proof -
  have ids: "im_candidate_ids (fst (invalidate_dynamic_authority reason im)) = im_candidate_ids im"
    "im_evaluation_ids (fst (invalidate_dynamic_authority reason im)) = im_evaluation_ids im"
    by (simp_all add: invalidate_dynamic_authority_def Let_def)
  have "ensemble_ok (im_candidate_ids im) (im_evaluation_ids im) i (invalidate_ensemble reason en)"
    if "find_ensemble im i = Some en" for i en
    using invalidate_status[of reason en] ensemble_ok_status[OF find_ok[OF assms that]]
    by (intro ensemble_ok_quiet[OF find_ok[OF assms that] invalidate_quiet]) (auto simp: execution_open_def)
  then show ?thesis by (auto simp: fabric_ok_def find_invalidate ids)
qed

lemma ok_restart: "fabric_ok im \<Longrightarrow> fabric_ok (fst (restart reason boot im))"
  using ok_invalidate[of im reason]
  by (auto simp: restart_unfold Let_def fabric_ok_def find_ensemble_def)

lemma ok_next_epoch: "fabric_ok im \<Longrightarrow> fabric_ok (next_epoch boot im)"
  by (simp add: next_epoch_def fabric_ok_def find_ensemble_def)

section \<open>Reports and advance\<close>

lemma moves_same_view:
  "map (\<lambda>c. (cd_id c, cd_attempts_used c, cd_state c)) cs = map (\<lambda>c. (cd_id c, cd_attempts_used c, cd_state c)) cs' \<Longrightarrow>
   moves spec cs cs'"
proof (induction cs arbitrary: cs')
  case (Cons c cs)
  then show ?case by (cases cs') (auto simp: candidate_moves_def)
qed simp

lemma quiet_reports: "quiet en (compute_reports en)"
proof -
  have "moves (en_spec en) (ex_candidates (en_execution en))
      (ex_candidates (compute_reports_execution en (en_execution en)))"
    by (rule moves_same_view, rule strip_reason_transfer) simp_all
  then show ?thesis by (simp add: quiet_def commit_frame_def)
qed

lemma ok_prepare: "fabric_ok im \<Longrightarrow> fabric_ok (fst (prepare_result i g im))"
proof (cases "find_ensemble im i")
  case None
  then show "fabric_ok im \<Longrightarrow> ?thesis" by (simp add: prepare_result_def)
next
  case (Some en)
  assume ok: "fabric_ok im"
  then have "fabric_ok (put_ensemble i (compute_reports en) im)"
    by (intro ok_put_quiet[OF ok Some, of _ "compute_reports en"]) (simp_all add: quiet_reports)
  with Some ok show ?thesis by (simp add: prepare_result_def Let_def)
qed

lemma cancel_loop_moves:
  "cancel_loop cs w = (cs', w') \<Longrightarrow> moves spec cs cs'"
proof (induction cs arbitrary: w cs' w')
  case (Cons c cs)
  obtain c1 w1 where s: "cancel_step c w = (c1, w1)" by (cases "cancel_step c w")
  obtain cs2 w2 where l: "cancel_loop cs w1 = (cs2, w2)" by (cases "cancel_loop cs w1")
  have "candidate_moves spec c c1" using s
    by (auto simp: cancel_step_def candidate_moves_def split: if_splits prod.splits)
  moreover have "moves spec cs cs2" using l by (rule Cons.IH)
  ultimately show ?case using Cons.prems s l by auto
qed simp

lemma emit_cancellation_quiet:
  "quiet (wk_en w) (wk_en (emit_cancellation w)) \<and> ex_status (wk_ex (emit_cancellation w)) = ex_status (wk_ex w) \<and>
   im_ensembles (wk_im (emit_cancellation w)) = im_ensembles (wk_im w) \<and>
   im_candidate_ids (wk_im (emit_cancellation w)) = im_candidate_ids (wk_im w) \<and>
   im_evaluation_ids (wk_im (emit_cancellation w)) = im_evaluation_ids (wk_im w)"
proof (cases "ex_cancellation_emitted (wk_ex w)")
  case True
  then show ?thesis by (simp add: emit_cancellation_def)
next
  case False
  define w1 where "w1 = (wk_map_ex (\<lambda>ex. ex\<lparr>ex_cancellation_emitted := True\<rparr>) w)\<lparr>wk_im := (wk_im w)\<lparr>im_counters :=
    (im_counters (wk_im w))\<lparr>ct_cancellations := ct_cancellations (im_counters (wk_im w)) + 1\<rparr>\<rparr>\<rparr>"
  obtain cs w2 where l: "cancel_loop (ex_candidates (wk_ex w1)) w1 = (cs, w2)"
    by (cases "cancel_loop (ex_candidates (wk_ex w1)) w1")
  have e: "emit_cancellation w = wk_map_ex (\<lambda>ex. ex\<lparr>ex_candidates := cs,
      ex_pending := map (\<lambda>p. p\<lparr>pe_abandoned := True\<rparr>) (ex_pending ex)\<rparr>) w2"
    using False l by (simp add: emit_cancellation_def w1_def Let_def)
  have w1: "ex_candidates (wk_ex w1) = ex_candidates (wk_ex w)" by (simp add: w1_def)
  show ?thesis unfolding e using cancel_loop_frame[OF l] cancel_loop_moves[OF l, of "en_spec (wk_en w)"]
    by (simp add: quiet_def commit_frame_def w1) (simp add: w1_def o_def)
qed

lemma supersede_open_quiet: "quiet en (map_execution supersede_open_execution en)"
  by (auto simp: quiet_def commit_frame_def map_execution_def supersede_open_execution_def candidate_moves_def
      intro!: moves_map)

lemma ok_advance: "fabric_ok im \<Longrightarrow> fabric_ok (fst (advance i g im))"
proof (cases "find_ensemble im i")
  case None
  then show "fabric_ok im \<Longrightarrow> ?thesis" by (simp add: advance_def)
next
  case (Some en)
  assume ok: "fabric_ok im"
  note e = find_ok[OF ok Some]
  let ?w = "\<lparr>wk_im = im, wk_en = en, wk_actions = [], wk_progress = True\<rparr>"
  have quiet_case: "fabric_ok (fst (finish_advance i (w, r)))"
    if "quiet en (wk_en w)" "im_ensembles (wk_im w) = im_ensembles im" "im_candidate_ids (wk_im w) = im_candidate_ids im"
      "im_evaluation_ids (wk_im w) = im_evaluation_ids im"
      "ex_status (wk_ex w) = ex_status (en_execution en) \<or>
       \<not> ex_has_result (en_execution en) \<and> ex_status (wk_ex w) \<noteq> XS_committed" for w r
    using that by (intro ok_put_quiet[OF ok Some, of _ "wk_en w"]) (simp_all add: finish_advance_def)
  have loop: "fabric_ok (fst (finish_advance i (advance_open ?w)))" if "ex_status (en_execution en) = XS_open"
  proof -
    let ?r = "fst (advance_open ?w)"
    have f: "runtime_frame im en ?r" by (rule frame.inv_advance_open) (simp add: runtime_frame_def)
    have a: "fresh_work ?r" by (rule fresh.inv_advance_open) (use e in \<open>simp add: fresh_work_def ensemble_ok_def\<close>)
    have b: "bounded_work ?r" by (rule bounded.inv_advance_open) (use e in \<open>simp add: bounded_work_def ensemble_ok_def\<close>)
    have c: "growing_work (im_candidate_ids im) (im_evaluation_ids im) XS_open ?r"
      by (rule growing.inv_advance_open) (simp add: growing_work_def that)
    have "map pr_id (en_participants (wk_en ?r)) = map pr_id (en_participants en)"
    proof -
      have "map (fst \<circ> authority_of) (en_participants (wk_en ?r)) = map (fst \<circ> authority_of) (en_participants en)"
        using f by (simp add: runtime_frame_def same_authority_def flip: map_map)
      then show ?thesis by (simp add: authority_of_def o_def)
    qed
    then have "ensemble_ok (im_candidate_ids (wk_im ?r)) (im_evaluation_ids (wk_im ?r)) i (wk_en ?r)"
      using e f a b c ensemble_ok_status[OF e that] that
      by (simp add: ensemble_ok_def runtime_frame_def commit_frame_def fresh_work_def bounded_work_def
          growing_work_def commit_ok_def Let_def)
    then show ?thesis using f c
      by (intro fabric_ok_put[OF ok, of _ i "wk_en ?r"])
        (simp_all add: finish_advance_def runtime_frame_def growing_work_def)
  qed
  have cancelled: "fabric_ok (fst (finish_advance i (emit_cancellation ?w, r)))" for r
    using emit_cancellation_quiet[of ?w] by (intro quiet_case) simp_all
  have superseded: "fabric_ok (fst (finish_advance i (wk_map_ex supersede_open_execution ?w, r)))"
    if "ex_status (en_execution en) = XS_open" for r
    using supersede_open_quiet[of en] ensemble_ok_status[OF e that]
    by (intro quiet_case) (simp_all add: wk_map_ex_def map_execution_def supersede_open_execution_def)
  show ?thesis using Some ok cancelled superseded loop by (simp add: advance_def Let_def)
qed

section \<open>Submissions\<close>

lemma quiet_store_candidate:
  assumes "find_candidate (en_execution en) (cd_id c') = Some c" "candidate_moves (en_spec en) c c'"
  shows "quiet en (map_execution (set_candidate c') en)"
  using assms moves_update_first[of "\<lambda>d. cd_id d = cd_id c'" "ex_candidates (en_execution en)" c "en_spec en" c']
  by (simp add: quiet_def commit_frame_def map_execution_def set_candidate_def find_candidate_def)

lemma set_candidate_status [simp]: "ex_status (set_candidate c ex) = ex_status ex"
  by (simp add: set_candidate_def)

lemma ok_store_candidate_participant:
  assumes "fabric_ok im" "find_ensemble im i = Some en" "im_ensembles im' = im_ensembles im"
    "im_candidate_ids im' = im_candidate_ids im" "im_evaluation_ids im' = im_evaluation_ids im"
    "find_candidate (en_execution en) (cd_id c') = Some c" "candidate_moves (en_spec en) c c'"
  shows "fabric_ok (store_candidate_participant i c' p en im')"
proof -
  have "quiet en (set_participant p (map_execution (set_candidate c') en))"
    using quiet_store_candidate[OF assms(6,7)] quiet_set_participant by (rule quiet_trans)
  then show ?thesis using assms(3-5)
    by (intro ok_put_quiet[OF assms(1,2), of _ "set_participant p (map_execution (set_candidate c') en)"])
      (simp_all add: store_candidate_participant_def map_execution_def)
qed

lemma located_candidate:
  "located_by a im l \<Longrightarrow> find_candidate (en_execution (lo_ensemble l)) (cd_id (lo_candidate l)) = Some (lo_candidate l)"
  using find_candidateD by (auto simp: located_by_def)

lemma ok_reject: "fabric_ok im \<Longrightarrow> fabric_ok (fst (reject_submission c im))"
  by (rule ok_same_ensembles[OF _ reject_submission_frame])

lemma ok_submit_candidate: "fabric_ok im \<Longrightarrow> fabric_ok (fst (submit_candidate cs im))"
proof (cases "locate_candidate (cs_authority cs) im")
  case (Pair im1 r)
  assume ok: "fabric_ok im"
  show ?thesis
  proof (cases r)
    case (Err e)
    then show ?thesis using Pair ok_same_ensembles[OF ok locate_candidate_frame[OF Pair]]
      by (simp add: submit_candidate_def)
  next
    case (Ok l)
    then have l: "im1 = im" "located_by (cs_authority cs) im l" using Pair locate_candidate_Ok by auto
    obtain s im2 where n: "next_sequence im = (s, im2)" by (cases "next_sequence im")
    note store = ok_store_candidate_participant[OF ok, where c = "lo_candidate l"]
    show ?thesis using l Pair Ok next_sequence_pair[OF n] located_candidate[OF l(2)] ok ok_reject[OF ok]
      by (auto simp: submit_candidate_def n Let_def located_by_def candidate_moves_def intro!: store)
  qed
qed

lemma ok_submit_abstention: "fabric_ok im \<Longrightarrow> fabric_ok (fst (submit_candidate_abstention as im))"
proof (cases "locate_candidate (as_authority as) im")
  case (Pair im1 r)
  assume ok: "fabric_ok im"
  show ?thesis
  proof (cases r)
    case (Err e)
    then show ?thesis using Pair ok_same_ensembles[OF ok locate_candidate_frame[OF Pair]]
      by (simp add: submit_candidate_abstention_def)
  next
    case (Ok l)
    then have l: "im1 = im" "located_by (as_authority as) im l" using Pair locate_candidate_Ok by auto
    obtain s im2 where n: "next_sequence im = (s, im2)" by (cases "next_sequence im")
    note store = ok_store_candidate_participant[OF ok, where c = "lo_candidate l"]
    show ?thesis using l Pair Ok next_sequence_pair[OF n] located_candidate[OF l(2)] ok ok_reject[OF ok]
      by (auto simp: submit_candidate_abstention_def n Let_def located_by_def candidate_moves_def intro!: store)
  qed
qed


lemma ok_submit_failure: "fabric_ok im \<Longrightarrow> fabric_ok (fst (submit_candidate_failure fs im))"
proof (cases "locate_candidate (fs_authority fs) im")
  case (Pair im1 r)
  assume ok: "fabric_ok im"
  show ?thesis
  proof (cases r)
    case (Err e)
    then show ?thesis using Pair ok_same_ensembles[OF ok locate_candidate_frame[OF Pair]]
      by (simp add: submit_candidate_failure_def)
  next
    case (Ok l)
    let ?i = "pa_ensemble (ca_participant (fs_authority fs))" and ?en = "lo_ensemble l" and ?c = "lo_candidate l"
    have l: "im1 = im" "located_by (fs_authority fs) im l" using Pair Ok locate_candidate_Ok by auto
    then have en: "find_ensemble im ?i = Some ?en" by (simp add: located_by_def)
    have put: "fabric_ok (put_ensemble ?i (map_execution (set_candidate (snd ec)) (fst ec)) im)"
      if "quiet ?en (fst ec)" "ex_candidates (en_execution (fst ec)) = ex_candidates (en_execution ?en)"
        "candidate_moves (en_spec ?en) ?c (snd ec)" "ex_status (en_execution (fst ec)) = ex_status (en_execution ?en)" for ec
    proof -
      have spec: "en_spec (fst ec) = en_spec ?en" using that(1) by (simp add: quiet_def commit_frame_def)
      have "quiet (fst ec) (map_execution (set_candidate (snd ec)) (fst ec))"
        using located_candidate[OF l(2)] that(2,3) spec
        by (intro quiet_store_candidate[where c = ?c]) (simp_all add: find_candidate_def candidate_moves_def)
      then have "quiet ?en (map_execution (set_candidate (snd ec)) (fst ec))" using that(1) quiet_trans by blast
      then show ?thesis using that(4)
        by (intro ok_put_quiet[OF ok en, of _ "map_execution (set_candidate (snd ec)) (fst ec)"])
          (simp_all add: map_execution_def)
    qed
    have rewound: "fabric_ok (put_ensemble ?i (map_execution (set_candidate (snd (rewind_candidate_for_retry ?en ?c)))
        (fst (rewind_candidate_for_retry ?en ?c))) im)" if "retry_authorized (en_spec ?en) ?c e" for e
      using retry_authorized_bound[OF that] quiet_fail_rewind
      by (intro put) (simp_all add: candidate_moves_def rewind_candidate_for_retry_def)
    have failed: "fabric_ok (put_ensemble ?i (map_execution (set_candidate (snd (fail_candidate e d ?en ?c)))
        (fst (fail_candidate e d ?en ?c))) im)" for e d
      by (intro put quiet_fail_rewind fail_candidate_status) (simp add: candidate_moves_def fail_candidate_def)
    show ?thesis using l Pair Ok ok ok_reject[OF ok] rewound failed
      by (simp add: submit_candidate_failure_def Let_def split_beta)
  qed
qed

lemma set_pending_ids [simp]: "map pe_id (ex_pending (set_pending q ex)) = map pe_id (ex_pending ex)"
proof -
  have "map pe_id (update_first (\<lambda>x. pe_id x = pe_id q) (\<lambda>_. q) xs) = map pe_id xs" for xs
    by (induction xs) auto
  then show ?thesis by (simp add: set_pending_def)
qed

lemma set_candidate_frame [simp]:
  "ex_pending (set_candidate c ex) = ex_pending ex" "ex_candidates (set_pending q ex) = ex_candidates ex"
  "ex_status (set_pending q ex) = ex_status ex"
  by (simp_all add: set_candidate_def set_pending_def)

lemma quiet_refresh:
  assumes "find_candidate (en_execution en) (cd_id c) = Some c"
  shows "quiet en (map_execution (\<lambda>ex. refresh_summary c (set_pending q (ex\<lparr>ex_evaluations := es\<rparr>))) en)"
proof -
  have "moves (en_spec en) (ex_candidates (en_execution en))
      (ex_candidates (refresh_summary c (set_pending q ((en_execution en)\<lparr>ex_evaluations := es\<rparr>))))"
    using assms unfolding find_candidate_def refresh_summary_def Let_def
    by (simp add: set_candidate_def candidate_moves_def moves_update_first)
  then show ?thesis
    by (simp add: quiet_def map_execution_def commit_frame_def refresh_summary_def Let_def)
      (simp add: set_candidate_def set_pending_def)
qed

lemma ok_submit_evaluation: "fabric_ok im \<Longrightarrow> fabric_ok (fst (submit_evaluation es im))"
  using submit_evaluation_cases[of im es]
proof (elim disjE exE conjE)
  fix en p c q
  assume ok: "fabric_ok im" and f: "find_ensemble im (pa_ensemble (ea_evaluator (es_authority es))) = Some en"
    "find_candidate (en_execution en) (ea_candidate (es_authority es)) = Some c"
    and s: "submit_evaluation es im = admit_evaluation es en p c q im"
  obtain n im1 where n: "next_sequence im = (n, im1)" by (cases "next_sequence im")
  let ?en = "map_execution (\<lambda>ex. refresh_summary c (set_pending (q\<lparr>pe_answered := True\<rparr>) (ex\<lparr>ex_evaluations :=
      ex_evaluations ex @ [evaluation_record es q p (im_limits im1) (im_epoch im1) n]\<rparr>))) en"
  let ?p = "p\<lparr>pr_evaluations_submitted := pr_evaluations_submitted p + 1\<rparr>"
  have "find_candidate (en_execution en) (cd_id c) = Some c" using f(2) find_candidateD by fastforce
  then have "quiet en ?en"
    using quiet_refresh[of en c "q\<lparr>pe_answered := True\<rparr>" "ex_evaluations (en_execution en) @
      [evaluation_record es q p (im_limits im1) (im_epoch im1) n]"] by (simp add: map_execution_def)
  then have "quiet en (set_participant ?p ?en)" using quiet_set_participant quiet_trans by blast
  then have "fabric_ok (record_evaluation es q c p en im)" using next_sequence_pair[OF n]
    by (intro ok_put_quiet[OF ok f(1), of _ "set_participant ?p ?en"])
      (simp_all add: record_evaluation_def n Let_def map_execution_def refresh_summary_def)
  then show ?thesis using admit_evaluation_cases[of es en p c q im] ok_same_ensembles[OF ok] s by auto
qed (rule ok_same_ensembles)

section \<open>Commit\<close>

lemma commit_result_ids:
  "im_candidate_ids (fst (commit_result r im)) = im_candidate_ids im \<and>
   im_evaluation_ids (fst (commit_result r im)) = im_evaluation_ids im"
proof -
  have n: "im_candidate_ids im2 = im_candidate_ids im1 \<and> im_evaluation_ids im2 = im_evaluation_ids im1"
    if "next_sequence im1 = (q, im2)" for q im1 im2 using next_sequence_pair[OF that] by simp
  show ?thesis
    by (auto simp: commit_result_def Let_def dest!: n split: option.splits outcome.splits prod.splits)
qed

lemma publish_ok:
  assumes "ensemble_ok n m i en" "publish_commit l r en = (en', v)" "\<not> ex_has_result (en_execution en)"
    "rs_ensemble_generation r = sp_generation (en_spec en)" "rs_execution r = ex_id (en_execution en)"
  shows "ensemble_ok n m i en'"
proof -
  have ex: "ex_commits (en_execution en) = []" using assms(1,3) by (simp add: ensemble_ok_def commit_ok_def Let_def)
  have m: "moves (en_spec en) (ex_candidates (en_execution en)) (ex_candidates (en_execution en'))"
    using assms(2) by (auto simp: publish_commit_def store_commit_def map_execution_def Let_def settle_candidate_def
        candidate_moves_def intro!: moves_map split: if_splits)
  have f: "en_spec en' = en_spec en" "en_participants en' = en_participants en"
    "ex_pending (en_execution en') = ex_pending (en_execution en)" "ex_id (en_execution en') = ex_id (en_execution en)"
    using assms(2) by (auto simp: publish_commit_def store_commit_def map_execution_def Let_def split: if_splits)
  have r: "ex_has_result (en_execution en')" "ex_result (en_execution en') = v" "rs_decision v = rs_decision r"
    "rs_execution v = rs_execution r" "rs_ensemble_generation v = rs_ensemble_generation r"
    "ex_status (en_execution en') = status_for (rs_decision r)" "length (ex_commits (en_execution en')) \<le> 1"
    using assms(2) ex
    by (auto simp: publish_commit_def store_commit_def map_execution_def Let_def retain_last_def split: if_splits)
  have "ids_ok n m (en_execution en')" using assms(1)
    by (intro ids_ok_subseq[of n m, OF _ moves_ids[OF m]]) (simp_all add: ensemble_ok_def f)
  moreover have "attempts_ok (en_spec en) (en_execution en')"
    using assms(1) moves_attempts[OF m] by (simp add: ensemble_ok_def)
  moreover have "commit_ok en'" using r assms(4,5) f by (simp add: commit_ok_def)
  ultimately show ?thesis using assms(1) f by (simp add: ensemble_ok_def)
qed

lemma quiet_count: "quiet en (count_commit_attempt en)"
  by (simp add: quiet_def count_attempt_frame)

lemma ok_commit: "fabric_ok im \<Longrightarrow> fabric_ok (fst (commit_result r im))"
proof -
  assume ok: "fabric_ok im"
  obtain im' out where c: "commit_result r im = (im', out)" by (cases "commit_result r im")
  have ids: "im_candidate_ids im' = im_candidate_ids im" "im_evaluation_ids im' = im_evaluation_ids im"
    using commit_result_ids[of r im] c by simp_all
  have "fabric_ok im'" using c
  proof (cases rule: commit_result_cases)
    case rejected
    then show ?thesis using ok ids by (intro fabric_ok_same[OF ok]) simp_all
  next
    case (counted en)
    show ?thesis using ok counted(1,3) ids quiet_count by (rule ok_put_quiet) simp
  next
    case (accepted en en1 en' v x s)
    have "ensemble_ok (im_candidate_ids im) (im_evaluation_ids im) (rs_ensemble r) en1"
      unfolding accepted(7) by (rule ensemble_ok_quiet[OF find_ok[OF ok accepted(1)] quiet_count]) simp_all
    then have "ensemble_ok (im_candidate_ids im) (im_evaluation_ids im) (rs_ensemble r) en'"
      using accepted(3,5,6,7) by (intro publish_ok[OF _ accepted(8)]) (simp_all add: validate_result_iff)
    then show ?thesis using ids accepted(10) by (intro fabric_ok_put[OF ok accepted(10)]) simp_all
  qed
  then show ?thesis by (simp add: c)
qed

section \<open>Reachable states\<close>

lemma fabric_init_ok: "fabric_ok (fabric_init config)"
  by (simp add: fabric_ok_def find_ensemble_def fabric_init_def)

lemmas ok_operations = ok_define ok_supersede ok_open ok_cancel ok_register ok_report_failure ok_invalidate ok_restart
  ok_next_epoch ok_advance ok_submit_candidate ok_submit_failure ok_submit_abstention ok_submit_evaluation ok_prepare ok_commit

lemma fabric_step_ok: "fabric_step im im' \<Longrightarrow> fabric_ok im \<Longrightarrow> fabric_ok im'"
  by (induction rule: fabric_step.induct) (blast intro: ok_operations)+

lemma run_ok: "rtranclp fabric_step im im' \<Longrightarrow> fabric_ok im \<Longrightarrow> fabric_ok im'"
  by (induction rule: rtranclp_induct) (auto intro: fabric_step_ok)

lemma reachable_ok: "reachable config im \<Longrightarrow> fabric_ok im"
  unfolding reachable_def using run_ok fabric_init_ok by blast

end
