(* ===== verification/Sample_Run.thy ===== *)
theory Sample_Run
  imports Fabric_Invariant
begin

text \<open>
  A small concrete ensemble and its first states, on which the properties of the runtime are
  instantiated: one candidate participant, no policy beyond the defaults.
\<close>

definition sample_spec :: EnsembleSpec where
  "sample_spec = spec_default\<lparr>sp_id := 7, sp_label := ''sample'',
     sp_participants := [participant_spec_default\<lparr>ps_id := 1, ps_roles := roles_of R_candidate\<rparr>]\<rparr>"

definition sample_registration :: ParticipantRegistration where
  "sample_registration = \<lparr>rg_ensemble = 7, rg_ensemble_generation = 1, rg_participant = 1, rg_worker = 11,
     rg_worker_boot = 21, rg_coordinator_epoch = 1, rg_profile = profile_default,
     rg_claimed_roles = roles_of R_candidate\<rparr>"

definition sample_authority :: CandidateAuthority where
  "sample_authority = \<lparr>ca_participant = \<lparr>pa_ensemble = 7, pa_ensemble_generation = 1, pa_participant = 1,
     pa_participant_generation = 1, pa_worker = 11, pa_worker_boot = 21, pa_coordinator_epoch = 1\<rparr>,
     ca_execution = 1, ca_attempt_generation = 1, ca_candidate = 1, ca_candidate_generation = 1\<rparr>"

definition sample_result :: EnsembleResult where
  "sample_result = result_default\<lparr>rs_ensemble := 7, rs_ensemble_generation := 1, rs_execution := 1,
     rs_attempt_generation := 1, rs_coordinator_epoch := 1, rs_decision := D_committed,
     rs_has_selected := True, rs_selected_candidate := 1\<rparr>"

definition sample_defined :: Impl where
  "sample_defined = fst (define_ensemble sample_spec (fabric_init config_default))"

definition sample_registered :: Impl where
  "sample_registered = fst (register_participant sample_registration sample_defined)"

definition sample_open :: Impl where
  "sample_open = fst (open_execution 7 1 sample_registered)"

definition sample_dispatched :: Impl where
  "sample_dispatched = fst (advance 7 1 sample_open)"

definition sample_cancelled :: Impl where
  "sample_cancelled = fst (cancel_ensemble 7 1 ''operator'' sample_dispatched)"

definition sample_committed :: Impl where
  "sample_committed = fst (commit_result sample_result sample_dispatched)"

lemma sample_reachable:
  "reachable config_default sample_defined" "reachable config_default sample_registered"
  "reachable config_default sample_open" "reachable config_default sample_dispatched"
  "reachable config_default sample_cancelled" "reachable config_default sample_committed"
proof -
  have next_step: "reachable config_default im'" if "reachable config_default im" "fabric_step im im'" for im im'
    using that unfolding reachable_def by (rule rtranclp.rtrancl_into_rtrancl)
  have "reachable config_default (fabric_init config_default)" by (simp add: reachable_def)
  then show d: "reachable config_default sample_defined"
    unfolding sample_defined_def by (rule next_step) (rule step_define)
  then show r: "reachable config_default sample_registered"
    unfolding sample_registered_def by (rule next_step) (rule step_register)
  then show o': "reachable config_default sample_open"
    unfolding sample_open_def by (rule next_step) (rule step_open)
  then show a: "reachable config_default sample_dispatched"
    unfolding sample_dispatched_def by (rule next_step) (rule step_advance)
  show "reachable config_default sample_cancelled"
    unfolding sample_cancelled_def using a by (rule next_step) (rule step_cancel)
  show "reachable config_default sample_committed"
    unfolding sample_committed_def using a by (rule next_step) (rule step_commit)
qed

text \<open>The records of the sample runtime, evaluated.\<close>

definition is_sample_dispatched :: "Impl \<Rightarrow> bool" where
  "is_sample_dispatched im \<longleftrightarrow> (case find_ensemble im 7 of None \<Rightarrow> False | Some en \<Rightarrow>
     im_epoch im = 1 \<and> sp_generation (en_spec en) = 1 \<and> en_has_execution en \<and> \<not> en_superseded en \<and>
     ex_id (en_execution en) = 1 \<and> ex_attempt_generation (en_execution en) = 1 \<and>
     ex_status (en_execution en) = XS_open \<and> \<not> ex_has_result (en_execution en) \<and>
     \<not> ex_cancellation_requested (en_execution en) \<and>
     map (\<lambda>c. (cd_id c, cd_generation c, cd_participant c, cd_state c, cd_attempts_used c))
       (ex_candidates (en_execution en)) = [(1, 1, 1, C_dispatched, 1)] \<and>
     map (\<lambda>p. (pr_id p, pr_generation p, pr_worker p, pr_worker_boot p, pr_coordinator_epoch p, pr_registered p,
       pr_status p)) (en_participants en) = [(1, 1, 11, 21, 1, True, PS_current)])"

definition is_sample_committed :: "Impl \<times> EnsembleResult outcome \<Rightarrow> bool" where
  "is_sample_committed = (\<lambda>(im, out). is_ok out \<and> (case find_ensemble im 7 of None \<Rightarrow> False | Some en \<Rightarrow>
     im_epoch im = 1 \<and> sp_generation (en_spec en) = 1 \<and> en_has_execution en \<and> \<not> en_superseded en \<and>
     ex_id (en_execution en) = 1 \<and> ex_has_result (en_execution en) \<and>
     rs_decision (ex_result (en_execution en)) = D_committed \<and> ex_status (en_execution en) = XS_committed))"

lemma sample_dispatched_evaluates: "is_sample_dispatched sample_dispatched"
  by code_simp

lemma sample_committed_evaluates: "is_sample_committed (commit_result sample_result sample_dispatched)"
  by code_simp

lemma sample_dispatched_record:
  obtains en c p where "find_ensemble sample_dispatched 7 = Some en" "im_epoch sample_dispatched = 1"
    "sp_generation (en_spec en) = 1" "en_has_execution en" "\<not> en_superseded en" "ex_id (en_execution en) = 1"
    "ex_attempt_generation (en_execution en) = 1" "ex_status (en_execution en) = XS_open"
    "\<not> ex_has_result (en_execution en)" "\<not> ex_cancellation_requested (en_execution en)"
    "ex_candidates (en_execution en) = [c]" "cd_id c = 1" "cd_generation c = 1" "cd_participant c = 1"
    "cd_state c = C_dispatched" "cd_attempts_used c = 1"
    "en_participants en = [p]" "pr_id p = 1" "pr_generation p = 1" "pr_worker p = 11" "pr_worker_boot p = 21"
    "pr_coordinator_epoch p = 1" "pr_registered p" "pr_status p = PS_current"
  using sample_dispatched_evaluates that by (auto simp: is_sample_dispatched_def map_eq_Cons_conv split: option.splits)

lemma sample_committed_record:
  obtains en where "find_ensemble sample_committed 7 = Some en" "im_epoch sample_committed = 1"
    "sp_generation (en_spec en) = 1" "en_has_execution en" "\<not> en_superseded en" "ex_id (en_execution en) = 1"
    "ex_has_result (en_execution en)" "rs_decision (ex_result (en_execution en)) = D_committed"
    "ex_status (en_execution en) = XS_committed"
    "commit_result sample_result sample_dispatched = (sample_committed, Ok (ex_result (en_execution en)))"
proof -
  obtain im out where c: "commit_result sample_result sample_dispatched = (im, out)"
    by (cases "commit_result sample_result sample_dispatched")
  have im: "sample_committed = im" by (simp add: sample_committed_def c)
  obtain v where v: "out = Ok v" using sample_committed_evaluates c by (cases out) (simp_all add: is_sample_committed_def)
  obtain en where en: "find_ensemble sample_committed 7 = Some en" "im_epoch sample_committed = 1"
    "sp_generation (en_spec en) = 1" "en_has_execution en" "\<not> en_superseded en" "ex_id (en_execution en) = 1"
    "ex_has_result (en_execution en)" "rs_decision (ex_result (en_execution en)) = D_committed"
    "ex_status (en_execution en) = XS_committed"
    using sample_committed_evaluates by (auto simp: is_sample_committed_def c im split: option.splits)
  have r: "rs_ensemble sample_result = 7" by (simp add: sample_result_def)
  have "ex_result (en_execution en) = v"
    using c[unfolded v]
  proof (cases rule: commit_result_cases)
    case (counted en0)
    then show ?thesis using en r by (auto simp: im find_ensemble_def)
  next
    case (accepted en0 en1 en' v' x s)
    then have "en' = en" using en r by (simp add: im find_ensemble_def)
    with accepted(8,9) show ?thesis
      by (auto simp: publish_commit_def store_commit_def map_execution_def Let_def split: if_splits)
  qed simp
  with en c v im that show thesis by blast
qed

lemma sample_cancelled_record:
  obtains en where "find_ensemble sample_cancelled 7 = Some en" "im_epoch sample_cancelled = 1"
    "sp_generation (en_spec en) = 1" "en_has_execution en" "\<not> ex_has_result (en_execution en)"
    "ex_cancellation_requested (en_execution en)" "ex_id (en_execution en) = 1"
proof (rule sample_dispatched_record)
  fix en
  assume en: "find_ensemble sample_dispatched 7 = Some en" "im_epoch sample_dispatched = 1"
    "sp_generation (en_spec en) = 1" "en_has_execution en" "\<not> ex_has_result (en_execution en)"
    "ex_status (en_execution en) = XS_open" "ex_id (en_execution en) = 1"
  obtain s im where n: "next_sequence sample_dispatched = (s, im)" by (cases "next_sequence sample_dispatched")
  show thesis
    using en next_sequence_pair[OF n] that
    by (simp add: sample_cancelled_def cancel_ensemble_def n map_execution_def)
qed

end
