(* ===== verification/Codec.thy ===== *)
theory Codec
  imports Limits Doubles Hashing
begin

text \<open>
  The bounded binary encoder and decoder (\<^verbatim>\<open>include/ensemble_fabric/persistence.hpp\<close>,
  \<^verbatim>\<open>src/persistence.cpp\<close>) that the wire protocol and the state files share: little-endian
  integers, flags, doubles by their bit pattern, and byte strings behind a 32-bit length.
  The calls an \<^verbatim>\<open>encode\<close> function makes on its encoder are a list of \<open>Field\<close> values, so that
  the bytes it appends can be named without running it. The contract of one encoder and
  decoder pair is the locale \<open>wire_codec\<close>.
\<close>

unbundle bit_operations_syntax

section \<open>Little-endian integers\<close>

definition store_le :: "nat \<Rightarrow> 'w::len word \<Rightarrow> bytes" where
  "store_le n v = map (\<lambda>index. ucast (drop_bit (8 * index) v AND 0xFF)) [0..<n]"

definition load_le :: "nat \<Rightarrow> bytes \<Rightarrow> 'w::len word" where
  "load_le n inp = fold (\<lambda>index v. v OR push_bit (8 * index) (ucast (inp ! index))) [0..<n] 0"

definition store_u16 :: "u16 \<Rightarrow> bytes" where "store_u16 v = store_le 2 v"
definition store_u32 :: "u32 \<Rightarrow> bytes" where "store_u32 v = store_le 4 v"
definition store_u64 :: "u64 \<Rightarrow> bytes" where "store_u64 v = store_le 8 v"

definition load_u16 :: "bytes \<Rightarrow> u16" where "load_u16 inp = load_le 2 inp"
definition load_u32 :: "bytes \<Rightarrow> u32" where "load_u32 inp = load_le 4 inp"
definition load_u64 :: "bytes \<Rightarrow> u64" where "load_u64 inp = load_le 8 inp"

text \<open>Storing bytes at an offset of a buffer.\<close>

definition store_at :: "nat \<Rightarrow> bytes \<Rightarrow> bytes \<Rightarrow> bytes" where
  "store_at offset bs out = take offset out @ bs @ drop (offset + length bs) out"

lemma length_store [simp]:
  "length (store_le n v) = n" "length (store_u16 a) = 2" "length (store_u32 b) = 4"
  "length (store_u64 c) = 8"
  by (simp_all add: store_le_def store_u16_def store_u32_def store_u64_def)

lemma byte_mask: "(ucast (v AND 0xFF :: 'w::len word) :: u8) = ucast v"
proof (rule bit_word_eqI)
  fix k assume k: "k < LENGTH(8)"
  have m: "(0xFF :: 'w word) = mask 8" by (simp add: mask_eq_exp_minus_1)
  show "bit (ucast (v AND 0xFF) :: u8) k \<longleftrightarrow> bit (ucast v :: u8) k"
    unfolding m bit_ucast_iff bit_and_iff bit_mask_iff using k by (auto dest: bit_imp_le_length)
qed

lemma bit_load_le:
  "bit (load_le n inp :: 'w::len word) k \<longleftrightarrow>
     k < LENGTH('w) \<and> (\<exists>index < n. 8 * index \<le> k \<and> bit (inp ! index) (k - 8 * index))"
proof (induction n)
  case (Suc n)
  have "load_le (Suc n) inp = (load_le n inp OR push_bit (8 * n) (ucast (inp ! n)) :: 'w word)"
    by (simp add: load_le_def)
  then show ?case
    by (auto simp: Suc.IH bit_or_iff bit_push_bit_iff bit_ucast_iff less_Suc_eq dest: bit_imp_le_length)
qed (simp add: load_le_def)

lemma load_store_le:
  assumes "LENGTH('w) \<le> 8 * n"
  shows "load_le n (store_le n v @ rest) = (v :: 'w::len word)"
proof (rule bit_word_eqI)
  fix k assume k: "k < LENGTH('w)"
  have "(\<exists>i < n. 8 * i \<le> k \<and> bit ((store_le n v @ rest) ! i) (k - 8 * i)) \<longleftrightarrow> bit v k"
  proof -
    have "\<And>i. i < n \<Longrightarrow> (store_le n v @ rest) ! i = ucast (drop_bit (8 * i) v)"
      by (simp add: store_le_def nth_append byte_mask)
    then have "(\<exists>i < n. 8 * i \<le> k \<and> bit ((store_le n v @ rest) ! i) (k - 8 * i)) \<longleftrightarrow>
        (\<exists>i < n. 8 * i \<le> k \<and> k - 8 * i < 8 \<and> bit v k)"
      by (auto simp: bit_ucast_iff bit_drop_bit_eq)
    also have "\<dots> \<longleftrightarrow> bit v k"
    proof
      assume "bit v k"
      moreover have "k div 8 < n" using k assms by (simp add: div_less_iff_less_mult)
      moreover have "k - 8 * (k div 8) < 8" by (simp add: minus_mult_div_eq_mod)
      ultimately show "\<exists>i < n. 8 * i \<le> k \<and> k - 8 * i < 8 \<and> bit v k" by (intro exI[of _ "k div 8"]) simp
    qed auto
    finally show ?thesis .
  qed
  with k show "bit (load_le n (store_le n v @ rest) :: 'w word) k \<longleftrightarrow> bit v k" by (simp add: bit_load_le)
qed

lemma store_load_le:
  assumes "length inp = n" and "8 * n \<le> LENGTH('w)"
  shows "store_le n (load_le n inp :: 'w::len word) = inp"
proof (rule nth_equalityI)
  show "length (store_le n (load_le n inp :: 'w word)) = length inp" using assms by simp
  fix i assume "i < length (store_le n (load_le n inp :: 'w word))"
  then have i: "i < n" by simp
  show "store_le n (load_le n inp :: 'w word) ! i = inp ! i"
  proof (rule bit_word_eqI)
    fix k assume k: "k < LENGTH(8)"
    have "(\<exists>j < n. 8 * j \<le> k + 8 * i \<and> bit (inp ! j) (k + 8 * i - 8 * j)) \<longleftrightarrow> bit (inp ! i) k"
    proof
      assume "\<exists>j < n. 8 * j \<le> k + 8 * i \<and> bit (inp ! j) (k + 8 * i - 8 * j)"
      then obtain j where j: "8 * j \<le> k + 8 * i" "bit (inp ! j) (k + 8 * i - 8 * j)" by blast
      then have "k + 8 * i - 8 * j < 8" by (auto dest: bit_imp_le_length)
      with k j(1) have "j = i" by simp
      with j show "bit (inp ! i) k" by simp
    qed (use i in \<open>auto intro!: exI[of _ i]\<close>)
    with i k assms(2) show "bit (store_le n (load_le n inp :: 'w word) ! i) k \<longleftrightarrow> bit (inp ! i) k"
      by (simp add: store_le_def byte_mask bit_ucast_iff bit_drop_bit_eq bit_load_le add.commute)
  qed
qed

lemma load_store [simp]:
  "load_u16 (store_u16 a @ rest) = a" "load_u32 (store_u32 b @ rest) = b" "load_u64 (store_u64 c @ rest) = c"
  by (simp_all add: load_u16_def store_u16_def load_u32_def store_u32_def load_u64_def store_u64_def
      load_store_le)

lemma load_store_exact [simp]:
  "load_u16 (store_u16 a) = a" "load_u32 (store_u32 b) = b" "load_u64 (store_u64 c) = c"
  using load_store[where rest = "[]"] by simp_all

lemma store_load:
  "length x = 2 \<Longrightarrow> store_u16 (load_u16 x) = x" "length y = 4 \<Longrightarrow> store_u32 (load_u32 y) = y"
  "length z = 8 \<Longrightarrow> store_u64 (load_u64 z) = z"
  by (simp_all add: load_u16_def store_u16_def load_u32_def store_u32_def load_u64_def store_u64_def
      store_load_le)

lemma load_le_take: "n \<le> m \<Longrightarrow> load_le n (take m inp) = load_le n inp"
  unfolding load_le_def by (rule fold_cong) simp_all

section \<open>The encoder\<close>

record Encoder =
  enc_limits :: Limits
  enc_buffer :: bytes

definition new_encoder :: "Limits \<Rightarrow> Encoder" where
  "new_encoder l = \<lparr>enc_limits = l, enc_buffer = []\<rparr>"

definition resize_buffer :: "nat \<Rightarrow> bytes \<Rightarrow> bytes" where
  "resize_buffer n buf = take n buf @ replicate (n - length buf) 0"

definition require_capacity :: "nat \<Rightarrow> Encoder \<Rightarrow> Encoder" where
  "require_capacity additional e =
     (let cap = unat (max_persistence_bytes (enc_limits e))
      in if cap < additional \<or> cap - additional < length (enc_buffer e)
         then e\<lparr>enc_buffer := resize_buffer cap (enc_buffer e)\<rparr> else e)"

definition put_raw :: "bytes \<Rightarrow> Encoder \<Rightarrow> Encoder" where
  "put_raw v e = (let e' = require_capacity (length v) e in e'\<lparr>enc_buffer := enc_buffer e' @ v\<rparr>)"

definition put_u8 :: "u8 \<Rightarrow> Encoder \<Rightarrow> Encoder" where
  "put_u8 v e = e\<lparr>enc_buffer := enc_buffer e @ [v]\<rparr>"

definition put_u16 :: "u16 \<Rightarrow> Encoder \<Rightarrow> Encoder" where "put_u16 v = put_raw (store_u16 v)"
definition put_u32 :: "u32 \<Rightarrow> Encoder \<Rightarrow> Encoder" where "put_u32 v = put_raw (store_u32 v)"
definition put_u64 :: "u64 \<Rightarrow> Encoder \<Rightarrow> Encoder" where "put_u64 v = put_raw (store_u64 v)"

definition bool_byte :: "bool \<Rightarrow> u8" where
  "bool_byte v = (if v then 1 else 0)"

definition put_i64 :: "int \<Rightarrow> Encoder \<Rightarrow> Encoder" where "put_i64 v = put_u64 (word_of_int v)"

definition put_boolean :: "bool \<Rightarrow> Encoder \<Rightarrow> Encoder" where
  "put_boolean v = put_u8 (bool_byte v)"

definition put_f64 :: "double \<Rightarrow> Encoder \<Rightarrow> Encoder" where "put_f64 v = put_u64 v"

definition put_bytes :: "bytes \<Rightarrow> Encoder \<Rightarrow> Encoder" where
  "put_bytes v e = put_raw v (put_u32 (size32 v) e)"

definition put_string :: "string \<Rightarrow> Encoder \<Rightarrow> Encoder" where
  "put_string v e = put_raw (map byte_of_char v) (put_u32 (size32 v) e)"

lemma char_byte [simp]: "char_of_byte (byte_of_char ch) = ch"
proof -
  have "(of_char ch :: nat) mod 256 < 256" by (rule mod_less_divisor) simp
  then have "(of_char ch :: nat) < 256" by simp
  then show ?thesis by (simp add: byte_of_char_def char_of_byte_def unat_of_nat)
qed

lemma byte_char [simp]: "byte_of_char (char_of_byte b) = b"
proof -
  have "unat b < 256" using unsigned_less[of b] by simp
  then show ?thesis by (simp add: byte_of_char_def char_of_byte_def)
qed

lemma map_char_byte [simp]:
  "map (\<lambda>ch. char_of_byte (byte_of_char ch)) str = str" "map char_of_byte (map byte_of_char str) = str"
  by (simp_all add: comp_def map_idI)

text \<open>One call on the encoder, and the bytes it appends while the capacity lasts.\<close>

datatype Field =
  F_u8 u8 | F_u16 u16 | F_u32 u32 | F_u64 u64 | F_i64 int | F_boolean bool | F_f64 double
| F_bytes bytes | F_string string

fun put_field :: "Field \<Rightarrow> Encoder \<Rightarrow> Encoder" where
  "put_field (F_u8 v) = put_u8 v"
| "put_field (F_u16 v) = put_u16 v"
| "put_field (F_u32 v) = put_u32 v"
| "put_field (F_u64 v) = put_u64 v"
| "put_field (F_i64 v) = put_i64 v"
| "put_field (F_boolean v) = put_boolean v"
| "put_field (F_f64 v) = put_f64 v"
| "put_field (F_bytes v) = put_bytes v"
| "put_field (F_string v) = put_string v"

definition put_fields :: "Field list \<Rightarrow> Encoder \<Rightarrow> Encoder" where
  "put_fields fs e = fold put_field fs e"

fun field_bytes :: "Field \<Rightarrow> bytes" where
  "field_bytes (F_u8 v) = [v]"
| "field_bytes (F_u16 v) = store_u16 v"
| "field_bytes (F_u32 v) = store_u32 v"
| "field_bytes (F_u64 v) = store_u64 v"
| "field_bytes (F_i64 v) = store_u64 (word_of_int v)"
| "field_bytes (F_boolean v) = [bool_byte v]"
| "field_bytes (F_f64 v) = store_u64 v"
| "field_bytes (F_bytes v) = store_u32 (size32 v) @ v"
| "field_bytes (F_string v) = store_u32 (size32 v) @ map byte_of_char v"

definition wire :: "Field list \<Rightarrow> bytes" where
  "wire fs = concat (map field_bytes fs)"

lemma wire_simps [simp]: "wire [] = []" "wire (f # fs) = field_bytes f @ wire fs"
    "wire (fs @ gs) = wire fs @ wire gs"
  by (simp_all add: wire_def)

lemma wire_concat_map [simp]: "wire (concat (map f xs)) = concat (map (\<lambda>x. wire (f x)) xs)"
  by (induction xs) simp_all

text \<open>Whether \<open>n\<close> more bytes keep the buffer within the configured cap.\<close>

definition has_room :: "Encoder \<Rightarrow> nat \<Rightarrow> bool" where
  "has_room e n \<longleftrightarrow> length (enc_buffer e) + n \<le> unat (max_persistence_bytes (enc_limits e))"

lemma put_raw_room: "has_room e (length v) \<Longrightarrow> put_raw v e = e\<lparr>enc_buffer := enc_buffer e @ v\<rparr>"
  by (simp add: put_raw_def require_capacity_def has_room_def Let_def)

lemma put_field_room:
  "has_room e (length (field_bytes f)) \<Longrightarrow> put_field f e = e\<lparr>enc_buffer := enc_buffer e @ field_bytes f\<rparr>"
proof (cases f)
  case (F_bytes v)
  moreover assume "has_room e (length (field_bytes f))"
  ultimately have "has_room e (length (store_u32 (size32 v)))"
      "has_room (e\<lparr>enc_buffer := enc_buffer e @ store_u32 (size32 v)\<rparr>) (length v)"
    by (auto simp: has_room_def)
  with F_bytes show ?thesis by (simp add: put_bytes_def put_u32_def put_raw_room)
next
  case (F_string v)
  moreover assume "has_room e (length (field_bytes f))"
  ultimately have "has_room e (length (store_u32 (size32 v)))"
      "has_room (e\<lparr>enc_buffer := enc_buffer e @ store_u32 (size32 v)\<rparr>) (length (map byte_of_char v))"
    by (auto simp: has_room_def)
  with F_string show ?thesis by (simp add: put_string_def put_u32_def put_raw_room del: length_map)
qed (simp_all add: put_u8_def put_u16_def put_u32_def put_u64_def put_boolean_def put_i64_def put_f64_def
    put_raw_room)

lemma put_fields_room:
  "has_room e (length (wire fs)) \<Longrightarrow> put_fields fs e = e\<lparr>enc_buffer := enc_buffer e @ wire fs\<rparr>"
proof (induction fs arbitrary: e)
  case (Cons f fs)
  from Cons.prems have "has_room e (length (field_bytes f))"
      "has_room (e\<lparr>enc_buffer := enc_buffer e @ field_bytes f\<rparr>) (length (wire fs))"
    by (auto simp: has_room_def)
  with Cons.IH show ?case by (simp add: put_fields_def put_field_room)
qed (simp add: put_fields_def)

lemma put_fields_new:
  "length (wire fs) \<le> unat (max_persistence_bytes l) \<Longrightarrow> enc_buffer (put_fields fs (new_encoder l)) = wire fs"
  by (simp add: put_fields_room has_room_def new_encoder_def)

section \<open>The decoder\<close>

text \<open>
  A decoder reads at an offset of its input. A failed read ends the decoding: every caller
  returns the error at once, so the decoder that a failure leaves behind is not kept.
\<close>

record Decoder =
  dc_data :: bytes
  dc_offset :: nat

type_synonym 'a decoding = "Decoder \<Rightarrow> ('a \<times> Decoder) outcome"

definition new_decoder :: "bytes \<Rightarrow> Decoder" where
  "new_decoder data = \<lparr>dc_data = data, dc_offset = 0\<rparr>"

definition dreturn :: "'a \<Rightarrow> 'a decoding" where
  "dreturn x d = Ok (x, d)"

definition dfail :: "EnsembleError \<Rightarrow> 'a decoding" where
  "dfail e d = fail e"

definition dbind :: "'a decoding \<Rightarrow> ('a \<Rightarrow> 'b decoding) \<Rightarrow> 'b decoding" where
  "dbind g f d = (case g d of Err e \<Rightarrow> fail e | Ok (x, d') \<Rightarrow> f x d')"

definition have_bytes :: "nat \<Rightarrow> Decoder \<Rightarrow> bool" where
  "have_bytes n d \<longleftrightarrow> n \<le> length (dc_data d) \<and> dc_offset d \<le> length (dc_data d) - n"

definition get_raw :: "nat \<Rightarrow> bytes decoding" where
  "get_raw n d =
     (if \<not> have_bytes n d then fail E_malformed_persistence
      else Ok (take n (drop (dc_offset d) (dc_data d)), d\<lparr>dc_offset := dc_offset d + n\<rparr>))"

definition get_u8 :: "u8 decoding" where
  "get_u8 d =
     (if \<not> have_bytes 1 d then fail E_malformed_persistence
      else Ok (dc_data d ! dc_offset d, d\<lparr>dc_offset := dc_offset d + 1\<rparr>))"

definition get_u16 :: "u16 decoding" where
  "get_u16 d =
     (if \<not> have_bytes 2 d then fail E_malformed_persistence
      else Ok (load_u16 (drop (dc_offset d) (dc_data d)), d\<lparr>dc_offset := dc_offset d + 2\<rparr>))"

definition get_u32 :: "u32 decoding" where
  "get_u32 d =
     (if \<not> have_bytes 4 d then fail E_malformed_persistence
      else Ok (load_u32 (drop (dc_offset d) (dc_data d)), d\<lparr>dc_offset := dc_offset d + 4\<rparr>))"

definition get_u64 :: "u64 decoding" where
  "get_u64 d =
     (if \<not> have_bytes 8 d then fail E_malformed_persistence
      else Ok (load_u64 (drop (dc_offset d) (dc_data d)), d\<lparr>dc_offset := dc_offset d + 8\<rparr>))"

definition get_boolean :: "bool decoding" where
  "get_boolean = dbind get_u8 (\<lambda>v. if 1 < v then dfail E_malformed_persistence else dreturn (v = 1))"

definition get_f64 :: "double decoding" where
  "get_f64 = dbind get_u64 dreturn"

definition get_i64 :: "int decoding" where
  "get_i64 = dbind get_u64 (\<lambda>v. dreturn (sint v))"

definition get_bytes :: "u32 \<Rightarrow> bytes decoding" where
  "get_bytes max_bytes = dbind get_u32 (\<lambda>n.
     if max_bytes < n then dfail E_payload_too_large else get_raw (unat n))"

definition get_string :: "u32 \<Rightarrow> string decoding" where
  "get_string max_bytes = dbind get_u32 (\<lambda>n.
     if max_bytes < n then dfail E_payload_too_large
     else dbind (get_raw (unat n)) (\<lambda>content. dreturn (map char_of_byte content)))"

definition exhausted :: "Decoder \<Rightarrow> bool" where
  "exhausted d \<longleftrightarrow> dc_offset d = length (dc_data d)"

definition require_exhausted :: "Decoder \<Rightarrow> status" where
  "require_exhausted d = (if \<not> exhausted d then fail E_trailing_data else ok_status)"

text \<open>A loop that reads \<open>n\<close> elements and appends each to a vector.\<close>

fun get_list :: "nat \<Rightarrow> 'a decoding \<Rightarrow> 'a list decoding" where
  "get_list 0 g = dreturn []"
| "get_list (Suc n) g = dbind g (\<lambda>x. dbind (get_list n g) (\<lambda>xs. dreturn (x # xs)))"

end
