(* ===== verification/Wire.thy ===== *)
theory Wire
  imports Codec
begin

text \<open>
  What a decoder promises about its encoder. The locale \<open>wire_codec\<close> states it as one
  equivalence: a read succeeds with a value exactly when the value is within its bounds and
  the input continues with the bytes the encoder writes for it, and the read then stops after
  these bytes. The primitive reads satisfy it, sequencing and loops preserve it, and every
  message and record of the program interprets it.
\<close>

section \<open>Reading at a position\<close>

definition dec_at :: "bytes \<Rightarrow> bytes \<Rightarrow> Decoder" where
  "dec_at pre rest = \<lparr>dc_data = pre @ rest, dc_offset = length pre\<rparr>"

named_theorems reads \<open>when a read succeeds, and with what\<close>

lemma new_decoder_at: "new_decoder data = dec_at [] data"
  by (simp add: new_decoder_def dec_at_def)

lemma exhausted_at [simp]: "exhausted (dec_at pre rest) \<longleftrightarrow> rest = []"
  by (simp add: exhausted_def dec_at_def)

lemma dec_at_inject: "dec_at (pre @ a) b = dec_at (pre @ c) d \<Longrightarrow> a @ b = c @ d \<Longrightarrow> a = c \<and> b = d"
  by (simp add: dec_at_def)

lemma dbind_Ok_iff [reads]:
  "dbind g f d = Ok r \<longleftrightarrow> (\<exists>x d'. g d = Ok (x, d') \<and> f x d' = Ok r)"
  by (auto simp: dbind_def split: outcome.splits prod.splits)

lemma dreturn_Ok_iff [reads]: "dreturn x d = Ok (y, d') \<longleftrightarrow> x = y \<and> d' = d"
  by (auto simp: dreturn_def)

lemma dfail_not_Ok [reads]: "dfail e d \<noteq> Ok r"
  by (simp add: dfail_def)

lemma have_bytes_at [simp]: "have_bytes n (dec_at pre rest) \<longleftrightarrow> n \<le> length rest"
  by (auto simp: have_bytes_def dec_at_def)

lemma get_raw_Ok_iff [reads]:
  "get_raw n (dec_at pre rest) = Ok (v, d') \<longleftrightarrow>
     length v = n \<and> (\<exists>rest'. rest = v @ rest' \<and> d' = dec_at (pre @ v) rest')"
proof -
  have "n \<le> length rest \<and> take n rest = v \<longleftrightarrow> length v = n \<and> (\<exists>rest'. rest = v @ rest')"
    by (metis append_eq_conv_conj append_take_drop_id length_take min.absorb2 min.absorb_iff2 min_def)
  moreover have "dec_at pre (v @ rest')\<lparr>dc_offset := length pre + length v\<rparr> = dec_at (pre @ v) rest'" for rest'
    by (simp add: dec_at_def)
  ultimately show ?thesis
    by (auto simp: get_raw_def dec_at_def have_bytes_def)
qed

lemma split_bytes:
  assumes "n \<le> length rest"
  obtains v rest' where "rest = v @ rest'" "length v = n"
  using assms that[of "take n rest" "drop n rest"] by simp

lemma get_u8_Ok_iff [reads]:
  "get_u8 (dec_at pre rest) = Ok (v, d') \<longleftrightarrow>
     (\<exists>rest'. rest = v # rest' \<and> d' = dec_at (pre @ [v]) rest')"
  by (cases rest) (auto simp: get_u8_def dec_at_def have_bytes_def)

lemma get_u16_Ok_iff [reads]:
  "get_u16 (dec_at pre rest) = Ok (v, d') \<longleftrightarrow>
     (\<exists>rest'. rest = store_u16 v @ rest' \<and> d' = dec_at (pre @ store_u16 v) rest')"
proof (cases "2 \<le> length rest")
  case True
  then obtain w rest1 where w: "rest = store_u16 w @ rest1"
    by (metis split_bytes store_load(1))
  show ?thesis unfolding w
    by (auto simp: get_u16_def dec_at_def have_bytes_def dest: arg_cong[where f = load_u16])
qed (auto simp: get_u16_def)

lemma get_u32_Ok_iff [reads]:
  "get_u32 (dec_at pre rest) = Ok (v, d') \<longleftrightarrow>
     (\<exists>rest'. rest = store_u32 v @ rest' \<and> d' = dec_at (pre @ store_u32 v) rest')"
proof (cases "4 \<le> length rest")
  case True
  then obtain w rest1 where w: "rest = store_u32 w @ rest1"
    by (metis split_bytes store_load(2))
  show ?thesis unfolding w
    by (auto simp: get_u32_def dec_at_def have_bytes_def dest: arg_cong[where f = load_u32])
qed (auto simp: get_u32_def)

lemma get_u64_Ok_iff [reads]:
  "get_u64 (dec_at pre rest) = Ok (v, d') \<longleftrightarrow>
     (\<exists>rest'. rest = store_u64 v @ rest' \<and> d' = dec_at (pre @ store_u64 v) rest')"
proof (cases "8 \<le> length rest")
  case True
  then obtain w rest1 where w: "rest = store_u64 w @ rest1"
    by (metis split_bytes store_load(3))
  show ?thesis unfolding w
    by (auto simp: get_u64_def dec_at_def have_bytes_def dest: arg_cong[where f = load_u64])
qed (auto simp: get_u64_def)

lemma bool_byte_iff: "(\<not> 1 < v \<and> (v = 1) = x) \<longleftrightarrow> v = bool_byte x"
proof -
  have "v = 0 \<longleftrightarrow> unat v = 0" "v = 1 \<longleftrightarrow> unat v = 1" by (simp_all add: word_unat_eq_iff)
  then have "\<not> 1 < v \<longleftrightarrow> v = 0 \<or> v = 1" by (auto simp: word_less_nat_alt)
  then show ?thesis by (cases x) (auto simp: bool_byte_def)
qed

lemma get_boolean_Ok_iff [reads]:
  "get_boolean (dec_at pre rest) = Ok (x, d') \<longleftrightarrow>
     (\<exists>rest'. rest = bool_byte x # rest' \<and> d' = dec_at (pre @ [bool_byte x]) rest')"
  (is "?L \<longleftrightarrow> ?R")
proof -
  have "?L \<longleftrightarrow> (\<exists>v rest'. (\<not> 1 < v \<and> (v = 1) = x) \<and> rest = v # rest' \<and> d' = dec_at (pre @ [v]) rest')"
    by (auto simp: get_boolean_def reads split: if_splits)
  then show ?thesis by (simp add: bool_byte_iff)
qed

lemma get_f64_Ok_iff [reads]:
  "get_f64 (dec_at pre rest) = Ok (v, d') \<longleftrightarrow>
     (\<exists>rest'. rest = store_u64 v @ rest' \<and> d' = dec_at (pre @ store_u64 v) rest')"
  by (auto simp: get_f64_def reads)

text \<open>A byte string within its bound is behind its own length.\<close>

definition within :: "u32 \<Rightarrow> 'a list \<Rightarrow> bool" where
  "within bound xs \<longleftrightarrow> length xs \<le> unat bound"

lemma within_size32: "within bound xs \<longleftrightarrow> \<not> bound < size32 xs \<and> unat (size32 xs) = length xs"
proof -
  have "length xs < 2 ^ 32" if "length xs \<le> unat bound" using that unat_less_32[of bound] by simp
  moreover have "unat (size32 xs) \<le> length xs" by (simp add: unat_of_nat)
  ultimately show ?thesis
    by (auto simp: within_def word_less_nat_alt unat_of_nat)
qed

lemma size32_unat: "(n = size32 xs \<and> unat n = length xs) \<longleftrightarrow> unat n = length xs"
proof -
  have "word_of_nat (unat n) = n" by simp
  then show ?thesis by metis
qed

lemma get_bytes_Ok_iff [reads]:
  "get_bytes bound (dec_at pre rest) = Ok (v, d') \<longleftrightarrow>
     within bound v \<and>
     (\<exists>rest'. rest = store_u32 (size32 v) @ v @ rest' \<and> d' = dec_at (pre @ store_u32 (size32 v) @ v) rest')"
  (is "?L \<longleftrightarrow> ?R")
proof
  assume ?L
  then obtain n rest' where "\<not> bound < n" "unat n = length v" "rest = store_u32 n @ v @ rest'"
      "d' = dec_at (pre @ store_u32 n @ v) rest'"
    by (auto simp: get_bytes_def reads split: if_splits)
  moreover from \<open>unat n = length v\<close> have "n = size32 v" using size32_unat by blast
  ultimately show ?R by (simp add: within_size32)
qed (auto simp: get_bytes_def reads within_size32)

lemma get_string_Ok_iff [reads]:
  "get_string bound (dec_at pre rest) = Ok (v, d') \<longleftrightarrow>
     within bound v \<and>
     (\<exists>rest'. rest = store_u32 (size32 v) @ map byte_of_char v @ rest' \<and>
        d' = dec_at (pre @ store_u32 (size32 v) @ map byte_of_char v) rest')"
proof -
  have eq: "get_string bound = dbind (get_bytes bound) (\<lambda>content. dreturn (map char_of_byte content))"
    by (rule ext) (auto simp: get_string_def get_bytes_def dbind_def dfail_def dreturn_def fail_def
        split: outcome.splits prod.splits if_splits)
  have inv: "map char_of_byte c = v \<longleftrightarrow> c = map byte_of_char v" for c
    by (auto simp: comp_def map_idI)
  show ?thesis unfolding eq by (auto simp: reads inv within_def)
qed

section \<open>The contract of an encoder and its decoder\<close>

locale wire_codec =
  fixes enc :: "'a \<Rightarrow> Field list" and get :: "'a decoding" and ok :: "'a \<Rightarrow> bool"
  assumes get_Ok_iff:
    "get (dec_at pre rest) = Ok (x, d') \<longleftrightarrow>
       ok x \<and> (\<exists>rest'. rest = wire (enc x) @ rest' \<and> d' = dec_at (pre @ wire (enc x)) rest')"
begin

lemma read_back:
  "ok x \<Longrightarrow> get (dec_at pre (wire (enc x) @ rest)) = Ok (x, dec_at (pre @ wire (enc x)) rest)"
  by (subst get_Ok_iff) blast

lemma wire_unique:
  assumes "ok x" and "ok y" and "wire (enc x) @ a = wire (enc y) @ b"
  shows "x = y \<and> a = b"
proof -
  have "Ok (x, dec_at ([] @ wire (enc x)) a) = Ok (y, dec_at ([] @ wire (enc y)) b)"
    using read_back[OF assms(1), of "[]" a] read_back[OF assms(2), of "[]" b] assms(3) by simp
  then show ?thesis using assms(3) by simp
qed

lemma truncated_rejected:
  assumes "ok x" and "wire (enc x) = p @ q" and "q \<noteq> []"
  shows "\<not> is_ok (get (dec_at pre p))"
proof
  assume "is_ok (get (dec_at pre p))"
  then obtain y d' where "get (dec_at pre p) = Ok (y, d')"
    by (auto simp: is_ok_def split: outcome.splits)
  then obtain r where "ok y" and p: "p = wire (enc y) @ r" by (auto simp: get_Ok_iff)
  with assms(1) have "x = y \<and> ([] :: bytes) = r @ q"
    by (intro wire_unique) (simp_all add: assms(2))
  with \<open>q \<noteq> []\<close> show False by simp
qed

lemma bind_Ok_iff:
  "dbind get f (dec_at pre rest) = Ok r \<longleftrightarrow>
     (\<exists>x rest'. ok x \<and> rest = wire (enc x) @ rest' \<and> f x (dec_at (pre @ wire (enc x)) rest') = Ok r)"
  unfolding dbind_Ok_iff get_Ok_iff by blast

lemma bind_read:
  "ok x \<Longrightarrow> dbind get f (dec_at pre (wire (enc x) @ rest)) = f x (dec_at (pre @ wire (enc x)) rest)"
  by (simp add: dbind_def read_back)

lemma list_Ok_iff:
  "get_list n get (dec_at pre rest) = Ok (xs, d') \<longleftrightarrow>
     length xs = n \<and> list_all ok xs \<and>
     (\<exists>rest'. rest = wire (concat (map enc xs)) @ rest' \<and>
        d' = dec_at (pre @ wire (concat (map enc xs))) rest')"
proof (induction n arbitrary: pre rest xs d')
  case (Suc n)
  have list_bind: "dbind (get_list n get) f (dec_at pre rest) = Ok r \<longleftrightarrow>
      (\<exists>ys rest'. length ys = n \<and> list_all ok ys \<and> rest = wire (concat (map enc ys)) @ rest' \<and>
        f ys (dec_at (pre @ wire (concat (map enc ys))) rest') = Ok r)"
    for f :: "'a list \<Rightarrow> 'a list decoding" and pre rest r
    unfolding dbind_Ok_iff Suc.IH by blast
  show ?case
  proof (cases xs)
    case (Cons x ys)
    then show ?thesis by (auto simp: bind_Ok_iff list_bind dreturn_Ok_iff)
  qed (auto simp: bind_Ok_iff list_bind dreturn_Ok_iff)
qed (auto simp: dreturn_Ok_iff)

end

text \<open>
  The contract in two halves: what a successful read returns, and that the encoder's bytes
  are read back.
\<close>

lemma wire_codecI:
  assumes "\<And>pre rest x d'. get (dec_at pre rest) = Ok (x, d') \<Longrightarrow>
      ok x \<and> (\<exists>rest'. rest = wire (enc x) @ rest' \<and> d' = dec_at (pre @ wire (enc x)) rest')"
    and "\<And>pre rest x. ok x \<Longrightarrow>
      get (dec_at pre (wire (enc x) @ rest)) = Ok (x, dec_at (pre @ wire (enc x)) rest)"
  shows "wire_codec enc get ok"
  by (rule wire_codec.intro) (use assms in blast)

interpretation u8: wire_codec "\<lambda>v. [F_u8 v]" get_u8 "\<lambda>_. True"
  by unfold_locales (auto simp: get_u8_Ok_iff)

interpretation u16: wire_codec "\<lambda>v. [F_u16 v]" get_u16 "\<lambda>_. True"
  by unfold_locales (auto simp: get_u16_Ok_iff)

interpretation u32: wire_codec "\<lambda>v. [F_u32 v]" get_u32 "\<lambda>_. True"
  by unfold_locales (auto simp: get_u32_Ok_iff)

interpretation u64: wire_codec "\<lambda>v. [F_u64 v]" get_u64 "\<lambda>_. True"
  by unfold_locales (auto simp: get_u64_Ok_iff)

interpretation boolean: wire_codec "\<lambda>v. [F_boolean v]" get_boolean "\<lambda>_. True"
  by unfold_locales (auto simp: get_boolean_Ok_iff)

interpretation f64: wire_codec "\<lambda>v. [F_f64 v]" get_f64 "\<lambda>_. True"
  by unfold_locales (auto simp: get_f64_Ok_iff)

interpretation bytestring: wire_codec "\<lambda>v. [F_bytes v]" "get_bytes bound" "within bound" for bound
  by unfold_locales (auto simp: get_bytes_Ok_iff)

interpretation charstring: wire_codec "\<lambda>v. [F_string v]" "get_string bound" "within bound" for bound
  by unfold_locales (auto simp: get_string_Ok_iff)

named_theorems codec_binds \<open>what sequencing after the decoder of a component yields\<close>
named_theorems codec_reads \<open>sequencing after the decoder of a component, on its own bytes\<close>

declare u8.bind_Ok_iff [codec_binds] u16.bind_Ok_iff [codec_binds] u32.bind_Ok_iff [codec_binds]
  u64.bind_Ok_iff [codec_binds] boolean.bind_Ok_iff [codec_binds] f64.bind_Ok_iff [codec_binds]
  bytestring.bind_Ok_iff [codec_binds] charstring.bind_Ok_iff [codec_binds]
  dreturn_Ok_iff [codec_binds] dfail_not_Ok [codec_binds]

lemmas [codec_reads] = u8.bind_read[simplified] u16.bind_read[simplified] u32.bind_read[simplified]
  u64.bind_read[simplified] boolean.bind_read[simplified] f64.bind_read[simplified]
  bytestring.bind_read[simplified] charstring.bind_read[simplified] dreturn_def

lemma guard_Ok_iff [codec_binds]:
  "(if c then dfail e else g) d = Ok r \<longleftrightarrow> \<not> c \<and> g d = Ok r"
  by (simp add: dfail_not_Ok)

lemma list_all_True [simp]: "list_all (\<lambda>_. True) xs"
  by (simp add: list_all_iff)

text \<open>A vector behind its 32-bit count, bounded before any element is read.\<close>

definition vector_fields :: "('a \<Rightarrow> Field list) \<Rightarrow> 'a list \<Rightarrow> Field list" where
  "vector_fields enc xs = F_u32 (size32 xs) # concat (map enc xs)"

definition get_vector :: "u32 \<Rightarrow> 'a decoding \<Rightarrow> 'a list decoding" where
  "get_vector bound g = dbind get_u32 (\<lambda>n.
     if bound < n then dfail E_resource_limit_exceeded else get_list (unat n) g)"

context wire_codec
begin

lemma vector_Ok_iff:
  "get_vector bound get (dec_at pre rest) = Ok (xs, d') \<longleftrightarrow>
     within bound xs \<and> list_all ok xs \<and>
     (\<exists>rest'. rest = wire (vector_fields enc xs) @ rest' \<and>
        d' = dec_at (pre @ wire (vector_fields enc xs)) rest')"
proof -
  have "get_vector bound get (dec_at pre rest) = Ok (xs, d') \<longleftrightarrow>
      (\<exists>n rest'. \<not> bound < n \<and> length xs = unat n \<and> list_all ok xs \<and>
        rest = store_u32 n @ wire (concat (map enc xs)) @ rest' \<and>
        d' = dec_at (pre @ store_u32 n @ wire (concat (map enc xs))) rest')"
    by (simp add: get_vector_def u32.bind_Ok_iff dfail_not_Ok list_Ok_iff if_distribR split: if_split)
      blast
  moreover have "(\<not> bound < n \<and> length xs = unat n) \<longleftrightarrow> within bound xs \<and> n = size32 xs" for n
    using size32_unat[of n xs] by (auto simp: within_size32)
  ultimately show ?thesis by (auto simp: vector_fields_def)
qed

lemma vector_bind_read:
  "within bound xs \<Longrightarrow> list_all ok xs \<Longrightarrow>
   dbind (get_vector bound get) f (dec_at pre (wire (vector_fields enc xs) @ rest)) =
     f xs (dec_at (pre @ wire (vector_fields enc xs)) rest)"
  using vector_Ok_iff[of bound pre "wire (vector_fields enc xs) @ rest" xs
      "dec_at (pre @ wire (vector_fields enc xs)) rest"]
  by (simp add: dbind_def)

lemma vector_bind_Ok_iff:
  "dbind (get_vector bound get) f (dec_at pre rest) = Ok r \<longleftrightarrow>
     (\<exists>xs rest'. within bound xs \<and> list_all ok xs \<and> rest = wire (vector_fields enc xs) @ rest' \<and>
        f xs (dec_at (pre @ wire (vector_fields enc xs)) rest') = Ok r)"
  unfolding dbind_Ok_iff vector_Ok_iff by blast

end

text \<open>Decoding a whole input, which must be consumed exactly.\<close>

definition decode_exactly :: "'a decoding \<Rightarrow> bytes \<Rightarrow> 'a outcome" where
  "decode_exactly get data =
     (case get (new_decoder data) of
        Err e \<Rightarrow> fail e
      | Ok (x, d) \<Rightarrow> (case require_exhausted d of Err e \<Rightarrow> fail e | Ok _ \<Rightarrow> Ok x))"

context wire_codec
begin

lemma decode_exactly_iff: "decode_exactly get data = Ok x \<longleftrightarrow> ok x \<and> data = wire (enc x)"
proof -
  have "decode_exactly get data = Ok x \<longleftrightarrow>
      (\<exists>d. get (dec_at [] data) = Ok (x, d) \<and> exhausted d)"
    by (auto simp: decode_exactly_def new_decoder_at require_exhausted_def
        split: outcome.splits prod.splits if_splits)
  then show ?thesis unfolding get_Ok_iff by force
qed

lemma encode_decode:
  assumes "ok x" and "length (wire (enc x)) \<le> unat (max_persistence_bytes l)"
  shows "decode_exactly get (enc_buffer (put_fields (enc x) (new_encoder l))) = Ok x"
  using assms by (simp add: put_fields_new decode_exactly_iff)

end

end
