(* ===== verification/Field_Codecs.thy ===== *)
theory Field_Codecs
  imports Wire Fabric_State
begin

text \<open>
  The parts that messages and state files have in common: enumerations, role masks, error
  codes, criteria and compatibility profiles. \<open>get_enum\<close> is the template of
  \<^verbatim>\<open>src/fabric_persist.cpp\<close> and the range checks that \<^verbatim>\<open>src/protocol.cpp\<close> writes out: one byte
  within the range of the enumeration, cast to its enumerator. The enumerators of each
  enumeration are listed in the order of their values.
\<close>

unbundle bit_operations_syntax

definition get_enum :: "u8 \<Rightarrow> u8 \<Rightarrow> 'a list \<Rightarrow> 'a decoding" where
  "get_enum low high table = dbind get_u8 (\<lambda>raw.
     if raw < low \<or> high < raw then dfail E_invalid_enum_value
     else dreturn (table ! (unat raw - unat low)))"

text \<open>A table is right when its enumerators have consecutive codes and none is missing.\<close>

definition enum_table :: "('a \<Rightarrow> u8) \<Rightarrow> u8 \<Rightarrow> u8 \<Rightarrow> 'a list \<Rightarrow> bool" where
  "enum_table code low high table \<longleftrightarrow>
     map (\<lambda>x. unat (code x)) table = [unat low..<Suc (unat high)] \<and> set table = UNIV"

lemma enum_table_cast:
  assumes "enum_table code low high table"
  shows "\<not> (raw < low \<or> high < raw) \<and> table ! (unat raw - unat low) = x \<longleftrightarrow> raw = code x"
proof -
  have codes: "map (\<lambda>x. unat (code x)) table = [unat low..<Suc (unat high)]" and all: "x \<in> set table"
    using assms by (auto simp: enum_table_def)
  have len: "length table = Suc (unat high) - unat low" using arg_cong[OF codes, of length] by (simp del: upt_Suc)
  have nth: "unat (code (table ! i)) = unat low + i" if "i < length table" for i
    using arg_cong[OF codes, of "\<lambda>l. l ! i"] that by (simp add: len del: upt_Suc)
  obtain i where i: "i < length table" "x = table ! i" using all by (metis in_set_conv_nth)
  show ?thesis
  proof
    assume raw: "\<not> (raw < low \<or> high < raw) \<and> table ! (unat raw - unat low) = x"
    then have "unat low \<le> unat raw" "unat raw \<le> unat high" by (auto simp: word_less_nat_alt)
    then have "unat (code x) = unat raw" using raw nth[of "unat raw - unat low"] len by auto
    then show "raw = code x" by (simp add: word_unat_eq_iff)
  next
    assume "raw = code x"
    then have "unat raw = unat low + i" using i nth by simp
    then show "\<not> (raw < low \<or> high < raw) \<and> table ! (unat raw - unat low) = x"
      using i len by (auto simp: word_less_nat_alt)
  qed
qed

lemma get_enum_Ok_iff:
  assumes "enum_table code low high table"
  shows "get_enum low high table (dec_at pre rest) = Ok (x, d') \<longleftrightarrow>
     (\<exists>rest'. rest = code x # rest' \<and> d' = dec_at (pre @ [code x]) rest')"
proof -
  have "get_enum low high table (dec_at pre rest) = Ok (x, d') \<longleftrightarrow>
      (\<exists>raw rest'. (\<not> (raw < low \<or> high < raw) \<and> table ! (unat raw - unat low) = x) \<and>
         rest = raw # rest' \<and> d' = dec_at (pre @ [raw]) rest')"
    by (auto simp: get_enum_def codec_binds)
  then show ?thesis unfolding enum_table_cast[OF assms] by simp
qed

lemma enum_codec:
  "enum_table code low high table \<Longrightarrow>
     wire_codec (\<lambda>x. [F_u8 (code x)]) (get_enum low high table) (\<lambda>_. True)"
  by unfold_locales (simp add: get_enum_Ok_iff)

section \<open>The enumerations\<close>

lemma enum_tableI:
  assumes "map (\<lambda>x. unat (code x)) table = [unat low..<Suc (unat high)]" and "\<And>x. x \<in> set table"
  shows "enum_table code low high table"
  using assms by (auto simp: enum_table_def)

definition get_role :: "ParticipantRole decoding" where
  "get_role = get_enum 1 5 role_order"

interpretation role_codec: wire_codec "\<lambda>x. [F_u8 (role_code x)]" get_role "\<lambda>_. True"
  unfolding get_role_def
  by (intro enum_codec enum_tableI) (simp add: role_order_def upt_rec, case_tac x, simp_all add: role_order_def)

declare role_codec.bind_Ok_iff [codec_binds] role_codec.bind_read [simplified, codec_reads]

definition verification_table :: "VerificationState list" where
  "verification_table =
     [V_pass, V_fail, V_abstain, V_unknown]"

definition get_verification :: "VerificationState decoding" where
  "get_verification = get_enum 1 4 verification_table"

interpretation verification_codec: wire_codec "\<lambda>x. [F_u8 (verification_code x)]" get_verification "\<lambda>_. True"
  unfolding get_verification_def
  by (intro enum_codec enum_tableI) (simp add: verification_table_def upt_rec, case_tac x, simp_all add: verification_table_def)

declare verification_codec.bind_Ok_iff [codec_binds] verification_codec.bind_read [simplified, codec_reads]

definition judgment_table :: "CategoricalJudgment list" where
  "judgment_table =
     [J_accept, J_reject, J_abstain, J_unknown]"

definition get_judgment :: "CategoricalJudgment decoding" where
  "get_judgment = get_enum 1 4 judgment_table"

interpretation judgment_codec: wire_codec "\<lambda>x. [F_u8 (judgment_code x)]" get_judgment "\<lambda>_. True"
  unfolding get_judgment_def
  by (intro enum_codec enum_tableI) (simp add: judgment_table_def upt_rec, case_tac x, simp_all add: judgment_table_def)

declare judgment_codec.bind_Ok_iff [codec_binds] judgment_codec.bind_read [simplified, codec_reads]

definition criterion_kind_table :: "CriterionKind list" where
  "criterion_kind_table =
     [K_hard_predicate, K_ranking_signal]"

definition get_criterion_kind :: "CriterionKind decoding" where
  "get_criterion_kind = get_enum 1 2 criterion_kind_table"

interpretation criterion_kind_codec: wire_codec "\<lambda>x. [F_u8 (criterion_kind_code x)]" get_criterion_kind "\<lambda>_. True"
  unfolding get_criterion_kind_def
  by (intro enum_codec enum_tableI) (simp add: criterion_kind_table_def upt_rec, case_tac x, simp_all add: criterion_kind_table_def)

declare criterion_kind_codec.bind_Ok_iff [codec_binds] criterion_kind_codec.bind_read [simplified, codec_reads]

definition failure_kind_table :: "ParticipantFailureKind list" where
  "failure_kind_table =
     [FK_unavailable, FK_transport_error, FK_malformed_output, FK_internal_error,
      FK_timeout_reported, FK_explicit_abort]"

definition get_failure_kind :: "ParticipantFailureKind decoding" where
  "get_failure_kind = get_enum 1 6 failure_kind_table"

interpretation failure_kind_codec: wire_codec "\<lambda>x. [F_u8 (failure_kind_code x)]" get_failure_kind "\<lambda>_. True"
  unfolding get_failure_kind_def
  by (intro enum_codec enum_tableI) (simp add: failure_kind_table_def upt_rec, case_tac x, simp_all add: failure_kind_table_def)

declare failure_kind_codec.bind_Ok_iff [codec_binds] failure_kind_codec.bind_read [simplified, codec_reads]

definition participant_status_table :: "ParticipantStatus list" where
  "participant_status_table =
     [PS_current, PS_unavailable, PS_failed, PS_fenced, PS_revalidation_required,
      PS_retired]"

definition get_participant_status :: "ParticipantStatus decoding" where
  "get_participant_status = get_enum 1 6 participant_status_table"

interpretation participant_status_codec: wire_codec "\<lambda>x. [F_u8 (participant_status_code x)]" get_participant_status "\<lambda>_. True"
  unfolding get_participant_status_def
  by (intro enum_codec enum_tableI) (simp add: participant_status_table_def upt_rec, case_tac x, simp_all add: participant_status_table_def)

declare participant_status_codec.bind_Ok_iff [codec_binds] participant_status_codec.bind_read [simplified, codec_reads]

definition candidate_state_table :: "CandidateState list" where
  "candidate_state_table =
     [C_declared, C_dispatched, C_output_received, C_valid, C_invalid, C_eligible,
      C_rejected, C_selected, C_superseded, C_cancelled, C_failed, C_abstained, C_retired]"

definition get_candidate_state :: "CandidateState decoding" where
  "get_candidate_state = get_enum 1 13 candidate_state_table"

interpretation candidate_state_codec: wire_codec "\<lambda>x. [F_u8 (candidate_state_code x)]" get_candidate_state "\<lambda>_. True"
  unfolding get_candidate_state_def
  by (intro enum_codec enum_tableI) (simp add: candidate_state_table_def upt_rec, case_tac x, simp_all add: candidate_state_table_def)

declare candidate_state_codec.bind_Ok_iff [codec_binds] candidate_state_codec.bind_read [simplified, codec_reads]

definition topology_table :: "TopologyMode list" where
  "topology_table =
     [TM_parallel, TM_sequential]"

definition get_topology :: "TopologyMode decoding" where
  "get_topology = get_enum 1 2 topology_table"

interpretation topology_codec: wire_codec "\<lambda>x. [F_u8 (topology_code x)]" get_topology "\<lambda>_. True"
  unfolding get_topology_def
  by (intro enum_codec enum_tableI) (simp add: topology_table_def upt_rec, case_tac x, simp_all add: topology_table_def)

declare topology_codec.bind_Ok_iff [codec_binds] topology_codec.bind_read [simplified, codec_reads]

definition vote_basis_table :: "VoteBasis list" where
  "vote_basis_table =
     [VB_declared_participants, VB_authoritative_participants,
      VB_contributing_participants, VB_required_participants, VB_eligible_participants]"

definition get_vote_basis :: "VoteBasis decoding" where
  "get_vote_basis = get_enum 1 5 vote_basis_table"

interpretation vote_basis_codec: wire_codec "\<lambda>x. [F_u8 (vote_basis_code x)]" get_vote_basis "\<lambda>_. True"
  unfolding get_vote_basis_def
  by (intro enum_codec enum_tableI) (simp add: vote_basis_table_def upt_rec, case_tac x, simp_all add: vote_basis_table_def)

declare vote_basis_codec.bind_Ok_iff [codec_binds] vote_basis_codec.bind_read [simplified, codec_reads]

definition aggregation_kind_table :: "AggregationKind list" where
  "aggregation_kind_table =
     [AK_best_of_n, AK_quorum_vote, AK_weighted_vote, AK_consensus_threshold,
      AK_judge_arbitration, AK_verifier_gated]"

definition get_aggregation_kind :: "AggregationKind decoding" where
  "get_aggregation_kind = get_enum 1 6 aggregation_kind_table"

interpretation aggregation_kind_codec: wire_codec "\<lambda>x. [F_u8 (aggregation_kind_code x)]" get_aggregation_kind "\<lambda>_. True"
  unfolding get_aggregation_kind_def
  by (intro enum_codec enum_tableI) (simp add: aggregation_kind_table_def upt_rec, case_tac x, simp_all add: aggregation_kind_table_def)

declare aggregation_kind_codec.bind_Ok_iff [codec_binds] aggregation_kind_codec.bind_read [simplified, codec_reads]

definition factor_table :: "ArbitrationFactor list" where
  "factor_table =
     [AF_judge_acceptance_ratio, AF_verifier_state, AF_vote_count, AF_weighted_vote,
      AF_aggregate_score, AF_min_score, AF_confidence, AF_participant_priority,
      AF_specialist_relevance, AF_execution_cost, AF_latency, AF_provenance_quality,
      AF_fallback_status]"

definition get_factor :: "ArbitrationFactor decoding" where
  "get_factor = get_enum 1 13 factor_table"

interpretation factor_codec: wire_codec "\<lambda>x. [F_u8 (factor_code x)]" get_factor "\<lambda>_. True"
  unfolding get_factor_def
  by (intro enum_codec enum_tableI) (simp add: factor_table_def upt_rec, case_tac x, simp_all add: factor_table_def)

declare factor_codec.bind_Ok_iff [codec_binds] factor_codec.bind_read [simplified, codec_reads]

definition tie_break_table :: "TieBreakPolicy list" where
  "tie_break_table =
     [TB_report_tie, TB_lowest_candidate_id, TB_highest_score_then_id,
      TB_prefer_required_participant]"

definition get_tie_break :: "TieBreakPolicy decoding" where
  "get_tie_break = get_enum 1 4 tie_break_table"

interpretation tie_break_codec: wire_codec "\<lambda>x. [F_u8 (tie_break_code x)]" get_tie_break "\<lambda>_. True"
  unfolding get_tie_break_def
  by (intro enum_codec enum_tableI) (simp add: tie_break_table_def upt_rec, case_tac x, simp_all add: tie_break_table_def)

declare tie_break_codec.bind_Ok_iff [codec_binds] tie_break_codec.bind_read [simplified, codec_reads]

definition trigger_table :: "FallbackTrigger list" where
  "trigger_table =
     [FT_participant_unavailable, FT_retry_exhausted, FT_quorum_impossible,
      FT_required_role_unavailable, FT_all_primary_invalid, FT_judge_disagreement,
      FT_insufficient_evidence, FT_required_participant_failed]"

definition get_trigger :: "FallbackTrigger decoding" where
  "get_trigger = get_enum 1 8 trigger_table"

interpretation trigger_codec: wire_codec "\<lambda>x. [F_u8 (trigger_code x)]" get_trigger "\<lambda>_. True"
  unfolding get_trigger_def
  by (intro enum_codec enum_tableI) (simp add: trigger_table_def upt_rec, case_tac x, simp_all add: trigger_table_def)

declare trigger_codec.bind_Ok_iff [codec_binds] trigger_codec.bind_read [simplified, codec_reads]

definition quorum_state_table :: "QuorumState list" where
  "quorum_state_table =
     [Q_not_evaluated, Q_reached, Q_not_reached, Q_impossible, Q_lost]"

definition get_quorum_state :: "QuorumState decoding" where
  "get_quorum_state = get_enum 0 4 quorum_state_table"

interpretation quorum_state_codec: wire_codec "\<lambda>x. [F_u8 (quorum_state_code x)]" get_quorum_state "\<lambda>_. True"
  unfolding get_quorum_state_def
  by (intro enum_codec enum_tableI) (simp add: quorum_state_table_def upt_rec, case_tac x, simp_all add: quorum_state_table_def)

declare quorum_state_codec.bind_Ok_iff [codec_binds] quorum_state_codec.bind_read [simplified, codec_reads]

definition consensus_state_table :: "ConsensusState list" where
  "consensus_state_table =
     [S_not_evaluated, S_consensus, S_consensus_with_abstentions,
      S_plurality_without_threshold, S_quorum_not_reached, S_quorum_impossible,
      S_disagreement, S_tie, S_insufficient_evidence, S_required_participant_failed,
      S_all_candidates_invalid, S_no_eligible_candidate, S_fallback_required, S_cancelled,
      S_superseded, S_revalidation_required, S_committed]"

definition get_consensus_state :: "ConsensusState decoding" where
  "get_consensus_state = get_enum 0 16 consensus_state_table"

interpretation consensus_state_codec: wire_codec "\<lambda>x. [F_u8 (consensus_state_code x)]" get_consensus_state "\<lambda>_. True"
  unfolding get_consensus_state_def
  by (intro enum_codec enum_tableI) (simp add: consensus_state_table_def upt_rec, case_tac x, simp_all add: consensus_state_table_def)

declare consensus_state_codec.bind_Ok_iff [codec_binds] consensus_state_codec.bind_read [simplified, codec_reads]

definition elimination_table :: "EliminationReason list" where
  "elimination_table =
     [X_none, X_not_a_content_state, X_invalid_candidate, X_failed_attempt, X_abstained,
      X_stale_generation, X_superseded, X_cancelled, X_participant_not_authoritative,
      X_incompatible_participant, X_verifier_failed, X_hard_predicate_failed,
      X_missing_required_evidence, X_below_minimum_score, X_insufficient_judge_acceptance,
      X_not_selectable_role, X_lost_ranking, X_tie_lost, X_fallback_not_selected]"

definition get_elimination :: "EliminationReason decoding" where
  "get_elimination = get_enum 0 18 elimination_table"

interpretation elimination_codec: wire_codec "\<lambda>x. [F_u8 (elimination_code x)]" get_elimination "\<lambda>_. True"
  unfolding get_elimination_def
  by (intro enum_codec enum_tableI) (simp add: elimination_table_def upt_rec, case_tac x, simp_all add: elimination_table_def)

declare elimination_codec.bind_Ok_iff [codec_binds] elimination_codec.bind_read [simplified, codec_reads]

definition decision_table :: "EnsembleDecision list" where
  "decision_table =
     [D_pending, D_committed, D_cancelled, D_superseded, D_failed, D_revalidation_required,
      D_no_eligible_candidate, D_fallback_required]"

definition get_decision :: "EnsembleDecision decoding" where
  "get_decision = get_enum 0 7 decision_table"

interpretation decision_codec: wire_codec "\<lambda>x. [F_u8 (decision_code x)]" get_decision "\<lambda>_. True"
  unfolding get_decision_def
  by (intro enum_codec enum_tableI) (simp add: decision_table_def upt_rec, case_tac x, simp_all add: decision_table_def)

declare decision_codec.bind_Ok_iff [codec_binds] decision_codec.bind_read [simplified, codec_reads]

definition execution_status_table :: "ExecutionStatus list" where
  "execution_status_table =
     [XS_none, XS_open, XS_committed, XS_cancelled, XS_superseded,
      XS_revalidation_required, XS_failed, XS_no_eligible_candidate]"

definition get_execution_status :: "ExecutionStatus decoding" where
  "get_execution_status = get_enum 0 7 execution_status_table"

interpretation execution_status_codec: wire_codec "\<lambda>x. [F_u8 (execution_status_code x)]" get_execution_status "\<lambda>_. True"
  unfolding get_execution_status_def
  by (intro enum_codec enum_tableI) (simp add: execution_status_table_def upt_rec, case_tac x, simp_all add: execution_status_table_def)

declare execution_status_codec.bind_Ok_iff [codec_binds] execution_status_codec.bind_read [simplified, codec_reads]

section \<open>Role masks, error codes and criteria\<close>

text \<open>A role mask is read whole; a bit outside the five roles is rejected.\<close>

definition known_roles :: "RoleSet \<Rightarrow> bool" where
  "known_roles m \<longleftrightarrow> m AND NOT 0x1F = 0"

definition get_roles :: "RoleSet decoding" where
  "get_roles = dbind get_u32 (\<lambda>m.
     if m AND NOT 0x1F \<noteq> 0 then dfail E_invalid_enum_value else dreturn m)"

interpretation roles_codec: wire_codec "\<lambda>m. [F_u32 m]" get_roles known_roles
  by unfold_locales (auto simp: get_roles_def known_roles_def codec_binds)

declare roles_codec.bind_Ok_iff [codec_binds] roles_codec.bind_read [simplified, codec_reads]

text \<open>
  A result code travels as its 16-bit value. The decoders only bound it by the last
  enumerator, so a message may hold a value between two enumerators: the messages keep the
  value itself.
\<close>

type_synonym error_value = u16

definition known_code :: "error_value \<Rightarrow> bool" where
  "known_code v \<longleftrightarrow> \<not> error_code E_internal_error < v"

definition get_error_value :: "error_value decoding" where
  "get_error_value = dbind get_u16 (\<lambda>v.
     if error_code E_internal_error < v then dfail E_invalid_enum_value else dreturn v)"

interpretation error_value_codec: wire_codec "\<lambda>v. [F_u16 v]" get_error_value known_code
  by unfold_locales (auto simp: get_error_value_def known_code_def codec_binds simp del: error_code.simps)

declare error_value_codec.bind_Ok_iff [codec_binds] error_value_codec.bind_read [simplified, codec_reads]

lemma known_code_error [simp]: "known_code (error_code e)"
  by (cases e) (simp_all add: known_code_def)

definition put_criterion :: "CriterionRef \<Rightarrow> Field list" where
  "put_criterion c = [F_u32 (cri_id c), F_u32 (cri_version c)]"

definition get_criterion :: "CriterionRef decoding" where
  "get_criterion = dbind get_u32 (\<lambda>i. dbind get_u32 (\<lambda>version.
     dreturn \<lparr>cri_id = i, cri_version = version\<rparr>))"

interpretation criterion_codec: wire_codec put_criterion get_criterion "\<lambda>_. True"
  by (rule wire_codecI, force simp: get_criterion_def put_criterion_def codec_binds, case_tac x)
    (simp add: get_criterion_def put_criterion_def codec_reads)

declare criterion_codec.bind_Ok_iff [codec_binds] criterion_codec.bind_read [simplified, codec_reads]

section \<open>Signed numbers, texts and optional values\<close>

definition is_i64 :: "int \<Rightarrow> bool" where
  "is_i64 v \<longleftrightarrow> sint (word_of_int v :: u64) = v"

interpretation i64_codec: wire_codec "\<lambda>v. [F_i64 v]" get_i64 is_i64
  by (rule wire_codecI) (force simp: get_i64_def is_i64_def codec_binds,
      simp add: get_i64_def is_i64_def codec_reads)

declare i64_codec.bind_Ok_iff [codec_binds] i64_codec.bind_read [simplified, codec_reads]

text \<open>
  A text that rendering a number can leave undefined is an option in the reports; a report
  that exists has it.
\<close>

definition put_text :: "string option \<Rightarrow> Field list" where
  "put_text t = [F_string (case t of None \<Rightarrow> [] | Some str \<Rightarrow> str)]"

definition get_text :: "u32 \<Rightarrow> string option decoding" where
  "get_text bound = dbind (get_string bound) (\<lambda>str. dreturn (Some str))"

definition text_within :: "u32 \<Rightarrow> string option \<Rightarrow> bool" where
  "text_within bound t \<longleftrightarrow> (case t of None \<Rightarrow> False | Some str \<Rightarrow> within bound str)"

interpretation text_codec: wire_codec put_text "get_text bound" "text_within bound" for bound
  by (rule wire_codecI, force simp: get_text_def put_text_def text_within_def codec_binds, case_tac x)
    (simp_all add: get_text_def put_text_def text_within_def codec_reads)

declare text_codec.bind_Ok_iff [codec_binds] text_codec.bind_read [codec_reads]

text \<open>A value behind the flag that tells whether it is there.\<close>

definition put_option :: "('a \<Rightarrow> Field list) \<Rightarrow> 'a option \<Rightarrow> Field list" where
  "put_option enc v = (case v of None \<Rightarrow> [F_boolean False] | Some x \<Rightarrow> F_boolean True # enc x)"

definition get_option :: "'a decoding \<Rightarrow> 'a option decoding" where
  "get_option g = dbind get_boolean (\<lambda>has.
     if has then dbind g (\<lambda>x. dreturn (Some x)) else dreturn None)"

text \<open>A value behind a 32-bit extension word that must be zero.\<close>

definition put_extended :: "('a \<Rightarrow> Field list) \<Rightarrow> 'a \<Rightarrow> Field list" where
  "put_extended enc x = F_u32 0 # enc x"

definition get_extended :: "'a decoding \<Rightarrow> 'a decoding" where
  "get_extended g = dbind get_u32 (\<lambda>reserved.
     if reserved \<noteq> 0 then dfail E_unsupported_version else g)"

context wire_codec
begin

lemma extended_codec: "wire_codec (put_extended enc) (get_extended get) ok"
  by (rule wire_codecI) (force simp: get_extended_def put_extended_def u32.bind_Ok_iff guard_Ok_iff get_Ok_iff,
      simp add: get_extended_def put_extended_def codec_reads read_back)

lemma option_codec: "wire_codec (put_option enc) (get_option get) (pred_option ok)"
proof (rule wire_codecI)
  fix pre rest x d'
  assume "get_option get (dec_at pre rest) = Ok (x, d')"
  then obtain b rest' where "rest = bool_byte b # rest'"
      and "(if b then dbind get (\<lambda>x. dreturn (Some x)) else dreturn None) (dec_at (pre @ [bool_byte b]) rest') =
        Ok (x, d')"
    by (auto simp: get_option_def boolean.bind_Ok_iff)
  then show "pred_option ok x \<and> (\<exists>rest'. rest = wire (put_option enc x) @ rest' \<and>
      d' = dec_at (pre @ wire (put_option enc x)) rest')"
    by (cases b) (auto simp: put_option_def bind_Ok_iff dreturn_Ok_iff)
next
  fix pre rest x
  assume "pred_option ok x"
  then show "get_option get (dec_at pre (wire (put_option enc x) @ rest)) =
      Ok (x, dec_at (pre @ wire (put_option enc x)) rest)"
    by (cases x) (simp_all add: get_option_def put_option_def codec_reads bind_read)
qed

end

text \<open>
  A result code in a durable record. The decoder bounds it like the messages do; a value
  between two enumerators, which no encoder writes, is not represented and counts as invalid.
\<close>

definition error_table :: "EnsembleError list" where
  "error_table =
     [E_ok, E_invalid_argument, E_resource_limit_exceeded, E_unsupported_version, E_not_found,
      E_unknown_ensemble, E_unknown_execution, E_unknown_participant, E_unknown_candidate,
      E_unknown_evaluation, E_stale_ensemble_generation, E_stale_execution_generation,
      E_stale_participant_generation, E_stale_worker_boot, E_stale_coordinator_epoch,
      E_stale_candidate_generation, E_stale_evaluation_generation,
      E_participant_not_authoritative, E_participant_unavailable, E_participant_incompatible,
      E_participant_role_mismatch, E_participant_duplicate,
      E_participant_revalidation_required, E_participant_failed, E_required_participant_failed,
      E_malformed_candidate, E_malformed_evaluation, E_malformed_frame,
      E_malformed_persistence, E_checksum_mismatch, E_trailing_data, E_protocol_error,
      E_invalid_enum_value, E_invalid_identity_combination, E_payload_too_large,
      E_invalid_state_transition, E_duplicate_completion, E_duplicate_evaluation,
      E_conflicting_evaluation, E_duplicate_dispatch, E_execution_not_open,
      E_evaluation_target_mismatch, E_quorum_impossible, E_quorum_not_reached,
      E_insufficient_evidence, E_all_candidates_invalid, E_consensus_not_reached,
      E_disagreement_unresolved, E_tie_unresolved, E_fallback_not_authorized,
      E_fallback_exhausted, E_result_already_committed, E_conflicting_result_commit,
      E_no_eligible_candidate, E_ensemble_cancelled, E_ensemble_superseded,
      E_execution_cancelled, E_revalidation_required, E_persistence_io_error,
      E_persistence_corruption, E_transport_error, E_internal_error]"

definition error_of_value :: "error_value \<Rightarrow> EnsembleError option" where
  "error_of_value v = find (\<lambda>e. error_code e = v) error_table"

definition get_error :: "EnsembleError decoding" where
  "get_error = dbind get_error_value (\<lambda>v.
     case error_of_value v of None \<Rightarrow> dfail E_invalid_enum_value | Some e \<Rightarrow> dreturn e)"

lemma error_of_value_Some_iff: "error_of_value v = Some e \<longleftrightarrow> v = error_code e"
proof
  assume "error_of_value v = Some e"
  then show "v = error_code e" by (auto simp: error_of_value_def dest: find_SomeD)
next
  assume "v = error_code e"
  then show "error_of_value v = Some e" by (cases e) (simp_all add: error_of_value_def error_table_def)
qed

interpretation error_codec: wire_codec "\<lambda>e. [F_u16 (error_code e)]" get_error "\<lambda>_. True"
proof (rule wire_codecI)
  fix pre rest x d'
  assume "get_error (dec_at pre rest) = Ok (x, d')"
  then show "True \<and> (\<exists>rest'. rest = wire [F_u16 (error_code x)] @ rest' \<and>
      d' = dec_at (pre @ wire [F_u16 (error_code x)]) rest')"
    by (auto simp: get_error_def codec_binds error_of_value_Some_iff split: option.splits)
qed (simp add: get_error_def codec_reads error_of_value_Some_iff[THEN iffD2])

declare error_codec.bind_Ok_iff [codec_binds] error_codec.bind_read [simplified, codec_reads]

section \<open>Compatibility\<close>

definition put_compatibility_profile :: "CompatibilityProfile \<Rightarrow> Field list" where
  "put_compatibility_profile p =
     [F_u16 (pf_protocol_version p), F_u32 (pf_capability_mask p), F_u32 (pf_task_class p),
      F_u32 (pf_output_schema p), F_u32 (pf_model_family p), F_u32 (pf_backend_features p)]"

definition get_compatibility_profile :: "CompatibilityProfile decoding" where
  "get_compatibility_profile =
     dbind get_u16 (\<lambda>version. dbind get_u32 (\<lambda>capability. dbind get_u32 (\<lambda>task.
     dbind get_u32 (\<lambda>schema. dbind get_u32 (\<lambda>family. dbind get_u32 (\<lambda>features.
     dreturn \<lparr>pf_protocol_version = version, pf_capability_mask = capability, pf_task_class = task,
       pf_output_schema = schema, pf_model_family = family, pf_backend_features = features\<rparr>))))))"

interpretation profile_codec: wire_codec put_compatibility_profile get_compatibility_profile "\<lambda>_. True"
  by (rule wire_codecI, force simp: get_compatibility_profile_def put_compatibility_profile_def codec_binds, case_tac x)
    (simp add: get_compatibility_profile_def put_compatibility_profile_def codec_reads)

declare profile_codec.bind_Ok_iff [codec_binds] profile_codec.bind_read [simplified, codec_reads]

end
