(* ===== verification/Spec_Codec.thy ===== *)
theory Spec_Codec
  imports Field_Codecs
begin

text \<open>
  The durable encoding of a specification (the first part of \<^verbatim>\<open>src/fabric_persist.cpp\<close>):
  the records it is made of, one encoder and one bounded decoder each, and \<^verbatim>\<open>encode_spec\<close>
  and \<^verbatim>\<open>decode_spec\<close>, which add the extension word, the exhaustion check and the structural
  validation. A \<open>..._within\<close> predicate names the bounds that a decoder enforces.
\<close>

interpretation boolean_option_codec:
  wire_codec "put_option (\<lambda>v. [F_boolean v])" "get_option get_boolean" "\<lambda>_. True"
  using boolean.option_codec by (simp add: option.pred_True)

declare boolean_option_codec.bind_Ok_iff [codec_binds] boolean_option_codec.bind_read [codec_reads]
declare u64.vector_bind_Ok_iff [codec_binds] u64.vector_bind_read [codec_reads]
declare charstring.vector_bind_Ok_iff [codec_binds] charstring.vector_bind_read [codec_reads]
declare factor_codec.vector_bind_Ok_iff [codec_binds] factor_codec.vector_bind_read [codec_reads]
declare trigger_codec.vector_bind_Ok_iff [codec_binds] trigger_codec.vector_bind_read [codec_reads]
declare criterion_codec.vector_bind_Ok_iff [codec_binds] criterion_codec.vector_bind_read [codec_reads]

definition put_compatibility_requirement :: "CompatibilityRequirement \<Rightarrow> Field list" where
  "put_compatibility_requirement r =
     [F_u16 (rq_min_protocol_version r), F_u32 (rq_required_capabilities r),
      F_u32 (rq_required_task_class r), F_u32 (rq_required_output_schema r),
      F_u32 (rq_excluded_model_family r), F_u32 (rq_required_backend_features r),
      F_boolean (rq_require_model_family_diversity r)]"

definition get_compatibility_requirement :: "CompatibilityRequirement decoding" where
  "get_compatibility_requirement =
     dbind get_u16 (\<lambda>min_protocol_version. dbind get_u32 (\<lambda>required_capabilities.
     dbind get_u32 (\<lambda>required_task_class. dbind get_u32 (\<lambda>required_output_schema.
     dbind get_u32 (\<lambda>excluded_model_family. dbind get_u32 (\<lambda>required_backend_features.
     dbind get_boolean (\<lambda>require_model_family_diversity.
     dreturn \<lparr>rq_min_protocol_version = min_protocol_version,
       rq_required_capabilities = required_capabilities,
       rq_required_task_class = required_task_class,
       rq_required_output_schema = required_output_schema,
       rq_excluded_model_family = excluded_model_family,
       rq_required_backend_features = required_backend_features,
       rq_require_model_family_diversity = require_model_family_diversity\<rparr>)))))))"

interpretation compatibility_requirement_codec:
  wire_codec put_compatibility_requirement get_compatibility_requirement "\<lambda>_. True"
  by (rule wire_codecI,
      force simp: get_compatibility_requirement_def put_compatibility_requirement_def codec_binds,
      case_tac x)
    (simp add: get_compatibility_requirement_def put_compatibility_requirement_def codec_reads)

declare compatibility_requirement_codec.bind_Ok_iff [codec_binds]
  compatibility_requirement_codec.bind_read [codec_reads]

definition put_participant_spec :: "ParticipantSpec \<Rightarrow> Field list" where
  "put_participant_spec p =
     [F_u64 (ps_id p), F_string (ps_label p), F_u32 (ps_roles p), F_boolean (ps_required p),
      F_string (ps_domain p), F_u32 (ps_priority p), F_u32 (ps_execution_budget_units p)] @
     put_option (\<lambda>v. [F_boolean v]) (ps_selectable_override p) @
     put_compatibility_requirement (ps_compatibility p)"

definition get_participant_spec :: "Limits \<Rightarrow> ParticipantSpec decoding" where
  "get_participant_spec l =
     dbind get_u64 (\<lambda>id. dbind (get_string (max_label_bytes l)) (\<lambda>label. dbind get_roles (\<lambda>roles.
     dbind get_boolean (\<lambda>required. dbind (get_string (max_metadata_bytes l)) (\<lambda>domain.
     dbind get_u32 (\<lambda>priority. dbind get_u32 (\<lambda>execution_budget_units.
     dbind (get_option get_boolean) (\<lambda>selectable_override.
     dbind get_compatibility_requirement (\<lambda>compatibility.
     dreturn \<lparr>ps_id = id, ps_label = label, ps_roles = roles, ps_required = required,
       ps_domain = domain, ps_priority = priority,
       ps_execution_budget_units = execution_budget_units,
       ps_selectable_override = selectable_override, ps_compatibility = compatibility\<rparr>)))))))))"

definition participant_spec_within :: "Limits \<Rightarrow> ParticipantSpec \<Rightarrow> bool" where
  "participant_spec_within l p \<longleftrightarrow>
     within (max_label_bytes l) (ps_label p) \<and> known_roles (ps_roles p) \<and>
     within (max_metadata_bytes l) (ps_domain p)"

interpretation participant_spec_codec:
  wire_codec put_participant_spec "get_participant_spec l" "participant_spec_within l" for l
  by (rule wire_codecI,
      force simp: get_participant_spec_def put_participant_spec_def participant_spec_within_def codec_binds,
      case_tac x)
    (simp add: get_participant_spec_def put_participant_spec_def participant_spec_within_def codec_reads)

declare participant_spec_codec.bind_Ok_iff [codec_binds]
  participant_spec_codec.bind_read [codec_reads]
declare participant_spec_codec.vector_bind_Ok_iff [codec_binds]
  participant_spec_codec.vector_bind_read [codec_reads]

definition put_stage_spec :: "StageSpec \<Rightarrow> Field list" where
  "put_stage_spec s =
     [F_u64 (st_id s), F_string (st_label s), F_u8 (topology_code (st_mode s))] @
     vector_fields (\<lambda>v. [F_u64 v]) (st_participants s) @
     vector_fields (\<lambda>v. [F_string v]) (st_required_domains s) @
     [F_boolean (st_fallback_stage s)]"

definition get_stage_spec :: "Limits \<Rightarrow> StageSpec decoding" where
  "get_stage_spec l =
     dbind get_u64 (\<lambda>id. dbind (get_string (max_label_bytes l)) (\<lambda>label.
     dbind get_topology (\<lambda>mode.
     dbind (get_vector (max_parallel_branches l) get_u64) (\<lambda>participants.
     dbind (get_vector (max_participants_per_ensemble l) (get_string (max_metadata_bytes l))) (\<lambda>required_domains.
     dbind get_boolean (\<lambda>fallback_stage.
     dreturn \<lparr>st_id = id, st_label = label, st_mode = mode,
       st_participants = participants, st_required_domains = required_domains,
       st_fallback_stage = fallback_stage\<rparr>))))))"

definition stage_spec_within :: "Limits \<Rightarrow> StageSpec \<Rightarrow> bool" where
  "stage_spec_within l s \<longleftrightarrow>
     within (max_label_bytes l) (st_label s) \<and>
     within (max_parallel_branches l) (st_participants s) \<and>
     within (max_participants_per_ensemble l) (st_required_domains s) \<and>
     list_all (within (max_metadata_bytes l)) (st_required_domains s)"

interpretation stage_spec_codec:
  wire_codec put_stage_spec "get_stage_spec l" "stage_spec_within l" for l
  by (rule wire_codecI,
      force simp: get_stage_spec_def put_stage_spec_def stage_spec_within_def codec_binds,
      case_tac x)
    (simp add: get_stage_spec_def put_stage_spec_def stage_spec_within_def codec_reads)

declare stage_spec_codec.bind_Ok_iff [codec_binds]
  stage_spec_codec.bind_read [codec_reads]
declare stage_spec_codec.vector_bind_Ok_iff [codec_binds]
  stage_spec_codec.vector_bind_read [codec_reads]

definition put_role_quota :: "RoleQuota \<Rightarrow> Field list" where
  "put_role_quota q =
     [F_u8 (role_code (q_role q)), F_u32 (q_min_count q)]"

definition get_role_quota :: "RoleQuota decoding" where
  "get_role_quota =
     dbind get_role (\<lambda>role. dbind get_u32 (\<lambda>min_count.
     dreturn \<lparr>q_role = role, q_min_count = min_count\<rparr>))"

interpretation role_quota_codec:
  wire_codec put_role_quota get_role_quota "\<lambda>_. True"
  by (rule wire_codecI,
      force simp: get_role_quota_def put_role_quota_def codec_binds,
      case_tac x)
    (simp add: get_role_quota_def put_role_quota_def codec_reads)

declare role_quota_codec.bind_Ok_iff [codec_binds]
  role_quota_codec.bind_read [codec_reads]
declare role_quota_codec.vector_bind_Ok_iff [codec_binds]
  role_quota_codec.vector_bind_read [codec_reads]

definition put_quorum_policy :: "QuorumPolicy \<Rightarrow> Field list" where
  "put_quorum_policy p =
     [F_u32 (qp_min_participants p)] @
     vector_fields put_role_quota (qp_role_quota p) @
     [F_u32 (qp_min_evaluations p), F_u32 (qp_min_valid_candidates p),
      F_u32 (qp_consensus_threshold_percent p), F_u8 (vote_basis_code (qp_vote_basis p)),
      F_boolean (qp_count_abstentions p), F_boolean (qp_count_optional_participants p),
      F_boolean (qp_count_failed_in_denominator p),
      F_boolean (qp_count_unavailable_in_denominator p), F_u32 (qp_max_failures p),
      F_u32 (qp_max_abstentions p)]"

definition get_quorum_policy :: "Limits \<Rightarrow> QuorumPolicy decoding" where
  "get_quorum_policy l =
     dbind get_u32 (\<lambda>min_participants.
     dbind (get_vector (max_role_quota_entries l) get_role_quota) (\<lambda>role_quota.
     dbind get_u32 (\<lambda>min_evaluations. dbind get_u32 (\<lambda>min_valid_candidates.
     dbind get_u32 (\<lambda>consensus_threshold_percent. dbind get_vote_basis (\<lambda>vote_basis.
     dbind get_boolean (\<lambda>count_abstentions. dbind get_boolean (\<lambda>count_optional_participants.
     dbind get_boolean (\<lambda>count_failed_in_denominator.
     dbind get_boolean (\<lambda>count_unavailable_in_denominator. dbind get_u32 (\<lambda>max_failures.
     dbind get_u32 (\<lambda>max_abstentions.
     dreturn \<lparr>qp_min_participants = min_participants, qp_role_quota = role_quota,
       qp_min_evaluations = min_evaluations, qp_min_valid_candidates = min_valid_candidates,
       qp_consensus_threshold_percent = consensus_threshold_percent,
       qp_vote_basis = vote_basis, qp_count_abstentions = count_abstentions,
       qp_count_optional_participants = count_optional_participants,
       qp_count_failed_in_denominator = count_failed_in_denominator,
       qp_count_unavailable_in_denominator = count_unavailable_in_denominator,
       qp_max_failures = max_failures, qp_max_abstentions = max_abstentions\<rparr>))))))))))))"

definition quorum_policy_within :: "Limits \<Rightarrow> QuorumPolicy \<Rightarrow> bool" where
  "quorum_policy_within l p \<longleftrightarrow>
     within (max_role_quota_entries l) (qp_role_quota p)"

interpretation quorum_policy_codec:
  wire_codec put_quorum_policy "get_quorum_policy l" "quorum_policy_within l" for l
  by (rule wire_codecI,
      force simp: get_quorum_policy_def put_quorum_policy_def quorum_policy_within_def codec_binds,
      case_tac x)
    (simp add: get_quorum_policy_def put_quorum_policy_def quorum_policy_within_def codec_reads)

declare quorum_policy_codec.bind_Ok_iff [codec_binds]
  quorum_policy_codec.bind_read [codec_reads]

definition put_evidence_requirement :: "EvidenceRequirement \<Rightarrow> Field list" where
  "put_evidence_requirement e =
     [F_u32 (ev_min_candidate_payload_bytes e), F_u32 (ev_min_evaluations_per_candidate e),
      F_boolean (ev_require_rationale e)] @
     vector_fields put_criterion (ev_mandatory_criteria e) @
     [F_boolean (ev_unknown_verification_is_failure e), F_boolean (ev_abstention_is_failure e)]"

definition get_evidence_requirement :: "Limits \<Rightarrow> EvidenceRequirement decoding" where
  "get_evidence_requirement l =
     dbind get_u32 (\<lambda>min_candidate_payload_bytes.
     (if max_candidate_payload_bytes l < min_candidate_payload_bytes then dfail E_resource_limit_exceeded else
     dbind get_u32 (\<lambda>min_evaluations_per_candidate. dbind get_boolean (\<lambda>require_rationale.
     dbind (get_vector (max_role_quota_entries l * 4) get_criterion) (\<lambda>mandatory_criteria.
     dbind get_boolean (\<lambda>unknown_verification_is_failure.
     dbind get_boolean (\<lambda>abstention_is_failure.
     dreturn \<lparr>ev_min_candidate_payload_bytes = min_candidate_payload_bytes,
       ev_min_evaluations_per_candidate = min_evaluations_per_candidate,
       ev_require_rationale = require_rationale, ev_mandatory_criteria = mandatory_criteria,
       ev_unknown_verification_is_failure = unknown_verification_is_failure,
       ev_abstention_is_failure = abstention_is_failure\<rparr>)))))))"

definition evidence_requirement_within :: "Limits \<Rightarrow> EvidenceRequirement \<Rightarrow> bool" where
  "evidence_requirement_within l e \<longleftrightarrow>
     within (max_role_quota_entries l * 4) (ev_mandatory_criteria e) \<and>
     \<not> max_candidate_payload_bytes l < ev_min_candidate_payload_bytes e"

interpretation evidence_requirement_codec:
  wire_codec put_evidence_requirement "get_evidence_requirement l" "evidence_requirement_within l" for l
  by (rule wire_codecI,
      force simp: get_evidence_requirement_def put_evidence_requirement_def evidence_requirement_within_def codec_binds,
      case_tac x)
    (simp add: get_evidence_requirement_def put_evidence_requirement_def evidence_requirement_within_def codec_reads)

declare evidence_requirement_codec.bind_Ok_iff [codec_binds]
  evidence_requirement_codec.bind_read [codec_reads]

definition put_aggregation :: "AggregationPolicy \<Rightarrow> Field list" where
  "put_aggregation a =
     [F_u8 (aggregation_kind_code (ag_kind a)), F_boolean (ag_use_weights a),
      F_boolean (ag_require_verification_pass a), F_boolean (ag_require_judge_acceptance a),
      F_f64 (ag_min_aggregate_score a), F_f64 (ag_min_judge_acceptance_ratio a)]"

definition get_aggregation :: "AggregationPolicy decoding" where
  "get_aggregation =
     dbind get_aggregation_kind (\<lambda>kind. dbind get_boolean (\<lambda>use_weights.
     dbind get_boolean (\<lambda>require_verification_pass. dbind get_boolean (\<lambda>require_judge_acceptance.
     dbind get_f64 (\<lambda>min_aggregate_score. dbind get_f64 (\<lambda>min_judge_acceptance_ratio.
     dreturn \<lparr>ag_kind = kind, ag_use_weights = use_weights,
       ag_require_verification_pass = require_verification_pass,
       ag_require_judge_acceptance = require_judge_acceptance,
       ag_min_aggregate_score = min_aggregate_score,
       ag_min_judge_acceptance_ratio = min_judge_acceptance_ratio\<rparr>))))))"

interpretation aggregation_codec:
  wire_codec put_aggregation get_aggregation "\<lambda>_. True"
  by (rule wire_codecI,
      force simp: get_aggregation_def put_aggregation_def codec_binds,
      case_tac x)
    (simp add: get_aggregation_def put_aggregation_def codec_reads)

declare aggregation_codec.bind_Ok_iff [codec_binds]
  aggregation_codec.bind_read [codec_reads]

definition put_arbitration :: "ArbitrationPolicy \<Rightarrow> Field list" where
  "put_arbitration a =
     vector_fields (\<lambda>x. [F_u8 (factor_code x)]) (ab_factors a) @
     [F_u8 (tie_break_code (ab_tie_break a)), F_boolean (ab_require_unique_winner a),
      F_u32 (ab_max_selected a)]"

definition get_arbitration :: "ArbitrationPolicy decoding" where
  "get_arbitration =
     dbind (get_vector 16 get_factor) (\<lambda>factors. dbind get_tie_break (\<lambda>tie_break.
     dbind get_boolean (\<lambda>require_unique_winner. dbind get_u32 (\<lambda>max_selected.
     dreturn \<lparr>ab_factors = factors, ab_tie_break = tie_break,
       ab_require_unique_winner = require_unique_winner, ab_max_selected = max_selected\<rparr>))))"

definition arbitration_within :: "ArbitrationPolicy \<Rightarrow> bool" where
  "arbitration_within a \<longleftrightarrow>
     within 16 (ab_factors a)"

interpretation arbitration_codec:
  wire_codec put_arbitration get_arbitration arbitration_within
  by (rule wire_codecI,
      force simp: get_arbitration_def put_arbitration_def arbitration_within_def codec_binds,
      case_tac x)
    (simp add: get_arbitration_def put_arbitration_def arbitration_within_def codec_reads)

declare arbitration_codec.bind_Ok_iff [codec_binds]
  arbitration_codec.bind_read [codec_reads]

definition put_fallback :: "FallbackPolicy \<Rightarrow> Field list" where
  "put_fallback f =
     [F_boolean (fb_enabled f)] @
     vector_fields (\<lambda>x. [F_u8 (trigger_code x)]) (fb_triggers f) @
     vector_fields (\<lambda>v. [F_u64 v]) (fb_fallback_participants f) @
     [F_boolean (fb_eager_speculative f), F_u32 (fb_max_depth f)]"

definition get_fallback :: "Limits \<Rightarrow> FallbackPolicy decoding" where
  "get_fallback l =
     dbind get_boolean (\<lambda>enabled. dbind (get_vector 8 get_trigger) (\<lambda>triggers.
     dbind (get_vector (max_participants_per_ensemble l) get_u64) (\<lambda>fallback_participants.
     dbind get_boolean (\<lambda>eager_speculative. dbind get_u32 (\<lambda>max_depth.
     dreturn \<lparr>fb_enabled = enabled, fb_triggers = triggers,
       fb_fallback_participants = fallback_participants,
       fb_eager_speculative = eager_speculative, fb_max_depth = max_depth\<rparr>)))))"

definition fallback_within :: "Limits \<Rightarrow> FallbackPolicy \<Rightarrow> bool" where
  "fallback_within l f \<longleftrightarrow>
     within 8 (fb_triggers f) \<and>
     within (max_participants_per_ensemble l) (fb_fallback_participants f)"

interpretation fallback_codec:
  wire_codec put_fallback "get_fallback l" "fallback_within l" for l
  by (rule wire_codecI,
      force simp: get_fallback_def put_fallback_def fallback_within_def codec_binds,
      case_tac x)
    (simp add: get_fallback_def put_fallback_def fallback_within_def codec_reads)

declare fallback_codec.bind_Ok_iff [codec_binds]
  fallback_codec.bind_read [codec_reads]

definition put_completion :: "CompletionPolicy \<Rightarrow> Field list" where
  "put_completion c =
     [F_boolean (cp_require_consensus c), F_boolean (cp_require_all_required_participants c),
      F_boolean (cp_allow_partial_results c)]"

definition get_completion :: "CompletionPolicy decoding" where
  "get_completion =
     dbind get_boolean (\<lambda>require_consensus.
     dbind get_boolean (\<lambda>require_all_required_participants.
     dbind get_boolean (\<lambda>allow_partial_results.
     dreturn \<lparr>cp_require_consensus = require_consensus,
       cp_require_all_required_participants = require_all_required_participants,
       cp_allow_partial_results = allow_partial_results\<rparr>)))"

interpretation completion_codec:
  wire_codec put_completion get_completion "\<lambda>_. True"
  by (rule wire_codecI,
      force simp: get_completion_def put_completion_def codec_binds,
      case_tac x)
    (simp add: get_completion_def put_completion_def codec_reads)

declare completion_codec.bind_Ok_iff [codec_binds]
  completion_codec.bind_read [codec_reads]

definition put_retry :: "RetryPolicy \<Rightarrow> Field list" where
  "put_retry r =
     [F_u32 (rt_max_attempts r), F_boolean (rt_retry_on_unavailable r),
      F_boolean (rt_retry_on_transport_error r), F_boolean (rt_retry_on_malformed_candidate r),
      F_boolean (rt_retry_on_participant_failed r), F_boolean (rt_replace_participant r),
      F_boolean (rt_rerun_evaluations r)]"

definition get_retry :: "RetryPolicy decoding" where
  "get_retry =
     dbind get_u32 (\<lambda>max_attempts. dbind get_boolean (\<lambda>retry_on_unavailable.
     dbind get_boolean (\<lambda>retry_on_transport_error.
     dbind get_boolean (\<lambda>retry_on_malformed_candidate.
     dbind get_boolean (\<lambda>retry_on_participant_failed. dbind get_boolean (\<lambda>replace_participant.
     dbind get_boolean (\<lambda>rerun_evaluations.
     dreturn \<lparr>rt_max_attempts = max_attempts,
       rt_retry_on_unavailable = retry_on_unavailable,
       rt_retry_on_transport_error = retry_on_transport_error,
       rt_retry_on_malformed_candidate = retry_on_malformed_candidate,
       rt_retry_on_participant_failed = retry_on_participant_failed,
       rt_replace_participant = replace_participant, rt_rerun_evaluations = rerun_evaluations\<rparr>)))))))"

interpretation retry_codec:
  wire_codec put_retry get_retry "\<lambda>_. True"
  by (rule wire_codecI,
      force simp: get_retry_def put_retry_def codec_binds,
      case_tac x)
    (simp add: get_retry_def put_retry_def codec_reads)

declare retry_codec.bind_Ok_iff [codec_binds]
  retry_codec.bind_read [codec_reads]

definition put_cancellation :: "CancellationPolicy \<Rightarrow> Field list" where
  "put_cancellation c =
     [F_boolean (cn_cancel_on_required_failure c),
      F_boolean (cn_cancel_on_quorum_impossible c), F_boolean (cn_preserve_committed_results c)]"

definition get_cancellation :: "CancellationPolicy decoding" where
  "get_cancellation =
     dbind get_boolean (\<lambda>cancel_on_required_failure.
     dbind get_boolean (\<lambda>cancel_on_quorum_impossible.
     dbind get_boolean (\<lambda>preserve_committed_results.
     dreturn \<lparr>cn_cancel_on_required_failure = cancel_on_required_failure,
       cn_cancel_on_quorum_impossible = cancel_on_quorum_impossible,
       cn_preserve_committed_results = preserve_committed_results\<rparr>)))"

interpretation cancellation_codec:
  wire_codec put_cancellation get_cancellation "\<lambda>_. True"
  by (rule wire_codecI,
      force simp: get_cancellation_def put_cancellation_def codec_binds,
      case_tac x)
    (simp add: get_cancellation_def put_cancellation_def codec_reads)

declare cancellation_codec.bind_Ok_iff [codec_binds]
  cancellation_codec.bind_read [codec_reads]

definition put_spec :: "EnsembleSpec \<Rightarrow> Field list" where
  "put_spec s =
     [F_u64 (sp_id s), F_u64 (sp_generation s), F_string (sp_label s),
      F_string (sp_task_class s), F_u32 (sp_task_class_id s), F_u64 (sp_fingerprint s)] @
     vector_fields put_participant_spec (sp_participants s) @
     vector_fields put_stage_spec (sp_stages s) @
     put_quorum_policy (sp_quorum s) @
     put_aggregation (sp_aggregation s) @
     put_arbitration (sp_arbitration s) @
     put_fallback (sp_fallback s) @
     put_completion (sp_completion s) @
     put_retry (sp_retry s) @
     put_cancellation (sp_cancellation s) @
     put_evidence_requirement (sp_evidence s) @
     vector_fields put_criterion (sp_judging_criteria s) @
     put_compatibility_requirement (sp_requirements s) @
     [F_u32 (sp_overall_budget_units s), F_u64 (sp_deterministic_seed s)]"

definition get_ensemble_spec :: "Limits \<Rightarrow> EnsembleSpec decoding" where
  "get_ensemble_spec l =
     dbind get_u64 (\<lambda>id. dbind get_u64 (\<lambda>generation.
     dbind (get_string (max_label_bytes l)) (\<lambda>label.
     dbind (get_string (max_metadata_bytes l)) (\<lambda>task_class. dbind get_u32 (\<lambda>task_class_id.
     dbind get_u64 (\<lambda>fingerprint.
     dbind (get_vector (max_participants_per_ensemble l) (get_participant_spec l)) (\<lambda>participants.
     dbind (get_vector (max_stages_per_ensemble l) (get_stage_spec l)) (\<lambda>stages.
     dbind (get_quorum_policy l) (\<lambda>quorum. dbind get_aggregation (\<lambda>aggregation.
     dbind get_arbitration (\<lambda>arbitration. dbind (get_fallback l) (\<lambda>fallback.
     dbind get_completion (\<lambda>completion. dbind get_retry (\<lambda>retry.
     dbind get_cancellation (\<lambda>cancellation. dbind (get_evidence_requirement l) (\<lambda>evidence.
     dbind (get_vector 16 get_criterion) (\<lambda>judging_criteria.
     dbind get_compatibility_requirement (\<lambda>requirements. dbind get_u32 (\<lambda>overall_budget_units.
     dbind get_u64 (\<lambda>deterministic_seed.
     dreturn \<lparr>sp_id = id, sp_generation = generation, sp_label = label,
       sp_task_class = task_class, sp_task_class_id = task_class_id,
       sp_participants = participants, sp_stages = stages, sp_quorum = quorum,
       sp_aggregation = aggregation, sp_arbitration = arbitration, sp_fallback = fallback,
       sp_completion = completion, sp_retry = retry, sp_cancellation = cancellation,
       sp_evidence = evidence, sp_judging_criteria = judging_criteria,
       sp_requirements = requirements, sp_overall_budget_units = overall_budget_units,
       sp_deterministic_seed = deterministic_seed, sp_fingerprint = fingerprint\<rparr>))))))))))))))))))))"

definition spec_within :: "Limits \<Rightarrow> EnsembleSpec \<Rightarrow> bool" where
  "spec_within l s \<longleftrightarrow>
     within (max_label_bytes l) (sp_label s) \<and>
     within (max_metadata_bytes l) (sp_task_class s) \<and>
     within (max_participants_per_ensemble l) (sp_participants s) \<and>
     list_all (participant_spec_within l) (sp_participants s) \<and>
     within (max_stages_per_ensemble l) (sp_stages s) \<and>
     list_all (stage_spec_within l) (sp_stages s) \<and>
     quorum_policy_within l (sp_quorum s) \<and> arbitration_within (sp_arbitration s) \<and>
     fallback_within l (sp_fallback s) \<and>
     evidence_requirement_within l (sp_evidence s) \<and> within 16 (sp_judging_criteria s)"

interpretation spec_codec:
  wire_codec put_spec "get_ensemble_spec l" "spec_within l" for l
  by (rule wire_codecI,
      force simp: get_ensemble_spec_def put_spec_def spec_within_def codec_binds,
      case_tac x)
    (simp add: get_ensemble_spec_def put_spec_def spec_within_def codec_reads)

declare spec_codec.bind_Ok_iff [codec_binds]
  spec_codec.bind_read [codec_reads]

section \<open>The encoding of a specification\<close>

definition encode_spec :: "EnsembleSpec \<Rightarrow> Limits \<Rightarrow> bytes" where
  "encode_spec spec l = enc_buffer (put_fields (put_extended put_spec spec) (new_encoder l))"

definition decode_spec :: "bytes \<Rightarrow> Limits \<Rightarrow> EnsembleSpec outcome" where
  "decode_spec data l =
     (case decode_exactly (get_extended (get_ensemble_spec l)) data of
        Err e \<Rightarrow> fail e
      | Ok spec \<Rightarrow> (case validate_spec spec l of Err e \<Rightarrow> fail e | Ok _ \<Rightarrow> Ok spec))"

interpretation extended_spec_codec:
  wire_codec "put_extended put_spec" "get_extended (get_ensemble_spec l)" "spec_within l" for l
  by (rule spec_codec.extended_codec)

text \<open>The bytes of a specification when the encoder has room for them.\<close>

definition spec_bytes :: "EnsembleSpec \<Rightarrow> bytes" where
  "spec_bytes spec = wire (put_extended put_spec spec)"

lemma encode_spec_eq:
  "length (spec_bytes spec) \<le> unat (max_persistence_bytes l) \<Longrightarrow> encode_spec spec l = spec_bytes spec"
  by (simp add: encode_spec_def spec_bytes_def put_fields_new)

lemma decode_spec_Ok_iff:
  "decode_spec data l = Ok spec \<longleftrightarrow>
     spec_within l spec \<and> is_ok (validate_spec spec l) \<and> data = spec_bytes spec"
proof -
  have "decode_spec data l = Ok spec \<longleftrightarrow>
      decode_exactly (get_extended (get_ensemble_spec l)) data = Ok spec \<and> is_ok (validate_spec spec l)"
    by (auto simp: decode_spec_def is_ok_def split: outcome.splits)
  then show ?thesis by (auto simp: extended_spec_codec.decode_exactly_iff spec_bytes_def)
qed

end
