(* ===== verification/Result_Codec.thy ===== *)
theory Result_Codec
  imports Spec_Codec
begin

text \<open>
  The durable encoding of results (the second part of \<^verbatim>\<open>src/fabric_persist.cpp\<close>): the three
  reports, the candidate and evaluation snapshots, the participant outcomes and the result
  that holds them, which clients receive and state files keep.
\<close>

definition put_quorum_report :: "QuorumReport \<Rightarrow> Field list" where
  "put_quorum_report r =
     [F_u8 (quorum_state_code (qr_state r)), F_u8 (vote_basis_code (qr_basis r)),
      F_u32 (qr_denominator r), F_u32 (qr_contributors r), F_u32 (qr_abstentions r),
      F_u32 (qr_failures r), F_u32 (qr_excluded_optional r), F_u32 (qr_excluded_unavailable r),
      F_u32 (qr_excluded_stale r), F_u32 (qr_required_total r), F_u32 (qr_required_present r),
      F_u32 (qr_evaluations r), F_u32 (qr_valid_candidates r),
      F_u32 (qr_duplicate_votes_suppressed r), F_u32 (qr_stale_votes_rejected r),
      F_u32 (qr_threshold_percent r), F_u32 (qr_threshold_count r), F_u32 (qr_leading_votes r),
      F_u32 (qr_role_quota_met r), F_u32 (qr_role_quota_required r),
      F_boolean (qr_failure_budget_exceeded r), F_boolean (qr_abstention_budget_exceeded r),
      F_u64 (qr_ensemble_generation r), F_u64 (qr_coordinator_epoch r),
      F_u64 (qr_computed_sequence r)] @
     vector_fields (\<lambda>v. [F_u64 v]) (qr_members r) @
     vector_fields (\<lambda>v. [F_u64 v]) (qr_member_generations r) @
     vector_fields (\<lambda>v. [F_u64 v]) (qr_contributors_list r) @
     vector_fields (\<lambda>v. [F_u64 v]) (qr_abstaining_members r) @
     vector_fields (\<lambda>v. [F_u64 v]) (qr_failed_members r) @
     vector_fields (\<lambda>v. [F_string v]) (qr_notes r)"

definition get_quorum_report :: "Limits \<Rightarrow> QuorumReport decoding" where
  "get_quorum_report l =
     dbind get_quorum_state (\<lambda>state. dbind get_vote_basis (\<lambda>basis. dbind get_u32 (\<lambda>denominator.
     dbind get_u32 (\<lambda>contributors. dbind get_u32 (\<lambda>abstentions. dbind get_u32 (\<lambda>failures.
     dbind get_u32 (\<lambda>excluded_optional. dbind get_u32 (\<lambda>excluded_unavailable.
     dbind get_u32 (\<lambda>excluded_stale. dbind get_u32 (\<lambda>required_total.
     dbind get_u32 (\<lambda>required_present. dbind get_u32 (\<lambda>evaluations.
     dbind get_u32 (\<lambda>valid_candidates. dbind get_u32 (\<lambda>duplicate_votes_suppressed.
     dbind get_u32 (\<lambda>stale_votes_rejected. dbind get_u32 (\<lambda>threshold_percent.
     dbind get_u32 (\<lambda>threshold_count. dbind get_u32 (\<lambda>leading_votes.
     dbind get_u32 (\<lambda>role_quota_met. dbind get_u32 (\<lambda>role_quota_required.
     dbind get_boolean (\<lambda>failure_budget_exceeded. dbind get_boolean (\<lambda>abstention_budget_exceeded.
     dbind get_u64 (\<lambda>ensemble_generation. dbind get_u64 (\<lambda>coordinator_epoch.
     dbind get_u64 (\<lambda>computed_sequence.
     dbind (get_vector (max_participants_per_ensemble l) get_u64) (\<lambda>members.
     dbind (get_vector (max_participants_per_ensemble l) get_u64) (\<lambda>member_generations.
     dbind (get_vector (max_participants_per_ensemble l) get_u64) (\<lambda>contributors_list.
     dbind (get_vector (max_participants_per_ensemble l) get_u64) (\<lambda>abstaining_members.
     dbind (get_vector (max_participants_per_ensemble l) get_u64) (\<lambda>failed_members.
     dbind (get_vector (max_explanation_entries l) (get_string (max_metadata_bytes l))) (\<lambda>notes.
     dreturn \<lparr>qr_state = state, qr_basis = basis, qr_denominator = denominator,
       qr_contributors = contributors, qr_abstentions = abstentions, qr_failures = failures,
       qr_excluded_optional = excluded_optional,
       qr_excluded_unavailable = excluded_unavailable, qr_excluded_stale = excluded_stale,
       qr_required_total = required_total, qr_required_present = required_present,
       qr_evaluations = evaluations, qr_valid_candidates = valid_candidates,
       qr_duplicate_votes_suppressed = duplicate_votes_suppressed,
       qr_stale_votes_rejected = stale_votes_rejected,
       qr_threshold_percent = threshold_percent, qr_threshold_count = threshold_count,
       qr_leading_votes = leading_votes, qr_role_quota_met = role_quota_met,
       qr_role_quota_required = role_quota_required,
       qr_failure_budget_exceeded = failure_budget_exceeded,
       qr_abstention_budget_exceeded = abstention_budget_exceeded,
       qr_ensemble_generation = ensemble_generation, qr_coordinator_epoch = coordinator_epoch,
       qr_computed_sequence = computed_sequence, qr_members = members,
       qr_member_generations = member_generations, qr_contributors_list = contributors_list,
       qr_abstaining_members = abstaining_members, qr_failed_members = failed_members,
       qr_notes = notes\<rparr>)))))))))))))))))))))))))))))))"

definition quorum_report_within :: "Limits \<Rightarrow> QuorumReport \<Rightarrow> bool" where
  "quorum_report_within l r \<longleftrightarrow>
     within (max_participants_per_ensemble l) (qr_members r) \<and>
     within (max_participants_per_ensemble l) (qr_member_generations r) \<and>
     within (max_participants_per_ensemble l) (qr_contributors_list r) \<and>
     within (max_participants_per_ensemble l) (qr_abstaining_members r) \<and>
     within (max_participants_per_ensemble l) (qr_failed_members r) \<and>
     within (max_explanation_entries l) (qr_notes r) \<and>
     list_all (within (max_metadata_bytes l)) (qr_notes r)"

interpretation quorum_report_codec:
  wire_codec put_quorum_report "get_quorum_report l" "quorum_report_within l" for l
  by (rule wire_codecI,
      force simp: get_quorum_report_def put_quorum_report_def quorum_report_within_def codec_binds,
      case_tac x)
    (simp add: get_quorum_report_def put_quorum_report_def quorum_report_within_def codec_reads)

declare quorum_report_codec.bind_Ok_iff [codec_binds]
  quorum_report_codec.bind_read [codec_reads]

definition put_consensus_report :: "ConsensusReport \<Rightarrow> Field list" where
  "put_consensus_report r =
     [F_u8 (consensus_state_code (cr_state r)), F_u64 (cr_leading_candidate r),
      F_u64 (cr_leading_generation r), F_u64 (cr_leading_participant r), F_u32 (cr_agreeing r),
      F_u32 (cr_disagreeing r), F_u32 (cr_abstaining r), F_u32 (cr_missing r),
      F_u32 (cr_invalid_candidates r), F_u32 (cr_eligible_candidates r),
      F_u32 (cr_candidates_declared r), F_u32 (cr_threshold_percent r),
      F_u32 (cr_threshold_count r), F_u32 (cr_vote_basis r), F_u32 (cr_runner_up_votes r),
      F_boolean (cr_unresolved_disagreement r), F_u64 (cr_ensemble_generation r),
      F_u64 (cr_coordinator_epoch r), F_u64 (cr_computed_sequence r)] @
     vector_fields (\<lambda>v. [F_u64 v]) (cr_agreeing_members r) @
     vector_fields (\<lambda>v. [F_u64 v]) (cr_disagreeing_members r) @
     vector_fields (\<lambda>v. [F_u64 v]) (cr_abstaining_members r) @
     vector_fields (\<lambda>v. [F_u64 v]) (cr_missing_members r) @
     vector_fields (\<lambda>v. [F_u64 v]) (cr_eligible_candidates_list r)"

definition get_consensus_report :: "Limits \<Rightarrow> ConsensusReport decoding" where
  "get_consensus_report l =
     dbind get_consensus_state (\<lambda>state. dbind get_u64 (\<lambda>leading_candidate.
     dbind get_u64 (\<lambda>leading_generation. dbind get_u64 (\<lambda>leading_participant.
     dbind get_u32 (\<lambda>agreeing. dbind get_u32 (\<lambda>disagreeing. dbind get_u32 (\<lambda>abstaining.
     dbind get_u32 (\<lambda>missing. dbind get_u32 (\<lambda>invalid_candidates.
     dbind get_u32 (\<lambda>eligible_candidates. dbind get_u32 (\<lambda>candidates_declared.
     dbind get_u32 (\<lambda>threshold_percent. dbind get_u32 (\<lambda>threshold_count.
     dbind get_u32 (\<lambda>vote_basis. dbind get_u32 (\<lambda>runner_up_votes.
     dbind get_boolean (\<lambda>unresolved_disagreement. dbind get_u64 (\<lambda>ensemble_generation.
     dbind get_u64 (\<lambda>coordinator_epoch. dbind get_u64 (\<lambda>computed_sequence.
     dbind (get_vector (max_participants_per_ensemble l) get_u64) (\<lambda>agreeing_members.
     dbind (get_vector (max_participants_per_ensemble l) get_u64) (\<lambda>disagreeing_members.
     dbind (get_vector (max_participants_per_ensemble l) get_u64) (\<lambda>abstaining_members.
     dbind (get_vector (max_participants_per_ensemble l) get_u64) (\<lambda>missing_members.
     dbind (get_vector (max_candidates_per_execution l) get_u64) (\<lambda>eligible_candidates_list.
     dreturn \<lparr>cr_state = state, cr_leading_candidate = leading_candidate,
       cr_leading_generation = leading_generation,
       cr_leading_participant = leading_participant, cr_agreeing = agreeing,
       cr_disagreeing = disagreeing, cr_abstaining = abstaining, cr_missing = missing,
       cr_invalid_candidates = invalid_candidates,
       cr_eligible_candidates = eligible_candidates,
       cr_candidates_declared = candidates_declared, cr_threshold_percent = threshold_percent,
       cr_threshold_count = threshold_count, cr_vote_basis = vote_basis,
       cr_runner_up_votes = runner_up_votes,
       cr_unresolved_disagreement = unresolved_disagreement,
       cr_ensemble_generation = ensemble_generation, cr_coordinator_epoch = coordinator_epoch,
       cr_computed_sequence = computed_sequence, cr_agreeing_members = agreeing_members,
       cr_disagreeing_members = disagreeing_members,
       cr_abstaining_members = abstaining_members, cr_missing_members = missing_members,
       cr_eligible_candidates_list = eligible_candidates_list\<rparr>))))))))))))))))))))))))"

definition consensus_report_within :: "Limits \<Rightarrow> ConsensusReport \<Rightarrow> bool" where
  "consensus_report_within l r \<longleftrightarrow>
     within (max_participants_per_ensemble l) (cr_agreeing_members r) \<and>
     within (max_participants_per_ensemble l) (cr_disagreeing_members r) \<and>
     within (max_participants_per_ensemble l) (cr_abstaining_members r) \<and>
     within (max_participants_per_ensemble l) (cr_missing_members r) \<and>
     within (max_candidates_per_execution l) (cr_eligible_candidates_list r)"

interpretation consensus_report_codec:
  wire_codec put_consensus_report "get_consensus_report l" "consensus_report_within l" for l
  by (rule wire_codecI,
      force simp: get_consensus_report_def put_consensus_report_def consensus_report_within_def codec_binds,
      case_tac x)
    (simp add: get_consensus_report_def put_consensus_report_def consensus_report_within_def codec_reads)

declare consensus_report_codec.bind_Ok_iff [codec_binds]
  consensus_report_codec.bind_read [codec_reads]

definition put_ranking_factor :: "RankingFactorValue \<Rightarrow> Field list" where
  "put_ranking_factor f =
     [F_u8 (factor_code (fv_factor f)), F_f64 (fv_value f)] @
     put_text (fv_detail f)"

definition get_ranking_factor :: "Limits \<Rightarrow> RankingFactorValue decoding" where
  "get_ranking_factor l =
     dbind get_factor (\<lambda>factor. dbind get_f64 (\<lambda>value.
     dbind (get_text (max_metadata_bytes l)) (\<lambda>detail.
     dreturn \<lparr>fv_factor = factor, fv_value = value, fv_detail = detail\<rparr>)))"

definition ranking_factor_within :: "Limits \<Rightarrow> RankingFactorValue \<Rightarrow> bool" where
  "ranking_factor_within l f \<longleftrightarrow>
     text_within (max_metadata_bytes l) (fv_detail f)"

interpretation ranking_factor_codec:
  wire_codec put_ranking_factor "get_ranking_factor l" "ranking_factor_within l" for l
  by (rule wire_codecI,
      force simp: get_ranking_factor_def put_ranking_factor_def ranking_factor_within_def codec_binds,
      case_tac x)
    (simp add: get_ranking_factor_def put_ranking_factor_def ranking_factor_within_def codec_reads)

declare ranking_factor_codec.bind_Ok_iff [codec_binds]
  ranking_factor_codec.bind_read [codec_reads]
declare ranking_factor_codec.vector_bind_Ok_iff [codec_binds]
  ranking_factor_codec.vector_bind_read [codec_reads]

definition put_candidate_ranking :: "CandidateRanking \<Rightarrow> Field list" where
  "put_candidate_ranking r =
     [F_u64 (rk_candidate r), F_u64 (rk_generation r), F_u64 (rk_participant r),
      F_u64 (rk_participant_generation r), F_u8 (role_code (rk_role r)),
      F_boolean (rk_eligible r), F_u8 (elimination_code (rk_elimination r))] @
     put_text (rk_elimination_detail r) @
     vector_fields put_ranking_factor (rk_factors r) @
     [F_i64 (rk_rank r), F_boolean (rk_selected r)]"

definition get_candidate_ranking :: "Limits \<Rightarrow> CandidateRanking decoding" where
  "get_candidate_ranking l =
     dbind get_u64 (\<lambda>candidate. dbind get_u64 (\<lambda>generation. dbind get_u64 (\<lambda>participant.
     dbind get_u64 (\<lambda>participant_generation. dbind get_role (\<lambda>role. dbind get_boolean (\<lambda>eligible.
     dbind get_elimination (\<lambda>elimination.
     dbind (get_text (max_metadata_bytes l)) (\<lambda>elimination_detail.
     dbind (get_vector 16 (get_ranking_factor l)) (\<lambda>factors. dbind get_i64 (\<lambda>rank.
     dbind get_boolean (\<lambda>selected.
     dreturn \<lparr>rk_candidate = candidate, rk_generation = generation,
       rk_participant = participant, rk_participant_generation = participant_generation,
       rk_role = role, rk_eligible = eligible, rk_elimination = elimination,
       rk_elimination_detail = elimination_detail, rk_factors = factors, rk_rank = rank,
       rk_selected = selected\<rparr>)))))))))))"

definition candidate_ranking_within :: "Limits \<Rightarrow> CandidateRanking \<Rightarrow> bool" where
  "candidate_ranking_within l r \<longleftrightarrow>
     text_within (max_metadata_bytes l) (rk_elimination_detail r) \<and>
     within 16 (rk_factors r) \<and> list_all (ranking_factor_within l) (rk_factors r) \<and>
     is_i64 (rk_rank r)"

interpretation candidate_ranking_codec:
  wire_codec put_candidate_ranking "get_candidate_ranking l" "candidate_ranking_within l" for l
  by (rule wire_codecI,
      force simp: get_candidate_ranking_def put_candidate_ranking_def candidate_ranking_within_def codec_binds,
      case_tac x)
    (simp add: get_candidate_ranking_def put_candidate_ranking_def candidate_ranking_within_def codec_reads)

declare candidate_ranking_codec.bind_Ok_iff [codec_binds]
  candidate_ranking_codec.bind_read [codec_reads]
declare candidate_ranking_codec.vector_bind_Ok_iff [codec_binds]
  candidate_ranking_codec.vector_bind_read [codec_reads]

definition put_arbitration_report :: "ArbitrationReport \<Rightarrow> Field list" where
  "put_arbitration_report r =
     [F_u64 (ar_ensemble_generation r), F_u64 (ar_coordinator_epoch r),
      F_u64 (ar_computed_sequence r), F_u8 (tie_break_code (ar_tie_break r))] @
     vector_fields (\<lambda>x. [F_u8 (factor_code x)]) (ar_factor_order r) @
     vector_fields put_candidate_ranking (ar_ranking r) @
     [F_u64 (ar_selected r), F_u64 (ar_selected_generation r),
      F_u64 (ar_selected_participant r), F_u8 (role_code (ar_selected_role r)),
      F_boolean (ar_tie_unresolved r), F_boolean (ar_no_eligible_candidate r),
      F_u32 (ar_considered r), F_u32 (ar_eliminated r)] @
     vector_fields (\<lambda>v. [F_string v]) (ar_notes r)"

definition get_arbitration_report :: "Limits \<Rightarrow> ArbitrationReport decoding" where
  "get_arbitration_report l =
     dbind get_u64 (\<lambda>ensemble_generation. dbind get_u64 (\<lambda>coordinator_epoch.
     dbind get_u64 (\<lambda>computed_sequence. dbind get_tie_break (\<lambda>tie_break.
     dbind (get_vector 16 get_factor) (\<lambda>factor_order.
     dbind (get_vector (max_candidates_per_execution l) (get_candidate_ranking l)) (\<lambda>ranking.
     dbind get_u64 (\<lambda>selected. dbind get_u64 (\<lambda>selected_generation.
     dbind get_u64 (\<lambda>selected_participant. dbind get_role (\<lambda>selected_role.
     dbind get_boolean (\<lambda>tie_unresolved. dbind get_boolean (\<lambda>no_eligible_candidate.
     dbind get_u32 (\<lambda>considered. dbind get_u32 (\<lambda>eliminated.
     dbind (get_vector (max_explanation_entries l) (get_string (max_metadata_bytes l))) (\<lambda>notes.
     dreturn \<lparr>ar_ensemble_generation = ensemble_generation,
       ar_coordinator_epoch = coordinator_epoch, ar_computed_sequence = computed_sequence,
       ar_tie_break = tie_break, ar_factor_order = factor_order, ar_ranking = ranking,
       ar_selected = selected, ar_selected_generation = selected_generation,
       ar_selected_participant = selected_participant, ar_selected_role = selected_role,
       ar_tie_unresolved = tie_unresolved, ar_no_eligible_candidate = no_eligible_candidate,
       ar_considered = considered, ar_eliminated = eliminated, ar_notes = notes\<rparr>)))))))))))))))"

definition arbitration_report_within :: "Limits \<Rightarrow> ArbitrationReport \<Rightarrow> bool" where
  "arbitration_report_within l r \<longleftrightarrow>
     within 16 (ar_factor_order r) \<and>
     within (max_candidates_per_execution l) (ar_ranking r) \<and>
     list_all (candidate_ranking_within l) (ar_ranking r) \<and>
     within (max_explanation_entries l) (ar_notes r) \<and>
     list_all (within (max_metadata_bytes l)) (ar_notes r)"

interpretation arbitration_report_codec:
  wire_codec put_arbitration_report "get_arbitration_report l" "arbitration_report_within l" for l
  by (rule wire_codecI,
      force simp: get_arbitration_report_def put_arbitration_report_def arbitration_report_within_def codec_binds,
      case_tac x)
    (simp add: get_arbitration_report_def put_arbitration_report_def arbitration_report_within_def codec_reads)

declare arbitration_report_codec.bind_Ok_iff [codec_binds]
  arbitration_report_codec.bind_read [codec_reads]

definition put_candidate_snapshot :: "CandidateSnapshot \<Rightarrow> Field list" where
  "put_candidate_snapshot s =
     [F_u64 (csn_id s), F_u64 (csn_generation s), F_u64 (csn_ensemble s),
      F_u64 (csn_ensemble_generation s), F_u64 (csn_execution s),
      F_u64 (csn_attempt_generation s), F_u64 (csn_participant s),
      F_u64 (csn_participant_generation s), F_u8 (role_code (csn_role s)), F_u64 (csn_stage s),
      F_u8 (candidate_state_code (csn_state s)), F_u32 (csn_attempt s),
      F_u32 (csn_attempts_used s), F_string (csn_domain s), F_bytes (csn_payload s),
      F_u64 (csn_payload_digest s), F_u32 (csn_payload_bytes s),
      F_u64 (csn_received_sequence s), F_u64 (csn_coordinator_epoch s), F_u64 (csn_worker s),
      F_u64 (csn_worker_boot s), F_u16 (error_code (csn_failure s)),
      F_string (csn_failure_detail s), F_u32 (csn_evaluation_count s),
      F_u32 (csn_hard_failures s), F_boolean (csn_fallback s), F_boolean (csn_current s),
      F_string (csn_elimination_reason s)]"

definition get_candidate_snapshot :: "Limits \<Rightarrow> CandidateSnapshot decoding" where
  "get_candidate_snapshot l =
     dbind get_u64 (\<lambda>id. dbind get_u64 (\<lambda>generation. dbind get_u64 (\<lambda>ensemble.
     dbind get_u64 (\<lambda>ensemble_generation. dbind get_u64 (\<lambda>execution.
     dbind get_u64 (\<lambda>attempt_generation. dbind get_u64 (\<lambda>participant.
     dbind get_u64 (\<lambda>participant_generation. dbind get_role (\<lambda>role. dbind get_u64 (\<lambda>stage.
     dbind get_candidate_state (\<lambda>state. dbind get_u32 (\<lambda>attempt. dbind get_u32 (\<lambda>attempts_used.
     dbind (get_string (max_metadata_bytes l)) (\<lambda>domain.
     dbind (get_bytes (max_candidate_payload_bytes l)) (\<lambda>payload. dbind get_u64 (\<lambda>payload_digest.
     dbind get_u32 (\<lambda>payload_bytes.
     (if unat payload_bytes \<noteq> length payload then dfail E_malformed_persistence else
     dbind get_u64 (\<lambda>received_sequence. dbind get_u64 (\<lambda>coordinator_epoch.
     dbind get_u64 (\<lambda>worker. dbind get_u64 (\<lambda>worker_boot. dbind get_error (\<lambda>failure.
     dbind (get_string (max_metadata_bytes l)) (\<lambda>failure_detail.
     dbind get_u32 (\<lambda>evaluation_count. dbind get_u32 (\<lambda>hard_failures.
     dbind get_boolean (\<lambda>fallback. dbind get_boolean (\<lambda>current.
     dbind (get_string (max_metadata_bytes l)) (\<lambda>elimination_reason.
     dreturn \<lparr>csn_id = id, csn_generation = generation, csn_ensemble = ensemble,
       csn_ensemble_generation = ensemble_generation, csn_execution = execution,
       csn_attempt_generation = attempt_generation, csn_participant = participant,
       csn_participant_generation = participant_generation, csn_role = role, csn_stage = stage,
       csn_state = state, csn_attempt = attempt, csn_attempts_used = attempts_used,
       csn_domain = domain, csn_payload = payload, csn_payload_digest = payload_digest,
       csn_payload_bytes = payload_bytes, csn_received_sequence = received_sequence,
       csn_coordinator_epoch = coordinator_epoch, csn_worker = worker,
       csn_worker_boot = worker_boot, csn_failure = failure,
       csn_failure_detail = failure_detail, csn_evaluation_count = evaluation_count,
       csn_hard_failures = hard_failures, csn_fallback = fallback, csn_current = current,
       csn_elimination_reason = elimination_reason\<rparr>)))))))))))))))))))))))))))))"

definition candidate_snapshot_within :: "Limits \<Rightarrow> CandidateSnapshot \<Rightarrow> bool" where
  "candidate_snapshot_within l s \<longleftrightarrow>
     within (max_metadata_bytes l) (csn_domain s) \<and>
     within (max_candidate_payload_bytes l) (csn_payload s) \<and>
     within (max_metadata_bytes l) (csn_failure_detail s) \<and>
     within (max_metadata_bytes l) (csn_elimination_reason s) \<and>
     unat (csn_payload_bytes s) = length (csn_payload s)"

interpretation candidate_snapshot_codec:
  wire_codec put_candidate_snapshot "get_candidate_snapshot l" "candidate_snapshot_within l" for l
  by (rule wire_codecI,
      force simp: get_candidate_snapshot_def put_candidate_snapshot_def candidate_snapshot_within_def codec_binds,
      case_tac x)
    (simp add: get_candidate_snapshot_def put_candidate_snapshot_def candidate_snapshot_within_def codec_reads)

declare candidate_snapshot_codec.bind_Ok_iff [codec_binds]
  candidate_snapshot_codec.bind_read [codec_reads]
declare candidate_snapshot_codec.vector_bind_Ok_iff [codec_binds]
  candidate_snapshot_codec.vector_bind_read [codec_reads]

definition put_evaluation_snapshot :: "EvaluationSnapshot \<Rightarrow> Field list" where
  "put_evaluation_snapshot s =
     [F_u64 (esn_id s), F_u64 (esn_generation s), F_u64 (esn_ensemble s),
      F_u64 (esn_ensemble_generation s), F_u64 (esn_execution s),
      F_u64 (esn_attempt_generation s), F_u64 (esn_evaluator s),
      F_u64 (esn_evaluator_generation s), F_u8 (role_code (esn_evaluator_role s)),
      F_u64 (esn_candidate s), F_u64 (esn_candidate_generation s)] @
     put_criterion (esn_criterion s) @
     [F_u8 (criterion_kind_code (esn_kind s)), F_u8 (verification_code (esn_verification s)),
      F_u8 (judgment_code (esn_judgment s)), F_boolean (esn_score_defined s),
      F_f64 (esn_score s), F_f64 (esn_weight s), F_bytes (esn_evidence s),
      F_string (esn_rationale s), F_u64 (esn_received_sequence s),
      F_u64 (esn_coordinator_epoch s), F_u64 (esn_worker s), F_u64 (esn_worker_boot s),
      F_boolean (esn_current s), F_boolean (esn_superseded s)]"

definition get_evaluation_snapshot :: "Limits \<Rightarrow> EvaluationSnapshot decoding" where
  "get_evaluation_snapshot l =
     dbind get_u64 (\<lambda>id. dbind get_u64 (\<lambda>generation. dbind get_u64 (\<lambda>ensemble.
     dbind get_u64 (\<lambda>ensemble_generation. dbind get_u64 (\<lambda>execution.
     dbind get_u64 (\<lambda>attempt_generation. dbind get_u64 (\<lambda>evaluator.
     dbind get_u64 (\<lambda>evaluator_generation. dbind get_role (\<lambda>evaluator_role.
     dbind get_u64 (\<lambda>candidate. dbind get_u64 (\<lambda>candidate_generation.
     dbind get_criterion (\<lambda>criterion. dbind get_criterion_kind (\<lambda>kind.
     dbind get_verification (\<lambda>verification. dbind get_judgment (\<lambda>judgment.
     dbind get_boolean (\<lambda>score_defined. dbind get_f64 (\<lambda>score. dbind get_f64 (\<lambda>weight.
     dbind (get_bytes (max_evaluation_payload_bytes l)) (\<lambda>evidence.
     dbind (get_string (max_metadata_bytes l)) (\<lambda>rationale. dbind get_u64 (\<lambda>received_sequence.
     dbind get_u64 (\<lambda>coordinator_epoch. dbind get_u64 (\<lambda>worker. dbind get_u64 (\<lambda>worker_boot.
     dbind get_boolean (\<lambda>current. dbind get_boolean (\<lambda>superseded.
     dreturn \<lparr>esn_id = id, esn_generation = generation, esn_ensemble = ensemble,
       esn_ensemble_generation = ensemble_generation, esn_execution = execution,
       esn_attempt_generation = attempt_generation, esn_evaluator = evaluator,
       esn_evaluator_generation = evaluator_generation, esn_evaluator_role = evaluator_role,
       esn_candidate = candidate, esn_candidate_generation = candidate_generation,
       esn_criterion = criterion, esn_kind = kind, esn_verification = verification,
       esn_judgment = judgment, esn_score_defined = score_defined, esn_score = score,
       esn_weight = weight, esn_evidence = evidence, esn_rationale = rationale,
       esn_received_sequence = received_sequence, esn_coordinator_epoch = coordinator_epoch,
       esn_worker = worker, esn_worker_boot = worker_boot, esn_current = current,
       esn_superseded = superseded\<rparr>))))))))))))))))))))))))))"

definition evaluation_snapshot_within :: "Limits \<Rightarrow> EvaluationSnapshot \<Rightarrow> bool" where
  "evaluation_snapshot_within l s \<longleftrightarrow>
     within (max_evaluation_payload_bytes l) (esn_evidence s) \<and>
     within (max_metadata_bytes l) (esn_rationale s)"

interpretation evaluation_snapshot_codec:
  wire_codec put_evaluation_snapshot "get_evaluation_snapshot l" "evaluation_snapshot_within l" for l
  by (rule wire_codecI,
      force simp: get_evaluation_snapshot_def put_evaluation_snapshot_def evaluation_snapshot_within_def codec_binds,
      case_tac x)
    (simp add: get_evaluation_snapshot_def put_evaluation_snapshot_def evaluation_snapshot_within_def codec_reads)

declare evaluation_snapshot_codec.bind_Ok_iff [codec_binds]
  evaluation_snapshot_codec.bind_read [codec_reads]
declare evaluation_snapshot_codec.vector_bind_Ok_iff [codec_binds]
  evaluation_snapshot_codec.vector_bind_read [codec_reads]

definition put_participant_outcome :: "ParticipantOutcome \<Rightarrow> Field list" where
  "put_participant_outcome p =
     [F_u64 (po_id p), F_u64 (po_generation p), F_u32 (po_roles p), F_boolean (po_required p),
      F_u8 (participant_status_code (po_final_status p)), F_u32 (po_candidates p),
      F_u32 (po_candidates_valid p), F_u32 (po_candidates_failed p),
      F_u32 (po_candidates_abstained p), F_u32 (po_evaluations p), F_u32 (po_retries p),
      F_boolean (po_fallback p), F_boolean (po_authoritative p)]"

definition get_participant_outcome :: "ParticipantOutcome decoding" where
  "get_participant_outcome =
     dbind get_u64 (\<lambda>id. dbind get_u64 (\<lambda>generation. dbind get_roles (\<lambda>roles.
     dbind get_boolean (\<lambda>required. dbind get_participant_status (\<lambda>final_status.
     dbind get_u32 (\<lambda>candidates. dbind get_u32 (\<lambda>candidates_valid.
     dbind get_u32 (\<lambda>candidates_failed. dbind get_u32 (\<lambda>candidates_abstained.
     dbind get_u32 (\<lambda>evaluations. dbind get_u32 (\<lambda>retries. dbind get_boolean (\<lambda>fallback.
     dbind get_boolean (\<lambda>authoritative.
     dreturn \<lparr>po_id = id, po_generation = generation, po_roles = roles,
       po_required = required, po_final_status = final_status, po_candidates = candidates,
       po_candidates_valid = candidates_valid, po_candidates_failed = candidates_failed,
       po_candidates_abstained = candidates_abstained, po_evaluations = evaluations,
       po_retries = retries, po_fallback = fallback, po_authoritative = authoritative\<rparr>)))))))))))))"

definition participant_outcome_within :: "ParticipantOutcome \<Rightarrow> bool" where
  "participant_outcome_within p \<longleftrightarrow>
     known_roles (po_roles p)"

interpretation participant_outcome_codec:
  wire_codec put_participant_outcome get_participant_outcome participant_outcome_within
  by (rule wire_codecI,
      force simp: get_participant_outcome_def put_participant_outcome_def participant_outcome_within_def codec_binds,
      case_tac x)
    (simp add: get_participant_outcome_def put_participant_outcome_def participant_outcome_within_def codec_reads)

declare participant_outcome_codec.bind_Ok_iff [codec_binds]
  participant_outcome_codec.bind_read [codec_reads]
declare participant_outcome_codec.vector_bind_Ok_iff [codec_binds]
  participant_outcome_codec.vector_bind_read [codec_reads]

definition put_explanation_entry :: "ExplanationEntry \<Rightarrow> Field list" where
  "put_explanation_entry x =
     [F_string (xp_subject x)] @
     put_text (xp_detail x)"

definition get_explanation_entry :: "Limits \<Rightarrow> ExplanationEntry decoding" where
  "get_explanation_entry l =
     dbind (get_string (max_label_bytes l)) (\<lambda>subject.
     dbind (get_text (max_metadata_bytes l)) (\<lambda>detail.
     dreturn \<lparr>xp_subject = subject, xp_detail = detail\<rparr>))"

definition explanation_entry_within :: "Limits \<Rightarrow> ExplanationEntry \<Rightarrow> bool" where
  "explanation_entry_within l x \<longleftrightarrow>
     within (max_label_bytes l) (xp_subject x) \<and>
     text_within (max_metadata_bytes l) (xp_detail x)"

interpretation explanation_entry_codec:
  wire_codec put_explanation_entry "get_explanation_entry l" "explanation_entry_within l" for l
  by (rule wire_codecI,
      force simp: get_explanation_entry_def put_explanation_entry_def explanation_entry_within_def codec_binds,
      case_tac x)
    (simp add: get_explanation_entry_def put_explanation_entry_def explanation_entry_within_def codec_reads)

declare explanation_entry_codec.bind_Ok_iff [codec_binds]
  explanation_entry_codec.bind_read [codec_reads]
declare explanation_entry_codec.vector_bind_Ok_iff [codec_binds]
  explanation_entry_codec.vector_bind_read [codec_reads]

definition put_result :: "EnsembleResult \<Rightarrow> Field list" where
  "put_result r =
     [F_u64 (rs_id r), F_u64 (rs_generation r), F_u64 (rs_ensemble r),
      F_u64 (rs_ensemble_generation r), F_u64 (rs_execution r),
      F_u64 (rs_attempt_generation r), F_u64 (rs_coordinator_epoch r),
      F_u8 (decision_code (rs_decision r)), F_boolean (rs_has_selected r),
      F_u64 (rs_selected_candidate r), F_u64 (rs_selected_candidate_generation r),
      F_u64 (rs_selected_participant r), F_u64 (rs_selected_participant_generation r),
      F_u8 (role_code (rs_selected_role r)), F_bytes (rs_payload r),
      F_u64 (rs_payload_digest r), F_u32 (rs_payload_bytes r)] @
     put_quorum_report (rs_quorum r) @
     put_consensus_report (rs_consensus r) @
     put_arbitration_report (rs_arbitration r) @
     vector_fields put_participant_outcome (rs_participants r) @
     vector_fields put_candidate_snapshot (rs_candidates r) @
     vector_fields put_evaluation_snapshot (rs_evaluations r) @
     vector_fields put_explanation_entry (rs_explanation r) @
     [F_boolean (rs_fallback_used r), F_u32 (rs_fallback_depth r),
      F_u64 (rs_commit_sequence r), F_u64 (rs_commit_fingerprint r)]"

definition get_result :: "Limits \<Rightarrow> EnsembleResult decoding" where
  "get_result l =
     dbind get_u64 (\<lambda>id. dbind get_u64 (\<lambda>generation. dbind get_u64 (\<lambda>ensemble.
     dbind get_u64 (\<lambda>ensemble_generation. dbind get_u64 (\<lambda>execution.
     dbind get_u64 (\<lambda>attempt_generation. dbind get_u64 (\<lambda>coordinator_epoch.
     dbind get_decision (\<lambda>decision. dbind get_boolean (\<lambda>has_selected.
     dbind get_u64 (\<lambda>selected_candidate. dbind get_u64 (\<lambda>selected_candidate_generation.
     dbind get_u64 (\<lambda>selected_participant. dbind get_u64 (\<lambda>selected_participant_generation.
     dbind get_role (\<lambda>selected_role. dbind (get_bytes (max_candidate_payload_bytes l)) (\<lambda>payload.
     dbind get_u64 (\<lambda>payload_digest. dbind get_u32 (\<lambda>payload_bytes.
     (if unat payload_bytes \<noteq> length payload then dfail E_malformed_persistence else
     dbind (get_quorum_report l) (\<lambda>quorum. dbind (get_consensus_report l) (\<lambda>consensus.
     dbind (get_arbitration_report l) (\<lambda>arbitration.
     dbind (get_vector (max_participants_per_ensemble l) get_participant_outcome) (\<lambda>participants.
     dbind (get_vector (max_records_per_snapshot l) (get_candidate_snapshot l)) (\<lambda>candidates.
     dbind (get_vector (max_records_per_snapshot l) (get_evaluation_snapshot l)) (\<lambda>evaluations.
     dbind (get_vector (max_explanation_entries l) (get_explanation_entry l)) (\<lambda>explanation.
     dbind get_boolean (\<lambda>fallback_used. dbind get_u32 (\<lambda>fallback_depth.
     dbind get_u64 (\<lambda>commit_sequence. dbind get_u64 (\<lambda>commit_fingerprint.
     dreturn \<lparr>rs_id = id, rs_generation = generation, rs_ensemble = ensemble,
       rs_ensemble_generation = ensemble_generation, rs_execution = execution,
       rs_attempt_generation = attempt_generation, rs_coordinator_epoch = coordinator_epoch,
       rs_decision = decision, rs_has_selected = has_selected,
       rs_selected_candidate = selected_candidate,
       rs_selected_candidate_generation = selected_candidate_generation,
       rs_selected_participant = selected_participant,
       rs_selected_participant_generation = selected_participant_generation,
       rs_selected_role = selected_role, rs_payload = payload,
       rs_payload_digest = payload_digest, rs_payload_bytes = payload_bytes,
       rs_quorum = quorum, rs_consensus = consensus, rs_arbitration = arbitration,
       rs_participants = participants, rs_candidates = candidates,
       rs_evaluations = evaluations, rs_explanation = explanation,
       rs_fallback_used = fallback_used, rs_fallback_depth = fallback_depth,
       rs_commit_sequence = commit_sequence, rs_commit_fingerprint = commit_fingerprint\<rparr>)))))))))))))))))))))))))))))"

definition result_within :: "Limits \<Rightarrow> EnsembleResult \<Rightarrow> bool" where
  "result_within l r \<longleftrightarrow>
     within (max_candidate_payload_bytes l) (rs_payload r) \<and>
     quorum_report_within l (rs_quorum r) \<and>
     consensus_report_within l (rs_consensus r) \<and>
     arbitration_report_within l (rs_arbitration r) \<and>
     within (max_participants_per_ensemble l) (rs_participants r) \<and>
     list_all (participant_outcome_within) (rs_participants r) \<and>
     within (max_records_per_snapshot l) (rs_candidates r) \<and>
     list_all (candidate_snapshot_within l) (rs_candidates r) \<and>
     within (max_records_per_snapshot l) (rs_evaluations r) \<and>
     list_all (evaluation_snapshot_within l) (rs_evaluations r) \<and>
     within (max_explanation_entries l) (rs_explanation r) \<and>
     list_all (explanation_entry_within l) (rs_explanation r) \<and>
     unat (rs_payload_bytes r) = length (rs_payload r)"

interpretation result_codec:
  wire_codec put_result "get_result l" "result_within l" for l
  by (rule wire_codecI,
      force simp: get_result_def put_result_def result_within_def codec_binds,
      case_tac x)
    (simp add: get_result_def put_result_def result_within_def codec_reads)

declare result_codec.bind_Ok_iff [codec_binds]
  result_codec.bind_read [codec_reads]
declare result_codec.vector_bind_Ok_iff [codec_binds]
  result_codec.vector_bind_read [codec_reads]

section \<open>Payloads sent to clients\<close>

interpretation extended_result_codec:
  wire_codec "put_extended put_result" "get_extended (get_result l)" "result_within l" for l
  by (rule result_codec.extended_codec)

definition encode_result_payload :: "EnsembleResult \<Rightarrow> Limits \<Rightarrow> bytes" where
  "encode_result_payload r l = enc_buffer (put_fields (put_extended put_result r) (new_encoder l))"

definition decode_result_payload :: "bytes \<Rightarrow> Limits \<Rightarrow> EnsembleResult outcome" where
  "decode_result_payload data l = decode_exactly (get_extended (get_result l)) data"

definition encode_report :: "string \<Rightarrow> Limits \<Rightarrow> bytes" where
  "encode_report report l = enc_buffer (put_fields [F_string report] (new_encoder l))"

definition decode_report :: "bytes \<Rightarrow> Limits \<Rightarrow> string outcome" where
  "decode_report data l = decode_exactly (get_string (max_explanation_entries l * 512)) data"

end
