(* ===== verification/Record_Codec.thy ===== *)
theory Record_Codec
  imports Result_Codec
begin

text \<open>
  The durable encoding of the runtime's own records (the third part of
  \<^verbatim>\<open>src/fabric_persist.cpp\<close>): participants, candidates, evaluations, commits, executions and
  ensembles. Of an execution the pending evaluations, the reports, the explanation and the
  count of commit attempts are not written; a decoded execution has their initial values.
\<close>

definition put_participant_record :: "ParticipantRecord \<Rightarrow> Field list" where
  "put_participant_record p =
     [F_u64 (pr_id p), F_u64 (pr_generation p)] @
     put_participant_spec (pr_declaration p) @
     [F_u8 (participant_status_code (pr_status p)), F_u64 (pr_worker p),
      F_u64 (pr_worker_boot p), F_u64 (pr_coordinator_epoch p)] @
     put_compatibility_profile (pr_profile p) @
     [F_boolean (pr_registered p), F_string (pr_failure_detail p),
      F_u32 (pr_replacement_count p), F_u32 (pr_candidates_completed p),
      F_u32 (pr_candidates_failed p), F_u32 (pr_candidates_abstained p),
      F_u32 (pr_evaluations_submitted p), F_u32 (pr_retries_consumed p),
      F_boolean (pr_fallback_activated p)]"

definition get_participant_record :: "Limits \<Rightarrow> ParticipantRecord decoding" where
  "get_participant_record l =
     dbind get_u64 (\<lambda>id. dbind get_u64 (\<lambda>generation.
     dbind (get_participant_spec l) (\<lambda>declaration. dbind get_participant_status (\<lambda>status.
     dbind get_u64 (\<lambda>worker. dbind get_u64 (\<lambda>worker_boot. dbind get_u64 (\<lambda>coordinator_epoch.
     dbind get_compatibility_profile (\<lambda>profile. dbind get_boolean (\<lambda>registered.
     dbind (get_string (max_metadata_bytes l)) (\<lambda>failure_detail.
     dbind get_u32 (\<lambda>replacement_count. dbind get_u32 (\<lambda>candidates_completed.
     dbind get_u32 (\<lambda>candidates_failed. dbind get_u32 (\<lambda>candidates_abstained.
     dbind get_u32 (\<lambda>evaluations_submitted. dbind get_u32 (\<lambda>retries_consumed.
     dbind get_boolean (\<lambda>fallback_activated.
     dreturn \<lparr>pr_id = id, pr_generation = generation, pr_declaration = declaration,
       pr_status = status, pr_worker = worker, pr_worker_boot = worker_boot,
       pr_coordinator_epoch = coordinator_epoch, pr_profile = profile,
       pr_registered = registered, pr_failure_detail = failure_detail,
       pr_replacement_count = replacement_count,
       pr_candidates_completed = candidates_completed,
       pr_candidates_failed = candidates_failed,
       pr_candidates_abstained = candidates_abstained,
       pr_evaluations_submitted = evaluations_submitted,
       pr_retries_consumed = retries_consumed, pr_fallback_activated = fallback_activated\<rparr>)))))))))))))))))"

definition participant_record_within :: "Limits \<Rightarrow> ParticipantRecord \<Rightarrow> bool" where
  "participant_record_within l p \<longleftrightarrow>
     participant_spec_within l (pr_declaration p) \<and>
     within (max_metadata_bytes l) (pr_failure_detail p)"

interpretation participant_record_codec:
  wire_codec put_participant_record "get_participant_record l" "participant_record_within l" for l
  by (rule wire_codecI,
      force simp: get_participant_record_def put_participant_record_def participant_record_within_def codec_binds,
      case_tac x)
    (simp add: get_participant_record_def put_participant_record_def participant_record_within_def codec_reads)

declare participant_record_codec.bind_Ok_iff [codec_binds]
  participant_record_codec.bind_read [codec_reads]
declare participant_record_codec.vector_bind_Ok_iff [codec_binds]
  participant_record_codec.vector_bind_read [codec_reads]

definition put_candidate_record :: "CandidateRecord \<Rightarrow> Field list" where
  "put_candidate_record c =
     [F_u64 (cd_id c), F_u64 (cd_generation c), F_u64 (cd_participant c),
      F_u64 (cd_participant_generation c), F_u8 (role_code (cd_role c)), F_u64 (cd_stage c),
      F_u8 (candidate_state_code (cd_state c)), F_u32 (cd_attempt c),
      F_u32 (cd_attempts_used c), F_string (cd_domain c), F_bytes (cd_payload c),
      F_u64 (cd_payload_digest c), F_u64 (cd_received_sequence c),
      F_u64 (cd_dispatch_sequence c), F_u64 (cd_worker c), F_u64 (cd_worker_boot c),
      F_u64 (cd_coordinator_epoch c), F_u16 (error_code (cd_failure c)),
      F_string (cd_failure_detail c), F_u32 (cd_evaluation_count c),
      F_u32 (cd_hard_failures c), F_u32 (cd_hard_unknowns c), F_u32 (cd_hard_predicates c),
      F_u32 (cd_budget_units_used c), F_u32 (cd_latency c), F_boolean (cd_fallback c),
      F_boolean (cd_current c), F_string (cd_elimination_reason c)]"

definition get_candidate_record :: "Limits \<Rightarrow> CandidateRecord decoding" where
  "get_candidate_record l =
     dbind get_u64 (\<lambda>id. dbind get_u64 (\<lambda>generation. dbind get_u64 (\<lambda>participant.
     dbind get_u64 (\<lambda>participant_generation. dbind get_role (\<lambda>role. dbind get_u64 (\<lambda>stage.
     dbind get_candidate_state (\<lambda>state. dbind get_u32 (\<lambda>attempt. dbind get_u32 (\<lambda>attempts_used.
     dbind (get_string (max_metadata_bytes l)) (\<lambda>domain.
     dbind (get_bytes (max_candidate_payload_bytes l)) (\<lambda>payload. dbind get_u64 (\<lambda>payload_digest.
     dbind get_u64 (\<lambda>received_sequence. dbind get_u64 (\<lambda>dispatch_sequence.
     dbind get_u64 (\<lambda>worker. dbind get_u64 (\<lambda>worker_boot. dbind get_u64 (\<lambda>coordinator_epoch.
     dbind get_error (\<lambda>failure. dbind (get_string (max_metadata_bytes l)) (\<lambda>failure_detail.
     dbind get_u32 (\<lambda>evaluation_count. dbind get_u32 (\<lambda>hard_failures.
     dbind get_u32 (\<lambda>hard_unknowns. dbind get_u32 (\<lambda>hard_predicates.
     dbind get_u32 (\<lambda>budget_units_used. dbind get_u32 (\<lambda>latency. dbind get_boolean (\<lambda>fallback.
     dbind get_boolean (\<lambda>current. dbind (get_string (max_metadata_bytes l)) (\<lambda>elimination_reason.
     dreturn \<lparr>cd_id = id, cd_generation = generation, cd_participant = participant,
       cd_participant_generation = participant_generation, cd_role = role, cd_stage = stage,
       cd_state = state, cd_attempt = attempt, cd_attempts_used = attempts_used,
       cd_domain = domain, cd_payload = payload, cd_payload_digest = payload_digest,
       cd_received_sequence = received_sequence, cd_worker = worker,
       cd_worker_boot = worker_boot, cd_coordinator_epoch = coordinator_epoch,
       cd_dispatch_sequence = dispatch_sequence, cd_failure = failure,
       cd_failure_detail = failure_detail, cd_evaluation_count = evaluation_count,
       cd_hard_failures = hard_failures, cd_hard_unknowns = hard_unknowns,
       cd_hard_predicates = hard_predicates, cd_budget_units_used = budget_units_used,
       cd_latency = latency, cd_fallback = fallback, cd_current = current,
       cd_elimination_reason = elimination_reason\<rparr>))))))))))))))))))))))))))))"

definition candidate_record_within :: "Limits \<Rightarrow> CandidateRecord \<Rightarrow> bool" where
  "candidate_record_within l c \<longleftrightarrow>
     within (max_metadata_bytes l) (cd_domain c) \<and>
     within (max_candidate_payload_bytes l) (cd_payload c) \<and>
     within (max_metadata_bytes l) (cd_failure_detail c) \<and>
     within (max_metadata_bytes l) (cd_elimination_reason c)"

interpretation candidate_record_codec:
  wire_codec put_candidate_record "get_candidate_record l" "candidate_record_within l" for l
  by (rule wire_codecI,
      force simp: get_candidate_record_def put_candidate_record_def candidate_record_within_def codec_binds,
      case_tac x)
    (simp add: get_candidate_record_def put_candidate_record_def candidate_record_within_def codec_reads)

declare candidate_record_codec.bind_Ok_iff [codec_binds]
  candidate_record_codec.bind_read [codec_reads]
declare candidate_record_codec.vector_bind_Ok_iff [codec_binds]
  candidate_record_codec.vector_bind_read [codec_reads]

definition put_evaluation_record :: "EvaluationRecord \<Rightarrow> Field list" where
  "put_evaluation_record e =
     [F_u64 (er_id e), F_u64 (er_generation e), F_u64 (er_evaluator e),
      F_u64 (er_evaluator_generation e), F_u8 (role_code (er_role e)), F_u64 (er_candidate e),
      F_u64 (er_candidate_generation e)] @
     put_criterion (er_criterion e) @
     [F_u8 (criterion_kind_code (er_kind e)), F_u8 (verification_code (er_verification e)),
      F_u8 (judgment_code (er_judgment e)), F_boolean (er_score_defined e), F_f64 (er_score e),
      F_f64 (er_weight e), F_bytes (er_evidence e), F_string (er_rationale e),
      F_u64 (er_received_sequence e), F_u64 (er_coordinator_epoch e), F_u64 (er_worker e),
      F_u64 (er_worker_boot e), F_u64 (er_fingerprint e), F_boolean (er_current e)]"

definition get_evaluation_record :: "Limits \<Rightarrow> EvaluationRecord decoding" where
  "get_evaluation_record l =
     dbind get_u64 (\<lambda>id. dbind get_u64 (\<lambda>generation. dbind get_u64 (\<lambda>evaluator.
     dbind get_u64 (\<lambda>evaluator_generation. dbind get_role (\<lambda>role. dbind get_u64 (\<lambda>candidate.
     dbind get_u64 (\<lambda>candidate_generation. dbind get_criterion (\<lambda>criterion.
     dbind get_criterion_kind (\<lambda>kind. dbind get_verification (\<lambda>verification.
     dbind get_judgment (\<lambda>judgment. dbind get_boolean (\<lambda>score_defined. dbind get_f64 (\<lambda>score.
     dbind get_f64 (\<lambda>weight. dbind (get_bytes (max_evaluation_payload_bytes l)) (\<lambda>evidence.
     dbind (get_string (max_metadata_bytes l)) (\<lambda>rationale. dbind get_u64 (\<lambda>received_sequence.
     dbind get_u64 (\<lambda>coordinator_epoch. dbind get_u64 (\<lambda>worker. dbind get_u64 (\<lambda>worker_boot.
     dbind get_u64 (\<lambda>fingerprint. dbind get_boolean (\<lambda>current.
     dreturn \<lparr>er_id = id, er_generation = generation, er_evaluator = evaluator,
       er_evaluator_generation = evaluator_generation, er_role = role,
       er_candidate = candidate, er_candidate_generation = candidate_generation,
       er_criterion = criterion, er_kind = kind, er_verification = verification,
       er_judgment = judgment, er_score_defined = score_defined, er_score = score,
       er_weight = weight, er_evidence = evidence, er_rationale = rationale,
       er_received_sequence = received_sequence, er_coordinator_epoch = coordinator_epoch,
       er_worker = worker, er_worker_boot = worker_boot, er_fingerprint = fingerprint,
       er_current = current\<rparr>))))))))))))))))))))))"

definition evaluation_record_within :: "Limits \<Rightarrow> EvaluationRecord \<Rightarrow> bool" where
  "evaluation_record_within l e \<longleftrightarrow>
     within (max_evaluation_payload_bytes l) (er_evidence e) \<and>
     within (max_metadata_bytes l) (er_rationale e)"

interpretation evaluation_record_codec:
  wire_codec put_evaluation_record "get_evaluation_record l" "evaluation_record_within l" for l
  by (rule wire_codecI,
      force simp: get_evaluation_record_def put_evaluation_record_def evaluation_record_within_def codec_binds,
      case_tac x)
    (simp add: get_evaluation_record_def put_evaluation_record_def evaluation_record_within_def codec_reads)

declare evaluation_record_codec.bind_Ok_iff [codec_binds]
  evaluation_record_codec.bind_read [codec_reads]
declare evaluation_record_codec.vector_bind_Ok_iff [codec_binds]
  evaluation_record_codec.vector_bind_read [codec_reads]

definition put_commit_record :: "CommitRecord \<Rightarrow> Field list" where
  "put_commit_record c =
     [F_u64 (cm_result c), F_u64 (cm_generation c), F_u64 (cm_sequence c),
      F_u64 (cm_coordinator_epoch c), F_u64 (cm_execution c), F_u64 (cm_attempt_generation c),
      F_u8 (decision_code (cm_decision c)), F_u64 (cm_commit_fingerprint c)]"

definition get_commit_record :: "CommitRecord decoding" where
  "get_commit_record =
     dbind get_u64 (\<lambda>result. dbind get_u64 (\<lambda>generation. dbind get_u64 (\<lambda>sequence.
     dbind get_u64 (\<lambda>coordinator_epoch. dbind get_u64 (\<lambda>execution.
     dbind get_u64 (\<lambda>attempt_generation. dbind get_decision (\<lambda>decision.
     dbind get_u64 (\<lambda>commit_fingerprint.
     dreturn \<lparr>cm_result = result, cm_generation = generation, cm_sequence = sequence,
       cm_coordinator_epoch = coordinator_epoch, cm_execution = execution,
       cm_attempt_generation = attempt_generation, cm_decision = decision,
       cm_commit_fingerprint = commit_fingerprint\<rparr>))))))))"

interpretation commit_record_codec:
  wire_codec put_commit_record get_commit_record "\<lambda>_. True"
  by (rule wire_codecI,
      force simp: get_commit_record_def put_commit_record_def codec_binds,
      case_tac x)
    (simp add: get_commit_record_def put_commit_record_def codec_reads)

declare commit_record_codec.bind_Ok_iff [codec_binds]
  commit_record_codec.bind_read [codec_reads]
declare commit_record_codec.vector_bind_Ok_iff [codec_binds]
  commit_record_codec.vector_bind_read [codec_reads]

definition put_counters :: "Counters \<Rightarrow> Field list" where
  "put_counters c =
     [F_u64 (ct_commits_accepted c), F_u64 (ct_commits_rejected_conflicting c),
      F_u64 (ct_commits_rejected_stale c), F_u64 (ct_stale_submissions_rejected c),
      F_u64 (ct_duplicate_submissions_suppressed c), F_u64 (ct_duplicate_votes_suppressed c),
      F_u64 (ct_fallback_activations c), F_u64 (ct_retries_issued c),
      F_u64 (ct_cancellations c), F_u64 (ct_supersessions c),
      F_u64 (ct_revalidations_required c)]"

definition get_counters :: "Counters decoding" where
  "get_counters =
     dbind get_u64 (\<lambda>commits_accepted. dbind get_u64 (\<lambda>commits_rejected_conflicting.
     dbind get_u64 (\<lambda>commits_rejected_stale. dbind get_u64 (\<lambda>stale_submissions_rejected.
     dbind get_u64 (\<lambda>duplicate_submissions_suppressed.
     dbind get_u64 (\<lambda>duplicate_votes_suppressed. dbind get_u64 (\<lambda>fallback_activations.
     dbind get_u64 (\<lambda>retries_issued. dbind get_u64 (\<lambda>cancellations.
     dbind get_u64 (\<lambda>supersessions. dbind get_u64 (\<lambda>revalidations_required.
     dreturn \<lparr>ct_commits_accepted = commits_accepted,
       ct_commits_rejected_conflicting = commits_rejected_conflicting,
       ct_commits_rejected_stale = commits_rejected_stale,
       ct_stale_submissions_rejected = stale_submissions_rejected,
       ct_duplicate_submissions_suppressed = duplicate_submissions_suppressed,
       ct_duplicate_votes_suppressed = duplicate_votes_suppressed,
       ct_fallback_activations = fallback_activations, ct_retries_issued = retries_issued,
       ct_cancellations = cancellations, ct_supersessions = supersessions,
       ct_revalidations_required = revalidations_required\<rparr>)))))))))))"

interpretation counters_codec:
  wire_codec put_counters get_counters "\<lambda>_. True"
  by (rule wire_codecI,
      force simp: get_counters_def put_counters_def codec_binds,
      case_tac x)
    (simp add: get_counters_def put_counters_def codec_reads)

declare counters_codec.bind_Ok_iff [codec_binds]
  counters_codec.bind_read [codec_reads]

section \<open>Executions\<close>

interpretation result_option_codec:
  wire_codec "put_option put_result" "get_option (get_result l)" "pred_option (result_within l)" for l
  by (rule result_codec.option_codec)

declare result_option_codec.bind_Ok_iff [codec_binds] result_option_codec.bind_read [codec_reads]

definition held_result :: "ExecutionRecord \<Rightarrow> EnsembleResult option" where
  "held_result x = (if ex_has_result x then Some (ex_result x) else None)"

definition put_execution_record :: "ExecutionRecord \<Rightarrow> Field list" where
  "put_execution_record x =
     [F_u64 (ex_id x), F_u64 (ex_attempt_generation x), F_u8 (execution_status_code (ex_status x)),
      F_u64 (ex_coordinator_epoch x), F_u64 (ex_report_generation x),
      F_u64 (word_of_nat (ex_stage_index x)), F_boolean (ex_declared_current_stage x),
      F_boolean (ex_planning_complete x), F_boolean (ex_fallback_activated x),
      F_u32 (ex_fallback_depth x), F_boolean (ex_cancellation_requested x),
      F_string (ex_cancellation_reason x), F_boolean (ex_cancellation_emitted x),
      F_u64 (ex_cancelled_sequence x), F_u64 (ex_committed_sequence x)] @
     put_option put_result (held_result x) @
     vector_fields put_candidate_record (ex_candidates x) @
     vector_fields put_evaluation_record (ex_evaluations x) @
     vector_fields put_stage_spec (ex_extra_stages x) @
     vector_fields put_commit_record (ex_commits x)"

definition get_execution_record :: "Limits \<Rightarrow> ExecutionRecord decoding" where
  "get_execution_record l =
     dbind get_u64 (\<lambda>id. dbind get_u64 (\<lambda>attempt. dbind get_execution_status (\<lambda>status.
     dbind get_u64 (\<lambda>epoch. dbind get_u64 (\<lambda>reports. dbind get_u64 (\<lambda>stage_index.
     (if ucast (max_stages_per_ensemble l) < stage_index then dfail E_resource_limit_exceeded else
     dbind get_boolean (\<lambda>declared. dbind get_boolean (\<lambda>planning. dbind get_boolean (\<lambda>fallback.
     dbind get_u32 (\<lambda>depth. dbind get_boolean (\<lambda>cancellation.
     dbind (get_string (max_metadata_bytes l)) (\<lambda>reason. dbind get_boolean (\<lambda>emitted.
     dbind get_u64 (\<lambda>cancelled. dbind get_u64 (\<lambda>committed.
     dbind (get_option (get_result l)) (\<lambda>result.
     dbind (get_vector (max_candidates_per_execution l) (get_candidate_record l)) (\<lambda>candidates.
     dbind (get_vector (max_evaluations_per_execution l) (get_evaluation_record l)) (\<lambda>evaluations.
     dbind (get_vector (max_stages_per_ensemble l) (get_stage_spec l)) (\<lambda>stages.
     dbind (get_vector (max_retained_commits l) get_commit_record) (\<lambda>commits.
     dreturn (execution_default
       \<lparr>ex_id := id, ex_attempt_generation := attempt, ex_status := status, ex_coordinator_epoch := epoch,
        ex_report_generation := reports, ex_stage_index := unat stage_index,
        ex_declared_current_stage := declared, ex_planning_complete := planning,
        ex_fallback_activated := fallback, ex_fallback_depth := depth,
        ex_cancellation_requested := cancellation, ex_cancellation_reason := reason,
        ex_cancellation_emitted := emitted, ex_cancelled_sequence := cancelled,
        ex_committed_sequence := committed, ex_has_result := result \<noteq> None,
        ex_result := (case result of None \<Rightarrow> result_default | Some r \<Rightarrow> r),
        ex_candidates := candidates, ex_evaluations := evaluations, ex_extra_stages := stages,
        ex_commits := commits\<rparr>))))))))))))))))))))))"

text \<open>What of an execution survives encoding: the fields that are not written are initial.\<close>

definition durable_execution :: "ExecutionRecord \<Rightarrow> ExecutionRecord" where
  "durable_execution x =
     x\<lparr>ex_pending := [], ex_commit_attempts := 0, ex_quorum := quorum_report_default,
       ex_consensus := consensus_report_default, ex_arbitration := arbitration_report_default,
       ex_explanation := [], ex_result := (if ex_has_result x then ex_result x else result_default)\<rparr>"

definition execution_record_within :: "Limits \<Rightarrow> ExecutionRecord \<Rightarrow> bool" where
  "execution_record_within l x \<longleftrightarrow>
     ex_stage_index x \<le> unat (max_stages_per_ensemble l) \<and>
     within (max_metadata_bytes l) (ex_cancellation_reason x) \<and>
     pred_option (result_within l) (held_result x) \<and>
     within (max_candidates_per_execution l) (ex_candidates x) \<and>
     list_all (candidate_record_within l) (ex_candidates x) \<and>
     within (max_evaluations_per_execution l) (ex_evaluations x) \<and>
     list_all (evaluation_record_within l) (ex_evaluations x) \<and>
     within (max_stages_per_ensemble l) (ex_extra_stages x) \<and>
     list_all (stage_spec_within l) (ex_extra_stages x) \<and>
     within (max_retained_commits l) (ex_commits x)"

definition execution_stored :: "Limits \<Rightarrow> ExecutionRecord \<Rightarrow> bool" where
  "execution_stored l x \<longleftrightarrow> execution_record_within l x \<and> durable_execution x = x"

lemma put_durable_execution [simp]: "put_execution_record (durable_execution x) = put_execution_record x"
  by (simp add: put_execution_record_def durable_execution_def held_result_def)

lemma durable_execution_idem [simp]: "durable_execution (durable_execution x) = durable_execution x"
  by (simp add: durable_execution_def)

lemma execution_within_durable [simp]:
  "execution_record_within l (durable_execution x) = execution_record_within l x"
  by (simp add: execution_record_within_def durable_execution_def held_result_def)

lemma stage_index_bound:
  "\<not> ucast (max_stages_per_ensemble l) < (v :: u64) \<longleftrightarrow> unat v \<le> unat (max_stages_per_ensemble l)"
proof -
  have "unat (ucast (max_stages_per_ensemble l) :: u64) = unat (max_stages_per_ensemble l)"
    using unat_less_32[of "max_stages_per_ensemble l"]
    by (simp add: unsigned_ucast_eq take_bit_nat_eq_self_iff)
  then show ?thesis by (simp add: word_less_nat_alt not_less)
qed

lemma stage_index_word:
  assumes "n \<le> unat (max_stages_per_ensemble l)"
  shows "unat (word_of_nat n :: u64) = n"
  using assms unat_less_32[of "max_stages_per_ensemble l"] by (simp add: unat_of_nat)

lemma stage_index_ok:
  "n \<le> unat (max_stages_per_ensemble l) \<Longrightarrow> (ucast (max_stages_per_ensemble l) < (word_of_nat n :: u64)) = False"
  using stage_index_bound[of l "word_of_nat n"] stage_index_word[of n l] by simp

lemma get_execution_forward:
  assumes "get_execution_record l (dec_at pre rest) = Ok (x, d')"
  shows "execution_stored l x \<and> (\<exists>rest'. rest = wire (put_execution_record x) @ rest' \<and>
    d' = dec_at (pre @ wire (put_execution_record x)) rest')"
proof -
  from assms show ?thesis
    unfolding get_execution_record_def
    by (simp only: codec_binds stage_index_bound)
      (elim exE conjE, hypsubst, simp add: execution_stored_def execution_record_within_def
        put_execution_record_def durable_execution_def execution_default_def held_result_def,
        auto split: option.splits)
qed

lemma get_execution_backward:
  assumes "execution_stored l x"
  shows "get_execution_record l (dec_at pre (wire (put_execution_record x) @ rest)) =
    Ok (x, dec_at (pre @ wire (put_execution_record x)) rest)"
  using assms
  by (cases x) (simp add: execution_stored_def execution_record_within_def get_execution_record_def
      put_execution_record_def codec_reads durable_execution_def execution_default_def held_result_def
      stage_index_ok stage_index_word[of _ l] split: if_splits)

interpretation execution_record_codec:
  wire_codec put_execution_record "get_execution_record l" "execution_stored l" for l
  by (rule wire_codecI) (rule get_execution_forward, assumption, rule get_execution_backward)

interpretation execution_option_codec:
  wire_codec "put_option put_execution_record" "get_option (get_execution_record l)"
    "pred_option (execution_stored l)" for l
  by (rule execution_record_codec.option_codec)

declare execution_option_codec.bind_Ok_iff [codec_binds] execution_option_codec.bind_read [codec_reads]

end
