(* ===== verification/Integrity.thy ===== *)
theory Integrity
  imports Codec
begin

text \<open>
  The error detection of the CRC32C checksum that frames and state files carry. The update of
  the checksum register is linear and injective, so two inputs of one length that differ only
  within four consecutive bytes never have the same checksum.
\<close>

unbundle bit_operations_syntax

lemma xor_cancel_left: "x XOR a = x XOR b \<Longrightarrow> a = (b :: 'w::len word)"
proof -
  assume "x XOR a = x XOR b"
  then have "x XOR (x XOR a) = x XOR (x XOR b)" by simp
  then show "a = b" by (simp add: xor.assoc[symmetric])
qed

lemma xor_cancel_right: "a XOR x = b XOR x \<Longrightarrow> a = (b :: 'w::len word)"
  using xor_cancel_left[of x a b] by (simp add: xor.commute)

lemma crc_bit_inject: "crc_bit a = crc_bit b \<Longrightarrow> a = b"
proof -
  have top: "bit crc_polynomial 31" by (simp add: crc_polynomial_def bit_numeral_rec)
  have low: "bit (crc_bit v) 31 \<longleftrightarrow> bit v 0" for v
    using bit_imp_le_length[of v 32] top
    by (auto simp: crc_bit_def and_1_bit bit_xor_iff bit_drop_bit_eq)
  have high: "drop_bit 1 v = crc_bit v XOR (if bit v 0 then crc_polynomial else 0)" for v :: u32
    by (simp add: crc_bit_def and_1_bit xor.assoc)
  assume eq: "crc_bit a = crc_bit b"
  then have b0: "bit a 0 \<longleftrightarrow> bit b 0" using low by metis
  with eq have "drop_bit 1 a = drop_bit 1 b" using high by metis
  then have "bit a (Suc n) \<longleftrightarrow> bit b (Suc n)" for n by (metis bit_drop_bit_eq comp_apply plus_1_eq_Suc)
  with b0 show "a = b" by (intro bit_word_eqI) (metis not0_implies_Suc)
qed

lemma crc_bits_inject: "(crc_bit ^^ n) a = (crc_bit ^^ n) b \<Longrightarrow> a = b"
  by (induction n arbitrary: a b) (auto simp: funpow_swap1 dest!: crc_bit_inject)

lemma crc_byte_inject: "crc_byte s b = crc_byte t b \<Longrightarrow> s = t"
  unfolding crc_byte_eq_serial crc_byte_serial_def
  by (drule crc_bits_inject) (rule xor_cancel_right)

lemma foldl_crc_inject: "foldl crc_byte s data = foldl crc_byte t data \<Longrightarrow> s = t"
  by (induction data arbitrary: s t) (auto dest: crc_byte_inject)

text \<open>Up to four bytes enter the register as one word.\<close>

lemma load_le_snoc:
  "load_le (Suc n) (inp @ [b]) = (load_le n inp XOR push_bit (8 * n) (ucast b) :: u32)"
  if "length inp = n"
proof (rule bit_word_eqI)
  fix k assume k: "k < LENGTH(32)"
  have "bit (inp ! i) (k - 8 * i) \<Longrightarrow> k - 8 * i < 8" for i
    by (auto dest: bit_imp_le_length)
  with that k show "bit (load_le (Suc n) (inp @ [b]) :: u32) k \<longleftrightarrow>
      bit (load_le n inp XOR push_bit (8 * n) (ucast b) :: u32) k"
    unfolding bit_load_le bit_xor_iff bit_push_bit_iff bit_ucast_iff
    by (auto simp: less_Suc_eq nth_append) (use less_imp_le_nat in fastforce)+
qed

lemma foldl_crc_word:
  assumes "length w \<le> 4"
  shows "foldl crc_byte s w = (crc_bit ^^ (8 * length w)) (s XOR load_le (length w) w)"
  using assms
proof (induction w rule: rev_induct)
  case (snoc b w)
  let ?n = "length w"
  have "(crc_bit ^^ (8 * ?n)) (push_bit (8 * ?n) (ucast b :: u32)) =
      drop_bit (8 * ?n) (push_bit (8 * ?n) (ucast b :: u32))"
    by (rule crc_bits_high) (simp add: bit_push_bit_iff)
  also have "\<dots> = ucast b"
  proof (rule bit_word_eqI)
    fix k
    have "k + 8 * ?n < 32" if "bit b k"
      using that snoc.prems bit_imp_le_length[of b k] by simp
    then show "bit (drop_bit (8 * ?n) (push_bit (8 * ?n) (ucast b :: u32))) k \<longleftrightarrow> bit (ucast b :: u32) k"
      by (auto simp: bit_drop_bit_eq bit_push_bit_iff bit_ucast_iff add.commute)
  qed
  finally have b: "ucast b = (crc_bit ^^ (8 * ?n)) (push_bit (8 * ?n) (ucast b :: u32))" by simp
  have "foldl crc_byte s (w @ [b]) =
      (crc_bit ^^ 8) ((crc_bit ^^ (8 * ?n)) (s XOR load_le ?n w) XOR ucast b)"
    using snoc by (simp add: crc_byte_eq_serial[of _ b] crc_byte_serial_def del: funpow.simps)
  also have "\<dots> = (crc_bit ^^ 8) ((crc_bit ^^ (8 * ?n)) (s XOR load_le (Suc ?n) (w @ [b])))"
    by (subst b) (simp add: load_le_snoc crc_bits_xor[symmetric] xor.assoc del: funpow.simps)
  finally show ?case by (simp add: funpow_add del: funpow.simps)
qed (simp add: load_le_def)

lemma crc32c_burst:
  assumes "crc32c_extend seed (a @ w @ b) = crc32c_extend seed (a @ w' @ b)"
    and "length w = length w'" and "length w \<le> 4"
  shows "w = w'"
proof -
  let ?s = "foldl crc_byte (NOT seed) a"
  have "foldl crc_byte (foldl crc_byte ?s w) b = foldl crc_byte (foldl crc_byte ?s w') b"
    using assms(1) by (simp add: crc32c_extend_def)
  then have "foldl crc_byte ?s w = foldl crc_byte ?s w'" by (rule foldl_crc_inject)
  then have "?s XOR load_le (length w) w = ?s XOR load_le (length w) w'"
    using assms(2,3) by (auto simp: foldl_crc_word dest: crc_bits_inject)
  then have "(load_le (length w) w :: u32) = load_le (length w) w'"
    by (rule xor_cancel_left)
  then have "store_le (length w) (load_le (length w) w :: u32) = store_le (length w) (load_le (length w) w' :: u32)"
    by simp
  then show ?thesis using assms(2,3) by (simp add: store_load_le)
qed

end
