(* ===== verification/State_File.thy ===== *)
theory State_File
  imports Wire Integrity
begin

text \<open>
  The container of a state file and its atomic replacement (\<^verbatim>\<open>write_state_file\<close> and
  \<^verbatim>\<open>read_state_file\<close> of \<^verbatim>\<open>src/persistence.cpp\<close>): a 40-byte header with magic, version,
  lengths, two checksums and a digest, then the payload. The file system is the map from
  paths to contents that \<^verbatim>\<open>std::filesystem\<close> and the streams act on; which of its calls fail
  is given by an \<open>Io_Outcome\<close>, and a write yields every state of the files on its way, since a
  crash can expose any of them.
\<close>

definition persistence_magic :: u32 where "persistence_magic = 0x46424E45"
definition persistence_format_version :: u16 where "persistence_format_version = 1"
definition state_header_bytes :: nat where "state_header_bytes = 40"

record PersistenceHeader =
  ph_magic :: u32
  ph_format_version :: u16
  ph_flags :: u16
  ph_payload_bytes :: u64
  ph_payload_crc32c :: u32
  ph_record_count :: u32
  ph_content_digest :: u64

definition build_container :: "bytes \<Rightarrow> u32 \<Rightarrow> bytes" where
  "build_container payload record_count =
     (let c = replicate (state_header_bytes + length payload) 0;
          c = store_at 0 (store_u32 persistence_magic) c;
          c = store_at 4 (store_u16 persistence_format_version) c;
          c = store_at 6 (store_u16 0) c;
          c = store_at 8 (store_u64 (word_of_nat (length payload))) c;
          c = store_at 16 (store_u32 (crc32c payload)) c;
          c = store_at 20 (store_u32 record_count) c;
          c = store_at 24 (store_u64 (sha256_digest64 payload)) c;
          c = store_at 32 (store_u32 0) c;
          c = store_at 36 (store_u32 0) c;
          header_crc = crc32c (take (state_header_bytes - 4) c);
          c = store_at 36 (store_u32 header_crc) c
      in store_at state_header_bytes payload c)"

definition load_header :: "bytes \<Rightarrow> PersistenceHeader" where
  "load_header c =
     \<lparr>ph_magic = load_u32 c, ph_format_version = load_u16 (drop 4 c), ph_flags = load_u16 (drop 6 c),
      ph_payload_bytes = load_u64 (drop 8 c), ph_payload_crc32c = load_u32 (drop 16 c),
      ph_record_count = load_u32 (drop 20 c), ph_content_digest = load_u64 (drop 24 c)\<rparr>"

definition parse_container :: "bytes \<Rightarrow> Limits \<Rightarrow> bytes outcome" where
  "parse_container c l =
     (if length c < state_header_bytes then fail E_persistence_corruption
      else if state_header_bytes + unat (max_persistence_bytes l) < length c
      then fail E_resource_limit_exceeded
      else let header = load_header c; stored_header_crc = load_u32 (drop 36 c)
      in if ph_magic header \<noteq> persistence_magic then fail E_malformed_persistence
      else if ph_format_version header \<noteq> persistence_format_version then fail E_unsupported_version
      else let header_copy = store_at 36 (store_u32 0) (take state_header_bytes c)
      in if crc32c (take (state_header_bytes - 4) header_copy) \<noteq> stored_header_crc
      then fail E_checksum_mismatch
      else if unat (max_persistence_bytes l) < unat (ph_payload_bytes header)
      then fail E_resource_limit_exceeded
      else let expected = state_header_bytes + unat (ph_payload_bytes header)
      in if length c < expected then fail E_persistence_corruption
      else if expected < length c then fail E_trailing_data
      else if max_records_per_snapshot l < ph_record_count header then fail E_resource_limit_exceeded
      else let payload = drop state_header_bytes c
      in if crc32c payload \<noteq> ph_payload_crc32c header then fail E_checksum_mismatch
      else if sha256_digest64 payload \<noteq> ph_content_digest header then fail E_checksum_mismatch
      else Ok payload)"

section \<open>Files\<close>

type_synonym files = "string \<Rightarrow> bytes option"

record Io_Outcome =
  io_directory :: bool
  io_open :: bool
  io_written :: nat
  io_rename :: bool

text \<open>
  \<open>io_written\<close> counts the bytes that reach the temporary file; the stream has failed when
  they are fewer than the container. The last element of the result is the final state.
\<close>

definition temporary_path :: "string \<Rightarrow> u64 \<Rightarrow> string" where
  "temporary_path path serial = path @ ''.tmp-'' @ dec_string (unat serial)"

definition write_state_file ::
  "Io_Outcome \<Rightarrow> u64 \<Rightarrow> string \<Rightarrow> bytes \<Rightarrow> u32 \<Rightarrow> Limits \<Rightarrow> files \<Rightarrow> status \<times> files list" where
  "write_state_file io serial path payload record_count l fs =
     (if unat (max_persistence_bytes l) < length payload then (fail E_resource_limit_exceeded, [fs])
      else let container = build_container payload record_count
      in if \<not> io_directory io then (fail E_persistence_io_error, [fs])
      else let temporary = temporary_path path serial
      in if \<not> io_open io then (fail E_persistence_io_error, [fs])
      else let partial = fs(temporary \<mapsto> take (io_written io) container)
      in if io_written io < length container
      then (fail E_persistence_io_error, [fs, fs(temporary \<mapsto> []), partial, partial(temporary := None)])
      else let written = fs(temporary \<mapsto> container)
      in if \<not> io_rename io
      then (fail E_persistence_io_error, [fs, fs(temporary \<mapsto> []), written, written(temporary := None)])
      else (ok_status, [fs, fs(temporary \<mapsto> []), written, (written(path \<mapsto> container))(temporary := None)]))"

definition read_state_file :: "string \<Rightarrow> Limits \<Rightarrow> files \<Rightarrow> bytes outcome" where
  "read_state_file path l fs =
     (case fs path of None \<Rightarrow> fail E_persistence_io_error | Some c \<Rightarrow> parse_container c l)"

section \<open>The container as its fields\<close>

definition checked_header :: "bytes \<Rightarrow> u32 \<Rightarrow> bytes" where
  "checked_header payload record_count =
     store_u32 persistence_magic @ store_u16 persistence_format_version @ store_u16 0 @
     store_u64 (word_of_nat (length payload)) @ store_u32 (crc32c payload) @ store_u32 record_count @
     store_u64 (sha256_digest64 payload) @ store_u32 0"

definition state_header :: "bytes \<Rightarrow> u32 \<Rightarrow> bytes" where
  "state_header payload record_count =
     checked_header payload record_count @ store_u32 (crc32c (checked_header payload record_count))"

lemma length_headers [simp]:
  "length (checked_header p n) = 36" "length (state_header p n) = 40"
  by (simp_all add: checked_header_def state_header_def)

lemma build_container_eq: "build_container payload n = state_header payload n @ payload"
proof -
  have layout: "store_at 36 (store_u32 0) (store_at 32 (store_u32 0)
      (store_at 24 (store_u64 (sha256_digest64 payload)) (store_at 20 (store_u32 n)
      (store_at 16 (store_u32 (crc32c payload)) (store_at 8 (store_u64 (word_of_nat (length payload)))
      (store_at 6 (store_u16 0) (store_at 4 (store_u16 persistence_format_version)
      (store_at 0 (store_u32 persistence_magic) (replicate (40 + length payload) 0))))))))) =
      checked_header payload n @ store_u32 0 @ replicate (length payload) 0"
    by (simp add: store_at_def checked_header_def)
  show ?thesis
    by (simp add: build_container_def Let_def state_header_bytes_def layout)
      (simp add: store_at_def state_header_def)
qed

text \<open>What an accepted container is, whatever its flags and its unchecked word hold.\<close>

lemma parse_container_header:
  assumes "length h = 36"
  shows "parse_container (h @ store_u32 k @ body) l =
     (if unat (max_persistence_bytes l) < length body then fail E_resource_limit_exceeded
      else if load_u32 h \<noteq> persistence_magic then fail E_malformed_persistence
      else if load_u16 (drop 4 h) \<noteq> persistence_format_version then fail E_unsupported_version
      else if crc32c h \<noteq> k then fail E_checksum_mismatch
      else if unat (max_persistence_bytes l) < unat (load_u64 (drop 8 h)) then fail E_resource_limit_exceeded
      else if length body < unat (load_u64 (drop 8 h)) then fail E_persistence_corruption
      else if unat (load_u64 (drop 8 h)) < length body then fail E_trailing_data
      else if max_records_per_snapshot l < load_u32 (drop 20 h) then fail E_resource_limit_exceeded
      else if crc32c body \<noteq> load_u32 (drop 16 h) then fail E_checksum_mismatch
      else if sha256_digest64 body \<noteq> load_u64 (drop 24 h) then fail E_checksum_mismatch
      else Ok body)"
proof -
  have loads: "load_u32 (drop i h @ rest) = load_u32 (drop i h)" if "4 \<le> 36 - i" for i rest
    using load_le_take[of 4 "length (drop i h)" "drop i h @ rest", where ?'a = 32] that assms
    by (simp add: load_u32_def)
  have loads16: "load_u16 (drop 4 h @ rest) = load_u16 (drop 4 h)" for rest
    using load_le_take[of 2 "length (drop 4 h)" "drop 4 h @ rest", where ?'a = 16] assms
    by (simp add: load_u16_def)
  have loads64: "load_u64 (drop i h @ rest) = load_u64 (drop i h)" if "8 \<le> 36 - i" for i rest
    using load_le_take[of 8 "length (drop i h)" "drop i h @ rest", where ?'a = 64] that assms
    by (simp add: load_u64_def)
  have copy: "take 36 (store_at 36 (store_u32 0) (h @ store_u32 k)) = h"
    using assms by (simp add: store_at_def)
  show ?thesis
    using assms loads[of 0] loads[of 16] loads[of 20] loads16 loads64[of 8] loads64[of 24]
    by (simp add: parse_container_def Let_def state_header_bytes_def load_header_def copy)
qed

lemma parse_built:
  assumes "length payload \<le> unat (max_persistence_bytes l)" and "n \<le> max_records_per_snapshot l"
  shows "parse_container (build_container payload n) l = Ok payload"
proof -
  have "length payload < 2 ^ 64" using assms(1) unat_less_32[of "max_persistence_bytes l"] by simp
  then have "unat (word_of_nat (length payload) :: u64) = length payload" by (simp add: unat_of_nat)
  then show ?thesis
    using assms by (simp add: build_container_eq state_header_def parse_container_header)
      (simp add: checked_header_def not_less)
qed

section \<open>Damaged containers\<close>

lemma accepted_container:
  assumes "parse_container (h @ store_u32 k @ body) l = Ok x" and "length h = 36"
  shows "crc32c h = k" and "crc32c body = load_u32 (drop 16 h)" and "x = body"
  using assms(1) unfolding parse_container_header[OF assms(2)]
  by (simp_all add: fail_def split: if_splits)

lemma header_damage:
  assumes "checked_header payload n = p @ w @ q" and "length w' = length w" and "length w \<le> 4" and "w' \<noteq> w"
  shows "\<not> is_ok (parse_container (p @ w' @ q @ store_u32 (crc32c (checked_header payload n)) @ payload) l)"
proof
  let ?k = "crc32c (checked_header payload n)"
  have len: "length (p @ w' @ q) = 36" using arg_cong[OF assms(1), of length] assms(2) by simp
  assume "is_ok (parse_container (p @ w' @ q @ store_u32 ?k @ payload) l)"
  then obtain x where "parse_container ((p @ w' @ q) @ store_u32 ?k @ payload) l = Ok x"
    by (auto simp: is_ok_def split: outcome.splits)
  from accepted_container(1)[OF this len] have "crc32c (p @ w' @ q) = crc32c (p @ w @ q)"
    by (simp add: assms(1))
  then show False using crc32c_burst[of 0 p w' q w] assms(2-4) by (simp add: crc32c_def)
qed

lemma body_damage:
  assumes "store_u32 (crc32c (checked_header payload n)) @ payload = p @ w @ q"
    and "length w' = length w" and "length w \<le> 4" and "w' \<noteq> w"
  shows "\<not> is_ok (parse_container (checked_header payload n @ p @ w' @ q) l)"
proof
  let ?h = "checked_header payload n"
  let ?S = "store_u32 (crc32c ?h)"
  define S' where "S' = take 4 (p @ w' @ q)"
  define body where "body = drop 4 (p @ w' @ q)"
  have total: "4 + length payload = length p + length w + length q"
    using arg_cong[OF assms(1), of length] by simp
  then have "length S' = 4" using assms(2) by (simp add: S'_def)
  then have S': "S' = store_u32 (load_u32 S')" by (simp add: store_load)
  assume "is_ok (parse_container (?h @ p @ w' @ q) l)"
  moreover have "p @ w' @ q = store_u32 (load_u32 S') @ body"
    using S' append_take_drop_id[of 4 "p @ w' @ q"] by (simp add: S'_def body_def)
  ultimately obtain x where ok: "parse_container (?h @ store_u32 (load_u32 S') @ body) l = Ok x"
    by (auto simp: is_ok_def split: outcome.splits)
  have "?S = S'" using accepted_container(1)[OF ok] S' by simp
  then have S: "?S = take 4 p @ take (4 - length p) w' @ take (4 - (length p + length w)) q"
    by (simp add: S'_def assms(2))
  have S2: "?S = take 4 p @ take (4 - length p) w @ take (4 - (length p + length w)) q"
    using arg_cong[OF assms(1), of "take 4"] by simp
  have "crc32c body = crc32c payload"
    using accepted_container(2)[OF ok] by (simp add: checked_header_def)
  moreover have "payload = drop 4 p @ drop (4 - length p) w @ drop (4 - length p - length w) q"
    using arg_cong[OF assms(1), of "drop 4"] by simp
  moreover have "body = drop 4 p @ drop (4 - length p) w' @ drop (4 - length p - length w) q"
    using assms(2) by (simp add: body_def)
  ultimately have "drop (4 - length p) w' = drop (4 - length p) w"
    using crc32c_burst[of 0 "drop 4 p" "drop (4 - length p) w'" _ "drop (4 - length p) w"] assms(2,3)
    by (simp add: crc32c_def)
  moreover have "take (4 - length p) w' = take (4 - length p) w" using S S2 by simp
  ultimately show False using assms(4) by (metis append_take_drop_id)
qed

lemma container_damage:
  assumes "build_container payload n = p @ w @ q" and "length w' = length w" and "length w \<le> 4" and "w' \<noteq> w"
    and "length p + length w \<le> 36 \<or> 36 \<le> length p"
  shows "\<not> is_ok (parse_container (p @ w' @ q) l)"
proof -
  let ?h = "checked_header payload n"
  let ?tail = "store_u32 (crc32c ?h) @ payload"
  have split: "?h @ ?tail = p @ w @ q"
    using assms(1) by (simp add: build_container_eq state_header_def)
  from assms(5) show ?thesis
  proof
    assume le: "length p + length w \<le> 36"
    then have "?h = p @ w @ take (36 - length p - length w) q"
      using arg_cong[OF split, of "take 36"] by simp
    moreover have "?tail = drop (36 - length p - length w) q"
      using arg_cong[OF split, of "drop 36"] le by simp
    ultimately show ?thesis
      using header_damage[of payload n p w "take (36 - length p - length w) q" w' l] assms(2-4)
      by (metis append_assoc append_take_drop_id)
  next
    assume ge: "36 \<le> length p"
    then have p: "p = ?h @ drop 36 p" using arg_cong[OF split, of "take 36"] append_take_drop_id[of 36 p] by simp
    moreover have "?tail = drop 36 p @ w @ q" using arg_cong[OF split, of "drop 36"] ge by simp
    ultimately show ?thesis
      using body_damage[of payload n "drop 36 p" w q w' l] assms(2-4) by (metis append_assoc)
  qed
qed

section \<open>Replacement of a state file\<close>

lemma temporary_path_neq [simp]: "temporary_path path serial \<noteq> path" "path \<noteq> temporary_path path serial"
  by (simp_all add: temporary_path_def)

lemma write_state_file_atomic:
  assumes "write_state_file io serial path payload n l fs = (status, trace)"
  shows "(status = ok_status \<longrightarrow> last trace path = Some (build_container payload n)) \<and>
    (status \<noteq> ok_status \<longrightarrow> last trace path = fs path) \<and>
    (\<forall>fs' \<in> set trace. (fs' path = fs path \<or> fs' path = Some (build_container payload n)) \<and>
      (\<forall>other. other \<noteq> path \<longrightarrow> other \<noteq> temporary_path path serial \<longrightarrow> fs' other = fs other))"
  using assms by (auto simp: write_state_file_def Let_def split: if_splits)

end
