(* ===== verification/Recovery.thy ===== *)
theory Recovery
  imports Record_Codec State_File Fabric_Reports Fabric_Participant
begin

text \<open>
  Saving and recovering the runtime state (the last part of \<^verbatim>\<open>src/fabric_persist.cpp\<close>):
  the ensemble records, the whole state as it is written, \<^verbatim>\<open>serialize_state\<close>, \<^verbatim>\<open>save_state\<close>
  and \<^verbatim>\<open>recover_state\<close>. Recovery decodes a state file completely before it touches the
  runtime, replaces the ensembles, starts the next epoch, raises the allocators past every
  recovered identity, recomputes the reports and revokes all live authority. The process
  identity that a coordinator without a configured one draws at random is an argument.
\<close>

section \<open>Ensemble records\<close>

definition held_execution :: "EnsembleRecord \<Rightarrow> ExecutionRecord option" where
  "held_execution en = (if en_has_execution en then Some (en_execution en) else None)"

definition put_ensemble_record :: "Limits \<Rightarrow> EnsembleRecord \<Rightarrow> Field list" where
  "put_ensemble_record l en =
     [F_bytes (encode_spec (en_spec en) l), F_boolean (en_superseded en)] @
     vector_fields put_participant_record (en_participants en) @
     put_option put_execution_record (held_execution en) @
     vector_fields put_result (en_history en)"

definition get_ensemble_record :: "Limits \<Rightarrow> EnsembleRecord decoding" where
  "get_ensemble_record l =
     dbind (get_bytes (max_persistence_bytes l)) (\<lambda>spec_bytes.
     case decode_spec spec_bytes l of Err e \<Rightarrow> dfail e | Ok spec \<Rightarrow>
     dbind get_boolean (\<lambda>superseded.
     dbind (get_vector (max_participants_per_ensemble l) (get_participant_record l)) (\<lambda>participants.
     dbind (get_option (get_execution_record l)) (\<lambda>execution.
     dbind (get_vector (max_retained_results l) (get_result l)) (\<lambda>history.
     dreturn \<lparr>en_spec = spec, en_participants = participants, en_has_execution = execution \<noteq> None,
       en_execution = (case execution of None \<Rightarrow> execution_default | Some x \<Rightarrow> x),
       en_superseded = superseded, en_history = history\<rparr>)))))"

definition ensemble_record_within :: "Limits \<Rightarrow> EnsembleRecord \<Rightarrow> bool" where
  "ensemble_record_within l en \<longleftrightarrow>
     spec_within l (en_spec en) \<and> is_ok (validate_spec (en_spec en) l) \<and>
     within (max_persistence_bytes l) (spec_bytes (en_spec en)) \<and>
     within (max_participants_per_ensemble l) (en_participants en) \<and>
     list_all (participant_record_within l) (en_participants en) \<and>
     pred_option (execution_record_within l) (held_execution en) \<and>
     within (max_retained_results l) (en_history en) \<and> list_all (result_within l) (en_history en)"

definition durable_ensemble :: "EnsembleRecord \<Rightarrow> EnsembleRecord" where
  "durable_ensemble en = en\<lparr>en_execution :=
     (if en_has_execution en then durable_execution (en_execution en) else execution_default)\<rparr>"

definition ensemble_stored :: "Limits \<Rightarrow> EnsembleRecord \<Rightarrow> bool" where
  "ensemble_stored l en \<longleftrightarrow> ensemble_record_within l en \<and> durable_ensemble en = en"

lemma durable_ensemble_simps [simp]:
  "en_spec (durable_ensemble en) = en_spec en" "en_participants (durable_ensemble en) = en_participants en"
  "en_has_execution (durable_ensemble en) = en_has_execution en"
  "en_superseded (durable_ensemble en) = en_superseded en" "en_history (durable_ensemble en) = en_history en"
  "durable_ensemble (durable_ensemble en) = durable_ensemble en"
  "held_execution (durable_ensemble en) = map_option durable_execution (held_execution en)"
  by (simp_all add: durable_ensemble_def held_execution_def)

lemma put_option_durable [simp]:
  "put_option put_execution_record (map_option durable_execution x) = put_option put_execution_record x"
  by (cases x) (simp_all add: put_option_def)

lemma put_durable_ensemble [simp]: "put_ensemble_record l (durable_ensemble en) = put_ensemble_record l en"
  by (simp add: put_ensemble_record_def)

lemma ensemble_stored_durable [simp]: "ensemble_stored l (durable_ensemble en) = ensemble_record_within l en"
  by (cases "held_execution en") (simp_all add: ensemble_stored_def ensemble_record_within_def)

lemma held_execution_stored:
  "durable_ensemble en = en \<Longrightarrow>
     pred_option (execution_stored l) (held_execution en) = pred_option (execution_record_within l) (held_execution en)"
  by (cases en) (auto simp: durable_ensemble_def held_execution_def execution_stored_def)

lemma get_ensemble_forward:
  assumes "get_ensemble_record l (dec_at pre rest) = Ok (x, d')"
  shows "ensemble_stored l x \<and> (\<exists>rest'. rest = wire (put_ensemble_record l x) @ rest' \<and>
    d' = dec_at (pre @ wire (put_ensemble_record l x)) rest')"
proof -
  have case_Ok: "(case r of Err e \<Rightarrow> dfail e | Ok v \<Rightarrow> g v) d = Ok y \<longleftrightarrow> (\<exists>v. r = Ok v \<and> g v d = Ok y)"
    for r :: "EnsembleSpec outcome" and g :: "EnsembleSpec \<Rightarrow> EnsembleRecord decoding" and d y
    by (cases r) (simp_all add: dfail_not_Ok)
  from assms show ?thesis
    unfolding get_ensemble_record_def
    by (simp only: codec_binds case_Ok decode_spec_Ok_iff)
      (elim exE conjE, hypsubst, simp add: ensemble_stored_def ensemble_record_within_def
        put_ensemble_record_def durable_ensemble_def held_execution_def within_def encode_spec_eq,
        auto simp: execution_stored_def split: option.splits)
qed

lemma get_ensemble_backward:
  assumes "ensemble_stored l x"
  shows "get_ensemble_record l (dec_at pre (wire (put_ensemble_record l x) @ rest)) =
    Ok (x, dec_at (pre @ wire (put_ensemble_record l x)) rest)"
proof -
  have dur: "durable_ensemble x = x" using assms by (simp add: ensemble_stored_def)
  have spec: "encode_spec (en_spec x) l = spec_bytes (en_spec x)"
      "decode_spec (spec_bytes (en_spec x)) l = Ok (en_spec x)"
      "within (max_persistence_bytes l) (spec_bytes (en_spec x))"
    using assms by (auto simp: ensemble_stored_def ensemble_record_within_def decode_spec_Ok_iff
        encode_spec_eq within_def)
  have held: "pred_option (execution_stored l) (held_execution x)"
    using assms held_execution_stored[OF dur] by (simp add: ensemble_stored_def ensemble_record_within_def)
  have whole: "\<lparr>en_spec = en_spec x, en_participants = en_participants x,
      en_has_execution = held_execution x \<noteq> None,
      en_execution = (case held_execution x of None \<Rightarrow> execution_default | Some y \<Rightarrow> y),
      en_superseded = en_superseded x, en_history = en_history x\<rparr> = x"
    using dur by (cases x) (auto simp: durable_ensemble_def held_execution_def)
  show ?thesis
    using assms held spec(3)
    by (simp add: ensemble_stored_def ensemble_record_within_def get_ensemble_record_def
        put_ensemble_record_def spec codec_reads whole[simplified])
qed

interpretation ensemble_record_codec:
  wire_codec "put_ensemble_record l" "get_ensemble_record l" "ensemble_stored l" for l
  by (rule wire_codecI) (rule get_ensemble_forward, assumption, rule get_ensemble_backward)

declare ensemble_record_codec.vector_bind_Ok_iff [codec_binds] ensemble_record_codec.vector_bind_read [codec_reads]

section \<open>The whole state\<close>

record StoredState =
  ss_epoch :: CoordinatorEpoch
  ss_coordinator_boot :: WorkerBootId
  ss_ensemble_next :: u64
  ss_candidate_next :: u64
  ss_evaluation_next :: u64
  ss_result_next :: u64
  ss_sequence_next :: u64
  ss_counters :: Counters
  ss_ensembles :: "EnsembleRecord list"

definition put_state :: "Limits \<Rightarrow> StoredState \<Rightarrow> Field list" where
  "put_state l s =
     [F_u64 (ss_epoch s), F_u64 (ss_coordinator_boot s), F_u64 (ss_ensemble_next s),
      F_u64 (ss_candidate_next s), F_u64 (ss_evaluation_next s), F_u64 (ss_result_next s),
      F_u64 (ss_sequence_next s)] @
     put_counters (ss_counters s) @
     vector_fields (put_ensemble_record l) (ss_ensembles s)"

definition get_state :: "Limits \<Rightarrow> StoredState decoding" where
  "get_state l =
     dbind get_u64 (\<lambda>epoch. dbind get_u64 (\<lambda>boot. dbind get_u64 (\<lambda>ensembles_next.
     dbind get_u64 (\<lambda>candidates_next. dbind get_u64 (\<lambda>evaluations_next. dbind get_u64 (\<lambda>results_next.
     dbind get_u64 (\<lambda>sequences_next. dbind get_counters (\<lambda>counters.
     dbind (get_vector (max_records_per_snapshot l) (get_ensemble_record l)) (\<lambda>ensembles.
     dreturn \<lparr>ss_epoch = epoch, ss_coordinator_boot = boot, ss_ensemble_next = ensembles_next,
       ss_candidate_next = candidates_next, ss_evaluation_next = evaluations_next,
       ss_result_next = results_next, ss_sequence_next = sequences_next, ss_counters = counters,
       ss_ensembles = ensembles\<rparr>)))))))))"

definition state_within :: "Limits \<Rightarrow> StoredState \<Rightarrow> bool" where
  "state_within l s \<longleftrightarrow>
     within (max_records_per_snapshot l) (ss_ensembles s) \<and> list_all (ensemble_stored l) (ss_ensembles s)"

interpretation state_codec: wire_codec "put_state l" "get_state l" "state_within l" for l
  by (rule wire_codecI,
      force simp: get_state_def put_state_def state_within_def codec_binds,
      case_tac x)
    (simp add: get_state_def put_state_def state_within_def codec_reads)

interpretation extended_state_codec:
  wire_codec "put_extended (put_state l)" "get_extended (get_state l)" "state_within l" for l
  by (rule state_codec.extended_codec)

definition stored_of :: "Impl \<Rightarrow> StoredState" where
  "stored_of im =
     \<lparr>ss_epoch = im_epoch im, ss_coordinator_boot = im_coordinator_boot im,
      ss_ensemble_next = im_ensemble_ids im, ss_candidate_next = im_candidate_ids im,
      ss_evaluation_next = im_evaluation_ids im, ss_result_next = im_result_ids im,
      ss_sequence_next = im_sequences im, ss_counters = im_counters im,
      ss_ensembles = map snd (im_ensembles im)\<rparr>"

definition serialize_state :: "Impl \<Rightarrow> bytes" where
  "serialize_state im =
     enc_buffer (put_fields (put_extended (put_state (im_limits im)) (stored_of im)) (new_encoder (im_limits im)))"

definition save_state :: "Io_Outcome \<Rightarrow> u64 \<Rightarrow> string \<Rightarrow> Impl \<Rightarrow> files \<Rightarrow> status \<times> files list" where
  "save_state io serial path im fs =
     write_state_file io serial path (serialize_state im) 1 (im_limits im) fs"

section \<open>Recovery\<close>

text \<open>\<^verbatim>\<open>std::map::emplace\<close> keeps the entry of a key that is already there.\<close>

definition emplace_ensemble ::
  "EnsembleRecord \<Rightarrow> (u64, EnsembleRecord) omap \<Rightarrow> (u64, EnsembleRecord) omap" where
  "emplace_ensemble en m =
     (if omap_find m (sp_id (en_spec en)) = None then omap_put (sp_id (en_spec en)) en m else m)"

definition load_ensembles :: "EnsembleRecord list \<Rightarrow> (u64, EnsembleRecord) omap" where
  "load_ensembles ens = fold emplace_ensemble ens []"

definition observe_waterfall :: "u64 \<Rightarrow> u64 \<Rightarrow> u64" where
  "observe_waterfall w next = (if w \<noteq> 0 then observe (w - 1) next else next)"

definition observe_candidate :: "CandidateRecord \<Rightarrow> Impl \<Rightarrow> Impl" where
  "observe_candidate c im = im\<lparr>im_candidate_ids := observe (cd_id c) (im_candidate_ids im),
     im_sequences := observe (cd_dispatch_sequence c) (observe (cd_received_sequence c) (im_sequences im))\<rparr>"

definition observe_evaluation :: "EvaluationRecord \<Rightarrow> Impl \<Rightarrow> Impl" where
  "observe_evaluation e im = im\<lparr>im_evaluation_ids := observe (er_id e) (im_evaluation_ids im),
     im_sequences := observe (er_received_sequence e) (im_sequences im)\<rparr>"

definition observe_ensemble :: "EnsembleRecord \<Rightarrow> Impl \<Rightarrow> Impl" where
  "observe_ensemble en im =
     (let im = im\<lparr>im_ensemble_ids := observe (sp_id (en_spec en)) (im_ensemble_ids im)\<rparr>
      in if \<not> en_has_execution en then im
         else let ex = en_execution en;
                  im = fold observe_candidate (ex_candidates ex) im;
                  im = fold observe_evaluation (ex_evaluations ex) im
              in if ex_has_result ex
                 then im\<lparr>im_result_ids := observe (rs_id (ex_result ex)) (im_result_ids im),
                         im_sequences := observe (rs_commit_sequence (ex_result ex)) (im_sequences im)\<rparr>
                 else im)"

definition recompute_reports :: "EnsembleRecord \<Rightarrow> EnsembleRecord" where
  "recompute_reports en = (if en_has_execution en then compute_reports en else en)"

definition recovery_reason :: string where
  "recovery_reason = ''coordinator recovery: live authority is not durable''"

definition restore_state :: "StoredState \<Rightarrow> WorkerBootId \<Rightarrow> Impl \<Rightarrow> Impl \<times> CoordinatorEpoch outcome" where
  "restore_state s boot im =
     (if ss_epoch s = - 1 then (im, fail E_resource_limit_exceeded)
      else
        let im = im\<lparr>im_ensembles := load_ensembles (ss_ensembles s), im_counters := ss_counters s,
                    im_epoch := ss_epoch s + 1,
                    im_coordinator_boot := (if valid_id (cf_coordinator_boot (im_config im))
                                            then cf_coordinator_boot (im_config im) else boot)\<rparr>;
            im = im\<lparr>im_ensemble_ids := observe_waterfall (ss_ensemble_next s) (im_ensemble_ids im),
                    im_candidate_ids := observe_waterfall (ss_candidate_next s) (im_candidate_ids im),
                    im_evaluation_ids := observe_waterfall (ss_evaluation_next s) (im_evaluation_ids im),
                    im_result_ids := observe_waterfall (ss_result_next s) (im_result_ids im),
                    im_sequences := observe_waterfall (ss_sequence_next s) (im_sequences im)\<rparr>;
            im = fold observe_ensemble (map snd (im_ensembles im)) im;
            im = im\<lparr>im_ensembles := map (\<lambda>(i, en). (i, recompute_reports en)) (im_ensembles im)\<rparr>;
            recovered_epoch = im_epoch im
        in case invalidate_dynamic_authority recovery_reason im of
             (im, Err e) \<Rightarrow> (im, fail e)
           | (im, Ok _) \<Rightarrow> (im, Ok recovered_epoch))"

definition recover_state ::
  "string \<Rightarrow> WorkerBootId \<Rightarrow> files \<Rightarrow> Impl \<Rightarrow> Impl \<times> CoordinatorEpoch outcome" where
  "recover_state path boot fs im =
     (case read_state_file path (im_limits im) fs of
        Err e \<Rightarrow> (im, fail e)
      | Ok payload \<Rightarrow>
          (case decode_exactly (get_extended (get_state (im_limits im))) payload of
             Err e \<Rightarrow> (im, fail e)
           | Ok s \<Rightarrow> restore_state s boot im))"

section \<open>What recovery restores\<close>

lemma omap_put_snoc:
  "list_all (\<lambda>k'. k' < k) (map fst m) \<Longrightarrow> omap_put k v m = m @ [(k, v)]" for k :: "'k::linorder"
  by (induction m) auto

lemma load_ensembles_sorted:
  assumes "omap_ordered m" and "list_all (\<lambda>(i, en). i = sp_id (en_spec en)) m"
  shows "load_ensembles (map snd m) = m"
proof -
  have "fold emplace_ensemble (map snd b) a = a @ b"
    if "omap_ordered (a @ b)" "list_all (\<lambda>(i, en). i = sp_id (en_spec en)) b" for a b
    using that
  proof (induction b arbitrary: a)
    case (Cons kv b)
    obtain i en where kv: "kv = (i, en)" by (cases kv)
    with Cons.prems have i: "sp_id (en_spec en) = i" and below: "list_all (\<lambda>k. k < i) (map fst a)"
      by (auto simp: omap_ordered_def sorted_wrt_append list_all_iff)
    then have "i \<notin> fst ` set a" by (auto simp: list_all_iff)
    then have "emplace_ensemble en a = a @ [(i, en)]"
      by (simp add: emplace_ensemble_def i omap_find_def map_of_eq_None_iff omap_put_snoc[OF below])
    with Cons kv show ?case by simp
  qed simp
  from this[of "[]" m] assms show ?thesis by (simp add: load_ensembles_def)
qed

lemma observe_ge: "next \<le> observe i next"
  by (auto simp: observe_def word_le_nat_alt unat_plus_1_64)

lemma observe_waterfall_ge: "next \<le> observe_waterfall w next" "w \<le> observe_waterfall w next"
proof -
  show "next \<le> observe_waterfall w next" by (simp add: observe_waterfall_def observe_ge)
  show "w \<le> observe_waterfall w next"
  proof (cases "w = 0")
    case False
    then have w: "w - 1 \<noteq> - 1" by auto
    have "unat w = Suc (unat (w - 1))" using unat_plus_1_64[OF w] by simp
    with False w show ?thesis
      by (auto simp: observe_waterfall_def observe_def word_le_nat_alt not_le)
  qed (simp add: observe_waterfall_def)
qed

text \<open>Observing identities raises the allocators and changes nothing else.\<close>

definition raises :: "Impl \<Rightarrow> Impl \<Rightarrow> bool" where
  "raises im im' \<longleftrightarrow>
     im_config im' = im_config im \<and> im_epoch im' = im_epoch im \<and>
     im_coordinator_boot im' = im_coordinator_boot im \<and> im_counters im' = im_counters im \<and>
     im_ensembles im' = im_ensembles im \<and> im_ensemble_ids im \<le> im_ensemble_ids im' \<and>
     im_candidate_ids im \<le> im_candidate_ids im' \<and> im_evaluation_ids im \<le> im_evaluation_ids im' \<and>
     im_result_ids im \<le> im_result_ids im' \<and> im_sequences im \<le> im_sequences im'"

lemma raises_refl: "raises im im" and raises_trans: "raises a b \<Longrightarrow> raises b c \<Longrightarrow> raises a c"
  by (auto simp: raises_def)

lemma raises_fold:
  assumes "\<And>x im. raises im (f x im)"
  shows "raises im (fold f xs im)"
proof (induction xs arbitrary: im)
  case (Cons x xs)
  then show ?case using assms raises_trans by (metis fold_simps(2))
qed (simp add: raises_refl)

lemma raises_observe_records: "raises im (observe_candidate c im)" "raises im (observe_evaluation e im)"
  using order_trans[OF observe_ge observe_ge]
  by (auto simp: raises_def observe_candidate_def observe_evaluation_def observe_ge)

lemma raises_observe_ensemble: "raises im (observe_ensemble en im)"
proof -
  let ?im1 = "im\<lparr>im_ensemble_ids := observe (sp_id (en_spec en)) (im_ensemble_ids im)\<rparr>"
  let ?im2 = "fold observe_evaluation (ex_evaluations (en_execution en))
    (fold observe_candidate (ex_candidates (en_execution en)) ?im1)"
  have 1: "raises im ?im1" by (simp add: raises_def observe_ge)
  moreover have "raises ?im1 ?im2"
    by (rule raises_trans; rule raises_fold; rule raises_observe_records)
  ultimately have 2: "raises im ?im2" by (rule raises_trans)
  moreover have "raises ?im2 (?im2\<lparr>im_result_ids := observe (rs_id (ex_result (en_execution en))) (im_result_ids ?im2),
      im_sequences := observe (rs_commit_sequence (ex_result (en_execution en))) (im_sequences ?im2)\<rparr>)"
    by (simp add: raises_def observe_ge)
  ultimately have "raises im (?im2\<lparr>im_result_ids := observe (rs_id (ex_result (en_execution en))) (im_result_ids ?im2),
      im_sequences := observe (rs_commit_sequence (ex_result (en_execution en))) (im_sequences ?im2)\<rparr>)"
    by (rule raises_trans)
  with 1 2 show ?thesis by (simp add: observe_ensemble_def Let_def)
qed

lemma restore_state_Ok:
  assumes "ss_epoch s \<noteq> - 1" and "restore_state s boot im = (im', r)"
  shows "r = Ok (ss_epoch s + 1)" and "im_epoch im' = ss_epoch s + 1"
    and "im_ensembles im' = map (\<lambda>(i, en). (i, invalidate_ensemble recovery_reason (recompute_reports en)))
      (load_ensembles (ss_ensembles s))"
    and "ss_ensemble_next s \<le> im_ensemble_ids im'" "ss_candidate_next s \<le> im_candidate_ids im'"
      "ss_evaluation_next s \<le> im_evaluation_ids im'" "ss_result_next s \<le> im_result_ids im'"
      "ss_sequence_next s \<le> im_sequences im'"
proof -
  define im1 where "im1 = im\<lparr>im_ensembles := load_ensembles (ss_ensembles s), im_counters := ss_counters s,
      im_epoch := ss_epoch s + 1,
      im_coordinator_boot := (if valid_id (cf_coordinator_boot (im_config im))
                              then cf_coordinator_boot (im_config im) else boot),
      im_ensemble_ids := observe_waterfall (ss_ensemble_next s) (im_ensemble_ids im),
      im_candidate_ids := observe_waterfall (ss_candidate_next s) (im_candidate_ids im),
      im_evaluation_ids := observe_waterfall (ss_evaluation_next s) (im_evaluation_ids im),
      im_result_ids := observe_waterfall (ss_result_next s) (im_result_ids im),
      im_sequences := observe_waterfall (ss_sequence_next s) (im_sequences im)\<rparr>"
  define im2 where "im2 = fold observe_ensemble (map snd (im_ensembles im1)) im1"
  have up: "raises im1 im2" unfolding im2_def by (rule raises_fold) (rule raises_observe_ensemble)
  have "(im', r) = (fst (invalidate_dynamic_authority recovery_reason (im2\<lparr>im_ensembles :=
      map (\<lambda>(i, en). (i, recompute_reports en)) (im_ensembles im2)\<rparr>)), Ok (im_epoch im2))"
    using assms by (simp add: restore_state_def im1_def im2_def Let_def invalidate_dynamic_authority_def)
  then show "r = Ok (ss_epoch s + 1)" "im_epoch im' = ss_epoch s + 1"
    "im_ensembles im' = map (\<lambda>(i, en). (i, invalidate_ensemble recovery_reason (recompute_reports en)))
      (load_ensembles (ss_ensembles s))"
    "ss_ensemble_next s \<le> im_ensemble_ids im'" "ss_candidate_next s \<le> im_candidate_ids im'"
    "ss_evaluation_next s \<le> im_evaluation_ids im'" "ss_result_next s \<le> im_result_ids im'"
    "ss_sequence_next s \<le> im_sequences im'"
    using up order_trans[OF observe_waterfall_ge(2)]
    by (auto simp: invalidate_dynamic_authority_def Let_def raises_def im1_def)
qed

section \<open>Saving, then recovering\<close>

text \<open>
  A state that its own limits can hold: the decoder accepts every record of it, the encoder
  has room for it, and another epoch is left. The keys are those that every operation keeps.
\<close>

definition savable :: "Impl \<Rightarrow> bool" where
  "savable im \<longleftrightarrow>
     im_epoch im \<noteq> - 1 \<and> 1 \<le> max_records_per_snapshot (im_limits im) \<and>
     omap_ordered (im_ensembles im) \<and> list_all (\<lambda>(i, en). i = sp_id (en_spec en)) (im_ensembles im) \<and>
     within (max_records_per_snapshot (im_limits im)) (im_ensembles im) \<and>
     list_all (\<lambda>(i, en). ensemble_record_within (im_limits im) en) (im_ensembles im) \<and>
     length (wire (put_extended (put_state (im_limits im)) (stored_of im)))
       \<le> unat (max_persistence_bytes (im_limits im))"

definition durable_state :: "StoredState \<Rightarrow> StoredState" where
  "durable_state s = s\<lparr>ss_ensembles := map durable_ensemble (ss_ensembles s)\<rparr>"

lemma put_durable_state: "put_state l (durable_state s) = put_state l s"
  by (simp add: put_state_def durable_state_def vector_fields_def comp_def)

lemma savable_within: "savable im \<Longrightarrow> state_within (im_limits im) (durable_state (stored_of im))"
  by (auto simp: savable_def state_within_def durable_state_def stored_of_def within_def list_all_iff)

lemma decode_serialized:
  assumes "savable im"
  shows "decode_exactly (get_extended (get_state (im_limits im))) (serialize_state im) =
    Ok (durable_state (stored_of im))"
proof -
  have "serialize_state im = enc_buffer (put_fields (put_extended (put_state (im_limits im))
      (durable_state (stored_of im))) (new_encoder (im_limits im)))"
    by (simp add: serialize_state_def put_extended_def put_durable_state)
  then show ?thesis
    using extended_state_codec.encode_decode[OF savable_within[OF assms], of "im_limits im"] assms
    by (simp add: savable_def put_extended_def put_durable_state)
qed

lemma serialize_size:
  "savable im \<Longrightarrow> length (serialize_state im) \<le> unat (max_persistence_bytes (im_limits im))"
  by (simp add: serialize_state_def put_fields_new savable_def)

lemma recover_saved:
  assumes "savable im" and "im_limits im0 = im_limits im"
    and "save_state io serial path im fs = (ok_status, trace)"
  shows "recover_state path boot (last trace) im0 = restore_state (durable_state (stored_of im)) boot im0"
proof -
  have "last trace path = Some (build_container (serialize_state im) 1)"
    using write_state_file_atomic assms(3) unfolding save_state_def by blast
  then have "read_state_file path (im_limits im) (last trace) = Ok (serialize_state im)"
    using assms(1) parse_built[OF serialize_size[OF assms(1)], of 1]
    by (simp add: read_state_file_def savable_def)
  then show ?thesis by (simp add: recover_state_def assms(2) decode_serialized[OF assms(1)])
qed

lemma load_durable:
  assumes "savable im"
  shows "load_ensembles (ss_ensembles (durable_state (stored_of im))) =
    map (\<lambda>(i, en). (i, durable_ensemble en)) (im_ensembles im)"
proof -
  let ?m = "map (\<lambda>(i, en). (i, durable_ensemble en)) (im_ensembles im)"
  have "map fst ?m = map fst (im_ensembles im)" by (simp add: comp_def case_prod_unfold)
  moreover have "omap_ordered (im_ensembles im)" using assms by (simp add: savable_def)
  ultimately have "omap_ordered ?m" unfolding omap_ordered_def by (simp only:)
  moreover have "list_all (\<lambda>(i, en). i = sp_id (en_spec en)) ?m"
    using assms by (auto simp: savable_def list_all_iff)
  ultimately have "load_ensembles (map snd ?m) = ?m" by (rule load_ensembles_sorted)
  then show ?thesis by (simp add: durable_state_def stored_of_def comp_def case_prod_unfold)
qed

lemma find_map_ensembles:
  "find_ensemble (im\<lparr>im_ensembles := map (\<lambda>(i, en). (i, f en)) m\<rparr>) i = map_option f (omap_find m i)"
  by (induction m) (auto simp: find_ensemble_def omap_find_def)

lemma recovered_result:
  "en_has_execution (invalidate_ensemble reason (recompute_reports (durable_ensemble en))) = en_has_execution en"
  "en_has_execution en \<Longrightarrow> ex_has_result (en_execution en) \<Longrightarrow>
     ex_has_result (en_execution (invalidate_ensemble reason (recompute_reports (durable_ensemble en)))) \<and>
     ex_result (en_execution (invalidate_ensemble reason (recompute_reports (durable_ensemble en)))) =
       ex_result (en_execution en)"
  "en_history (invalidate_ensemble reason (recompute_reports (durable_ensemble en))) = en_history en"
  by (simp_all add: invalidate_ensemble_def invalidate_execution_def map_execution_def recompute_reports_def
      compute_reports_def compute_reports_execution_def durable_ensemble_def durable_execution_def Let_def)

end
