(* ===== verification/Runtime_Machine.thy ===== *)
theory Runtime_Machine
  imports Fabric_Machine Recovery
begin

text \<open>
  The runtime across processes. \<open>fabric_step\<close> has the operations of one running runtime; the
  steps here add \<^verbatim>\<open>recover_state\<close>. A recovery replaces every ensemble by what the file holds, so
  it continues the run of the state that was written into that file, and no other. A step is
  therefore an operation, a recovery of the very state that was saved (in the same process or
  in a fresh one with the same limits), or a recovery that fails, from whatever file. A
  successful recovery from the file of an older or of a foreign state is not a step: the source
  does not recognise one, and what it loses is shown by \<open>stale_recovery_rolls_back\<close> (theory
  \<open>Persistence_Properties\<close>). The machine still refines the lifecycle specification.
\<close>

section \<open>Recovery of a saved state\<close>

definition recovered_from_save :: "Impl \<Rightarrow> Impl \<Rightarrow> bool" where
  "recovered_from_save im im' \<longleftrightarrow>
     (\<exists>io serial path fs trace fs' boot im0 r.
        savable im \<and> save_state io serial path im fs = (ok_status, trace) \<and> fs' path = last trace path \<and>
        im_limits im0 = im_limits im \<and> recover_state path boot fs' im0 = (im', r))"

definition recovered_ensemble :: "EnsembleRecord \<Rightarrow> EnsembleRecord" where
  "recovered_ensemble en = invalidate_ensemble recovery_reason (recompute_reports (durable_ensemble en))"

lemma recover_state_file: "fs' path = fs path \<Longrightarrow> recover_state path boot fs' im = recover_state path boot fs im"
  by (simp add: recover_state_def read_state_file_def)

lemma saved_ensembles_recovered:
  assumes "savable im" and "im_limits im0 = im_limits im"
    and "save_state io serial path im fs = (ok_status, trace)"
    and "recover_state path boot (last trace) im0 = (im', r)"
  shows "find_ensemble im' i = map_option recovered_ensemble (find_ensemble im i)"
proof -
  let ?s = "durable_state (stored_of im)"
  have re: "restore_state ?s boot im0 = (im', r)"
    using recover_saved[OF assms(1-3), of boot] assms(4) by simp
  have e: "ss_epoch ?s \<noteq> - 1" using assms(1) by (simp add: savable_def durable_state_def stored_of_def)
  have "im_ensembles im' = map (\<lambda>(i, en). (i, recovered_ensemble en)) (im_ensembles im)"
    using restore_state_Ok(3)[OF e re] load_durable[OF assms(1)]
    by (simp add: comp_def case_prod_unfold recovered_ensemble_def)
  then show ?thesis
    using find_map_ensembles[of recovered_ensemble "im_ensembles im" im' i] by (simp add: find_ensemble_def)
qed

lemma recovered_from_save_find:
  assumes "recovered_from_save im im'"
  shows "find_ensemble im' i = map_option recovered_ensemble (find_ensemble im i)"
proof -
  obtain io serial path fs trace fs' boot im0 r where s: "savable im" "im_limits im0 = im_limits im"
    "save_state io serial path im fs = (ok_status, trace)" "fs' path = last trace path"
    "recover_state path boot fs' im0 = (im', r)"
    using assms unfolding recovered_from_save_def by blast
  show ?thesis
    using s(5) recover_state_file[of fs' path "last trace", OF s(4)]
    by (intro saved_ensembles_recovered[OF s(1-3)]) simp
qed

lemma durable_ensemble_abs: "abs_ensemble (durable_ensemble en) = abs_ensemble en"
  by (simp add: abs_ensemble_def durable_ensemble_def durable_execution_def)

lemma recomputed_frame: "commit_frame en (recompute_reports en)"
  by (simp add: recompute_reports_def commit_frame_def)

lemma recovered_ensemble_abs: "abs_ensemble (recovered_ensemble en) = abs_ensemble en"
  unfolding recovered_ensemble_def
  using commit_frame_abs[OF invalidate_frame] commit_frame_abs[OF recomputed_frame] durable_ensemble_abs by simp

section \<open>Steps\<close>

inductive runtime_step :: "Impl \<Rightarrow> Impl \<Rightarrow> bool" where
  operation_step: "fabric_step im im' \<Longrightarrow> runtime_step im im'"
| recovery_step: "recovered_from_save im im' \<Longrightarrow> runtime_step im im'"
| failed_recovery_step: "recover_state path boot fs im = (im', Err e) \<Longrightarrow> runtime_step im im'"

definition runtime_reachable :: "FabricConfig \<Rightarrow> Impl \<Rightarrow> bool" where
  "runtime_reachable config im \<longleftrightarrow> rtranclp runtime_step (fabric_init config) im"

lemma fabric_run_is_runtime_run: "rtranclp fabric_step im im' \<Longrightarrow> rtranclp runtime_step im im'"
  using rtranclp_mono[of fabric_step runtime_step] operation_step by blast

lemma reachable_in_runtime: "reachable config im \<Longrightarrow> runtime_reachable config im"
  by (simp add: reachable_def runtime_reachable_def fabric_run_is_runtime_run)

lemma failed_recovery_same: "recover_state path boot fs im = (im', Err e) \<Longrightarrow> im' = im"
proof -
  have restore: "restore_state s boot im = (im', Err e) \<Longrightarrow> im' = im" for s
    using restore_state_Ok[of s boot im im' "Err e"]
    by (cases "ss_epoch s = - 1") (auto simp: restore_state_def)
  show "recover_state path boot fs im = (im', Err e) \<Longrightarrow> im' = im"
    by (auto simp: recover_state_def split: outcome.splits intro: restore)
qed

text \<open>What a recovery of the saved state shows of an ensemble is what it was.\<close>

lemma runtime_step_simulated:
  assumes "runtime_step im im'"
  shows "simulated im im'"
  using assms
proof (cases rule: runtime_step.cases)
  case operation_step
  then show ?thesis by (rule fabric_step_simulated)
next
  case recovery_step
  then show ?thesis
    by (auto simp: simulated_def recovered_from_save_find recovered_ensemble_abs abs_stutter split: option.splits)
next
  case (failed_recovery_step path boot fs e)
  then show ?thesis using failed_recovery_same simulated_same by blast
qed

interpretation runtime_lifecycle: simulation runtime_step "view i" abs_step for i
  by unfold_locales (rule simulated_view[OF runtime_step_simulated])

end
