(* ===== verification/Fabric_Runs.thy ===== *)
theory Fabric_Runs
  imports Fabric_Invariant Runtime_Machine
begin

text \<open>
  What every run of the runtime, operations and recoveries of its own saved state, keeps of one
  ensemble, obtained from the simulation of the life-cycle specification: the key of its
  execution never decreases, and while it stays the same a stored result stays the same.
\<close>

text \<open>The key that orders the executions of one ensemble, and what a run keeps of it.\<close>

definition record_key :: "EnsembleRecord \<Rightarrow> u64 \<times> u64" where
  "record_key en =
     (sp_generation (en_spec en), if en_has_execution en then ex_id (en_execution en) else 0)"

definition execution_key :: "EnsembleId \<Rightarrow> Impl \<Rightarrow> (u64 \<times> u64) option" where
  "execution_key i im = map_option record_key (find_ensemble im i)"

lemma record_key_abs: "abs_key (abs_ensemble en) = record_key en"
  by (simp add: abs_key_def abs_ensemble_def record_key_def)

lemma current_result_abs:
  "current_result i im = Ok r \<longleftrightarrow> (\<exists>en. find_ensemble im i = Some en \<and> abs_result (abs_ensemble en) = Some r)"
  by (auto simp: current_result_def abs_result_def abs_ensemble_def split: option.splits)

definition views_ok :: "Impl \<Rightarrow> bool" where
  "views_ok im \<longleftrightarrow> (\<forall>i a. view i im = Some a \<longrightarrow> abs_ok a)"

lemma step_views_ok: "runtime_step im im' \<Longrightarrow> views_ok im \<Longrightarrow> views_ok im'"
proof (unfold views_ok_def, intro allI impI)
  fix i b
  assume s: "runtime_step im im'" and ok: "\<forall>i a. view i im = Some a \<longrightarrow> abs_ok a" and b: "view i im' = Some b"
  show "abs_ok b"
  proof (cases "find_ensemble im i")
    case None
    with runtime_step_simulated[OF s] b show ?thesis
      by (auto simp: simulated_def view_def abs_ok_def split: option.splits dest!: spec[of _ i])
  next
    case (Some en)
    then have v: "view i im = Some (abs_ensemble en)" by (simp add: view_def)
    then obtain c where "view i im' = Some c" "abs_step (abs_ensemble en) c"
      using runtime_lifecycle.simulates[OF s] by blast
    with b v ok show ?thesis by (auto dest: abs_step_ok)
  qed
qed

lemma reachable_views_ok: "runtime_reachable config im \<Longrightarrow> views_ok im"
proof -
  have "views_ok im" if "rtranclp runtime_step (fabric_init config) im"
    using that
  proof (induction rule: rtranclp_induct)
    case base
    show ?case by (simp add: views_ok_def view_def find_ensemble_def fabric_init_def)
  qed (rule step_views_ok)
  then show "runtime_reachable config im \<Longrightarrow> ?thesis" by (simp add: runtime_reachable_def)
qed

lemma run_views:
  assumes "runtime_reachable config im" "find_ensemble im i = Some en" "rtranclp runtime_step im im'"
  obtains en' where "find_ensemble im' i = Some en'" "abs_ok (abs_ensemble en)"
    "rtranclp abs_step (abs_ensemble en) (abs_ensemble en')"
proof -
  have v: "view i im = Some (abs_ensemble en)" using assms(2) by (simp add: view_def)
  then obtain b where "view i im' = Some b" "rtranclp abs_step (abs_ensemble en) b"
    using runtime_lifecycle.simulates_run[OF assms(3)] by blast
  moreover have "abs_ok (abs_ensemble en)" using reachable_views_ok[OF assms(1)] v by (simp add: views_ok_def)
  ultimately show thesis using that by (auto simp: view_def)
qed

lemma execution_key_view: "execution_key i im = map_option abs_key (view i im)"
  by (simp add: execution_key_def view_def option.map_comp o_def record_key_abs)

lemma execution_key_recovered: "recovered_from_save im im' \<Longrightarrow> execution_key i im' = execution_key i im"
  by (simp add: execution_key_view view_def recovered_from_save_find option.map_comp o_def recovered_ensemble_abs)

lemma execution_key_restart: "execution_key i (fst (restart reason boot im)) = execution_key i im"
proof -
  have f: "find_ensemble (im'\<lparr>im_epoch := e, im_coordinator_boot := b\<rparr>) i = find_ensemble im' i" for im' e b
    by (simp add: find_ensemble_def)
  have "record_key (invalidate_ensemble reason en) = record_key en" for en
    using invalidate_frame[of en reason] by (simp add: record_key_def commit_frame_def)
  then show ?thesis
    by (simp add: restart_unfold Let_def execution_key_def f find_invalidate option.map_comp o_def)
qed

lemma execution_key_commit: "execution_key i (fst (commit_result r im)) = execution_key i im"
proof -
  obtain im' out where c: "commit_result r im = (im', out)" by (cases "commit_result r im")
  have publish: "record_key en' = record_key en" if "publish_commit l v en = (en', w)" for l v en en' w
    using that by (auto simp: publish_commit_def store_commit_def map_execution_def record_key_def Let_def split: if_splits)
  have put: "execution_key i im' = execution_key i im"
    if "im_ensembles im' = omap_put j en' (im_ensembles im)" "find_ensemble im j = Some en"
      "record_key en' = record_key en" for j en en'
    using that by (simp add: execution_key_def find_ensemble_def)
  have count: "record_key (count_commit_attempt en) = record_key en" for en by (simp add: record_key_def)
  have "execution_key i im' = execution_key i im" using c
  proof (cases rule: commit_result_cases)
    case rejected
    then show ?thesis by (simp add: execution_key_def find_ensemble_def)
  next
    case (counted en)
    show ?thesis by (rule put[OF counted(3,1)]) (rule count)
  next
    case (accepted en en1 en' v x s)
    have "record_key en' = record_key en" using publish[OF accepted(8)] accepted(7) count by simp
    then show ?thesis by (rule put[OF accepted(10,1)])
  qed
  then show ?thesis by (simp add: c)
qed

lemma runtime_keeps_result:
  assumes "runtime_reachable config im" "current_result i im = Ok r" "rtranclp runtime_step im im'"
    "execution_key i im' = execution_key i im"
  shows "current_result i im' = Ok r"
proof -
  obtain en where en: "find_ensemble im i = Some en" "abs_result (abs_ensemble en) = Some r"
    using assms(2) by (auto simp: current_result_abs)
  obtain en' where en': "find_ensemble im' i = Some en'" "abs_ok (abs_ensemble en)"
    "rtranclp abs_step (abs_ensemble en) (abs_ensemble en')"
    using assms(1) en(1) assms(3) by (rule run_views)
  have "abs_key (abs_ensemble en) = abs_key (abs_ensemble en')"
    using assms(4) en en' by (simp add: execution_key_def record_key_abs)
  then show ?thesis using abs_run_result_stable[OF en'(3,2) _ en(2)] en' by (auto simp: current_result_abs)
qed

lemma run_keeps_result:
  assumes "reachable config im" "current_result i im = Ok r" "rtranclp fabric_step im im'"
    "execution_key i im' = execution_key i im"
  shows "current_result i im' = Ok r"
  using runtime_keeps_result[OF reachable_in_runtime[OF assms(1)] assms(2) fabric_run_is_runtime_run[OF assms(3)]
      assms(4)] .

text \<open>An accepted candidate comes from the dispatched participant itself.\<close>

lemma submit_candidate_located:
  assumes "submit_candidate sub im = (im', Ok u)"
  shows "\<exists>l. located_by (cs_authority sub) im l \<and> cd_state (lo_candidate l) = C_dispatched"
proof -
  have reject: "\<not> is_ok (snd (reject_submission c im))" if "cd_state c \<noteq> C_dispatched" for c
    using that by (cases "cd_state c") (simp_all add: reject_submission_def)
  obtain im1 r where l: "locate_candidate (cs_authority sub) im = (im1, r)"
    by (cases "locate_candidate (cs_authority sub) im")
  with assms obtain lo where r: "r = Ok lo" by (cases r) (auto simp: submit_candidate_def)
  then have lo: "im1 = im" "located_by (cs_authority sub) im lo" using l locate_candidate_Ok by auto
  have "cd_state (lo_candidate lo) = C_dispatched"
    using assms l r lo(1) reject[of "lo_candidate lo"] by (auto simp: submit_candidate_def Let_def split: if_splits)
  with lo show ?thesis by auto
qed

end
