(* ===== verification/Decision_Properties.thy ===== *)
theory Decision_Properties
  imports Fabric_Reports
begin

text \<open>
  What the decision procedures promise: arbitration selects only admissible candidates and does not
  depend on the order of its inputs; when consensus is resolved or tied and when the quorum is
  reached or impossible is characterised over the inputs; the quorum counts every vote once.
\<close>

section \<open>Arbitration\<close>

definition sample_summary :: CandidateEvaluationSummary where
  "sample_summary = summary_init 1 1"

definition sample_input :: "CandidateId \<Rightarrow> ArbitrationCandidateInput" where
  "sample_input i = \<lparr>ac_candidate = i, ac_generation = 1, ac_participant = i, ac_participant_generation = 1,
     ac_role = R_candidate, ac_state = C_valid, ac_generation_current = True, ac_participant_authoritative = True,
     ac_compatible = True, ac_required_participant = True, ac_fallback = False, ac_role_selectable = True,
     ac_participant_priority = 0, ac_execution_cost = 0, ac_latency = 0, ac_specialist_matches = 0,
     ac_payload_bytes = 1, ac_evaluation = sample_summary\<rparr>"

definition sample_arbitration :: "ArbitrationCandidateInput list \<Rightarrow> ArbitrationInputs" where
  "sample_arbitration cs = \<lparr>ai_candidates = cs,
     ai_policy = (sp_arbitration spec_default)\<lparr>ab_factors := [AF_participant_priority, AF_latency]\<rparr>,
     ai_aggregation = sp_aggregation spec_default, ai_evidence = sp_evidence spec_default, ai_quorum_satisfied = True,
     ai_ensemble_generation = 1, ai_coordinator_epoch = 1, ai_sequence = 1\<rparr>"

text \<open>
  C22: the winner is admissible. Whenever arbitration selects a candidate, that candidate is one of
  its inputs, its generation is current, it is in a content state, its participant is authoritative,
  compatible and selectable, no mandatory predicate failed or is missing, and the verifier gate, the
  judge gate and the score minimum of the policy are passed.
\<close>

theorem arbitrate_winner_admissible:
  assumes "ar_selected (arbitrate inp) \<noteq> 0"
  shows "\<exists>c \<in> set (ai_candidates inp). ac_candidate c = ar_selected (arbitrate inp) \<and>
    ac_generation_current c \<and> is_content_state (ac_state c) \<and> ac_participant_authoritative c \<and> ac_compatible c \<and>
    ac_role_selectable c \<and> mandatory_elimination (ai_evidence inp) (ac_evaluation c) = None \<and>
    (if verifier_gating inp
     then sm_verifier_fail (ac_evaluation c) = 0 \<and> sm_verifier_pass (ac_evaluation c) \<noteq> 0 else True) \<and>
    (if judge_gating inp then judge_elimination (ai_aggregation inp) (ac_evaluation c) = None else True) \<and>
    score_elimination inp (ac_evaluation c) = None"
proof -
  obtain c where c: "c \<in> set (ai_candidates inp)" "ac_candidate c = ar_selected (arbitrate inp)"
    "el_eligible (eligibility inp c)" using arbitrate_selected_eligible[OF assms] by blast
  have "verifier_elimination (ac_evaluation c) = None \<longleftrightarrow>
      sm_verifier_fail (ac_evaluation c) = 0 \<and> sm_verifier_pass (ac_evaluation c) \<noteq> 0"
    by (simp add: verifier_elimination_def word_gt_0)
  moreover have "participant_elimination c = None \<longleftrightarrow>
      ac_participant_authoritative c \<and> ac_compatible c \<and> ac_role_selectable c"
    by (simp add: participant_elimination_def)
  ultimately show ?thesis using c unfolding eligibility_def check_eligibility_iff by auto
qed

theorem arbitrate_winner_admissible_witness:
  "ar_selected (arbitrate (sample_arbitration [sample_input 2, sample_input 1])) = 1 \<and>
   (\<exists>c \<in> set [sample_input 2, sample_input 1]. ac_candidate c = 1 \<and> ac_participant_authoritative c)"
proof -
  have s: "ar_selected (arbitrate (sample_arbitration [sample_input 2, sample_input 1])) = 1" by code_simp
  have c: "ai_candidates (sample_arbitration cs) = cs" for cs by (simp add: sample_arbitration_def)
  from arbitrate_winner_admissible[of "sample_arbitration [sample_input 2, sample_input 1]"] s
  show ?thesis unfolding c by auto
qed

text \<open>What arbitration decides, as a function of the ranked eligible candidates alone.\<close>

definition verdict :: "ArbitrationPolicy \<Rightarrow> ArbitrationCandidateInput list \<Rightarrow> CandidateId \<times> bool \<times> bool" where
  "verdict policy ranked =
     (case ranked of
        [] \<Rightarrow> (0, False, True)
      | a # rest \<Rightarrow>
          if \<not> top_tie (ab_factors policy) ranked then (ac_candidate a, False, False)
          else (case ab_tie_break policy of
                  TB_report_tie \<Rightarrow> (0, True, False)
                | TB_lowest_candidate_id \<Rightarrow> (ac_candidate a, False, False)
                | TB_highest_score_then_id \<Rightarrow>
                    (if d_less (mean_score (ac_evaluation a)) (mean_score (ac_evaluation (hd rest)))
                     then ac_candidate (hd rest) else ac_candidate a, False, False)
                | TB_prefer_required_participant \<Rightarrow>
                    (if \<not> ac_required_participant a \<and> ac_required_participant (hd rest)
                     then ac_candidate (hd rest) else ac_candidate a, False, False)))"

definition untouched :: "ArbitrationReport \<Rightarrow> bool" where
  "untouched r \<longleftrightarrow> ar_selected r = 0 \<and> \<not> ar_tie_unresolved r \<and> \<not> ar_no_eligible_candidate r"

lemma resolve_tie_verdict:
  assumes "untouched r" "top_tie (ab_factors policy) (a # rest)"
  shows "verdict policy (a # rest) =
    (ar_selected (resolve_tie (ab_factors policy) (ab_tie_break policy) a (hd rest) r),
     ar_tie_unresolved (resolve_tie (ab_factors policy) (ab_tie_break policy) a (hd rest) r),
     ar_no_eligible_candidate (resolve_tie (ab_factors policy) (ab_tie_break policy) a (hd rest) r))"
  using assms by (cases "ab_tie_break policy") (simp_all add: verdict_def resolve_tie_def untouched_def)

lemma arbitrate_verdict:
  "(ar_selected (arbitrate inp), ar_tie_unresolved (arbitrate inp), ar_no_eligible_candidate (arbitrate inp)) =
   verdict (ai_policy inp) (ranked_candidates inp)"
proof (cases "ranked_candidates inp")
  case Nil
  then show ?thesis by (simp add: arbitrate_def Let_def verdict_def)
next
  case (Cons a rest)
  define r where "r = arbitration_report_default\<lparr>ar_ensemble_generation := ai_ensemble_generation inp,
      ar_coordinator_epoch := ai_coordinator_epoch inp, ar_computed_sequence := ai_sequence inp,
      ar_tie_break := ab_tie_break (ai_policy inp), ar_factor_order := ab_factors (ai_policy inp),
      ar_considered := size32 (ai_candidates inp),
      ar_eliminated := size32 (filter (\<lambda>k. \<not> rk_eligible k) (map (initial_ranking inp) (ai_candidates inp))),
      ar_ranking := reorder_ranking (a # rest) (assign_ranks 0 (a # rest) (map (initial_ranking inp) (ai_candidates inp)))\<rparr>"
  have u: "untouched r" by (simp add: untouched_def r_def)
  have e: "arbitrate inp = (if top_tie (ab_factors (ai_policy inp)) (a # rest)
      then resolve_tie (ab_factors (ai_policy inp)) (ab_tie_break (ai_policy inp)) a (hd rest) r
      else select_winner (ab_factors (ai_policy inp)) a r)"
    unfolding arbitrate_def Let_def r_def Cons by simp
  show ?thesis
  proof (cases "top_tie (ab_factors (ai_policy inp)) (a # rest)")
    case True
    then show ?thesis using resolve_tie_verdict[OF u True] Cons e by simp
  next
    case False
    then show ?thesis using u Cons e by (simp add: verdict_def untouched_def)
  qed
qed

text \<open>
  C23: arbitration does not depend on arrival order. For candidates with distinct identities whose
  configured factors are all numbers, every reordering of the inputs yields the same ranking of the
  eligible candidates and the same selection and tie flags.
\<close>

theorem arbitrate_order_independent:
  assumes "mset cs = mset (ai_candidates inp)" "distinct (map ac_candidate (ai_candidates inp))"
    "set (ai_candidates inp) \<subseteq> comparable (ab_factors (ai_policy inp))"
  shows "ranked_candidates (inp\<lparr>ai_candidates := cs\<rparr>) = ranked_candidates inp \<and>
    ar_selected (arbitrate (inp\<lparr>ai_candidates := cs\<rparr>)) = ar_selected (arbitrate inp) \<and>
    ar_tie_unresolved (arbitrate (inp\<lparr>ai_candidates := cs\<rparr>)) = ar_tie_unresolved (arbitrate inp) \<and>
    ar_no_eligible_candidate (arbitrate (inp\<lparr>ai_candidates := cs\<rparr>)) = ar_no_eligible_candidate (arbitrate inp)"
proof -
  let ?i = "inp\<lparr>ai_candidates := cs\<rparr>" and ?fs = "ab_factors (ai_policy inp)"
  have same: "verifier_gating ?i = verifier_gating inp" "judge_gating ?i = judge_gating inp"
    "ai_evidence ?i = ai_evidence inp" "ai_aggregation ?i = ai_aggregation inp"
    "score_elimination ?i e = score_elimination inp e" for e
    by (simp_all add: verifier_gating_def judge_gating_def score_elimination_def)
  have el: "eligibility ?i c = eligibility inp c" for c
    by (simp only: eligibility_def check_eligibility_def same)
  have m: "mset (eligible_candidates ?i) = mset (eligible_candidates inp)"
    using assms(1) by (simp add: eligible_candidates_def el)
  have sub: "set (eligible_candidates inp) \<subseteq> comparable ?fs" "distinct (map ac_candidate (eligible_candidates inp))"
    using assms(2,3) by (auto simp: eligible_candidates_def distinct_map_filter)
  have sub': "set (eligible_candidates ?i) \<subseteq> comparable ?fs" "distinct (map ac_candidate (eligible_candidates ?i))"
    using sub m by (metis mset_eq_setD, metis m mset_eq_imp_distinct_iff mset_map)
  have "sorted_wrt (arb_precedes ?fs) (sort_by (arb_precedes ?fs) (eligible_candidates ?i))"
    using sub' by (intro arb.sorted_sort_by) auto
  then have "sorted_wrt (\<lambda>x y. \<not> arb_precedes ?fs y x) (sort_by (arb_precedes ?fs) (eligible_candidates ?i))"
    by (rule sorted_wrt_mono_rel[rotated]) (rule arb_asym)
  then have r: "ranked_candidates ?i = ranked_candidates inp"
    using sub m unfolding ranked_candidates_def by (simp add: arb.sort_by_unique)
  show ?thesis using arbitrate_verdict[of ?i, symmetric] arbitrate_verdict[of inp, symmetric] by (simp add: r)
qed

theorem arbitrate_order_independent_witness:
  "ar_selected (arbitrate (sample_arbitration [sample_input 2, sample_input 1])) =
   ar_selected (arbitrate (sample_arbitration [sample_input 1, sample_input 2]))"
proof -
  let ?i = "sample_arbitration [sample_input 1, sample_input 2]"
  have "set (ai_candidates ?i) \<subseteq> comparable (ab_factors (ai_policy ?i))"
    by (simp add: comparable_def sample_arbitration_def d_of_u32_not_nan)
  moreover have "distinct (map ac_candidate (ai_candidates ?i))" by (simp add: sample_arbitration_def sample_input_def)
  moreover have "mset [sample_input 2, sample_input 1] = mset (ai_candidates ?i)" by (simp add: sample_arbitration_def)
  moreover have "?i\<lparr>ai_candidates := [sample_input 2, sample_input 1]\<rparr> =
      sample_arbitration [sample_input 2, sample_input 1]" by (simp add: sample_arbitration_def)
  ultimately show ?thesis using arbitrate_order_independent[of "[sample_input 2, sample_input 1]" ?i] by simp
qed

section \<open>Consensus\<close>

text \<open>What a resolved consensus needs, over the inputs: no condition that ends the computation before
  the votes are read, and a leader, an eligible candidate with the most agreeing votes.\<close>

definition votes_decide :: "ConsensusInputs \<Rightarrow> bool" where
  "votes_decide inp \<longleftrightarrow>
     \<not> ci_superseded inp \<and> \<not> ci_revalidation_required inp \<and> \<not> ci_cancelled inp \<and>
     \<not> (ci_required_participant_failed inp \<and> ci_require_all_required inp) \<and>
     \<not> ci_fallback_required inp \<and> qr_state (ci_quorum inp) = Q_reached"

definition leads :: "ConsensusInputs \<Rightarrow> CandidateTally \<Rightarrow> bool" where
  "leads inp leader \<longleftrightarrow> leader \<in> set (ci_tallies inp) \<and> ty_eligible leader \<and>
     (\<forall>t \<in> set (ci_tallies inp). ty_eligible t \<longrightarrow> ty_agreeing t \<le> ty_agreeing leader)"

definition level_with :: "ConsensusInputs \<Rightarrow> CandidateTally \<Rightarrow> nat" where
  "level_with inp leader =
     length (filter (\<lambda>t. ty_eligible t \<and> ty_agreeing t = ty_agreeing leader) (ci_tallies inp))"

lemma ranked_leads: "ranked_tallies inp = leader # rest \<Longrightarrow> leads inp leader"
  using ranked_tallies_set[of inp] ranked_agreeing[of inp leader rest] by (fastforce simp: leads_def)

lemma leads_same: "leads inp a \<Longrightarrow> leads inp b \<Longrightarrow> ty_agreeing a = ty_agreeing b"
  by (auto simp: leads_def intro: antisym)

lemma leads_ranked: "leads inp leader \<Longrightarrow> ranked_tallies inp \<noteq> []"
  using ranked_tallies_set[of inp] by (auto simp: leads_def)

lemma votes_decide_iff: "terminal_condition inp = None \<longleftrightarrow> votes_decide inp \<and> ranked_tallies inp \<noteq> []"
  by (auto simp: terminal_condition_None votes_decide_def)

lemma level_ranked:
  assumes "ranked_tallies inp = leader # rest"
  shows "level_with inp leader = Suc (length (filter (\<lambda>t. ty_agreeing t = ty_agreeing leader) rest))"
proof -
  let ?same = "\<lambda>t. ty_agreeing t = ty_agreeing leader"
  have "mset (ranked_tallies inp) = mset (filter ty_eligible (ci_tallies inp))" by (simp add: ranked_tallies_def)
  then have "length (filter ?same (ranked_tallies inp)) = length (filter ?same (filter ty_eligible (ci_tallies inp)))"
    by (metis mset_filter size_mset)
  then show ?thesis by (simp add: assms level_with_def conj_commute)
qed

lemma runner_up_level:
  assumes "ranked_tallies inp = leader # rest" "0 < ty_agreeing leader"
  shows "runner_up_votes rest = ty_agreeing leader \<longleftrightarrow> 1 < level_with inp leader"
proof -
  have range: "runner_up_votes rest = 0 \<or> runner_up_votes rest \<in> ty_agreeing ` set rest"
    using foldl_runner_up[of 0 rest] by (simp add: runner_up_votes_def)
  have "runner_up_votes rest = ty_agreeing leader \<longleftrightarrow> (\<exists>t \<in> set rest. ty_agreeing t = ty_agreeing leader)"
  proof
    assume "runner_up_votes rest = ty_agreeing leader"
    with range assms(2) show "\<exists>t \<in> set rest. ty_agreeing t = ty_agreeing leader" by auto
  next
    assume "\<exists>t \<in> set rest. ty_agreeing t = ty_agreeing leader"
    then have "ty_agreeing leader \<le> runner_up_votes rest" using runner_up_ge by metis
    moreover have "runner_up_votes rest \<le> ty_agreeing leader" using range ranked_agreeing[OF assms(1)] by auto
    ultimately show "runner_up_votes rest = ty_agreeing leader" by (rule antisym[rotated])
  qed
  then show ?thesis by (simp add: level_ranked[OF assms(1)] filter_empty_conv)
qed

text \<open>
  C24: when consensus is resolved and when it is a tie, exactly. The state is resolved (CONSENSUS,
  CONSENSUS_WITH_ABSTENTIONS or PLURALITY_WITHOUT_THRESHOLD) just when nothing ends the computation
  early (supersession, revalidation, cancellation, a failed required participant where all are
  required, a fallback, a missing quorum) and the reported leader, an eligible candidate that no
  eligible one exceeds, has enough votes: none, where no votes are required; the threshold count,
  under a percentage threshold; strictly more than every other eligible candidate, without one. It
  is a TIE just when a leader with votes is level with another eligible candidate and no percentage
  threshold is met. So under a threshold that it meets a leader is reported as resolved even when
  another candidate has as many votes: two against two at 50 percent is CONSENSUS (the witness).
\<close>

theorem consensus_resolved_iff:
  "(consensus_resolved (compute_consensus inp) \<longleftrightarrow> votes_decide inp \<and>
     (\<exists>leader. leads inp leader \<and> cr_leading_candidate (compute_consensus inp) = ty_candidate leader \<and>
        cr_agreeing (compute_consensus inp) = ty_agreeing leader \<and>
        (if ty_agreeing leader = 0 then \<not> ci_requires_votes inp
         else if qr_threshold_percent (ci_quorum inp) \<noteq> 0
         then qr_threshold_count (ci_quorum inp) \<le> ty_agreeing leader
         else level_with inp leader = 1))) \<and>
   (cr_state (compute_consensus inp) = S_tie \<longleftrightarrow> votes_decide inp \<and>
     (\<exists>leader. leads inp leader \<and> ty_agreeing leader \<noteq> 0 \<and> 1 < level_with inp leader \<and>
        \<not> (qr_threshold_percent (ci_quorum inp) \<noteq> 0 \<and>
           qr_threshold_count (ci_quorum inp) \<le> ty_agreeing leader)))"
proof (cases rule: consensus_cases[of inp])
  case (terminal s)
  have "\<not> (votes_decide inp \<and> leads inp leader)" for leader
    using terminal(1) votes_decide_iff[of inp] leads_ranked[of inp leader] by auto
  then show ?thesis using terminal(2) terminal_condition_not_resolved[OF terminal(1)]
    by (auto simp: consensus_resolved_def)
next
  case (vote leader rest)
  have d: "votes_decide inp" using vote(1) by (simp add: votes_decide_iff)
  have l: "leads inp leader" by (rule ranked_leads[OF vote(2)])
  have level: "level_with inp leader \<noteq> 1 \<longleftrightarrow> 1 < level_with inp leader" by (simp add: level_ranked[OF vote(2)])
  have same: "ty_agreeing t = ty_agreeing leader" "level_with inp t = level_with inp leader" if "leads inp t" for t
    using leads_same[OF that l] by (simp_all add: level_with_def)
  let ?ok = "if ty_agreeing leader = 0 then \<not> ci_requires_votes inp
    else if qr_threshold_percent (ci_quorum inp) \<noteq> 0
    then qr_threshold_count (ci_quorum inp) \<le> ty_agreeing leader else level_with inp leader = 1"
  let ?tie = "ty_agreeing leader \<noteq> 0 \<and> 1 < level_with inp leader \<and>
    \<not> (qr_threshold_percent (ci_quorum inp) \<noteq> 0 \<and> qr_threshold_count (ci_quorum inp) \<le> ty_agreeing leader)"
  have outcome: "(consensus_resolved (compute_consensus inp) \<longleftrightarrow> ?ok \<and> \<not> ?tie) \<and>
      (cr_state (compute_consensus inp) = S_tie \<longleftrightarrow> ?tie)"
  proof (cases "ty_agreeing leader = 0")
    case True
    then show ?thesis by (simp add: consensus_resolved_def vote(3) vote_outcome_def)
  next
    case False
    then have runner: "runner_up_votes rest = ty_agreeing leader \<longleftrightarrow> 1 < level_with inp leader"
      by (intro runner_up_level[OF vote(2)]) (simp add: word_gt_0)
    show ?thesis
    proof (cases "1 < level_with inp leader")
      case True
      with False runner show ?thesis
        by (auto simp: consensus_resolved_def vote(3) vote_outcome_def Let_def word_gt_0 not_less)
    next
      case one: False
      with level have "level_with inp leader = 1" by blast
      with False runner one show ?thesis
        by (auto simp: consensus_resolved_def vote(3) vote_outcome_def Let_def word_gt_0 not_less)
    qed
  qed
  then have "consensus_resolved (compute_consensus inp) \<longleftrightarrow> ?ok" using level by auto
  moreover from outcome have "cr_state (compute_consensus inp) = S_tie \<longleftrightarrow> ?tie" by (rule conjunct2)
  moreover have one: "(\<exists>t. leads inp t \<and> A t \<and> C (ty_agreeing t) (level_with inp t)) \<longleftrightarrow>
      C (ty_agreeing leader) (level_with inp leader)" if "A leader" for A C
  proof
    assume "\<exists>t. leads inp t \<and> A t \<and> C (ty_agreeing t) (level_with inp t)"
    then obtain t where t: "leads inp t" "C (ty_agreeing t) (level_with inp t)" by blast
    from t(2) show "C (ty_agreeing leader) (level_with inp leader)" unfolding same[OF t(1)] .
  qed (use l that in blast)
  moreover note one[of "\<lambda>t. cr_leading_candidate (compute_consensus inp) = ty_candidate t \<and>
      cr_agreeing (compute_consensus inp) = ty_agreeing t" "\<lambda>a j. if a = 0 then \<not> ci_requires_votes inp
        else if qr_threshold_percent (ci_quorum inp) \<noteq> 0 then qr_threshold_count (ci_quorum inp) \<le> a else j = 1"]
    one[of "\<lambda>_. True" "\<lambda>a j. a \<noteq> 0 \<and> 1 < j \<and>
      \<not> (qr_threshold_percent (ci_quorum inp) \<noteq> 0 \<and> qr_threshold_count (ci_quorum inp) \<le> a)"]
  ultimately show ?thesis using d vote(4,5) by (simp only: conj_assoc simp_thms)
qed

definition sample_tally :: "CandidateId \<Rightarrow> u32 \<Rightarrow> CandidateTally" where
  "sample_tally i n = \<lparr>ty_candidate = i, ty_generation = 1, ty_participant = i, ty_eligible = True, ty_agreeing = n,
     ty_disagreeing = 0, ty_abstaining = 0, ty_weighted_agree = d_zero, ty_agreeing_members = [],
     ty_disagreeing_members = [], ty_abstaining_members = []\<rparr>"

definition sample_consensus :: "CandidateTally list \<Rightarrow> ConsensusInputs" where
  "sample_consensus ts = \<lparr>ci_quorum = quorum_report_default\<lparr>qr_state := Q_reached, qr_denominator := 3,
     qr_threshold_percent := 50, qr_threshold_count := 2\<rparr>, ci_tallies = ts, ci_candidates_declared = 2,
     ci_invalid_candidates = 0, ci_required_participant_failed = False, ci_require_all_required = False,
     ci_cancelled = False, ci_superseded = False, ci_revalidation_required = False, ci_fallback_required = False,
     ci_requires_votes = True, ci_ensemble_generation = 1, ci_coordinator_epoch = 1, ci_sequence = 1\<rparr>"

theorem consensus_resolved_iff_witness:
  "consensus_resolved (compute_consensus (sample_consensus [sample_tally 1 2, sample_tally 2 2])) \<and>
   cr_state (compute_consensus (sample_consensus [sample_tally 1 2, sample_tally 2 2])) \<noteq> S_tie \<and>
   level_with (sample_consensus [sample_tally 1 2, sample_tally 2 2]) (sample_tally 1 2) = 2"
proof -
  let ?i = "sample_consensus [sample_tally 1 2, sample_tally 2 2]"
  have i: "votes_decide ?i" "qr_threshold_percent (ci_quorum ?i) \<noteq> 0" "qr_threshold_count (ci_quorum ?i) = 2"
    "level_with ?i (sample_tally 1 2) = 2" "leads ?i (sample_tally 1 2)" "ty_agreeing (sample_tally 1 2) = 2"
    by (simp_all add: sample_consensus_def sample_tally_def votes_decide_def leads_def level_with_def)
  have "cr_leading_candidate (compute_consensus ?i) = ty_candidate (sample_tally 1 2)"
    "cr_agreeing (compute_consensus ?i) = ty_agreeing (sample_tally 1 2)" by code_simp+
  moreover have "\<not> (ty_agreeing t \<noteq> 0 \<and> \<not> 2 \<le> ty_agreeing t)" if "leads ?i t" for t
    using leads_same[OF that i(5)] i(6) by simp
  ultimately have "\<exists>leader. leads ?i leader \<and> cr_leading_candidate (compute_consensus ?i) = ty_candidate leader \<and>
      cr_agreeing (compute_consensus ?i) = ty_agreeing leader \<and> 2 \<le> ty_agreeing leader \<and> ty_agreeing leader \<noteq> 0"
      "\<not> (\<exists>leader. leads ?i leader \<and> ty_agreeing leader \<noteq> 0 \<and> \<not> 2 \<le> ty_agreeing leader)"
    using i(5,6) by auto
  with consensus_resolved_iff[of ?i] i(1-4) show ?thesis by auto
qed

text \<open>
  Consensus does not depend on the order of the tallies. For tallies of distinct candidates
  with numeric weights, every reordering yields the same state, leader and vote counts.
\<close>

theorem consensus_order_independent:
  assumes "mset ts = mset (ci_tallies inp)" "well_formed_tallies (ci_tallies inp)"
  shows "cr_state (compute_consensus (inp\<lparr>ci_tallies := ts\<rparr>)) = cr_state (compute_consensus inp) \<and>
    cr_leading_candidate (compute_consensus (inp\<lparr>ci_tallies := ts\<rparr>)) = cr_leading_candidate (compute_consensus inp) \<and>
    cr_agreeing (compute_consensus (inp\<lparr>ci_tallies := ts\<rparr>)) = cr_agreeing (compute_consensus inp) \<and>
    cr_runner_up_votes (compute_consensus (inp\<lparr>ci_tallies := ts\<rparr>)) = cr_runner_up_votes (compute_consensus inp) \<and>
    cr_unresolved_disagreement (compute_consensus (inp\<lparr>ci_tallies := ts\<rparr>)) =
      cr_unresolved_disagreement (compute_consensus inp)"
proof -
  let ?i = "inp\<lparr>ci_tallies := ts\<rparr>"
  have r: "ranked_tallies ?i = ranked_tallies inp"
    using ranked_tallies_perm[OF assms(2,1)] by (simp add: ranked_tallies_def)
  have t: "terminal_condition ?i = terminal_condition inp" by (simp add: terminal_condition_def r)
  have q: "ci_quorum ?i = ci_quorum inp" by simp
  have b: "vote_outcome v (vote_report (consensus_base ?i) l rest) l rest =
      vote_outcome v (vote_report (consensus_base inp) l rest) l rest" for v l rest
    unfolding vote_outcome_def consensus_base_threshold q ..
  show ?thesis
  proof (cases "terminal_condition inp")
    case None
    then show ?thesis using r t b
      by (auto simp: compute_consensus_def Let_def vote_report_def split: list.splits prod.splits)
         (simp_all add: consensus_base_def Let_def)
  next
    case (Some s)
    then show ?thesis using t by (simp add: compute_consensus_def consensus_base_def Let_def)
  qed
qed

theorem consensus_order_independent_witness:
  "cr_leading_candidate (compute_consensus (sample_consensus [sample_tally 2 2, sample_tally 1 2])) =
   cr_leading_candidate (compute_consensus (sample_consensus [sample_tally 1 2, sample_tally 2 2]))"
proof -
  let ?i = "sample_consensus [sample_tally 1 2, sample_tally 2 2]"
  have "well_formed_tallies (ci_tallies ?i)"
    by (simp add: well_formed_tallies_def sample_consensus_def sample_tally_def not_nan_constants)
  moreover have "mset [sample_tally 2 2, sample_tally 1 2] = mset (ci_tallies ?i)" by (simp add: sample_consensus_def)
  moreover have "?i\<lparr>ci_tallies := [sample_tally 2 2, sample_tally 1 2]\<rparr> =
      sample_consensus [sample_tally 2 2, sample_tally 1 2]" by (simp add: sample_consensus_def)
  ultimately show ?thesis using consensus_order_independent[of "[sample_tally 2 2, sample_tally 1 2]" ?i] by simp
qed

section \<open>Quorum\<close>

text \<open>
  Every vote counts once. The evaluations a quorum report counts are the distinct votes, one for
  each participant generation and candidate, however often a vote was sent; a repeated vote changes
  neither the contributors, the abstentions, the leading votes nor the quorum state, and only raises
  the counter of suppressed duplicates.
\<close>

theorem quorum_counts_votes_once:
  assumes "vote_key v \<in> set (map vote_key votes)"
  shows "qr_evaluations (compute_quorum p m votes c g e s) = word_of_nat (card (set (map vote_key votes))) \<and>
    compute_quorum p m (votes @ [v]) c g e s =
      (compute_quorum p m votes c g e s)
        \<lparr>qr_duplicate_votes_suppressed := qr_duplicate_votes_suppressed (compute_quorum p m votes c g e s) + 1\<rparr>"
proof -
  obtain u d where u: "unique_votes votes = (u, d)" by (cases "unique_votes votes")
  have dup: "unique_votes (votes @ [v]) = (u, d + 1)" using unique_votes_duplicate[OF assms] u by simp
  have q: "quorum_counts p m (votes @ [v]) c g e s =
      (quorum_counts p m votes c g e s)\<lparr>qr_duplicate_votes_suppressed := d + 1\<rparr>"
    "qr_duplicate_votes_suppressed (quorum_counts p m votes c g e s) = d"
    "qr_evaluations (quorum_counts p m votes c g e s) = size32 u"
    by (simp_all add: quorum_counts_def u dup Let_def)
  have dec: "quorum_decision p m (r\<lparr>qr_duplicate_votes_suppressed := n\<rparr>) = quorum_decision p m r" for r n
    by (simp add: quorum_decision_def)
  have "length u = card (set (map vote_key votes))" using unique_votes_length[of votes] u by simp
  then show ?thesis using q dec by (simp add: compute_quorum_def Let_def split: QuorumState.split)
qed

definition sample_vote :: "ParticipantId \<Rightarrow> EligibleVote" where
  "sample_vote i = \<lparr>vo_participant = i, vo_generation = 1, vo_role = R_judge, vo_candidate = 1,
     vo_candidate_generation = 1, vo_weight = d_one, vo_abstained = False\<rparr>"

theorem quorum_counts_votes_once_witness:
  "qr_evaluations (compute_quorum quorum_policy_default [] [sample_vote 1, sample_vote 2, sample_vote 1] 1 1 1 1) = 2"
proof -
  have k: "vote_key (sample_vote 1) \<in> set (map vote_key [sample_vote 1, sample_vote 2])" by simp
  have "vote_key (sample_vote 1) \<noteq> vote_key (sample_vote 2)" by (simp add: vote_key_def sample_vote_def)
  then have "card (set (map vote_key [sample_vote 1, sample_vote 2])) = 2" by simp
  with quorum_counts_votes_once[OF k, of quorum_policy_default "[]" 1 1 1 1] show ?thesis by simp
qed

text \<open>
  The quorum over its inputs. A vote counts when no earlier one has the same participant generation
  and candidate; a member abstains when one of its votes is an abstention and none is a contribution.
\<close>

fun first_votes :: "EligibleVote list \<Rightarrow> EligibleVote list" where
  "first_votes [] = []"
| "first_votes (v # vs) = v # filter (\<lambda>w. vote_key w \<noteq> vote_key v) (first_votes vs)"

definition voted :: "EligibleVote list \<Rightarrow> bool \<Rightarrow> QuorumMember \<Rightarrow> bool" where
  "voted votes abstained m \<longleftrightarrow>
     (\<exists>v \<in> set (first_votes votes). vo_participant v = qm_participant m \<and> vo_abstained v = abstained)"

definition counted :: "QuorumPolicy \<Rightarrow> EligibleVote list \<Rightarrow> QuorumMember \<Rightarrow> bool" where
  "counted p votes m \<longleftrightarrow>
     (case qp_vote_basis p of
        VB_declared_participants \<Rightarrow> True
      | VB_authoritative_participants \<Rightarrow> qm_authorized m
      | VB_contributing_participants \<Rightarrow> (\<exists>v \<in> set votes. vo_participant v = qm_participant m)
      | VB_required_participants \<Rightarrow> qm_required m
      | VB_eligible_participants \<Rightarrow> qm_authorized m \<and> qm_available m \<and> \<not> qm_failed m) \<and>
     (qm_required m \<or> qp_count_optional_participants p) \<and>
     (qm_failed m \<longrightarrow> qp_count_failed_in_denominator p) \<and>
     (qm_available m \<or> qp_count_unavailable_in_denominator p)"

definition holders :: "ParticipantRole \<Rightarrow> QuorumMember list \<Rightarrow> QuorumMember list" where
  "holders r ms = filter (\<lambda>m. roles_contains (qm_roles m) r \<and> qm_authorized m \<and> qm_role_available m) ms"

lemma first_votes_snoc:
  "first_votes (vs @ [v]) = first_votes vs @ (if vote_key v \<in> vote_key ` set vs then [] else [v])"
  by (induction vs) auto

lemma unique_votes_first: "fst (unique_votes vs) = first_votes vs"
proof (induction vs rule: rev_induct)
  case (snoc v vs)
  obtain u d where u: "unique_votes vs = (u, d)" by (cases "unique_votes vs")
  then have "vote_key ` set u = vote_key ` set vs" using unique_votes_keys[of vs] by simp
  with snoc u show ?case by (simp add: unique_votes_append emplace_vote_def first_votes_snoc)
qed (simp add: unique_votes_def)

lemma first_votes_keys: "vote_key ` set (first_votes vs) = vote_key ` set vs"
  using unique_votes_keys[of vs] by (simp add: unique_votes_first)

lemma first_votes_participants: "vo_participant ` set (first_votes vs) = vo_participant ` set vs"
proof -
  have "vo_participant ` A = fst ` vote_key ` A" for A by (simp add: image_image vote_key_def)
  then show ?thesis by (simp only: first_votes_keys)
qed

lemma voted_ids:
  "qm_participant m \<in> set (contributor_ids (first_votes vs)) \<longleftrightarrow> voted vs False m"
  "qm_participant m \<in> set (abstainer_ids (first_votes vs)) \<longleftrightarrow> voted vs True m"
  by (auto simp: contributor_ids_def abstainer_ids_def voted_def image_iff eq_commute)

lemma voted_any: "voted vs False m \<or> voted vs True m \<longleftrightarrow> (\<exists>v \<in> set vs. vo_participant v = qm_participant m)"
proof -
  have "voted vs False m \<or> voted vs True m \<longleftrightarrow> qm_participant m \<in> vo_participant ` set (first_votes vs)"
    by (auto simp: voted_def image_iff eq_commute)
  then show ?thesis unfolding first_votes_participants by (auto simp: image_iff eq_commute)
qed

lemma counted_iff:
  "in_denominator p (contributor_ids (first_votes vs)) (abstainer_ids (first_votes vs)) m \<longleftrightarrow> counted p vs m"
  unfolding in_denominator_def in_basis_def counted_def voted_ids voted_any by (cases "qp_vote_basis p") auto

lemma filter_bound: "length xs < 2 ^ 32 \<Longrightarrow> length (filter P xs) < 2 ^ 32"
  by (meson le_less_trans length_filter_le)

lemma word_of_nat_le_iff: "n < 2 ^ 32 \<Longrightarrow> (w :: u32) \<le> word_of_nat n \<longleftrightarrow> unat w \<le> n"
  and word_of_nat_less_iff: "n < 2 ^ 32 \<Longrightarrow> (w :: u32) < word_of_nat n \<longleftrightarrow> unat w < n"
  by (simp_all add: word_le_nat_alt word_less_nat_alt unat_of_nat)

lemma budget_iff:
  "length xs < 2 ^ 32 \<Longrightarrow> \<not> (b \<noteq> unbounded \<and> b < size32 xs) \<longleftrightarrow> b = unbounded \<or> length xs \<le> unat b"
  by (auto simp: word_of_nat_less_iff)

lemma size32_filter_all:
  assumes "length xs < 2 ^ 32" shows "size32 (filter P xs) = size32 xs \<longleftrightarrow> list_all P xs"
proof -
  have "size32 (filter P xs) = size32 xs \<longleftrightarrow> length (filter P xs) = length xs"
    using assms filter_bound[OF assms, of P] by (simp add: word_unat_eq_iff unat_of_nat)
  then show ?thesis by (auto simp: list_all_iff) (metis filter_id_conv length_filter_less less_irrefl)
qed

lemma quota_count_iff:
  "length ms < 2 ^ 32 \<Longrightarrow> q_min_count q \<le> quota_count q ms \<longleftrightarrow> unat (q_min_count q) \<le> length (holders (q_role q) ms)"
  unfolding quota_count_def holders_def by (rule word_of_nat_le_iff[OF filter_bound])

lemma quota_possible_iff:
  assumes "length m < 2 ^ 32"
  shows "quota_possible q m < q_min_count q \<longleftrightarrow>
    length (filter (\<lambda>x. qm_available x \<and> \<not> qm_failed x) (holders (q_role q) m)) < unat (q_min_count q)"
proof -
  have "filter (\<lambda>m. roles_contains (qm_roles m) (q_role q) \<and> can_still_act m) m =
      filter (\<lambda>x. qm_available x \<and> \<not> qm_failed x) (holders (q_role q) m)"
    unfolding holders_def filter_filter by (rule filter_cong) (auto simp: can_still_act_def)
  moreover have "length (filter (\<lambda>x. qm_available x \<and> \<not> qm_failed x) (holders (q_role q) m)) < 2 ^ 32"
    unfolding holders_def by (rule filter_bound[OF filter_bound[OF assms]])
  ultimately show ?thesis by (simp add: quota_possible_def word_less_nat_alt unat_of_nat del: filter_filter)
qed

text \<open>
  C25: the quorum decision, exactly, over the policy, the membership and the votes. With the counted
  members (those the basis of the policy names, without optional, failed and unavailable ones where
  the policy leaves them out), the quorum is IMPOSSIBLE just when they are fewer than the minimum or
  a role has fewer holders left who can still act than its quota. It is REACHED just when it is not
  impossible, every quota is met by counted holders, the distinct votes and the valid candidates
  reach their minima, the failed members stay within the failure budget, and the counted members who
  abstained without contributing within the abstention budget. No 32-bit count wraps around, for
  fewer than 2^32 members, votes and quotas.
\<close>

theorem quorum_reached_iff:
  assumes "length m < 2 ^ 32" "length votes < 2 ^ 32" "length (qp_role_quota p) < 2 ^ 32"
  defines "members \<equiv> filter (counted p votes) m"
    and "impossible \<equiv> length (filter (counted p votes) m) < unat (qp_min_participants p) \<or>
      (\<exists>q \<in> set (qp_role_quota p).
         length (filter (\<lambda>x. qm_available x \<and> \<not> qm_failed x) (holders (q_role q) m)) < unat (q_min_count q))"
  shows "(qr_state (compute_quorum p m votes c g e s) = Q_impossible \<longleftrightarrow> impossible) \<and>
    (qr_state (compute_quorum p m votes c g e s) = Q_reached \<longleftrightarrow>
       \<not> impossible \<and>
       (\<forall>q \<in> set (qp_role_quota p). unat (q_min_count q) \<le> length (holders (q_role q) members)) \<and>
       unat (qp_min_evaluations p) \<le> card (vote_key ` set votes) \<and> qp_min_valid_candidates p \<le> c \<and>
       (qp_max_failures p = unbounded \<or> length (filter qm_failed m) \<le> unat (qp_max_failures p)) \<and>
       (qp_max_abstentions p = unbounded \<or>
          length (filter (\<lambda>x. voted votes True x \<and> \<not> voted votes False x) members)
            \<le> unat (qp_max_abstentions p)))"
proof -
  obtain u d where u: "unique_votes votes = (u, d)" by (cases "unique_votes votes")
  then have fv: "u = first_votes votes" using unique_votes_first[of votes] by simp
  have den: "in_denominator p (contributor_ids u) (abstainer_ids u) = counted p votes"
    unfolding fv by (rule ext) (rule counted_iff)
  let ?r = "quorum_counts p m votes c g e s"
  have lm: "length members < 2 ^ 32" unfolding members_def by (rule filter_bound[OF assms(1)])
  have lu: "length u = card (vote_key ` set votes)" using unique_votes_length[of votes] u by simp
  moreover have "card (vote_key ` set votes) \<le> length votes" by (meson card_image_le card_length finite_set order_trans)
  ultimately have lu': "length u < 2 ^ 32" using assms(2) by linarith
  have r: "qr_denominator ?r = size32 members" "qr_evaluations ?r = size32 u" "qr_valid_candidates ?r = c"
    "qr_role_quota_required ?r = size32 (qp_role_quota p)"
    "qr_role_quota_met ?r = size32 (filter (\<lambda>q. q_min_count q \<le> quota_count q members) (qp_role_quota p))"
    "qr_failure_budget_exceeded ?r \<longleftrightarrow> qp_max_failures p \<noteq> unbounded \<and> qp_max_failures p < size32 (filter qm_failed m)"
    "qr_abstention_budget_exceeded ?r \<longleftrightarrow> qp_max_abstentions p \<noteq> unbounded \<and>
       qp_max_abstentions p < size32 (filter (\<lambda>x. \<not> voted votes False x \<and> voted votes True x) members)"
    by (simp_all add: quorum_counts_def u Let_def den voted_ids[of _ votes, folded fv] members_def)
  have possible: "qr_denominator ?r < qp_min_participants p \<or> \<not> quota_achievable p m \<longleftrightarrow> impossible"
    unfolding r impossible_def members_def[symmetric] quota_achievable_def list_all_iff quota_possible_iff[OF assms(1)]
    using lm by (auto simp: word_less_nat_alt unat_of_nat)
  have "qr_role_quota_met ?r = qr_role_quota_required ?r \<longleftrightarrow>
      (\<forall>q \<in> set (qp_role_quota p). unat (q_min_count q) \<le> length (holders (q_role q) members))"
    unfolding r(4,5) size32_filter_all[OF assms(3)] by (simp add: list_all_iff quota_count_iff[OF lm])
  moreover have "qp_min_evaluations p \<le> qr_evaluations ?r \<longleftrightarrow> unat (qp_min_evaluations p) \<le> card (vote_key ` set votes)"
    unfolding r(2) lu[symmetric] by (rule word_of_nat_le_iff[OF lu'])
  moreover have "\<not> impossible \<Longrightarrow> qp_min_participants p \<le> qr_denominator ?r" using possible by (simp add: not_less)
  moreover note budget_iff[OF filter_bound[OF assms(1)], of "qp_max_failures p" qm_failed]
    budget_iff[OF filter_bound[OF lm], of "qp_max_abstentions p" "\<lambda>x. \<not> voted votes False x \<and> voted votes True x"]
  moreover have "(\<lambda>x. voted votes True x \<and> \<not> voted votes False x) = (\<lambda>x. \<not> voted votes False x \<and> voted votes True x)"
    by auto
  ultimately show ?thesis unfolding quorum_state_cases quorum_decision_def possible
    using r(3,6,7) by auto
qed

definition sample_member :: "ParticipantId \<Rightarrow> bool \<Rightarrow> QuorumMember" where
  "sample_member i failed = \<lparr>qm_participant = i, qm_generation = 1, qm_roles = roles_of R_judge, qm_required = True,
     qm_authorized = True, qm_available = True, qm_failed = failed, qm_fallback = False, qm_role_available = True\<rparr>"

definition sample_policy :: QuorumPolicy where
  "sample_policy = quorum_policy_default\<lparr>qp_min_participants := 2, qp_min_evaluations := 2,
     qp_role_quota := [\<lparr>q_role = R_judge, q_min_count = 2\<rparr>], qp_max_failures := 1, qp_max_abstentions := 1\<rparr>"

theorem quorum_reached_iff_witness:
  "qr_state (compute_quorum sample_policy [sample_member 1 False, sample_member 2 False, sample_member 3 True]
     [sample_vote 1, (sample_vote 2)\<lparr>vo_abstained := True\<rparr>, sample_vote 1] 1 1 1 1) = Q_reached"
proof -
  let ?m = "[sample_member 1 False, sample_member 2 False, sample_member 3 True]"
  let ?v = "[sample_vote 1, (sample_vote 2)\<lparr>vo_abstained := True\<rparr>, sample_vote 1]"
  have c: "filter (counted sample_policy ?v) ?m = [sample_member 1 False, sample_member 2 False]"
    "filter (\<lambda>x. qm_available x \<and> \<not> qm_failed x) (holders R_judge ?m) = [sample_member 1 False, sample_member 2 False]"
    "holders R_judge [sample_member 1 False, sample_member 2 False] = [sample_member 1 False, sample_member 2 False]"
    "filter (\<lambda>x. voted ?v True x \<and> \<not> voted ?v False x) [sample_member 1 False, sample_member 2 False] =
       [sample_member 2 False]"
    "card (vote_key ` set ?v) = 2" "filter qm_failed ?m = [sample_member 3 True]" by code_simp+
  have p: "qp_role_quota sample_policy = [\<lparr>q_role = R_judge, q_min_count = 2\<rparr>]" "qp_min_participants sample_policy = 2"
    "qp_min_evaluations sample_policy = 2" "qp_min_valid_candidates sample_policy = 1" "qp_max_failures sample_policy = 1"
    "qp_max_abstentions sample_policy = 1" by (simp_all add: sample_policy_def quorum_policy_default_def)
  have "length ?m < 2 ^ 32" "length ?v < 2 ^ 32" "length (qp_role_quota sample_policy) < 2 ^ 32" by (simp_all add: p)
  from quorum_reached_iff[OF this, of 1 1 1 1, unfolded p c] show ?thesis by (simp add: c)
qed

text \<open>
  The consensus threshold is exact integer arithmetic. For a percentage up to 100 the threshold
  count is the least number of votes whose share of the denominator is at least the percentage; it
  never exceeds the denominator and nothing wraps around at 32 or 64 bits.
\<close>

theorem percentage_ceiling_exact:
  assumes "percent \<le> 100"
  shows "(\<forall>votes. unat (percentage_ceiling tot percent) \<le> votes \<longleftrightarrow> unat tot * unat percent \<le> votes * 100) \<and>
    percentage_ceiling tot percent \<le> tot"
proof -
  have p: "unat percent \<le> 100" using assms by (simp add: word_le_nat_alt)
  have c: "(n + 99) div 100 \<le> v \<longleftrightarrow> n \<le> v * 100" for n v :: nat by auto
  have "unat tot * unat percent \<le> unat tot * 100" using p by simp
  then show ?thesis unfolding word_le_nat_alt percentage_ceiling_unat[OF assms] c by simp
qed

theorem percentage_ceiling_exact_witness:
  "unat (percentage_ceiling 3 67) \<le> 3 \<and> \<not> unat (percentage_ceiling 3 67) \<le> 2"
  using percentage_ceiling_exact[of 67 3] by simp

end
