(* ===== verification/Foundation_Properties.thy ===== *)
theory Foundation_Properties
  imports Fabric_Reports Hashing
begin

text \<open>
  What the leaf components promise to the runtime: identifier and enumeration codecs, checked
  arithmetic, the hashes, sanitised text, validated specifications, the candidate lifecycle and the
  evaluation summaries.
\<close>

section \<open>Codecs\<close>

text \<open>
  Identifiers parse exactly. Parsing accepts a text precisely when it is a nonempty string of
  at most twenty decimal digits whose value is nonzero and fits 64 bits, and then returns that
  value; in particular every nonzero identifier is read back from its printed form, and overflow is
  rejected rather than wrapped.
\<close>

theorem parse_id_exact:
  "parse_id str =
     (if str \<noteq> [] \<and> length str \<le> 20 \<and> list_all is_digit str \<and> 0 < dec_value 0 str \<and> dec_value 0 str < 2 ^ 64
      then Some (word_of_nat (dec_value 0 str)) else None) \<and>
   parse_id (id_to_string i) = (if i = 0 then None else Some i)"
proof -
  have z: "(word_of_nat n :: u64) = 0 \<longleftrightarrow> n = 0" if "n < 2 ^ 64" for n
  proof -
    have "unat (word_of_nat n :: u64) = n" using that by (simp add: unat_of_nat)
    then show ?thesis by (metis unat_eq_0)
  qed
  have e: "parse_id s = (if s \<noteq> [] \<and> length s \<le> 20 \<and> list_all is_digit s \<and> 0 < dec_value 0 s \<and> dec_value 0 s < 2 ^ 64
      then Some (word_of_nat (dec_value 0 s)) else None)" for s
    using z[of "dec_value 0 s"] by (auto simp: parse_id_def parse_digits_spec list_all_iff not_less)
  have "unat i < 10 ^ 20" using unat_less_64[of i] by simp
  then have "length (id_to_string i) \<le> 20" unfolding id_to_string_def by (rule dec_string_length[rotated]) simp
  moreover have "list_all is_digit (id_to_string i)" using dec_string_digits by (simp add: id_to_string_def list_all_iff)
  moreover have "dec_value 0 (id_to_string i) = unat i" by (simp add: id_to_string_def dec_value_dec_string)
  moreover have "id_to_string i \<noteq> []" by (simp add: id_to_string_def)
  ultimately have "parse_id (id_to_string i) = (if i = 0 then None else Some i)"
    using unat_less_64[of i] unfolding e[of "id_to_string i"] by (simp add: unat_gt_0)
  then show ?thesis using e[of str] by blast
qed

definition lower_text :: "string \<Rightarrow> string" where
  "lower_text str = map (\<lambda>ch. if 65 \<le> byte_of ch \<and> byte_of ch \<le> 90 then char_of (byte_of ch + 32) else ch) str"

lemma lookup_Some:
  "(if b then Some x else y) = Some r \<longleftrightarrow> b \<and> x = r \<or> \<not> b \<and> y = Some r"
  by simp

lemma role_lower:
  "lower_text ''CANDIDATE'' = ''candidate''"
  "lower_text ''SPECIALIST'' = ''specialist''"
  "lower_text ''JUDGE'' = ''judge''"
  "lower_text ''VERIFIER'' = ''verifier''"
  "lower_text ''FALLBACK'' = ''fallback''"
  by code_simp+

lemma role_names: "parse_role s = Some x \<longleftrightarrow> s = role_to_string x \<or> s = lower_text (role_to_string x)"
proof
  show "parse_role s = Some x \<Longrightarrow> s = role_to_string x \<or> s = lower_text (role_to_string x)"
    unfolding parse_role_def lookup_Some
    by (elim disjE conjE; (erule option.distinct(1)[THEN notE] | (hypsubst, code_simp)))
  show "s = role_to_string x \<or> s = lower_text (role_to_string x) \<Longrightarrow> parse_role s = Some x"
    by (cases x; elim disjE) (simp_all only: role_lower role_to_string.simps, simp_all add: parse_role_def)
qed

lemma verification_lower:
  "lower_text ''PASS'' = ''pass''"
  "lower_text ''FAIL'' = ''fail''"
  "lower_text ''ABSTAIN'' = ''abstain''"
  "lower_text ''UNKNOWN'' = ''unknown''"
  by code_simp+

lemma verification_names: "parse_verification_state s = Some x \<longleftrightarrow> s = verification_to_string x \<or> s = lower_text (verification_to_string x)"
proof
  show "parse_verification_state s = Some x \<Longrightarrow> s = verification_to_string x \<or> s = lower_text (verification_to_string x)"
    unfolding parse_verification_state_def lookup_Some
    by (elim disjE conjE; (erule option.distinct(1)[THEN notE] | (hypsubst, code_simp)))
  show "s = verification_to_string x \<or> s = lower_text (verification_to_string x) \<Longrightarrow> parse_verification_state s = Some x"
    by (cases x; elim disjE) (simp_all only: verification_lower verification_to_string.simps, simp_all add: parse_verification_state_def)
qed

lemma judgment_lower:
  "lower_text ''ACCEPT'' = ''accept''"
  "lower_text ''REJECT'' = ''reject''"
  "lower_text ''ABSTAIN'' = ''abstain''"
  "lower_text ''UNKNOWN'' = ''unknown''"
  by code_simp+

lemma judgment_names: "parse_categorical_judgment s = Some x \<longleftrightarrow> s = judgment_to_string x \<or> s = lower_text (judgment_to_string x)"
proof
  show "parse_categorical_judgment s = Some x \<Longrightarrow> s = judgment_to_string x \<or> s = lower_text (judgment_to_string x)"
    unfolding parse_categorical_judgment_def lookup_Some
    by (elim disjE conjE; (erule option.distinct(1)[THEN notE] | (hypsubst, code_simp)))
  show "s = judgment_to_string x \<or> s = lower_text (judgment_to_string x) \<Longrightarrow> parse_categorical_judgment s = Some x"
    by (cases x; elim disjE) (simp_all only: judgment_lower judgment_to_string.simps, simp_all add: parse_categorical_judgment_def)
qed

lemma criterion_lower:
  "lower_text ''HARD_PREDICATE'' = ''hard_predicate''"
  "lower_text ''RANKING_SIGNAL'' = ''ranking_signal''"
  by code_simp+

lemma criterion_names: "parse_criterion_kind s = Some x \<longleftrightarrow> s = criterion_kind_to_string x \<or> s = lower_text (criterion_kind_to_string x)"
proof
  show "parse_criterion_kind s = Some x \<Longrightarrow> s = criterion_kind_to_string x \<or> s = lower_text (criterion_kind_to_string x)"
    unfolding parse_criterion_kind_def lookup_Some
    by (elim disjE conjE; (erule option.distinct(1)[THEN notE] | (hypsubst, code_simp)))
  show "s = criterion_kind_to_string x \<or> s = lower_text (criterion_kind_to_string x) \<Longrightarrow> parse_criterion_kind s = Some x"
    by (cases x; elim disjE) (simp_all only: criterion_lower criterion_kind_to_string.simps, simp_all add: parse_criterion_kind_def)
qed

lemma participant_status_lower:
  "lower_text ''CURRENT'' = ''current''"
  "lower_text ''UNAVAILABLE'' = ''unavailable''"
  "lower_text ''FAILED'' = ''failed''"
  "lower_text ''FENCED'' = ''fenced''"
  "lower_text ''REVALIDATION_REQUIRED'' = ''revalidation_required''"
  "lower_text ''RETIRED'' = ''retired''"
  by code_simp+

lemma participant_status_names: "parse_participant_status s = Some x \<longleftrightarrow> s = participant_status_to_string x \<or> s = lower_text (participant_status_to_string x)"
proof
  show "parse_participant_status s = Some x \<Longrightarrow> s = participant_status_to_string x \<or> s = lower_text (participant_status_to_string x)"
    unfolding parse_participant_status_def lookup_Some
    by (elim disjE conjE; (erule option.distinct(1)[THEN notE] | (hypsubst, code_simp)))
  show "s = participant_status_to_string x \<or> s = lower_text (participant_status_to_string x) \<Longrightarrow> parse_participant_status s = Some x"
    by (cases x; elim disjE) (simp_all only: participant_status_lower participant_status_to_string.simps, simp_all add: parse_participant_status_def)
qed

lemma failure_kind_lower:
  "lower_text ''UNAVAILABLE'' = ''unavailable''"
  "lower_text ''TRANSPORT_ERROR'' = ''transport_error''"
  "lower_text ''MALFORMED_OUTPUT'' = ''malformed_output''"
  "lower_text ''INTERNAL_ERROR'' = ''internal_error''"
  "lower_text ''TIMEOUT_REPORTED'' = ''timeout_reported''"
  "lower_text ''EXPLICIT_ABORT'' = ''explicit_abort''"
  by code_simp+

lemma failure_kind_names: "parse_failure_kind s = Some x \<longleftrightarrow> s = failure_kind_to_string x \<or> s = lower_text (failure_kind_to_string x)"
proof
  show "parse_failure_kind s = Some x \<Longrightarrow> s = failure_kind_to_string x \<or> s = lower_text (failure_kind_to_string x)"
    unfolding parse_failure_kind_def lookup_Some
    by (elim disjE conjE; (erule option.distinct(1)[THEN notE] | (hypsubst, code_simp)))
  show "s = failure_kind_to_string x \<or> s = lower_text (failure_kind_to_string x) \<Longrightarrow> parse_failure_kind s = Some x"
    by (cases x; elim disjE) (simp_all only: failure_kind_lower failure_kind_to_string.simps, simp_all add: parse_failure_kind_def)
qed

lemma candidate_state_names: "parse_candidate_state s = Some x \<longleftrightarrow> s = candidate_state_to_string x"
proof
  show "parse_candidate_state s = Some x \<Longrightarrow> s = candidate_state_to_string x"
    unfolding parse_candidate_state_def lookup_Some
    by (elim disjE conjE; (erule option.distinct(1)[THEN notE] | (hypsubst, code_simp)))
qed (simp add: candidate_state_codec.parse_print)

lemmas enumeration_names = role_names verification_names judgment_names criterion_names participant_status_names failure_kind_names candidate_state_names

text \<open>
  The enumeration names are exact codecs. For the enumerations that travel as text, the parser
  accepts exactly the printed name of an enumerator and, except for candidate states, its lower-case
  form, and returns the enumerator it stands for.
\<close>

theorem enumeration_codecs_exact:
  "(parse_role s = Some r \<longleftrightarrow> s = role_to_string r \<or> s = lower_text (role_to_string r)) \<and>
   (parse_verification_state s = Some v \<longleftrightarrow> s = verification_to_string v \<or> s = lower_text (verification_to_string v)) \<and>
   (parse_categorical_judgment s = Some j \<longleftrightarrow> s = judgment_to_string j \<or> s = lower_text (judgment_to_string j)) \<and>
   (parse_criterion_kind s = Some k \<longleftrightarrow> s = criterion_kind_to_string k \<or> s = lower_text (criterion_kind_to_string k)) \<and>
   (parse_participant_status s = Some p \<longleftrightarrow> s = participant_status_to_string p \<or> s = lower_text (participant_status_to_string p)) \<and>
   (parse_failure_kind s = Some f \<longleftrightarrow> s = failure_kind_to_string f \<or> s = lower_text (failure_kind_to_string f)) \<and>
   (parse_candidate_state s = Some c \<longleftrightarrow> s = candidate_state_to_string c)"
  by (intro conjI enumeration_names)

section \<open>Arithmetic and hashes\<close>

text \<open>
  Checked arithmetic is exact. Addition and multiplication return the mathematical result
  exactly when it is within the limit, and nothing otherwise, for all 64-bit operands.
\<close>

theorem checked_arithmetic_exact:
  "map_option unat (checked_add lhs rhs limit) =
     (if unat lhs + unat rhs \<le> unat limit then Some (unat lhs + unat rhs) else None) \<and>
   map_option unat (checked_mul lhs rhs limit) =
     (if unat lhs * unat rhs \<le> unat limit then Some (unat lhs * unat rhs) else None)"
proof
  show "map_option unat (checked_add lhs rhs limit) =
      (if unat lhs + unat rhs \<le> unat limit then Some (unat lhs + unat rhs) else None)"
  proof (cases "checked_add lhs rhs limit")
    case None
    then show ?thesis using checked_add_iff[of lhs rhs limit "lhs + rhs"] by simp
  next
    case (Some s)
    then have "unat lhs + unat rhs \<le> unat limit" "s = lhs + rhs" by (simp_all add: checked_add_iff)
    moreover from this have "unat s = unat lhs + unat rhs"
      using unat_less_64[of limit] by (simp add: unat_plus_if')
    ultimately show ?thesis using Some by simp
  qed
  show "map_option unat (checked_mul lhs rhs limit) =
      (if unat lhs * unat rhs \<le> unat limit then Some (unat lhs * unat rhs) else None)"
  proof (cases "checked_mul lhs rhs limit")
    case None
    have "\<not> unat lhs * unat rhs \<le> unat limit"
    proof
      assume le: "unat lhs * unat rhs \<le> unat limit"
      then have "unat lhs * unat rhs < 2 ^ 64" using unat_less_64[of limit] by linarith
      then have "unat (lhs * rhs) = unat lhs * unat rhs" by (simp add: unat_word_ariths)
      with le None checked_mul_iff[of lhs rhs limit "lhs * rhs"] show False by simp
    qed
    with None show ?thesis by simp
  next
    case (Some p)
    then have "unat p = unat lhs * unat rhs" "unat lhs * unat rhs \<le> unat limit" using checked_mul_iff by auto
    with Some show ?thesis by simp
  qed
qed

text \<open>
  C40: the table-driven CRC-32C is the bit-serial one, and it may be computed in pieces.
\<close>

theorem crc32c_table_is_serial:
  "crc32c_extend seed data = crc32c_serial seed data \<and>
   crc32c_extend (crc32c_extend seed a) b = crc32c_extend seed (a @ b)"
proof -
  have "crc_byte = crc_byte_serial" by (intro ext) (rule crc_byte_eq_serial)
  then show ?thesis by (simp add: crc32c_extend_def crc32c_serial_def)
qed

text \<open>
  SHA-256 is a streaming hash. However the input is split into updates the digest is the same,
  it has 32 bytes, and the block buffer always holds less than a block.
\<close>

theorem sha256_streaming:
  "sha_finish (foldl sha_update sha_init chunks) = sha256 (concat chunks) \<and> length (sha256 data) = 32 \<and>
   length (sha_buffer (foldl sha_update sha_init chunks)) < 64"
proof -
  have u: "foldl sha_update s cs = sha_update s (concat cs)" for s cs
    by (induction cs arbitrary: s) (simp_all add: sha_update_append, simp add: sha_update_def)
  have "length (sha_buffer sha_init) < 64" by (simp add: sha_init_def)
  then show ?thesis unfolding u by (simp add: sha256_def[symmetric] length_sha256 sha_update_buffer)
qed

text \<open>
  Sanitised text is safe to store. It is printable ASCII of at most the given length, keeps
  the length of what it was cut from, leaves printable input alone and is idempotent.
\<close>

theorem sanitize_text_safe:
  "list_all printable (sanitize_text str n) \<and> length (sanitize_text str n) = min (length str) n \<and>
   is_bounded_ascii (sanitize_text str n) n \<and> sanitize_text (sanitize_text str n) n = sanitize_text str n \<and>
   (if list_all printable str then sanitize_text str n = take n str else True)"
proof -
  have "map sanitize_char (take n str) = take n str" if "list_all printable str"
    using that by (intro map_idI) (auto simp: list_all_iff sanitize_char_printable dest: in_set_takeD)
  then show ?thesis
    using sanitize_text_bounded sanitize_text_idem by (simp add: sanitize_text_spec list_all_iff printable_sanitize_char)
qed

lemma dec_string_length_gt: "10 ^ k \<le> n \<Longrightarrow> k < length (dec_string n)"
proof (induction n arbitrary: k rule: dec_string.induct)
  case (1 n)
  show ?case
  proof (cases k)
    case 0
    then show ?thesis by simp
  next
    case (Suc j)
    then have n: "10 * 10 ^ j \<le> n" using "1.prems" by simp
    then have "10 * 10 ^ j div 10 \<le> n div 10" by (rule div_le_mono)
    then have d: "10 ^ j \<le> n div 10" by simp
    have "(1 :: nat) \<le> 10 ^ j" by simp
    with n have "\<not> n < 10" by linarith
    with "1.IH"[OF this d] Suc show ?thesis by (subst dec_string.simps) simp
  qed
qed

text \<open>
  Huge scores overflow the formatting buffer. Every finite double of magnitude at least two to
  the 200 prints to more than the 64 bytes of the buffer that format_double uses, and the function
  then builds a string that reads past it.
\<close>

theorem format_double_overflows:
  assumes "1223 \<le> d_exp x" "d_exp x \<noteq> 2047"
  shows "format_double x = None"
proof -
  have sig: "2 ^ 52 \<le> d_sig x" using assms(1) by (simp add: d_sig_def d_frac_def)
  have scale: "148 \<le> d_scale x" using assms(1) by (simp add: d_scale_def)
  define n where "n = nat (d_sig x * 10 ^ 6 * 2 ^ nat (d_scale x))"
  have "(2 :: int) ^ 148 \<le> 2 ^ nat (d_scale x)" using scale by (intro power_increasing) auto
  then have "2 ^ 52 * 10 ^ 6 * 2 ^ 148 \<le> d_sig x * 10 ^ 6 * 2 ^ nat (d_scale x)"
    using sig by (intro mult_mono) auto
  then have "nat (2 ^ 52 * 10 ^ 6 * 2 ^ 148) \<le> n" unfolding n_def by (rule nat_mono)
  then have "10 ^ 60 \<le> n div 10 ^ 6" by simp
  then have digits: "60 < length (dec_string (n div 10 ^ 6))" by (rule dec_string_length_gt)
  have "fixed6_text x = (if d_sign x then ''-'' else []) @ dec_string (n div 10 ^ 6) @ ''.'' @ pad6 (n mod 10 ^ 6)"
    using assms scale by (simp add: fixed6_text_def d_isnan_def d_isinf_def n_def Let_def)
  moreover have "6 \<le> length (pad6 (n mod 10 ^ 6))" by (simp add: pad6_def Let_def)
  ultimately have "64 < length (fixed6_text x)" using digits by simp
  then show ?thesis by (simp add: format_double_def)
qed

theorem format_double_overflows_witness: "format_double 0x7FEFFFFFFFFFFFFF = None"
  by (rule format_double_overflows) (simp_all add: d_exp_def d_mag_def)

section \<open>Specifications\<close>

text \<open>
  What a validated specification guarantees. Participants are nonempty, have distinct nonzero
  identities and at least one role each, one of them can produce a candidate; stages have distinct
  identities and name declared producing participants, within the branch limit; at least one and at
  most the limit of attempts is configured; and exactly one candidate is selected.
\<close>

theorem validated_spec_guarantees:
  assumes "is_ok (validate_spec spec l)"
  shows "sp_participants spec \<noteq> [] \<and> distinct (map ps_id (sp_participants spec)) \<and>
    (\<forall>p \<in> set (sp_participants spec). ps_id p \<noteq> 0 \<and> ps_roles p \<noteq> 0) \<and>
    (\<exists>p \<in> set (sp_participants spec). holds_producing_role p) \<and>
    distinct (map st_id (sp_stages spec)) \<and>
    (\<forall>stage \<in> set (sp_stages spec). st_id stage \<noteq> 0 \<and> st_participants stage \<noteq> [] \<and>
       length (st_participants stage) \<le> unat (max_parallel_branches l) \<and>
       (\<forall>i \<in> set (st_participants stage). \<exists>p \<in> set (sp_participants spec). ps_id p = i \<and> holds_producing_role p)) \<and>
    rt_max_attempts (sp_retry spec) \<noteq> 0 \<and> rt_max_attempts (sp_retry spec) \<le> max_retries l + 1 \<and>
    qp_consensus_threshold_percent (sp_quorum spec) \<le> 100 \<and> ab_max_selected (sp_arbitration spec) = 1"
proof -
  note v = assms[unfolded validate_spec_def validate_policies_def Let_def]
  have p: "is_ok (validate_participants l [] (sp_participants spec))" and s: "is_ok (validate_stages spec l [] (sp_stages spec))"
    and r: "list_ex holds_producing_role (sp_participants spec)" "sp_participants spec \<noteq> []"
      "rt_max_attempts (sp_retry spec) \<noteq> 0" "\<not> max_retries l + 1 < rt_max_attempts (sp_retry spec)"
      "\<not> 100 < qp_consensus_threshold_percent (sp_quorum spec)" "ab_max_selected (sp_arbitration spec) = 1"
    using v by simp_all
  have "ps_id q \<noteq> 0 \<and> ps_roles q \<noteq> 0" if "q \<in> set (sp_participants spec)" for q
    using that validate_participants_all[OF p that] validate_participants_distinct[OF p] by force
  moreover have "st_id stage \<noteq> 0 \<and> st_participants stage \<noteq> [] \<and>
      length (st_participants stage) \<le> unat (max_parallel_branches l) \<and>
      (\<forall>i \<in> set (st_participants stage). \<exists>p \<in> set (sp_participants spec). ps_id p = i \<and> holds_producing_role p)"
    if "stage \<in> set (sp_stages spec)" for stage
    using validate_stages_all[OF s that] find_spec_participantD unfolding valid_id_def by blast
  ultimately show ?thesis
    using r validate_participants_distinct[OF p] validate_stages_distinct[OF s] by (auto simp: list_ex_iff)
qed

definition minimal_spec :: EnsembleSpec where
  "minimal_spec = spec_default\<lparr>sp_id := 1,
     sp_participants := [participant_spec_default\<lparr>ps_id := 5, ps_roles := roles_of R_candidate\<rparr>]\<rparr>"

theorem validated_spec_guarantees_witness:
  "\<exists>p \<in> set (sp_participants minimal_spec). holds_producing_role p"
proof -
  have "is_ok (validate_spec minimal_spec limits_defaults)" by code_simp
  from validated_spec_guarantees[OF this] show ?thesis by blast
qed

text \<open>
  The specification fingerprint does not separate its texts. Moving a suffix of the label to the
  front of the task class gives a different specification with the same fingerprint.
\<close>

theorem spec_fingerprint_ambiguous:
  "compute_spec_fingerprint (spec\<lparr>sp_label := a @ b, sp_task_class := c\<rparr>) =
   compute_spec_fingerprint (spec\<lparr>sp_label := a, sp_task_class := b @ c\<rparr>)"
  by (simp add: compute_spec_fingerprint_def hash_items_def fnv1a64_text_def decision_policy_items_def
      lifecycle_policy_items_def)

section \<open>Candidates and summaries\<close>

text \<open>
  The candidate lifecycle only moves forward. From a state with content no sequence of legal
  transitions leads back to a state that still accepts output, and a selected candidate can only be
  superseded or retired.
\<close>

theorem lifecycle_forward:
  assumes "lifecycle s t"
  shows "(is_content_state s \<longrightarrow> \<not> permits_output t) \<and>
    (s = C_selected \<longrightarrow> t \<in> {C_selected, C_superseded, C_retired}) \<and>
    (s = C_retired \<longrightarrow> t = C_retired)"
proof -
  have "t \<in> {C_retired}" if "s = C_retired" using assms by (rule lifecycle_closed) (auto simp: that)
  then show ?thesis using assms lifecycle_content_no_output lifecycle_selected by blast
qed

theorem lifecycle_forward_witness: "lifecycle C_valid C_retired \<and> \<not> permits_output C_retired"
proof -
  have "lifecycle C_valid C_retired"
    by (rule lifecycle.step[OF lifecycle.stay]) (simp add: is_legal_transition_def)
  with lifecycle_forward[OF this] show ?thesis by (simp add: is_content_state_def)
qed

text \<open>
  Summaries and tallies count what is on record. The counters of a candidate summary and the
  agreeing votes of its tally are the numbers of current evaluations of exactly that candidate
  generation with the respective verdict, modulo the 32-bit counter width.
\<close>

theorem summaries_count_evaluations:
  "let es = filter (is_evidence c) (ex_evaluations ex); s = summarize_candidate ex c
   in sm_evaluations s = word_of_nat (length es) \<and>
      sm_accepts s = word_of_nat (length (filter (\<lambda>e. er_judgment e = J_accept) es)) \<and>
      sm_hard_failures s =
        word_of_nat (length (filter (\<lambda>e. er_kind e = K_hard_predicate \<and> er_verification e = V_fail) es)) \<and>
      ty_agreeing (candidate_tally ex c) = sm_accepts s"
  by (simp add: Let_def summarize_candidate_counts candidate_tally_agreeing conj_commute conj_left_commute)

end
