(* ===== verification/Frames.thy ===== *)
theory Frames
  imports Wire Integrity
begin

text \<open>
  The framed wire protocol (\<^verbatim>\<open>include/ensemble_fabric/protocol.hpp\<close>, the first part of
  \<^verbatim>\<open>src/protocol.cpp\<close>): the message kinds, the fixed 64-byte header with its checksum, the
  encoder of one frame and the incremental decoder that reads one frame from the front of a
  buffer. The lemmas reduce both to one description of the header, \<open>raw_header\<close>.
\<close>

section \<open>Message kinds\<close>

datatype (plugins only: code) MessageType =
    MT_hello | MT_hello_ack | MT_register_participant | MT_register_ack | MT_heartbeat
    | MT_dispatch_candidate | MT_candidate_result | MT_candidate_failure
    | MT_candidate_abstention | MT_evaluation_request | MT_evaluation_result | MT_cancel
    | MT_define_ensemble | MT_define_ensemble_ack | MT_open_execution
    | MT_open_execution_ack | MT_finalize_request | MT_finalize_response
    | MT_inspect_request | MT_inspect_response | MT_worker_ready | MT_goodbye
    | MT_error_response | MT_cancel_ensemble | MT_query_result | MT_result_response
    | MT_status_response

primrec message_type_code :: "MessageType \<Rightarrow> u16" where
  "message_type_code MT_hello = 1"
| "message_type_code MT_hello_ack = 2"
| "message_type_code MT_register_participant = 3"
| "message_type_code MT_register_ack = 4"
| "message_type_code MT_heartbeat = 5"
| "message_type_code MT_dispatch_candidate = 6"
| "message_type_code MT_candidate_result = 7"
| "message_type_code MT_candidate_failure = 8"
| "message_type_code MT_candidate_abstention = 9"
| "message_type_code MT_evaluation_request = 10"
| "message_type_code MT_evaluation_result = 11"
| "message_type_code MT_cancel = 12"
| "message_type_code MT_define_ensemble = 13"
| "message_type_code MT_define_ensemble_ack = 14"
| "message_type_code MT_open_execution = 15"
| "message_type_code MT_open_execution_ack = 16"
| "message_type_code MT_finalize_request = 17"
| "message_type_code MT_finalize_response = 18"
| "message_type_code MT_inspect_request = 19"
| "message_type_code MT_inspect_response = 20"
| "message_type_code MT_worker_ready = 21"
| "message_type_code MT_goodbye = 22"
| "message_type_code MT_error_response = 23"
| "message_type_code MT_cancel_ensemble = 24"
| "message_type_code MT_query_result = 25"
| "message_type_code MT_result_response = 26"
| "message_type_code MT_status_response = 27"

primrec message_type_to_string :: "MessageType \<Rightarrow> string" where
  "message_type_to_string MT_hello = ''HELLO''"
| "message_type_to_string MT_hello_ack = ''HELLO_ACK''"
| "message_type_to_string MT_register_participant = ''REGISTER_PARTICIPANT''"
| "message_type_to_string MT_register_ack = ''REGISTER_ACK''"
| "message_type_to_string MT_heartbeat = ''HEARTBEAT''"
| "message_type_to_string MT_dispatch_candidate = ''DISPATCH_CANDIDATE''"
| "message_type_to_string MT_candidate_result = ''CANDIDATE_RESULT''"
| "message_type_to_string MT_candidate_failure = ''CANDIDATE_FAILURE''"
| "message_type_to_string MT_candidate_abstention = ''CANDIDATE_ABSTENTION''"
| "message_type_to_string MT_evaluation_request = ''EVALUATION_REQUEST''"
| "message_type_to_string MT_evaluation_result = ''EVALUATION_RESULT''"
| "message_type_to_string MT_cancel = ''CANCEL''"
| "message_type_to_string MT_define_ensemble = ''DEFINE_ENSEMBLE''"
| "message_type_to_string MT_define_ensemble_ack = ''DEFINE_ENSEMBLE_ACK''"
| "message_type_to_string MT_open_execution = ''OPEN_EXECUTION''"
| "message_type_to_string MT_open_execution_ack = ''OPEN_EXECUTION_ACK''"
| "message_type_to_string MT_finalize_request = ''FINALIZE_REQUEST''"
| "message_type_to_string MT_finalize_response = ''FINALIZE_RESPONSE''"
| "message_type_to_string MT_inspect_request = ''INSPECT_REQUEST''"
| "message_type_to_string MT_inspect_response = ''INSPECT_RESPONSE''"
| "message_type_to_string MT_worker_ready = ''WORKER_READY''"
| "message_type_to_string MT_goodbye = ''GOODBYE''"
| "message_type_to_string MT_error_response = ''ERROR_RESPONSE''"
| "message_type_to_string MT_cancel_ensemble = ''CANCEL_ENSEMBLE''"
| "message_type_to_string MT_query_result = ''QUERY_RESULT''"
| "message_type_to_string MT_result_response = ''RESULT_RESPONSE''"
| "message_type_to_string MT_status_response = ''STATUS_RESPONSE''"

definition message_types :: "MessageType list" where
  "message_types =
     [MT_hello, MT_hello_ack, MT_register_participant, MT_register_ack, MT_heartbeat,
      MT_dispatch_candidate, MT_candidate_result, MT_candidate_failure,
      MT_candidate_abstention, MT_evaluation_request, MT_evaluation_result, MT_cancel,
      MT_define_ensemble, MT_define_ensemble_ack, MT_open_execution,
      MT_open_execution_ack, MT_finalize_request, MT_finalize_response,
      MT_inspect_request, MT_inspect_response, MT_worker_ready, MT_goodbye,
      MT_error_response, MT_cancel_ensemble, MT_query_result, MT_result_response,
      MT_status_response]"


definition parse_message_type :: "u16 \<Rightarrow> MessageType option" where
  "parse_message_type v = (if v < 1 \<or> 27 < v then None else Some (message_types ! (unat v - 1)))"

lemma parse_message_type_code [simp]: "parse_message_type (message_type_code t) = Some t"
  by (cases t) (simp_all add: parse_message_type_def message_types_def)

lemma message_types_codes: "map message_type_code message_types = map word_of_nat [1..<28]"
  by (simp add: message_types_def upt_rec)

lemma parse_message_type_Some_iff: "parse_message_type v = Some t \<longleftrightarrow> v = message_type_code t"
proof
  assume "parse_message_type v = Some t"
  then have v: "1 \<le> unat v" "unat v \<le> 27" and t: "t = message_types ! (unat v - 1)"
    by (auto simp: parse_message_type_def word_less_nat_alt split: if_splits)
  have len: "length message_types = 27" by (simp add: message_types_def)
  have "message_type_code t = map message_type_code message_types ! (unat v - 1)"
    using v t len by simp
  also have "\<dots> = word_of_nat (unat v)" using v unfolding message_types_codes by simp
  finally show "v = message_type_code t" by simp
qed simp

section \<open>Frames\<close>

definition protocol_version :: u16 where "protocol_version = 1"
definition frame_header_bytes :: nat where "frame_header_bytes = 64"
definition frame_magic :: u32 where "frame_magic = 0x42464E45"

record Frame =
  fr_version :: u16
  fr_type :: MessageType
  fr_flags :: u16
  fr_correlation :: strong_id
  fr_epoch :: CoordinatorEpoch
  fr_worker_boot :: WorkerBootId
  fr_sequence :: Sequence
  fr_payload :: bytes

definition encode_frame :: "Frame \<Rightarrow> Limits \<Rightarrow> bytes outcome" where
  "encode_frame f l =
     (if unat (max_frame_bytes l) < length (fr_payload f) then fail E_payload_too_large
      else let total = frame_header_bytes + length (fr_payload f)
      in if unat (max_frame_bytes l) < total \<or> 0xFFFFFFFF < total then fail E_payload_too_large
      else
        let out = replicate total 0;
            out = store_at 0 (store_u32 frame_magic) out;
            out = store_at 4 (store_u16 protocol_version) out;
            out = store_at 6 (store_u16 (word_of_nat frame_header_bytes)) out;
            out = store_at 8 (store_u16 (message_type_code (fr_type f))) out;
            out = store_at 10 (store_u16 (fr_flags f)) out;
            out = store_at 12 (store_u32 (size32 (fr_payload f))) out;
            out = store_at 16 (store_u64 (fr_correlation f)) out;
            out = store_at 24 (store_u64 (fr_epoch f)) out;
            out = store_at 32 (store_u64 (fr_worker_boot f)) out;
            out = store_at 40 (store_u64 (fr_sequence f)) out;
            out = store_at 48 (store_u32 0) out;
            out = store_at 56 (store_u64 0) out;
            out = store_at frame_header_bytes (fr_payload f) out;
            checksum = crc32c (take frame_header_bytes out);
            checksum = crc32c_extend checksum (take (length (fr_payload f)) (drop frame_header_bytes out))
        in Ok (store_at 52 (store_u32 checksum) out))"

datatype DecodeResult = DR_complete Frame nat | DR_need_more_data | DR_failed EnsembleError

definition decode_frame :: "bytes \<Rightarrow> Limits \<Rightarrow> DecodeResult" where
  "decode_frame buffer l =
     (if length buffer < frame_header_bytes then DR_need_more_data
      else if load_u32 buffer \<noteq> frame_magic then DR_failed E_malformed_frame
      else if load_u16 (drop 4 buffer) \<noteq> protocol_version then DR_failed E_unsupported_version
      else if load_u16 (drop 6 buffer) \<noteq> word_of_nat frame_header_bytes then DR_failed E_malformed_frame
      else case parse_message_type (load_u16 (drop 8 buffer)) of
        None \<Rightarrow> DR_failed E_invalid_enum_value
      | Some type \<Rightarrow>
          let payload_length = load_u32 (drop 12 buffer)
          in if max_frame_bytes l < payload_length \<or>
                unat (max_frame_bytes l) < unat payload_length + frame_header_bytes
             then DR_failed E_payload_too_large
             else if load_u32 (drop 48 buffer) \<noteq> 0 \<or> load_u64 (drop 56 buffer) \<noteq> 0
             then DR_failed E_malformed_frame
             else let total = frame_header_bytes + unat payload_length
             in if length buffer < total then DR_need_more_data
             else let stored_checksum = load_u32 (drop 52 buffer);
                      header_copy = store_at 52 (store_u32 0) (take frame_header_bytes buffer);
                      checksum = crc32c_extend (crc32c header_copy)
                        (take (unat payload_length) (drop frame_header_bytes buffer))
                  in if checksum \<noteq> stored_checksum then DR_failed E_checksum_mismatch
                  else DR_complete
                    \<lparr>fr_version = load_u16 (drop 4 buffer), fr_type = type,
                     fr_flags = load_u16 (drop 10 buffer), fr_correlation = load_u64 (drop 16 buffer),
                     fr_epoch = load_u64 (drop 24 buffer), fr_worker_boot = load_u64 (drop 32 buffer),
                     fr_sequence = load_u64 (drop 40 buffer),
                     fr_payload = take (unat payload_length) (drop frame_header_bytes buffer)\<rparr> total)"

section \<open>The header as its fields\<close>

definition raw_header ::
  "u32 \<Rightarrow> u16 \<Rightarrow> u16 \<Rightarrow> u16 \<Rightarrow> u16 \<Rightarrow> u32 \<Rightarrow> u64 \<Rightarrow> u64 \<Rightarrow> u64 \<Rightarrow> u64 \<Rightarrow> u32 \<Rightarrow> u32 \<Rightarrow> u64 \<Rightarrow> bytes" where
  "raw_header magic version hsize type flags len correlation epoch boot sequence reserved checksum trailer =
     store_u32 magic @ store_u16 version @ store_u16 hsize @ store_u16 type @ store_u16 flags @
     store_u32 len @ store_u64 correlation @ store_u64 epoch @ store_u64 boot @ store_u64 sequence @
     store_u32 reserved @ store_u32 checksum @ store_u64 trailer"

lemma length_raw_header [simp]: "length (raw_header m v s t f n c e b q r k z) = 64"
  by (simp add: raw_header_def)

lemma raw_header_loads [simp]:
  "load_u32 (raw_header m v s t f n c e b q r k z @ rest) = m"
  "load_u16 (drop 4 (raw_header m v s t f n c e b q r k z @ rest)) = v"
  "load_u16 (drop 6 (raw_header m v s t f n c e b q r k z @ rest)) = s"
  "load_u16 (drop 8 (raw_header m v s t f n c e b q r k z @ rest)) = t"
  "load_u16 (drop 10 (raw_header m v s t f n c e b q r k z @ rest)) = f"
  "load_u32 (drop 12 (raw_header m v s t f n c e b q r k z @ rest)) = n"
  "load_u64 (drop 16 (raw_header m v s t f n c e b q r k z @ rest)) = c"
  "load_u64 (drop 24 (raw_header m v s t f n c e b q r k z @ rest)) = e"
  "load_u64 (drop 32 (raw_header m v s t f n c e b q r k z @ rest)) = b"
  "load_u64 (drop 40 (raw_header m v s t f n c e b q r k z @ rest)) = q"
  "load_u32 (drop 48 (raw_header m v s t f n c e b q r k z @ rest)) = r"
  "load_u32 (drop 52 (raw_header m v s t f n c e b q r k z @ rest)) = k"
  "load_u64 (drop 56 (raw_header m v s t f n c e b q r k z @ rest)) = z"
  by (simp_all add: raw_header_def)

lemma raw_header_checksum [simp]:
  "store_at 52 (store_u32 k') (raw_header m v s t f n c e b q r k z) = raw_header m v s t f n c e b q r k' z"
  by (simp add: raw_header_def store_at_def)

lemma raw_header_split:
  assumes "64 \<le> length buffer"
  obtains m v s t f n c e b q r k z rest where "buffer = raw_header m v s t f n c e b q r k z @ rest"
proof -
  have s2: "\<exists>v rest'. rest = store_u16 v @ rest'" if "2 \<le> length rest" for rest
    using that by (metis split_bytes store_load(1))
  have s4: "\<exists>v rest'. rest = store_u32 v @ rest'" if "4 \<le> length rest" for rest
    using that by (metis split_bytes store_load(2))
  have s8: "\<exists>v rest'. rest = store_u64 v @ rest'" if "8 \<le> length rest" for rest
    using that by (metis split_bytes store_load(3))
  obtain m r1 where 1: "buffer = store_u32 m @ r1" using s4[of buffer] assms by auto
  obtain v r2 where 2: "r1 = store_u16 v @ r2" using s2[of r1] assms 1 by auto
  obtain s r3 where 3: "r2 = store_u16 s @ r3" using s2[of r2] assms 1 2 by auto
  obtain t r4 where 4: "r3 = store_u16 t @ r4" using s2[of r3] assms 1 2 3 by auto
  obtain f r5 where 5: "r4 = store_u16 f @ r5" using s2[of r4] assms 1 2 3 4 by auto
  obtain n r6 where 6: "r5 = store_u32 n @ r6" using s4[of r5] assms 1 2 3 4 5 by auto
  obtain c r7 where 7: "r6 = store_u64 c @ r7" using s8[of r6] assms 1 2 3 4 5 6 by auto
  obtain e r8 where 8: "r7 = store_u64 e @ r8" using s8[of r7] assms 1 2 3 4 5 6 7 by auto
  obtain b r9 where 9: "r8 = store_u64 b @ r9" using s8[of r8] assms 1 2 3 4 5 6 7 8 by auto
  obtain q r10 where 10: "r9 = store_u64 q @ r10" using s8[of r9] assms 1 2 3 4 5 6 7 8 9 by auto
  obtain r r11 where 11: "r10 = store_u32 r @ r11" using s4[of r10] assms 1 2 3 4 5 6 7 8 9 10 by auto
  obtain k r12 where 12: "r11 = store_u32 k @ r12" using s4[of r11] assms 1 2 3 4 5 6 7 8 9 10 11 by auto
  obtain z r13 where 13: "r12 = store_u64 z @ r13" using s8[of r12] assms 1 2 3 4 5 6 7 8 9 10 11 12 by auto
  show thesis
    by (rule that[of m v s t f n c e b q r k z r13])
      (simp add: raw_header_def 1 2 3 4 5 6 7 8 9 10 11 12 13)
qed

text \<open>The header of a frame with a given checksum, and the checksum it must carry.\<close>

definition frame_header :: "u32 \<Rightarrow> Frame \<Rightarrow> bytes" where
  "frame_header checksum f =
     raw_header frame_magic protocol_version 64 (message_type_code (fr_type f)) (fr_flags f)
       (size32 (fr_payload f)) (fr_correlation f) (fr_epoch f) (fr_worker_boot f) (fr_sequence f)
       0 checksum 0"

definition frame_checksum :: "Frame \<Rightarrow> u32" where
  "frame_checksum f = crc32c (frame_header 0 f @ fr_payload f)"

definition frame_bytes :: "Frame \<Rightarrow> bytes" where
  "frame_bytes f = frame_header (frame_checksum f) f @ fr_payload f"

definition frame_fits :: "Limits \<Rightarrow> Frame \<Rightarrow> bool" where
  "frame_fits l f \<longleftrightarrow> 64 + length (fr_payload f) \<le> unat (max_frame_bytes l)"

lemma length_frame_header [simp]: "length (frame_header k f) = 64"
  by (simp add: frame_header_def)

lemma length_frame_bytes [simp]: "length (frame_bytes f) = 64 + length (fr_payload f)"
  by (simp add: frame_bytes_def)

lemma frame_size: "frame_fits l f \<Longrightarrow> unat (size32 (fr_payload f)) = length (fr_payload f)"
  using unat_less_32[of "max_frame_bytes l"] by (simp add: frame_fits_def unat_of_nat)

lemma encode_frame_eq:
  "encode_frame f l = (if frame_fits l f then Ok (frame_bytes f) else Err E_payload_too_large)"
proof (cases "frame_fits l f")
  case True
  then have guards: "\<not> unat (max_frame_bytes l) < length (fr_payload f)"
      "\<not> (unat (max_frame_bytes l) < 64 + length (fr_payload f) \<or> 0xFFFFFFFF < 64 + length (fr_payload f))"
    using unat_less_32[of "max_frame_bytes l"] by (auto simp: frame_fits_def)
  have layout: "store_at 64 (fr_payload f) (store_at 56 (store_u64 0) (store_at 48 (store_u32 0)
      (store_at 40 (store_u64 (fr_sequence f)) (store_at 32 (store_u64 (fr_worker_boot f))
      (store_at 24 (store_u64 (fr_epoch f)) (store_at 16 (store_u64 (fr_correlation f))
      (store_at 12 (store_u32 (size32 (fr_payload f))) (store_at 10 (store_u16 (fr_flags f))
      (store_at 8 (store_u16 (message_type_code (fr_type f))) (store_at 6 (store_u16 64)
      (store_at 4 (store_u16 protocol_version) (store_at 0 (store_u32 frame_magic)
      (replicate (64 + length (fr_payload f)) 0))))))))))))) = frame_header 0 f @ fr_payload f"
    by (simp add: store_at_def frame_header_def raw_header_def store_u32_def[of 0] store_le_def
        numeral_eq_Suc)
  have checksum: "store_at 52 (store_u32 k) (frame_header 0 f @ fr_payload f) = frame_header k f @ fr_payload f"
    for k
    using raw_header_checksum unfolding frame_header_def by (simp add: store_at_def)
  show ?thesis
    using True guards
    by (simp add: encode_frame_def Let_def frame_header_bytes_def layout checksum frame_bytes_def
        frame_checksum_def crc32c_def crc32c_extend_append)
next
  case False
  then show ?thesis by (auto simp: encode_frame_def frame_fits_def frame_header_bytes_def Let_def)
qed

section \<open>The incremental decoder\<close>

lemma decode_raw:
  "decode_frame (raw_header m v s t f n c e b q r k z @ rest) l =
     (if m \<noteq> frame_magic then DR_failed E_malformed_frame
      else if v \<noteq> protocol_version then DR_failed E_unsupported_version
      else if s \<noteq> 64 then DR_failed E_malformed_frame
      else case parse_message_type t of
        None \<Rightarrow> DR_failed E_invalid_enum_value
      | Some type \<Rightarrow>
          if unat (max_frame_bytes l) < unat n + 64 then DR_failed E_payload_too_large
          else if r \<noteq> 0 \<or> z \<noteq> 0 then DR_failed E_malformed_frame
          else if length rest < unat n then DR_need_more_data
          else if crc32c (raw_header m v s t f n c e b q r 0 z @ take (unat n) rest) \<noteq> k
          then DR_failed E_checksum_mismatch
          else DR_complete
            \<lparr>fr_version = v, fr_type = type, fr_flags = f, fr_correlation = c, fr_epoch = e,
             fr_worker_boot = b, fr_sequence = q, fr_payload = take (unat n) rest\<rparr> (64 + unat n))"
proof -
  let ?h = "raw_header m v s t f n c e b q r k z"
  have len: "max_frame_bytes l < n \<or> unat (max_frame_bytes l) < unat n + 64 \<longleftrightarrow>
      unat (max_frame_bytes l) < unat n + 64"
    by (auto simp: word_less_nat_alt)
  have rest: "drop 64 (?h @ rest) = rest" "take 64 (?h @ rest) = ?h" "\<not> length (?h @ rest) < 64"
    by simp_all
  have total: "length (?h @ rest) < 64 + unat n \<longleftrightarrow> length rest < unat n" by simp
  have crc: "crc32c_extend (crc32c a) d = crc32c (a @ d)" for a d
    by (simp add: crc32c_def crc32c_extend_append)
  show ?thesis
    unfolding decode_frame_def frame_header_bytes_def Let_def rest total len raw_header_loads
      raw_header_checksum crc of_nat_numeral
    by (simp split: option.split)
qed

lemma decode_header:
  assumes "frame_fits l f"
  shows "decode_frame (frame_header k f @ body) l =
     (if length body < length (fr_payload f) then DR_need_more_data
      else if crc32c (frame_header 0 f @ take (length (fr_payload f)) body) \<noteq> k
      then DR_failed E_checksum_mismatch
      else DR_complete (f\<lparr>fr_version := protocol_version, fr_payload := take (length (fr_payload f)) body\<rparr>)
             (64 + length (fr_payload f)))"
  using assms frame_size[OF assms] unfolding frame_header_def
  by (cases f) (simp add: decode_raw frame_fits_def add.commute not_less)

lemma decode_frame_bytes:
  assumes "frame_fits l f" and "fr_version f = protocol_version"
  shows "decode_frame (frame_bytes f @ rest) l = DR_complete f (length (frame_bytes f))"
  using assms by (cases f) (simp add: frame_bytes_def decode_header frame_checksum_def)

lemma decode_frame_prefix:
  assumes "frame_fits l f" and "frame_bytes f = p @ q" and "q \<noteq> []"
  shows "decode_frame p l = DR_need_more_data"
proof (cases "length p < 64")
  case False
  let ?h = "frame_header (frame_checksum f) f"
  have "take 64 (p @ q) = ?h" "drop 64 (p @ q) = fr_payload f"
    unfolding assms(2)[symmetric] frame_bytes_def by simp_all
  with False have "p = ?h @ drop 64 p" and "drop 64 p @ q = fr_payload f"
    using append_take_drop_id[of 64 p] by simp_all
  moreover have "length (drop 64 p) < length (fr_payload f)"
    using \<open>q \<noteq> []\<close> arg_cong[OF \<open>drop 64 p @ q = fr_payload f\<close>, of length] by (cases q) auto
  ultimately show ?thesis using decode_header[OF assms(1), of "frame_checksum f" "drop 64 p"] by simp
qed (simp add: decode_frame_def frame_header_bytes_def)

lemma decode_complete_iff:
  "decode_frame buffer l = DR_complete f n \<longleftrightarrow>
     fr_version f = protocol_version \<and> frame_fits l f \<and> n = length (frame_bytes f) \<and>
     (\<exists>rest. buffer = frame_bytes f @ rest)"
proof
  assume complete: "decode_frame buffer l = DR_complete f n"
  then have "64 \<le> length buffer"
    by (auto simp: decode_frame_def frame_header_bytes_def split: if_splits)
  then obtain m v s t fl len c e b q r k z rest
    where buffer: "buffer = raw_header m v s t fl len c e b q r k z @ rest" by (rule raw_header_split)
  from complete obtain type where fixed: "m = frame_magic" "v = protocol_version" "s = 64"
      "r = 0" "z = 0" "t = message_type_code type" "unat len + 64 \<le> unat (max_frame_bytes l)"
      "unat len \<le> length rest"
      "crc32c (raw_header m v s t fl len c e b q r 0 z @ take (unat len) rest) = k" "n = 64 + unat len"
      "f = \<lparr>fr_version = v, fr_type = type, fr_flags = fl, fr_correlation = c, fr_epoch = e,
         fr_worker_boot = b, fr_sequence = q, fr_payload = take (unat len) rest\<rparr>"
    unfolding buffer decode_raw
    by (auto simp: parse_message_type_Some_iff split: if_splits option.splits)
  have "size32 (take (unat len) rest) = len" using fixed(8) by simp
  with fixed have "raw_header m v s t fl len c e b q r k z = frame_header (frame_checksum f) f"
    by (simp add: frame_header_def frame_checksum_def)
  moreover have "rest = fr_payload f @ drop (unat len) rest" using fixed by simp
  ultimately have "buffer = frame_bytes f @ drop (unat len) rest"
    by (simp add: buffer frame_bytes_def)
  with fixed show "fr_version f = protocol_version \<and> frame_fits l f \<and> n = length (frame_bytes f) \<and>
      (\<exists>rest. buffer = frame_bytes f @ rest)"
    by (auto simp: frame_fits_def)
qed (auto simp: decode_frame_bytes)

section \<open>Damaged frames\<close>

lemma payload_damage:
  assumes "frame_fits l f" and "fr_payload f = a @ w @ b" and "length w' = length w" and "length w \<le> 4"
    and "w' \<noteq> w"
  shows "decode_frame (frame_header (frame_checksum f) f @ a @ w' @ b @ rest) l = DR_failed E_checksum_mismatch"
proof -
  have "crc32c ((frame_header 0 f @ a) @ w @ b) \<noteq> crc32c ((frame_header 0 f @ a) @ w' @ b)"
    unfolding crc32c_def using crc32c_burst assms(3-5) by metis
  moreover have "take (length (fr_payload f)) (a @ w' @ b @ rest) = a @ w' @ b"
    using assms(2,3) by simp
  ultimately show ?thesis
    using assms(1-3) by (simp add: decode_header frame_checksum_def)
qed

text \<open>The four identities of the header: correlation, epoch, worker boot and sequence.\<close>

definition frame_identities :: "Frame \<Rightarrow> bytes" where
  "frame_identities f = store_u64 (fr_correlation f) @ store_u64 (fr_epoch f) @
     store_u64 (fr_worker_boot f) @ store_u64 (fr_sequence f)"

definition frame_fixed :: "Frame \<Rightarrow> bytes" where
  "frame_fixed f = store_u32 frame_magic @ store_u16 protocol_version @ store_u16 64 @
     store_u16 (message_type_code (fr_type f)) @ store_u16 (fr_flags f) @ store_u32 (size32 (fr_payload f))"

lemma length_frame_parts [simp]: "length (frame_identities f) = 32" "length (frame_fixed f) = 16"
  by (simp_all add: frame_identities_def frame_fixed_def)

lemma frame_header_parts:
  "frame_header k f = frame_fixed f @ frame_identities f @ store_u32 0 @ store_u32 k @ store_u64 0"
  by (simp add: frame_header_def raw_header_def frame_fixed_def frame_identities_def)

lemma identities_onto:
  assumes "length ids = 32"
  obtains c e b q where "frame_identities (f\<lparr>fr_correlation := c, fr_epoch := e, fr_worker_boot := b,
      fr_sequence := q\<rparr>) = ids"
proof (rule that)
  have "take 8 (drop 16 ids) @ drop 24 ids = drop 16 ids" "take 8 (drop 8 ids) @ drop 16 ids = drop 8 ids"
    using append_take_drop_id[of 8 "drop 16 ids"] append_take_drop_id[of 8 "drop 8 ids"] by simp_all
  then have "take 8 ids @ take 8 (drop 8 ids) @ take 8 (drop 16 ids) @ drop 24 ids = ids" by simp
  then show "frame_identities (f\<lparr>fr_correlation := load_u64 (take 8 ids),
      fr_epoch := load_u64 (take 8 (drop 8 ids)), fr_worker_boot := load_u64 (take 8 (drop 16 ids)),
      fr_sequence := load_u64 (drop 24 ids)\<rparr>) = ids"
    using assms by (simp add: frame_identities_def store_load)
qed

lemma identity_damage:
  assumes "frame_fits l f" and "frame_identities f = a @ w @ b" and "length w' = length w"
    and "length w \<le> 4" and "w' \<noteq> w"
  shows "decode_frame (frame_fixed f @ (a @ w' @ b) @ store_u32 0 @ store_u32 (frame_checksum f) @
      store_u64 0 @ fr_payload f @ rest) l = DR_failed E_checksum_mismatch"
proof -
  have "length (a @ w' @ b) = 32" using arg_cong[OF assms(2), of length] assms(3) by simp
  then obtain c e bo q where ids: "frame_identities (f\<lparr>fr_correlation := c, fr_epoch := e,
      fr_worker_boot := bo, fr_sequence := q\<rparr>) = a @ w' @ b" by (rule identities_onto)
  define g where "g = f\<lparr>fr_correlation := c, fr_epoch := e, fr_worker_boot := bo, fr_sequence := q\<rparr>"
  have g: "frame_fits l g" "fr_payload g = fr_payload f" "frame_fixed g = frame_fixed f"
    using assms(1) by (simp_all add: g_def frame_fits_def frame_fixed_def)
  have "crc32c (frame_fixed f @ a @ w @ b @ store_u32 0 @ store_u32 0 @ store_u64 0 @ fr_payload f) \<noteq>
      crc32c (frame_fixed f @ a @ w' @ b @ store_u32 0 @ store_u32 0 @ store_u64 0 @ fr_payload f)"
    unfolding crc32c_def using crc32c_burst[of 0 "frame_fixed f @ a" w] assms(3-5) by (metis append_assoc)
  then have "crc32c (frame_header 0 g @ fr_payload f) \<noteq> frame_checksum f"
    using assms(2) ids by (simp add: frame_checksum_def frame_header_parts g(3) flip: g_def)
  then have "decode_frame (frame_header (frame_checksum f) g @ fr_payload f @ rest) l = DR_failed E_checksum_mismatch"
    using decode_header[OF g(1)] g(2) by simp
  then show ?thesis using ids by (simp add: frame_header_parts g(3) flip: g_def)
qed

end
