(* ===== verification/Messages.thy ===== *)
theory Messages
  imports Frames Field_Codecs
begin

text \<open>
  The payloads of the wire messages (\<^verbatim>\<open>include/ensemble_fabric/protocol.hpp\<close>, the second part
  of \<^verbatim>\<open>src/protocol.cpp\<close>). For each message: its record, the fields its \<^verbatim>\<open>encode\<close> writes, its
  decoder with every bound and range check, the bounds a decoded message keeps, and the
  interpretation of \<open>wire_codec\<close> that proves the two sides inverse. The identity checks that
  a receiver applies with \<^verbatim>\<open>validate\<close> follow.
\<close>

section \<open>Authority identities\<close>

definition put_participant_authority :: "ParticipantAuthority \<Rightarrow> Field list" where
  "put_participant_authority a =
     [F_u64 (pa_ensemble a), F_u64 (pa_ensemble_generation a), F_u64 (pa_participant a),
      F_u64 (pa_participant_generation a), F_u64 (pa_worker a), F_u64 (pa_worker_boot a),
      F_u64 (pa_coordinator_epoch a)]"

definition get_participant_authority :: "ParticipantAuthority decoding" where
  "get_participant_authority =
     dbind get_u64 (\<lambda>ensemble. dbind get_u64 (\<lambda>ensemble_generation. dbind get_u64 (\<lambda>participant.
     dbind get_u64 (\<lambda>participant_generation. dbind get_u64 (\<lambda>worker. dbind get_u64 (\<lambda>boot.
     dbind get_u64 (\<lambda>epoch.
     dreturn \<lparr>pa_ensemble = ensemble, pa_ensemble_generation = ensemble_generation,
       pa_participant = participant, pa_participant_generation = participant_generation,
       pa_worker = worker, pa_worker_boot = boot, pa_coordinator_epoch = epoch\<rparr>)))))))"

interpretation participant_authority_codec:
  wire_codec put_participant_authority get_participant_authority "\<lambda>_. True"
  by (rule wire_codecI, force simp: get_participant_authority_def put_participant_authority_def codec_binds, case_tac x)
    (simp add: get_participant_authority_def put_participant_authority_def codec_reads)

declare participant_authority_codec.bind_Ok_iff [codec_binds] participant_authority_codec.bind_read [simplified, codec_reads]

definition put_candidate_authority :: "CandidateAuthority \<Rightarrow> Field list" where
  "put_candidate_authority a =
     put_participant_authority (ca_participant a) @
     [F_u64 (ca_execution a), F_u64 (ca_attempt_generation a), F_u64 (ca_candidate a),
      F_u64 (ca_candidate_generation a)]"

definition get_candidate_authority :: "CandidateAuthority decoding" where
  "get_candidate_authority =
     dbind get_participant_authority (\<lambda>participant. dbind get_u64 (\<lambda>execution.
     dbind get_u64 (\<lambda>attempt. dbind get_u64 (\<lambda>candidate. dbind get_u64 (\<lambda>generation.
     dreturn \<lparr>ca_participant = participant, ca_execution = execution, ca_attempt_generation = attempt,
       ca_candidate = candidate, ca_candidate_generation = generation\<rparr>)))))"

interpretation candidate_authority_codec:
  wire_codec put_candidate_authority get_candidate_authority "\<lambda>_. True"
  by (rule wire_codecI, force simp: get_candidate_authority_def put_candidate_authority_def codec_binds, case_tac x)
    (simp add: get_candidate_authority_def put_candidate_authority_def codec_reads)

declare candidate_authority_codec.bind_Ok_iff [codec_binds] candidate_authority_codec.bind_read [simplified, codec_reads]

definition put_evaluation_authority :: "EvaluationAuthority \<Rightarrow> Field list" where
  "put_evaluation_authority a =
     put_participant_authority (ea_evaluator a) @
     [F_u64 (ea_execution a), F_u64 (ea_attempt_generation a), F_u64 (ea_evaluation a),
      F_u64 (ea_evaluation_generation a), F_u64 (ea_candidate a), F_u64 (ea_candidate_generation a)]"

definition get_evaluation_authority :: "EvaluationAuthority decoding" where
  "get_evaluation_authority =
     dbind get_participant_authority (\<lambda>evaluator. dbind get_u64 (\<lambda>execution.
     dbind get_u64 (\<lambda>attempt. dbind get_u64 (\<lambda>evaluation. dbind get_u64 (\<lambda>generation.
     dbind get_u64 (\<lambda>candidate. dbind get_u64 (\<lambda>candidate_generation.
     dreturn \<lparr>ea_evaluator = evaluator, ea_execution = execution, ea_attempt_generation = attempt,
       ea_evaluation = evaluation, ea_evaluation_generation = generation, ea_candidate = candidate,
       ea_candidate_generation = candidate_generation\<rparr>)))))))"

interpretation evaluation_authority_codec:
  wire_codec put_evaluation_authority get_evaluation_authority "\<lambda>_. True"
  by (rule wire_codecI, force simp: get_evaluation_authority_def put_evaluation_authority_def codec_binds, case_tac x)
    (simp add: get_evaluation_authority_def put_evaluation_authority_def codec_reads)

declare evaluation_authority_codec.bind_Ok_iff [codec_binds] evaluation_authority_codec.bind_read [simplified, codec_reads]

section \<open>Registration\<close>

record RegisterParticipantMessage =
  rpm_registration :: ParticipantRegistration

definition encode_register_participant :: "RegisterParticipantMessage \<Rightarrow> Field list" where
  "encode_register_participant m = (let r = rpm_registration m in
     [F_u64 (rg_ensemble r), F_u64 (rg_ensemble_generation r), F_u64 (rg_participant r),
      F_u64 (rg_worker r), F_u64 (rg_worker_boot r), F_u64 (rg_coordinator_epoch r),
      F_u32 (rg_claimed_roles r)] @
     put_compatibility_profile (rg_profile r))"

definition decode_register_participant :: "RegisterParticipantMessage decoding" where
  "decode_register_participant =
     dbind get_u64 (\<lambda>ensemble. dbind get_u64 (\<lambda>generation. dbind get_u64 (\<lambda>participant.
     dbind get_u64 (\<lambda>worker. dbind get_u64 (\<lambda>boot. dbind get_u64 (\<lambda>epoch. dbind get_roles (\<lambda>roles.
     dbind get_compatibility_profile (\<lambda>profile.
     dreturn \<lparr>rpm_registration = \<lparr>rg_ensemble = ensemble, rg_ensemble_generation = generation,
       rg_participant = participant, rg_worker = worker, rg_worker_boot = boot,
       rg_coordinator_epoch = epoch, rg_profile = profile, rg_claimed_roles = roles\<rparr>\<rparr>))))))))"

definition register_participant_within :: "RegisterParticipantMessage \<Rightarrow> bool" where
  "register_participant_within m \<longleftrightarrow> known_roles (rg_claimed_roles (rpm_registration m))"

interpretation register_participant_codec:
  wire_codec encode_register_participant decode_register_participant register_participant_within
proof (rule wire_codecI)
  fix pre rest x
  assume "register_participant_within x"
  moreover obtain r where "x = \<lparr>rpm_registration = r\<rparr>" by (cases x)
  ultimately show "decode_register_participant (dec_at pre (wire (encode_register_participant x) @ rest)) =
      Ok (x, dec_at (pre @ wire (encode_register_participant x)) rest)"
    by (cases r) (simp add: decode_register_participant_def encode_register_participant_def
        register_participant_within_def codec_reads)
qed (force simp: decode_register_participant_def encode_register_participant_def
    register_participant_within_def codec_binds)

section \<open>The other messages\<close>

record HelloMessage =
  hm_worker :: WorkerId
  hm_worker_boot :: WorkerBootId
  hm_coordinator_epoch :: CoordinatorEpoch
  hm_profile :: CompatibilityProfile
  hm_label :: string

definition encode_hello :: "HelloMessage \<Rightarrow> Field list" where
  "encode_hello m =
     [F_u64 (hm_worker m), F_u64 (hm_worker_boot m), F_u64 (hm_coordinator_epoch m)] @
     put_compatibility_profile (hm_profile m) @
     [F_string (hm_label m)]"

definition decode_hello :: "HelloMessage decoding" where
  "decode_hello =
     dbind get_u64 (\<lambda>worker. dbind get_u64 (\<lambda>worker_boot.
     dbind get_u64 (\<lambda>coordinator_epoch. dbind get_compatibility_profile (\<lambda>profile.
     dbind (get_string 4096) (\<lambda>label.
     dreturn \<lparr>hm_worker = worker, hm_worker_boot = worker_boot,
       hm_coordinator_epoch = coordinator_epoch, hm_profile = profile, hm_label = label\<rparr>)))))"

definition hello_within :: "HelloMessage \<Rightarrow> bool" where
  "hello_within m \<longleftrightarrow>
     within 4096 (hm_label m)"

interpretation hello_codec: wire_codec encode_hello decode_hello hello_within
  by (rule wire_codecI, force simp: decode_hello_def encode_hello_def hello_within_def codec_binds, case_tac x)
    (simp add: decode_hello_def encode_hello_def hello_within_def codec_reads)

record WorkerReadyMessage =
  wr_worker :: WorkerId
  wr_worker_boot :: WorkerBootId
  wr_coordinator_epoch :: CoordinatorEpoch
  wr_participant :: ParticipantId
  wr_roles :: RoleSet
  wr_profile :: CompatibilityProfile
  wr_label :: string

definition encode_worker_ready :: "WorkerReadyMessage \<Rightarrow> Field list" where
  "encode_worker_ready m =
     [F_u64 (wr_worker m), F_u64 (wr_worker_boot m), F_u64 (wr_coordinator_epoch m),
      F_u64 (wr_participant m), F_u32 (wr_roles m)] @
     put_compatibility_profile (wr_profile m) @
     [F_string (wr_label m)]"

definition decode_worker_ready :: "WorkerReadyMessage decoding" where
  "decode_worker_ready =
     dbind get_u64 (\<lambda>worker. dbind get_u64 (\<lambda>worker_boot.
     dbind get_u64 (\<lambda>coordinator_epoch. dbind get_u64 (\<lambda>participant.
     dbind get_roles (\<lambda>roles. dbind get_compatibility_profile (\<lambda>profile.
     dbind (get_string 4096) (\<lambda>label.
     dreturn \<lparr>wr_worker = worker, wr_worker_boot = worker_boot,
       wr_coordinator_epoch = coordinator_epoch, wr_participant = participant,
       wr_roles = roles, wr_profile = profile, wr_label = label\<rparr>)))))))"

definition worker_ready_within :: "WorkerReadyMessage \<Rightarrow> bool" where
  "worker_ready_within m \<longleftrightarrow>
     known_roles (wr_roles m) \<and> within 4096 (wr_label m)"

interpretation worker_ready_codec: wire_codec encode_worker_ready decode_worker_ready worker_ready_within
  by (rule wire_codecI, force simp: decode_worker_ready_def encode_worker_ready_def worker_ready_within_def codec_binds, case_tac x)
    (simp add: decode_worker_ready_def encode_worker_ready_def worker_ready_within_def codec_reads)

record CoordinatorAck =
  ck_coordinator_epoch :: CoordinatorEpoch
  ck_coordinator_boot :: WorkerBootId
  ck_status_code :: u32
  ck_accepted :: bool
  ck_detail :: string

definition encode_coordinator_ack :: "CoordinatorAck \<Rightarrow> Field list" where
  "encode_coordinator_ack m =
     [F_u64 (ck_coordinator_epoch m), F_u64 (ck_coordinator_boot m), F_u32 (ck_status_code m),
      F_boolean (ck_accepted m), F_string (ck_detail m)]"

definition decode_coordinator_ack :: "CoordinatorAck decoding" where
  "decode_coordinator_ack =
     dbind get_u64 (\<lambda>coordinator_epoch. dbind get_u64 (\<lambda>coordinator_boot.
     dbind get_u32 (\<lambda>status_code. dbind get_boolean (\<lambda>accepted.
     dbind (get_string 4096) (\<lambda>detail.
     dreturn \<lparr>ck_coordinator_epoch = coordinator_epoch,
       ck_coordinator_boot = coordinator_boot, ck_status_code = status_code,
       ck_accepted = accepted, ck_detail = detail\<rparr>)))))"

definition coordinator_ack_within :: "CoordinatorAck \<Rightarrow> bool" where
  "coordinator_ack_within m \<longleftrightarrow>
     within 4096 (ck_detail m)"

interpretation coordinator_ack_codec: wire_codec encode_coordinator_ack decode_coordinator_ack coordinator_ack_within
  by (rule wire_codecI, force simp: decode_coordinator_ack_def encode_coordinator_ack_def coordinator_ack_within_def codec_binds, case_tac x)
    (simp add: decode_coordinator_ack_def encode_coordinator_ack_def coordinator_ack_within_def codec_reads)

record RegistrationAck =
  rk_coordinator_epoch :: CoordinatorEpoch
  rk_participant :: ParticipantId
  rk_participant_generation :: ParticipantGeneration
  rk_accepted :: bool
  rk_code :: error_value
  rk_detail :: string

definition encode_registration_ack :: "RegistrationAck \<Rightarrow> Field list" where
  "encode_registration_ack m =
     [F_u64 (rk_coordinator_epoch m), F_u64 (rk_participant m),
      F_u64 (rk_participant_generation m), F_boolean (rk_accepted m), F_u16 (rk_code m),
      F_string (rk_detail m)]"

definition decode_registration_ack :: "RegistrationAck decoding" where
  "decode_registration_ack =
     dbind get_u64 (\<lambda>coordinator_epoch. dbind get_u64 (\<lambda>participant.
     dbind get_u64 (\<lambda>participant_generation. dbind get_boolean (\<lambda>accepted.
     dbind get_error_value (\<lambda>code. dbind (get_string 4096) (\<lambda>detail.
     dreturn \<lparr>rk_coordinator_epoch = coordinator_epoch, rk_participant = participant,
       rk_participant_generation = participant_generation, rk_accepted = accepted,
       rk_code = code, rk_detail = detail\<rparr>))))))"

definition registration_ack_within :: "RegistrationAck \<Rightarrow> bool" where
  "registration_ack_within m \<longleftrightarrow>
     known_code (rk_code m) \<and> within 4096 (rk_detail m)"

interpretation registration_ack_codec: wire_codec encode_registration_ack decode_registration_ack registration_ack_within
  by (rule wire_codecI, force simp: decode_registration_ack_def encode_registration_ack_def registration_ack_within_def codec_binds, case_tac x)
    (simp add: decode_registration_ack_def encode_registration_ack_def registration_ack_within_def codec_reads)

record DispatchCandidateMessage =
  dm_ensemble :: EnsembleId
  dm_ensemble_generation :: EnsembleGeneration
  dm_execution :: EnsembleExecutionId
  dm_attempt_generation :: EnsembleAttemptGeneration
  dm_participant :: ParticipantId
  dm_participant_generation :: ParticipantGeneration
  dm_coordinator_epoch :: CoordinatorEpoch
  dm_candidate :: CandidateId
  dm_candidate_generation :: CandidateGeneration
  dm_role :: ParticipantRole
  dm_stage :: StageId
  dm_attempt :: u32
  dm_budget_units :: u32
  dm_deterministic_seed :: u64
  dm_domain :: string
  dm_request :: bytes

definition encode_dispatch_candidate :: "DispatchCandidateMessage \<Rightarrow> Field list" where
  "encode_dispatch_candidate m =
     [F_u64 (dm_ensemble m), F_u64 (dm_ensemble_generation m), F_u64 (dm_execution m),
      F_u64 (dm_attempt_generation m), F_u64 (dm_participant m),
      F_u64 (dm_participant_generation m), F_u64 (dm_coordinator_epoch m),
      F_u64 (dm_candidate m), F_u64 (dm_candidate_generation m), F_u8 (role_code (dm_role m)),
      F_u64 (dm_stage m), F_u32 (dm_attempt m), F_u32 (dm_budget_units m),
      F_u64 (dm_deterministic_seed m), F_string (dm_domain m), F_bytes (dm_request m)]"

definition decode_dispatch_candidate :: "DispatchCandidateMessage decoding" where
  "decode_dispatch_candidate =
     dbind get_u64 (\<lambda>ensemble. dbind get_u64 (\<lambda>ensemble_generation.
     dbind get_u64 (\<lambda>execution. dbind get_u64 (\<lambda>attempt_generation.
     dbind get_u64 (\<lambda>participant. dbind get_u64 (\<lambda>participant_generation.
     dbind get_u64 (\<lambda>coordinator_epoch. dbind get_u64 (\<lambda>candidate.
     dbind get_u64 (\<lambda>candidate_generation. dbind get_role (\<lambda>role.
     dbind get_u64 (\<lambda>stage. dbind get_u32 (\<lambda>attempt. dbind get_u32 (\<lambda>budget_units.
     dbind get_u64 (\<lambda>deterministic_seed. dbind (get_string 4096) (\<lambda>domain.
     dbind (get_bytes 1048576) (\<lambda>request.
     dreturn \<lparr>dm_ensemble = ensemble, dm_ensemble_generation = ensemble_generation,
       dm_execution = execution, dm_attempt_generation = attempt_generation,
       dm_participant = participant, dm_participant_generation = participant_generation,
       dm_coordinator_epoch = coordinator_epoch, dm_candidate = candidate,
       dm_candidate_generation = candidate_generation, dm_role = role, dm_stage = stage,
       dm_attempt = attempt, dm_budget_units = budget_units,
       dm_deterministic_seed = deterministic_seed, dm_domain = domain, dm_request = request\<rparr>))))))))))))))))"

definition dispatch_candidate_within :: "DispatchCandidateMessage \<Rightarrow> bool" where
  "dispatch_candidate_within m \<longleftrightarrow>
     within 4096 (dm_domain m) \<and> within 1048576 (dm_request m)"

interpretation dispatch_candidate_codec: wire_codec encode_dispatch_candidate decode_dispatch_candidate dispatch_candidate_within
  by (rule wire_codecI, force simp: decode_dispatch_candidate_def encode_dispatch_candidate_def dispatch_candidate_within_def codec_binds, case_tac x)
    (simp add: decode_dispatch_candidate_def encode_dispatch_candidate_def dispatch_candidate_within_def codec_reads)

record CandidateResultMessage =
  rm_authority :: CandidateAuthority
  rm_payload :: bytes
  rm_produced_units :: u32

definition encode_candidate_result :: "CandidateResultMessage \<Rightarrow> Field list" where
  "encode_candidate_result m =
     put_candidate_authority (rm_authority m) @
     [F_bytes (rm_payload m), F_u32 (rm_produced_units m)]"

definition decode_candidate_result :: "CandidateResultMessage decoding" where
  "decode_candidate_result =
     dbind get_candidate_authority (\<lambda>authority. dbind (get_bytes 67108864) (\<lambda>payload.
     dbind get_u32 (\<lambda>produced_units.
     dreturn \<lparr>rm_authority = authority, rm_payload = payload,
       rm_produced_units = produced_units\<rparr>)))"

definition candidate_result_within :: "CandidateResultMessage \<Rightarrow> bool" where
  "candidate_result_within m \<longleftrightarrow>
     within 67108864 (rm_payload m)"

interpretation candidate_result_codec: wire_codec encode_candidate_result decode_candidate_result candidate_result_within
  by (rule wire_codecI, force simp: decode_candidate_result_def encode_candidate_result_def candidate_result_within_def codec_binds, case_tac x)
    (simp add: decode_candidate_result_def encode_candidate_result_def candidate_result_within_def codec_reads)

record CandidateFailureMessage =
  fm_authority :: CandidateAuthority
  fm_kind :: ParticipantFailureKind
  fm_detail :: string

definition encode_candidate_failure :: "CandidateFailureMessage \<Rightarrow> Field list" where
  "encode_candidate_failure m =
     put_candidate_authority (fm_authority m) @
     [F_u8 (failure_kind_code (fm_kind m)), F_string (fm_detail m)]"

definition decode_candidate_failure :: "CandidateFailureMessage decoding" where
  "decode_candidate_failure =
     dbind get_candidate_authority (\<lambda>authority. dbind get_failure_kind (\<lambda>kind.
     dbind (get_string 4096) (\<lambda>detail.
     dreturn \<lparr>fm_authority = authority, fm_kind = kind, fm_detail = detail\<rparr>)))"

definition candidate_failure_within :: "CandidateFailureMessage \<Rightarrow> bool" where
  "candidate_failure_within m \<longleftrightarrow>
     within 4096 (fm_detail m)"

interpretation candidate_failure_codec: wire_codec encode_candidate_failure decode_candidate_failure candidate_failure_within
  by (rule wire_codecI, force simp: decode_candidate_failure_def encode_candidate_failure_def candidate_failure_within_def codec_binds, case_tac x)
    (simp add: decode_candidate_failure_def encode_candidate_failure_def candidate_failure_within_def codec_reads)

record CandidateAbstentionMessage =
  am_authority :: CandidateAuthority
  am_rationale :: string

definition encode_candidate_abstention :: "CandidateAbstentionMessage \<Rightarrow> Field list" where
  "encode_candidate_abstention m =
     put_candidate_authority (am_authority m) @
     [F_string (am_rationale m)]"

definition decode_candidate_abstention :: "CandidateAbstentionMessage decoding" where
  "decode_candidate_abstention =
     dbind get_candidate_authority (\<lambda>authority. dbind (get_string 4096) (\<lambda>rationale.
     dreturn \<lparr>am_authority = authority, am_rationale = rationale\<rparr>))"

definition candidate_abstention_within :: "CandidateAbstentionMessage \<Rightarrow> bool" where
  "candidate_abstention_within m \<longleftrightarrow>
     within 4096 (am_rationale m)"

interpretation candidate_abstention_codec: wire_codec encode_candidate_abstention decode_candidate_abstention candidate_abstention_within
  by (rule wire_codecI, force simp: decode_candidate_abstention_def encode_candidate_abstention_def candidate_abstention_within_def codec_binds, case_tac x)
    (simp add: decode_candidate_abstention_def encode_candidate_abstention_def candidate_abstention_within_def codec_reads)

record EvaluationRequestMessage =
  erq_ensemble :: EnsembleId
  erq_ensemble_generation :: EnsembleGeneration
  erq_execution :: EnsembleExecutionId
  erq_attempt_generation :: EnsembleAttemptGeneration
  erq_judge :: ParticipantId
  erq_judge_generation :: ParticipantGeneration
  erq_coordinator_epoch :: CoordinatorEpoch
  erq_evaluation :: EvaluationId
  erq_evaluation_generation :: EvaluationGeneration
  erq_role :: ParticipantRole
  erq_candidate :: CandidateId
  erq_candidate_generation :: CandidateGeneration
  erq_criterion :: CriterionRef
  erq_criterion_kind :: CriterionKind
  erq_candidate_payload :: bytes
  erq_domain :: string

definition encode_evaluation_request :: "EvaluationRequestMessage \<Rightarrow> Field list" where
  "encode_evaluation_request m =
     [F_u64 (erq_ensemble m), F_u64 (erq_ensemble_generation m), F_u64 (erq_execution m),
      F_u64 (erq_attempt_generation m), F_u64 (erq_judge m), F_u64 (erq_judge_generation m),
      F_u64 (erq_coordinator_epoch m), F_u64 (erq_evaluation m),
      F_u64 (erq_evaluation_generation m), F_u8 (role_code (erq_role m)), F_u64 (erq_candidate m),
      F_u64 (erq_candidate_generation m)] @
     put_criterion (erq_criterion m) @
     [F_u8 (criterion_kind_code (erq_criterion_kind m)), F_bytes (erq_candidate_payload m),
      F_string (erq_domain m)]"

definition decode_evaluation_request :: "EvaluationRequestMessage decoding" where
  "decode_evaluation_request =
     dbind get_u64 (\<lambda>ensemble. dbind get_u64 (\<lambda>ensemble_generation.
     dbind get_u64 (\<lambda>execution. dbind get_u64 (\<lambda>attempt_generation.
     dbind get_u64 (\<lambda>judge. dbind get_u64 (\<lambda>judge_generation.
     dbind get_u64 (\<lambda>coordinator_epoch. dbind get_u64 (\<lambda>evaluation.
     dbind get_u64 (\<lambda>evaluation_generation. dbind get_role (\<lambda>role.
     dbind get_u64 (\<lambda>candidate. dbind get_u64 (\<lambda>candidate_generation.
     dbind get_criterion (\<lambda>criterion. dbind get_criterion_kind (\<lambda>criterion_kind.
     dbind (get_bytes 67108864) (\<lambda>candidate_payload. dbind (get_string 4096) (\<lambda>domain.
     dreturn \<lparr>erq_ensemble = ensemble, erq_ensemble_generation = ensemble_generation,
       erq_execution = execution, erq_attempt_generation = attempt_generation, erq_judge = judge,
       erq_judge_generation = judge_generation, erq_coordinator_epoch = coordinator_epoch,
       erq_evaluation = evaluation, erq_evaluation_generation = evaluation_generation,
       erq_role = role, erq_candidate = candidate,
       erq_candidate_generation = candidate_generation, erq_criterion = criterion,
       erq_criterion_kind = criterion_kind, erq_candidate_payload = candidate_payload,
       erq_domain = domain\<rparr>))))))))))))))))"

definition evaluation_request_within :: "EvaluationRequestMessage \<Rightarrow> bool" where
  "evaluation_request_within m \<longleftrightarrow>
     within 67108864 (erq_candidate_payload m) \<and> within 4096 (erq_domain m)"

interpretation evaluation_request_codec: wire_codec encode_evaluation_request decode_evaluation_request evaluation_request_within
  by (rule wire_codecI, force simp: decode_evaluation_request_def encode_evaluation_request_def evaluation_request_within_def codec_binds, case_tac x)
    (simp add: decode_evaluation_request_def encode_evaluation_request_def evaluation_request_within_def codec_reads)

record EvaluationResultMessage =
  em_authority :: EvaluationAuthority
  em_criterion :: CriterionRef
  em_criterion_kind :: CriterionKind
  em_verification :: VerificationState
  em_judgment :: CategoricalJudgment
  em_score_defined :: bool
  em_score :: double
  em_weight :: double
  em_evidence :: bytes
  em_rationale :: string

definition encode_evaluation_result :: "EvaluationResultMessage \<Rightarrow> Field list" where
  "encode_evaluation_result m =
     put_evaluation_authority (em_authority m) @
     put_criterion (em_criterion m) @
     [F_u8 (criterion_kind_code (em_criterion_kind m)),
      F_u8 (verification_code (em_verification m)), F_u8 (judgment_code (em_judgment m)),
      F_boolean (em_score_defined m), F_f64 (em_score m), F_f64 (em_weight m),
      F_bytes (em_evidence m), F_string (em_rationale m)]"

definition decode_evaluation_result :: "EvaluationResultMessage decoding" where
  "decode_evaluation_result =
     dbind get_evaluation_authority (\<lambda>authority. dbind get_criterion (\<lambda>criterion.
     dbind get_criterion_kind (\<lambda>criterion_kind. dbind get_verification (\<lambda>verification.
     dbind get_judgment (\<lambda>judgment. dbind get_boolean (\<lambda>score_defined.
     dbind get_f64 (\<lambda>score. dbind get_f64 (\<lambda>weight.
     dbind (get_bytes 1048576) (\<lambda>evidence. dbind (get_string 4096) (\<lambda>rationale.
     dreturn \<lparr>em_authority = authority, em_criterion = criterion,
       em_criterion_kind = criterion_kind, em_verification = verification,
       em_judgment = judgment, em_score_defined = score_defined, em_score = score,
       em_weight = weight, em_evidence = evidence, em_rationale = rationale\<rparr>))))))))))"

definition evaluation_result_within :: "EvaluationResultMessage \<Rightarrow> bool" where
  "evaluation_result_within m \<longleftrightarrow>
     within 1048576 (em_evidence m) \<and> within 4096 (em_rationale m)"

interpretation evaluation_result_codec: wire_codec encode_evaluation_result decode_evaluation_result evaluation_result_within
  by (rule wire_codecI, force simp: decode_evaluation_result_def encode_evaluation_result_def evaluation_result_within_def codec_binds, case_tac x)
    (simp add: decode_evaluation_result_def encode_evaluation_result_def evaluation_result_within_def codec_reads)

record CancelMessage =
  xm_ensemble :: EnsembleId
  xm_ensemble_generation :: EnsembleGeneration
  xm_execution :: EnsembleExecutionId
  xm_attempt_generation :: EnsembleAttemptGeneration
  xm_coordinator_epoch :: CoordinatorEpoch
  xm_candidate :: CandidateId
  xm_candidate_generation :: CandidateGeneration
  xm_participant :: ParticipantId
  xm_participant_generation :: ParticipantGeneration
  xm_reason :: string

definition encode_cancel :: "CancelMessage \<Rightarrow> Field list" where
  "encode_cancel m =
     [F_u64 (xm_ensemble m), F_u64 (xm_ensemble_generation m), F_u64 (xm_execution m),
      F_u64 (xm_attempt_generation m), F_u64 (xm_coordinator_epoch m), F_u64 (xm_candidate m),
      F_u64 (xm_candidate_generation m), F_u64 (xm_participant m),
      F_u64 (xm_participant_generation m), F_string (xm_reason m)]"

definition decode_cancel :: "CancelMessage decoding" where
  "decode_cancel =
     dbind get_u64 (\<lambda>ensemble. dbind get_u64 (\<lambda>ensemble_generation.
     dbind get_u64 (\<lambda>execution. dbind get_u64 (\<lambda>attempt_generation.
     dbind get_u64 (\<lambda>coordinator_epoch. dbind get_u64 (\<lambda>candidate.
     dbind get_u64 (\<lambda>candidate_generation. dbind get_u64 (\<lambda>participant.
     dbind get_u64 (\<lambda>participant_generation. dbind (get_string 4096) (\<lambda>reason.
     dreturn \<lparr>xm_ensemble = ensemble, xm_ensemble_generation = ensemble_generation,
       xm_execution = execution, xm_attempt_generation = attempt_generation,
       xm_coordinator_epoch = coordinator_epoch, xm_candidate = candidate,
       xm_candidate_generation = candidate_generation, xm_participant = participant,
       xm_participant_generation = participant_generation, xm_reason = reason\<rparr>))))))))))"

definition cancel_within :: "CancelMessage \<Rightarrow> bool" where
  "cancel_within m \<longleftrightarrow>
     within 4096 (xm_reason m)"

interpretation cancel_codec: wire_codec encode_cancel decode_cancel cancel_within
  by (rule wire_codecI, force simp: decode_cancel_def encode_cancel_def cancel_within_def codec_binds, case_tac x)
    (simp add: decode_cancel_def encode_cancel_def cancel_within_def codec_reads)

record DefineEnsembleMessage =
  dem_encoded_spec :: bytes

definition encode_define_ensemble :: "DefineEnsembleMessage \<Rightarrow> Field list" where
  "encode_define_ensemble m =
     [F_bytes (dem_encoded_spec m)]"

definition decode_define_ensemble :: "DefineEnsembleMessage decoding" where
  "decode_define_ensemble =
     dbind (get_bytes 4194304) (\<lambda>encoded_spec.
     dreturn \<lparr>dem_encoded_spec = encoded_spec\<rparr>)"

definition define_ensemble_within :: "DefineEnsembleMessage \<Rightarrow> bool" where
  "define_ensemble_within m \<longleftrightarrow>
     within 4194304 (dem_encoded_spec m)"

interpretation define_ensemble_codec: wire_codec encode_define_ensemble decode_define_ensemble define_ensemble_within
  by (rule wire_codecI, force simp: decode_define_ensemble_def encode_define_ensemble_def define_ensemble_within_def codec_binds, case_tac x)
    (simp add: decode_define_ensemble_def encode_define_ensemble_def define_ensemble_within_def codec_reads)

record DefineEnsembleAck =
  dk_ensemble :: EnsembleId
  dk_generation :: EnsembleGeneration
  dk_accepted :: bool
  dk_code :: error_value
  dk_detail :: string

definition encode_define_ensemble_ack :: "DefineEnsembleAck \<Rightarrow> Field list" where
  "encode_define_ensemble_ack m =
     [F_u64 (dk_ensemble m), F_u64 (dk_generation m), F_boolean (dk_accepted m),
      F_u16 (dk_code m), F_string (dk_detail m)]"

definition decode_define_ensemble_ack :: "DefineEnsembleAck decoding" where
  "decode_define_ensemble_ack =
     dbind get_u64 (\<lambda>ensemble. dbind get_u64 (\<lambda>generation.
     dbind get_boolean (\<lambda>accepted. dbind get_error_value (\<lambda>code.
     dbind (get_string 4096) (\<lambda>detail.
     dreturn \<lparr>dk_ensemble = ensemble, dk_generation = generation,
       dk_accepted = accepted, dk_code = code, dk_detail = detail\<rparr>)))))"

definition define_ensemble_ack_within :: "DefineEnsembleAck \<Rightarrow> bool" where
  "define_ensemble_ack_within m \<longleftrightarrow>
     known_code (dk_code m) \<and> within 4096 (dk_detail m)"

interpretation define_ensemble_ack_codec: wire_codec encode_define_ensemble_ack decode_define_ensemble_ack define_ensemble_ack_within
  by (rule wire_codecI, force simp: decode_define_ensemble_ack_def encode_define_ensemble_ack_def define_ensemble_ack_within_def codec_binds, case_tac x)
    (simp add: decode_define_ensemble_ack_def encode_define_ensemble_ack_def define_ensemble_ack_within_def codec_reads)

record OpenExecutionMessage =
  om_ensemble :: EnsembleId
  om_ensemble_generation :: EnsembleGeneration

definition encode_open_execution :: "OpenExecutionMessage \<Rightarrow> Field list" where
  "encode_open_execution m =
     [F_u64 (om_ensemble m), F_u64 (om_ensemble_generation m)]"

definition decode_open_execution :: "OpenExecutionMessage decoding" where
  "decode_open_execution =
     dbind get_u64 (\<lambda>ensemble. dbind get_u64 (\<lambda>ensemble_generation.
     dreturn \<lparr>om_ensemble = ensemble, om_ensemble_generation = ensemble_generation\<rparr>))"

interpretation open_execution_codec: wire_codec encode_open_execution decode_open_execution "\<lambda>_. True"
  by (rule wire_codecI, force simp: decode_open_execution_def encode_open_execution_def codec_binds, case_tac x)
    (simp add: decode_open_execution_def encode_open_execution_def codec_reads)

record OpenExecutionAck =
  ocm_ensemble :: EnsembleId
  ocm_ensemble_generation :: EnsembleGeneration
  ocm_execution :: EnsembleExecutionId
  ocm_accepted :: bool
  ocm_code :: error_value
  ocm_detail :: string

definition encode_open_execution_ack :: "OpenExecutionAck \<Rightarrow> Field list" where
  "encode_open_execution_ack m =
     [F_u64 (ocm_ensemble m), F_u64 (ocm_ensemble_generation m), F_u64 (ocm_execution m),
      F_boolean (ocm_accepted m), F_u16 (ocm_code m), F_string (ocm_detail m)]"

definition decode_open_execution_ack :: "OpenExecutionAck decoding" where
  "decode_open_execution_ack =
     dbind get_u64 (\<lambda>ensemble. dbind get_u64 (\<lambda>ensemble_generation.
     dbind get_u64 (\<lambda>execution. dbind get_boolean (\<lambda>accepted.
     dbind get_error_value (\<lambda>code. dbind (get_string 4096) (\<lambda>detail.
     dreturn \<lparr>ocm_ensemble = ensemble, ocm_ensemble_generation = ensemble_generation,
       ocm_execution = execution, ocm_accepted = accepted, ocm_code = code, ocm_detail = detail\<rparr>))))))"

definition open_execution_ack_within :: "OpenExecutionAck \<Rightarrow> bool" where
  "open_execution_ack_within m \<longleftrightarrow>
     known_code (ocm_code m) \<and> within 4096 (ocm_detail m)"

interpretation open_execution_ack_codec: wire_codec encode_open_execution_ack decode_open_execution_ack open_execution_ack_within
  by (rule wire_codecI, force simp: decode_open_execution_ack_def encode_open_execution_ack_def open_execution_ack_within_def codec_binds, case_tac x)
    (simp add: decode_open_execution_ack_def encode_open_execution_ack_def open_execution_ack_within_def codec_reads)

record FinalizeRequestMessage =
  frq_ensemble :: EnsembleId
  frq_ensemble_generation :: EnsembleGeneration

definition encode_finalize_request :: "FinalizeRequestMessage \<Rightarrow> Field list" where
  "encode_finalize_request m =
     [F_u64 (frq_ensemble m), F_u64 (frq_ensemble_generation m)]"

definition decode_finalize_request :: "FinalizeRequestMessage decoding" where
  "decode_finalize_request =
     dbind get_u64 (\<lambda>ensemble. dbind get_u64 (\<lambda>ensemble_generation.
     dreturn \<lparr>frq_ensemble = ensemble, frq_ensemble_generation = ensemble_generation\<rparr>))"

interpretation finalize_request_codec: wire_codec encode_finalize_request decode_finalize_request "\<lambda>_. True"
  by (rule wire_codecI, force simp: decode_finalize_request_def encode_finalize_request_def codec_binds, case_tac x)
    (simp add: decode_finalize_request_def encode_finalize_request_def codec_reads)

record FinalizeResponseMessage =
  frs_ensemble :: EnsembleId
  frs_ensemble_generation :: EnsembleGeneration
  frs_decision :: EnsembleDecision
  frs_accepted :: bool
  frs_code :: error_value
  frs_encoded_result :: bytes
  frs_detail :: string

definition encode_finalize_response :: "FinalizeResponseMessage \<Rightarrow> Field list" where
  "encode_finalize_response m =
     [F_u64 (frs_ensemble m), F_u64 (frs_ensemble_generation m),
      F_u8 (decision_code (frs_decision m)), F_boolean (frs_accepted m), F_u16 (frs_code m),
      F_bytes (frs_encoded_result m), F_string (frs_detail m)]"

definition decode_finalize_response :: "FinalizeResponseMessage decoding" where
  "decode_finalize_response =
     dbind get_u64 (\<lambda>ensemble. dbind get_u64 (\<lambda>ensemble_generation.
     dbind get_decision (\<lambda>decision. dbind get_boolean (\<lambda>accepted.
     dbind get_error_value (\<lambda>code. dbind (get_bytes 33554432) (\<lambda>encoded_result.
     dbind (get_string 4096) (\<lambda>detail.
     dreturn \<lparr>frs_ensemble = ensemble, frs_ensemble_generation = ensemble_generation,
       frs_decision = decision, frs_accepted = accepted, frs_code = code,
       frs_encoded_result = encoded_result, frs_detail = detail\<rparr>)))))))"

definition finalize_response_within :: "FinalizeResponseMessage \<Rightarrow> bool" where
  "finalize_response_within m \<longleftrightarrow>
     known_code (frs_code m) \<and> within 33554432 (frs_encoded_result m) \<and>
     within 4096 (frs_detail m)"

interpretation finalize_response_codec: wire_codec encode_finalize_response decode_finalize_response finalize_response_within
  by (rule wire_codecI, force simp: decode_finalize_response_def encode_finalize_response_def finalize_response_within_def codec_binds, case_tac x)
    (simp add: decode_finalize_response_def encode_finalize_response_def finalize_response_within_def codec_reads)

record CancelEnsembleMessage =
  cem_ensemble :: EnsembleId
  cem_ensemble_generation :: EnsembleGeneration
  cem_reason :: string

definition encode_cancel_ensemble :: "CancelEnsembleMessage \<Rightarrow> Field list" where
  "encode_cancel_ensemble m =
     [F_u64 (cem_ensemble m), F_u64 (cem_ensemble_generation m), F_string (cem_reason m)]"

definition decode_cancel_ensemble :: "CancelEnsembleMessage decoding" where
  "decode_cancel_ensemble =
     dbind get_u64 (\<lambda>ensemble. dbind get_u64 (\<lambda>ensemble_generation.
     dbind (get_string 4096) (\<lambda>reason.
     dreturn \<lparr>cem_ensemble = ensemble, cem_ensemble_generation = ensemble_generation,
       cem_reason = reason\<rparr>)))"

definition cancel_ensemble_within :: "CancelEnsembleMessage \<Rightarrow> bool" where
  "cancel_ensemble_within m \<longleftrightarrow>
     within 4096 (cem_reason m)"

interpretation cancel_ensemble_codec: wire_codec encode_cancel_ensemble decode_cancel_ensemble cancel_ensemble_within
  by (rule wire_codecI, force simp: decode_cancel_ensemble_def encode_cancel_ensemble_def cancel_ensemble_within_def codec_binds, case_tac x)
    (simp add: decode_cancel_ensemble_def encode_cancel_ensemble_def cancel_ensemble_within_def codec_reads)

record QueryResultMessage =
  qrm_ensemble :: EnsembleId
  qrm_ensemble_generation :: EnsembleGeneration

definition encode_query_result :: "QueryResultMessage \<Rightarrow> Field list" where
  "encode_query_result m =
     [F_u64 (qrm_ensemble m), F_u64 (qrm_ensemble_generation m)]"

definition decode_query_result :: "QueryResultMessage decoding" where
  "decode_query_result =
     dbind get_u64 (\<lambda>ensemble. dbind get_u64 (\<lambda>ensemble_generation.
     dreturn \<lparr>qrm_ensemble = ensemble, qrm_ensemble_generation = ensemble_generation\<rparr>))"

interpretation query_result_codec: wire_codec encode_query_result decode_query_result "\<lambda>_. True"
  by (rule wire_codecI, force simp: decode_query_result_def encode_query_result_def codec_binds, case_tac x)
    (simp add: decode_query_result_def encode_query_result_def codec_reads)

record ResultResponseMessage =
  rrm_ensemble :: EnsembleId
  rrm_ensemble_generation :: EnsembleGeneration
  rrm_has_result :: bool
  rrm_decision :: EnsembleDecision
  rrm_encoded_result :: bytes
  rrm_code :: error_value

definition encode_result_response :: "ResultResponseMessage \<Rightarrow> Field list" where
  "encode_result_response m =
     [F_u64 (rrm_ensemble m), F_u64 (rrm_ensemble_generation m), F_boolean (rrm_has_result m),
      F_u8 (decision_code (rrm_decision m)), F_bytes (rrm_encoded_result m), F_u16 (rrm_code m)]"

definition decode_result_response :: "ResultResponseMessage decoding" where
  "decode_result_response =
     dbind get_u64 (\<lambda>ensemble. dbind get_u64 (\<lambda>ensemble_generation.
     dbind get_boolean (\<lambda>has_result. dbind get_decision (\<lambda>decision.
     dbind (get_bytes 33554432) (\<lambda>encoded_result. dbind get_error_value (\<lambda>code.
     dreturn \<lparr>rrm_ensemble = ensemble, rrm_ensemble_generation = ensemble_generation,
       rrm_has_result = has_result, rrm_decision = decision,
       rrm_encoded_result = encoded_result, rrm_code = code\<rparr>))))))"

definition result_response_within :: "ResultResponseMessage \<Rightarrow> bool" where
  "result_response_within m \<longleftrightarrow>
     within 33554432 (rrm_encoded_result m) \<and> known_code (rrm_code m)"

interpretation result_response_codec: wire_codec encode_result_response decode_result_response result_response_within
  by (rule wire_codecI, force simp: decode_result_response_def encode_result_response_def result_response_within_def codec_binds, case_tac x)
    (simp add: decode_result_response_def encode_result_response_def result_response_within_def codec_reads)

record InspectRequestMessage =
  irq_ensemble :: EnsembleId

definition encode_inspect_request :: "InspectRequestMessage \<Rightarrow> Field list" where
  "encode_inspect_request m =
     [F_u64 (irq_ensemble m)]"

definition decode_inspect_request :: "InspectRequestMessage decoding" where
  "decode_inspect_request =
     dbind get_u64 (\<lambda>ensemble.
     dreturn \<lparr>irq_ensemble = ensemble\<rparr>)"

interpretation inspect_request_codec: wire_codec encode_inspect_request decode_inspect_request "\<lambda>_. True"
  by (rule wire_codecI, force simp: decode_inspect_request_def encode_inspect_request_def codec_binds, case_tac x)
    (simp add: decode_inspect_request_def encode_inspect_request_def codec_reads)

record InspectResponseMessage =
  irs_ensemble :: EnsembleId
  irs_ensemble_generation :: EnsembleGeneration
  irs_encoded_report :: bytes
  irs_code :: error_value

definition encode_inspect_response :: "InspectResponseMessage \<Rightarrow> Field list" where
  "encode_inspect_response m =
     [F_u64 (irs_ensemble m), F_u64 (irs_ensemble_generation m),
      F_bytes (irs_encoded_report m), F_u16 (irs_code m)]"

definition decode_inspect_response :: "InspectResponseMessage decoding" where
  "decode_inspect_response =
     dbind get_u64 (\<lambda>ensemble. dbind get_u64 (\<lambda>ensemble_generation.
     dbind (get_bytes 8388608) (\<lambda>encoded_report. dbind get_error_value (\<lambda>code.
     dreturn \<lparr>irs_ensemble = ensemble, irs_ensemble_generation = ensemble_generation,
       irs_encoded_report = encoded_report, irs_code = code\<rparr>))))"

definition inspect_response_within :: "InspectResponseMessage \<Rightarrow> bool" where
  "inspect_response_within m \<longleftrightarrow>
     within 8388608 (irs_encoded_report m) \<and> known_code (irs_code m)"

interpretation inspect_response_codec: wire_codec encode_inspect_response decode_inspect_response inspect_response_within
  by (rule wire_codecI, force simp: decode_inspect_response_def encode_inspect_response_def inspect_response_within_def codec_binds, case_tac x)
    (simp add: decode_inspect_response_def encode_inspect_response_def inspect_response_within_def codec_reads)

record StatusResponseMessage =
  srm_code :: error_value
  srm_detail :: string

definition encode_status_response :: "StatusResponseMessage \<Rightarrow> Field list" where
  "encode_status_response m =
     [F_u16 (srm_code m), F_string (srm_detail m)]"

definition decode_status_response :: "StatusResponseMessage decoding" where
  "decode_status_response =
     dbind get_error_value (\<lambda>code. dbind (get_string 4096) (\<lambda>detail.
     dreturn \<lparr>srm_code = code, srm_detail = detail\<rparr>))"

definition status_response_within :: "StatusResponseMessage \<Rightarrow> bool" where
  "status_response_within m \<longleftrightarrow>
     known_code (srm_code m) \<and> within 4096 (srm_detail m)"

interpretation status_response_codec: wire_codec encode_status_response decode_status_response status_response_within
  by (rule wire_codecI, force simp: decode_status_response_def encode_status_response_def status_response_within_def codec_binds, case_tac x)
    (simp add: decode_status_response_def encode_status_response_def status_response_within_def codec_reads)

record ErrorResponseMessage =
  erm_code :: error_value
  erm_correlation :: strong_id
  erm_detail :: string

definition encode_error_response :: "ErrorResponseMessage \<Rightarrow> Field list" where
  "encode_error_response m =
     [F_u16 (erm_code m), F_u64 (erm_correlation m), F_string (erm_detail m)]"

definition decode_error_response :: "ErrorResponseMessage decoding" where
  "decode_error_response =
     dbind get_error_value (\<lambda>code. dbind get_u64 (\<lambda>correlation.
     dbind (get_string 4096) (\<lambda>detail.
     dreturn \<lparr>erm_code = code, erm_correlation = correlation, erm_detail = detail\<rparr>)))"

definition error_response_within :: "ErrorResponseMessage \<Rightarrow> bool" where
  "error_response_within m \<longleftrightarrow>
     known_code (erm_code m) \<and> within 4096 (erm_detail m)"

interpretation error_response_codec: wire_codec encode_error_response decode_error_response error_response_within
  by (rule wire_codecI, force simp: decode_error_response_def encode_error_response_def error_response_within_def codec_binds, case_tac x)
    (simp add: decode_error_response_def encode_error_response_def error_response_within_def codec_reads)

record HeartbeatMessage =
  hb_worker :: WorkerId
  hb_worker_boot :: WorkerBootId
  hb_coordinator_epoch :: CoordinatorEpoch
  hb_sequence :: Sequence

definition encode_heartbeat :: "HeartbeatMessage \<Rightarrow> Field list" where
  "encode_heartbeat m =
     [F_u64 (hb_worker m), F_u64 (hb_worker_boot m), F_u64 (hb_coordinator_epoch m),
      F_u64 (hb_sequence m)]"

definition decode_heartbeat :: "HeartbeatMessage decoding" where
  "decode_heartbeat =
     dbind get_u64 (\<lambda>worker. dbind get_u64 (\<lambda>worker_boot.
     dbind get_u64 (\<lambda>coordinator_epoch. dbind get_u64 (\<lambda>sequence.
     dreturn \<lparr>hb_worker = worker, hb_worker_boot = worker_boot,
       hb_coordinator_epoch = coordinator_epoch, hb_sequence = sequence\<rparr>))))"

interpretation heartbeat_codec: wire_codec encode_heartbeat decode_heartbeat "\<lambda>_. True"
  by (rule wire_codecI, force simp: decode_heartbeat_def encode_heartbeat_def codec_binds, case_tac x)
    (simp add: decode_heartbeat_def encode_heartbeat_def codec_reads)

section \<open>Identity checks\<close>

definition validate_dispatch_candidate :: "DispatchCandidateMessage \<Rightarrow> status" where
  "validate_dispatch_candidate m =
     require (valid_id (dm_ensemble m) \<and> valid_id (dm_ensemble_generation m) \<and>
              valid_id (dm_execution m) \<and> valid_id (dm_attempt_generation m) \<and>
              valid_id (dm_participant m) \<and> valid_id (dm_participant_generation m) \<and>
              valid_id (dm_coordinator_epoch m) \<and> valid_id (dm_candidate m) \<and>
              valid_id (dm_candidate_generation m) \<and> valid_id (dm_stage m))
       E_invalid_identity_combination (
     require (role_produces_candidates (dm_role m)) E_participant_role_mismatch (
     require (dm_attempt m \<noteq> 0) E_invalid_argument
     ok_status))"

definition validate_candidate_result :: "CandidateResultMessage \<Rightarrow> status" where
  "validate_candidate_result m = validate_candidate_authority (rm_authority m)"

definition validate_candidate_failure :: "CandidateFailureMessage \<Rightarrow> status" where
  "validate_candidate_failure m = validate_candidate_authority (fm_authority m)"

definition validate_candidate_abstention :: "CandidateAbstentionMessage \<Rightarrow> status" where
  "validate_candidate_abstention m = validate_candidate_authority (am_authority m)"

definition validate_evaluation_request :: "EvaluationRequestMessage \<Rightarrow> status" where
  "validate_evaluation_request m =
     require (valid_id (erq_ensemble m) \<and> valid_id (erq_ensemble_generation m) \<and>
              valid_id (erq_execution m) \<and> valid_id (erq_attempt_generation m) \<and>
              valid_id (erq_judge m) \<and> valid_id (erq_judge_generation m) \<and>
              valid_id (erq_coordinator_epoch m) \<and> valid_id (erq_evaluation m) \<and>
              valid_id (erq_evaluation_generation m) \<and> valid_id (erq_candidate m) \<and>
              valid_id (erq_candidate_generation m))
       E_invalid_identity_combination (
     require (criterion_valid (erq_criterion m)) E_invalid_argument (
     require (role_evaluates (erq_role m)) E_participant_role_mismatch
     ok_status))"

definition validate_evaluation_result :: "EvaluationResultMessage \<Rightarrow> status" where
  "validate_evaluation_result m =
     (case validate_evaluation_authority (em_authority m) of
        Err e \<Rightarrow> Err e
      | Ok _ \<Rightarrow> require (criterion_valid (em_criterion m)) E_invalid_argument ok_status)"

end
