(* ===== verification/Wire_Messages.thy ===== *)
theory Wire_Messages
  imports Messages
begin

text \<open>
  The messages as what the frames of each kind carry. The source has one struct for each kind with
  a payload, and each sender and receiver pairs it with the kind of the frame; \<open>WireMessage\<close>, the sum
  of these structs, is the model's own and collects that pairing (\<^verbatim>\<open>goodbye\<close> has an empty payload and
  no decoder). Whether a receiver also requires that the payload is consumed differs from kind to
  kind: see C28 in \<open>Protocol_Properties\<close>.
\<close>

datatype (plugins only: code) WireMessage =
    W_hello HelloMessage
  | W_hello_ack CoordinatorAck
  | W_register_participant RegisterParticipantMessage
  | W_register_ack RegistrationAck
  | W_heartbeat HeartbeatMessage
  | W_dispatch_candidate DispatchCandidateMessage
  | W_candidate_result CandidateResultMessage
  | W_candidate_failure CandidateFailureMessage
  | W_candidate_abstention CandidateAbstentionMessage
  | W_evaluation_request EvaluationRequestMessage
  | W_evaluation_result EvaluationResultMessage
  | W_cancel CancelMessage
  | W_define_ensemble DefineEnsembleMessage
  | W_define_ensemble_ack DefineEnsembleAck
  | W_open_execution OpenExecutionMessage
  | W_open_execution_ack OpenExecutionAck
  | W_finalize_request FinalizeRequestMessage
  | W_finalize_response FinalizeResponseMessage
  | W_inspect_request InspectRequestMessage
  | W_inspect_response InspectResponseMessage
  | W_worker_ready WorkerReadyMessage
  | W_goodbye
  | W_error_response ErrorResponseMessage
  | W_cancel_ensemble CancelEnsembleMessage
  | W_query_result QueryResultMessage
  | W_result_response ResultResponseMessage
  | W_status_response StatusResponseMessage

primrec message_kind :: "WireMessage \<Rightarrow> MessageType" where
  "message_kind (W_hello m) = MT_hello"
| "message_kind (W_hello_ack m) = MT_hello_ack"
| "message_kind (W_register_participant m) = MT_register_participant"
| "message_kind (W_register_ack m) = MT_register_ack"
| "message_kind (W_heartbeat m) = MT_heartbeat"
| "message_kind (W_dispatch_candidate m) = MT_dispatch_candidate"
| "message_kind (W_candidate_result m) = MT_candidate_result"
| "message_kind (W_candidate_failure m) = MT_candidate_failure"
| "message_kind (W_candidate_abstention m) = MT_candidate_abstention"
| "message_kind (W_evaluation_request m) = MT_evaluation_request"
| "message_kind (W_evaluation_result m) = MT_evaluation_result"
| "message_kind (W_cancel m) = MT_cancel"
| "message_kind (W_define_ensemble m) = MT_define_ensemble"
| "message_kind (W_define_ensemble_ack m) = MT_define_ensemble_ack"
| "message_kind (W_open_execution m) = MT_open_execution"
| "message_kind (W_open_execution_ack m) = MT_open_execution_ack"
| "message_kind (W_finalize_request m) = MT_finalize_request"
| "message_kind (W_finalize_response m) = MT_finalize_response"
| "message_kind (W_inspect_request m) = MT_inspect_request"
| "message_kind (W_inspect_response m) = MT_inspect_response"
| "message_kind (W_worker_ready m) = MT_worker_ready"
| "message_kind W_goodbye = MT_goodbye"
| "message_kind (W_error_response m) = MT_error_response"
| "message_kind (W_cancel_ensemble m) = MT_cancel_ensemble"
| "message_kind (W_query_result m) = MT_query_result"
| "message_kind (W_result_response m) = MT_result_response"
| "message_kind (W_status_response m) = MT_status_response"

primrec message_fields :: "WireMessage \<Rightarrow> Field list" where
  "message_fields (W_hello m) = encode_hello m"
| "message_fields (W_hello_ack m) = encode_coordinator_ack m"
| "message_fields (W_register_participant m) = encode_register_participant m"
| "message_fields (W_register_ack m) = encode_registration_ack m"
| "message_fields (W_heartbeat m) = encode_heartbeat m"
| "message_fields (W_dispatch_candidate m) = encode_dispatch_candidate m"
| "message_fields (W_candidate_result m) = encode_candidate_result m"
| "message_fields (W_candidate_failure m) = encode_candidate_failure m"
| "message_fields (W_candidate_abstention m) = encode_candidate_abstention m"
| "message_fields (W_evaluation_request m) = encode_evaluation_request m"
| "message_fields (W_evaluation_result m) = encode_evaluation_result m"
| "message_fields (W_cancel m) = encode_cancel m"
| "message_fields (W_define_ensemble m) = encode_define_ensemble m"
| "message_fields (W_define_ensemble_ack m) = encode_define_ensemble_ack m"
| "message_fields (W_open_execution m) = encode_open_execution m"
| "message_fields (W_open_execution_ack m) = encode_open_execution_ack m"
| "message_fields (W_finalize_request m) = encode_finalize_request m"
| "message_fields (W_finalize_response m) = encode_finalize_response m"
| "message_fields (W_inspect_request m) = encode_inspect_request m"
| "message_fields (W_inspect_response m) = encode_inspect_response m"
| "message_fields (W_worker_ready m) = encode_worker_ready m"
| "message_fields W_goodbye = []"
| "message_fields (W_error_response m) = encode_error_response m"
| "message_fields (W_cancel_ensemble m) = encode_cancel_ensemble m"
| "message_fields (W_query_result m) = encode_query_result m"
| "message_fields (W_result_response m) = encode_result_response m"
| "message_fields (W_status_response m) = encode_status_response m"

text \<open>The bounds that the decoder of the kind enforces.\<close>

primrec message_within :: "WireMessage \<Rightarrow> bool" where
  "message_within (W_hello m) = hello_within m"
| "message_within (W_hello_ack m) = coordinator_ack_within m"
| "message_within (W_register_participant m) = register_participant_within m"
| "message_within (W_register_ack m) = registration_ack_within m"
| "message_within (W_heartbeat m) = True"
| "message_within (W_dispatch_candidate m) = dispatch_candidate_within m"
| "message_within (W_candidate_result m) = candidate_result_within m"
| "message_within (W_candidate_failure m) = candidate_failure_within m"
| "message_within (W_candidate_abstention m) = candidate_abstention_within m"
| "message_within (W_evaluation_request m) = evaluation_request_within m"
| "message_within (W_evaluation_result m) = evaluation_result_within m"
| "message_within (W_cancel m) = cancel_within m"
| "message_within (W_define_ensemble m) = define_ensemble_within m"
| "message_within (W_define_ensemble_ack m) = define_ensemble_ack_within m"
| "message_within (W_open_execution m) = True"
| "message_within (W_open_execution_ack m) = open_execution_ack_within m"
| "message_within (W_finalize_request m) = True"
| "message_within (W_finalize_response m) = finalize_response_within m"
| "message_within (W_inspect_request m) = True"
| "message_within (W_inspect_response m) = inspect_response_within m"
| "message_within (W_worker_ready m) = worker_ready_within m"
| "message_within W_goodbye = True"
| "message_within (W_error_response m) = error_response_within m"
| "message_within (W_cancel_ensemble m) = cancel_ensemble_within m"
| "message_within (W_query_result m) = True"
| "message_within (W_result_response m) = result_response_within m"
| "message_within (W_status_response m) = status_response_within m"

primrec get_message :: "MessageType \<Rightarrow> WireMessage decoding" where
  "get_message MT_hello = dbind decode_hello (\<lambda>m. dreturn (W_hello m))"
| "get_message MT_hello_ack = dbind decode_coordinator_ack (\<lambda>m. dreturn (W_hello_ack m))"
| "get_message MT_register_participant = dbind decode_register_participant (\<lambda>m. dreturn (W_register_participant m))"
| "get_message MT_register_ack = dbind decode_registration_ack (\<lambda>m. dreturn (W_register_ack m))"
| "get_message MT_heartbeat = dbind decode_heartbeat (\<lambda>m. dreturn (W_heartbeat m))"
| "get_message MT_dispatch_candidate = dbind decode_dispatch_candidate (\<lambda>m. dreturn (W_dispatch_candidate m))"
| "get_message MT_candidate_result = dbind decode_candidate_result (\<lambda>m. dreturn (W_candidate_result m))"
| "get_message MT_candidate_failure = dbind decode_candidate_failure (\<lambda>m. dreturn (W_candidate_failure m))"
| "get_message MT_candidate_abstention = dbind decode_candidate_abstention (\<lambda>m. dreturn (W_candidate_abstention m))"
| "get_message MT_evaluation_request = dbind decode_evaluation_request (\<lambda>m. dreturn (W_evaluation_request m))"
| "get_message MT_evaluation_result = dbind decode_evaluation_result (\<lambda>m. dreturn (W_evaluation_result m))"
| "get_message MT_cancel = dbind decode_cancel (\<lambda>m. dreturn (W_cancel m))"
| "get_message MT_define_ensemble = dbind decode_define_ensemble (\<lambda>m. dreturn (W_define_ensemble m))"
| "get_message MT_define_ensemble_ack = dbind decode_define_ensemble_ack (\<lambda>m. dreturn (W_define_ensemble_ack m))"
| "get_message MT_open_execution = dbind decode_open_execution (\<lambda>m. dreturn (W_open_execution m))"
| "get_message MT_open_execution_ack = dbind decode_open_execution_ack (\<lambda>m. dreturn (W_open_execution_ack m))"
| "get_message MT_finalize_request = dbind decode_finalize_request (\<lambda>m. dreturn (W_finalize_request m))"
| "get_message MT_finalize_response = dbind decode_finalize_response (\<lambda>m. dreturn (W_finalize_response m))"
| "get_message MT_inspect_request = dbind decode_inspect_request (\<lambda>m. dreturn (W_inspect_request m))"
| "get_message MT_inspect_response = dbind decode_inspect_response (\<lambda>m. dreturn (W_inspect_response m))"
| "get_message MT_worker_ready = dbind decode_worker_ready (\<lambda>m. dreturn (W_worker_ready m))"
| "get_message MT_goodbye = dreturn W_goodbye"
| "get_message MT_error_response = dbind decode_error_response (\<lambda>m. dreturn (W_error_response m))"
| "get_message MT_cancel_ensemble = dbind decode_cancel_ensemble (\<lambda>m. dreturn (W_cancel_ensemble m))"
| "get_message MT_query_result = dbind decode_query_result (\<lambda>m. dreturn (W_query_result m))"
| "get_message MT_result_response = dbind decode_result_response (\<lambda>m. dreturn (W_result_response m))"
| "get_message MT_status_response = dbind decode_status_response (\<lambda>m. dreturn (W_status_response m))"

definition kind_within :: "MessageType \<Rightarrow> WireMessage \<Rightarrow> bool" where
  "kind_within t m \<longleftrightarrow> message_kind m = t \<and> message_within m"

lemmas payload_binds =
  hello_codec.bind_Ok_iff coordinator_ack_codec.bind_Ok_iff register_participant_codec.bind_Ok_iff
  registration_ack_codec.bind_Ok_iff heartbeat_codec.bind_Ok_iff
  dispatch_candidate_codec.bind_Ok_iff candidate_result_codec.bind_Ok_iff
  candidate_failure_codec.bind_Ok_iff candidate_abstention_codec.bind_Ok_iff
  evaluation_request_codec.bind_Ok_iff evaluation_result_codec.bind_Ok_iff
  cancel_codec.bind_Ok_iff define_ensemble_codec.bind_Ok_iff define_ensemble_ack_codec.bind_Ok_iff
  open_execution_codec.bind_Ok_iff open_execution_ack_codec.bind_Ok_iff
  finalize_request_codec.bind_Ok_iff finalize_response_codec.bind_Ok_iff
  inspect_request_codec.bind_Ok_iff inspect_response_codec.bind_Ok_iff
  worker_ready_codec.bind_Ok_iff error_response_codec.bind_Ok_iff
  cancel_ensemble_codec.bind_Ok_iff query_result_codec.bind_Ok_iff
  result_response_codec.bind_Ok_iff status_response_codec.bind_Ok_iff

lemmas payload_reads =
  hello_codec.bind_read coordinator_ack_codec.bind_read register_participant_codec.bind_read
  registration_ack_codec.bind_read heartbeat_codec.bind_read dispatch_candidate_codec.bind_read
  candidate_result_codec.bind_read candidate_failure_codec.bind_read
  candidate_abstention_codec.bind_read evaluation_request_codec.bind_read
  evaluation_result_codec.bind_read cancel_codec.bind_read define_ensemble_codec.bind_read
  define_ensemble_ack_codec.bind_read open_execution_codec.bind_read
  open_execution_ack_codec.bind_read finalize_request_codec.bind_read
  finalize_response_codec.bind_read inspect_request_codec.bind_read
  inspect_response_codec.bind_read worker_ready_codec.bind_read error_response_codec.bind_read
  cancel_ensemble_codec.bind_read query_result_codec.bind_read result_response_codec.bind_read
  status_response_codec.bind_read

text \<open>The payload codec of every kind meets the contract of a codec.\<close>

lemma get_message_forward:
  assumes "get_message t (dec_at pre rest) = Ok (m, d')"
  shows "kind_within t m \<and> (\<exists>rest'. rest = wire (message_fields m) @ rest' \<and>
    d' = dec_at (pre @ wire (message_fields m)) rest')"
  using assms by (cases t) (auto simp: kind_within_def payload_binds dreturn_Ok_iff)

lemma get_message_backward:
  assumes "kind_within t m"
  shows "get_message t (dec_at pre (wire (message_fields m) @ rest)) =
    Ok (m, dec_at (pre @ wire (message_fields m)) rest)"
  using assms by (cases m) (auto simp: kind_within_def payload_reads dreturn_def)

interpretation message_codec: wire_codec message_fields "get_message t" "kind_within t" for t
  by (rule wire_codecI) (rule get_message_forward, assumption, rule get_message_backward)

end
