(* ===== verification/Transport.thy ===== *)
theory Transport
  imports Frames
begin

text \<open>
  Framed channels over a byte stream (\<^verbatim>\<open>src/transport.cpp\<close>, \<^verbatim>\<open>transport.hpp\<close>). The operating
  system is an argument: \<^verbatim>\<open>::send\<close> is the list of the counts that successive calls return,
  \<^verbatim>\<open>::recv\<close> the list of the results of successive calls; a list that has run out stands for
  a call that fails. Sockets, name resolution and locking are not modelled. The lemmas show
  that a channel delivers exactly the frames that were sent, in order, however the stream is
  cut into pieces.
\<close>

section \<open>Sockets\<close>

datatype (plugins only: code size) RecvResult = R_data bytes | R_closed | R_error

text \<open>
  \<open>send_loop sent outs data\<close>: \<open>sent\<close> bytes of \<open>data\<close> are written; the result carries the bytes
  that reached the stream.
\<close>

definition max_chunk :: nat where "max_chunk = 1048576"

fun send_loop :: "nat \<Rightarrow> int list \<Rightarrow> bytes \<Rightarrow> status \<times> bytes" where
  "send_loop sent outs data =
     (if sent < length data
      then case outs of
          [] \<Rightarrow> (fail E_transport_error, take sent data)
        | written # outs \<Rightarrow>
            if written \<le> 0 then (fail E_transport_error, take sent data)
            else send_loop (sent + nat written) outs data
      else (ok_status, take sent data))"

declare send_loop.simps [simp del]

definition send_all :: "bool \<Rightarrow> int list \<Rightarrow> bytes \<Rightarrow> status \<times> bytes" where
  "send_all valid outs data = (if \<not> valid then (fail E_transport_error, []) else send_loop 0 outs data)"

definition scratch_bytes :: nat where "scratch_bytes = 16384"

definition receive_some :: "bool \<Rightarrow> RecvResult \<Rightarrow> bytes outcome" where
  "receive_some valid r =
     (if \<not> valid then fail E_transport_error
      else case r of R_closed \<Rightarrow> fail E_transport_error
           | R_error \<Rightarrow> fail E_transport_error
           | R_data data \<Rightarrow> Ok data)"

text \<open>What the operating system guarantees of its results.\<close>

definition recv_ok :: "RecvResult \<Rightarrow> bool" where
  "recv_ok r \<longleftrightarrow> (case r of R_data data \<Rightarrow> data \<noteq> [] \<and> length data \<le> scratch_bytes | _ \<Rightarrow> True)"

section \<open>Frame channels\<close>

record FrameChannel =
  ch_limits :: Limits
  ch_inbound :: bytes
  ch_valid :: bool
  ch_closed :: bool
  ch_frames_sent :: u64
  ch_frames_received :: u64

definition new_channel :: "Limits \<Rightarrow> FrameChannel" where
  "new_channel l = \<lparr>ch_limits = l, ch_inbound = [], ch_valid = True, ch_closed = False,
     ch_frames_sent = 0, ch_frames_received = 0\<rparr>"

definition channel_send :: "Frame \<Rightarrow> int list \<Rightarrow> FrameChannel \<Rightarrow> FrameChannel \<times> status \<times> bytes" where
  "channel_send f outs ch =
     (case encode_frame f (ch_limits ch) of
        Err e \<Rightarrow> (ch, fail e, [])
      | Ok encoded \<Rightarrow>
          if ch_closed ch then (ch, fail E_transport_error, [])
          else let (status, written) = send_all (ch_valid ch) outs encoded
               in if is_ok status
                  then (ch\<lparr>ch_frames_sent := ch_frames_sent ch + 1\<rparr>, status, written)
                  else (ch, status, written))"

fun channel_receive ::
  "RecvResult list \<Rightarrow> FrameChannel \<Rightarrow> FrameChannel \<times> RecvResult list \<times> Frame outcome" where
  "channel_receive ins ch =
     (case decode_frame (ch_inbound ch) (ch_limits ch) of
        DR_complete f consumed \<Rightarrow>
          (ch\<lparr>ch_inbound := drop consumed (ch_inbound ch),
              ch_frames_received := ch_frames_received ch + 1\<rparr>, ins, Ok f)
      | DR_failed e \<Rightarrow> (ch, ins, fail e)
      | DR_need_more_data \<Rightarrow>
          if unat (max_frame_bytes (ch_limits ch)) < length (ch_inbound ch)
          then (ch, ins, fail E_payload_too_large)
          else case ins of
              [] \<Rightarrow> (ch, [], fail E_transport_error)
            | r # ins \<Rightarrow>
                (case receive_some (ch_valid ch) r of
                   Err e \<Rightarrow> (ch, ins, fail e)
                 | Ok data \<Rightarrow> channel_receive ins (ch\<lparr>ch_inbound := ch_inbound ch @ data\<rparr>)))"

declare channel_receive.simps [simp del]

definition channel_close :: "FrameChannel \<Rightarrow> FrameChannel" where
  "channel_close ch = ch\<lparr>ch_closed := True, ch_valid := False\<rparr>"

fun receive_frames ::
  "nat \<Rightarrow> RecvResult list \<Rightarrow> FrameChannel \<Rightarrow> FrameChannel \<times> RecvResult list \<times> Frame list outcome" where
  "receive_frames 0 ins ch = (ch, ins, Ok [])"
| "receive_frames (Suc n) ins ch =
     (case channel_receive ins ch of
        (ch, ins, Err e) \<Rightarrow> (ch, ins, fail e)
      | (ch, ins, Ok f) \<Rightarrow>
          (case receive_frames n ins ch of
             (ch, ins, Err e) \<Rightarrow> (ch, ins, fail e)
           | (ch, ins, Ok fs) \<Rightarrow> (ch, ins, Ok (f # fs))))"

section \<open>Sending\<close>

lemma send_loop_prefix:
  "send_loop sent outs data = (status, written) \<Longrightarrow> sent \<le> length data \<Longrightarrow>
     (is_ok status \<longrightarrow> written = data) \<and> (\<exists>n. written = take n data)"
proof (induction sent outs data rule: send_loop.induct)
  case (1 sent outs data)
  show ?case
  proof (cases "sent < length data")
    case True
    show ?thesis
    proof (cases outs)
      case Nil
      with 1(2) True show ?thesis by (auto simp: send_loop.simps[of sent] is_ok_def fail_def)
    next
      case (Cons w outs')
      show ?thesis
      proof (cases "w \<le> 0")
        case True
        with 1(2) Cons \<open>sent < length data\<close> show ?thesis
          by (auto simp: send_loop.simps[of sent] is_ok_def fail_def)
      next
        case False
        with 1(2) Cons True have rec: "send_loop (sent + nat w) outs' data = (status, written)"
          by (simp add: send_loop.simps[of sent])
        show ?thesis
        proof (cases "sent + nat w \<le> length data")
          case True
          with 1(1)[OF \<open>sent < length data\<close> Cons False rec] show ?thesis by simp
        next
          case F: False
          with rec show ?thesis
            by (auto simp: send_loop.simps[of "sent + nat w"] intro!: exI[of _ "length data"])
        qed
      qed
    qed
  next
    case False
    with 1(2,3) show ?thesis by (auto simp: send_loop.simps[of sent] intro!: exI[of _ "length data"])
  qed
qed

section \<open>Receiving\<close>

definition stream :: "RecvResult list \<Rightarrow> bytes" where
  "stream ins = concat (map (\<lambda>r. case r of R_data data \<Rightarrow> data | _ \<Rightarrow> []) ins)"

definition is_data :: "RecvResult \<Rightarrow> bool" where
  "is_data r \<longleftrightarrow> (case r of R_data data \<Rightarrow> True | _ \<Rightarrow> False)"

lemma stream_simps [simp]:
  "stream [] = []" "stream (R_data d # ins) = d @ stream ins" "is_data (R_data d)"
  "\<not> is_data R_closed" "\<not> is_data R_error"
  by (simp_all add: stream_def is_data_def)

text \<open>
  A channel whose buffered and coming bytes begin with a frame delivers that frame and keeps
  the bytes behind it.
\<close>

lemma channel_receive_frame:
  assumes "ch_inbound ch @ stream ins = frame_bytes f @ rest" and "list_all is_data ins"
    and "ch_valid ch" and "frame_fits (ch_limits ch) f" and "fr_version f = protocol_version"
  obtains ch' ins' where "channel_receive ins ch = (ch', ins', Ok f)"
    and "ch_inbound ch' @ stream ins' = rest" and "list_all is_data ins'" and "ch_valid ch'"
    and "ch_limits ch' = ch_limits ch" and "ch_frames_received ch' = ch_frames_received ch + 1"
  using assms
proof (induction ins ch arbitrary: thesis rule: channel_receive.induct)
  case (1 ins ch)
  show ?case
  proof (cases "length (frame_bytes f) \<le> length (ch_inbound ch)")
    case True
    have front: "take (length (frame_bytes f)) (ch_inbound ch) = frame_bytes f"
      and rest: "drop (length (frame_bytes f)) (ch_inbound ch) @ stream ins = rest"
      using arg_cong[OF "1.prems"(2), of "take (length (frame_bytes f))"]
        arg_cong[OF "1.prems"(2), of "drop (length (frame_bytes f))"] True
      by simp_all
    then have inb: "ch_inbound ch = frame_bytes f @ drop (length (frame_bytes f)) (ch_inbound ch)"
      by (metis append_take_drop_id)
    have "decode_frame (ch_inbound ch) (ch_limits ch) = DR_complete f (length (frame_bytes f))"
      using decode_frame_bytes[OF "1.prems"(5,6)] inb by metis
    then have "channel_receive ins ch = (ch\<lparr>ch_inbound := drop (length (frame_bytes f)) (ch_inbound ch),
        ch_frames_received := ch_frames_received ch + 1\<rparr>, ins, Ok f)"
      by (simp add: channel_receive.simps[of ins ch])
    then show ?thesis by (rule "1.prems"(1)) (use "1.prems"(3,4) rest in simp_all)
  next
    case False
    have "take (length (ch_inbound ch)) (frame_bytes f) = ch_inbound ch"
      using arg_cong[OF "1.prems"(2), of "take (length (ch_inbound ch))"] False by simp
    then have bytes: "frame_bytes f = ch_inbound ch @ drop (length (ch_inbound ch)) (frame_bytes f)"
      by (metis append_take_drop_id)
    have more: "decode_frame (ch_inbound ch) (ch_limits ch) = DR_need_more_data"
      by (rule decode_frame_prefix[OF "1.prems"(5) bytes]) (use False in simp)
    have small: "\<not> unat (max_frame_bytes (ch_limits ch)) < length (ch_inbound ch)"
      using False "1.prems"(5) by (simp add: frame_fits_def)
    have "ins \<noteq> []"
      using False arg_cong[OF "1.prems"(2), of length] by auto
    then obtain r ins0 where ins: "ins = r # ins0" by (cases ins) auto
    with "1.prems"(3) obtain data where r: "r = R_data data" by (cases r) auto
    have some: "receive_some (ch_valid ch) r = Ok data" using "1.prems"(4) by (simp add: receive_some_def r)
    let ?ch = "ch\<lparr>ch_inbound := ch_inbound ch @ data\<rparr>"
    have step: "channel_receive ins ch = channel_receive ins0 ?ch"
      by (subst channel_receive.simps) (simp add: more small ins some)
    show ?thesis
    proof (rule "1.IH"[OF more small ins some])
      show "ch_inbound ?ch @ stream ins0 = frame_bytes f @ rest" using "1.prems"(2) by (simp add: ins r)
      show "list_all is_data ins0" using "1.prems"(3) by (simp add: ins)
    qed (use "1.prems"(1,4-6) step in simp_all)
  qed
qed

lemma receive_frames_stream:
  assumes "ch_inbound ch @ stream ins = concat (map frame_bytes fs) @ rest" and "list_all is_data ins"
    and "ch_valid ch" and "list_all (\<lambda>f. frame_fits (ch_limits ch) f \<and> fr_version f = protocol_version) fs"
  shows "\<exists>ch' ins'. receive_frames (length fs) ins ch = (ch', ins', Ok fs) \<and>
    ch_inbound ch' @ stream ins' = rest \<and> ch_frames_received ch' = ch_frames_received ch + of_nat (length fs)"
  using assms
proof (induction fs arbitrary: ins ch)
  case (Cons f fs)
  obtain ch1 ins1 where one: "channel_receive ins ch = (ch1, ins1, Ok f)"
      "ch_inbound ch1 @ stream ins1 = concat (map frame_bytes fs) @ rest" "list_all is_data ins1" "ch_valid ch1"
      "ch_limits ch1 = ch_limits ch" "ch_frames_received ch1 = ch_frames_received ch + 1"
    using channel_receive_frame[of ch ins f "concat (map frame_bytes fs) @ rest"] Cons.prems by auto
  then obtain ch2 ins2 where "receive_frames (length fs) ins1 ch1 = (ch2, ins2, Ok fs)"
      "ch_inbound ch2 @ stream ins2 = rest"
      "ch_frames_received ch2 = ch_frames_received ch1 + of_nat (length fs)"
    using Cons.IH[of ch1 ins1] Cons.prems(4) by auto
  with one show ?case by (simp add: add.assoc)
qed simp

text \<open>A frame that a channel delivers is one whose bytes are at the front of what it got.\<close>

lemma channel_receive_sound:
  assumes "channel_receive ins ch = (ch', ins', Ok f)"
  shows "ch_inbound ch @ stream ins = frame_bytes f @ ch_inbound ch' @ stream ins' \<and>
    frame_fits (ch_limits ch) f \<and> fr_version f = protocol_version"
  using assms
proof (induction ins ch rule: channel_receive.induct)
  case (1 ins ch)
  show ?case
  proof (cases "decode_frame (ch_inbound ch) (ch_limits ch)")
    case (DR_complete g n)
    with 1(2) have "g = f" "ins' = ins" "ch_inbound ch' = drop n (ch_inbound ch)"
      by (auto simp: channel_receive.simps[of ins ch])
    moreover obtain rest where "ch_inbound ch = frame_bytes g @ rest" "n = length (frame_bytes g)"
        "frame_fits (ch_limits ch) g" "fr_version g = protocol_version"
      using DR_complete by (auto simp: decode_complete_iff)
    ultimately show ?thesis by simp
  next
    case DR_need_more_data
    with 1(2) obtain r ins0 data where rec: "\<not> unat (max_frame_bytes (ch_limits ch)) < length (ch_inbound ch)"
        "ins = r # ins0" "receive_some (ch_valid ch) r = Ok data"
        "channel_receive ins0 (ch\<lparr>ch_inbound := ch_inbound ch @ data\<rparr>) = (ch', ins', Ok f)"
      by (auto simp: channel_receive.simps[of ins ch] fail_def split: if_splits list.splits outcome.splits)
    then have "r = R_data data"
      by (auto simp: receive_some_def fail_def split: if_splits RecvResult.splits)
    with 1(1)[OF DR_need_more_data rec] rec(2) show ?thesis by simp
  next
    case (DR_failed e)
    with 1(2) show ?thesis
      by (auto simp: channel_receive.simps[of ins ch] fail_def split: if_splits)
  qed
qed

end
