(* ===== verification/Action_Messages.thy ===== *)
theory Action_Messages
  imports Messages
begin

text \<open>
  The messages that carry the actions of the runtime: what the coordinator
  (\<^verbatim>\<open>src/distributed/coordinator.cpp\<close>) puts into frames and the local driver
  (\<^verbatim>\<open>src/local_driver.cpp\<close>) hands to a backend of its own process; and how the distributed parts
  make and read payloads.
\<close>

definition dispatch_message :: "CoordinatorEpoch \<Rightarrow> DispatchAction \<Rightarrow> DispatchCandidateMessage" where
  "dispatch_message epoch da =
     \<lparr>dm_ensemble = xr_ensemble (da_execution da),
      dm_ensemble_generation = xr_ensemble_generation (da_execution da),
      dm_execution = xr_execution (da_execution da),
      dm_attempt_generation = xr_attempt_generation (da_execution da),
      dm_participant = da_participant da, dm_participant_generation = da_participant_generation da,
      dm_coordinator_epoch = epoch, dm_candidate = da_candidate da,
      dm_candidate_generation = da_candidate_generation da, dm_role = da_role da, dm_stage = da_stage da,
      dm_attempt = da_attempt da, dm_budget_units = da_budget_units da,
      dm_deterministic_seed = da_deterministic_seed da, dm_domain = da_domain da, dm_request = da_request da\<rparr>"

definition evaluation_message :: "CoordinatorEpoch \<Rightarrow> EvaluationAction \<Rightarrow> EvaluationRequestMessage" where
  "evaluation_message epoch va =
     \<lparr>erq_ensemble = xr_ensemble (va_execution va),
      erq_ensemble_generation = xr_ensemble_generation (va_execution va),
      erq_execution = xr_execution (va_execution va),
      erq_attempt_generation = xr_attempt_generation (va_execution va),
      erq_judge = va_judge va, erq_judge_generation = va_judge_generation va,
      erq_coordinator_epoch = epoch, erq_evaluation = va_evaluation va,
      erq_evaluation_generation = va_evaluation_generation va, erq_role = va_role va,
      erq_candidate = va_candidate va, erq_candidate_generation = va_candidate_generation va,
      erq_criterion = va_criterion va, erq_criterion_kind = va_criterion_kind va,
      erq_candidate_payload = [], erq_domain = va_domain va\<rparr>"

definition cancel_message :: "CoordinatorEpoch \<Rightarrow> CancelAction \<Rightarrow> CancelMessage" where
  "cancel_message epoch xa =
     \<lparr>xm_ensemble = xr_ensemble (xa_execution xa),
      xm_ensemble_generation = xr_ensemble_generation (xa_execution xa),
      xm_execution = xr_execution (xa_execution xa),
      xm_attempt_generation = xr_attempt_generation (xa_execution xa), xm_coordinator_epoch = epoch,
      xm_candidate = xa_candidate xa, xm_candidate_generation = xa_candidate_generation xa,
      xm_participant = xa_participant xa, xm_participant_generation = xa_participant_generation xa,
      xm_reason = xa_reason xa\<rparr>"

section \<open>Frames and payloads\<close>

definition frame_default :: Frame where
  "frame_default = \<lparr>fr_version = 0, fr_type = MT_error_response, fr_flags = 0, fr_correlation = 0,
     fr_epoch = 0, fr_worker_boot = 0, fr_sequence = 0, fr_payload = []\<rparr>"

definition payload_of :: "Limits \<Rightarrow> Field list \<Rightarrow> bytes" where
  "payload_of l fs = enc_buffer (put_fields fs (new_encoder l))"

text \<open>Some receivers stop after the decoder, others also require the payload to be used up.\<close>

definition decode_front :: "'a decoding \<Rightarrow> Frame \<Rightarrow> 'a outcome" where
  "decode_front g f = (case g (new_decoder (fr_payload f)) of Err e \<Rightarrow> Err e | Ok (m, d) \<Rightarrow> Ok m)"

definition decode_whole :: "'a decoding \<Rightarrow> Frame \<Rightarrow> 'a outcome" where
  "decode_whole g f = decode_exactly g (fr_payload f)"

end
