(* ===== verification/Protocol_Properties.thy ===== *)
theory Protocol_Properties
  imports Wire_Messages Transport Action_Messages
begin

text \<open>
  The properties of the wire protocol: the frame codec is exact and prefix-safe, damage to a
  frame is detected, the payload codecs are exact, and a channel delivers what was sent.
\<close>

section \<open>Frames\<close>

definition goodbye_frame :: Frame where
  "goodbye_frame = \<lparr>fr_version = protocol_version, fr_type = MT_goodbye, fr_flags = 0, fr_correlation = 7,
     fr_epoch = 2, fr_worker_boot = 11, fr_sequence = 9, fr_payload = [1, 2, 3, 4, 5]\<rparr>"

lemma goodbye_fits [simp]: "frame_fits limits_defaults goodbye_frame" "fr_version goodbye_frame = protocol_version"
  by (simp_all add: frame_fits_def goodbye_frame_def limits_defaults_def)

text \<open>
  C26: the frame decoder accepts a buffer exactly when it starts with the encoding of the frame
  it returns, consumes exactly that encoding, and asks for more data on every strict prefix.
\<close>

theorem frame_decoder_exact:
  assumes "fr_version f = protocol_version"
  shows "(decode_frame buffer l = DR_complete f n \<longleftrightarrow>
      (\<exists>encoded rest. encode_frame f l = Ok encoded \<and> buffer = encoded @ rest \<and> n = length encoded)) \<and>
    (\<forall>p q. encode_frame f l = Ok (p @ q) \<and> q \<noteq> [] \<longrightarrow> decode_frame p l = DR_need_more_data)"
  using assms by (auto simp: decode_complete_iff encode_frame_eq dest: decode_frame_prefix)

theorem frame_decoder_exact_witness:
  "\<exists>encoded. encode_frame goodbye_frame limits_defaults = Ok encoded \<and> length encoded = 69 \<and>
     decode_frame (encoded @ [0xAA]) limits_defaults = DR_complete goodbye_frame 69 \<and>
     decode_frame (take 68 encoded) limits_defaults = DR_need_more_data"
proof -
  have enc: "encode_frame goodbye_frame limits_defaults = Ok (frame_bytes goodbye_frame)"
    and len: "length (frame_bytes goodbye_frame) = 69"
    by (simp_all add: encode_frame_eq) (simp add: goodbye_frame_def)
  have split: "encode_frame goodbye_frame limits_defaults =
      Ok (take 68 (frame_bytes goodbye_frame) @ drop 68 (frame_bytes goodbye_frame))"
    and more: "drop 68 (frame_bytes goodbye_frame) \<noteq> []"
    using enc len by simp_all
  have "decode_frame (frame_bytes goodbye_frame @ [0xAA]) limits_defaults = DR_complete goodbye_frame 69"
    by (rule frame_decoder_exact[OF goodbye_fits(2), THEN conjunct1, THEN iffD2])
      (intro exI conjI, rule enc, simp_all only: len)
  moreover have "decode_frame (take 68 (frame_bytes goodbye_frame)) limits_defaults = DR_need_more_data"
    using frame_decoder_exact[OF goodbye_fits(2), of "[]" limits_defaults 0, THEN conjunct2] split more by blast
  ultimately show ?thesis using enc len by blast
qed

text \<open>
  C27: a burst of up to four changed bytes in the identities of a frame's header (correlation,
  epoch, worker boot, sequence) or in its payload makes the decoder report a checksum mismatch.
\<close>

theorem frame_damage_detected:
  assumes "encode_frame f l = Ok (p @ w @ q)" and "length w' = length w" and "length w \<le> 4" and "w' \<noteq> w"
    and "(16 \<le> length p \<and> length p + length w \<le> 48) \<or> 64 \<le> length p"
  shows "decode_frame (p @ w' @ q @ rest) l = DR_failed E_checksum_mismatch"
proof -
  from assms(1) have fits: "frame_fits l f" and bytes: "p @ w @ q = frame_bytes f"
    by (auto simp: encode_frame_eq split: if_splits)
  from assms(5) show ?thesis
  proof
    assume pos: "16 \<le> length p \<and> length p + length w \<le> 48"
    let ?t = "store_u32 0 @ store_u32 (frame_checksum f) @ store_u64 0 @ fr_payload f"
    let ?k = "48 - (length p + length w)"
    have eq: "p @ w @ q = frame_fixed f @ frame_identities f @ ?t"
      by (simp add: bytes frame_bytes_def frame_header_parts)
    have "take 16 p = frame_fixed f" using arg_cong[OF eq, of "take 16"] pos by simp
    then have p: "p = frame_fixed f @ drop 16 p" by (metis append_take_drop_id)
    have "drop 16 p @ w @ q = frame_identities f @ ?t"
      using arg_cong[OF eq, of "drop 16"] pos by simp
    from arg_cong[OF this, of "take 32"] have ids: "frame_identities f = drop 16 p @ w @ take ?k q"
      using pos[THEN conjunct1] pos[THEN conjunct2] by simp
    have "drop ?k q = ?t"
      using arg_cong[OF eq, of "drop 48"] pos[THEN conjunct1] pos[THEN conjunct2] by simp
    then have q: "q = take ?k q @ ?t" by (metis append_take_drop_id)
    have whole: "p @ w' @ q @ rest = frame_fixed f @ (drop 16 p @ w' @ take ?k q) @ ?t @ rest"
      using p q by (metis append_assoc)
    show ?thesis
      unfolding whole using identity_damage[OF fits ids assms(2-4), of rest] by (simp only: append_assoc)
  next
    assume pos: "64 \<le> length p"
    let ?h = "frame_header (frame_checksum f) f"
    have eq: "p @ w @ q = ?h @ fr_payload f" by (simp add: bytes frame_bytes_def)
    have "take 64 p = ?h" using arg_cong[OF eq, of "take 64"] pos by simp
    then have p: "p = ?h @ drop 64 p" by (metis append_take_drop_id)
    have pay: "fr_payload f = drop 64 p @ w @ q"
      using arg_cong[OF eq, of "drop 64"] pos by simp
    have whole: "p @ w' @ q @ rest = ?h @ drop 64 p @ w' @ q @ rest" using p by (metis append_assoc)
    show ?thesis unfolding whole by (rule payload_damage[OF fits pay assms(2-4)])
  qed
qed

theorem frame_damage_detected_witness:
  "\<exists>p q. encode_frame goodbye_frame limits_defaults = Ok (p @ [3, 4] @ q) \<and>
     decode_frame (p @ [3, 5] @ q @ [0xAA]) limits_defaults = DR_failed E_checksum_mismatch"
proof -
  let ?p = "frame_header (frame_checksum goodbye_frame) goodbye_frame @ [1, 2]"
  have enc: "encode_frame goodbye_frame limits_defaults = Ok (?p @ [3, 4] @ [5])"
    by (simp add: encode_frame_eq frame_bytes_def) (simp add: goodbye_frame_def)
  have "decode_frame (?p @ [3, 5] @ [5] @ [0xAA]) limits_defaults = DR_failed E_checksum_mismatch"
    by (rule frame_damage_detected[OF enc]) simp_all
  with enc show ?thesis by blast
qed

section \<open>Payloads\<close>

context wire_codec
begin

lemma front_Ok_iff: "decode_front get f = Ok x \<longleftrightarrow> ok x \<and> (\<exists>rest. fr_payload f = wire (enc x) @ rest)"
proof -
  have "decode_front get f = Ok x \<longleftrightarrow> (\<exists>d. get (dec_at [] (fr_payload f)) = Ok (x, d))"
    by (auto simp: decode_front_def new_decoder_at split: outcome.splits)
  then show ?thesis by (simp add: get_Ok_iff)
qed

end

definition sample_query :: QueryResultMessage where
  "sample_query = \<lparr>qrm_ensemble = 7, qrm_ensemble_generation = 1\<rparr>"

text \<open>
  C28: the two ways in which the receivers read a payload, exactly. A reader that requires the
  payload to be consumed (\<open>decode_whole\<close>) accepts just the encoding of a message of its kind within
  the decoder's bounds and yields that message; a reader that does not (\<open>decode_front\<close>) accepts just
  the payloads that begin with such an encoding, whatever follows it. The source uses the second
  reader for hello, define, open, cancel, finalize, query and inspect requests at the coordinator, for
  the acknowledgements and the cancellation at the worker and for the error response at the client,
  and the first one elsewhere. A goodbye has no payload and no decoder, and the payload of a heartbeat
  is encoded but not read by any receiver.
\<close>

theorem message_codec_exact:
  assumes "length (wire (message_fields m)) \<le> unat (max_persistence_bytes l)" and "t \<noteq> MT_goodbye"
  shows "(decode_whole (get_message t) f = Ok m \<longleftrightarrow>
      message_kind m = t \<and> message_within m \<and>
      fr_payload f = enc_buffer (put_fields (message_fields m) (new_encoder l))) \<and>
    (decode_front (get_message t) f = Ok m \<longleftrightarrow>
      message_kind m = t \<and> message_within m \<and>
      (\<exists>rest. fr_payload f = enc_buffer (put_fields (message_fields m) (new_encoder l)) @ rest))"
  using assms(1) message_codec.front_Ok_iff[of t f m]
  by (simp add: decode_whole_def decode_front_def message_codec.decode_exactly_iff kind_within_def put_fields_new)

theorem message_codec_exact_witness:
  "decode_front (get_message MT_query_result) (frame_default\<lparr>fr_payload :=
     enc_buffer (put_fields (encode_query_result sample_query) (new_encoder limits_defaults)) @ [7]\<rparr>) =
     Ok (W_query_result sample_query) \<and>
   decode_whole (get_message MT_query_result) (frame_default\<lparr>fr_payload :=
     enc_buffer (put_fields (encode_query_result sample_query) (new_encoder limits_defaults)) @ [7]\<rparr>) \<noteq>
     Ok (W_query_result sample_query)"
proof -
  have "length (wire (message_fields (W_query_result sample_query))) \<le> unat (max_persistence_bytes limits_defaults)"
    by (simp add: encode_query_result_def limits_defaults_def)
  from message_codec_exact[OF this, of MT_query_result] show ?thesis by simp
qed

section \<open>Channels\<close>

text \<open>The encoder writes the protocol version itself; the version field of a frame does not matter.\<close>

definition received_as :: "Frame \<Rightarrow> Frame" where
  "received_as f = f\<lparr>fr_version := protocol_version\<rparr>"

lemma received_as_bytes [simp]:
  "frame_bytes (received_as f) = frame_bytes f" "frame_fits l (received_as f) = frame_fits l f"
  "fr_version (received_as f) = protocol_version"
  by (simp_all add: received_as_def frame_bytes_def frame_header_def frame_fixed_def frame_identities_def
        frame_checksum_def frame_fits_def)

text \<open>
  C29: whatever pieces the byte stream of a sequence of sent frames arrives in, the channel
  delivers exactly these frames in order, marked with the protocol's version, and nothing of the
  stream is left over.
\<close>

theorem channel_delivers_sent_frames:
  assumes "list_all2 (\<lambda>f encoded. encode_frame f l = Ok encoded) fs sent"
    and "list_all is_data ins" and "stream ins = concat sent"
  shows "\<exists>ch ins'. receive_frames (length fs) ins (new_channel l) = (ch, ins', Ok (map received_as fs)) \<and>
    ch_inbound ch @ stream ins' = [] \<and> ch_frames_received ch = of_nat (length fs)"
proof -
  have "sent = map frame_bytes fs" "list_all (frame_fits l) fs"
    using assms(1) by (induction rule: list_all2_induct) (auto simp: encode_frame_eq split: if_splits)
  then have "sent = map frame_bytes (map received_as fs)"
    "list_all (\<lambda>f. frame_fits l f \<and> fr_version f = protocol_version) (map received_as fs)"
    by (simp_all add: list_all_iff)
  with assms(2,3) show ?thesis
    using receive_frames_stream[of "new_channel l" ins "map received_as fs" "[]"] by (simp add: new_channel_def)
qed

theorem channel_delivers_sent_frames_witness:
  "\<exists>a b ch ins'. encode_frame goodbye_frame limits_defaults = Ok (a @ b) \<and> length a = 10 \<and>
     receive_frames 2 [R_data a, R_data (b @ a), R_data b] (new_channel limits_defaults) =
       (ch, ins', Ok [goodbye_frame, goodbye_frame])"
proof -
  let ?a = "take 10 (frame_bytes goodbye_frame)" and ?b = "drop 10 (frame_bytes goodbye_frame)"
  let ?ins = "[R_data ?a, R_data (?b @ ?a), R_data ?b]"
  have enc: "encode_frame goodbye_frame limits_defaults = Ok (?a @ ?b)" and len: "length ?a = 10"
    by (simp_all add: encode_frame_eq)
  have two: "length [goodbye_frame, goodbye_frame] = 2"
    and same: "map received_as [goodbye_frame, goodbye_frame] = [goodbye_frame, goodbye_frame]"
    by (simp_all add: received_as_def goodbye_frame_def)
  have "\<exists>ch ins'. receive_frames 2 ?ins (new_channel limits_defaults) = (ch, ins', Ok [goodbye_frame, goodbye_frame]) \<and>
      ch_inbound ch @ stream ins' = [] \<and> ch_frames_received ch = of_nat 2"
    by (rule channel_delivers_sent_frames[where fs = "[goodbye_frame, goodbye_frame]"
          and sent = "[?a @ ?b, ?a @ ?b]" and ins = ?ins, unfolded two same]) (use enc in simp_all)
  then obtain ch ins' where "receive_frames 2 ?ins (new_channel limits_defaults) =
    (ch, ins', Ok [goodbye_frame, goodbye_frame])" by blast
  with enc len show ?thesis by (intro exI conjI)
qed

end
