(* ===== verification/Recovery_Failures.thy ===== *)
theory Recovery_Failures
  imports Recovery
begin

text \<open>
  States that can be saved but not recovered. The decoder of a specification bounds more than
  \<^verbatim>\<open>validate_spec\<close> does; a specification between the two is accepted, is written with the rest
  of the state, and then stops the recovery of the whole state. The lemmas follow the decoder
  to the count it rejects.
\<close>

section \<open>Where a decoder stops\<close>

lemma vector_excess:
  assumes "unat bound < length xs" and "length xs < 2 ^ 32"
  shows "dbind (get_vector bound g) f (dec_at pre (wire (vector_fields enc xs) @ rest)) =
    Err E_resource_limit_exceeded"
proof -
  have "bound < size32 xs" using assms by (simp add: word_less_nat_alt unat_of_nat)
  then have "get_vector bound g (dec_at pre (wire (vector_fields enc xs) @ rest)) = Err E_resource_limit_exceeded"
    by (simp add: get_vector_def vector_fields_def u32.bind_read[simplified] dfail_def fail_def)
  then show ?thesis by (simp add: dbind_def fail_def)
qed

context wire_codec
begin

lemma list_error:
  assumes "list_all ok a" and "e \<noteq> E_ok" and "\<And>pre rest. get (dec_at pre (wire (enc x) @ rest)) = Err e"
  shows "get_list (length (a @ x # b)) get (dec_at pre (wire (concat (map enc (a @ x # b))) @ rest)) = Err e"
  using assms(1)
proof (induction a arbitrary: pre)
  case Nil
  then show ?case using assms(2,3) by (simp add: dbind_def fail_def)
next
  case (Cons y a)
  then show ?case using assms(2) by (simp add: bind_read) (simp add: dbind_def fail_def)
qed

lemma vector_error:
  assumes "list_all ok a" and "e \<noteq> E_ok" and "\<And>pre rest. get (dec_at pre (wire (enc x) @ rest)) = Err e"
    and "within bound (a @ x # b)"
  shows "dbind (get_vector bound get) f (dec_at pre (wire (vector_fields enc (a @ x # b)) @ rest)) = Err e"
proof -
  define xs where "xs = a @ x # b"
  have size: "\<not> bound < size32 xs" "unat (size32 xs) = length xs"
    using assms(4) unfolding within_size32 by (simp_all add: xs_def)
  have "get_vector bound get (dec_at pre (wire (vector_fields enc xs) @ rest)) =
      get_list (length xs) get (dec_at (pre @ store_u32 (size32 xs)) (wire (concat (map enc xs)) @ rest))"
    using size by (simp add: get_vector_def vector_fields_def u32.bind_read[simplified])
  also have "\<dots> = Err e" unfolding xs_def by (rule list_error[OF assms(1-3)])
  finally show ?thesis using assms(2) by (simp add: dbind_def fail_def xs_def)
qed

end

section \<open>Too many judging criteria\<close>

text \<open>Sixteen is the decoder's own bound on the judging criteria; the validation has none.\<close>

definition crowded_criteria :: "Limits \<Rightarrow> EnsembleSpec \<Rightarrow> bool" where
  "crowded_criteria l spec \<longleftrightarrow>
     spec_within l (spec\<lparr>sp_judging_criteria := []\<rparr>) \<and> 16 < length (sp_judging_criteria spec) \<and>
     length (sp_judging_criteria spec) < 2 ^ 32 \<and> within (max_persistence_bytes l) (spec_bytes spec)"

lemma get_spec_crowded:
  assumes "crowded_criteria l spec"
  shows "get_ensemble_spec l (dec_at pre (wire (put_spec spec) @ rest)) = Err E_resource_limit_exceeded"
  using assms
  by (simp add: crowded_criteria_def spec_within_def get_ensemble_spec_def put_spec_def codec_reads vector_excess)

lemma decode_spec_crowded:
  assumes "crowded_criteria l spec"
  shows "decode_spec (spec_bytes spec) l = Err E_resource_limit_exceeded"
  using get_spec_crowded[OF assms, of "store_u32 0" "[]"]
  by (simp add: decode_spec_def spec_bytes_def decode_exactly_def get_extended_def put_extended_def
      new_decoder_at u32.bind_read[simplified] fail_def)

lemma get_ensemble_crowded:
  assumes "crowded_criteria l (en_spec en)"
  shows "get_ensemble_record l (dec_at pre (wire (put_ensemble_record l en) @ rest)) =
    Err E_resource_limit_exceeded"
proof -
  have fits: "within (max_persistence_bytes l) (spec_bytes (en_spec en))"
    using assms by (simp add: crowded_criteria_def)
  then have "encode_spec (en_spec en) l = spec_bytes (en_spec en)"
    by (simp add: encode_spec_eq within_def)
  then show ?thesis
    using fits by (simp add: get_ensemble_record_def put_ensemble_record_def codec_reads
        decode_spec_crowded[OF assms] dfail_def fail_def)
qed

text \<open>One such ensemble behind readable ones makes the whole state unreadable.\<close>

lemma get_state_crowded:
  assumes "ss_ensembles s = a @ en # b" and "list_all (ensemble_record_within l) a"
    and "crowded_criteria l (en_spec en)" and "within (max_records_per_snapshot l) (ss_ensembles s)"
  shows "get_state l (dec_at pre (wire (put_state l s) @ rest)) = Err E_resource_limit_exceeded"
proof -
  have same: "put_state l (durable_state s) = put_state l s" by (rule put_durable_state)
  have "get_state l (dec_at pre (wire (put_state l (durable_state s)) @ rest)) = Err E_resource_limit_exceeded"
  proof -
    have ens: "ss_ensembles (durable_state s) = map durable_ensemble a @ durable_ensemble en # map durable_ensemble b"
      by (simp add: durable_state_def assms(1))
    have ok: "list_all (ensemble_stored l) (map durable_ensemble a)"
      using assms(2) by (simp add: list_all_iff)
    have bad: "get_ensemble_record l (dec_at p (wire (put_ensemble_record l (durable_ensemble en)) @ r)) =
        Err E_resource_limit_exceeded" for p r
      by (rule get_ensemble_crowded) (simp add: assms(3))
    have room: "within (max_records_per_snapshot l)
        (map durable_ensemble a @ durable_ensemble en # map durable_ensemble b)"
      using assms(1,4) by (simp add: within_def)
    show ?thesis
      using ensemble_record_codec.vector_error[OF ok _ bad room]
      by (simp add: get_state_def put_state_def codec_reads ens del: put_durable_ensemble)
  qed
  then show ?thesis by (simp only: same)
qed

lemma decode_state_crowded:
  assumes "ss_ensembles s = a @ en # b" and "list_all (ensemble_record_within l) a"
    and "crowded_criteria l (en_spec en)" and "within (max_records_per_snapshot l) (ss_ensembles s)"
  shows "decode_exactly (get_extended (get_state l)) (wire (put_extended (put_state l) s)) =
    Err E_resource_limit_exceeded"
  using get_state_crowded[OF assms, of "store_u32 0" "[]"]
  by (simp add: decode_exactly_def get_extended_def put_extended_def new_decoder_at
      u32.bind_read[simplified] fail_def)

end
