(* ===== verification/Persistence_Properties.thy ===== *)
theory Persistence_Properties
  imports Sample_Run Recovery_Failures Fabric_Runs
begin

text \<open>
  The properties of persistence: the state file is replaced atomically, damage to it is
  detected, recovery restores what was saved and no live authority, and a specification that
  the runtime accepts can make its state file unrecoverable.
\<close>

section \<open>Evaluation of bounds\<close>

text \<open>The bounds are compared as integers, so that evaluation does not count up to them.\<close>

lemma within_code [code]: "within bound xs \<longleftrightarrow> int (length xs) \<le> uint bound"
  unfolding within_def by (metis of_nat_le_iff of_nat_unat)

lemma require_capacity_code [code]:
  "require_capacity additional e =
     (let cap = uint (max_persistence_bytes (enc_limits e))
      in if cap < int additional \<or> cap - int additional < int (length (enc_buffer e))
         then e\<lparr>enc_buffer := resize_buffer (nat cap) (enc_buffer e)\<rparr> else e)"
proof -
  define cap where "cap = unat (max_persistence_bytes (enc_limits e))"
  have c: "uint (max_persistence_bytes (enc_limits e)) = int cap" by (simp add: cap_def)
  show ?thesis unfolding c require_capacity_def Let_def cap_def[symmetric] by auto
qed

fun field_size :: "Field \<Rightarrow> int" where
  "field_size (F_u8 v) = 1"
| "field_size (F_u16 v) = 2"
| "field_size (F_u32 v) = 4"
| "field_size (F_u64 v) = 8"
| "field_size (F_i64 v) = 8"
| "field_size (F_boolean v) = 1"
| "field_size (F_f64 v) = 8"
| "field_size (F_bytes v) = 4 + int (length v)"
| "field_size (F_string v) = 4 + int (length v)"

fun wire_size :: "Field list \<Rightarrow> int" where
  "wire_size [] = 0"
| "wire_size (f # fs) = field_size f + wire_size fs"

lemma wire_size: "int (length (wire fs)) = wire_size fs"
proof (induction fs)
  case (Cons f fs)
  then show ?case by (cases f) simp_all
qed simp

lemma savable_code [code]:
  "savable im \<longleftrightarrow>
     im_epoch im \<noteq> - 1 \<and> 1 \<le> max_records_per_snapshot (im_limits im) \<and>
     omap_ordered (im_ensembles im) \<and> list_all (\<lambda>(i, en). i = sp_id (en_spec en)) (im_ensembles im) \<and>
     within (max_records_per_snapshot (im_limits im)) (im_ensembles im) \<and>
     list_all (\<lambda>(i, en). ensemble_record_within (im_limits im) en) (im_ensembles im) \<and>
     wire_size (put_extended (put_state (im_limits im)) (stored_of im)) \<le> uint (max_persistence_bytes (im_limits im))"
  unfolding savable_def wire_size[symmetric] within_code[symmetric] by (simp only: within_def)

lemma pred_option_code [code]: "pred_option P None \<longleftrightarrow> True" "pred_option P (Some x) \<longleftrightarrow> P x"
  by simp_all

lemma sample_committed_savable: "savable sample_committed"
  by code_simp

lemma sample_committed_limits: "im_limits sample_committed = limits_defaults"
  by code_simp

section \<open>State files\<close>

text \<open>
  C20: writing a state file replaces it atomically: at every intermediate state the path holds
  the old content or the whole new container, success means the new one, failure the old one,
  and no other file changes but the temporary one, which is gone at the end.
\<close>

theorem state_file_replaced_atomically:
  assumes "write_state_file io serial path payload n l fs = (status, trace)"
  shows "last trace path = (if status = ok_status then Some (build_container payload n) else fs path) \<and>
    list_all (\<lambda>fs'. (fs' path = fs path \<or> fs' path = Some (build_container payload n)) \<and>
      (\<forall>other. fs' other = fs other \<or> other = path \<or> other = temporary_path path serial)) trace \<and>
    (fs (temporary_path path serial) = None \<longrightarrow> last trace (temporary_path path serial) = None)"
  using assms by (auto simp: write_state_file_def Let_def split: if_splits)

theorem state_file_replaced_atomically_witness:
  "\<exists>status trace. write_state_file \<lparr>io_directory = True, io_open = True, io_written = 3, io_rename = True\<rparr> 1 ''state''
      [1, 2] 1 limits_defaults (Map.empty(''state'' \<mapsto> [9])) = (status, trace) \<and> length trace = 4 \<and>
     last trace ''state'' = Some [9]"
proof -
  let ?io = "\<lparr>io_directory = True, io_open = True, io_written = 3, io_rename = True\<rparr>"
  obtain status trace where w: "write_state_file ?io 1 ''state'' [1, 2] 1 limits_defaults
      (Map.empty(''state'' \<mapsto> [9])) = (status, trace)" by fastforce
  moreover from w have "status \<noteq> ok_status" "length trace = 4"
    by (auto simp: write_state_file_def limits_defaults_def Let_def build_container_eq fail_def)
  ultimately show ?thesis using state_file_replaced_atomically[OF w] by simp
qed

text \<open>
  C21: a burst of up to four changed bytes in a state file, inside the checked header or behind
  it, is never accepted: the reader reports an error.
\<close>

theorem container_damage_detected:
  assumes "fs path = Some (p @ w' @ q)" and "build_container payload n = p @ w @ q"
    and "length w' = length w" and "length w \<le> 4" and "w' \<noteq> w"
    and "length p + length w \<le> 36 \<or> 36 \<le> length p"
  shows "\<not> is_ok (read_state_file path l fs)"
  using container_damage[OF assms(2-6)] assms(1) by (simp add: read_state_file_def)

theorem container_damage_detected_witness:
  "\<exists>p q. build_container [1, 2, 3] 1 = p @ [2] @ q \<and>
     \<not> is_ok (read_state_file ''state'' limits_defaults (Map.empty(''state'' \<mapsto> p @ [7] @ q)))"
proof -
  let ?p = "state_header [1, 2, 3] 1 @ [1]"
  have c: "build_container [1, 2, 3] 1 = ?p @ [2] @ [3]" by (simp add: build_container_eq)
  have "\<not> is_ok (read_state_file ''state'' limits_defaults (Map.empty(''state'' \<mapsto> ?p @ [7] @ [3])))"
    by (rule container_damage_detected[where w = "[2]" and w' = "[7]", OF _ c]) simp_all
  with c show ?thesis by blast
qed

section \<open>Recovery\<close>

text \<open>
  C19: a state within its own limits that is saved successfully is recovered: the next epoch
  starts, every ensemble is back with its reports recomputed and its live authority revoked,
  the committed results are the same, and no allocator falls behind the saved one.
\<close>

theorem saved_state_recovers:
  assumes "savable im" and "im_limits im0 = im_limits im"
    and "save_state io serial path im fs = (ok_status, trace)"
    and "recover_state path boot (last trace) im0 = (im', r)"
  shows "r = Ok (im_epoch im + 1) \<and> im_epoch im' = im_epoch im + 1 \<and>
    (\<forall>i. find_ensemble im' i = map_option (\<lambda>en. invalidate_ensemble recovery_reason
       (recompute_reports (durable_ensemble en))) (find_ensemble im i)) \<and>
    (\<forall>i res. current_result i im = Ok res \<longrightarrow> current_result i im' = Ok res) \<and>
    im_ensemble_ids im \<le> im_ensemble_ids im' \<and> im_candidate_ids im \<le> im_candidate_ids im' \<and>
    im_evaluation_ids im \<le> im_evaluation_ids im' \<and> im_result_ids im \<le> im_result_ids im' \<and>
    im_sequences im \<le> im_sequences im'"
proof -
  let ?s = "durable_state (stored_of im)"
  have epoch: "ss_epoch ?s = im_epoch im" by (simp add: durable_state_def stored_of_def)
  have re: "restore_state ?s boot im0 = (im', r)"
    using recover_saved[OF assms(1-3), of boot] assms(4) by simp
  have e: "ss_epoch ?s \<noteq> - 1" using assms(1) by (simp add: epoch savable_def)
  note ok = restore_state_Ok[OF e re]
  note find = saved_ensembles_recovered[OF assms, unfolded recovered_ensemble_def]
  have "current_result i im' = Ok res" if "current_result i im = Ok res" for i res
    using that find[of i] recovered_result
    by (auto simp: current_result_def split: option.splits if_splits)
  then show ?thesis
    using ok find by (simp add: epoch) (simp add: durable_state_def stored_of_def)
qed

theorem saved_state_recovers_witness:
  "\<exists>trace im' res. save_state \<lparr>io_directory = True, io_open = True,
       io_written = length (build_container (serialize_state sample_committed) 1), io_rename = True\<rparr> 1 ''state''
       sample_committed Map.empty = (ok_status, trace) \<and>
     recover_state ''state'' 77 (last trace) (fabric_init config_default) = (im', Ok 2) \<and>
     current_result 7 sample_committed = Ok res \<and> current_result 7 im' = Ok res"
proof -
  let ?io = "\<lparr>io_directory = True, io_open = True,
       io_written = length (build_container (serialize_state sample_committed) 1), io_rename = True\<rparr>"
  have lim: "im_limits (fabric_init config_default) = im_limits sample_committed"
    by (simp add: sample_committed_limits fabric_init_def config_default_def)
  obtain trace where save: "save_state ?io 1 ''state'' sample_committed Map.empty = (ok_status, trace)"
    using serialize_size[OF sample_committed_savable]
    by (simp add: save_state_def write_state_file_def Let_def)
  obtain im' r where rec: "recover_state ''state'' 77 (last trace) (fabric_init config_default) = (im', r)"
    by fastforce
  note rec' = saved_state_recovers[OF sample_committed_savable lim save rec]
  obtain en where "find_ensemble sample_committed 7 = Some en" "en_has_execution en"
      "ex_has_result (en_execution en)" "im_epoch sample_committed = 1"
    by (rule sample_committed_record)
  then have res: "current_result 7 sample_committed = Ok (ex_result (en_execution en))"
    by (simp add: current_result_def)
  with rec' have "current_result 7 im' = Ok (ex_result (en_execution en))" by blast
  moreover have "r = Ok 2" using rec' \<open>im_epoch sample_committed = 1\<close> by simp
  ultimately show ?thesis using save rec res by blast
qed

text \<open>
  C18: recovery is all or nothing and hands no authority back. A failed recovery leaves the
  runtime as it was; a successful one runs in the epoch it returns, where no participant is
  authoritative and no execution is open.
\<close>

theorem recovery_all_or_nothing:
  "case recover_state path boot fs im of
     (im', Err e) \<Rightarrow> im' = im
   | (im', Ok epoch) \<Rightarrow> im_epoch im' = epoch \<and> epoch \<noteq> 0 \<and>
       (\<forall>i en. find_ensemble im' i = Some en \<longrightarrow>
          \<not> execution_open en \<and> (\<forall>p \<in> set (en_participants en). \<not> authoritative epoch p))"
proof -
  have restored: "case restore_state s boot im of
     (im', Err e) \<Rightarrow> im' = im
   | (im', Ok epoch) \<Rightarrow> im_epoch im' = epoch \<and> epoch \<noteq> 0 \<and>
       (\<forall>i en. find_ensemble im' i = Some en \<longrightarrow>
          \<not> execution_open en \<and> (\<forall>p \<in> set (en_participants en). \<not> authoritative epoch p))" for s
  proof (cases "ss_epoch s = - 1")
    case False
    obtain im' r where re: "restore_state s boot im = (im', r)" by fastforce
    note ok = restore_state_Ok[OF False re]
    have "\<not> execution_open en \<and> (\<forall>p \<in> set (en_participants en). \<not> pr_registered p)"
      if "find_ensemble im' i = Some en" for i en
    proof -
      have "find_ensemble im' i = map_option (\<lambda>en. invalidate_ensemble recovery_reason (recompute_reports en))
          (omap_find (load_ensembles (ss_ensembles s)) i)"
        using find_map_ensembles[of "\<lambda>en. invalidate_ensemble recovery_reason (recompute_reports en)"
            "load_ensembles (ss_ensembles s)" im' i] ok(3)
        by (simp add: find_ensemble_def)
      with that obtain en0 where "en = invalidate_ensemble recovery_reason en0" by auto
      then show ?thesis
        using invalidate_ensemble_not_authoritative
        by (auto simp: invalidate_ensemble_def invalidate_execution_def map_execution_def execution_open_def Let_def)
    qed
    moreover have "ss_epoch s + 1 \<noteq> 0" using False by (simp add: eq_neg_iff_add_eq_0)
    ultimately show ?thesis using re ok(1,2) by (auto simp: authoritative_def)
  qed (simp add: restore_state_def fail_def)
  show ?thesis
  proof (cases "read_state_file path (im_limits im) fs")
    case (Ok payload)
    then show ?thesis
      using restored
      by (cases "decode_exactly (get_extended (get_state (im_limits im))) payload")
        (simp_all add: recover_state_def fail_def)
  qed (simp add: recover_state_def fail_def)
qed

theorem recovery_all_or_nothing_witness:
  "recover_state ''state'' 77 Map.empty sample_committed = (sample_committed, Err E_persistence_io_error)"
proof -
  obtain im' where rec: "recover_state ''state'' 77 Map.empty sample_committed = (im', Err E_persistence_io_error)"
    by (simp add: recover_state_def read_state_file_def fail_def)
  show ?thesis
    using recovery_all_or_nothing[where path = "''state''" and boot = 77 and fs = Map.empty
        and im = sample_committed]
    by (simp add: rec)
qed

section \<open>Recovery from an older file\<close>

text \<open>
  Recovery does not compare the file with the state it replaces. Here a state saved before the
  commit is recovered after it: the committed result is gone, under the same generation and
  execution. This is why the steps of \<open>Runtime_Machine\<close> only recover the state saved last.
\<close>

definition good_write :: "Impl \<Rightarrow> Io_Outcome" where
  "good_write im = \<lparr>io_directory = True, io_open = True,
     io_written = length (build_container (serialize_state im) 1), io_rename = True\<rparr>"

lemma good_write_saves:
  assumes "savable im"
  obtains trace where "save_state (good_write im) 1 path im fs = (ok_status, trace)"
  using serialize_size[OF assms] by (simp add: save_state_def write_state_file_def good_write_def Let_def)

definition is_sample_defined :: "Impl \<Rightarrow> bool" where
  "is_sample_defined im \<longleftrightarrow> savable im \<and> im_limits im = limits_defaults \<and>
     (case find_ensemble im 7 of None \<Rightarrow> False | Some en \<Rightarrow> record_key en = (1, 0) \<and> \<not> en_has_execution en)"

lemma sample_defined_evaluates: "is_sample_defined sample_defined"
  by code_simp

lemma sample_run: "rtranclp fabric_step sample_defined sample_committed"
proof -
  have st: "fabric_step sample_defined sample_registered" "fabric_step sample_registered sample_open"
    "fabric_step sample_open sample_dispatched" "fabric_step sample_dispatched sample_committed"
    unfolding sample_committed_def sample_dispatched_def sample_open_def sample_registered_def
    by (rule step_register step_open step_advance step_commit)+
  note extend = converse_rtranclp_into_rtranclp[where r = fabric_step]
  show ?thesis by (rule extend, rule st(1), rule extend, rule st(2), rule extend, rule st(3), rule r_into_rtranclp, rule st(4))
qed

theorem stale_recovery_rolls_back:
  "\<exists>trace im' out. save_state (good_write sample_defined) 1 ''state'' sample_defined Map.empty = (ok_status, trace) \<and>
     rtranclp fabric_step sample_defined sample_committed \<and>
     recover_state ''state'' 77 (last trace) sample_committed = (im', out) \<and>
     is_ok (current_result 7 sample_committed) \<and> execution_key 7 sample_committed = Some (1, 1) \<and>
     current_result 7 im' = Err E_not_found \<and> execution_key 7 im' = Some (1, 0)"
proof -
  have sav: "savable sample_defined" and lim: "im_limits sample_committed = im_limits sample_defined"
    using sample_defined_evaluates sample_committed_limits by (simp_all add: is_sample_defined_def)
  obtain en where en: "find_ensemble sample_defined 7 = Some en" "record_key en = (1, 0)" "\<not> en_has_execution en"
    using sample_defined_evaluates by (auto simp: is_sample_defined_def split: option.splits)
  obtain trace where save: "save_state (good_write sample_defined) 1 ''state'' sample_defined Map.empty =
      (ok_status, trace)" by (rule good_write_saves[OF sav])
  obtain im' out where rec: "recover_state ''state'' 77 (last trace) sample_committed = (im', out)" by fastforce
  have r: "recovered_from_save sample_defined im'"
    unfolding recovered_from_save_def using sav save lim rec by blast
  have key: "execution_key 7 im' = Some (1, 0)"
    using execution_key_recovered[OF r] en(1,2) by (simp add: execution_key_def)
  have "ae_execution (abs_ensemble (recovered_ensemble en)) = None"
    unfolding recovered_ensemble_abs using en(3) by (simp add: abs_ensemble_def)
  then have none: "current_result 7 im' = Err E_not_found"
    by (auto simp: current_result_def recovered_from_save_find[OF r] en(1) abs_ensemble_def split: if_splits)
  have committed: "is_ok (current_result 7 sample_committed) \<and> execution_key 7 sample_committed = Some (1, 1)"
    by (rule sample_committed_record) (simp add: current_result_def execution_key_def record_key_def)
  from save sample_run rec committed none key show ?thesis by blast
qed

section \<open>An accepted specification that blocks recovery\<close>

text \<open>
  C39: a state is written but never read back as soon as one of its specifications carries more
  than sixteen judging criteria: recovery rejects the whole file. The runtime accepts such a
  specification (the instance below), because its validation does not bound the criteria.
\<close>

theorem crowded_specification_blocks_recovery:
  assumes "im_ensembles im = a @ (i, en) # b"
    and "list_all (\<lambda>(i, en). ensemble_record_within (im_limits im) en) a"
    and "crowded_criteria (im_limits im) (en_spec en)"
    and "within (max_records_per_snapshot (im_limits im)) (im_ensembles im)"
    and "within (max_persistence_bytes (im_limits im)) (wire (put_extended (put_state (im_limits im)) (stored_of im)))"
    and "save_state io serial path im fs = (ok_status, trace)" and "im_limits im0 = im_limits im"
  shows "recover_state path boot (last trace) im0 = (im0, Err E_resource_limit_exceeded)"
proof -
  let ?l = "im_limits im"
  have bytes: "serialize_state im = wire (put_extended (put_state ?l) (stored_of im))"
    using assms(5) by (simp add: serialize_state_def put_fields_new within_def)
  have "last trace path = Some (build_container (serialize_state im) 1)"
    using write_state_file_atomic assms(6) unfolding save_state_def by blast
  moreover have "1 \<le> max_records_per_snapshot ?l"
    using assms(1,4) by (cases "max_records_per_snapshot ?l = 0") (auto simp: within_def word_le_nat_alt unat_gt_0)
  ultimately have read: "read_state_file path ?l (last trace) = Ok (serialize_state im)"
    using parse_built[of "serialize_state im" ?l 1] assms(5) by (simp add: read_state_file_def bytes within_def)
  have "decode_exactly (get_extended (get_state ?l)) (serialize_state im) = Err E_resource_limit_exceeded"
    unfolding bytes
    by (rule decode_state_crowded[where a = "map snd a" and en = en and b = "map snd b"])
      (use assms(1-4) in \<open>auto simp: stored_of_def list_all_iff within_def\<close>)
  then show ?thesis using read by (simp add: recover_state_def assms(7) fail_def)
qed

definition crowded_spec :: EnsembleSpec where
  "crowded_spec = sample_spec\<lparr>sp_judging_criteria := map (\<lambda>i. \<lparr>cri_id = i, cri_version = 1\<rparr>)
     [1, 2, 3, 4, 5, 6, 7, 8, 9, 10, 11, 12, 13, 14, 15, 16, 17]\<rparr>"

definition crowded :: Impl where
  "crowded = fst (define_ensemble crowded_spec (fabric_init config_default))"

definition crowded_check :: "Impl \<times> EnsembleGeneration outcome \<Rightarrow> bool" where
  "crowded_check = (\<lambda>(im, r). is_ok r \<and> im_limits im = limits_defaults \<and>
     (case im_ensembles im of [] \<Rightarrow> False | (i, en) # rest \<Rightarrow> rest = [] \<and> i = 7 \<and>
        spec_within limits_defaults (en_spec en\<lparr>sp_judging_criteria := []\<rparr>) \<and>
        length (sp_judging_criteria (en_spec en)) = 17 \<and>
        wire_size (put_extended put_spec (en_spec en)) \<le> 10000) \<and>
     wire_size (put_extended (put_state limits_defaults) (stored_of im)) \<le> 10000)"

lemma crowded_evaluates: "crowded_check (define_ensemble crowded_spec (fabric_init config_default))"
  by code_simp

theorem crowded_specification_blocks_recovery_witness:
  "is_ok (snd (define_ensemble crowded_spec (fabric_init config_default))) \<and>
   (\<exists>trace. save_state \<lparr>io_directory = True, io_open = True,
       io_written = length (build_container (serialize_state crowded) 1), io_rename = True\<rparr> 1 ''state''
       crowded Map.empty = (ok_status, trace) \<and>
     recover_state ''state'' 77 (last trace) (fabric_init config_default) =
       (fabric_init config_default, Err E_resource_limit_exceeded))"
proof -
  let ?io = "\<lparr>io_directory = True, io_open = True,
       io_written = length (build_container (serialize_state crowded) 1), io_rename = True\<rparr>"
  obtain en where crowded: "is_ok (snd (define_ensemble crowded_spec (fabric_init config_default)))"
      "im_limits crowded = limits_defaults" "im_ensembles crowded = [(7, en)]"
      "spec_within limits_defaults (en_spec en\<lparr>sp_judging_criteria := []\<rparr>)"
      "length (sp_judging_criteria (en_spec en)) = 17"
      "wire_size (put_extended put_spec (en_spec en)) \<le> 10000"
      "wire_size (put_extended (put_state limits_defaults) (stored_of crowded)) \<le> 10000"
  proof -
    obtain im r where d: "define_ensemble crowded_spec (fabric_init config_default) = (im, r)" by fastforce
    then have im: "crowded = im" by (simp add: crowded_def)
    from crowded_evaluates[unfolded d crowded_check_def] that show thesis
      unfolding im d by (auto split: list.splits)
  qed
  have cap: "uint (max_persistence_bytes limits_defaults) = 33554432"
    by (simp add: limits_defaults_def)
  have fits: "within (max_persistence_bytes limits_defaults) (wire (put_extended put_spec (en_spec en)))"
      "within (max_persistence_bytes limits_defaults)
        (wire (put_extended (put_state limits_defaults) (stored_of crowded)))"
    unfolding within_code wire_size cap using crowded(6,7) by simp_all
  have over: "crowded_criteria limits_defaults (en_spec en)"
    using crowded(4,5) fits(1) by (simp add: crowded_criteria_def spec_bytes_def)
  have bytes: "length (serialize_state crowded) \<le> unat (max_persistence_bytes limits_defaults)"
    using fits(2) by (simp add: serialize_state_def put_fields_new within_def crowded(2))
  then obtain trace where save: "save_state ?io 1 ''state'' crowded Map.empty = (ok_status, trace)"
    by (simp add: save_state_def write_state_file_def Let_def crowded(2))
  have lim: "im_limits (fabric_init config_default) = im_limits crowded"
    unfolding crowded(2) by code_simp
  have "recover_state ''state'' 77 (last trace) (fabric_init config_default) =
      (fabric_init config_default, Err E_resource_limit_exceeded)"
  proof (rule crowded_specification_blocks_recovery[where a = "[]" and b = "[]" and i = 7 and en = en,
        OF _ _ _ _ _ save lim])
    show "im_ensembles crowded = [] @ (7, en) # []" using crowded(3) by simp
    show "crowded_criteria (im_limits crowded) (en_spec en)" using over crowded(2) by simp
    have "uint (max_records_per_snapshot limits_defaults) = 4096" by (simp add: limits_defaults_def)
    then show "within (max_records_per_snapshot (im_limits crowded)) (im_ensembles crowded)"
      unfolding crowded(2,3) within_code by simp
    show "within (max_persistence_bytes (im_limits crowded))
        (wire (put_extended (put_state (im_limits crowded)) (stored_of crowded)))"
      unfolding crowded(2) by (rule fits(2))
  qed simp
  with crowded(1) save show ?thesis by blast
qed

end
