(* ===== verification/Inspection.thy ===== *)
theory Inspection
  imports Fabric_Commit
begin

text \<open>
  The read-only views (\<^verbatim>\<open>src/fabric_inspect.cpp\<close>, the snapshot types of \<^verbatim>\<open>fabric.hpp\<close> and
  \<^verbatim>\<open>participant.hpp\<close>, \<^verbatim>\<open>EnsembleResult::render\<close>): \<^verbatim>\<open>inspect\<close>, \<^verbatim>\<open>list_ensembles\<close> and the text
  report. A report is an option, because rendering a number can overrun its buffer.
\<close>

section \<open>Snapshots\<close>

record ParticipantSnapshot =
  psn_id :: ParticipantId
  psn_generation :: ParticipantGeneration
  psn_label :: string
  psn_roles :: RoleSet
  psn_required :: bool
  psn_domain :: string
  psn_priority :: u32
  psn_status :: ParticipantStatus
  psn_worker :: WorkerId
  psn_worker_boot :: WorkerBootId
  psn_coordinator_epoch :: CoordinatorEpoch
  psn_profile :: CompatibilityProfile
  psn_replacement_count :: u32
  psn_candidates_completed :: u32
  psn_candidates_failed :: u32
  psn_candidates_abstained :: u32
  psn_evaluations_submitted :: u32
  psn_retries_consumed :: u32
  psn_fallback_activated :: bool
  psn_authoritative :: bool

record EnsembleSummary =
  sm_id :: EnsembleId
  sm_generation :: EnsembleGeneration
  sm_label :: string
  sm_execution_status :: ExecutionStatus
  sm_coordinator_epoch :: CoordinatorEpoch
  sm_participants :: u32
  sm_candidates :: u32
  sm_evaluations :: u32
  sm_has_result :: bool

record EnsembleSnapshot =
  sn_id :: EnsembleId
  sn_generation :: EnsembleGeneration
  sn_label :: string
  sn_task_class :: string
  sn_spec_fingerprint :: u64
  sn_coordinator_epoch :: CoordinatorEpoch
  sn_execution :: EnsembleExecutionId
  sn_attempt_generation :: EnsembleAttemptGeneration
  sn_execution_status :: ExecutionStatus
  sn_cancelled :: bool
  sn_superseded :: bool
  sn_revalidation_required :: bool
  sn_fallback_activated :: bool
  sn_fallback_depth :: u32
  sn_participants :: "ParticipantSnapshot list"
  sn_candidates :: "CandidateSnapshot list"
  sn_evaluations :: "EvaluationSnapshot list"
  sn_quorum :: QuorumReport
  sn_consensus :: ConsensusReport
  sn_arbitration :: ArbitrationReport
  sn_commits :: "CommitRecord list"
  sn_has_result :: bool
  sn_result :: EnsembleResult
  sn_explanation :: "ExplanationEntry list"
  sn_spec :: EnsembleSpec

definition snapshot_participant :: "CoordinatorEpoch \<Rightarrow> ParticipantRecord \<Rightarrow> ParticipantSnapshot" where
  "snapshot_participant epoch p =
     \<lparr>psn_id = pr_id p, psn_generation = pr_generation p, psn_label = ps_label (pr_declaration p),
      psn_roles = ps_roles (pr_declaration p), psn_required = ps_required (pr_declaration p),
      psn_domain = ps_domain (pr_declaration p), psn_priority = ps_priority (pr_declaration p),
      psn_status = pr_status p, psn_worker = pr_worker p, psn_worker_boot = pr_worker_boot p,
      psn_coordinator_epoch = pr_coordinator_epoch p, psn_profile = pr_profile p,
      psn_replacement_count = pr_replacement_count p, psn_candidates_completed = pr_candidates_completed p,
      psn_candidates_failed = pr_candidates_failed p, psn_candidates_abstained = pr_candidates_abstained p,
      psn_evaluations_submitted = pr_evaluations_submitted p, psn_retries_consumed = pr_retries_consumed p,
      psn_fallback_activated = pr_fallback_activated p, psn_authoritative = authoritative epoch p\<rparr>"

definition inspect :: "EnsembleId \<Rightarrow> Impl \<Rightarrow> EnsembleSnapshot outcome" where
  "inspect i im =
     (case find_ensemble im i of
        None \<Rightarrow> fail E_unknown_ensemble
      | Some en \<Rightarrow>
          let spec = en_spec en;
              sn = \<lparr>sn_id = sp_id spec, sn_generation = sp_generation spec, sn_label = sp_label spec,
                    sn_task_class = sp_task_class spec, sn_spec_fingerprint = sp_fingerprint spec,
                    sn_coordinator_epoch = im_epoch im, sn_execution = 0, sn_attempt_generation = 0,
                    sn_execution_status = XS_none, sn_cancelled = False, sn_superseded = en_superseded en,
                    sn_revalidation_required = False, sn_fallback_activated = False, sn_fallback_depth = 0,
                    sn_participants = map (snapshot_participant (im_epoch im)) (en_participants en),
                    sn_candidates = [], sn_evaluations = [], sn_quorum = quorum_report_default,
                    sn_consensus = consensus_report_default, sn_arbitration = arbitration_report_default,
                    sn_commits = [], sn_has_result = False, sn_result = result_default,
                    sn_explanation = [], sn_spec = spec\<rparr>
          in if \<not> en_has_execution en then Ok sn
             else let ex = en_execution en; bound = max_records_per_snapshot (im_limits im)
             in Ok (sn\<lparr>sn_execution := ex_id ex, sn_attempt_generation := ex_attempt_generation ex,
                      sn_execution_status := ex_status ex, sn_cancelled := (ex_status ex = XS_cancelled),
                      sn_revalidation_required := (ex_status ex = XS_revalidation_required),
                      sn_fallback_activated := ex_fallback_activated ex,
                      sn_fallback_depth := ex_fallback_depth ex,
                      sn_quorum := (ex_quorum ex)\<lparr>qr_evaluations := size32 (ex_evaluations ex)\<rparr>,
                      sn_consensus := ex_consensus ex, sn_arbitration := ex_arbitration ex,
                      sn_commits := ex_commits ex, sn_has_result := ex_has_result ex,
                      sn_result := (if ex_has_result ex then ex_result ex else result_default),
                      sn_explanation := ex_explanation ex,
                      sn_candidates := candidate_views en ex bound,
                      sn_evaluations := evaluation_views en ex bound\<rparr>))"

definition summarize_ensemble :: "CoordinatorEpoch \<Rightarrow> EnsembleRecord \<Rightarrow> EnsembleSummary" where
  "summarize_ensemble epoch en =
     (let sm = \<lparr>sm_id = sp_id (en_spec en), sm_generation = sp_generation (en_spec en),
                sm_label = sp_label (en_spec en), sm_execution_status = XS_none,
                sm_coordinator_epoch = epoch, sm_participants = size32 (en_participants en),
                sm_candidates = 0, sm_evaluations = 0, sm_has_result = False\<rparr>
      in if en_has_execution en
         then let ex = en_execution en
              in sm\<lparr>sm_execution_status := ex_status ex, sm_candidates := size32 (ex_candidates ex),
                    sm_evaluations := size32 (ex_evaluations ex), sm_has_result := ex_has_result ex\<rparr>
         else sm)"

definition list_ensembles :: "Impl \<Rightarrow> EnsembleSummary list" where
  "list_ensembles im = map (\<lambda>(i, en). summarize_ensemble (im_epoch im) en) (im_ensembles im)"

section \<open>The text report\<close>

definition concat_text :: "string option list \<Rightarrow> string option" where
  "concat_text parts = map_option concat (those parts)"

definition newline :: string where "newline = [CHR 0x0A]"

definition if_text :: "bool \<Rightarrow> string \<Rightarrow> string" where
  "if_text c str = (if c then str else [])"

definition dec_text :: "'w::len word \<Rightarrow> string" where
  "dec_text v = dec_string (unat v)"

definition result_render :: "EnsembleResult \<Rightarrow> string option" where
  "result_render r =
     concat_text ([Some (
       ''result '' @ id_to_string (rs_id r) @ '' generation='' @ id_to_string (rs_generation r) @
       '' ensemble='' @ id_to_string (rs_ensemble r) @
       '' ensemble_generation='' @ id_to_string (rs_ensemble_generation r) @
       '' execution='' @ id_to_string (rs_execution r) @
       '' attempt='' @ id_to_string (rs_attempt_generation r) @
       '' epoch='' @ id_to_string (rs_coordinator_epoch r) @
       '' decision='' @ decision_to_string (rs_decision r) @ '' selected='' @
       (if rs_has_selected r then id_to_string (rs_selected_candidate r) else ''none'') @
       if_text (rs_has_selected r)
         ('' selected_generation='' @ id_to_string (rs_selected_candidate_generation r) @
          '' selected_participant='' @ id_to_string (rs_selected_participant r) @
          '' role='' @ role_to_string (rs_selected_role r)) @
       '' payload_bytes='' @ dec_text (rs_payload_bytes r) @
       '' payload_digest='' @ dec_text (rs_payload_digest r) @
       '' commit_sequence='' @ id_to_string (rs_commit_sequence r) @
       '' commit_fingerprint='' @ dec_text (rs_commit_fingerprint r) @
       if_text (rs_fallback_used r) ('' fallback_depth='' @ dec_text (rs_fallback_depth r)) @ newline @
       ''  '' @ quorum_render (rs_quorum r) @ newline @
       ''  '' @ consensus_render (rs_consensus r) @ newline @
       ''  '' @ arbitration_render (rs_arbitration r))] @
     concat (map (\<lambda>x. [Some (newline @ ''  ['' @ xp_subject x @ ''] ''), xp_detail x]) (rs_explanation r)))"

definition participant_line :: "ParticipantSnapshot \<Rightarrow> string" where
  "participant_line p =
     newline @ ''  participant '' @ id_to_string (psn_id p) @ '' generation='' @ id_to_string (psn_generation p) @
     '' roles='' @ roles_to_string (psn_roles p) @ (if psn_required p then '' required'' else '' optional'') @
     '' status='' @ participant_status_to_string (psn_status p) @
     (if psn_authoritative p then '' authoritative'' else '' not_authoritative'') @
     '' worker='' @ id_to_string (psn_worker p) @ '' boot='' @ id_to_string (psn_worker_boot p) @
     if_text (psn_replacement_count p \<noteq> 0) ('' replacements='' @ dec_text (psn_replacement_count p))"

definition candidate_line :: "CandidateSnapshot \<Rightarrow> string" where
  "candidate_line c =
     newline @ ''  candidate '' @ id_to_string (csn_id c) @ '' generation='' @ id_to_string (csn_generation c) @
     '' participant='' @ id_to_string (csn_participant c) @ '' role='' @ role_to_string (csn_role c) @
     '' state='' @ candidate_state_to_string (csn_state c) @ '' attempt='' @ dec_text (csn_attempt c) @
     '' bytes='' @ dec_text (csn_payload_bytes c) @
     if_text (csn_failure c \<noteq> E_ok) ('' failure='' @ error_to_string (csn_failure c)) @
     if_text (csn_elimination_reason c \<noteq> []) ('' eliminated='' @ csn_elimination_reason c)"

definition evaluation_line :: "EvaluationSnapshot \<Rightarrow> string option" where
  "evaluation_line e =
     concat_text [Some (
       newline @ ''  evaluation '' @ id_to_string (esn_id e) @ '' evaluator='' @ id_to_string (esn_evaluator e) @
       '' eg='' @ id_to_string (esn_evaluator_generation e) @ '' candidate='' @ id_to_string (esn_candidate e) @
       '' cg='' @ id_to_string (esn_candidate_generation e) @
       '' criterion='' @ dec_text (cri_id (esn_criterion e)) @ ''.'' @ dec_text (cri_version (esn_criterion e)) @
       '' kind='' @ criterion_kind_to_string (esn_kind e) @ '' judgment='' @ judgment_to_string (esn_judgment e) @
       '' verification='' @ verification_to_string (esn_verification e)),
       (if esn_score_defined e then map_option (\<lambda>str. '' score='' @ str) (format_double (esn_score e)) else Some []),
       Some (if esn_current e then '' current'' else '' superseded'')]"

definition commit_line :: "CommitRecord \<Rightarrow> string" where
  "commit_line c =
     newline @ ''  commit result='' @ id_to_string (cm_result c) @ '' sequence='' @ id_to_string (cm_sequence c) @
     '' epoch='' @ id_to_string (cm_coordinator_epoch c) @ '' decision='' @ decision_to_string (cm_decision c) @
     '' fingerprint='' @ dec_text (cm_commit_fingerprint c)"

definition snapshot_render :: "EnsembleSnapshot \<Rightarrow> string option" where
  "snapshot_render sn =
     concat_text ([Some (
       ''ensemble '' @ id_to_string (sn_id sn) @ '' generation='' @ id_to_string (sn_generation sn) @
       '' label='' @ [CHR 0x27] @ sn_label sn @ [CHR 0x27] @
       '' epoch='' @ id_to_string (sn_coordinator_epoch sn) @
       '' spec_fingerprint='' @ dec_text (sn_spec_fingerprint sn) @ newline @
       ''execution='' @ id_to_string (sn_execution sn) @ '' attempt='' @ id_to_string (sn_attempt_generation sn) @
       '' status='' @ execution_status_to_string (sn_execution_status sn) @
       if_text (sn_superseded sn) '' superseded=true'' @
       if_text (sn_cancelled sn) '' cancelled=true'' @
       if_text (sn_revalidation_required sn) '' revalidation_required=true'' @
       if_text (sn_fallback_activated sn) ('' fallback_depth='' @ dec_text (sn_fallback_depth sn)) @
       concat (map participant_line (sn_participants sn)) @ concat (map candidate_line (sn_candidates sn)))] @
     map evaluation_line (sn_evaluations sn) @
     [Some (newline @ ''  '' @ quorum_render (sn_quorum sn) @ newline @
       ''  '' @ consensus_render (sn_consensus sn) @ newline @
       ''  '' @ arbitration_render (sn_arbitration sn) @
       concat (map commit_line (sn_commits sn)))] @
     (if sn_has_result sn then [Some (newline @ ''  ''), result_render (sn_result sn)] else []))"

section \<open>Lemmas\<close>

lemma concat_text_None: "concat_text parts = None \<longleftrightarrow> None \<in> set parts"
proof (induction parts)
  case (Cons p parts)
  then show ?case by (cases p) (auto simp: concat_text_def)
qed (simp add: concat_text_def)

lemma inspect_Ok:
  assumes "inspect i im = Ok sn"
  obtains en where "find_ensemble im i = Some en" and "sn_id sn = sp_id (en_spec en)"
    and "sn_generation sn = sp_generation (en_spec en)" and "sn_superseded sn = en_superseded en"
    and "sn_has_result sn \<longleftrightarrow> en_has_execution en \<and> ex_has_result (en_execution en)"
    and "sn_has_result sn \<Longrightarrow> sn_result sn = ex_result (en_execution en)"
    and "length (sn_candidates sn) \<le> unat (max_records_per_snapshot (im_limits im))"
    and "length (sn_evaluations sn) \<le> unat (max_records_per_snapshot (im_limits im))"
    and "list_all2 (\<lambda>v p. psn_id v = pr_id p \<and> (psn_authoritative v \<longleftrightarrow> authoritative (im_epoch im) p))
      (sn_participants sn) (en_participants en)"
proof -
  obtain en where en: "find_ensemble im i = Some en" using assms by (auto simp: inspect_def split: option.splits)
  have "list_all2 (\<lambda>v p. psn_id v = pr_id p \<and> (psn_authoritative v \<longleftrightarrow> authoritative (im_epoch im) p))
      (map (snapshot_participant (im_epoch im)) (en_participants en)) (en_participants en)"
    by (simp add: list_all2_map1 list.rel_refl snapshot_participant_def)
  then show thesis
    using assms en that[OF en]
    by (cases "en_has_execution en") (auto simp: inspect_def Let_def candidate_views_def evaluation_views_def)
qed

text \<open>The result a snapshot shows is the current result.\<close>

lemma inspect_current_result:
  assumes "inspect i im = Ok sn"
  shows "(if sn_has_result sn then current_result i im = Ok (sn_result sn) else \<not> is_ok (current_result i im))"
proof -
  obtain en where "find_ensemble im i = Some en"
      "sn_has_result sn \<longleftrightarrow> en_has_execution en \<and> ex_has_result (en_execution en)"
      "sn_has_result sn \<Longrightarrow> sn_result sn = ex_result (en_execution en)"
    using inspect_Ok[OF assms] by metis
  then show ?thesis by (auto simp: current_result_def is_ok_def fail_def)
qed

lemma list_ensembles_ids:
  assumes "list_all (\<lambda>(i, en). i = sp_id (en_spec en)) (im_ensembles im)"
  shows "map sm_id (list_ensembles im) = map fst (im_ensembles im)"
  using assms by (auto simp: list_ensembles_def summarize_ensemble_def Let_def list_all_iff)

end
