(* ===== verification/Coordinator.thy ===== *)
theory Coordinator
  imports Inspection Wire_Messages Action_Messages Recovery Fabric_Machine
begin

text \<open>
  The distributed coordinator (\<^verbatim>\<open>src/distributed/coordinator.cpp\<close>, \<^verbatim>\<open>coordinator.hpp\<close>): its
  connections, the handler of every inbound frame, the pump that turns the runtime's actions
  into frames, parked finalize requests, and the single event loop. Reader and accept threads
  only enqueue events and insert connections; they are separate steps of \<open>coordinator_step\<close>.

  Connection objects live in \<open>co_objects\<close>, because events and parked requests keep them alive;
  \<open>co_connections\<close> lists the keys of the hash map \<^verbatim>\<open>connections_\<close> in its iteration order, which
  the language leaves open, so that an insertion may permute it. \<open>co_sent\<close> records the frames
  that channels encode, in order. The wording of error messages, which the outcomes of this
  development do not carry, is the function \<open>cc_diagnostic\<close>. Sockets, the port file and
  the shutdown are not modelled.
\<close>

section \<open>State\<close>

record Connection =
  cx_worker :: WorkerId
  cx_worker_boot :: WorkerBootId
  cx_label :: string
  cx_handshaken :: bool
  cx_registrations :: "(u64, ParticipantGeneration) omap"
  cx_closed :: bool

definition connection_init :: Connection where
  "connection_init = \<lparr>cx_worker = 0, cx_worker_boot = 0, cx_label = [], cx_handshaken = False,
     cx_registrations = [], cx_closed = False\<rparr>"

record PendingFinalize =
  pf_connection :: u64
  pf_correlation :: strong_id
  pf_ensemble :: EnsembleId
  pf_generation :: EnsembleGeneration

datatype (plugins only: code) InboundEvent = I_frame u64 Frame | I_closed u64

record CoordinatorConfig =
  cc_limits :: Limits
  cc_state_path :: string
  cc_persist_on_change :: bool
  cc_coordinator_boot :: WorkerBootId
  cc_max_connections :: u32
  cc_diagnostic :: "EnsembleError \<Rightarrow> string"

record Coordinator =
  co_config :: CoordinatorConfig
  co_fabric :: Impl
  co_objects :: "(u64, Connection) omap"
  co_connections :: "u64 list"
  co_next_connection :: u64
  co_queue :: "InboundEvent list"
  co_pending :: "PendingFinalize list"
  co_dirty :: bool
  co_sent :: "(u64 \<times> Frame) list"
  co_files :: files

abbreviation co_limits :: "Coordinator \<Rightarrow> Limits" where
  "co_limits co \<equiv> cc_limits (co_config co)"

definition update_connection :: "u64 \<Rightarrow> (Connection \<Rightarrow> Connection) \<Rightarrow> Coordinator \<Rightarrow> Coordinator" where
  "update_connection c f co =
     (case omap_find (co_objects co) c of
        None \<Rightarrow> co | Some cx \<Rightarrow> co\<lparr>co_objects := omap_put c (f cx) (co_objects co)\<rparr>)"

definition connection_of :: "Coordinator \<Rightarrow> u64 \<Rightarrow> Connection" where
  "connection_of co c = (case omap_find (co_objects co) c of None \<Rightarrow> connection_init | Some cx \<Rightarrow> cx)"

definition set_fabric :: "Impl \<Rightarrow> Coordinator \<Rightarrow> Coordinator" where
  "set_fabric im co = co\<lparr>co_fabric := im\<rparr>"

definition mark_dirty :: "Coordinator \<Rightarrow> Coordinator" where
  "mark_dirty co = co\<lparr>co_dirty := True\<rparr>"

section \<open>Sending\<close>

definition send_frame :: "u64 \<Rightarrow> Frame \<Rightarrow> Coordinator \<Rightarrow> Coordinator" where
  "send_frame c f co =
     (if is_ok (encode_frame f (co_limits co)) then co\<lparr>co_sent := co_sent co @ [(c, f)]\<rparr> else co)"

definition send_error :: "u64 \<Rightarrow> strong_id \<Rightarrow> EnsembleError \<Rightarrow> string \<Rightarrow> Coordinator \<Rightarrow> Coordinator" where
  "send_error c correlation code detail co =
     (let m = \<lparr>erm_code = error_code code, erm_correlation = correlation,
               erm_detail = sanitize_text detail (unat (max_metadata_bytes (co_limits co)))\<rparr>
      in send_frame c (frame_default\<lparr>fr_type := MT_error_response, fr_correlation := correlation,
           fr_epoch := im_epoch (co_fabric co), fr_worker_boot := im_coordinator_boot (co_fabric co),
           fr_payload := payload_of (co_limits co) (encode_error_response m)\<rparr>) co)"

definition send_code :: "u64 \<Rightarrow> strong_id \<Rightarrow> EnsembleError \<Rightarrow> Coordinator \<Rightarrow> Coordinator" where
  "send_code c correlation code co = send_error c correlation code (cc_diagnostic (co_config co) code) co"

definition error_detail :: "EnsembleError \<Rightarrow> Coordinator \<Rightarrow> string" where
  "error_detail code co =
     sanitize_text (cc_diagnostic (co_config co) code) (unat (max_metadata_bytes (co_limits co)))"

definition find_connection_for :: "ParticipantId \<Rightarrow> Coordinator \<Rightarrow> u64 option" where
  "find_connection_for p co =
     find (\<lambda>c. omap_find (cx_registrations (connection_of co c)) p \<noteq> None) (co_connections co)"

section \<open>The pump\<close>

definition undelivered_authority :: "CoordinatorEpoch \<Rightarrow> DispatchAction \<Rightarrow> ParticipantAuthority" where
  "undelivered_authority epoch da =
     \<lparr>pa_ensemble = xr_ensemble (da_execution da),
      pa_ensemble_generation = xr_ensemble_generation (da_execution da), pa_participant = da_participant da,
      pa_participant_generation = da_participant_generation da, pa_worker = 0, pa_worker_boot = 0,
      pa_coordinator_epoch = epoch\<rparr>"

definition send_action :: "u64 \<Rightarrow> MessageType \<Rightarrow> Sequence \<Rightarrow> Field list \<Rightarrow> Coordinator \<Rightarrow> Coordinator" where
  "send_action c kind seq fs co =
     send_frame c (frame_default\<lparr>fr_type := kind, fr_correlation := seq, fr_epoch := im_epoch (co_fabric co),
       fr_worker_boot := cx_worker_boot (connection_of co c), fr_sequence := seq,
       fr_payload := payload_of (co_limits co) fs\<rparr>) co"

fun pump_action :: "FabricAction \<Rightarrow> Coordinator \<Rightarrow> Coordinator" where
  "pump_action (Dispatch da) co =
     (case find_connection_for (da_participant da) co of
        None \<Rightarrow> set_fabric (fst (report_participant_failure (undelivered_authority (im_epoch (co_fabric co)) da)
                  FK_unavailable ''no authoritative connection for dispatch'' (co_fabric co))) co
      | Some c \<Rightarrow> send_action c MT_dispatch_candidate (da_sequence da)
                  (encode_dispatch_candidate (dispatch_message (im_epoch (co_fabric co)) da)) co)"
| "pump_action (Evaluate va) co =
     (case find_connection_for (va_judge va) co of
        None \<Rightarrow> co
      | Some c \<Rightarrow> send_action c MT_evaluation_request (va_sequence va)
                  (encode_evaluation_request (evaluation_message (im_epoch (co_fabric co)) va)) co)"
| "pump_action (Cancel xa) co =
     (case find_connection_for (xa_participant xa) co of
        None \<Rightarrow> co
      | Some c \<Rightarrow> send_action c MT_cancel (xa_sequence xa)
                  (encode_cancel (cancel_message (im_epoch (co_fabric co)) xa)) co)"
| "pump_action (Fallback ba) co = co"

fun pump_rounds :: "nat \<Rightarrow> EnsembleId \<Rightarrow> Coordinator \<Rightarrow> Coordinator" where
  "pump_rounds 0 i co = co"
| "pump_rounds (Suc n) i co =
     (case get_spec i (co_fabric co) of
        Err e \<Rightarrow> co
      | Ok spec \<Rightarrow>
          (case advance i (sp_generation spec) (co_fabric co) of
             (im, Err e) \<Rightarrow> set_fabric im co
           | (im, Ok actions) \<Rightarrow>
               if actions = [] then set_fabric im co
               else pump_rounds n i (fold pump_action actions (set_fabric im co))))"

definition pump :: "EnsembleId \<Rightarrow> Coordinator \<Rightarrow> Coordinator" where
  "pump = pump_rounds 8"

definition pump_all :: "Coordinator \<Rightarrow> Coordinator" where
  "pump_all co = fold (\<lambda>sm. pump (sm_id sm)) (list_ensembles (co_fabric co)) co"

section \<open>Lost connections\<close>

definition lost_authority ::
  "Connection \<Rightarrow> CoordinatorEpoch \<Rightarrow> EnsembleId \<Rightarrow> EnsembleGeneration \<Rightarrow> u64 \<times> ParticipantGeneration \<Rightarrow>
   ParticipantAuthority" where
  "lost_authority cx epoch i generation = (\<lambda>(p, g).
     \<lparr>pa_ensemble = i, pa_ensemble_generation = generation, pa_participant = p,
      pa_participant_generation = g, pa_worker = cx_worker cx, pa_worker_boot = cx_worker_boot cx,
      pa_coordinator_epoch = epoch\<rparr>)"

definition report_lost :: "ParticipantAuthority \<Rightarrow> Impl \<Rightarrow> Impl" where
  "report_lost a im = fst (report_participant_failure a FK_unavailable ''worker process connection closed'' im)"

text \<open>The epoch of the authorities is read once, before the ensembles are listed.\<close>

definition lose_ensemble :: "Connection \<Rightarrow> CoordinatorEpoch \<Rightarrow> EnsembleId \<Rightarrow> Coordinator \<Rightarrow> Coordinator" where
  "lose_ensemble cx epoch i co =
     (case get_spec i (co_fabric co) of
        Err e \<Rightarrow> co
      | Ok spec \<Rightarrow>
          pump i (set_fabric (fold report_lost
            (map (lost_authority cx epoch i (sp_generation spec)) (cx_registrations cx)) (co_fabric co)) co))"

definition handle_connection_loss :: "u64 \<Rightarrow> Coordinator \<Rightarrow> Coordinator" where
  "handle_connection_loss c co =
     (let cx = connection_of co c
      in if cx_registrations cx = [] then co
         else fold (\<lambda>sm. lose_ensemble cx (im_epoch (co_fabric co)) (sm_id sm)) (list_ensembles (co_fabric co)) co)"

section \<open>Inbound frames\<close>

definition with_message ::
  "'a outcome \<Rightarrow> u64 \<Rightarrow> Frame \<Rightarrow> ('a \<Rightarrow> Coordinator \<Rightarrow> Coordinator) \<Rightarrow> Coordinator \<Rightarrow> Coordinator" where
  "with_message m c f k co = (case m of Err e \<Rightarrow> send_code c (fr_correlation f) e co | Ok x \<Rightarrow> k x co)"

definition handle_hello :: "u64 \<Rightarrow> Frame \<Rightarrow> HelloMessage \<Rightarrow> Coordinator \<Rightarrow> Coordinator" where
  "handle_hello c f m co =
     (let co = update_connection c (\<lambda>cx. cx\<lparr>cx_worker := hm_worker m, cx_worker_boot := hm_worker_boot m,
                 cx_label := sanitize_text (hm_label m) (unat (max_label_bytes (co_limits co))),
                 cx_handshaken := True\<rparr>) co;
          ack = \<lparr>ck_coordinator_epoch = im_epoch (co_fabric co), ck_coordinator_boot = im_coordinator_boot (co_fabric co),
                 ck_status_code = 0, ck_accepted = True, ck_detail = ''handshake accepted''\<rparr>
      in send_frame c (frame_default\<lparr>fr_type := MT_hello_ack, fr_correlation := fr_correlation f,
           fr_epoch := ck_coordinator_epoch ack, fr_worker_boot := ck_coordinator_boot ack,
           fr_payload := payload_of (co_limits co) (encode_coordinator_ack ack)\<rparr>) co)"

definition handle_register :: "u64 \<Rightarrow> Frame \<Rightarrow> RegisterParticipantMessage \<Rightarrow> Coordinator \<Rightarrow> Coordinator" where
  "handle_register c f m co =
     (let cx = connection_of co c;
          r = (rpm_registration m)\<lparr>rg_worker := cx_worker cx, rg_worker_boot := cx_worker_boot cx\<rparr>;
          (im, registered) = register_participant r (co_fabric co);
          co = set_fabric im co;
          ack = \<lparr>rk_coordinator_epoch = im_epoch im, rk_participant = rg_participant r,
                 rk_participant_generation = 0, rk_accepted = False, rk_code = error_code E_ok, rk_detail = []\<rparr>;
          (ack, co) =
            (case registered of
               Ok g \<Rightarrow> (ack\<lparr>rk_accepted := True, rk_participant_generation := g,
                            rk_detail := ''registration accepted''\<rparr>,
                       mark_dirty (update_connection c
                         (\<lambda>cx. cx\<lparr>cx_registrations := omap_put (rg_participant r) g (cx_registrations cx)\<rparr>) co))
             | Err e \<Rightarrow> (ack\<lparr>rk_accepted := False, rk_code := error_code e, rk_detail := error_detail e co\<rparr>, co));
          co = send_frame c (frame_default\<lparr>fr_type := MT_register_ack, fr_correlation := fr_correlation f,
                 fr_epoch := rk_coordinator_epoch ack,
                 fr_payload := payload_of (co_limits co) (encode_registration_ack ack)\<rparr>) co
      in if is_ok registered then pump_all co else co)"

definition after_submission :: "u64 \<Rightarrow> Frame \<Rightarrow> EnsembleId \<Rightarrow> Impl \<times> 'a outcome \<Rightarrow> Coordinator \<Rightarrow> Coordinator" where
  "after_submission c f i = (\<lambda>(im, submitted) co.
     let co = set_fabric im co;
         co = (case submitted of Ok x \<Rightarrow> co | Err e \<Rightarrow> send_code c (fr_correlation f) e co)
     in pump i co)"

definition handle_candidate_result :: "u64 \<Rightarrow> Frame \<Rightarrow> CandidateResultMessage \<Rightarrow> Coordinator \<Rightarrow> Coordinator" where
  "handle_candidate_result c f m co =
     after_submission c f (pa_ensemble (ca_participant (rm_authority m)))
       (submit_candidate \<lparr>cs_authority = rm_authority m, cs_payload = rm_payload m\<rparr> (co_fabric co)) co"

definition handle_candidate_failure :: "u64 \<Rightarrow> Frame \<Rightarrow> CandidateFailureMessage \<Rightarrow> Coordinator \<Rightarrow> Coordinator" where
  "handle_candidate_failure c f m co =
     after_submission c f (pa_ensemble (ca_participant (fm_authority m)))
       (submit_candidate_failure \<lparr>fs_authority = fm_authority m,
          fs_participant_failure = ucast (failure_kind_code (fm_kind m))\<rparr> (co_fabric co)) co"

definition handle_candidate_abstention ::
  "u64 \<Rightarrow> Frame \<Rightarrow> CandidateAbstentionMessage \<Rightarrow> Coordinator \<Rightarrow> Coordinator" where
  "handle_candidate_abstention c f m co =
     after_submission c f (pa_ensemble (ca_participant (am_authority m)))
       (submit_candidate_abstention \<lparr>as_authority = am_authority m, as_rationale = am_rationale m\<rparr> (co_fabric co)) co"

definition evaluation_submission :: "EvaluationResultMessage \<Rightarrow> EvaluationSubmission" where
  "evaluation_submission m =
     \<lparr>es_authority = em_authority m, es_criterion = em_criterion m, es_kind = em_criterion_kind m,
      es_verification = em_verification m, es_judgment = em_judgment m, es_score_defined = em_score_defined m,
      es_score = em_score m, es_weight = em_weight m, es_evidence = em_evidence m, es_rationale = em_rationale m\<rparr>"

definition handle_evaluation_result :: "u64 \<Rightarrow> Frame \<Rightarrow> EvaluationResultMessage \<Rightarrow> Coordinator \<Rightarrow> Coordinator" where
  "handle_evaluation_result c f m co =
     after_submission c f (pa_ensemble (ea_evaluator (em_authority m)))
       (submit_evaluation (evaluation_submission m) (co_fabric co)) co"

definition handle_define :: "u64 \<Rightarrow> Frame \<Rightarrow> DefineEnsembleMessage \<Rightarrow> Coordinator \<Rightarrow> Coordinator" where
  "handle_define c f m co =
     (let ack = \<lparr>dk_ensemble = 0, dk_generation = 0, dk_accepted = False, dk_code = error_code E_ok, dk_detail = []\<rparr>;
          (ack, co) =
            (case decode_spec (dem_encoded_spec m) (co_limits co) of
               Err e \<Rightarrow> (ack\<lparr>dk_accepted := False, dk_code := error_code e, dk_detail := error_detail e co\<rparr>, co)
             | Ok spec \<Rightarrow>
                 (case define_ensemble spec (co_fabric co) of
                    (im, Ok g) \<Rightarrow> (ack\<lparr>dk_ensemble := sp_id spec, dk_accepted := True, dk_generation := g,
                                      dk_detail := ''ensemble defined''\<rparr>, mark_dirty (set_fabric im co))
                  | (im, Err e) \<Rightarrow> (ack\<lparr>dk_ensemble := sp_id spec, dk_accepted := False, dk_code := error_code e,
                                       dk_detail := error_detail e co\<rparr>, set_fabric im co)))
      in send_frame c (frame_default\<lparr>fr_type := MT_define_ensemble_ack, fr_correlation := fr_correlation f,
           fr_payload := payload_of (co_limits co) (encode_define_ensemble_ack ack)\<rparr>) co)"

definition handle_open :: "u64 \<Rightarrow> Frame \<Rightarrow> OpenExecutionMessage \<Rightarrow> Coordinator \<Rightarrow> Coordinator" where
  "handle_open c f m co =
     (let (im, opened) = open_execution (om_ensemble m) (om_ensemble_generation m) (co_fabric co);
          co = set_fabric im co;
          ack = \<lparr>ocm_ensemble = om_ensemble m, ocm_ensemble_generation = om_ensemble_generation m,
                 ocm_execution = 0, ocm_accepted = False, ocm_code = error_code E_ok, ocm_detail = []\<rparr>;
          (ack, co) =
            (case opened of
               Ok x \<Rightarrow> (ack\<lparr>ocm_accepted := True, ocm_execution := x, ocm_detail := ''execution opened''\<rparr>,
                       mark_dirty co)
             | Err e \<Rightarrow> (ack\<lparr>ocm_accepted := False, ocm_code := error_code e, ocm_detail := error_detail e co\<rparr>, co));
          co = send_frame c (frame_default\<lparr>fr_type := MT_open_execution_ack, fr_correlation := fr_correlation f,
                 fr_payload := payload_of (co_limits co) (encode_open_execution_ack ack)\<rparr>) co
      in if is_ok opened then pump (om_ensemble m) co else co)"

definition handle_cancel :: "u64 \<Rightarrow> Frame \<Rightarrow> CancelEnsembleMessage \<Rightarrow> Coordinator \<Rightarrow> Coordinator" where
  "handle_cancel c f m co =
     (let (im, cancelled) = cancel_ensemble (cem_ensemble m) (cem_ensemble_generation m) (cem_reason m) (co_fabric co);
          co = set_fabric im co;
          co = (if is_ok cancelled then pump (cem_ensemble m) co else co);
          ack = (case cancelled of
                   Ok x \<Rightarrow> \<lparr>srm_code = error_code E_ok, srm_detail = ''cancellation recorded''\<rparr>
                 | Err e \<Rightarrow> \<lparr>srm_code = error_code e, srm_detail = error_detail e co\<rparr>)
      in mark_dirty (send_frame c (frame_default\<lparr>fr_type := MT_status_response,
           fr_correlation := fr_correlation f, fr_epoch := im_epoch (co_fabric co),
           fr_payload := payload_of (co_limits co) (encode_status_response ack)\<rparr>) co))"

definition handle_finalize :: "u64 \<Rightarrow> Frame \<Rightarrow> FinalizeRequestMessage \<Rightarrow> Coordinator \<Rightarrow> Coordinator" where
  "handle_finalize c f m co =
     co\<lparr>co_pending := co_pending co @ [\<lparr>pf_connection = c, pf_correlation = fr_correlation f,
          pf_ensemble = frq_ensemble m, pf_generation = frq_ensemble_generation m\<rparr>]\<rparr>"

definition handle_query :: "u64 \<Rightarrow> Frame \<Rightarrow> QueryResultMessage \<Rightarrow> Coordinator \<Rightarrow> Coordinator" where
  "handle_query c f m co =
     (let response = \<lparr>rrm_ensemble = qrm_ensemble m, rrm_ensemble_generation = qrm_ensemble_generation m,
            rrm_has_result = False, rrm_decision = D_pending, rrm_encoded_result = [], rrm_code = error_code E_ok\<rparr>;
          response = (case current_result (qrm_ensemble m) (co_fabric co) of
            Ok r \<Rightarrow> response\<lparr>rrm_has_result := True, rrm_decision := rs_decision r,
                            rrm_encoded_result := encode_result_payload r (co_limits co)\<rparr>
          | Err e \<Rightarrow> response\<lparr>rrm_code := error_code e\<rparr>)
      in send_frame c (frame_default\<lparr>fr_type := MT_result_response, fr_correlation := fr_correlation f,
           fr_epoch := im_epoch (co_fabric co),
           fr_payload := payload_of (co_limits co) (encode_result_response response)\<rparr>) co)"

text \<open>A report whose rendering overruns its buffer is undefined; here it is empty.\<close>

definition handle_inspect :: "u64 \<Rightarrow> Frame \<Rightarrow> InspectRequestMessage \<Rightarrow> Coordinator \<Rightarrow> Coordinator" where
  "handle_inspect c f m co =
     (let response = \<lparr>irs_ensemble = irq_ensemble m, irs_ensemble_generation = 0, irs_encoded_report = [],
            irs_code = error_code E_ok\<rparr>;
          response = (case inspect (irq_ensemble m) (co_fabric co) of
            Ok sn \<Rightarrow> response\<lparr>irs_ensemble_generation := sn_generation sn,
              irs_encoded_report := encode_report (case snapshot_render sn of None \<Rightarrow> [] | Some str \<Rightarrow> str) (co_limits co)\<rparr>
          | Err e \<Rightarrow> response\<lparr>irs_code := error_code e\<rparr>)
      in send_frame c (frame_default\<lparr>fr_type := MT_inspect_response, fr_correlation := fr_correlation f,
           fr_payload := payload_of (co_limits co) (encode_inspect_response response)\<rparr>) co)"

definition handle_frame :: "u64 \<Rightarrow> Frame \<Rightarrow> Coordinator \<Rightarrow> Coordinator" where
  "handle_frame c f co =
     (case fr_type f of
        MT_hello \<Rightarrow> with_message (decode_front decode_hello f) c f (handle_hello c f) co
      | MT_register_participant \<Rightarrow>
          with_message (decode_whole decode_register_participant f) c f (handle_register c f) co
      | MT_candidate_result \<Rightarrow>
          with_message (decode_whole decode_candidate_result f) c f (handle_candidate_result c f) co
      | MT_candidate_failure \<Rightarrow>
          with_message (decode_whole decode_candidate_failure f) c f (handle_candidate_failure c f) co
      | MT_candidate_abstention \<Rightarrow>
          with_message (decode_whole decode_candidate_abstention f) c f (handle_candidate_abstention c f) co
      | MT_evaluation_result \<Rightarrow>
          with_message (decode_whole decode_evaluation_result f) c f (handle_evaluation_result c f) co
      | MT_define_ensemble \<Rightarrow> with_message (decode_front decode_define_ensemble f) c f (handle_define c f) co
      | MT_open_execution \<Rightarrow> with_message (decode_front decode_open_execution f) c f (handle_open c f) co
      | MT_cancel_ensemble \<Rightarrow> with_message (decode_front decode_cancel_ensemble f) c f (handle_cancel c f) co
      | MT_finalize_request \<Rightarrow> with_message (decode_front decode_finalize_request f) c f (handle_finalize c f) co
      | MT_query_result \<Rightarrow> with_message (decode_front decode_query_result f) c f (handle_query c f) co
      | MT_inspect_request \<Rightarrow> with_message (decode_front decode_inspect_request f) c f (handle_inspect c f) co
      | MT_heartbeat \<Rightarrow> co
      | MT_goodbye \<Rightarrow> handle_connection_loss c co
      | _ \<Rightarrow> send_error c (fr_correlation f) E_protocol_error
               ''the coordinator does not accept this message type'' co)"

section \<open>The event loop\<close>

definition finalize_response_of :: "PendingFinalize \<Rightarrow> EnsembleResult outcome \<Rightarrow> Coordinator \<Rightarrow> FinalizeResponseMessage" where
  "finalize_response_of w committed co =
     (let response = \<lparr>frs_ensemble = pf_ensemble w, frs_ensemble_generation = pf_generation w,
            frs_decision = D_pending, frs_accepted = False, frs_code = error_code E_ok,
            frs_encoded_result = [], frs_detail = []\<rparr>
      in case committed of
           Ok r \<Rightarrow> response\<lparr>frs_accepted := True, frs_decision := rs_decision r,
                           frs_encoded_result := encode_result_payload r (co_limits co)\<rparr>
         | Err e \<Rightarrow>
             let response = response\<lparr>frs_code := error_code e, frs_detail := cc_diagnostic (co_config co) e\<rparr>
             in (case current_result (pf_ensemble w) (co_fabric co) of
                   Ok r \<Rightarrow> response\<lparr>frs_decision := rs_decision r,
                                   frs_encoded_result := encode_result_payload r (co_limits co)\<rparr>
                 | Err e \<Rightarrow> response))"

definition answer_finalize :: "PendingFinalize \<Rightarrow> Coordinator \<Rightarrow> Coordinator \<times> bool" where
  "answer_finalize w co =
     (case is_settled (pf_ensemble w) (pf_generation w) (co_fabric co) of
        Err e \<Rightarrow>
          (send_frame (pf_connection w) (frame_default\<lparr>fr_type := MT_finalize_response,
             fr_correlation := pf_correlation w,
             fr_payload := payload_of (co_limits co) (encode_finalize_response
               \<lparr>frs_ensemble = pf_ensemble w, frs_ensemble_generation = pf_generation w,
                frs_decision = D_pending, frs_accepted = False, frs_code = error_code e,
                frs_encoded_result = [], frs_detail = cc_diagnostic (co_config co) e\<rparr>)\<rparr>) co, False)
      | Ok settled \<Rightarrow>
          if \<not> settled then (co, True)
          else let (im, committed) = finalize (pf_ensemble w) (pf_generation w) (co_fabric co);
                   co = set_fabric im co;
                   co = send_frame (pf_connection w) (frame_default\<lparr>fr_type := MT_finalize_response,
                     fr_correlation := pf_correlation w, fr_epoch := im_epoch im,
                     fr_worker_boot := im_coordinator_boot im,
                     fr_payload := payload_of (co_limits co)
                       (encode_finalize_response (finalize_response_of w committed co))\<rparr>) co
               in (mark_dirty co, False))"

text \<open>A waiter whose execution has not settled is parked again.\<close>

fun flush_waiters :: "PendingFinalize list \<Rightarrow> Coordinator \<Rightarrow> Coordinator" where
  "flush_waiters [] co = co"
| "flush_waiters (w # ws) co =
     (let (co, waiting) = answer_finalize w co;
          co = flush_waiters ws co
      in if waiting then co\<lparr>co_pending := w # co_pending co\<rparr> else co)"

definition flush_pending_finalize :: "Coordinator \<Rightarrow> Coordinator" where
  "flush_pending_finalize co = flush_waiters (co_pending co) (co\<lparr>co_pending := []\<rparr>)"

definition maybe_persist :: "Io_Outcome \<Rightarrow> u64 \<Rightarrow> Coordinator \<Rightarrow> Coordinator" where
  "maybe_persist io serial co =
     (if \<not> cc_persist_on_change (co_config co) \<or> cc_state_path (co_config co) = [] then co
      else if \<not> co_dirty co then co
      else let (status, trace) = save_state io serial (cc_state_path (co_config co)) (co_fabric co) (co_files co)
           in co\<lparr>co_dirty := False, co_files := last trace\<rparr>)"

fun process_event :: "InboundEvent \<Rightarrow> Coordinator \<Rightarrow> Coordinator" where
  "process_event (I_closed c) co =
     handle_connection_loss c (co\<lparr>co_connections := filter (\<lambda>c'. c' \<noteq> c) (co_connections co)\<rparr>)"
| "process_event (I_frame c f) co = handle_frame c f co"

definition process_batch :: "Io_Outcome \<Rightarrow> u64 \<Rightarrow> Coordinator \<Rightarrow> Coordinator" where
  "process_batch io serial co =
     maybe_persist io serial (flush_pending_finalize
       (fold process_event (co_queue co) (co\<lparr>co_queue := []\<rparr>)))"

section \<open>Connections and start\<close>

definition accept_connection :: "u64 list \<Rightarrow> Coordinator \<Rightarrow> Coordinator" where
  "accept_connection order co =
     (if unat (cc_max_connections (co_config co)) \<le> length (co_connections co) then co
      else co\<lparr>co_next_connection := co_next_connection co + 1,
              co_objects := omap_put (co_next_connection co) connection_init (co_objects co),
              co_connections := order\<rparr>)"

definition read_event :: "u64 \<Rightarrow> Frame outcome \<Rightarrow> Coordinator \<Rightarrow> Coordinator" where
  "read_event c received co =
     (case received of
        Err e \<Rightarrow> (update_connection c (\<lambda>cx. cx\<lparr>cx_closed := True\<rparr>) co)\<lparr>co_queue := co_queue co @ [I_closed c]\<rparr>
      | Ok f \<Rightarrow> co\<lparr>co_queue := co_queue co @ [I_frame c f]\<rparr>)"

definition new_coordinator :: "CoordinatorConfig \<Rightarrow> WorkerBootId \<Rightarrow> files \<Rightarrow> Coordinator" where
  "new_coordinator config boot fs =
     \<lparr>co_config = config,
      co_fabric = fabric_init (config_default\<lparr>cf_limits := cc_limits config,
        cf_coordinator_boot := (if valid_id (cc_coordinator_boot config) then cc_coordinator_boot config else boot)\<rparr>),
      co_objects = [], co_connections = [], co_next_connection = 1, co_queue = [], co_pending = [],
      co_dirty = False, co_sent = [], co_files = fs\<rparr>"

text \<open>\<open>listening\<close> is whether the network layer and the listener come up.\<close>

definition start_coordinator :: "WorkerBootId \<Rightarrow> bool \<Rightarrow> Coordinator \<Rightarrow> Coordinator \<times> status" where
  "start_coordinator boot listening co =
     (let path = cc_state_path (co_config co);
          (co, recovered) =
            (if path \<noteq> [] \<and> co_files co path \<noteq> None
             then case recover_state path boot (co_files co) (co_fabric co) of
                 (im, Err e) \<Rightarrow> (set_fabric im co, fail e)
               | (im, Ok epoch) \<Rightarrow> (set_fabric im co, ok_status)
             else (co, ok_status))
      in if \<not> is_ok recovered then (co, recovered)
         else if \<not> listening then (co, fail E_transport_error)
         else (set_fabric (fst (invalidate_dynamic_authority ''coordinator start'' (co_fabric co))) co, ok_status))"

inductive coordinator_step :: "Coordinator \<Rightarrow> Coordinator \<Rightarrow> bool" where
  step_accept: "mset order = mset (co_next_connection co # co_connections co) \<Longrightarrow>
     coordinator_step co (accept_connection order co)"
| step_read: "coordinator_step co (read_event c received co)"
| step_batch: "coordinator_step co (process_batch io serial co)"

end
