(* ===== verification/Coordinator_Runs.thy ===== *)
theory Coordinator_Runs
  imports Coordinator
begin

text \<open>
  The coordinator only transports: whatever it receives, in whatever order, the state of the
  runtime it embeds changes by the runtime's own operations. Every handler, the pump and the event
  loop refine runs of \<open>fabric_step\<close>, so that what holds along such runs holds in the
  distributed system.
\<close>

named_theorems coordinator_runs \<open>operations of the coordinator that are runs of the runtime\<close>

text \<open>A frame carries a message when its payload is the encoding of a message of its own kind.\<close>

definition carries :: "Limits \<Rightarrow> Frame \<Rightarrow> bool" where
  "carries l f \<longleftrightarrow> (\<exists>m. message_kind m = fr_type f \<and> fr_payload f = payload_of l (message_fields m))"

text \<open>
  One stretch of work of the coordinator: a run of the runtime, and behind the frames sent before
  only frames that carry a message and fit into the limits.
\<close>

definition runs :: "Coordinator \<Rightarrow> Coordinator \<Rightarrow> bool" where
  "runs co co' \<longleftrightarrow> rtranclp fabric_step (co_fabric co) (co_fabric co') \<and> co_config co' = co_config co \<and>
     (\<exists>new. co_sent co' = co_sent co @ new \<and>
        list_all (\<lambda>(c, f). carries (co_limits co) f \<and> is_ok (encode_frame f (co_limits co))) new)"

section \<open>What leaves the runtime alone\<close>

lemma set_fabric_simps [simp]:
  "co_fabric (set_fabric im co) = im" "co_config (set_fabric im co) = co_config co" "co_sent (set_fabric im co) = co_sent co"
  by (simp_all add: set_fabric_def)

lemma mark_dirty_simps [simp]:
  "co_fabric (mark_dirty co) = co_fabric co" "co_config (mark_dirty co) = co_config co" "co_sent (mark_dirty co) = co_sent co"
  by (simp_all add: mark_dirty_def)

lemma update_connection_simps [simp]:
  "co_fabric (update_connection c h co) = co_fabric co" "co_config (update_connection c h co) = co_config co"
  "co_sent (update_connection c h co) = co_sent co"
  by (simp_all add: update_connection_def split: option.splits)

lemma send_frame_simps [simp]:
  "co_fabric (send_frame c f co) = co_fabric co" "co_config (send_frame c f co) = co_config co"
  "co_objects (send_frame c f co) = co_objects co" "co_connections (send_frame c f co) = co_connections co"
  "co_pending (send_frame c f co) = co_pending co" "co_dirty (send_frame c f co) = co_dirty co"
  by (simp_all add: send_frame_def)

lemma send_error_simps [simp]:
  "co_fabric (send_error c r e d co) = co_fabric co" "co_config (send_error c r e d co) = co_config co"
  by (simp_all add: send_error_def Let_def)

lemma send_code_simps [simp]:
  "co_fabric (send_code c r e co) = co_fabric co" "co_config (send_code c r e co) = co_config co"
  by (simp_all add: send_code_def)

lemma maybe_persist_simps [simp]:
  "co_fabric (maybe_persist io serial co) = co_fabric co" "co_config (maybe_persist io serial co) = co_config co"
  "co_sent (maybe_persist io serial co) = co_sent co"
  by (simp_all add: maybe_persist_def split: prod.split)

lemma accept_connection_simps [simp]:
  "co_fabric (accept_connection order co) = co_fabric co" "co_config (accept_connection order co) = co_config co"
  "co_sent (accept_connection order co) = co_sent co"
  by (simp_all add: accept_connection_def)

lemma read_event_simps [simp]:
  "co_fabric (read_event c received co) = co_fabric co" "co_config (read_event c received co) = co_config co"
  "co_sent (read_event c received co) = co_sent co"
  by (simp_all add: read_event_def split: outcome.split)

section \<open>Composition\<close>

lemma runs_same:
  "co_fabric co' = co_fabric co \<Longrightarrow> co_config co' = co_config co \<Longrightarrow> co_sent co' = co_sent co \<Longrightarrow> runs co co'"
  by (simp add: runs_def)

lemma runs_refl [simp]: "runs co co"
  by (simp add: runs_same)

lemma runs_trans: "runs a b \<Longrightarrow> runs b c \<Longrightarrow> runs a c"
  by (auto simp: runs_def)

lemma runs_same_right:
  "runs a b \<Longrightarrow> co_fabric c = co_fabric b \<Longrightarrow> co_config c = co_config b \<Longrightarrow> co_sent c = co_sent b \<Longrightarrow> runs a c"
  by (simp add: runs_def)

lemma runs_same_left:
  "runs b c \<Longrightarrow> co_fabric a = co_fabric b \<Longrightarrow> co_config a = co_config b \<Longrightarrow> co_sent a = co_sent b \<Longrightarrow> runs a c"
  by (simp add: runs_def)

lemma runs_bookkeeping [simp]:
  "runs a (mark_dirty b) = runs a b" "runs a (update_connection c h b) = runs a b"
  "runs a (b\<lparr>co_pending := ws\<rparr>) = runs a b" "runs (a\<lparr>co_pending := ws\<rparr>) b = runs a b"
  "runs (a\<lparr>co_queue := es\<rparr>) b = runs a b" "runs (a\<lparr>co_connections := cs\<rparr>) b = runs a b"
  "runs a (maybe_persist io serial b) = runs a b"
  by (simp_all add: runs_def)

lemma runs_set_fabric: "rtranclp fabric_step (co_fabric co) im \<Longrightarrow> runs co (set_fabric im co)"
  by (simp add: runs_def)

lemma runs_operation: "r = (im, x) \<Longrightarrow> fabric_step (co_fabric co) (fst r) \<Longrightarrow> runs co (set_fabric im co)"
  by (auto intro: runs_set_fabric)

lemma runs_fold: "(\<And>x co. runs co (g x co)) \<Longrightarrow> runs co (fold g xs co)"
proof (induction xs arbitrary: co)
  case (Cons x xs)
  then show ?case by (simp add: runs_trans[of co "g x co"])
qed simp

lemma finalize_run: "rtranclp fabric_step im (fst (finalize i g im))"
proof -
  obtain im1 r1 where p: "prepare_result i g im = (im1, r1)" by (cases "prepare_result i g im")
  then have s1: "fabric_step im im1" using step_prepare[of im i g] by simp
  have s2: "fabric_step im1 (fst (commit_result r im1))" for r by (rule step_commit)
  have "fst (finalize i g im) = im \<or> fst (finalize i g im) = im1 \<or> (\<exists>r. fst (finalize i g im) = fst (commit_result r im1))"
    by (auto simp: finalize_def p split: outcome.splits prod.splits if_splits) (metis fst_conv)+
  then show ?thesis using s1 s2 by (metis converse_rtranclp_into_rtranclp r_into_rtranclp rtranclp.rtrancl_refl)
qed

section \<open>Sending\<close>

lemma carriesI: "fr_type f = message_kind m \<Longrightarrow> fr_payload f = payload_of l (message_fields m) \<Longrightarrow> carries l f"
  by (auto simp: carries_def)

lemma carried [simp]:
  "fr_type g = MT_hello_ack \<Longrightarrow> carries l (g\<lparr>fr_payload := payload_of l (encode_coordinator_ack m1)\<rparr>)"
  "fr_type g = MT_register_ack \<Longrightarrow> carries l (g\<lparr>fr_payload := payload_of l (encode_registration_ack m2)\<rparr>)"
  "fr_type g = MT_dispatch_candidate \<Longrightarrow> carries l (g\<lparr>fr_payload := payload_of l (encode_dispatch_candidate m3)\<rparr>)"
  "fr_type g = MT_evaluation_request \<Longrightarrow> carries l (g\<lparr>fr_payload := payload_of l (encode_evaluation_request m4)\<rparr>)"
  "fr_type g = MT_cancel \<Longrightarrow> carries l (g\<lparr>fr_payload := payload_of l (encode_cancel m5)\<rparr>)"
  "fr_type g = MT_error_response \<Longrightarrow> carries l (g\<lparr>fr_payload := payload_of l (encode_error_response m6)\<rparr>)"
  "fr_type g = MT_define_ensemble_ack \<Longrightarrow> carries l (g\<lparr>fr_payload := payload_of l (encode_define_ensemble_ack m7)\<rparr>)"
  "fr_type g = MT_open_execution_ack \<Longrightarrow> carries l (g\<lparr>fr_payload := payload_of l (encode_open_execution_ack m8)\<rparr>)"
  "fr_type g = MT_status_response \<Longrightarrow> carries l (g\<lparr>fr_payload := payload_of l (encode_status_response m9)\<rparr>)"
  "fr_type g = MT_result_response \<Longrightarrow> carries l (g\<lparr>fr_payload := payload_of l (encode_result_response m10)\<rparr>)"
  "fr_type g = MT_inspect_response \<Longrightarrow> carries l (g\<lparr>fr_payload := payload_of l (encode_inspect_response m11)\<rparr>)"
  "fr_type g = MT_finalize_response \<Longrightarrow> carries l (g\<lparr>fr_payload := payload_of l (encode_finalize_response m12)\<rparr>)"
  by (auto intro: carriesI[where m = "W_hello_ack m1"] carriesI[where m = "W_register_ack m2"]
      carriesI[where m = "W_dispatch_candidate m3"] carriesI[where m = "W_evaluation_request m4"]
      carriesI[where m = "W_cancel m5"] carriesI[where m = "W_error_response m6"]
      carriesI[where m = "W_define_ensemble_ack m7"] carriesI[where m = "W_open_execution_ack m8"]
      carriesI[where m = "W_status_response m9"] carriesI[where m = "W_result_response m10"]
      carriesI[where m = "W_inspect_response m11"] carriesI[where m = "W_finalize_response m12"])

lemma runs_send: "runs a b \<Longrightarrow> carries (co_limits b) f \<Longrightarrow> runs a (send_frame c f b)"
  by (auto simp: runs_def send_frame_def)

lemma runs_send_error: "runs a b \<Longrightarrow> runs a (send_error c r e d b)"
  by (simp add: send_error_def Let_def runs_send)

lemma runs_send_code: "runs a b \<Longrightarrow> runs a (send_code c r e b)"
  by (simp add: send_code_def runs_send_error)

lemmas runs_sends = runs_send runs_send_error runs_send_code

section \<open>The operations\<close>

lemma pump_action_runs [coordinator_runs]: "runs co (pump_action a co)"
  by (cases a) (auto split: option.split intro!: runs_set_fabric runs_send step_report_failure simp: send_action_def)

lemma pump_rounds_runs: "runs co (pump_rounds n i co)"
proof (induction n arbitrary: co)
  case (Suc n)
  show ?case
  proof (cases "get_spec i (co_fabric co)")
    case (Ok sp)
    obtain im out where a: "advance i (sp_generation sp) (co_fabric co) = (im, out)"
      by (cases "advance i (sp_generation sp) (co_fabric co)")
    have s: "runs co (set_fabric im co)" by (rule runs_operation[OF a]) (rule step_advance)
    have "runs (set_fabric im co) (pump_rounds n i (fold pump_action xs (set_fabric im co)))" for xs
      by (rule runs_trans[OF _ Suc]) (rule runs_fold[OF pump_action_runs])
    with s have "runs co (pump_rounds n i (fold pump_action xs (set_fabric im co)))" for xs by (rule runs_trans)
    with s Ok a show ?thesis by (simp split: outcome.split)
  qed simp
qed simp

lemma pump_runs [coordinator_runs]: "runs co (pump i co)"
  by (simp add: pump_def pump_rounds_runs)

lemma pump_all_runs [coordinator_runs]: "runs co (pump_all co)"
  unfolding pump_all_def by (rule runs_fold) (rule pump_runs)

lemma report_lost_run: "rtranclp fabric_step im (fold report_lost as im)"
proof (induction as arbitrary: im)
  case (Cons a as)
  have "fabric_step im (report_lost a im)" unfolding report_lost_def by (rule step_report_failure)
  then show ?case using Cons by (simp add: converse_rtranclp_into_rtranclp)
qed simp

lemma lose_ensemble_runs [coordinator_runs]: "runs co (lose_ensemble cx epoch i co)"
  unfolding lose_ensemble_def
  by (auto split: outcome.split intro: runs_trans[OF runs_set_fabric[OF report_lost_run] pump_runs])

lemma connection_loss_runs [coordinator_runs]: "runs co (handle_connection_loss c co)"
  by (auto simp: handle_connection_loss_def Let_def intro: runs_fold lose_ensemble_runs)

lemma hello_runs [coordinator_runs]: "runs co (handle_hello c f m co)"
  by (simp add: handle_hello_def Let_def runs_send)

lemma after_submission_runs:
  assumes "fabric_step (co_fabric co) (fst r)"
  shows "runs co (after_submission c f i r co)"
proof -
  obtain im out where r: "r = (im, out)" by (cases r)
  define co' where "co' = (case out of Ok x \<Rightarrow> set_fabric im co | Err e \<Rightarrow> send_code c (fr_correlation f) e (set_fabric im co))"
  have "runs co co'"
    using runs_operation[OF r assms] by (simp add: co'_def runs_send_code split: outcome.split)
  then have "runs co (pump i co')" by (rule runs_trans) (rule pump_runs)
  then show ?thesis by (simp add: after_submission_def r co'_def Let_def)
qed

lemma submissions_run [coordinator_runs]:
  "runs co (handle_candidate_result c f rm co)" "runs co (handle_candidate_failure c f fm co)"
  "runs co (handle_candidate_abstention c f am co)" "runs co (handle_evaluation_result c f em co)"
  by (simp_all add: handle_candidate_result_def handle_candidate_failure_def handle_candidate_abstention_def
        handle_evaluation_result_def after_submission_runs step_submit_candidate step_submit_failure
        step_submit_abstention step_submit_evaluation)

lemma register_runs [coordinator_runs]: "runs co (handle_register c f m co)"
proof -
  define r where "r = (rpm_registration m)\<lparr>rg_worker := cx_worker (connection_of co c),
    rg_worker_boot := cx_worker_boot (connection_of co c)\<rparr>"
  obtain im out where r': "register_participant r (co_fabric co) = (im, out)"
    by (cases "register_participant r (co_fabric co)")
  have s: "runs co (set_fabric im co)" by (rule runs_operation[OF r']) (rule step_register)
  show ?thesis
  proof (cases out)
    case (Ok g)
    then show ?thesis unfolding handle_register_def Let_def r_def[symmetric] r'
      using s by (simp add: runs_send runs_trans[OF _ pump_all_runs])
  next
    case (Err e)
    then show ?thesis unfolding handle_register_def Let_def r_def[symmetric] r'
      using s by (simp add: runs_send)
  qed
qed

lemma define_runs [coordinator_runs]: "runs co (handle_define c f m co)"
proof (cases "decode_spec (dem_encoded_spec m) (co_limits co)")
  case (Ok sp)
  obtain im out where d: "define_ensemble sp (co_fabric co) = (im, out)" by (cases "define_ensemble sp (co_fabric co)")
  have s: "runs co (set_fabric im co)" by (rule runs_operation[OF d]) (rule step_define)
  show ?thesis
    using s by (cases out) (simp_all add: handle_define_def Let_def Ok d runs_send)
next
  case (Err e)
  show ?thesis by (simp add: handle_define_def Let_def Err runs_send)
qed

lemma open_runs [coordinator_runs]: "runs co (handle_open c f m co)"
proof -
  obtain im out where o': "open_execution (om_ensemble m) (om_ensemble_generation m) (co_fabric co) = (im, out)"
    by (cases "open_execution (om_ensemble m) (om_ensemble_generation m) (co_fabric co)")
  have s: "runs co (set_fabric im co)" by (rule runs_operation[OF o']) (rule step_open)
  show ?thesis
  proof (cases out)
    case (Ok x)
    then show ?thesis unfolding handle_open_def Let_def o'
      using s by (simp add: runs_send runs_trans[OF _ pump_runs])
  next
    case (Err e)
    then show ?thesis unfolding handle_open_def Let_def o'
      using s by (simp add: runs_send)
  qed
qed

lemma cancel_runs [coordinator_runs]: "runs co (handle_cancel c f m co)"
proof -
  obtain im out where x: "cancel_ensemble (cem_ensemble m) (cem_ensemble_generation m) (cem_reason m) (co_fabric co) = (im, out)"
    by (cases "cancel_ensemble (cem_ensemble m) (cem_ensemble_generation m) (cem_reason m) (co_fabric co)")
  have s: "runs co (set_fabric im co)" by (rule runs_operation[OF x]) (rule step_cancel)
  have p: "runs co (pump (cem_ensemble m) (set_fabric im co))" by (rule runs_trans[OF s pump_runs])
  show ?thesis
  proof (cases out)
    case (Ok u)
    then show ?thesis using p by (simp add: handle_cancel_def Let_def x runs_send)
  next
    case (Err e)
    then show ?thesis using s by (simp add: handle_cancel_def Let_def x runs_send)
  qed
qed

lemma answers_run [coordinator_runs]:
  "runs co (handle_finalize c f fm co)" "runs co (handle_query c f qm co)" "runs co (handle_inspect c f im co)"
  by (simp_all add: handle_finalize_def handle_query_def handle_inspect_def Let_def runs_send)

lemma with_message_runs: "(\<And>x. runs co (k x co)) \<Longrightarrow> runs co (with_message m c f k co)"
  by (auto simp: with_message_def intro: runs_send_code split: outcome.split)

lemma handle_frame_runs [coordinator_runs]: "runs co (handle_frame c f co)"
  unfolding handle_frame_def
  by (cases "fr_type f") (simp_all add: with_message_runs coordinator_runs runs_send_error)

section \<open>The event loop\<close>

lemma answer_finalize_runs: "runs co (fst (answer_finalize w co))"
proof (cases "is_settled (pf_ensemble w) (pf_generation w) (co_fabric co)")
  case (Ok settled)
  obtain im out where x: "finalize (pf_ensemble w) (pf_generation w) (co_fabric co) = (im, out)"
    by (cases "finalize (pf_ensemble w) (pf_generation w) (co_fabric co)")
  have s: "runs co (set_fabric im co)"
    using finalize_run[of "co_fabric co" "pf_ensemble w" "pf_generation w"] x by (simp add: runs_set_fabric)
  show ?thesis
  proof (cases settled)
    case True
    show ?thesis using s by (simp add: answer_finalize_def Ok True x Let_def runs_send)
  qed (simp add: answer_finalize_def Ok)
next
  case (Err e)
  show ?thesis by (simp add: answer_finalize_def Err runs_send)
qed

lemma flush_waiters_runs: "runs co (flush_waiters ws co)"
proof (induction ws arbitrary: co)
  case (Cons w ws)
  obtain co1 b where a: "answer_finalize w co = (co1, b)" by (cases "answer_finalize w co")
  have "runs co co1" using answer_finalize_runs[of co w] a by simp
  then have "runs co (flush_waiters ws co1)" by (rule runs_trans) (rule Cons.IH)
  then show ?case using a by (simp add: Let_def)
qed simp

lemma flush_runs [coordinator_runs]: "runs co (flush_pending_finalize co)"
  using flush_waiters_runs[of "co\<lparr>co_pending := []\<rparr>"] by (simp add: flush_pending_finalize_def)

lemma process_event_runs [coordinator_runs]: "runs co (process_event e co)"
  using connection_loss_runs[of "co\<lparr>co_connections := cs\<rparr>" for cs] by (cases e) (simp_all add: handle_frame_runs)

lemma process_batch_runs [coordinator_runs]: "runs co (process_batch io serial co)"
proof -
  let ?a = "co\<lparr>co_queue := []\<rparr>"
  let ?b = "fold process_event (co_queue co) ?a"
  have "runs ?a ?b" by (rule runs_fold) (rule process_event_runs)
  then have "runs ?a (flush_pending_finalize ?b)" by (rule runs_trans) (rule flush_runs)
  then show ?thesis by (simp add: process_batch_def)
qed

lemma coordinator_step_runs: "coordinator_step co co' \<Longrightarrow> runs co co'"
  by (induction rule: coordinator_step.induct) (simp_all add: process_batch_runs runs_same)

interpretation coordinator_runtime: simulation coordinator_step "\<lambda>co. Some (co_fabric co)" "rtranclp fabric_step"
  by unfold_locales (use coordinator_step_runs in \<open>auto simp: runs_def\<close>)

lemma coordinator_run:
  assumes "rtranclp coordinator_step co co'"
  shows "rtranclp fabric_step (co_fabric co) (co_fabric co')"
  using coordinator_runtime.simulates_run[OF assms refl] by simp

end
