(* ===== verification/Coordinator_Properties.thy ===== *)
theory Coordinator_Properties
  imports Coordinator_Runs Protocol_Properties Fabric_Runs Sample_Run
begin

text \<open>
  The properties of the distributed coordinator: results survive whatever clients and workers
  send, every frame it sends can be read by its receiver, finalize requests are answered as soon
  as the execution settles, lost connections only take away the authority that they still hold,
  and a dispatch without a connection is lost.
\<close>

definition sample_config :: CoordinatorConfig where
  "sample_config = \<lparr>cc_limits = limits_defaults, cc_state_path = [], cc_persist_on_change = False,
     cc_coordinator_boot = 5, cc_max_connections = 4, cc_diagnostic = (\<lambda>e. ''error'')\<rparr>"

definition fresh_coordinator :: Coordinator where
  "fresh_coordinator = new_coordinator sample_config 5 (\<lambda>path. None)"

lemma fresh_simps [simp]:
  "co_config fresh_coordinator = sample_config" "co_sent fresh_coordinator = []" "co_queue fresh_coordinator = []"
  "co_pending fresh_coordinator = []" "cc_limits sample_config = limits_defaults"
  "\<not> cc_persist_on_change sample_config" "co_connections fresh_coordinator = []"
  by (simp_all add: fresh_coordinator_def new_coordinator_def sample_config_def)

text \<open>
  C6: the coordinator cannot revise a result. Along every interleaving of accepted connections,
  received frames, lost connections and event batches, whatever the peers send, a committed result
  stays as long as the ensemble's generation and execution stay.
\<close>

theorem coordinator_keeps_results:
  assumes "reachable config (co_fabric co)" and "current_result i (co_fabric co) = Ok r"
    and "rtranclp coordinator_step co co'"
    and "execution_key i (co_fabric co') = execution_key i (co_fabric co)"
  shows "current_result i (co_fabric co') = Ok r"
  using run_keeps_result[OF assms(1,2) coordinator_run[OF assms(3)] assms(4)] .

theorem coordinator_keeps_results_witness:
  "\<exists>r co'. coordinator_step (set_fabric sample_committed fresh_coordinator) co' \<and> co_queue co' = [I_closed 3] \<and>
     current_result 7 (co_fabric co') = Ok r"
proof (rule sample_committed_record)
  fix en
  let ?co = "set_fabric sample_committed fresh_coordinator"
  let ?co' = "read_event 3 (Err E_transport_error) ?co"
  assume "find_ensemble sample_committed 7 = Some en" "en_has_execution en" "ex_has_result (en_execution en)"
  then have r: "current_result 7 (co_fabric ?co) = Ok (ex_result (en_execution en))" by (simp add: current_result_def)
  have s: "coordinator_step ?co ?co'" by (rule step_read)
  have "reachable config_default (co_fabric ?co)" using sample_reachable(6) by simp
  then have "current_result 7 (co_fabric ?co') = Ok (ex_result (en_execution en))"
    by (rule coordinator_keeps_results[OF _ r]) (rule r_into_rtranclp, rule s, simp)
  moreover have "co_queue ?co' = [I_closed 3]" by (simp add: read_event_def set_fabric_def)
  ultimately show ?thesis using s by blast
qed

text \<open>What a receiver needs of a frame.\<close>

definition readable :: "Limits \<Rightarrow> Frame \<Rightarrow> bool" where
  "readable l f \<longleftrightarrow>
     (\<exists>m encoded. message_kind m = fr_type f \<and> fr_payload f = payload_of l (message_fields m) \<and>
        encode_frame f l = Ok encoded \<and> decode_frame encoded l = DR_complete (received_as f) (length encoded) \<and>
        (if message_within m \<and> length (wire (message_fields m)) \<le> unat (max_persistence_bytes l)
         then decode_exactly (get_message (fr_type f)) (fr_payload f) = Ok m else True))"

lemma carried_readable:
  assumes "carries l f" "is_ok (encode_frame f l)"
  shows "readable l f"
proof -
  obtain m where m: "message_kind m = fr_type f" "fr_payload f = payload_of l (message_fields m)"
    using assms(1) by (auto simp: carries_def)
  have e: "encode_frame f l = Ok (frame_bytes f)" "frame_fits l f"
    using assms(2) by (auto simp: encode_frame_eq is_ok_def fail_def split: if_splits)
  then have "decode_frame (frame_bytes f) l = DR_complete (received_as f) (length (frame_bytes f))"
    using decode_frame_bytes[of l "received_as f" "[]"] by simp
  moreover have "decode_exactly (get_message (fr_type f)) (fr_payload f) = Ok m"
    if "message_within m" "length (wire (message_fields m)) \<le> unat (max_persistence_bytes l)"
    using that m by (simp add: message_codec.decode_exactly_iff kind_within_def put_fields_new payload_of_def)
  ultimately show ?thesis unfolding readable_def using m e by (intro exI[of _ m] exI[of _ "frame_bytes f"]) simp
qed

text \<open>
  C30: every frame that a coordinator sends can be read. Its bytes decode to the frame, its payload
  is the encoding of a message of the kind that the frame names, and the receiver's decoder of that
  kind returns this message whenever it is within its bounds.
\<close>

theorem coordinator_frames_readable:
  assumes "rtranclp coordinator_step co co'" and "list_all (\<lambda>(c, f). readable (co_limits co) f) (co_sent co)"
  shows "list_all (\<lambda>(c, f). readable (co_limits co) f) (co_sent co') \<and> co_limits co' = co_limits co"
  using assms
proof (induction rule: rtranclp_induct)
  case (step x y)
  obtain new where new: "co_config y = co_config x" "co_sent y = co_sent x @ new"
    "list_all (\<lambda>(c, f). carries (co_limits x) f \<and> is_ok (encode_frame f (co_limits x))) new"
    using coordinator_step_runs[OF step(2)] by (auto simp: runs_def)
  then have "list_all (\<lambda>(c, f). readable (co_limits x) f) new"
    by (auto simp: list_all_iff intro: carried_readable)
  with step.IH[OF step.prems] new show ?case by simp
qed simp

lemma refusal_fits: "is_ok (encode_frame (f\<lparr>fr_payload := payload_of limits_defaults (encode_error_response
    \<lparr>erm_code = e, erm_correlation = r, erm_detail = sanitize_text str n\<rparr>)\<rparr>) limits_defaults)"
  if "length str \<le> 64"
proof -
  have l: "length (sanitize_text str n) \<le> 64" using that by (simp add: sanitize_text_spec)
  then have "length (wire (encode_error_response \<lparr>erm_code = e, erm_correlation = r, erm_detail = sanitize_text str n\<rparr>)) \<le> 128"
    by (simp add: encode_error_response_def)
  then show ?thesis
    by (simp add: encode_frame_eq frame_fits_def payload_of_def put_fields_new limits_defaults_def is_ok_def)
qed

definition plain_io :: Io_Outcome where
  "plain_io = \<lparr>io_directory = True, io_open = True, io_written = 0, io_rename = True\<rparr>"

theorem coordinator_frames_readable_witness:
  "\<exists>co f. rtranclp coordinator_step fresh_coordinator co \<and> co_sent co = [(1, f)] \<and> readable limits_defaults f"
proof -
  let ?f = "frame_default\<lparr>fr_type := MT_hello_ack\<rparr>"
  let ?a = "read_event 1 (Ok ?f) fresh_coordinator"
  let ?b = "process_batch plain_io 0 ?a"
  have steps: "rtranclp coordinator_step fresh_coordinator ?b"
    by (rule rtranclp.rtrancl_into_rtrancl, rule r_into_rtranclp, rule step_read, rule step_batch)
  have all: "list_all (\<lambda>(c, f). readable (co_limits fresh_coordinator) f) (co_sent ?b)"
    using coordinator_frames_readable[OF steps] by simp
  have "\<exists>g. co_sent ?b = [(1, g)]"
    by (simp add: process_batch_def maybe_persist_def flush_pending_finalize_def read_event_def handle_frame_def
          send_error_def Let_def send_frame_def refusal_fits)
  with steps all show ?thesis by auto
qed

section \<open>Finalize requests\<close>

text \<open>
  What a request is answered when its turn comes: a refusal with the error of \<^verbatim>\<open>is_settled\<close>, or the
  outcome of \<^verbatim>\<open>finalize\<close> with the result it returned or, when it failed, the current one.
\<close>

definition answer_message :: "PendingFinalize \<Rightarrow> EnsembleResult option \<Rightarrow> EnsembleError option \<Rightarrow> Coordinator \<Rightarrow>
    FinalizeResponseMessage" where
  "answer_message w shown failure co =
     \<lparr>frs_ensemble = pf_ensemble w, frs_ensemble_generation = pf_generation w,
      frs_decision = (case shown of None \<Rightarrow> D_pending | Some r \<Rightarrow> rs_decision r), frs_accepted = (failure = None),
      frs_code = error_code (case failure of None \<Rightarrow> E_ok | Some e \<Rightarrow> e),
      frs_encoded_result = (case shown of None \<Rightarrow> [] | Some r \<Rightarrow> encode_result_payload r (co_limits co)),
      frs_detail = (case failure of None \<Rightarrow> [] | Some e \<Rightarrow> cc_diagnostic (co_config co) e)\<rparr>"

definition finalize_answer :: "PendingFinalize \<Rightarrow> Coordinator \<Rightarrow> Frame" where
  "finalize_answer w co =
     (case is_settled (pf_ensemble w) (pf_generation w) (co_fabric co) of
        Err e \<Rightarrow> frame_default\<lparr>fr_type := MT_finalize_response, fr_correlation := pf_correlation w,
          fr_payload := payload_of (co_limits co) (encode_finalize_response (answer_message w None (Some e) co))\<rparr>
      | Ok _ \<Rightarrow>
          (let (im, committed) = finalize (pf_ensemble w) (pf_generation w) (co_fabric co);
               current = (case current_result (pf_ensemble w) im of Ok r \<Rightarrow> Some r | Err _ \<Rightarrow> None)
           in frame_default\<lparr>fr_type := MT_finalize_response, fr_correlation := pf_correlation w,
                fr_epoch := im_epoch im, fr_worker_boot := im_coordinator_boot im,
                fr_payload := payload_of (co_limits co) (encode_finalize_response
                  (case committed of Ok r \<Rightarrow> answer_message w (Some r) None co
                   | Err e \<Rightarrow> answer_message w current (Some e) co))\<rparr>))"

definition unsettled :: "PendingFinalize \<Rightarrow> Coordinator \<Rightarrow> bool" where
  "unsettled w co \<longleftrightarrow> is_settled (pf_ensemble w) (pf_generation w) (co_fabric co) = Ok False"

definition turn :: "PendingFinalize \<Rightarrow> Coordinator \<Rightarrow> (u64 \<times> Frame) list" where
  "turn w co =
     (if unsettled w co then []
      else if 64 + length (fr_payload (finalize_answer w co)) \<le> unat (max_frame_bytes (co_limits co))
      then [(pf_connection w, finalize_answer w co)] else [])"

lemma answer_finalize_turn:
  assumes "answer_finalize w co = (co', waiting)"
  shows "waiting \<longleftrightarrow> unsettled w co" "co_sent co' = co_sent co @ turn w co" "co_pending co' = co_pending co"
    "co_config co' = co_config co"
proof -
  have send: "co_sent (send_frame c f co0) = co_sent co0 @ (if 64 + length (fr_payload f) \<le> unat (max_frame_bytes (co_limits co0))
      then [(c, f)] else [])" for c f co0
    by (simp add: send_frame_def encode_frame_eq frame_fits_def)
  have keep: "co_pending (send_frame c f co0) = co_pending co0" "co_config (send_frame c f co0) = co_config co0"
    "co_pending (mark_dirty co0) = co_pending co0" "co_config (mark_dirty co0) = co_config co0"
    "co_sent (mark_dirty co0) = co_sent co0" "co_pending (set_fabric i co0) = co_pending co0"
    "co_config (set_fabric i co0) = co_config co0" "co_sent (set_fabric i co0) = co_sent co0" for c f co0 i
    by (simp_all add: send_frame_def mark_dirty_def set_fabric_def)
  obtain im out where x: "finalize (pf_ensemble w) (pf_generation w) (co_fabric co) = (im, out)"
    by (cases "finalize (pf_ensemble w) (pf_generation w) (co_fabric co)")
  have m: "finalize_response_of w out (set_fabric im co) =
      (case out of Ok r \<Rightarrow> answer_message w (Some r) None co
       | Err e \<Rightarrow> answer_message w (case current_result (pf_ensemble w) im of Ok r \<Rightarrow> Some r | Err _ \<Rightarrow> None) (Some e) co)"
    by (simp add: finalize_response_of_def answer_message_def Let_def split: outcome.split)
  have all: "(waiting \<longleftrightarrow> unsettled w co) \<and> co_sent co' = co_sent co @ turn w co \<and> co_pending co' = co_pending co \<and>
      co_config co' = co_config co"
  proof (cases "is_settled (pf_ensemble w) (pf_generation w) (co_fabric co)")
    case (Err e)
    have "answer_message w None (Some e) co = \<lparr>frs_ensemble = pf_ensemble w, frs_ensemble_generation = pf_generation w,
        frs_decision = D_pending, frs_accepted = False, frs_code = error_code e, frs_encoded_result = [],
        frs_detail = cc_diagnostic (co_config co) e\<rparr>" by (simp add: answer_message_def)
    then show ?thesis using assms
      by (auto simp: answer_finalize_def Err unsettled_def turn_def finalize_answer_def send keep)
  next
    case (Ok settled)
    then show ?thesis using assms m
      by (cases settled) (auto simp: answer_finalize_def unsettled_def turn_def finalize_answer_def send keep x Let_def)
  qed
  then show "waiting \<longleftrightarrow> unsettled w co" "co_sent co' = co_sent co @ turn w co" "co_pending co' = co_pending co"
    "co_config co' = co_config co" by blast+
qed

text \<open>The parked requests do not influence how the others are answered.\<close>

lemma answer_finalize_pending:
  "answer_finalize w (co\<lparr>co_pending := ps\<rparr>) =
     ((fst (answer_finalize w co))\<lparr>co_pending := ps\<rparr>, snd (answer_finalize w co))"
proof -
  have send: "send_frame c f (co0\<lparr>co_pending := ps\<rparr>) = (send_frame c f co0)\<lparr>co_pending := ps\<rparr>" for c f co0
    by (simp add: send_frame_def)
  have set: "set_fabric im (co\<lparr>co_pending := ps\<rparr>) = (set_fabric im co)\<lparr>co_pending := ps\<rparr>"
    "mark_dirty (co0\<lparr>co_pending := ps\<rparr>) = (mark_dirty co0)\<lparr>co_pending := ps\<rparr>" for im co0
    by (simp_all add: set_fabric_def mark_dirty_def)
  have m: "finalize_response_of w out (co0\<lparr>co_pending := ps\<rparr>) = finalize_response_of w out co0" for out co0
    by (cases out) (simp_all add: finalize_response_of_def Let_def split: outcome.split)
  show ?thesis by (simp add: answer_finalize_def Let_def send set m split: outcome.split prod.split)
qed

lemma flush_waiters_pending:
  "flush_waiters ws (co\<lparr>co_pending := ps\<rparr>) =
     (flush_waiters ws co)\<lparr>co_pending := co_pending (flush_waiters ws (co\<lparr>co_pending := []\<rparr>)) @ ps\<rparr>"
proof (induction ws arbitrary: co ps)
  case (Cons w ws)
  obtain c1 b where a: "answer_finalize w co = (c1, b)" by (cases "answer_finalize w co")
  show ?case using Cons.IH[where co = c1 and ps = ps] Cons.IH[where co = c1 and ps = "[]"] by (simp add: answer_finalize_pending a Let_def)
qed simp

lemma flush_waiters_append:
  "(flush_waiters (xs @ ys) co)\<lparr>co_pending := ps\<rparr> = (flush_waiters ys (flush_waiters xs co))\<lparr>co_pending := ps\<rparr> \<and>
   co_pending (flush_waiters (xs @ ys) (co\<lparr>co_pending := []\<rparr>)) =
     co_pending (flush_waiters xs (co\<lparr>co_pending := []\<rparr>)) @
     co_pending (flush_waiters ys ((flush_waiters xs co)\<lparr>co_pending := []\<rparr>))"
proof (induction xs arbitrary: co)
  case Nil
  show ?case by simp
next
  case (Cons w ws)
  obtain c1 b where a: "answer_finalize w co = (c1, b)" by (cases "answer_finalize w co")
  show ?case using Cons.IH[where co = c1] flush_waiters_pending[where ws = ys and
        co = "flush_waiters ws c1" and ps = "w # co_pending (flush_waiters ws c1)"]
    by (simp add: answer_finalize_pending a Let_def)
qed

lemma flush_waiters_bounds:
  "\<exists>parked sent. subseq parked ws \<and> length sent \<le> length ws \<and>
     co_pending (flush_waiters ws co) = parked @ co_pending co \<and> co_sent (flush_waiters ws co) = co_sent co @ sent \<and>
     co_config (flush_waiters ws co) = co_config co"
proof (induction ws arbitrary: co)
  case (Cons w ws)
  obtain c1 b where a: "answer_finalize w co = (c1, b)" by (cases "answer_finalize w co")
  note t = answer_finalize_turn[OF a]
  obtain parked sent where IH: "subseq parked ws" "length sent \<le> length ws"
    "co_pending (flush_waiters ws c1) = parked @ co_pending c1" "co_sent (flush_waiters ws c1) = co_sent c1 @ sent"
    "co_config (flush_waiters ws c1) = co_config c1" using Cons[of c1] by blast
  have "length (turn w co) \<le> 1" by (simp add: turn_def)
  with IH t show ?case
    by (intro exI[of _ "if b then w # parked else parked"] exI[of _ "turn w co @ sent"]) (simp add: a Let_def list_emb_Cons)
qed simp

lemma finalize_answer_pending: "finalize_answer w (co\<lparr>co_pending := ps\<rparr>) = finalize_answer w co"
proof -
  have "answer_message w shown failure (co\<lparr>co_pending := ps\<rparr>) = answer_message w shown failure co" for shown failure
    by (cases shown; cases failure) (simp_all add: answer_message_def)
  then show ?thesis by (simp add: finalize_answer_def Let_def split: outcome.split prod.split)
qed

text \<open>
  C31: a parked finalize request is answered as soon as its execution has settled, and stays parked
  otherwise. The requests take their turns in the order in which they wait. When the turn of a
  request comes, the coordinator is in a state that a run of the runtime reached: if the execution
  is not settled there, the request is parked again and nothing is sent for it; otherwise it is not
  parked again, and just one frame is sent to its connection, the answer computed in that state, if
  it fits into a frame of the configured size (sent means handed to the channel of the connection).
  Requests behind it add at most one frame and
  one parked request each. An answer that does not fit is not sent, and its request is forgotten.
\<close>

theorem finalize_requests_answered:
  assumes "co_pending co = before @ w # after"
  defines "now \<equiv> flush_waiters before (co\<lparr>co_pending := []\<rparr>)"
  shows "rtranclp fabric_step (co_fabric co) (co_fabric now) \<and> (\<exists>earlier. co_sent now = co_sent co @ earlier) \<and>
    (\<exists>parked later. subseq parked after \<and> length later \<le> length after \<and>
       (if is_settled (pf_ensemble w) (pf_generation w) (co_fabric now) = Ok False
        then co_pending (flush_pending_finalize co) = co_pending now @ [w] @ parked \<and>
          co_sent (flush_pending_finalize co) = co_sent now @ later
        else co_pending (flush_pending_finalize co) = co_pending now @ parked \<and>
          co_sent (flush_pending_finalize co) = co_sent now @
            (if 64 + length (fr_payload (finalize_answer w now)) \<le> unat (max_frame_bytes (co_limits co))
             then [(pf_connection w, finalize_answer w now)] else []) @ later))"
proof -
  let ?co = "co\<lparr>co_pending := []\<rparr>" and ?last = "flush_pending_finalize co"
  have last: "?last = flush_waiters (before @ w # after) ?co" by (simp add: flush_pending_finalize_def assms(1))
  have run: "rtranclp fabric_step (co_fabric co) (co_fabric now)"
    using flush_waiters_runs[of ?co before] by (simp add: runs_def now_def)
  obtain earlier where now: "co_sent now = co_sent co @ earlier" "co_config now = co_config co"
    using flush_waiters_bounds[of before ?co] unfolding now_def by auto
  obtain c1 b where a: "answer_finalize w (now\<lparr>co_pending := []\<rparr>) = (c1, b)"
    by (cases "answer_finalize w (now\<lparr>co_pending := []\<rparr>)")
  have irrelevant: "unsettled w (now\<lparr>co_pending := []\<rparr>) = unsettled w now" "turn w (now\<lparr>co_pending := []\<rparr>) = turn w now"
    by (simp_all add: unsettled_def turn_def finalize_answer_pending)
  note t = answer_finalize_turn[OF a, unfolded irrelevant]
  obtain parked later where r: "subseq parked after" "length later \<le> length after"
    "co_pending (flush_waiters after c1) = parked @ co_pending c1" "co_sent (flush_waiters after c1) = co_sent c1 @ later"
    using flush_waiters_bounds[of after c1] by blast
  have "co_sent ?last = co_sent (flush_waiters (w # after) now)"
    using flush_waiters_append[where xs = before and ys = "w # after" and co = ?co and ps = "[]", THEN conjunct1, THEN arg_cong[where f = co_sent]]
    by (simp add: last now_def)
  also have "\<dots> = co_sent (flush_waiters (w # after) (now\<lparr>co_pending := []\<rparr>))"
    using flush_waiters_pending[where ws = "w # after" and co = now and ps = "[]", THEN arg_cong[where f = co_sent]] by simp
  also have "\<dots> = co_sent now @ turn w now @ later" using t(2) r(4) by (simp add: a Let_def)
  finally have sent: "co_sent ?last = co_sent now @ turn w now @ later" .
  have "co_pending ?last = co_pending now @ co_pending (flush_waiters (w # after) (now\<lparr>co_pending := []\<rparr>))"
    using flush_waiters_append[where xs = before and ys = "w # after" and co = ?co, THEN conjunct2] by (simp add: last now_def)
  also have "\<dots> = co_pending now @ (if unsettled w now then [w] else []) @ parked"
    using t(1,3) r(3) by (simp add: a Let_def)
  finally show ?thesis
    using run now sent r(1,2) by (auto simp: turn_def unsettled_def)
qed

definition stray_waiter :: PendingFinalize where
  "stray_waiter = \<lparr>pf_connection = 3, pf_correlation = 9, pf_ensemble = 0, pf_generation = 1\<rparr>"

definition waiting_coordinator :: Coordinator where
  "waiting_coordinator = fresh_coordinator\<lparr>co_pending := [stray_waiter]\<rparr>"

theorem finalize_requests_answered_witness:
  "\<exists>f. co_sent (flush_pending_finalize waiting_coordinator) = [(3, f)] \<and> fr_type f = MT_finalize_response \<and>
     fr_correlation f = 9 \<and> co_pending (flush_pending_finalize waiting_coordinator) = []"
proof -
  have p: "co_pending waiting_coordinator = [] @ stray_waiter # []" by (simp add: waiting_coordinator_def)
  have s: "is_settled 0 1 (co_fabric fresh_coordinator) = Err E_unknown_ensemble"
    by (simp add: is_settled_def fresh_coordinator_def new_coordinator_def find_ensemble_def fabric_init_def fail_def)
  let ?f = "finalize_answer stray_waiter (waiting_coordinator\<lparr>co_pending := []\<rparr>)"
  have "fr_type ?f = MT_finalize_response" "fr_correlation ?f = 9"
    "64 + length (fr_payload ?f) \<le> unat (max_frame_bytes limits_defaults)"
    by (simp_all add: finalize_answer_pending waiting_coordinator_def finalize_answer_def stray_waiter_def s)
      (simp add: payload_of_def put_fields_new encode_finalize_response_def answer_message_def limits_defaults_def
        sample_config_def)
  then show ?thesis using finalize_requests_answered[OF p] s
    by (auto simp: waiting_coordinator_def stray_waiter_def dest: list_emb_Nil2)
qed

section \<open>Lost connections and undeliverable dispatches\<close>

lemma report_same:
  assumes "case find_ensemble im (pa_ensemble a) of None \<Rightarrow> True | Some en \<Rightarrow>
    (case find_participant en (pa_participant a) of None \<Rightarrow> True | Some p \<Rightarrow>
      (pr_generation p, pr_worker p, pr_worker_boot p) \<noteq> (pa_participant_generation a, pa_worker a, pa_worker_boot a))"
  shows "im_ensembles (fst (report_participant_failure a kind detail im)) = im_ensembles im"
  using assms
  by (auto simp: report_participant_failure_def bump_stale_def split: outcome.split option.splits)

definition replaced :: "Connection \<Rightarrow> EnsembleRecord \<Rightarrow> bool" where
  "replaced cx en \<longleftrightarrow>
     list_all (\<lambda>(p, g). case find_participant en p of None \<Rightarrow> True
       | Some q \<Rightarrow> (pr_generation q, pr_worker q, pr_worker_boot q) \<noteq> (g, cx_worker cx, cx_worker_boot cx))
       (cx_registrations cx)"

lemma report_lost_same:
  assumes "list_all (\<lambda>a. pa_ensemble a = i \<and> (case find_ensemble im i of None \<Rightarrow> True | Some en \<Rightarrow>
    (case find_participant en (pa_participant a) of None \<Rightarrow> True | Some p \<Rightarrow>
      (pr_generation p, pr_worker p, pr_worker_boot p) \<noteq> (pa_participant_generation a, pa_worker a, pa_worker_boot a)))) as"
  shows "im_ensembles (fold report_lost as im) = im_ensembles im"
  using assms
proof (induction as arbitrary: im)
  case (Cons a as)
  then have s: "im_ensembles (report_lost a im) = im_ensembles im"
    unfolding report_lost_def by (intro report_same) simp
  then have f: "find_ensemble (report_lost a im) i = find_ensemble im i" by (simp add: find_ensemble_def)
  have "im_ensembles (fold report_lost as (report_lost a im)) = im_ensembles (report_lost a im)"
    by (rule Cons.IH) (use Cons.prems f in simp)
  with s show ?case by simp
qed simp

text \<open>
  C32: the loss of a connection takes away only the authority that the connection still holds. Where
  every participant it had registered has meanwhile been registered anew, by another worker, boot
  or generation, the reports of the loss leave every ensemble as it is; the pump then goes on.
\<close>

theorem stale_loss_spares_replacement:
  assumes "find_ensemble (co_fabric co) i = Some en" and "replaced cx en"
  shows "\<exists>im. lose_ensemble cx epoch i co = pump i (set_fabric im co) \<and> im_ensembles im = im_ensembles (co_fabric co)"
proof -
  let ?as = "map (lost_authority cx epoch i (sp_generation (en_spec en))) (cx_registrations cx)"
  have "im_ensembles (fold report_lost ?as (co_fabric co)) = im_ensembles (co_fabric co)"
    by (rule report_lost_same[where i = i])
      (use assms in \<open>auto simp: replaced_def list_all_iff lost_authority_def split: option.splits\<close>)
  moreover have "get_spec i (co_fabric co) = Ok (en_spec en)" using assms(1) by (simp add: get_spec_def)
  ultimately show ?thesis by (auto simp: lose_ensemble_def)
qed

theorem stale_loss_spares_replacement_witness:
  "\<exists>im. lose_ensemble (connection_init\<lparr>cx_worker := 10, cx_worker_boot := 20, cx_registrations := [(1, 1)]\<rparr>) 1 7
      (set_fabric sample_dispatched fresh_coordinator) = pump 7 (set_fabric im (set_fabric sample_dispatched fresh_coordinator)) \<and>
    im_ensembles im = im_ensembles sample_dispatched"
proof (rule sample_dispatched_record)
  fix en c p
  let ?cx = "connection_init\<lparr>cx_worker := 10, cx_worker_boot := 20, cx_registrations := [(1, 1)]\<rparr>"
  let ?co = "set_fabric sample_dispatched fresh_coordinator"
  assume en: "find_ensemble sample_dispatched 7 = Some en" "en_participants en = [p]" "pr_id p = 1" "pr_worker p = 11"
  have "replaced ?cx en"
    using en by (simp add: replaced_def find_participant_def connection_init_def)
  moreover have "find_ensemble (co_fabric ?co) 7 = Some en" using en by simp
  ultimately show ?thesis using stale_loss_spares_replacement[of ?co 7 en ?cx 1] by simp
qed

text \<open>
  C33: a dispatch that finds no connection is lost. The failure report that the coordinator makes for
  it names no worker, so the runtime rejects it as incomplete: nothing changes and the candidate
  stays dispatched, although the report is meant to hand it to the retry and fallback policies.
\<close>

theorem undeliverable_dispatch_is_lost:
  assumes "find_connection_for (da_participant da) co = None"
  shows "pump_action (Dispatch da) co = co \<and>
    snd (report_participant_failure (undelivered_authority (im_epoch (co_fabric co)) da) FK_unavailable
      ''no authoritative connection for dispatch'' (co_fabric co)) = Err E_invalid_identity_combination"
proof -
  let ?a = "undelivered_authority (im_epoch (co_fabric co)) da"
  have "validate_participant_authority ?a = Err E_invalid_identity_combination"
    by (auto simp: validate_participant_authority_def require_complete_def undelivered_authority_def require_def
          valid_id_def fail_def)
  then have "report_participant_failure ?a FK_unavailable ''no authoritative connection for dispatch'' (co_fabric co) =
      (co_fabric co, Err E_invalid_identity_combination)"
    by (simp add: report_participant_failure_def fail_def)
  then show ?thesis using assms by (simp add: set_fabric_def)
qed

definition lonely_dispatch :: DispatchAction where
  "lonely_dispatch = \<lparr>da_execution = \<lparr>xr_ensemble = 7, xr_ensemble_generation = 1, xr_execution = 1,
       xr_attempt_generation = 1\<rparr>, da_candidate = 1, da_candidate_generation = 1, da_participant = 1,
     da_participant_generation = 1, da_role = R_candidate, da_stage = 0, da_attempt = 1, da_budget_units = 0,
     da_deterministic_seed = 0, da_domain = [], da_request = [], da_sequence = 1\<rparr>"

theorem undeliverable_dispatch_is_lost_witness:
  "pump_action (Dispatch lonely_dispatch) (set_fabric sample_dispatched fresh_coordinator) =
     set_fabric sample_dispatched fresh_coordinator"
proof -
  have "find_connection_for (da_participant lonely_dispatch) (set_fabric sample_dispatched fresh_coordinator) = None"
    by (simp add: find_connection_for_def set_fabric_def)
  then show ?thesis by (rule undeliverable_dispatch_is_lost[THEN conjunct1])
qed

end
