(* ===== verification/Reference_Backend.thy ===== *)
theory Reference_Backend
  imports Messages
begin

text \<open>
  Participant backends and the deterministic reference backend (\<^verbatim>\<open>reference_backend.hpp\<close>,
  \<^verbatim>\<open>src/reference_backend.cpp\<close>): the script language, its parser and printer, and the answers
  that a script gives. The file system enters as the set of gate files that exist (or come to
  exist while the backend waits for them). The loop that skips gates need not end: it has fuel,
  and running out of fuel is a result of its own, as is the exit of the process.
\<close>

section \<open>Answers of a backend\<close>

datatype (plugins only: code size) ProductionKind = PK_content | PK_abstention | PK_failure

record ParticipantProduction =
  pp_kind :: ProductionKind
  pp_payload :: bytes
  pp_failure :: ParticipantFailureKind
  pp_detail :: string
  pp_budget_units_used :: u32

definition production_default :: ParticipantProduction where
  "production_default = \<lparr>pp_kind = PK_content, pp_payload = [], pp_failure = FK_internal_error, pp_detail = [],
     pp_budget_units_used = 0\<rparr>"

record ParticipantEvaluation =
  pv_verification :: VerificationState
  pv_judgment :: CategoricalJudgment
  pv_score_defined :: bool
  pv_score :: double
  pv_weight :: double
  pv_evidence :: bytes
  pv_rationale :: string

definition evaluation_default :: ParticipantEvaluation where
  "evaluation_default = \<lparr>pv_verification = V_unknown, pv_judgment = J_unknown, pv_score_defined = False,
     pv_score = d_zero, pv_weight = d_one, pv_evidence = [], pv_rationale = []\<rparr>"

section \<open>Scripts\<close>

datatype (plugins only: code size) ReferenceStepKind =
  RK_produce_ok | RK_produce_failure | RK_produce_abstain | RK_produce_malformed | RK_evaluate | RK_wait_gate | RK_die

fun step_kind_to_string :: "ReferenceStepKind \<Rightarrow> string" where
  "step_kind_to_string RK_produce_ok = ''ok''"
| "step_kind_to_string RK_produce_failure = ''fail''"
| "step_kind_to_string RK_produce_abstain = ''abstain''"
| "step_kind_to_string RK_produce_malformed = ''malformed''"
| "step_kind_to_string RK_evaluate = ''evaluate''"
| "step_kind_to_string RK_wait_gate = ''gate''"
| "step_kind_to_string RK_die = ''die''"

definition parse_step_kind :: "string \<Rightarrow> ReferenceStepKind outcome" where
  "parse_step_kind str =
     (if str = ''ok'' \<or> str = ''produce_ok'' then Ok RK_produce_ok
      else if str = ''fail'' \<or> str = ''produce_failure'' then Ok RK_produce_failure
      else if str = ''abstain'' \<or> str = ''produce_abstain'' then Ok RK_produce_abstain
      else if str = ''malformed'' \<or> str = ''produce_malformed'' then Ok RK_produce_malformed
      else if str = ''evaluate'' then Ok RK_evaluate
      else if str = ''gate'' \<or> str = ''wait_gate'' then Ok RK_wait_gate
      else if str = ''die'' then Ok RK_die
      else fail E_invalid_argument)"

record ReferenceStep =
  stp_kind :: ReferenceStepKind
  stp_value :: string
  stp_gate :: string
  stp_failure :: ParticipantFailureKind
  stp_verification :: VerificationState
  stp_judgment :: CategoricalJudgment
  stp_score_defined :: bool
  stp_score :: double
  stp_weight :: double
  stp_rationale :: string
  stp_malformed_bytes :: u32

definition step_default :: ReferenceStep where
  "step_default = \<lparr>stp_kind = RK_produce_ok, stp_value = [], stp_gate = [], stp_failure = FK_internal_error,
     stp_verification = V_unknown, stp_judgment = J_unknown, stp_score_defined = False, stp_score = d_zero,
     stp_weight = d_one, stp_rationale = [], stp_malformed_bytes = 0\<rparr>"

record ReferenceProgram =
  pg_steps :: "ReferenceStep list"
  pg_seed :: u64

section \<open>Splitting and trimming\<close>

fun split_text :: "char \<Rightarrow> string \<Rightarrow> string list" where
  "split_text sep [] = [[]]"
| "split_text sep (ch # rest) =
     (if ch = sep then [] # split_text sep rest
      else (ch # hd (split_text sep rest)) # tl (split_text sep rest))"

definition blank :: "char \<Rightarrow> bool" where
  "blank ch \<longleftrightarrow> ch = CHR '' '' \<or> ch = CHR 0x09"

definition trim :: "string \<Rightarrow> string" where
  "trim str = rev (dropWhile blank (rev (dropWhile blank str)))"

definition before :: "char \<Rightarrow> string \<Rightarrow> string" where
  "before ch str = takeWhile (\<lambda>x. x \<noteq> ch) str"

definition behind :: "char \<Rightarrow> string \<Rightarrow> string" where
  "behind ch str = tl (dropWhile (\<lambda>x. x \<noteq> ch) str)"

section \<open>Decimal and hexadecimal floating point\<close>

text \<open>
  \<^verbatim>\<open>std::strtod\<close> on the whole of a C string, as the C standard describes it with rounding to
  nearest. The names of infinities and NaNs, which it also accepts, end in a rejection here
  like any unreadable text: only finite numbers pass \<^verbatim>\<open>parse_finite_double\<close>.
\<close>

definition is_space_char :: "char \<Rightarrow> bool" where
  "is_space_char ch \<longleftrightarrow> ch = CHR '' '' \<or> (0x09 \<le> (of_char ch :: nat) \<and> (of_char ch :: nat) \<le> 0x0D)"

definition char_digit :: "char \<Rightarrow> int" where
  "char_digit ch =
     (let n = (of_char ch :: int)
      in if 48 \<le> n \<and> n \<le> 57 then n - 48
         else if 97 \<le> n \<and> n \<le> 102 then n - 87
         else if 65 \<le> n \<and> n \<le> 70 then n - 55 else 99)"

definition digits_of :: "int \<Rightarrow> string \<Rightarrow> string" where
  "digits_of base str = takeWhile (\<lambda>ch. char_digit ch < base) str"

definition number_of :: "int \<Rightarrow> string \<Rightarrow> int" where
  "number_of base ds = fold (\<lambda>ch n. n * base + char_digit ch) ds 0"

definition take_sign :: "string \<Rightarrow> bool \<times> string" where
  "take_sign str =
     (case str of [] \<Rightarrow> (False, [])
      | ch # rest \<Rightarrow> if ch = CHR ''-'' then (True, rest) else if ch = CHR ''+'' then (False, rest) else (False, str))"

text \<open>Digits, an optional point and more digits: the integer they spell, the number of digits
  behind the point and the rest of the text.\<close>

definition mantissa :: "int \<Rightarrow> string \<Rightarrow> (int \<times> nat \<times> string) option" where
  "mantissa base str =
     (let whole = digits_of base str; rest = drop (length whole) str;
          point = (rest \<noteq> [] \<and> hd rest = CHR ''.'');
          part = (if point then digits_of base (tl rest) else []);
          rest = (if point then drop (length part) (tl rest) else rest)
      in if whole = [] \<and> part = [] then None
         else Some (number_of base (whole @ part), length part, rest))"

definition exponent :: "char list \<Rightarrow> string \<Rightarrow> int option" where
  "exponent marks str =
     (if str = [] then Some 0
      else if hd str \<notin> set marks then None
      else let (negative, ds) = take_sign (tl str)
           in if ds = [] \<or> digits_of 10 ds \<noteq> ds then None
              else Some ((if negative then - 1 else 1) * number_of 10 ds))"

definition round_decimal :: "bool \<Rightarrow> int \<Rightarrow> int \<Rightarrow> double" where
  "round_decimal s n e =
     (if 0 \<le> e then d_round s (n * 10 ^ nat e) 0
      else let d = 10 ^ nat (- e); k = nat (bit_length d + 60); quo = n * 2 ^ k div d;
               sticky = (if n * 2 ^ k mod d = 0 then 0 else 1)
           in d_round s (2 * quo + sticky) (- int k - 1))"

definition strtod_whole :: "string \<Rightarrow> (int \<times> double) option" where
  "strtod_whole str =
     (let (s, str) = take_sign (dropWhile is_space_char str)
      in if take 2 str = ''0x'' \<or> take 2 str = ''0X''
         then (case mantissa 16 (drop 2 str) of
                 None \<Rightarrow> None
               | Some (n, places, rest) \<Rightarrow>
                   map_option (\<lambda>e. (n, d_round s n (e - 4 * int places))) (exponent ''pP'' rest))
         else (case mantissa 10 str of
                 None \<Rightarrow> None
               | Some (n, places, rest) \<Rightarrow>
                   map_option (\<lambda>e. (n, round_decimal s n (e - int places))) (exponent ''eE'' rest)))"

text \<open>The text is read as a C string, up to its first zero character.\<close>

definition parse_finite_double :: "string \<Rightarrow> double option" where
  "parse_finite_double str =
     (if str = [] \<or> 64 < length str then None
      else case strtod_whole (takeWhile (\<lambda>ch. ch \<noteq> CHR 0x00) str) of
             None \<Rightarrow> None
           | Some (n, x) \<Rightarrow> if \<not> d_isfinite x \<or> (n \<noteq> 0 \<and> d_eq x d_zero) then None else Some x)"

section \<open>The parser\<close>

definition require :: "'a option \<Rightarrow> EnsembleError \<Rightarrow> ('a \<Rightarrow> ReferenceStep) \<Rightarrow> ReferenceStep outcome" where
  "require parsed e k = (case parsed of None \<Rightarrow> fail e | Some x \<Rightarrow> Ok (k x))"

definition apply_key :: "string \<Rightarrow> string \<Rightarrow> ReferenceStep \<Rightarrow> ReferenceStep outcome" where
  "apply_key key v st =
     (if key = ''value'' then Ok (st\<lparr>stp_value := v\<rparr>)
      else if key = ''gate'' then Ok (st\<lparr>stp_gate := v\<rparr>)
      else if key = ''kind'' then require (parse_failure_kind v) E_invalid_enum_value (\<lambda>x. st\<lparr>stp_failure := x\<rparr>)
      else if key = ''verification''
      then require (parse_verification_state v) E_invalid_enum_value (\<lambda>x. st\<lparr>stp_verification := x\<rparr>)
      else if key = ''judgment''
      then require (parse_categorical_judgment v) E_invalid_enum_value (\<lambda>x. st\<lparr>stp_judgment := x\<rparr>)
      else if key = ''score''
      then require (parse_finite_double v) E_invalid_argument (\<lambda>x. st\<lparr>stp_score := x, stp_score_defined := True\<rparr>)
      else if key = ''weight''
      then (case parse_finite_double v of
              None \<Rightarrow> fail E_invalid_argument
            | Some x \<Rightarrow> if d_le x d_zero then fail E_invalid_argument else Ok (st\<lparr>stp_weight := x\<rparr>))
      else if key = ''rationale'' then Ok (st\<lparr>stp_rationale := v\<rparr>)
      else if key = ''bytes''
      then (case parse_u32 v of
              None \<Rightarrow> fail E_invalid_argument
            | Some n \<Rightarrow> if 0x100000 < n then fail E_invalid_argument else Ok (st\<lparr>stp_malformed_bytes := n\<rparr>))
      else fail E_invalid_argument)"

fun apply_assignments :: "string list \<Rightarrow> ReferenceStep \<Rightarrow> ReferenceStep outcome" where
  "apply_assignments [] st = Ok st"
| "apply_assignments (a # as) st =
     (if a = [] then apply_assignments as st
      else if CHR ''='' \<notin> set a then fail E_invalid_argument
      else case apply_key (trim (before CHR ''='' a)) (trim (behind CHR ''='' a)) st of
             Err e \<Rightarrow> Err e
           | Ok st \<Rightarrow> apply_assignments as st)"

definition parse_step :: "string \<Rightarrow> ReferenceStep outcome" where
  "parse_step str =
     (case parse_step_kind (before CHR '':'' str) of
        Err e \<Rightarrow> Err e
      | Ok kind \<Rightarrow>
          let st = step_default\<lparr>stp_kind := kind\<rparr>
          in if CHR '':'' \<in> set str then apply_assignments (split_text CHR '','' (behind CHR '':'' str)) st else Ok st)"

fun parse_steps :: "string list \<Rightarrow> ReferenceProgram \<Rightarrow> ReferenceProgram outcome" where
  "parse_steps [] pg = Ok pg"
| "parse_steps (raw # raws) pg =
     (let str = trim raw
      in if str = [] then parse_steps raws pg
         else if take 5 str = ''seed=''
         then (case parse_u64 (drop 5 str) of
                 None \<Rightarrow> fail E_invalid_argument
               | Some n \<Rightarrow> parse_steps raws (pg\<lparr>pg_seed := n\<rparr>))
         else case parse_step str of
                Err e \<Rightarrow> Err e
              | Ok st \<Rightarrow> parse_steps raws (pg\<lparr>pg_steps := pg_steps pg @ [st]\<rparr>))"

definition parse_program :: "string \<Rightarrow> ReferenceProgram outcome" where
  "parse_program script =
     (if script = [] then Ok \<lparr>pg_steps = [step_default\<lparr>stp_value := ''reference''\<rparr>], pg_seed = 0\<rparr>
      else if 65536 < length script then fail E_resource_limit_exceeded
      else case parse_steps (split_text CHR '';'' script) \<lparr>pg_steps = [], pg_seed = 0\<rparr> of
             Err e \<Rightarrow> Err e
           | Ok pg \<Rightarrow> if pg_steps pg = [] then fail E_invalid_argument else Ok pg)"

section \<open>The printer\<close>

text \<open>The printed form of a number may overrun its buffer; then the text is undefined.\<close>

definition render_step :: "ReferenceStep \<Rightarrow> string option" where
  "render_step st =
     map_option (\<lambda>tail. step_kind_to_string (stp_kind st) @ '':'' @ tail)
       (case stp_kind st of
          RK_produce_ok \<Rightarrow> Some (''value='' @ stp_value st)
        | RK_produce_failure \<Rightarrow> Some (''kind='' @ failure_kind_to_string (stp_failure st))
        | RK_produce_abstain \<Rightarrow> Some (''rationale='' @ stp_rationale st)
        | RK_produce_malformed \<Rightarrow> Some (''bytes='' @ dec_string (unat (stp_malformed_bytes st)))
        | RK_evaluate \<Rightarrow>
            (case (if stp_score_defined st then map_option ((@) '',score='') (format_double (stp_score st)) else Some [],
                   format_double (stp_weight st)) of
               (Some score, Some weight) \<Rightarrow>
                 Some (''judgment='' @ judgment_to_string (stp_judgment st) @ '',verification='' @
                   verification_to_string (stp_verification st) @ score @ '',weight='' @ weight @
                   '',rationale='' @ stp_rationale st)
             | _ \<Rightarrow> None)
        | RK_wait_gate \<Rightarrow> Some (''gate='' @ stp_gate st)
        | RK_die \<Rightarrow> Some ''value=immediate'')"

fun render_steps :: "ReferenceStep list \<Rightarrow> string option" where
  "render_steps [] = Some []"
| "render_steps (st # sts) =
     (case (render_step st, render_steps sts) of (Some a, Some b) \<Rightarrow> Some ('';'' @ a @ b) | _ \<Rightarrow> None)"

definition render_program :: "ReferenceProgram \<Rightarrow> string option" where
  "render_program pg = map_option ((@) (''seed='' @ dec_string (unat (pg_seed pg)))) (render_steps (pg_steps pg))"

section \<open>Running a script\<close>

definition step_at :: "ReferenceProgram \<Rightarrow> u64 \<Rightarrow> ReferenceStep" where
  "step_at pg index =
     (if pg_steps pg = [] then step_default
      else pg_steps pg ! min (unat index) (length (pg_steps pg) - 1))"

record ReferenceBackend =
  bk_program :: ReferenceProgram
  bk_step_index :: u64

definition new_backend :: "ReferenceProgram \<Rightarrow> ReferenceBackend" where
  "new_backend pg = \<lparr>bk_program = pg, bk_step_index = 0\<rparr>"

text \<open>An answer, the exit of the process, or a call that has not returned yet.\<close>

datatype 'a run = Returned 'a | Exited | Waiting

definition gate_open :: "(string \<Rightarrow> bool) \<Rightarrow> string \<Rightarrow> bool" where
  "gate_open gates path \<longleftrightarrow> path = [] \<or> gates path"

fun consume :: "nat \<Rightarrow> (string \<Rightarrow> bool) \<Rightarrow> ReferenceBackend \<Rightarrow> (ReferenceStep \<times> ReferenceBackend) run" where
  "consume 0 gates bk = Waiting"
| "consume (Suc fuel) gates bk =
     (let st = step_at (bk_program bk) (bk_step_index bk);
          bk = bk\<lparr>bk_step_index := bk_step_index bk + 1\<rparr>
      in if stp_kind st = RK_wait_gate
         then (if gate_open gates (stp_gate st) then consume fuel gates bk else Waiting)
         else Returned (st, bk))"

definition produced_of :: "DispatchCandidateMessage \<Rightarrow> ReferenceStep \<Rightarrow> ParticipantProduction" where
  "produced_of request st =
     (case stp_kind st of
        RK_produce_ok \<Rightarrow>
          (let v = (if stp_value st = []
                    then ''candidate-'' @ id_to_string (dm_candidate request) @ ''-attempt-'' @
                         dec_string (unat (dm_attempt request))
                    else stp_value st)
           in production_default\<lparr>pp_kind := PK_content, pp_payload := map byte_of_char v,
                pp_budget_units_used := dm_budget_units request\<rparr>)
      | RK_produce_abstain \<Rightarrow> production_default\<lparr>pp_kind := PK_abstention, pp_detail := stp_rationale st\<rparr>
      | RK_produce_malformed \<Rightarrow> production_default\<lparr>pp_kind := PK_failure, pp_failure := FK_malformed_output,
          pp_detail := ''reference backend produced malformed output ('' @
            dec_string (unat (stp_malformed_bytes st)) @ '' bytes requested)''\<rparr>
      | RK_produce_failure \<Rightarrow> production_default\<lparr>pp_kind := PK_failure, pp_failure := stp_failure st,
          pp_detail := ''reference backend reported '' @ failure_kind_to_string (stp_failure st)\<rparr>
      | RK_evaluate \<Rightarrow> production_default\<lparr>pp_kind := PK_failure, pp_failure := FK_internal_error,
          pp_detail := ''reference script supplied an evaluation step for a production slot''\<rparr>
      | _ \<Rightarrow> production_default\<lparr>pp_kind := PK_failure, pp_failure := FK_internal_error,
          pp_detail := ''reference backend reached an unreachable state''\<rparr>)"

definition evaluated_of :: "EvaluationRequestMessage \<Rightarrow> ReferenceStep \<Rightarrow> ParticipantEvaluation outcome" where
  "evaluated_of request st =
     (case stp_kind st of
        RK_evaluate \<Rightarrow> Ok (evaluation_default\<lparr>pv_verification := stp_verification st, pv_judgment := stp_judgment st,
          pv_score_defined := stp_score_defined st, pv_score := stp_score st, pv_weight := stp_weight st,
          pv_rationale := (if stp_rationale st = []
            then ''reference evaluation of candidate '' @ id_to_string (erq_candidate request)
            else stp_rationale st)\<rparr>)
      | RK_produce_abstain \<Rightarrow> Ok (evaluation_default\<lparr>pv_judgment := J_abstain, pv_verification := V_abstain,
          pv_rationale := (if stp_rationale st = [] then ''abstained'' else stp_rationale st)\<rparr>)
      | RK_produce_ok \<Rightarrow> Ok (evaluation_default\<lparr>pv_judgment := J_accept, pv_verification := V_pass,
          pv_rationale := ''reference default acceptance''\<rparr>)
      | _ \<Rightarrow> fail E_malformed_evaluation)"

definition answer_with :: "(ReferenceStep \<Rightarrow> 'a) \<Rightarrow> (ReferenceStep \<times> ReferenceBackend) run \<Rightarrow> (ReferenceBackend \<times> 'a) run" where
  "answer_with k r =
     (case r of
        Returned (st, bk) \<Rightarrow> if stp_kind st = RK_die then Exited else Returned (bk, k st)
      | Exited \<Rightarrow> Exited
      | Waiting \<Rightarrow> Waiting)"

definition reference_produce ::
  "nat \<Rightarrow> (string \<Rightarrow> bool) \<Rightarrow> ReferenceBackend \<Rightarrow> DispatchCandidateMessage \<Rightarrow>
   (ReferenceBackend \<times> ParticipantProduction outcome) run" where
  "reference_produce fuel gates bk request = answer_with (\<lambda>st. Ok (produced_of request st)) (consume fuel gates bk)"

definition reference_evaluate ::
  "nat \<Rightarrow> (string \<Rightarrow> bool) \<Rightarrow> ReferenceBackend \<Rightarrow> EvaluationRequestMessage \<Rightarrow>
   (ReferenceBackend \<times> ParticipantEvaluation outcome) run" where
  "reference_evaluate fuel gates bk request = answer_with (evaluated_of request) (consume fuel gates bk)"

text \<open>The interface of a participant backend: its two virtual functions, over the state of the object.\<close>

record 'b BackendInterface =
  bi_produce :: "'b \<Rightarrow> DispatchCandidateMessage \<Rightarrow> ('b \<times> ParticipantProduction outcome) run"
  bi_evaluate :: "'b \<Rightarrow> EvaluationRequestMessage \<Rightarrow> ('b \<times> ParticipantEvaluation outcome) run"

definition reference_interface :: "nat \<Rightarrow> (string \<Rightarrow> bool) \<Rightarrow> ReferenceBackend BackendInterface" where
  "reference_interface fuel gates =
     \<lparr>bi_produce = reference_produce fuel gates, bi_evaluate = reference_evaluate fuel gates\<rparr>"

definition bind_run :: "'a run \<Rightarrow> ('a \<Rightarrow> 'c run) \<Rightarrow> 'c run" where
  "bind_run r k = (case r of Returned x \<Rightarrow> k x | Exited \<Rightarrow> Exited | Waiting \<Rightarrow> Waiting)"

section \<open>When a script answers\<close>

text \<open>\<open>gates_only pg i n\<close>: the \<open>n\<close> steps from index \<open>i\<close> on are gates, all of them open.\<close>

fun gates_only :: "(string \<Rightarrow> bool) \<Rightarrow> ReferenceProgram \<Rightarrow> u64 \<Rightarrow> nat \<Rightarrow> bool" where
  "gates_only gates pg i 0 \<longleftrightarrow> True"
| "gates_only gates pg i (Suc n) \<longleftrightarrow>
     stp_kind (step_at pg i) = RK_wait_gate \<and> gate_open gates (stp_gate (step_at pg i)) \<and> gates_only gates pg (i + 1) n"

lemma consume_returns_iff:
  "consume fuel gates bk = Returned (st, bk') \<longleftrightarrow>
     (\<exists>n<fuel. gates_only gates (bk_program bk) (bk_step_index bk) n \<and>
        st = step_at (bk_program bk) (bk_step_index bk + of_nat n) \<and> stp_kind st \<noteq> RK_wait_gate \<and>
        bk' = bk\<lparr>bk_step_index := bk_step_index bk + of_nat (Suc n)\<rparr>)"
proof (induction fuel arbitrary: bk)
  case (Suc fuel)
  let ?st = "step_at (bk_program bk) (bk_step_index bk)" and ?bk = "bk\<lparr>bk_step_index := bk_step_index bk + 1\<rparr>"
  have split: "(\<exists>n<Suc fuel. P n) \<longleftrightarrow> P 0 \<or> (\<exists>n<fuel. P (Suc n))" for P
    by (metis less_Suc_eq_0_disj)
  show ?case
  proof (cases "stp_kind ?st = RK_wait_gate")
    case True
    then show ?thesis
      by (auto simp: split Let_def Suc.IH algebra_simps)
  next
    case False
    then show ?thesis by (auto simp: split Let_def)
  qed
qed simp

lemma step_at_last:
  "pg_steps pg \<noteq> [] \<Longrightarrow> length (pg_steps pg) - 1 \<le> unat i \<Longrightarrow> step_at pg i = last (pg_steps pg)"
  by (simp add: step_at_def last_conv_nth min_def)

end
