(* ===== verification/Local_Driver.thy ===== *)
theory Local_Driver
  imports Inspection Action_Messages Reference_Backend Fabric_Machine
begin

text \<open>
  The in-process driver (\<^verbatim>\<open>local_driver.hpp\<close>, \<^verbatim>\<open>src/local_driver.cpp\<close>): it takes the actions of the
  runtime, lets the backends of its participants answer them and submits the answers. Backends
  are shared objects behind an interface: \<open>ld_backends\<close> maps a handle to the state of the object,
  so that participants can share one. A call of a backend may end the process or not return; then
  the driver does not return either.
\<close>

record LocalParticipant =
  lp_id :: ParticipantId
  lp_generation :: ParticipantGeneration
  lp_worker :: WorkerId
  lp_worker_boot :: WorkerBootId
  lp_roles :: RoleSet
  lp_profile :: CompatibilityProfile
  lp_domain :: string
  lp_backend :: "u64 option"
  lp_registered :: bool
  lp_alive :: bool

definition local_authoritative :: "LocalParticipant \<Rightarrow> bool" where
  "local_authoritative lp \<longleftrightarrow> lp_registered lp \<and> lp_alive lp"

record 'b LocalDriver =
  ld_fabric :: Impl
  ld_ensemble :: EnsembleId
  ld_ensemble_generation :: EnsembleGeneration
  ld_participants :: "LocalParticipant list"
  ld_backends :: "u64 \<Rightarrow> 'b"

definition new_driver :: "Impl \<Rightarrow> (u64 \<Rightarrow> 'b) \<Rightarrow> 'b LocalDriver" where
  "new_driver im backends = \<lparr>ld_fabric = im, ld_ensemble = 0, ld_ensemble_generation = 0, ld_participants = [],
     ld_backends = backends\<rparr>"

section \<open>Definition, attachment and registration\<close>

definition driver_define :: "EnsembleSpec \<Rightarrow> 'b LocalDriver \<Rightarrow> 'b LocalDriver \<times> EnsembleGeneration outcome" where
  "driver_define spec ld = (let (im, r) = define_ensemble spec (ld_fabric ld) in (ld\<lparr>ld_fabric := im\<rparr>, r))"

definition driver_open ::
  "EnsembleId \<Rightarrow> EnsembleGeneration \<Rightarrow> 'b LocalDriver \<Rightarrow> 'b LocalDriver \<times> EnsembleExecutionId outcome" where
  "driver_open i g ld = (let (im, r) = open_execution i g (ld_fabric ld) in (ld\<lparr>ld_fabric := im\<rparr>, r))"

definition attach ::
  "EnsembleId \<Rightarrow> EnsembleGeneration \<Rightarrow> ParticipantSpec \<Rightarrow> u64 option \<Rightarrow> WorkerId \<Rightarrow> WorkerBootId \<Rightarrow>
   CompatibilityProfile \<Rightarrow> 'b LocalDriver \<Rightarrow> 'b LocalDriver" where
  "attach i g declaration backend worker boot profile ld =
     (let profile = (if pf_protocol_version profile = 0 then profile\<lparr>pf_protocol_version := protocol_version\<rparr> else profile);
          lp = \<lparr>lp_id = ps_id declaration, lp_generation = 0, lp_worker = worker, lp_worker_boot = boot,
                lp_roles = ps_roles declaration,
                lp_profile = profile\<lparr>pf_task_class := rq_required_task_class (ps_compatibility declaration)\<rparr>,
                lp_domain = ps_domain declaration, lp_backend = backend, lp_registered = False, lp_alive = True\<rparr>
      in ld\<lparr>ld_participants := ld_participants ld @ [lp], ld_ensemble := i, ld_ensemble_generation := g\<rparr>)"

text \<open>Participants are passed by reference; here it is their index.\<close>

definition driver_register :: "nat \<Rightarrow> 'b LocalDriver \<Rightarrow> 'b LocalDriver \<times> status" where
  "driver_register k ld =
     (let lp = ld_participants ld ! k;
          r = \<lparr>rg_ensemble = ld_ensemble ld, rg_ensemble_generation = ld_ensemble_generation ld,
               rg_participant = lp_id lp, rg_worker = lp_worker lp, rg_worker_boot = lp_worker_boot lp,
               rg_coordinator_epoch = im_epoch (ld_fabric ld), rg_profile = lp_profile lp,
               rg_claimed_roles = lp_roles lp\<rparr>
      in case register_participant r (ld_fabric ld) of
           (im, Err e) \<Rightarrow> (ld\<lparr>ld_fabric := im\<rparr>, fail e)
         | (im, Ok g) \<Rightarrow>
             (ld\<lparr>ld_fabric := im, ld_participants := (ld_participants ld)[k :=
                lp\<lparr>lp_generation := g, lp_registered := True, lp_alive := True\<rparr>]\<rparr>, ok_status))"

fun register_from :: "nat list \<Rightarrow> 'b LocalDriver \<Rightarrow> 'b LocalDriver \<times> status" where
  "register_from [] ld = (ld, ok_status)"
| "register_from (k # ks) ld =
     (case driver_register k ld of
        (ld, Err e) \<Rightarrow> (ld, Err e)
      | (ld, Ok u) \<Rightarrow> register_from ks ld)"

definition register_all :: "'b LocalDriver \<Rightarrow> 'b LocalDriver \<times> status" where
  "register_all ld = register_from [0..<length (ld_participants ld)] ld"

definition driver_authority :: "LocalParticipant \<Rightarrow> 'b LocalDriver \<Rightarrow> ParticipantAuthority" where
  "driver_authority lp ld =
     \<lparr>pa_ensemble = ld_ensemble ld, pa_ensemble_generation = ld_ensemble_generation ld, pa_participant = lp_id lp,
      pa_participant_generation = lp_generation lp, pa_worker = lp_worker lp, pa_worker_boot = lp_worker_boot lp,
      pa_coordinator_epoch = im_epoch (ld_fabric ld)\<rparr>"

definition find_local :: "ParticipantId \<Rightarrow> 'b LocalDriver \<Rightarrow> LocalParticipant option" where
  "find_local p ld = find (\<lambda>lp. lp_id lp = p) (ld_participants ld)"

section \<open>Actions\<close>

definition submitted :: "'b LocalDriver \<Rightarrow> Impl \<times> 'a outcome \<Rightarrow> 'b LocalDriver \<times> bool" where
  "submitted ld = (\<lambda>(im, r). (ld\<lparr>ld_fabric := im\<rparr>, is_ok r))"

definition submit_production ::
  "CandidateAuthority \<Rightarrow> ParticipantProduction outcome \<Rightarrow> 'b LocalDriver \<Rightarrow> 'b LocalDriver \<times> bool" where
  "submit_production authority production ld =
     (case production of
        Err e \<Rightarrow> submitted ld (submit_candidate_failure \<lparr>fs_authority = authority,
                    fs_participant_failure = ucast (failure_kind_code FK_internal_error)\<rparr> (ld_fabric ld))
      | Ok pp \<Rightarrow>
          (case pp_kind pp of
             PK_content \<Rightarrow>
               submitted ld (submit_candidate \<lparr>cs_authority = authority, cs_payload = pp_payload pp\<rparr> (ld_fabric ld))
           | PK_abstention \<Rightarrow>
               submitted ld (submit_candidate_abstention \<lparr>as_authority = authority, as_rationale = pp_detail pp\<rparr> (ld_fabric ld))
           | PK_failure \<Rightarrow>
               submitted ld (submit_candidate_failure \<lparr>fs_authority = authority,
                 fs_participant_failure = ucast (failure_kind_code (pp_failure pp))\<rparr> (ld_fabric ld))))"

definition perform_dispatch :: "'b BackendInterface \<Rightarrow> DispatchAction \<Rightarrow> 'b LocalDriver \<Rightarrow> ('b LocalDriver \<times> bool) run" where
  "perform_dispatch bi da ld =
     (case find_local (da_participant da) ld of
        None \<Rightarrow> Returned (ld, False)
      | Some lp \<Rightarrow>
          (case lp_backend lp of
             None \<Rightarrow> Returned (ld, False)
           | Some h \<Rightarrow>
               if \<not> local_authoritative lp then Returned (ld, False)
               else
                 let authority = \<lparr>ca_participant = driver_authority lp ld, ca_execution = xr_execution (da_execution da),
                       ca_attempt_generation = xr_attempt_generation (da_execution da), ca_candidate = da_candidate da,
                       ca_candidate_generation = da_candidate_generation da\<rparr>
                 in bind_run (bi_produce bi (ld_backends ld h) (dispatch_message (im_epoch (ld_fabric ld)) da))
                      (\<lambda>(b, production).
                         Returned (submit_production authority production
                           (ld\<lparr>ld_backends := (ld_backends ld)(h := b)\<rparr>)))))"

definition candidate_payload_in :: "CandidateId \<Rightarrow> EnsembleSnapshot \<Rightarrow> bytes" where
  "candidate_payload_in c sn = fold (\<lambda>csn payload. if csn_id csn = c then csn_payload csn else payload) (sn_candidates sn) []"

definition evaluation_of ::
  "EvaluationAction \<Rightarrow> ParticipantAuthority \<Rightarrow> ParticipantEvaluation \<Rightarrow> EvaluationSubmission" where
  "evaluation_of va authority pv =
     \<lparr>es_authority = \<lparr>ea_evaluator = authority, ea_execution = xr_execution (va_execution va),
        ea_attempt_generation = xr_attempt_generation (va_execution va), ea_evaluation = va_evaluation va,
        ea_evaluation_generation = va_evaluation_generation va, ea_candidate = va_candidate va,
        ea_candidate_generation = va_candidate_generation va\<rparr>,
      es_criterion = va_criterion va, es_kind = va_criterion_kind va, es_verification = pv_verification pv,
      es_judgment = pv_judgment pv, es_score_defined = pv_score_defined pv, es_score = pv_score pv,
      es_weight = pv_weight pv, es_evidence = pv_evidence pv, es_rationale = pv_rationale pv\<rparr>"

definition perform_evaluation :: "'b BackendInterface \<Rightarrow> EvaluationAction \<Rightarrow> 'b LocalDriver \<Rightarrow> ('b LocalDriver \<times> bool) run" where
  "perform_evaluation bi va ld =
     (case find_local (va_judge va) ld of
        None \<Rightarrow> Returned (ld, False)
      | Some lp \<Rightarrow>
          (case lp_backend lp of
             None \<Rightarrow> Returned (ld, False)
           | Some h \<Rightarrow>
               if \<not> local_authoritative lp then Returned (ld, False)
               else
                 (case inspect (ld_ensemble ld) (ld_fabric ld) of
                    Err e \<Rightarrow> Returned (ld, False)
                  | Ok sn \<Rightarrow>
                      bind_run (bi_evaluate bi (ld_backends ld h)
                          ((evaluation_message (im_epoch (ld_fabric ld)) va)
                             \<lparr>erq_candidate_payload := candidate_payload_in (va_candidate va) sn\<rparr>))
                        (\<lambda>(b, evaluation).
                           let ld = ld\<lparr>ld_backends := (ld_backends ld)(h := b)\<rparr>
                           in (case evaluation of
                                 Err e \<Rightarrow> Returned (ld, False)
                               | Ok pv \<Rightarrow> Returned (submitted ld
                                   (submit_evaluation (evaluation_of va (driver_authority lp ld) pv) (ld_fabric ld))))))))"

fun perform :: "'b BackendInterface \<Rightarrow> FabricAction \<Rightarrow> 'b LocalDriver \<Rightarrow> ('b LocalDriver \<times> bool) run" where
  "perform bi (Dispatch da) ld = perform_dispatch bi da ld"
| "perform bi (Evaluate va) ld = perform_evaluation bi va ld"
| "perform bi (Cancel xa) ld = Returned (ld, True)"
| "perform bi (Fallback ba) ld = Returned (ld, True)"

fun perform_all :: "'b BackendInterface \<Rightarrow> FabricAction list \<Rightarrow> u32 \<Rightarrow> 'b LocalDriver \<Rightarrow> ('b LocalDriver \<times> u32) run" where
  "perform_all bi [] performed ld = Returned (ld, performed)"
| "perform_all bi (a # as) performed ld =
     bind_run (perform bi a ld) (\<lambda>(ld, done). perform_all bi as (if done then performed + 1 else performed) ld)"

definition driver_step :: "'b BackendInterface \<Rightarrow> 'b LocalDriver \<Rightarrow> ('b LocalDriver \<times> u32 outcome) run" where
  "driver_step bi ld =
     (case advance (ld_ensemble ld) (ld_ensemble_generation ld) (ld_fabric ld) of
        (im, Err e) \<Rightarrow> Returned (ld\<lparr>ld_fabric := im\<rparr>, fail e)
      | (im, Ok actions) \<Rightarrow>
          bind_run (perform_all bi actions 0 (ld\<lparr>ld_fabric := im\<rparr>)) (\<lambda>(ld, performed). Returned (ld, Ok performed)))"

fun run_rounds :: "nat \<Rightarrow> 'b BackendInterface \<Rightarrow> 'b LocalDriver \<Rightarrow> ('b LocalDriver \<times> status) run" where
  "run_rounds 0 bi ld = Returned (ld, fail E_resource_limit_exceeded)"
| "run_rounds (Suc n) bi ld =
     bind_run (driver_step bi ld) (\<lambda>(ld, performed).
       case performed of
         Err e \<Rightarrow> Returned (ld, fail e)
       | Ok k \<Rightarrow> if k = 0 then Returned (ld, ok_status) else run_rounds n bi ld)"

definition driver_run :: "u32 \<Rightarrow> 'b BackendInterface \<Rightarrow> 'b LocalDriver \<Rightarrow> ('b LocalDriver \<times> status) run" where
  "driver_run max_rounds = run_rounds (unat max_rounds)"

definition kill :: "nat \<Rightarrow> string \<Rightarrow> 'b LocalDriver \<Rightarrow> 'b LocalDriver \<times> status" where
  "kill k detail ld =
     (let lp = ld_participants ld ! k
      in if \<not> lp_registered lp then (ld, fail E_participant_not_authoritative)
         else let (im, r) = report_participant_failure (driver_authority lp ld) FK_unavailable detail (ld_fabric ld)
              in (ld\<lparr>ld_fabric := im, ld_participants := (ld_participants ld)[k := lp\<lparr>lp_alive := False, lp_registered := False\<rparr>]\<rparr>, r))"

end
