(* ===== verification/Script_Properties.thy ===== *)
theory Script_Properties
  imports Reference_Backend
begin

text \<open>
  The properties of the reference backend: a printed script is parsed back, and a script
  answers every request exactly as long as it does not end in a gate.
\<close>

section \<open>Texts\<close>

lemma split_text_single: "sep \<notin> set a \<Longrightarrow> split_text sep a = [a]"
  by (induction a) auto

lemma split_text_append: "sep \<notin> set a \<Longrightarrow> split_text sep (a @ sep # b) = a # split_text sep b"
  by (induction a) auto

lemma before_append: "ch \<notin> set a \<Longrightarrow> before ch (a @ ch # b) = a"
  by (induction a) (auto simp: before_def)

lemma behind_append: "ch \<notin> set a \<Longrightarrow> behind ch (a @ ch # b) = b"
  by (induction a) (auto simp: behind_def)

definition clean :: "string \<Rightarrow> bool" where
  "clean v \<longleftrightarrow> CHR '';'' \<notin> set v \<and> CHR '','' \<notin> set v \<and> (v \<noteq> [] \<longrightarrow> \<not> blank (hd v) \<and> \<not> blank (last v))"

lemma trim_same: "v = [] \<or> \<not> blank (hd v) \<and> \<not> blank (last v) \<Longrightarrow> trim v = v"
proof (cases "v = []")
  case False
  assume "v = [] \<or> \<not> blank (hd v) \<and> \<not> blank (last v)"
  with False have "\<not> blank (hd v)" "\<not> blank (hd (rev v))" by (simp_all add: hd_rev)
  moreover have "dropWhile blank w = w" if "w \<noteq> []" "\<not> blank (hd w)" for w
    using that by (cases w) simp_all
  ultimately show ?thesis using False by (simp add: trim_def)
qed (simp add: trim_def)

lemma trim_clean: "clean v \<Longrightarrow> trim v = v"
  by (rule trim_same) (auto simp: clean_def)

lemma parse_u64_dec: "parse_u64 (dec_string (unat n)) = Some n"
proof -
  have "unat n < 10 ^ 20" using unat_less_64[of n] by simp
  then have "length (dec_string (unat n)) \<le> 20" by (rule dec_string_length[rotated]) simp
  moreover have "dec_value 0 (dec_string (unat n)) < 2 ^ 64" using unat_less_64[of n] by (simp add: dec_value_dec_string)
  ultimately show ?thesis using dec_string_digits
    by (simp add: parse_u64_def parse_digits_spec dec_value_dec_string)
qed

lemma parse_u32_dec: "parse_u32 (dec_string (unat n)) = Some n"
proof -
  have n: "unat n < 2 ^ 32" by (rule unat_less_32)
  then have u: "unat (ucast n :: u64) = unat n" by (simp add: unsigned_ucast_eq take_bit_nat_eq_self_iff)
  have "parse_u64 (dec_string (unat (ucast n :: u64))) = Some (ucast n)" by (rule parse_u64_dec)
  moreover have "\<not> (0xFFFFFFFF :: u64) < ucast n" using u n by (simp add: word_less_nat_alt)
  moreover have "(ucast (ucast n :: u64) :: u32) = n"
  proof -
    have "(word_of_nat (unat (ucast n :: u64)) :: u32) = ucast (ucast n :: u64)" by (rule of_nat_unat)
    then show ?thesis unfolding u by simp
  qed
  ultimately show ?thesis unfolding u by (simp add: parse_u32_def)
qed

lemma dec_string_clean: "clean (dec_string n)"
proof -
  have d: "\<forall>ch \<in> set (dec_string n). is_digit ch" by (rule dec_string_digits)
  moreover have "\<not> is_digit (CHR '';'')" "\<not> is_digit (CHR '','')" "\<not> is_digit (CHR '' '')" "\<not> is_digit (CHR 0x09)"
    by (simp_all add: is_digit_def)
  moreover have "hd (dec_string n) \<in> set (dec_string n)" "last (dec_string n) \<in> set (dec_string n)" by simp_all
  ultimately show ?thesis unfolding clean_def blank_def by metis
qed

section \<open>Printing and parsing\<close>

text \<open>
  What a script can say about a step: one value, the default everywhere else. Evaluation steps
  are printed with rounded numbers and are left out.
\<close>

definition canonical_step :: "ReferenceStep \<Rightarrow> bool" where
  "canonical_step st \<longleftrightarrow>
     (case stp_kind st of
        RK_produce_ok \<Rightarrow> clean (stp_value st) \<and> st = step_default\<lparr>stp_value := stp_value st\<rparr>
      | RK_produce_failure \<Rightarrow> st = step_default\<lparr>stp_kind := RK_produce_failure, stp_failure := stp_failure st\<rparr>
      | RK_produce_abstain \<Rightarrow>
          clean (stp_rationale st) \<and> st = step_default\<lparr>stp_kind := RK_produce_abstain, stp_rationale := stp_rationale st\<rparr>
      | RK_produce_malformed \<Rightarrow> stp_malformed_bytes st \<le> 0x100000 \<and>
          st = step_default\<lparr>stp_kind := RK_produce_malformed, stp_malformed_bytes := stp_malformed_bytes st\<rparr>
      | RK_wait_gate \<Rightarrow> clean (stp_gate st) \<and> st = step_default\<lparr>stp_kind := RK_wait_gate, stp_gate := stp_gate st\<rparr>
      | RK_die \<Rightarrow> st = step_default\<lparr>stp_kind := RK_die, stp_value := ''immediate''\<rparr>
      | RK_evaluate \<Rightarrow> False)"

lemma kind_text:
  "CHR '':'' \<notin> set (step_kind_to_string k)" "CHR '';'' \<notin> set (step_kind_to_string k)"
  "step_kind_to_string k \<noteq> []" "\<not> blank (hd (step_kind_to_string k))"
  "parse_step_kind (step_kind_to_string k) = Ok k"
  by (cases k; simp add: blank_def parse_step_kind_def)+

text \<open>One assignment behind the kind.\<close>

lemma parse_step_one:
  assumes "CHR ''='' \<notin> set key" "CHR '','' \<notin> set key" "trim key = key" "clean v"
    and "apply_key key v (step_default\<lparr>stp_kind := k\<rparr>) = Ok st"
  shows "parse_step (step_kind_to_string k @ '':'' @ key @ ''='' @ v) = Ok st"
proof -
  let ?t = "key @ CHR ''='' # v"
  have "CHR '','' \<notin> set ?t" using assms(2,4) by (simp add: clean_def)
  then have "split_text CHR '','' ?t = [?t]" by (rule split_text_single)
  then show ?thesis
    using assms kind_text(1)[of k] by (simp add: parse_step_def before_append behind_append kind_text(5) trim_clean)
qed

lemma step_text:
  assumes "CHR '';'' \<notin> set key" "key \<noteq> []" "clean v"
  shows "CHR '';'' \<notin> set (step_kind_to_string k @ '':'' @ key @ ''='' @ v)"
    and "trim (step_kind_to_string k @ '':'' @ key @ ''='' @ v) = step_kind_to_string k @ '':'' @ key @ ''='' @ v"
proof -
  show "CHR '';'' \<notin> set (step_kind_to_string k @ '':'' @ key @ ''='' @ v)"
    using assms kind_text(2)[of k] by (simp add: clean_def)
  have "\<not> blank (last (step_kind_to_string k @ '':'' @ key @ ''='' @ v))"
    using assms(3) by (cases "v = []") (simp_all add: clean_def blank_def)
  then show "trim (step_kind_to_string k @ '':'' @ key @ ''='' @ v) = step_kind_to_string k @ '':'' @ key @ ''='' @ v"
    using kind_text(3,4)[of k] by (intro trim_same) simp
qed

lemma canonical_round:
  assumes "canonical_step st"
  obtains str where "render_step st = Some str" "parse_step str = Ok st" "CHR '';'' \<notin> set str" "trim str = str"
    "str \<noteq> []" "take 5 str \<noteq> ''seed=''"
proof -
  have one: thesis
    if "render_step st = Some (step_kind_to_string k @ '':'' @ key @ ''='' @ v)" "CHR ''='' \<notin> set key"
      "CHR '','' \<notin> set key" "CHR '';'' \<notin> set key" "key \<noteq> []" "trim key = key" "clean v"
      "apply_key key v (step_default\<lparr>stp_kind := k\<rparr>) = Ok st" for k key v
  proof (rule \<open>\<And>str. render_step st = Some str \<Longrightarrow> _ \<Longrightarrow> _ \<Longrightarrow> _ \<Longrightarrow> _ \<Longrightarrow> _ \<Longrightarrow> thesis\<close>[OF that(1)])
    show "take 5 (step_kind_to_string k @ '':'' @ key @ ''='' @ v) \<noteq> ''seed=''" by (cases k) simp_all
  qed (use that parse_step_one step_text in \<open>simp_all add: kind_text(3)\<close>)
  show thesis
  proof (cases "stp_kind st")
    case RK_produce_ok
    with assms show ?thesis
      by (intro one[of RK_produce_ok "''value''" "stp_value st"])
        (auto simp: canonical_step_def render_step_def trim_def blank_def apply_key_def step_default_def)
  next
    case RK_produce_failure
    have "clean (failure_kind_to_string (stp_failure st))"
      by (cases "stp_failure st") (simp_all add: clean_def blank_def)
    with RK_produce_failure assms show ?thesis
      by (intro one[of RK_produce_failure "''kind''" "failure_kind_to_string (stp_failure st)"])
        (auto simp: canonical_step_def render_step_def trim_def blank_def apply_key_def require_def
           failure_kind_codec.parse_print)
  next
    case RK_produce_abstain
    with assms show ?thesis
      by (intro one[of RK_produce_abstain "''rationale''" "stp_rationale st"])
        (auto simp: canonical_step_def render_step_def trim_def blank_def apply_key_def)
  next
    case RK_produce_malformed
    with assms show ?thesis
      by (intro one[of RK_produce_malformed "''bytes''" "dec_string (unat (stp_malformed_bytes st))"])
        (auto simp: canonical_step_def render_step_def trim_def blank_def apply_key_def dec_string_clean
           parse_u32_dec not_less)
  next
    case RK_wait_gate
    with assms show ?thesis
      by (intro one[of RK_wait_gate "''gate''" "stp_gate st"])
        (auto simp: canonical_step_def render_step_def trim_def blank_def apply_key_def)
  next
    case RK_die
    with assms show ?thesis
      by (intro one[of RK_die "''value''" "''immediate''"])
        (auto simp: canonical_step_def render_step_def trim_def blank_def apply_key_def clean_def)
  next
    case RK_evaluate
    with assms show ?thesis by (simp add: canonical_step_def)
  qed
qed

lemma render_steps_parse:
  assumes "render_steps sts = Some tail" "list_all canonical_step sts"
  obtains texts where "\<And>h. CHR '';'' \<notin> set h \<Longrightarrow> split_text CHR '';'' (h @ tail) = h # texts"
    and "\<And>pg. parse_steps texts pg = Ok (pg\<lparr>pg_steps := pg_steps pg @ sts\<rparr>)"
  using assms
proof (induction sts arbitrary: tail thesis)
  case Nil
  then show ?case by (auto intro!: Nil.prems(1)[of "[]"] simp: split_text_single)
next
  case (Cons st sts)
  obtain str where str: "render_step st = Some str" "parse_step str = Ok st" "CHR '';'' \<notin> set str" "trim str = str"
    "str \<noteq> []" "take 5 str \<noteq> ''seed=''"
    using canonical_round[of st] Cons.prems(3) by auto
  with Cons.prems(2) obtain b where b: "render_steps sts = Some b" "tail = CHR '';'' # str @ b"
    by (auto split: option.splits)
  obtain texts where texts: "\<And>h. CHR '';'' \<notin> set h \<Longrightarrow> split_text CHR '';'' (h @ b) = h # texts"
    "\<And>pg. parse_steps texts pg = Ok (pg\<lparr>pg_steps := pg_steps pg @ sts\<rparr>)"
    using Cons.IH[OF _ b(1)] Cons.prems(3) by auto
  show ?case
  proof (rule Cons.prems(1)[of "str # texts"])
    show "split_text CHR '';'' (h @ tail) = h # str # texts" if "CHR '';'' \<notin> set h" for h
      using that by (simp add: b split_text_append texts(1)[OF str(3)])
    show "parse_steps (str # texts) pg = Ok (pg\<lparr>pg_steps := pg_steps pg @ st # sts\<rparr>)" for pg
      by (simp add: str texts Let_def)
  qed
qed

text \<open>
  C37: a printed script is read back exactly. Whatever program of canonical steps is printed, the
  parser returns the same program, seed included, as long as the text is within the script bound.
\<close>

theorem script_round_trip:
  assumes "list_all canonical_step (pg_steps pg)" and "pg_steps pg \<noteq> []"
    and "render_program pg = Some str" and "length str \<le> 65536"
  shows "parse_program str = Ok pg"
proof -
  obtain tail where tail: "render_steps (pg_steps pg) = Some tail" "str = ''seed='' @ dec_string (unat (pg_seed pg)) @ tail"
    using assms(3) by (auto simp: render_program_def)
  obtain texts where texts: "\<And>h. CHR '';'' \<notin> set h \<Longrightarrow> split_text CHR '';'' (h @ tail) = h # texts"
    "\<And>p. parse_steps texts p = Ok (p\<lparr>pg_steps := pg_steps p @ pg_steps pg\<rparr>)"
    using render_steps_parse[OF tail(1) assms(1)] by blast
  let ?h = "''seed='' @ dec_string (unat (pg_seed pg))"
  have c: "clean (dec_string (unat (pg_seed pg)))" by (rule dec_string_clean)
  then have h: "CHR '';'' \<notin> set ?h" "trim ?h = ?h" by (auto simp: clean_def blank_def intro!: trim_same)
  have "split_text CHR '';'' str = ?h # texts" using texts(1)[OF h(1)] by (simp add: tail)
  moreover have "str \<noteq> []" "\<not> 65536 < length str" using assms(4) by (simp_all add: tail)
  moreover have "parse_steps (?h # texts) \<lparr>pg_steps = [], pg_seed = 0\<rparr> = Ok pg"
    using h(2) by (simp add: Let_def parse_u64_dec texts(2))
  ultimately show ?thesis using assms(2) by (simp add: parse_program_def)
qed

theorem script_round_trip_witness:
  "parse_program ''seed=7;ok:value=yes;gate:gate=/tmp/g;fail:kind=UNAVAILABLE'' =
     Ok \<lparr>pg_steps = [step_default\<lparr>stp_value := ''yes''\<rparr>, step_default\<lparr>stp_kind := RK_wait_gate, stp_gate := ''/tmp/g''\<rparr>,
       step_default\<lparr>stp_kind := RK_produce_failure, stp_failure := FK_unavailable\<rparr>], pg_seed = 7\<rparr>"
proof (rule script_round_trip)
  let ?pg = "\<lparr>pg_steps = [step_default\<lparr>stp_value := ''yes''\<rparr>, step_default\<lparr>stp_kind := RK_wait_gate, stp_gate := ''/tmp/g''\<rparr>,
       step_default\<lparr>stp_kind := RK_produce_failure, stp_failure := FK_unavailable\<rparr>], pg_seed = 7\<rparr>"
  show "list_all canonical_step (pg_steps ?pg)" by (simp add: canonical_step_def step_default_def clean_def blank_def)
  show "render_program ?pg = Some ''seed=7;ok:value=yes;gate:gate=/tmp/g;fail:kind=UNAVAILABLE''"
    by code_simp
qed simp_all

section \<open>Termination\<close>

lemma step_at_mem: "pg_steps pg \<noteq> [] \<Longrightarrow> step_at pg i \<in> set (pg_steps pg)"
  by (auto simp: step_at_def min_less_iff_disj intro!: nth_mem)

lemma non_gate_ahead:
  assumes "pg_steps pg \<noteq> []" "stp_kind (last (pg_steps pg)) \<noteq> RK_wait_gate"
    "list_all (\<lambda>st. gate_open gates (stp_gate st)) (pg_steps pg)"
    "length (pg_steps pg) - 1 \<le> unat i + m" "unat i + m < 2 ^ 64"
  shows "\<exists>n\<le>m. gates_only gates pg i n \<and> stp_kind (step_at pg (i + of_nat n)) \<noteq> RK_wait_gate"
  using assms(4,5)
proof (induction m arbitrary: i)
  case 0
  then have "step_at pg i = last (pg_steps pg)" by (intro step_at_last assms(1)) simp
  with assms(2) show ?case by (auto intro!: exI[of _ 0])
next
  case (Suc m)
  show ?case
  proof (cases "stp_kind (step_at pg i) = RK_wait_gate")
    case True
    have "i \<noteq> - 1" using Suc.prems(2) unat_minus_one_64 by auto
    then have i: "unat (i + 1) = Suc (unat i)" by (rule unat_plus_1_64)
    then obtain n where n: "n \<le> m" "gates_only gates pg (i + 1) n" "stp_kind (step_at pg (i + 1 + of_nat n)) \<noteq> RK_wait_gate"
      using Suc.IH[of "i + 1"] Suc.prems by auto
    moreover have "gate_open gates (stp_gate (step_at pg i))"
      using assms(3) step_at_mem[OF assms(1)] by (auto simp: list_all_iff)
    ultimately show ?thesis using True by (intro exI[of _ "Suc n"]) (simp add: algebra_simps)
  next
    case False
    then show ?thesis by (intro exI[of _ 0]) simp
  qed
qed

lemma stuck_at_gates:
  assumes "pg_steps (bk_program bk) \<noteq> []" "stp_kind (last (pg_steps (bk_program bk))) = RK_wait_gate"
    "length (pg_steps (bk_program bk)) - 1 \<le> unat (bk_step_index bk)" "unat (bk_step_index bk) + fuel < 2 ^ 64"
  shows "consume fuel gates bk = Waiting"
  using assms
proof (induction fuel arbitrary: bk)
  case (Suc fuel)
  have "bk_step_index bk \<noteq> - 1" using Suc.prems(4) unat_minus_one_64 by auto
  then have i: "unat (bk_step_index bk + 1) = Suc (unat (bk_step_index bk))" by (rule unat_plus_1_64)
  have "step_at (bk_program bk) (bk_step_index bk) = last (pg_steps (bk_program bk))"
    by (rule step_at_last) (use Suc.prems in simp_all)
  moreover have "consume fuel gates (bk\<lparr>bk_step_index := bk_step_index bk + 1\<rparr>) = Waiting"
    by (rule Suc.IH) (use Suc.prems i in simp_all)
  ultimately show ?case using Suc.prems(2) by (simp add: Let_def)
qed simp

text \<open>
  C38: a script answers a request, within as many rounds as it has steps, if its last step is not a
  gate and its gates are open: the answer is its first step behind the current one that is not a
  gate, and the index moves on. A script that has arrived at a last step that is a gate never
  answers: not even the full range of the step index gets it out of the loop, open gate or not.
\<close>

theorem script_termination:
  assumes "pg_steps (bk_program bk) \<noteq> []"
    and "list_all (\<lambda>st. gate_open gates (stp_gate st)) (pg_steps (bk_program bk))"
  shows "if stp_kind (last (pg_steps (bk_program bk))) \<noteq> RK_wait_gate
    then unat (bk_step_index bk) + length (pg_steps (bk_program bk)) < 2 ^ 64 \<longrightarrow>
      (\<exists>n st bk'. consume (length (pg_steps (bk_program bk))) gates bk = Returned (st, bk') \<and>
         st \<in> set (pg_steps (bk_program bk)) \<and> stp_kind st \<noteq> RK_wait_gate \<and> gates_only gates (bk_program bk) (bk_step_index bk) n \<and>
         unat (bk_step_index bk') = unat (bk_step_index bk) + Suc n)
    else length (pg_steps (bk_program bk)) - 1 \<le> unat (bk_step_index bk) \<longrightarrow>
      (\<forall>fuel. unat (bk_step_index bk) + fuel < 2 ^ 64 \<longrightarrow> consume fuel gates bk = Waiting)"
proof (cases "stp_kind (last (pg_steps (bk_program bk))) = RK_wait_gate")
  case False
  let ?pg = "bk_program bk" and ?i = "bk_step_index bk" and ?m = "length (pg_steps (bk_program bk)) - 1"
  have "\<exists>n st bk'. consume (length (pg_steps ?pg)) gates bk = Returned (st, bk') \<and> st \<in> set (pg_steps ?pg) \<and>
      stp_kind st \<noteq> RK_wait_gate \<and> gates_only gates ?pg ?i n \<and> unat (bk_step_index bk') = unat ?i + Suc n"
    if b: "unat ?i + length (pg_steps ?pg) < 2 ^ 64"
  proof -
    obtain n where n: "n \<le> ?m" "gates_only gates ?pg ?i n" "stp_kind (step_at ?pg (?i + of_nat n)) \<noteq> RK_wait_gate"
    proof -
      have "unat ?i + ?m < 2 ^ 64" using b by linarith
      then show thesis using non_gate_ahead[OF assms(1) False assms(2) le_add2] that by blast
    qed
    let ?bk = "bk\<lparr>bk_step_index := ?i + of_nat (Suc n)\<rparr>"
    have less: "n < length (pg_steps ?pg)" using n(1) assms(1) by (cases "pg_steps ?pg") auto
    have "consume (length (pg_steps ?pg)) gates bk = Returned (step_at ?pg (?i + of_nat n), ?bk)"
      unfolding consume_returns_iff using n less by blast
    moreover have "unat (?i + of_nat (Suc n)) = unat ?i + Suc n"
    proof -
      have "unat (of_nat (Suc n) :: u64) = Suc n" using less b by (simp add: unat_of_nat del: of_nat_Suc)
      then show ?thesis using less b by (subst unat_plus_simple[THEN iffD1]) (simp_all add: no_olen_add_nat del: of_nat_Suc)
    qed
    ultimately show ?thesis using n step_at_mem[OF assms(1)] by (intro exI[of _ n] exI conjI) auto
  qed
  with False show ?thesis by simp
next
  case True
  then show ?thesis using stuck_at_gates[OF assms(1) True] by simp
qed

definition patient_program :: ReferenceProgram where
  "patient_program = \<lparr>pg_steps = [step_default\<lparr>stp_kind := RK_wait_gate, stp_gate := ''g''\<rparr>, step_default], pg_seed = 0\<rparr>"

definition trapped_program :: ReferenceProgram where
  "trapped_program = \<lparr>pg_steps = [step_default, step_default\<lparr>stp_kind := RK_wait_gate, stp_gate := ''g''\<rparr>], pg_seed = 0\<rparr>"

theorem script_termination_witness:
  "(\<exists>st bk. consume (length (pg_steps patient_program)) (\<lambda>path. path = ''g'') (new_backend patient_program) = Returned (st, bk)) \<and>
   consume 1000 (\<lambda>path. path = ''g'') ((new_backend trapped_program)\<lparr>bk_step_index := 1\<rparr>) = Waiting"
proof
  show "\<exists>st bk. consume (length (pg_steps patient_program)) (\<lambda>path. path = ''g'') (new_backend patient_program) = Returned (st, bk)"
    using script_termination[of "new_backend patient_program" "\<lambda>path. path = ''g''"]
    by (auto simp: new_backend_def patient_program_def gate_open_def step_default_def simp del: consume.simps)
  show "consume 1000 (\<lambda>path. path = ''g'') ((new_backend trapped_program)\<lparr>bk_step_index := 1\<rparr>) = Waiting"
    using script_termination[of "(new_backend trapped_program)\<lparr>bk_step_index := 1\<rparr>" "\<lambda>path. path = ''g''"]
    by (simp add: new_backend_def trapped_program_def gate_open_def step_default_def del: consume.simps)
qed

end
