(* ===== verification/Driver_Runs.thy ===== *)
theory Driver_Runs
  imports Local_Driver Script_Properties
begin

text \<open>
  The local driver owns no authority: whatever its backends answer, the state of the runtime
  changes by the runtime's own operations. And it returns whenever its backends do, a contract
  stated as a locale and met by the scripts of the reference backend that do not end in a gate.
\<close>

section \<open>Runs of the runtime\<close>

definition drives :: "'b LocalDriver \<Rightarrow> 'b LocalDriver \<Rightarrow> bool" where
  "drives ld ld' \<longleftrightarrow> rtranclp fabric_step (ld_fabric ld) (ld_fabric ld') \<and>
     ld_ensemble ld' = ld_ensemble ld \<and> ld_ensemble_generation ld' = ld_ensemble_generation ld"

lemma drives_refl [simp]: "drives ld ld"
  by (simp add: drives_def)

lemma drives_trans: "drives a b \<Longrightarrow> drives b c \<Longrightarrow> drives a c"
  by (auto simp: drives_def)

lemma bind_run_Returned: "bind_run r k = Returned y \<longleftrightarrow> (\<exists>x. r = Returned x \<and> k x = Returned y)"
  by (cases r) (simp_all add: bind_run_def)

lemma submitted_drives: "fabric_step (ld_fabric ld) (fst r) \<Longrightarrow> drives ld (fst (submitted ld r))"
  by (cases r; auto simp: submitted_def drives_def)

lemma drives_backends [simp]: "drives ld (ld'\<lparr>ld_backends := bs\<rparr>) = drives ld ld'" "drives (ld\<lparr>ld_backends := bs\<rparr>) ld' = drives ld ld'"
  by (simp_all add: drives_def)

lemma submit_production_drives: "drives ld (fst (submit_production authority production ld))"
  by (auto simp: submit_production_def intro!: submitted_drives step_submit_candidate step_submit_failure
        step_submit_abstention split: outcome.split ProductionKind.split)

lemma production_drives:
  "submit_production authority production (ld\<lparr>ld_backends := bs\<rparr>) = (ld', b) \<Longrightarrow> drives ld ld'"
  using submit_production_drives[of "ld\<lparr>ld_backends := bs\<rparr>" authority production] by simp

lemma perform_dispatch_drives: "perform_dispatch bi da ld = Returned (ld', b) \<Longrightarrow> drives ld ld'"
  by (auto simp: perform_dispatch_def Let_def bind_run_Returned split: option.splits if_splits dest: production_drives)

lemma evaluated_drives:
  "submitted (ld\<lparr>ld_backends := bs\<rparr>) (submit_evaluation es (ld_fabric ld)) = (ld', b) \<Longrightarrow> drives ld ld'"
  using submitted_drives[of "ld\<lparr>ld_backends := bs\<rparr>" "submit_evaluation es (ld_fabric ld)"]
    step_submit_evaluation[of "ld_fabric ld" es] by simp

lemma perform_evaluation_drives: "perform_evaluation bi va ld = Returned (ld', b) \<Longrightarrow> drives ld ld'"
  by (auto simp: perform_evaluation_def Let_def bind_run_Returned split: option.splits outcome.splits if_splits
      dest: evaluated_drives) (metis outcome.exhaust evaluated_drives)

lemma perform_drives: "perform bi a ld = Returned (ld', b) \<Longrightarrow> drives ld ld'"
  by (cases a) (auto dest: perform_dispatch_drives perform_evaluation_drives)

lemma perform_all_drives: "perform_all bi as k ld = Returned (ld', k') \<Longrightarrow> drives ld ld'"
proof (induction as arbitrary: k ld)
  case (Cons a as)
  then obtain ld1 b where "perform bi a ld = Returned (ld1, b)" "drives ld1 ld'"
    by (auto simp: bind_run_Returned)
  then show ?case using perform_drives drives_trans by blast
qed simp

lemma driver_step_drives: "driver_step bi ld = Returned (ld', r) \<Longrightarrow> drives ld ld'"
proof -
  assume r: "driver_step bi ld = Returned (ld', r)"
  obtain im out where a: "advance (ld_ensemble ld) (ld_ensemble_generation ld) (ld_fabric ld) = (im, out)"
    by (cases "advance (ld_ensemble ld) (ld_ensemble_generation ld) (ld_fabric ld)")
  have s: "drives ld (ld\<lparr>ld_fabric := im\<rparr>)"
    using step_advance[of "ld_fabric ld" "ld_ensemble ld" "ld_ensemble_generation ld"] a by (auto simp: drives_def)
  show ?thesis
    using r s by (auto simp: driver_step_def a bind_run_Returned split: outcome.splits dest!: perform_all_drives
        intro: drives_trans)
qed

lemma run_rounds_drives: "run_rounds n bi ld = Returned (ld', r) \<Longrightarrow> drives ld ld'"
proof (induction n arbitrary: ld)
  case (Suc n)
  then obtain ld1 p where p: "driver_step bi ld = Returned (ld1, p)"
    and r: "(case p of Err e \<Rightarrow> Returned (ld1, fail e)
       | Ok k \<Rightarrow> if k = 0 then Returned (ld1, ok_status) else run_rounds n bi ld1) = Returned (ld', r)"
    by (auto simp: bind_run_Returned)
  have "drives ld ld1" by (rule driver_step_drives[OF p])
  with r Suc.IH show ?case by (auto split: outcome.splits if_splits intro: drives_trans)
qed simp

lemma driver_kill_drives: "drives ld (fst (kill k detail ld))"
proof -
  let ?a = "driver_authority (ld_participants ld ! k) ld"
  obtain im r where "report_participant_failure ?a FK_unavailable detail (ld_fabric ld) = (im, r)"
    by (cases "report_participant_failure ?a FK_unavailable detail (ld_fabric ld)")
  then show ?thesis
    using step_report_failure[of "ld_fabric ld" ?a FK_unavailable detail] by (auto simp: kill_def Let_def drives_def)
qed

section \<open>How a run of rounds ends\<close>

text \<open>A round that performed at least one action.\<close>

definition worked :: "'b BackendInterface \<Rightarrow> 'b LocalDriver \<Rightarrow> 'b LocalDriver \<Rightarrow> bool" where
  "worked bi ld ld' \<longleftrightarrow> (\<exists>k. driver_step bi ld = Returned (ld', Ok k) \<and> k \<noteq> 0)"

lemma worked_drives: "(worked bi ^^ m) ld ld' \<Longrightarrow> drives ld ld'"
proof (induction m arbitrary: ld')
  case (Suc m)
  then obtain ld1 where "(worked bi ^^ m) ld ld1" "worked bi ld1 ld'" by auto
  with Suc.IH show ?case using driver_step_drives drives_trans unfolding worked_def by blast
qed (simp add: drives_refl)

lemma run_rounds_ends:
  assumes "run_rounds n bi ld = Returned (ld', r)"
  shows "\<exists>m before. (worked bi ^^ m) ld before \<and>
    (if m < n
     then driver_step bi before = Returned (ld', Ok 0) \<and> r = ok_status \<or>
       (\<exists>e. driver_step bi before = Returned (ld', Err e) \<and> r = fail e)
     else m = n \<and> before = ld' \<and> r = fail E_resource_limit_exceeded)"
  using assms
proof (induction n arbitrary: ld)
  case (Suc n)
  then obtain ld1 p where p: "driver_step bi ld = Returned (ld1, p)"
    and r: "(case p of Err e \<Rightarrow> Returned (ld1, fail e)
       | Ok k \<Rightarrow> if k = 0 then Returned (ld1, ok_status) else run_rounds n bi ld1) = Returned (ld', r)"
    by (auto simp: bind_run_Returned)
  show ?case
  proof (cases "\<exists>k. p = Ok k \<and> k \<noteq> 0")
    case True
    then have w: "worked bi ld ld1" using p by (auto simp: worked_def)
    from True r have "run_rounds n bi ld1 = Returned (ld', r)" by auto
    from Suc.IH[OF this] obtain m before where m: "(worked bi ^^ m) ld1 before" and
      e: "if m < n then driver_step bi before = Returned (ld', Ok 0) \<and> r = ok_status \<or>
          (\<exists>e. driver_step bi before = Returned (ld', Err e) \<and> r = fail e)
        else m = n \<and> before = ld' \<and> r = fail E_resource_limit_exceeded" by blast
    have "(worked bi ^^ Suc m) ld before" using w m by (rule relpowp_Suc_I2)
    moreover have "Suc m < Suc n \<longleftrightarrow> m < n" "Suc m = Suc n \<longleftrightarrow> m = n" by simp_all
    ultimately show ?thesis using e by metis
  next
    case False
    with p r have "driver_step bi ld = Returned (ld', Ok 0) \<and> r = ok_status \<or>
        (\<exists>e. driver_step bi ld = Returned (ld', Err e) \<and> r = fail e)" by (cases p) auto
    then show ?thesis by (intro exI[of _ 0] exI[of _ ld]) simp
  qed
qed simp

section \<open>Drivers that return\<close>

locale live_backend =
  fixes bi :: "'b BackendInterface" and live :: "'b \<Rightarrow> bool"
  assumes produce_answers: "live b \<Longrightarrow> \<exists>b' r. bi_produce bi b m = Returned (b', r) \<and> live b'"
    and evaluate_answers: "live b \<Longrightarrow> \<exists>b' r. bi_evaluate bi b q = Returned (b', r) \<and> live b'"
begin

definition lively :: "'b LocalDriver \<Rightarrow> bool" where
  "lively ld \<longleftrightarrow> (\<forall>h. live (ld_backends ld h))"

lemma lively_fabric [simp]: "lively (ld\<lparr>ld_fabric := im\<rparr>) = lively ld"
  by (simp add: lively_def)

lemma lively_submitted [simp]: "lively (fst (submitted ld r)) = lively ld"
  by (cases r) (simp add: submitted_def)

lemma lively_production [simp]: "lively (fst (submit_production authority production ld)) = lively ld"
  by (simp add: submit_production_def split: outcome.split ProductionKind.split)

lemma dispatch_returns:
  assumes "lively ld"
  shows "\<exists>ld' b. perform_dispatch bi da ld = Returned (ld', b) \<and> lively ld'"
proof (cases "find_local (da_participant da) ld")
  case (Some lp)
  show ?thesis
  proof (cases "lp_backend lp")
    case (Some h)
    let ?m = "dispatch_message (im_epoch (ld_fabric ld)) da"
    obtain b r where r: "bi_produce bi (ld_backends ld h) ?m = Returned (b, r)" "live b"
      using produce_answers[of "ld_backends ld h" ?m] assms unfolding lively_def by blast
    let ?ld = "ld\<lparr>ld_backends := (ld_backends ld)(h := b)\<rparr>"
    have "lively ?ld" using assms r(2) by (simp add: lively_def)
    then have "\<exists>ld' x. Returned (submit_production authority r ?ld) = Returned (ld', x) \<and> lively ld'" for authority
      by (metis lively_production prod.collapse)
    then show ?thesis
      using assms Some \<open>find_local (da_participant da) ld = Some lp\<close> r(1)
      by (auto simp: perform_dispatch_def Let_def bind_run_def)
  qed (use assms Some in \<open>auto simp: perform_dispatch_def intro: exI[of _ False]\<close>)
qed (use assms in \<open>auto simp: perform_dispatch_def intro: exI[of _ False]\<close>)

lemma evaluation_returns:
  assumes "lively ld"
  shows "\<exists>ld' b. perform_evaluation bi va ld = Returned (ld', b) \<and> lively ld'"
proof (cases "find_local (va_judge va) ld")
  case (Some lp)
  note found = Some
  show ?thesis
  proof (cases "lp_backend lp")
    case (Some h)
    show ?thesis
    proof (cases "inspect (ld_ensemble ld) (ld_fabric ld)")
      case (Ok sn)
      let ?m = "(evaluation_message (im_epoch (ld_fabric ld)) va)
        \<lparr>erq_candidate_payload := candidate_payload_in (va_candidate va) sn\<rparr>"
      obtain b r where r: "bi_evaluate bi (ld_backends ld h) ?m = Returned (b, r)" "live b"
        using evaluate_answers[of "ld_backends ld h" ?m] assms unfolding lively_def by blast
      let ?ld = "ld\<lparr>ld_backends := (ld_backends ld)(h := b)\<rparr>"
      have l: "lively ?ld" using assms r(2) by (simp add: lively_def)
      then have "\<exists>ld' x. Returned (submitted ?ld q) = Returned (ld', x) \<and> lively ld'" for q :: "Impl \<times> EvaluationId outcome"
        by (metis lively_submitted prod.collapse)
      then show ?thesis
        using assms Some found Ok r(1) l
        by (auto simp: perform_evaluation_def Let_def bind_run_def split: outcome.split)
    next
      case (Err e)
      then show ?thesis using assms found Some by (auto simp: perform_evaluation_def intro: exI[of _ False])
    qed
  qed (use assms Some in \<open>auto simp: perform_evaluation_def intro: exI[of _ False]\<close>)
qed (use assms in \<open>auto simp: perform_evaluation_def intro: exI[of _ False]\<close>)

lemma perform_returns: "lively ld \<Longrightarrow> \<exists>ld' b. perform bi a ld = Returned (ld', b) \<and> lively ld'"
proof (cases a)
  case (Dispatch da)
  then show "lively ld \<Longrightarrow> ?thesis" using dispatch_returns[of ld da] by simp
next
  case (Evaluate va)
  then show "lively ld \<Longrightarrow> ?thesis" using evaluation_returns[of ld va] by simp
qed (auto intro: exI[of _ True])

lemma perform_all_returns: "lively ld \<Longrightarrow> \<exists>ld' k'. perform_all bi as k ld = Returned (ld', k') \<and> lively ld'"
proof (induction as arbitrary: k ld)
  case (Cons a as)
  obtain ld1 b where "perform bi a ld = Returned (ld1, b)" "lively ld1" using perform_returns[OF Cons.prems] by blast
  then show ?case using Cons.IH[of ld1] by (simp add: bind_run_def)
qed simp

lemma step_returns: "lively ld \<Longrightarrow> \<exists>ld' r. driver_step bi ld = Returned (ld', r) \<and> lively ld'"
proof -
  assume l: "lively ld"
  obtain im out where a: "advance (ld_ensemble ld) (ld_ensemble_generation ld) (ld_fabric ld) = (im, out)"
    by (cases "advance (ld_ensemble ld) (ld_ensemble_generation ld) (ld_fabric ld)")
  show ?thesis
  proof (cases out)
    case (Ok actions)
    obtain ld1 k where "perform_all bi actions 0 (ld\<lparr>ld_fabric := im\<rparr>) = Returned (ld1, k)" "lively ld1"
      using perform_all_returns[of "ld\<lparr>ld_fabric := im\<rparr>" actions 0] l unfolding lively_fabric by blast
    then show ?thesis using a Ok by (simp add: driver_step_def bind_run_def)
  qed (use a l in \<open>simp add: driver_step_def\<close>)
qed

text \<open>A driver over live backends returns.\<close>

lemma rounds_return: "lively ld \<Longrightarrow> \<exists>ld' r. run_rounds n bi ld = Returned (ld', r)"
proof (induction n arbitrary: ld)
  case (Suc n)
  obtain ld1 p where p: "driver_step bi ld = Returned (ld1, p)" "lively ld1" using step_returns[OF Suc.prems] by blast
  show ?case using Suc.IH[OF p(2)] p(1) by (cases p) (auto simp: bind_run_def)
qed simp

end

section \<open>Scripts that answer\<close>

definition playable :: "nat \<Rightarrow> (string \<Rightarrow> bool) \<Rightarrow> ReferenceProgram \<Rightarrow> bool" where
  "playable fuel gates pg \<longleftrightarrow> pg_steps pg \<noteq> [] \<and> length (pg_steps pg) \<le> fuel \<and> length (pg_steps pg) < 2 ^ 63 \<and>
     stp_kind (last (pg_steps pg)) \<noteq> RK_wait_gate \<and>
     list_all (\<lambda>st. stp_kind st \<noteq> RK_die \<and> gate_open gates (stp_gate st)) (pg_steps pg)"

lemma playable_consumes:
  assumes "playable fuel gates (bk_program bk)"
  shows "\<exists>st bk'. consume fuel gates bk = Returned (st, bk') \<and> stp_kind st \<noteq> RK_die \<and> bk_program bk' = bk_program bk"
proof -
  let ?pg = "bk_program bk" and ?i = "bk_step_index bk"
  let ?m = "length (pg_steps ?pg) - 1 - unat ?i"
  have pg: "pg_steps ?pg \<noteq> []" and len: "length (pg_steps ?pg) \<le> fuel" "length (pg_steps ?pg) < 2 ^ 63"
    and g: "list_all (\<lambda>st. gate_open gates (stp_gate st)) (pg_steps ?pg)"
    and no: "\<forall>st \<in> set (pg_steps ?pg). stp_kind st \<noteq> RK_die" and l: "stp_kind (last (pg_steps ?pg)) \<noteq> RK_wait_gate"
    using assms by (auto simp: playable_def list_all_iff)
  have room: "unat ?i + ?m < 2 ^ 64" using unat_less_64[of ?i] len(2) by (cases "unat ?i \<le> length (pg_steps ?pg) - 1") auto
  have "length (pg_steps ?pg) - 1 \<le> unat ?i + ?m" by linarith
  then obtain n where n: "n \<le> ?m" "gates_only gates ?pg ?i n" "stp_kind (step_at ?pg (?i + of_nat n)) \<noteq> RK_wait_gate"
    using non_gate_ahead[OF pg l g _ room] by blast
  have "?m < length (pg_steps ?pg)" using pg by (cases "pg_steps ?pg") auto
  with n(1) len(1) have "n < fuel" by linarith
  then have "consume fuel gates bk = Returned (step_at ?pg (?i + of_nat n), bk\<lparr>bk_step_index := ?i + of_nat (Suc n)\<rparr>)"
    unfolding consume_returns_iff using n by blast
  then show ?thesis using no step_at_mem[OF pg] by auto
qed

interpretation scripted: live_backend "reference_interface fuel gates" "\<lambda>bk. playable fuel gates (bk_program bk)"
  for fuel gates
proof
  fix b :: ReferenceBackend and m q
  assume "playable fuel gates (bk_program b)"
  then obtain st bk where "consume fuel gates b = Returned (st, bk)" "stp_kind st \<noteq> RK_die" "bk_program bk = bk_program b"
    using playable_consumes by blast
  then show "\<exists>b' r. bi_produce (reference_interface fuel gates) b m = Returned (b', r) \<and> playable fuel gates (bk_program b')"
    and "\<exists>b' r. bi_evaluate (reference_interface fuel gates) b q = Returned (b', r) \<and> playable fuel gates (bk_program b')"
    using \<open>playable fuel gates (bk_program b)\<close>
    by (simp_all add: reference_interface_def reference_produce_def reference_evaluate_def answer_with_def)
qed

text \<open>A script with one answer.\<close>

definition yes_backend :: ReferenceBackend where
  "yes_backend = new_backend \<lparr>pg_steps = [step_default\<lparr>stp_value := ''yes''\<rparr>], pg_seed = 0\<rparr>"

lemma yes_playable: "playable 1 gates (bk_program yes_backend)"
  by (simp add: playable_def yes_backend_def new_backend_def step_default_def gate_open_def)

end
