(* ===== verification/Driver_Properties.thy ===== *)
theory Driver_Properties
  imports Driver_Runs Fabric_Runs Sample_Run
begin

text \<open>
  The properties of the in-process driver: it returns whenever its scripts answer, and no answer
  of a backend can change a committed result.
\<close>

text \<open>
  C34: a driver whose backends play scripts that do not end in a gate, contain no exit and find
  their gates open always returns, and how it ends is exact. It makes rounds that perform at least
  one action, within its budget; then either a round performs none, and it reports success, or a
  round fails, and it reports that error, or the budget is used up, and it reports that. A round that
  performs no action is not always one without work: it may also be one in which every action that
  the runtime offered failed.
\<close>

theorem scripted_driver_returns:
  assumes "\<forall>h. playable fuel gates (bk_program (ld_backends ld h))"
  shows "case driver_run rounds (reference_interface fuel gates) ld of
      Returned (ld', status) \<Rightarrow>
        \<exists>m before. (worked (reference_interface fuel gates) ^^ m) ld before \<and>
          rtranclp fabric_step (ld_fabric ld) (ld_fabric before) \<and>
          (if m < unat rounds
           then driver_step (reference_interface fuel gates) before = Returned (ld', Ok 0) \<and> status = ok_status \<or>
             (\<exists>e. driver_step (reference_interface fuel gates) before = Returned (ld', Err e) \<and> status = fail e)
           else m = unat rounds \<and> before = ld' \<and> status = fail E_resource_limit_exceeded)
    | _ \<Rightarrow> False"
proof -
  have "scripted.lively fuel gates ld" using assms by (simp add: scripted.lively_def)
  then obtain ld' r where "driver_run rounds (reference_interface fuel gates) ld = Returned (ld', r)"
    using scripted.rounds_return unfolding driver_run_def by blast
  moreover note run_rounds_ends[OF this[unfolded driver_run_def]]
  ultimately show ?thesis using worked_drives unfolding drives_def by fastforce
qed

theorem scripted_driver_returns_witness:
  "\<exists>ld' status. driver_run 16 (reference_interface 1 (\<lambda>path. False)) (new_driver sample_open (\<lambda>h. yes_backend)) =
     Returned (ld', status)"
  using scripted_driver_returns[of 1 "\<lambda>path. False" "new_driver sample_open (\<lambda>h. yes_backend)" 16] yes_playable
  by (auto simp: new_driver_def split: run.splits)

text \<open>
  Whatever the backends of a driver answer, a result that the runtime holds stays: a run of
  the driver that stays on the same generation and execution of the ensemble keeps it, and so does
  the reported death of any of its participants.
\<close>

theorem driver_keeps_results:
  assumes "reachable config (ld_fabric ld)" and "current_result i (ld_fabric ld) = Ok r"
    and "driver_run rounds bi ld = Returned (ld', status)"
    and "execution_key i (ld_fabric (fst (kill k detail ld'))) = execution_key i (ld_fabric ld)"
  shows "current_result i (ld_fabric (fst (kill k detail ld'))) = Ok r"
proof -
  have "drives ld (fst (kill k detail ld'))"
    using run_rounds_drives[OF assms(3)[unfolded driver_run_def]] driver_kill_drives drives_trans by blast
  then show ?thesis using run_keeps_result[OF assms(1,2) _ assms(4)] by (simp add: drives_def)
qed

definition stale_driver :: "ReferenceBackend LocalDriver" where
  "stale_driver = \<lparr>ld_fabric = sample_committed, ld_ensemble = 7, ld_ensemble_generation = 99,
     ld_participants = [\<lparr>lp_id = 1, lp_generation = 1, lp_worker = 11, lp_worker_boot = 21,
       lp_roles = roles_of R_candidate, lp_profile = profile_default, lp_domain = [], lp_backend = Some 0,
       lp_registered = False, lp_alive = True\<rparr>], ld_backends = (\<lambda>h. yes_backend)\<rparr>"

theorem driver_keeps_results_witness:
  "\<exists>r ld'. driver_run 5 (reference_interface 1 (\<lambda>path. False)) stale_driver = Returned (ld', Err E_stale_ensemble_generation) \<and>
     current_result 7 (ld_fabric (fst (kill 0 ''lost'' ld'))) = Ok r"
proof (rule sample_committed_record)
  fix en
  assume en: "find_ensemble sample_committed 7 = Some en" "sp_generation (en_spec en) = 1" "en_has_execution en"
    "ex_has_result (en_execution en)"
  then have r: "current_result 7 (ld_fabric stale_driver) = Ok (ex_result (en_execution en))"
    by (simp add: current_result_def stale_driver_def)
  have "advance 7 99 sample_committed = (sample_committed, Err E_stale_ensemble_generation)"
    using en by (simp add: advance_def fail_def)
  then have step: "driver_step (reference_interface 1 (\<lambda>path. False)) stale_driver = Returned (stale_driver, Err E_stale_ensemble_generation)"
    by (simp add: driver_step_def stale_driver_def fail_def)
  have d: "driver_run 5 (reference_interface 1 (\<lambda>path. False)) stale_driver = Returned (stale_driver, Err E_stale_ensemble_generation)"
  proof -
    have "unat (5 :: u32) = Suc 4" by simp
    then show ?thesis using step by (simp only: driver_run_def run_rounds.simps) (simp add: bind_run_def fail_def)
  qed
  have k: "fst (kill 0 ''lost'' stale_driver) = stale_driver"
    by (simp add: kill_def stale_driver_def)
  have "reachable config_default (ld_fabric stale_driver)" using sample_reachable(6) by (simp add: stale_driver_def)
  then have "current_result 7 (ld_fabric (fst (kill 0 ''lost'' stale_driver))) = Ok (ex_result (en_execution en))"
    by (rule driver_keeps_results[OF _ r d]) (simp only: k)
  with d show ?thesis by blast
qed

end
