(* ===== verification/Peers.thy ===== *)
theory Peers
  imports Transport Action_Messages
begin

text \<open>
  What a worker and a client share (\<^verbatim>\<open>src/distributed/worker.cpp\<close>, \<^verbatim>\<open>client.cpp\<close>): one frame channel to
  the coordinator, with the results of the operating system's calls as arguments, a log of the
  frames that were sent, and results whose error is the code that came over the wire, which need
  not be one of the named ones.
\<close>

section \<open>Replies\<close>

type_synonym 'a reply = "error_value + 'a"

definition deny :: "error_value \<Rightarrow> 'a reply" where
  "deny v = Inl (if v = error_code E_ok then error_code E_internal_error else v)"

definition reply_of :: "'a outcome \<Rightarrow> 'a reply" where
  "reply_of r = (case r of Ok x \<Rightarrow> Inr x | Err e \<Rightarrow> deny (error_code e))"

definition bind_reply :: "'a reply \<Rightarrow> ('a \<Rightarrow> 'c reply) \<Rightarrow> 'c reply" where
  "bind_reply r k = (case r of Inl e \<Rightarrow> Inl e | Inr x \<Rightarrow> k x)"

section \<open>The channel\<close>

text \<open>\<open>pe_outs\<close> holds one list of \<^verbatim>\<open>::send\<close> results for each frame.\<close>

record Peer =
  pe_channel :: FrameChannel
  pe_ins :: "RecvResult list"
  pe_outs :: "int list list"
  pe_sent :: "Frame list"

abbreviation pe_limits :: "Peer \<Rightarrow> Limits" where
  "pe_limits pe \<equiv> ch_limits (pe_channel pe)"

definition new_peer :: "Limits \<Rightarrow> RecvResult list \<Rightarrow> int list list \<Rightarrow> Peer" where
  "new_peer l ins outs = \<lparr>pe_channel = new_channel l, pe_ins = ins, pe_outs = outs, pe_sent = []\<rparr>"

definition peer_send :: "Frame \<Rightarrow> Peer \<Rightarrow> Peer \<times> status" where
  "peer_send f pe =
     (case channel_send f (if pe_outs pe = [] then [] else hd (pe_outs pe)) (pe_channel pe) of
        (ch, st, written) \<Rightarrow>
          (pe\<lparr>pe_channel := ch, pe_outs := tl (pe_outs pe),
              pe_sent := (if is_ok st then pe_sent pe @ [f] else pe_sent pe)\<rparr>, st))"

definition peer_receive :: "Peer \<Rightarrow> Peer \<times> Frame outcome" where
  "peer_receive pe =
     (case channel_receive (pe_ins pe) (pe_channel pe) of
        (ch, ins, r) \<Rightarrow> (pe\<lparr>pe_channel := ch, pe_ins := ins\<rparr>, r))"

text \<open>The bytes that are still to be read.\<close>

definition pending_bytes :: "Peer \<Rightarrow> bytes" where
  "pending_bytes pe = ch_inbound (pe_channel pe) @ stream (pe_ins pe)"

lemma peer_send_pending [simp]: "pending_bytes (fst (peer_send f pe)) = pending_bytes pe"
  by (simp add: peer_send_def channel_send_def pending_bytes_def Let_def split: outcome.split prod.split)

lemma peer_send_limits [simp]: "pe_limits (fst (peer_send f pe)) = pe_limits pe"
  by (simp add: peer_send_def channel_send_def Let_def split: outcome.split prod.split)

lemma peer_receive_frame:
  assumes "peer_receive pe = (pe', Ok f)"
  shows "pending_bytes pe = frame_bytes f @ pending_bytes pe'" "length (pending_bytes pe') < length (pending_bytes pe)"
proof -
  obtain ch ins where r: "channel_receive (pe_ins pe) (pe_channel pe) = (ch, ins, Ok f)"
    "pe' = pe\<lparr>pe_channel := ch, pe_ins := ins\<rparr>"
    using assms by (auto simp: peer_receive_def split: prod.splits)
  show "pending_bytes pe = frame_bytes f @ pending_bytes pe'"
    using channel_receive_sound[OF r(1)] r(2) by (simp add: pending_bytes_def)
  then show "length (pending_bytes pe') < length (pending_bytes pe)" by simp
qed

lemma channel_receive_limits: "ch_limits (fst (channel_receive ins ch)) = ch_limits ch"
proof (induction ins ch rule: channel_receive.induct)
  case (1 ins ch)
  show ?case
    by (subst channel_receive.simps)
      (auto simp: 1 split: DecodeResult.split list.split outcome.split)
qed

lemma peer_receive_limits [simp]: "pe_limits (fst (peer_receive pe)) = pe_limits pe"
  using channel_receive_limits[of "pe_ins pe" "pe_channel pe"] by (auto simp: peer_receive_def split: prod.split)

lemma peer_receive_sent [simp]: "pe_sent (fst (peer_receive pe)) = pe_sent pe"
  by (simp add: peer_receive_def split: prod.split)

end
