(* ===== verification/Worker.thy ===== *)
theory Worker
  imports Peers Reference_Backend
begin

text \<open>
  A participant process (\<^verbatim>\<open>worker.hpp\<close>, \<^verbatim>\<open>src/distributed/worker.cpp\<close>): handshake and registration of
  its bindings, the answer to every frame, and the serving loop, over the channel of
  theory \<open>Peers\<close> and a backend behind its interface. \<^verbatim>\<open>request_stop\<close> of another thread
  is not modelled; a goodbye of the coordinator stops the loop. The wording of errors is left out.
\<close>

section \<open>State\<close>

record ParticipantBinding =
  bd_ensemble :: EnsembleId
  bd_ensemble_generation :: EnsembleGeneration
  bd_participant :: ParticipantId
  bd_roles :: RoleSet
  bd_label :: string

record WorkerConfig =
  wc_worker :: WorkerId
  wc_worker_boot :: WorkerBootId
  wc_label :: string
  wc_profile :: CompatibilityProfile
  wc_bindings :: "ParticipantBinding list"
  wc_limits :: Limits
  wc_diagnostic :: "EnsembleError \<Rightarrow> string"

record 'b Worker =
  wr_config :: WorkerConfig
  wr_backend :: 'b
  wr_peer :: "Peer option"
  wr_coordinator_epoch :: CoordinatorEpoch
  wr_coordinator_boot :: WorkerBootId
  wr_sequence :: Sequence
  wr_stop :: bool
  wr_handled :: u64
  wr_registered :: bool
  wr_cancelled :: "u64 set"

text \<open>The process-wide counter, the process identity, the clock and the random draw are arguments.\<close>

definition generate_worker_boot_id :: "u64 \<Rightarrow> u64 \<Rightarrow> u64 \<Rightarrow> u64 \<Rightarrow> WorkerBootId" where
  "generate_worker_boot_id counter process ticks entropy =
     (let serial = counter + 1;
          v = (ticks XOR (process * 0x9E3779B97F4A7C15)) XOR (serial * 0xBF58476D1CE4E5B9) XOR entropy
      in if v = 0 then 1 else v)"

definition new_worker :: "WorkerConfig \<Rightarrow> 'b \<Rightarrow> u64 \<Rightarrow> WorkerBootId \<Rightarrow> 'b Worker" where
  "new_worker config b process boot =
     (let config = (if valid_id (wc_worker config) then config
                    else config\<lparr>wc_worker := (if process = 0 then 1 else process)\<rparr>);
          config = (if valid_id (wc_worker_boot config) then config else config\<lparr>wc_worker_boot := boot\<rparr>)
      in \<lparr>wr_config = config, wr_backend = b, wr_peer = None, wr_coordinator_epoch = 0, wr_coordinator_boot = 0,
          wr_sequence = 0, wr_stop = False, wr_handled = 0, wr_registered = False, wr_cancelled = {}\<rparr>)"

definition failure_kind_for :: "EnsembleError \<Rightarrow> ParticipantFailureKind" where
  "failure_kind_for e =
     (case e of
        E_participant_unavailable \<Rightarrow> FK_unavailable
      | E_transport_error \<Rightarrow> FK_transport_error
      | E_malformed_candidate \<Rightarrow> FK_malformed_output
      | E_malformed_evaluation \<Rightarrow> FK_malformed_output
      | _ \<Rightarrow> FK_internal_error)"

definition worker_next_sequence :: "'b Worker \<Rightarrow> 'b Worker" where
  "worker_next_sequence w = w\<lparr>wr_sequence := wr_sequence w + 1\<rparr>"

text \<open>A worker without a channel does not reach the places that use one.\<close>

definition worker_send :: "Frame \<Rightarrow> 'b Worker \<Rightarrow> 'b Worker \<times> status" where
  "worker_send f w =
     (case wr_peer w of
        None \<Rightarrow> (w, fail E_transport_error)
      | Some pe \<Rightarrow> (case peer_send f pe of (pe, st) \<Rightarrow> (w\<lparr>wr_peer := Some pe\<rparr>, st)))"

definition worker_receive :: "'b Worker \<Rightarrow> 'b Worker \<times> Frame outcome" where
  "worker_receive w =
     (case wr_peer w of
        None \<Rightarrow> (w, fail E_transport_error)
      | Some pe \<Rightarrow> (case peer_receive pe of (pe, r) \<Rightarrow> (w\<lparr>wr_peer := Some pe\<rparr>, r)))"

abbreviation wr_limits :: "'b Worker \<Rightarrow> Limits" where
  "wr_limits w \<equiv> wc_limits (wr_config w)"

abbreviation wr_boot :: "'b Worker \<Rightarrow> WorkerBootId" where
  "wr_boot w \<equiv> wc_worker_boot (wr_config w)"

section \<open>Handshake and registration\<close>

definition register_binding :: "ParticipantBinding \<Rightarrow> 'b Worker \<Rightarrow> 'b Worker \<times> unit reply" where
  "register_binding bd w =
     (let m = \<lparr>rpm_registration = \<lparr>rg_ensemble = bd_ensemble bd, rg_ensemble_generation = bd_ensemble_generation bd,
                 rg_participant = bd_participant bd, rg_worker = wc_worker (wr_config w), rg_worker_boot = wr_boot w,
                 rg_coordinator_epoch = wr_coordinator_epoch w, rg_profile = wc_profile (wr_config w),
                 rg_claimed_roles = bd_roles bd\<rparr>\<rparr>;
          w = worker_next_sequence w;
          (w, sent) = worker_send (frame_default\<lparr>fr_type := MT_register_participant, fr_correlation := wr_sequence w,
            fr_epoch := wr_coordinator_epoch w, fr_worker_boot := wr_boot w, fr_sequence := wr_sequence w,
            fr_payload := payload_of (wr_limits w) (encode_register_participant m)\<rparr>) w
      in if \<not> is_ok sent then (w, reply_of sent)
         else (case worker_receive w of
             (w, Err e) \<Rightarrow> (w, deny (error_code e))
           | (w, Ok reply) \<Rightarrow>
               if fr_type reply \<noteq> MT_register_ack then (w, deny (error_code E_protocol_error))
               else (case decode_front decode_registration_ack reply of
                   Err e \<Rightarrow> (w, deny (error_code e))
                 | Ok ack \<Rightarrow> if rk_accepted ack then (w, Inr ()) else (w, deny (rk_code ack)))))"

fun register_bindings :: "ParticipantBinding list \<Rightarrow> 'b Worker \<Rightarrow> 'b Worker \<times> unit reply" where
  "register_bindings [] w = (w\<lparr>wr_registered := True\<rparr>, Inr ())"
| "register_bindings (bd # bds) w =
     (case register_binding bd w of
        (w, Inl e) \<Rightarrow> (w, Inl e)
      | (w, Inr u) \<Rightarrow> register_bindings bds w)"

text \<open>\<open>connected\<close> is the channel that \<^verbatim>\<open>connect_to\<close> yields, if it does.\<close>

definition connect_and_register :: "Peer outcome \<Rightarrow> 'b Worker \<Rightarrow> 'b Worker \<times> unit reply" where
  "connect_and_register connected w =
     (case connected of
        Err e \<Rightarrow> (w, deny (error_code e))
      | Ok pe \<Rightarrow>
          let w = w\<lparr>wr_peer := Some pe\<rparr>;
              m = \<lparr>hm_worker = wc_worker (wr_config w), hm_worker_boot = wr_boot w, hm_coordinator_epoch = 0,
                   hm_profile = wc_profile (wr_config w), hm_label = wc_label (wr_config w)\<rparr>;
              w = worker_next_sequence w;
              (w, sent) = worker_send (frame_default\<lparr>fr_type := MT_hello, fr_correlation := wr_sequence w,
                fr_worker_boot := wr_boot w, fr_sequence := wr_sequence w,
                fr_payload := payload_of (wr_limits w) (encode_hello m)\<rparr>) w
          in if \<not> is_ok sent then (w, reply_of sent)
             else (case worker_receive w of
                 (w, Err e) \<Rightarrow> (w, deny (error_code e))
               | (w, Ok response) \<Rightarrow>
                   if fr_type response \<noteq> MT_hello_ack then (w, deny (error_code E_protocol_error))
                   else (case decode_front decode_coordinator_ack response of
                       Err e \<Rightarrow> (w, deny (error_code e))
                     | Ok ack \<Rightarrow>
                         if \<not> ck_accepted ack then (w, deny (ucast (ck_status_code ack)))
                         else register_bindings (wc_bindings (wr_config w))
                           (w\<lparr>wr_coordinator_epoch := ck_coordinator_epoch ack,
                              wr_coordinator_boot := ck_coordinator_boot ack\<rparr>))))"

section \<open>Serving\<close>

definition worker_authority ::
  "EnsembleId \<Rightarrow> EnsembleGeneration \<Rightarrow> ParticipantId \<Rightarrow> ParticipantGeneration \<Rightarrow> 'b Worker \<Rightarrow> ParticipantAuthority" where
  "worker_authority i g p pg w =
     \<lparr>pa_ensemble = i, pa_ensemble_generation = g, pa_participant = p, pa_participant_generation = pg,
      pa_worker = wc_worker (wr_config w), pa_worker_boot = wr_boot w, pa_coordinator_epoch = wr_coordinator_epoch w\<rparr>"

definition dispatched_authority :: "DispatchCandidateMessage \<Rightarrow> 'b Worker \<Rightarrow> CandidateAuthority" where
  "dispatched_authority dm w =
     \<lparr>ca_participant = worker_authority (dm_ensemble dm) (dm_ensemble_generation dm) (dm_participant dm)
        (dm_participant_generation dm) w, ca_execution = dm_execution dm,
      ca_attempt_generation = dm_attempt_generation dm, ca_candidate = dm_candidate dm,
      ca_candidate_generation = dm_candidate_generation dm\<rparr>"

definition outbound_frame :: "Frame \<Rightarrow> 'b Worker \<Rightarrow> Frame" where
  "outbound_frame f w = frame_default\<lparr>fr_correlation := fr_correlation f, fr_epoch := wr_coordinator_epoch w,
     fr_worker_boot := wr_boot w, fr_sequence := wr_sequence w\<rparr>"

definition production_frame ::
  "CandidateAuthority \<Rightarrow> ParticipantProduction outcome \<Rightarrow> Frame \<Rightarrow> 'b Worker \<Rightarrow> Frame" where
  "production_frame authority production f w =
     (let failed = (\<lambda>kind detail. (outbound_frame f w)\<lparr>fr_type := MT_candidate_failure,
            fr_payload := payload_of (wr_limits w) (encode_candidate_failure
              \<lparr>fm_authority = authority, fm_kind = kind, fm_detail = detail\<rparr>)\<rparr>)
      in case production of
           Err e \<Rightarrow> failed (failure_kind_for e) (wc_diagnostic (wr_config w) e)
         | Ok pp \<Rightarrow>
             (case pp_kind pp of
                PK_failure \<Rightarrow> failed (pp_failure pp) (pp_detail pp)
              | PK_abstention \<Rightarrow> (outbound_frame f w)\<lparr>fr_type := MT_candidate_abstention,
                  fr_payload := payload_of (wr_limits w) (encode_candidate_abstention
                    \<lparr>am_authority = authority, am_rationale = pp_detail pp\<rparr>)\<rparr>
              | PK_content \<Rightarrow> (outbound_frame f w)\<lparr>fr_type := MT_candidate_result,
                  fr_payload := payload_of (wr_limits w) (encode_candidate_result
                    \<lparr>rm_authority = authority, rm_payload = pp_payload pp,
                     rm_produced_units = pp_budget_units_used pp\<rparr>)\<rparr>))"

definition count_handled :: "'b Worker \<times> status \<Rightarrow> 'b Worker" where
  "count_handled ws = (fst ws)\<lparr>wr_handled := wr_handled (fst ws) + 1\<rparr>"

definition answer_dispatch :: "'b BackendInterface \<Rightarrow> Frame \<Rightarrow> DispatchCandidateMessage \<Rightarrow> 'b Worker \<Rightarrow> 'b Worker run" where
  "answer_dispatch bi f dm w =
     bind_run (bi_produce bi (wr_backend w) dm) (\<lambda>(b, production).
       let w = worker_next_sequence (w\<lparr>wr_backend := b\<rparr>)
       in Returned (count_handled (worker_send (production_frame (dispatched_authority dm w) production f w) w)))"

definition evaluation_result_message :: "EvaluationRequestMessage \<Rightarrow> ParticipantEvaluation \<Rightarrow> 'b Worker \<Rightarrow> EvaluationResultMessage" where
  "evaluation_result_message q pv w =
     \<lparr>em_authority = \<lparr>ea_evaluator = worker_authority (erq_ensemble q) (erq_ensemble_generation q) (erq_judge q)
          (erq_judge_generation q) w, ea_execution = erq_execution q,
        ea_attempt_generation = erq_attempt_generation q, ea_evaluation = erq_evaluation q,
        ea_evaluation_generation = erq_evaluation_generation q, ea_candidate = erq_candidate q,
        ea_candidate_generation = erq_candidate_generation q\<rparr>,
      em_criterion = erq_criterion q, em_criterion_kind = erq_criterion_kind q,
      em_verification = pv_verification pv, em_judgment = pv_judgment pv, em_score_defined = pv_score_defined pv,
      em_score = pv_score pv, em_weight = pv_weight pv, em_evidence = pv_evidence pv, em_rationale = pv_rationale pv\<rparr>"

definition answer_evaluation :: "'b BackendInterface \<Rightarrow> Frame \<Rightarrow> EvaluationRequestMessage \<Rightarrow> 'b Worker \<Rightarrow> 'b Worker run" where
  "answer_evaluation bi f q w =
     bind_run (bi_evaluate bi (wr_backend w) q) (\<lambda>(b, evaluation).
       let w = w\<lparr>wr_backend := b\<rparr>
       in case evaluation of
            Err e \<Rightarrow> Returned w
          | Ok pv \<Rightarrow>
              let w = worker_next_sequence w
              in Returned (count_handled (worker_send ((outbound_frame f w)\<lparr>fr_type := MT_evaluation_result,
                   fr_payload := payload_of (wr_limits w)
                     (encode_evaluation_result (evaluation_result_message q pv w))\<rparr>) w)))"

definition worker_handle :: "'b BackendInterface \<Rightarrow> Frame \<Rightarrow> 'b Worker \<Rightarrow> 'b Worker run" where
  "worker_handle bi f w =
     (case fr_type f of
        MT_dispatch_candidate \<Rightarrow>
          (case decode_whole decode_dispatch_candidate f of
             Err e \<Rightarrow> Returned w
           | Ok dm \<Rightarrow> answer_dispatch bi f dm w)
      | MT_evaluation_request \<Rightarrow>
          (case decode_whole decode_evaluation_request f of
             Err e \<Rightarrow> Returned w
           | Ok q \<Rightarrow> answer_evaluation bi f q w)
      | MT_cancel \<Rightarrow>
          (case decode_front decode_cancel f of
             Err e \<Rightarrow> Returned w
           | Ok xm \<Rightarrow> Returned (w\<lparr>wr_cancelled := insert (xm_candidate xm) (wr_cancelled w),
               wr_handled := wr_handled w + 1\<rparr>))
      | MT_goodbye \<Rightarrow> Returned (w\<lparr>wr_stop := True\<rparr>)
      | _ \<Rightarrow> Returned w)"

section \<open>The serving loop ends\<close>

definition unread :: "'b Worker \<Rightarrow> nat" where
  "unread w = (case wr_peer w of None \<Rightarrow> 0 | Some pe \<Rightarrow> length (pending_bytes pe))"

lemma unread_simps [simp]:
  "unread (w\<lparr>wr_backend := b\<rparr>) = unread w" "unread (worker_next_sequence w) = unread w"
  "unread (w\<lparr>wr_cancelled := cs\<rparr>) = unread w" "unread (w\<lparr>wr_handled := n\<rparr>) = unread w"
  "unread (w\<lparr>wr_stop := b'\<rparr>) = unread w"
  by (simp_all add: unread_def worker_next_sequence_def)

lemma unread_send [simp]: "unread (count_handled (worker_send f w)) = unread w"
proof (cases "wr_peer w")
  case (Some pe)
  obtain pe' s where "peer_send f pe = (pe', s)" by force
  with peer_send_pending[of f pe] have "pending_bytes pe' = pending_bytes pe" by simp
  with Some \<open>peer_send f pe = (pe', s)\<close> show ?thesis
    by (simp add: count_handled_def worker_send_def unread_def)
qed (simp add: count_handled_def worker_send_def unread_def)

lemma worker_handle_unread: "worker_handle bi f w = Returned w' \<Longrightarrow> unread w' = unread w"
  by (auto simp: worker_handle_def answer_dispatch_def answer_evaluation_def bind_run_def Let_def
      split: MessageType.splits outcome.splits run.splits)

lemma worker_receive_unread: "worker_receive w = (w', Ok f) \<Longrightarrow> unread w' < unread w"
proof -
  assume r: "worker_receive w = (w', Ok f)"
  then obtain pe pe' where p: "wr_peer w = Some pe" "peer_receive pe = (pe', Ok f)" "w' = w\<lparr>wr_peer := Some pe'\<rparr>"
    by (auto simp: worker_receive_def split: option.splits prod.splits)
  with peer_receive_frame(2)[OF p(2)] show ?thesis by (simp add: unread_def)
qed

text \<open>
  The loop consumes at least a frame header in each round: it terminates on every finite stream
  of received bytes.
\<close>

function serve_loop :: "'b BackendInterface \<Rightarrow> 'b Worker \<Rightarrow> ('b Worker \<times> status) run" where
  "serve_loop bi w =
     (if wr_stop w then Returned (w, ok_status)
      else case worker_receive w of
          (w, Err e) \<Rightarrow> Returned (w, if wr_stop w then ok_status else fail e)
        | (w, Ok f) \<Rightarrow>
            (case worker_handle bi f w of
               Returned w \<Rightarrow> serve_loop bi w
             | Exited \<Rightarrow> Exited
             | Waiting \<Rightarrow> Waiting))"
  by pat_completeness auto
termination
  by (relation "measure (\<lambda>(bi, w). unread w)") 
    (auto dest!: worker_receive_unread[OF sym] worker_handle_unread)

declare serve_loop.simps [simp del]

definition serve :: "'b BackendInterface \<Rightarrow> 'b Worker \<Rightarrow> ('b Worker \<times> status) run" where
  "serve bi w = (if wr_peer w = None then Returned (w, fail E_transport_error) else serve_loop bi w)"

end
