(* ===== verification/Client.thy ===== *)
theory Client
  imports Peers Spec_Codec
begin

text \<open>
  The control client (\<^verbatim>\<open>client.hpp\<close>, \<^verbatim>\<open>src/distributed/client.cpp\<close>): its handshake, and one request
  with one awaited answer for each of its operations, over the channel of theory \<open>Peers\<close>. The
  wording of errors is left out.
\<close>

section \<open>Connection\<close>

record EnsembleClient =
  ec_peer :: "Peer option"
  ec_sequences :: u64
  ec_limits :: Limits
  ec_coordinator_epoch :: CoordinatorEpoch
  ec_coordinator_boot :: WorkerBootId

definition client_next_correlation :: "EnsembleClient \<Rightarrow> EnsembleClient \<times> strong_id" where
  "client_next_correlation c =
     (case allocate (ec_sequences c) of
        (None, n) \<Rightarrow> (c\<lparr>ec_sequences := n\<rparr>, 1)
      | (Some i, n) \<Rightarrow> (c\<lparr>ec_sequences := n\<rparr>, i))"

definition client_hello :: "WorkerBootId \<Rightarrow> HelloMessage" where
  "client_hello boot = \<lparr>hm_worker = 1, hm_worker_boot = boot, hm_coordinator_epoch = 0,
     hm_profile = profile_default\<lparr>pf_protocol_version := protocol_version\<rparr>, hm_label = ''controller''\<rparr>"

text \<open>\<open>connected\<close> is the channel that \<^verbatim>\<open>connect_to\<close> yields, if it does; \<open>boot\<close> is the generated identity.\<close>

definition client_connect :: "Peer outcome \<Rightarrow> WorkerBootId \<Rightarrow> Limits \<Rightarrow> EnsembleClient reply" where
  "client_connect connected boot l =
     bind_reply (reply_of connected) (\<lambda>pe.
       let (c, correlation) = client_next_correlation \<lparr>ec_peer = Some pe, ec_sequences = allocator_init,
             ec_limits = l, ec_coordinator_epoch = 0, ec_coordinator_boot = 0\<rparr>;
           (pe, sent) = peer_send (frame_default\<lparr>fr_type := MT_hello, fr_correlation := correlation,
             fr_sequence := 1, fr_worker_boot := boot,
             fr_payload := payload_of l (encode_hello (client_hello boot))\<rparr>) pe
       in bind_reply (reply_of sent) (\<lambda>u.
            case peer_receive pe of
              (pe, Err e) \<Rightarrow> deny (error_code e)
            | (pe, Ok response) \<Rightarrow>
                if fr_type response \<noteq> MT_hello_ack then deny (error_code E_protocol_error)
                else bind_reply (reply_of (decode_whole decode_coordinator_ack response)) (\<lambda>ack.
                  if \<not> ck_accepted ack then deny (ucast (ck_status_code ack))
                  else Inr (c\<lparr>ec_peer := Some pe, ec_coordinator_epoch := ck_coordinator_epoch ack,
                    ec_coordinator_boot := ck_coordinator_boot ack\<rparr>))))"

definition client_connected :: "EnsembleClient \<Rightarrow> bool" where
  "client_connected c = (case ec_peer c of None \<Rightarrow> False | Some pe \<Rightarrow> ch_valid (pe_channel pe))"

definition client_close :: "EnsembleClient \<Rightarrow> EnsembleClient" where
  "client_close c = c\<lparr>ec_peer := None\<rparr>"

section \<open>Requests\<close>

text \<open>
  An answer is taken by its correlation, whatever its kind; an error response for the request
  that is framed under another correlation yields its code; anything else is a protocol error.
\<close>

definition matched_response :: "strong_id \<Rightarrow> Frame \<Rightarrow> Frame reply" where
  "matched_response correlation response =
     (if fr_correlation response = correlation then Inr response
      else if fr_type response = MT_error_response
      then (case decode_front decode_error_response response of
              Ok m \<Rightarrow> if erm_correlation m = correlation then deny (erm_code m)
                else deny (error_code E_protocol_error)
            | Err e \<Rightarrow> deny (error_code E_protocol_error))
      else deny (error_code E_protocol_error))"

definition request_frame :: "MessageType \<Rightarrow> bytes \<Rightarrow> strong_id \<Rightarrow> EnsembleClient \<Rightarrow> Frame" where
  "request_frame type payload correlation c = frame_default\<lparr>fr_type := type, fr_correlation := correlation,
     fr_epoch := ec_coordinator_epoch c, fr_worker_boot := ec_coordinator_boot c, fr_sequence := correlation,
     fr_payload := payload\<rparr>"

definition request :: "MessageType \<Rightarrow> bytes \<Rightarrow> EnsembleClient \<Rightarrow> EnsembleClient \<times> Frame reply" where
  "request type payload c =
     (case ec_peer c of
        None \<Rightarrow> (c, deny (error_code E_transport_error))
      | Some pe \<Rightarrow>
          if \<not> client_connected c then (c, deny (error_code E_transport_error))
          else let (c, correlation) = client_next_correlation c;
                   (pe, sent) = peer_send (request_frame type payload correlation c) pe;
                   c = c\<lparr>ec_peer := Some pe\<rparr>
               in if \<not> is_ok sent then (c, bind_reply (reply_of sent) (\<lambda>u. deny (error_code E_internal_error)))
                  else (case peer_receive pe of
                      (pe, Err e) \<Rightarrow> (c\<lparr>ec_peer := Some pe\<rparr>, deny (error_code e))
                    | (pe, Ok response) \<Rightarrow> (c\<lparr>ec_peer := Some pe\<rparr>, matched_response correlation response)))"

text \<open>What every operation does with the response.\<close>

definition expect :: "MessageType \<Rightarrow> 'a decoding \<Rightarrow> EnsembleClient \<times> Frame reply \<Rightarrow> EnsembleClient \<times> 'a reply" where
  "expect type get cr = (fst cr, bind_reply (snd cr) (\<lambda>response.
     if fr_type response \<noteq> type then deny (error_code E_protocol_error)
     else reply_of (decode_whole get response)))"

definition client_define_ensemble :: "EnsembleSpec \<Rightarrow> EnsembleClient \<Rightarrow> EnsembleClient \<times> DefineEnsembleAck reply" where
  "client_define_ensemble spec c =
     expect MT_define_ensemble_ack decode_define_ensemble_ack
       (request MT_define_ensemble (payload_of (ec_limits c)
          (encode_define_ensemble \<lparr>dem_encoded_spec = encode_spec spec (ec_limits c)\<rparr>)) c)"

definition client_open_execution ::
  "EnsembleId \<Rightarrow> EnsembleGeneration \<Rightarrow> EnsembleClient \<Rightarrow> EnsembleClient \<times> OpenExecutionAck reply" where
  "client_open_execution i g c =
     expect MT_open_execution_ack decode_open_execution_ack
       (request MT_open_execution (payload_of (ec_limits c)
          (encode_open_execution \<lparr>om_ensemble = i, om_ensemble_generation = g\<rparr>)) c)"

definition client_finalize ::
  "EnsembleId \<Rightarrow> EnsembleGeneration \<Rightarrow> EnsembleClient \<Rightarrow> EnsembleClient \<times> FinalizeResponseMessage reply" where
  "client_finalize i g c =
     expect MT_finalize_response decode_finalize_response
       (request MT_finalize_request (payload_of (ec_limits c)
          (encode_finalize_request \<lparr>frq_ensemble = i, frq_ensemble_generation = g\<rparr>)) c)"

definition client_query_result ::
  "EnsembleId \<Rightarrow> EnsembleGeneration \<Rightarrow> EnsembleClient \<Rightarrow> EnsembleClient \<times> ResultResponseMessage reply" where
  "client_query_result i g c =
     expect MT_result_response decode_result_response
       (request MT_query_result (payload_of (ec_limits c)
          (encode_query_result \<lparr>qrm_ensemble = i, qrm_ensemble_generation = g\<rparr>)) c)"

definition client_inspect :: "EnsembleId \<Rightarrow> EnsembleClient \<Rightarrow> EnsembleClient \<times> InspectResponseMessage reply" where
  "client_inspect i c =
     expect MT_inspect_response decode_inspect_response
       (request MT_inspect_request (payload_of (ec_limits c) (encode_inspect_request \<lparr>irq_ensemble = i\<rparr>)) c)"

definition client_cancel_ensemble ::
  "EnsembleId \<Rightarrow> EnsembleGeneration \<Rightarrow> string \<Rightarrow> EnsembleClient \<Rightarrow> EnsembleClient \<times> unit reply" where
  "client_cancel_ensemble i g reason c =
     (let (c, r) = expect MT_status_response decode_status_response
        (request MT_cancel_ensemble (payload_of (ec_limits c)
           (encode_cancel_ensemble \<lparr>cem_ensemble = i, cem_ensemble_generation = g,
              cem_reason = sanitize_text reason (unat (max_metadata_bytes (ec_limits c)))\<rparr>)) c)
      in (c, bind_reply r (\<lambda>ack. if srm_code ack \<noteq> error_code E_ok then deny (srm_code ack) else Inr ())))"

section \<open>What a response was\<close>

lemma deny_fails [simp]: "deny e \<noteq> Inr x"
  by (simp add: deny_def)

lemma reply_of_Inr [simp]: "reply_of r = Inr x \<longleftrightarrow> r = Ok x"
  by (cases r) (simp_all add: reply_of_def)

lemma bind_reply_Inr [simp]: "bind_reply r k = Inr y \<longleftrightarrow> (\<exists>x. r = Inr x \<and> k x = Inr y)"
  by (cases r) (simp_all add: bind_reply_def)

lemma matched_response_Inr [simp]:
  "matched_response n f = Inr g \<longleftrightarrow> g = f \<and> fr_correlation f = n"
  by (auto simp: matched_response_def split: outcome.splits if_splits)

lemma next_correlation_keeps [simp]:
  "ec_peer (fst (client_next_correlation c)) = ec_peer c"
  "ec_coordinator_epoch (fst (client_next_correlation c)) = ec_coordinator_epoch c"
  "ec_coordinator_boot (fst (client_next_correlation c)) = ec_coordinator_boot c"
  "ec_limits (fst (client_next_correlation c)) = ec_limits c"
  by (simp_all add: client_next_correlation_def split: option.split prod.split)

text \<open>The frame that the next request of a client sends.\<close>

definition request_of :: "MessageType \<Rightarrow> bytes \<Rightarrow> EnsembleClient \<Rightarrow> Frame" where
  "request_of type payload c = request_frame type payload (snd (client_next_correlation c)) c"

lemma request_of_simps [simp]:
  "fr_type (request_of type payload c) = type" "fr_payload (request_of type payload c) = payload"
  "fr_epoch (request_of type payload c) = ec_coordinator_epoch c"
  by (simp_all add: request_of_def request_frame_def)

lemma request_unfold:
  assumes "ec_peer c = Some pe" "client_connected c"
    and "peer_send (request_of type payload c) pe = (pe1, sent)"
  shows "request type payload c =
    (if \<not> is_ok sent then ((fst (client_next_correlation c))\<lparr>ec_peer := Some pe1\<rparr>,
        bind_reply (reply_of sent) (\<lambda>u. deny (error_code E_internal_error)))
     else case peer_receive pe1 of
         (pe2, Err e) \<Rightarrow> ((fst (client_next_correlation c))\<lparr>ec_peer := Some pe2\<rparr>, deny (error_code e))
       | (pe2, Ok f) \<Rightarrow> ((fst (client_next_correlation c))\<lparr>ec_peer := Some pe2\<rparr>,
           matched_response (fr_correlation (request_of type payload c)) f))"
proof -
  obtain c1 n where n: "client_next_correlation c = (c1, n)" by (cases "client_next_correlation c")
  have keep: "ec_coordinator_epoch c1 = ec_coordinator_epoch c" "ec_coordinator_boot c1 = ec_coordinator_boot c"
    using next_correlation_keeps[of c] by (simp_all add: n)
  have "request_frame type payload n c1 = request_of type payload c"
    by (simp add: request_of_def request_frame_def n keep)
  moreover have "fr_correlation (request_of type payload c) = n"
    by (simp add: request_of_def request_frame_def n)
  ultimately show ?thesis
    using assms by (auto simp: request_def n Let_def split: prod.splits outcome.splits)
qed

lemma request_answered:
  assumes "request type payload c = (c', Inr f)"
  shows "\<exists>pe pe'. ec_peer c = Some pe \<and> ec_peer c' = Some pe' \<and>
    pe_sent pe' = pe_sent pe @ [request_of type payload c] \<and>
    pending_bytes pe = frame_bytes f @ pending_bytes pe' \<and>
    fr_correlation f = fr_correlation (request_of type payload c)"
proof -
  obtain pe where pe: "ec_peer c = Some pe" "client_connected c"
    using assms by (auto simp: request_def split: option.splits if_splits)
  obtain pe1 sent where s: "peer_send (request_of type payload c) pe = (pe1, sent)" by force
  note eq = assms[unfolded request_unfold[OF pe s]]
  obtain pe2 where r: "is_ok sent" "peer_receive pe1 = (pe2, Ok f)" "ec_peer c' = Some pe2"
    "fr_correlation f = fr_correlation (request_of type payload c)"
    using eq by (auto split: if_splits prod.splits outcome.splits)
  have "pe_sent pe1 = pe_sent pe @ [request_of type payload c]"
    using s r(1) by (auto simp: peer_send_def split: prod.splits)
  moreover have "pe_sent pe2 = pe_sent pe1" using peer_receive_sent[of pe1] r(2) by simp
  moreover have "pending_bytes pe1 = pending_bytes pe" using peer_send_pending[of _ pe] s by (metis fst_conv)
  moreover have "pending_bytes pe1 = frame_bytes f @ pending_bytes pe2" by (rule peer_receive_frame(1)[OF r(2)])
  ultimately show ?thesis using pe(1) r(3,4) by auto
qed

lemma expect_answered:
  assumes "expect type get (request kind payload c) = (c', Inr m)"
  obtains pe pe' f where "ec_peer c = Some pe" "ec_peer c' = Some pe'"
    "pe_sent pe' = pe_sent pe @ [request_of kind payload c]"
    "pending_bytes pe = frame_bytes f @ pending_bytes pe'"
    "fr_correlation f = fr_correlation (request_of kind payload c)" "fr_type f = type"
    "decode_whole get f = Ok m"
proof -
  obtain f where "request kind payload c = (c', Inr f)" "fr_type f = type" "decode_whole get f = Ok m"
    using assms by (cases "request kind payload c") (auto simp: expect_def split: if_splits)
  then show ?thesis using request_answered[of kind payload c c' f] that by blast
qed

end
