(* ===== verification/Worker_Properties.thy ===== *)
theory Worker_Properties
  imports Worker Client Driver_Runs Protocol_Properties Fabric_Runs
begin

text \<open>
  The properties of the two peers of a coordinator: a client takes only the answer to its own
  request, a worker answers a dispatch under the identity of the dispatch and its own process,
  and a serving worker comes back.
\<close>

section \<open>The client\<close>

text \<open>
  One request and one answer: the client sent a frame of kind \<open>kind\<close> with the message \<open>fs\<close>, and
  the next bytes that it received are a frame of kind \<open>type\<close> under the same correlation whose
  whole payload is \<open>payload\<close>.
\<close>

definition exchanged ::
  "MessageType \<Rightarrow> Field list \<Rightarrow> MessageType \<Rightarrow> bytes \<Rightarrow> EnsembleClient \<Rightarrow> EnsembleClient \<Rightarrow> bool" where
  "exchanged kind fs type payload c c' \<longleftrightarrow>
     (\<exists>pe pe' q f. ec_peer c = Some pe \<and> ec_peer c' = Some pe' \<and> pe_sent pe' = pe_sent pe @ [q] \<and>
        fr_type q = kind \<and> fr_payload q = payload_of (ec_limits c) fs \<and> fr_epoch q = ec_coordinator_epoch c \<and>
        pending_bytes pe = frame_bytes f @ pending_bytes pe' \<and> fr_correlation f = fr_correlation q \<and>
        fr_type f = type \<and> fr_payload f = payload)"

lemma expect_exchanged:
  assumes "expect type get (request kind (payload_of (ec_limits c) fs) c) = (c', Inr m)"
    and "wire_codec enc get ok"
  shows "exchanged kind fs type (wire (enc m)) c c'"
proof (rule expect_answered[OF assms(1)])
  fix pe pe' f
  assume p: "ec_peer c = Some pe" "ec_peer c' = Some pe'"
    "pe_sent pe' = pe_sent pe @ [request_of kind (payload_of (ec_limits c) fs) c]"
    "pending_bytes pe = frame_bytes f @ pending_bytes pe'"
    "fr_correlation f = fr_correlation (request_of kind (payload_of (ec_limits c) fs) c)" "fr_type f = type"
    "decode_whole get f = Ok m"
  have "fr_payload f = wire (enc m)"
    using p(7) wire_codec.decode_exactly_iff[OF assms(2)] by (simp add: decode_whole_def)
  with p show ?thesis unfolding exchanged_def by (intro exI[of _ pe] exI[of _ pe'] exI[of _ f] exI conjI) simp_all
qed

text \<open>
  C70: whatever bytes arrive, an operation of the client that succeeds sent exactly its own request
  and took exactly the next frame of the stream, which answers that request: same correlation, the
  kind of answer that belongs to the request, and a payload that is the encoding of the returned
  message to its last byte.
\<close>

lemmas define_ensemble_exchanged = expect_exchanged[OF _ define_ensemble_ack_codec.wire_codec_axioms]
lemmas open_execution_exchanged = expect_exchanged[OF _ open_execution_ack_codec.wire_codec_axioms]
lemmas finalize_exchanged = expect_exchanged[OF _ finalize_response_codec.wire_codec_axioms]
lemmas query_result_exchanged = expect_exchanged[OF _ result_response_codec.wire_codec_axioms]
lemmas inspect_exchanged = expect_exchanged[OF _ inspect_response_codec.wire_codec_axioms]

text \<open>
  C36: whatever bytes arrive, an operation of the client that succeeds sent exactly its own request
  and took exactly the next frame of the stream, which answers that request: same correlation, the
  kind of answer that belongs to the request, and a payload that is the encoding of the returned
  message to its last byte.
\<close>

theorem client_takes_only_its_answer:
  "(\<forall>dk c'. client_define_ensemble spec c = (c', Inr dk) \<longrightarrow>
      exchanged MT_define_ensemble (encode_define_ensemble \<lparr>dem_encoded_spec = encode_spec spec (ec_limits c)\<rparr>)
        MT_define_ensemble_ack (wire (encode_define_ensemble_ack dk)) c c') \<and>
   (\<forall>ok c'. client_open_execution i g c = (c', Inr ok) \<longrightarrow>
      exchanged MT_open_execution (encode_open_execution \<lparr>om_ensemble = i, om_ensemble_generation = g\<rparr>)
        MT_open_execution_ack (wire (encode_open_execution_ack ok)) c c') \<and>
   (\<forall>frs c'. client_finalize i g c = (c', Inr frs) \<longrightarrow>
      exchanged MT_finalize_request (encode_finalize_request \<lparr>frq_ensemble = i, frq_ensemble_generation = g\<rparr>)
        MT_finalize_response (wire (encode_finalize_response frs)) c c') \<and>
   (\<forall>rr c'. client_query_result i g c = (c', Inr rr) \<longrightarrow>
      exchanged MT_query_result (encode_query_result \<lparr>qrm_ensemble = i, qrm_ensemble_generation = g\<rparr>)
        MT_result_response (wire (encode_result_response rr)) c c') \<and>
   (\<forall>ir c'. client_inspect i c = (c', Inr ir) \<longrightarrow>
      exchanged MT_inspect_request (encode_inspect_request \<lparr>irq_ensemble = i\<rparr>)
        MT_inspect_response (wire (encode_inspect_response ir)) c c')"
  unfolding client_define_ensemble_def client_open_execution_def client_finalize_def client_query_result_def
    client_inspect_def
  by (intro conjI allI impI; erule define_ensemble_exchanged open_execution_exchanged finalize_exchanged
      query_result_exchanged inspect_exchanged)

text \<open>A client whose request is written at once and whose answer has arrived.\<close>

definition answered_client :: "MessageType \<Rightarrow> bytes \<Rightarrow> EnsembleClient" where
  "answered_client type payload =
     \<lparr>ec_peer = Some (new_peer limits_defaults [R_data (frame_bytes (frame_default\<lparr>fr_version := protocol_version,
          fr_type := type, fr_correlation := 1, fr_payload := payload\<rparr>))] [[80]]),
      ec_sequences = allocator_init, ec_limits = limits_defaults, ec_coordinator_epoch = 3, ec_coordinator_boot = 4\<rparr>"

lemma answered_steps:
  fixes type payload kind fs_bytes
  defines "c \<equiv> answered_client type payload"
  defines "f \<equiv> frame_default\<lparr>fr_version := protocol_version, fr_type := type, fr_correlation := 1, fr_payload := payload\<rparr>"
  assumes "length fs_bytes = 16" "length payload \<le> 64"
  obtains pe pe1 pe2 where "ec_peer c = Some pe" "client_connected c"
    "peer_send (request_of kind fs_bytes c) pe = (pe1, ok_status)" "peer_receive pe1 = (pe2, Ok f)"
    "fr_correlation (request_of kind fs_bytes c) = 1"
proof -
  let ?pe = "new_peer limits_defaults [R_data (frame_bytes f)] [[80]]"
  let ?q = "request_of kind fs_bytes c"
  have pe: "ec_peer c = Some ?pe" "client_connected c"
    by (simp_all add: c_def f_def answered_client_def client_connected_def new_peer_def new_channel_def)
  have q: "frame_fits limits_defaults ?q" "length (frame_bytes ?q) = 80" and n: "fr_correlation ?q = 1"
    using assms(3) by (simp_all add: frame_fits_def limits_defaults_def frame_bytes_def)
      (simp add: c_def request_of_def request_frame_def client_next_correlation_def answered_client_def allocate_def
        allocator_init_def)
  have s: "peer_send ?q ?pe = (?pe\<lparr>pe_channel := (pe_channel ?pe)\<lparr>ch_frames_sent := 1\<rparr>, pe_outs := [], pe_sent := [?q]\<rparr>, ok_status)"
    using q by (simp add: peer_send_def channel_send_def new_peer_def new_channel_def encode_frame_eq send_all_def
        send_loop.simps is_ok_def)
  have fits: "frame_fits limits_defaults f" "fr_version f = protocol_version"
    using assms(4) by (simp_all add: f_def frame_fits_def limits_defaults_def)
  obtain ch ins where "channel_receive [R_data (frame_bytes f)] ((pe_channel ?pe)\<lparr>ch_frames_sent := 1\<rparr>) = (ch, ins, Ok f)"
    by (rule channel_receive_frame[of "(pe_channel ?pe)\<lparr>ch_frames_sent := 1\<rparr>" "[R_data (frame_bytes f)]" f "[]"])
      (use fits in \<open>simp_all add: new_peer_def new_channel_def\<close>)
  then show thesis by (intro that[OF pe s _ n]) (simp add: peer_receive_def new_peer_def)
qed

lemma answered_request:
  assumes "length fs_bytes = 16" "length payload \<le> 64"
  shows "\<exists>c'. request kind fs_bytes (answered_client type payload) = (c', Inr (frame_default\<lparr>fr_version := protocol_version,
    fr_type := type, fr_correlation := 1, fr_payload := payload\<rparr>))"
  by (rule answered_steps[OF assms, of type kind]) (simp add: request_unfold is_ok_def matched_response_def)

lemma query_bytes [simp]:
  "length (payload_of limits_defaults (encode_finalize_request q)) = 16"
  "length (payload_of limits_defaults (encode_query_result r)) = 16"
  "ec_limits (answered_client type payload) = limits_defaults"
  by (simp_all add: payload_of_def put_fields_new answered_client_def encode_finalize_request_def
      encode_query_result_def limits_defaults_def)

theorem client_takes_only_its_answer_witness:
  "\<exists>c c' frs. client_finalize 7 1 c = (c', Inr frs) \<and> frs_code frs = 0 \<and>
     exchanged MT_finalize_request (encode_finalize_request \<lparr>frq_ensemble = 7, frq_ensemble_generation = 1\<rparr>)
       MT_finalize_response (wire (encode_finalize_response frs)) c c'"
proof -
  let ?m = "\<lparr>frs_ensemble = 7, frs_ensemble_generation = 1, frs_decision = D_selected, frs_accepted = True, frs_code = 0,
    frs_encoded_result = [1, 2], frs_detail = []\<rparr>"
  let ?c = "answered_client MT_finalize_response (wire (encode_finalize_response ?m))"
  have len: "length (wire (encode_finalize_response ?m)) \<le> 64" by (simp add: encode_finalize_response_def)
  have q: "length (payload_of limits_defaults (encode_finalize_request \<lparr>frq_ensemble = 7, frq_ensemble_generation = 1\<rparr>)) = 16"
    by simp
  obtain c' where r: "request MT_finalize_request (payload_of limits_defaults
      (encode_finalize_request \<lparr>frq_ensemble = 7, frq_ensemble_generation = 1\<rparr>)) ?c = (c', Inr (frame_default\<lparr>fr_version :=
        protocol_version, fr_type := MT_finalize_response, fr_correlation := 1, fr_payload := wire (encode_finalize_response ?m)\<rparr>))"
    using answered_request[OF q len] by blast
  have "finalize_response_within ?m" by (simp add: finalize_response_within_def within_def known_code_def)
  then have "client_finalize 7 1 ?c = (c', Inr ?m)"
    by (simp add: client_finalize_def expect_def r bind_reply_def decode_whole_def finalize_response_codec.decode_exactly_iff)
  then show ?thesis using client_takes_only_its_answer[of undefined ?c 7 1] by (intro exI conjI) auto
qed

text \<open>
  The client does not see why a request was refused. When the frame that answers a request is
  an error response under the correlation of the request, the operation reports a protocol error,
  whatever code the response carries.
\<close>

theorem client_hides_refusal_code:
  fixes i g c
  defines "finalize_frame \<equiv> request_of MT_finalize_request
      (payload_of (ec_limits c) (encode_finalize_request \<lparr>frq_ensemble = i, frq_ensemble_generation = g\<rparr>)) c"
  assumes "ec_peer c = Some pe" and "client_connected c"
    and "peer_send finalize_frame pe = (pe1, ok_status)" and "peer_receive pe1 = (pe2, Ok f)"
    and "fr_type f = MT_error_response" and "fr_correlation f = fr_correlation finalize_frame"
  shows "snd (client_finalize i g c) = Inl (error_code E_protocol_error)"
  using assms(2-) unfolding finalize_frame_def
  by (simp add: client_finalize_def expect_def request_unfold is_ok_def matched_response_def bind_reply_def deny_def)

theorem client_hides_refusal_code_witness:
  "\<exists>c. snd (client_finalize 7 1 c) = Inl (error_code E_protocol_error) \<and>
     (\<exists>pe. ec_peer c = Some pe \<and> pending_bytes pe = frame_bytes (frame_default\<lparr>fr_version := protocol_version,
        fr_type := MT_error_response, fr_correlation := 1, fr_payload := wire (encode_error_response
          \<lparr>erm_code = error_code E_unknown_ensemble, erm_correlation = 1, erm_detail = ''unknown ensemble''\<rparr>)\<rparr>))"
proof -
  let ?p = "wire (encode_error_response \<lparr>erm_code = error_code E_unknown_ensemble, erm_correlation = 1,
    erm_detail = ''unknown ensemble''\<rparr>)"
  let ?c = "answered_client MT_error_response ?p"
  let ?b = "payload_of limits_defaults (encode_finalize_request \<lparr>frq_ensemble = 7, frq_ensemble_generation = 1\<rparr>)"
  have len: "length ?b = 16" "length ?p \<le> 64" by (simp_all add: encode_error_response_def)
  have "snd (client_finalize 7 1 ?c) = Inl (error_code E_protocol_error)"
  proof (rule answered_steps[OF len, of MT_error_response MT_finalize_request])
    fix pe pe1 pe2
    assume s: "ec_peer ?c = Some pe" "client_connected ?c" "peer_send (request_of MT_finalize_request ?b ?c) pe = (pe1, ok_status)"
      "peer_receive pe1 = (pe2, Ok (frame_default\<lparr>fr_version := protocol_version, fr_type := MT_error_response,
        fr_correlation := 1, fr_payload := ?p\<rparr>))" "fr_correlation (request_of MT_finalize_request ?b ?c) = 1"
    show ?thesis by (rule client_hides_refusal_code[OF s(1,2) _ s(4)]) (use s(3,5) in simp_all)
  qed
  then show ?thesis
    by (intro exI[of _ ?c]) (simp add: answered_client_def new_peer_def new_channel_def pending_bytes_def)
qed

section \<open>The worker\<close>

text \<open>The message of a production, when there is room for it in a frame payload.\<close>

definition production_fits :: "'b BackendInterface \<Rightarrow> DispatchCandidateMessage \<Rightarrow> 'b Worker \<Rightarrow> bool" where
  "production_fits bi dm w \<longleftrightarrow>
     (case bi_produce bi (wr_backend w) dm of
        Returned (b, Ok pp) \<Rightarrow> length (pp_payload pp) \<le> 67108864 \<and>
          length (pp_payload pp) + 256 \<le> unat (max_persistence_bytes (wr_limits w))
      | _ \<Rightarrow> True)"

lemma sent_reply:
  assumes "fr_type f = MT_dispatch_candidate" "decode_whole decode_dispatch_candidate f = Ok dm"
    and "worker_handle bi f w = Returned w'" "wr_peer w = Some pe" "wr_peer w' = Some pe'"
    and "pe_sent pe' = pe_sent pe @ [r]"
  obtains b production where "bi_produce bi (wr_backend w) dm = Returned (b, production)"
    "r = production_frame (dispatched_authority dm w) production f
       (worker_next_sequence (w\<lparr>wr_backend := b\<rparr>))"
proof -
  obtain b production where x: "bi_produce bi (wr_backend w) dm = Returned (b, production)"
    "w' = count_handled (worker_send (production_frame (dispatched_authority dm w) production f
       (worker_next_sequence (w\<lparr>wr_backend := b\<rparr>))) (worker_next_sequence (w\<lparr>wr_backend := b\<rparr>)))"
    using assms(1-3) by (auto simp: worker_handle_def answer_dispatch_def bind_run_Returned Let_def
        dispatched_authority_def worker_authority_def worker_next_sequence_def)
  have "r = production_frame (dispatched_authority dm w) production f (worker_next_sequence (w\<lparr>wr_backend := b\<rparr>))"
    using assms(4-6) x(2)
    by (auto simp: count_handled_def worker_send_def worker_next_sequence_def peer_send_def split: prod.splits if_splits)
  with x(1) show thesis by (rule that)
qed

lemma content_reply:
  assumes "r = production_frame authority production f w" "fr_type r = MT_candidate_result"
  obtains pp where "production = Ok pp" "pp_kind pp = PK_content"
    "fr_payload r = payload_of (wr_limits w) (encode_candidate_result
       \<lparr>rm_authority = authority, rm_payload = pp_payload pp, rm_produced_units = pp_budget_units_used pp\<rparr>)"
  using assms by (auto simp: production_frame_def Let_def split: outcome.splits ProductionKind.splits)

lemma candidate_result_length:
  "length (wire (encode_candidate_result \<lparr>rm_authority = a, rm_payload = data, rm_produced_units = n\<rparr>)) \<le> length data + 256"
  by (simp add: encode_candidate_result_def put_candidate_authority_def put_participant_authority_def)

text \<open>
  C5: the whole way of a candidate's content. When a worker answers a decoded dispatch with a
  candidate result, and the receiver decodes that frame, the message holds the content that the
  backend produced, under the dispatched candidate and the worker's own process and epoch; and a
  runtime accepts it only if, at that moment, the dispatched participant is authoritative, bound to
  this very worker process under this epoch, and the candidate is still dispatched in the same
  execution and generation.
\<close>

theorem worker_content_reaches_its_candidate:
  assumes "fr_type f = MT_dispatch_candidate" and "decode_whole decode_dispatch_candidate f = Ok dm"
    and "worker_handle bi f w = Returned w'" and "wr_peer w = Some pe" and "wr_peer w' = Some pe'"
    and "pe_sent pe' = pe_sent pe @ [r]" and "fr_type r = MT_candidate_result"
    and "production_fits bi dm w" and "decode_whole decode_candidate_result r = Ok m"
  shows "(\<exists>b pp. bi_produce bi (wr_backend w) dm = Returned (b, Ok pp) \<and> pp_kind pp = PK_content \<and>
      rm_payload m = pp_payload pp \<and> rm_authority m = dispatched_authority dm w) \<and>
    (case submit_candidate \<lparr>cs_authority = rm_authority m, cs_payload = rm_payload m\<rparr> im of
       (im', Err e) \<Rightarrow> True
     | (im', Ok u) \<Rightarrow> \<exists>en p c. find_ensemble im (dm_ensemble dm) = Some en \<and>
         find_participant en (dm_participant dm) = Some p \<and> authoritative (im_epoch im) p \<and>
         pr_worker p = wc_worker (wr_config w) \<and> pr_worker_boot p = wr_boot w \<and>
         im_epoch im = wr_coordinator_epoch w \<and> ex_id (en_execution en) = dm_execution dm \<and>
         find_candidate (en_execution en) (dm_candidate dm) = Some c \<and>
         cd_generation c = dm_candidate_generation dm \<and> cd_state c = C_dispatched)"
proof -
  obtain b production where x: "bi_produce bi (wr_backend w) dm = Returned (b, production)"
    "r = production_frame (dispatched_authority dm w) production f (worker_next_sequence (w\<lparr>wr_backend := b\<rparr>))"
    using sent_reply[OF assms(1-6)] .
  obtain pp where pp: "production = Ok pp" "pp_kind pp = PK_content"
    "fr_payload r = payload_of (wr_limits w) (encode_candidate_result
       \<lparr>rm_authority = dispatched_authority dm w, rm_payload = pp_payload pp, rm_produced_units = pp_budget_units_used pp\<rparr>)"
    using content_reply[OF x(2) assms(7)] by (auto simp: worker_next_sequence_def)
  let ?m = "\<lparr>rm_authority = dispatched_authority dm w, rm_payload = pp_payload pp, rm_produced_units = pp_budget_units_used pp\<rparr>"
  have fits: "length (pp_payload pp) \<le> 67108864" "length (pp_payload pp) + 256 \<le> unat (max_persistence_bytes (wr_limits w))"
    using assms(8) x(1) pp(1) by (simp_all add: production_fits_def)
  have "candidate_result_within ?m" using fits(1) by (simp add: candidate_result_within_def within_def)
  moreover have "length (wire (encode_candidate_result ?m)) \<le> unat (max_persistence_bytes (wr_limits w))"
    using candidate_result_length fits(2) by (rule order_trans)
  ultimately have m: "m = ?m"
    using assms(9) candidate_result_codec.encode_decode pp(3) by (simp add: decode_whole_def payload_of_def)
  have "\<exists>l. located_by (dispatched_authority dm w) im l \<and> cd_state (lo_candidate l) = C_dispatched"
    if "submit_candidate \<lparr>cs_authority = dispatched_authority dm w, cs_payload = pp_payload pp\<rparr> im = (im', Ok u)" for im' u
    using submit_candidate_located[OF that] by simp
  then show ?thesis using x(1) pp(1,2) m
    by (fastforce simp: located_by_def dispatched_authority_def worker_authority_def split: prod.splits outcome.splits)
qed

definition three_bytes :: "unit BackendInterface" where
  "three_bytes = \<lparr>bi_produce = (\<lambda>b dm. Returned (b, Ok (production_default\<lparr>pp_payload := [5, 6, 7]\<rparr>))),
     bi_evaluate = (\<lambda>b q. Returned (b, fail E_internal_error))\<rparr>"

definition sample_dispatch :: DispatchCandidateMessage where
  "sample_dispatch = \<lparr>dm_ensemble = 7, dm_ensemble_generation = 1, dm_execution = 1, dm_attempt_generation = 1,
     dm_participant = 2, dm_participant_generation = 1, dm_coordinator_epoch = 3, dm_candidate = 5,
     dm_candidate_generation = 1, dm_role = R_candidate, dm_stage = 1, dm_attempt = 1, dm_budget_units = 10,
     dm_deterministic_seed = 0, dm_domain = ''task'', dm_request = [1, 2]\<rparr>"

definition sample_worker :: "unit Worker" where
  "sample_worker = \<lparr>wr_config = \<lparr>wc_worker = 4, wc_worker_boot = 9, wc_label = ''worker'', wc_profile = profile_default,
       wc_bindings = [], wc_limits = limits_defaults, wc_diagnostic = (\<lambda>e. [])\<rparr>,
     wr_backend = (), wr_peer = Some (new_peer limits_defaults [] [[163]]), wr_coordinator_epoch = 3,
     wr_coordinator_boot = 8, wr_sequence = 0, wr_stop = False, wr_handled = 0, wr_registered = True,
     wr_cancelled = {}\<rparr>"

theorem worker_content_reaches_its_candidate_witness:
  "\<exists>w' pe' r m. worker_handle three_bytes (frame_default\<lparr>fr_type := MT_dispatch_candidate, fr_correlation := 21,
       fr_payload := wire (encode_dispatch_candidate sample_dispatch)\<rparr>) sample_worker = Returned w' \<and>
     wr_peer w' = Some pe' \<and> pe_sent pe' = [r] \<and> decode_whole decode_candidate_result r = Ok m \<and>
     rm_payload m = [5, 6, 7] \<and> pa_worker (ca_participant (rm_authority m)) = 4"
proof -
  let ?f = "frame_default\<lparr>fr_type := MT_dispatch_candidate, fr_correlation := 21,
       fr_payload := wire (encode_dispatch_candidate sample_dispatch)\<rparr>"
  let ?a = "dispatched_authority sample_dispatch sample_worker"
  let ?m = "\<lparr>rm_authority = ?a, rm_payload = [5, 6, 7], rm_produced_units = 0\<rparr>"
  let ?r = "frame_default\<lparr>fr_type := MT_candidate_result, fr_correlation := 21, fr_epoch := 3, fr_worker_boot := 9,
    fr_sequence := 1, fr_payload := wire (encode_candidate_result ?m)\<rparr>"
  let ?pe = "new_peer limits_defaults [] [[163]]"
  let ?pe' = "?pe\<lparr>pe_channel := (pe_channel ?pe)\<lparr>ch_frames_sent := 1\<rparr>, pe_outs := [], pe_sent := [?r]\<rparr>"
  let ?w' = "sample_worker\<lparr>wr_peer := Some ?pe', wr_sequence := 1, wr_handled := 1\<rparr>"
  have f: "decode_whole decode_dispatch_candidate ?f = Ok sample_dispatch"
    by (simp add: decode_whole_def dispatch_candidate_codec.decode_exactly_iff)
      (simp add: dispatch_candidate_within_def within_def sample_dispatch_def)
  have len: "length (wire (encode_candidate_result ?m)) = 99"
    by (simp add: encode_candidate_result_def put_candidate_authority_def put_participant_authority_def)
  have payload: "payload_of limits_defaults (encode_candidate_result ?m) = wire (encode_candidate_result ?m)"
    unfolding payload_of_def by (rule put_fields_new) (simp add: len limits_defaults_def)
  have "production_frame ?a (Ok (production_default\<lparr>pp_payload := [5, 6, 7]\<rparr>)) ?f (worker_next_sequence sample_worker) = ?r"
    using payload by (simp add: production_frame_def production_default_def outbound_frame_def worker_next_sequence_def
        sample_worker_def frame_default_def)
  moreover have "peer_send ?r ?pe = (?pe', ok_status)"
    using len by (simp add: peer_send_def channel_send_def new_peer_def new_channel_def encode_frame_eq send_all_def
        send_loop.simps is_ok_def frame_fits_def limits_defaults_def frame_bytes_def)
  ultimately have h: "worker_handle three_bytes ?f sample_worker = Returned ?w'"
    using f by (simp add: worker_handle_def answer_dispatch_def three_bytes_def bind_run_def Let_def count_handled_def
        worker_send_def dispatched_authority_def worker_authority_def)
      (simp add: worker_next_sequence_def sample_worker_def)
  have d: "decode_whole decode_candidate_result ?r = Ok ?m"
    by (simp add: decode_whole_def candidate_result_codec.decode_exactly_iff candidate_result_within_def within_def)
  have fits: "production_fits three_bytes sample_dispatch sample_worker"
    by (simp add: production_fits_def three_bytes_def sample_worker_def limits_defaults_def)
  have w: "wr_peer sample_worker = Some ?pe" "wr_peer ?w' = Some ?pe'" "pe_sent ?pe' = pe_sent ?pe @ [?r]"
    "pe_sent ?pe' = [?r]"
    by (simp_all add: sample_worker_def new_peer_def)
  have reply: "fr_type ?r = MT_candidate_result" "fr_type ?f = MT_dispatch_candidate" by simp_all
  have "rm_authority ?m = ?a"
    by (rule worker_content_reaches_its_candidate[OF reply(2) f h w(1-3) reply(1) fits d, THEN conjunct1, THEN exE])
      (elim exE conjE)
  moreover have "pa_worker (ca_participant ?a) = 4"
    by (simp add: dispatched_authority_def worker_authority_def sample_worker_def)
  ultimately have a: "pa_worker (ca_participant (rm_authority ?m)) = 4" by (simp only:)
  have "rm_payload ?m = [5, 6, 7]" by simp
  with a h w(2,4) d show ?thesis by (intro exI conjI)
qed

context live_backend
begin

lemma handle_returns:
  assumes "live (wr_backend w)"
  shows "\<exists>w'. worker_handle bi f w = Returned w' \<and> live (wr_backend w')"
proof -
  have send: "wr_backend (count_handled (worker_send g v)) = wr_backend v" for g v
    by (simp add: count_handled_def worker_send_def split: option.split prod.split)
  have "\<exists>w'. answer_dispatch bi f dm w = Returned w' \<and> live (wr_backend w')" for dm
    using produce_answers[OF assms, of dm] by (auto simp: answer_dispatch_def bind_run_def Let_def send worker_next_sequence_def)
  moreover have "\<exists>w'. answer_evaluation bi f q w = Returned w' \<and> live (wr_backend w')" for q
    using evaluate_answers[OF assms, of q]
    by (auto simp: answer_evaluation_def bind_run_def Let_def send worker_next_sequence_def split: outcome.split)
  ultimately show ?thesis
    using assms by (auto simp: worker_handle_def split: MessageType.split outcome.split)
qed

lemma serve_loop_returns:
  "live (wr_backend w) \<Longrightarrow> \<exists>w' st. serve_loop bi w = Returned (w', st) \<and> (is_ok st \<longleftrightarrow> wr_stop w')"
proof (induction "unread w" arbitrary: w rule: less_induct)
  case less
  show ?case
  proof (cases "wr_stop w")
    case False
    obtain w1 r where r: "worker_receive w = (w1, r)" by (cases "worker_receive w")
    have keep: "wr_stop w1 = wr_stop w" "wr_backend w1 = wr_backend w"
      using r by (auto simp: worker_receive_def split: option.splits prod.splits)
    show ?thesis
    proof (cases r)
      case (Ok f)
      obtain w2 where h: "worker_handle bi f w1 = Returned w2" "live (wr_backend w2)"
        using handle_returns less.prems keep(2) by metis
      have "unread w2 < unread w" using worker_receive_unread worker_handle_unread[OF h(1)] r Ok by metis
      from less.hyps[OF this h(2)] show ?thesis
        using False r Ok h(1) by (simp add: serve_loop.simps[of bi w])
    next
      case (Err e)
      then show ?thesis
        using False r keep by (simp add: serve_loop.simps[of bi w] Err fail_def is_ok_def)
    qed
  qed (simp add: serve_loop.simps[of bi w] is_ok_def)
qed

end

text \<open>
  C35: a serving worker comes back. With a backend that plays a script of open gates without an exit
  step at the end and any finite stream of received bytes, however they are cut and damaged, the
  serving loop returns; it reports success exactly when the coordinator said goodbye.
\<close>

theorem worker_serves_to_the_end:
  assumes "playable fuel gates (bk_program (wr_backend w))" and "wr_peer w \<noteq> None"
  shows "\<exists>w' st. serve (reference_interface fuel gates) w = Returned (w', st) \<and> (is_ok st \<longleftrightarrow> wr_stop w')"
  using scripted.serve_loop_returns[OF assms(1)] assms(2)
  by (auto simp: serve_def)

theorem worker_serves_to_the_end_witness:
  "\<exists>w' st. serve (reference_interface 1 (\<lambda>path. False))
     \<lparr>wr_config = wr_config sample_worker, wr_backend = yes_backend,
      wr_peer = Some (new_peer limits_defaults [R_data (frame_bytes goodbye_frame)] []), wr_coordinator_epoch = 3,
      wr_coordinator_boot = 8, wr_sequence = 0, wr_stop = False, wr_handled = 0, wr_registered = True,
      wr_cancelled = {}\<rparr> = Returned (w', st)"
  using worker_serves_to_the_end[of 1 "\<lambda>path. False" "\<lparr>wr_config = wr_config sample_worker, wr_backend = yes_backend,
      wr_peer = Some (new_peer limits_defaults [R_data (frame_bytes goodbye_frame)] []), wr_coordinator_epoch = 3,
      wr_coordinator_boot = 8, wr_sequence = 0, wr_stop = False, wr_handled = 0, wr_registered = True,
      wr_cancelled = {}\<rparr>"] yes_playable
  by auto

end
