(* ===== verification/Spec2Isabelle.thy ===== *)
theory Spec2Isabelle
  imports Sample_Run Fabric_Runs Decision_Properties Foundation_Properties Protocol_Properties
    Persistence_Properties Coordinator_Properties Driver_Properties Script_Properties Worker_Properties
begin

text \<open>
  Verification of Ensemble Fabric, a C++ runtime that lets several model participants answer one
  request and turns their candidates, verdicts and votes into at most one authoritative result for
  each execution. All paths below are relative to \<^verbatim>\<open>src/\<close>.

  \<^bold>\<open>The program.\<close> The runtime (\<^verbatim>\<open>src/fabric*.cpp\<close>) keeps ensembles, their participants and one execution
  each. Clients define ensembles and open executions; \<^verbatim>\<open>advance\<close> returns actions (dispatch, evaluate,
  cancel); answers come back as submissions under an authority (ensemble, generation, participant,
  worker process, epoch), and \<^verbatim>\<open>finalize\<close> computes quorum, consensus and arbitration and commits a result.
  Actions are carried out by the in-process driver (\<^verbatim>\<open>local_driver.cpp\<close>) or by the coordinator process
  (\<^verbatim>\<open>distributed/coordinator.cpp\<close>), which exchanges frames with workers and clients; the state can be
  written to a file and recovered under a new epoch.

  \<^bold>\<open>Foundations.\<close> \<open>Prelude\<close> (rewriting collections, byte and map lemmas), \<open>Outcome\<close>
  (\<^verbatim>\<open>outcome.cpp\<close>: \<^verbatim>\<open>Outcome<T>\<close> is a sum of an error code and a value; the wording of messages is left
  out), \<open>Ids\<close> (\<^verbatim>\<open>ids.hpp\<close>; locale \<open>fresh_ids\<close> for the allocator), \<open>Limits\<close>, \<open>Text\<close>, \<open>Doubles\<close>
  (IEEE binary64 as bit patterns, with the six-digit printing of \<^verbatim>\<open>format_double\<close>), \<open>Hashing\<close> (SHA-256,
  CRC-32C), \<open>Roles\<close>, \<open>Participants\<close>, \<open>Specs\<close>, \<open>Candidates\<close> (candidate and evaluation records and
  the legal transitions). Integers are words of the width of the source. \<open>Foundation_Properties\<close>
  holds their theorems.

  \<^bold>\<open>Decisions.\<close> \<open>Quorum\<close>, \<open>Consensus\<close>, \<open>Arbitration\<close>, \<open>Results\<close> follow the files of the same name;
  \<open>Decision_Properties\<close> characterises quorum and consensus over their inputs and shows that arbitration
  selects only admissible candidates and that consensus and arbitration do not depend on the order
  of numeric evidence.

  \<^bold>\<open>The runtime.\<close> \<open>Fabric_State\<close> (\<^verbatim>\<open>fabric_internal.hpp\<close>), \<open>Fabric_Core\<close> (\<^verbatim>\<open>fabric.cpp\<close>),
  \<open>Fabric_Participant\<close>, \<open>Fabric_Execution\<close> and \<open>Fabric_Advance\<close> (\<^verbatim>\<open>fabric_execution.cpp\<close>),
  \<open>Fabric_Ingest\<close>, \<open>Fabric_Reports\<close> and \<open>Fabric_Commit\<close> (\<^verbatim>\<open>fabric_commit.cpp\<close>), \<open>Inspection\<close>
  (\<^verbatim>\<open>fabric_inspect.cpp\<close>). Every public operation is a function from the state \<open>Impl\<close> to a state and
  an outcome. \<open>Fabric_Machine\<close> makes them, all but \<^verbatim>\<open>recover_state\<close>, the step relation
  \<open>fabric_step\<close> of one running runtime and defines its reachable states; \<open>Runtime_Machine\<close> adds failed
  recoveries and recoveries of the saved state and gives \<open>runtime_step\<close>. \<open>Lifecycle_Spec\<close> is an
  abstract life cycle of one ensemble with the locale of a simulation, which these theories interpret
  on their step relations (and \<open>Coordinator_Runs\<close> on the coordinator over \<open>fabric_step\<close>). \<open>Fabric_Progress\<close> and \<open>Fabric_Advance\<close> carry invariants through the
  loop of \<^verbatim>\<open>advance\<close> (locale \<open>work_invariant\<close>), \<open>Fabric_Safety\<close> and \<open>Fabric_Invariant\<close> hold the
  invariant of the reachable states, \<open>Fabric_Runs\<close> what a run of \<open>runtime_step\<close> keeps of a result, \<open>Sample_Run\<close> a
  run from definition to commit that the witnesses use. The theorems over these theories are below.

  \<^bold>\<open>Bytes.\<close> \<open>Codec\<close> (bounded encoder and decoder), \<open>Wire\<close> (locale \<open>wire_codec\<close>: a decoder that accepts
  exactly the encodings of the values within its bounds; each codec is an interpretation), \<open>Integrity\<close>
  (what CRC-32C detects), \<open>Frames\<close>, \<open>Messages\<close> and \<open>Wire_Messages\<close> (\<^verbatim>\<open>protocol.cpp\<close>), \<open>Transport\<close>
  (\<^verbatim>\<open>transport.cpp\<close>), \<open>State_File\<close> (\<^verbatim>\<open>persistence.cpp\<close>), \<open>Field_Codecs\<close>, \<open>Spec_Codec\<close>,
  \<open>Result_Codec\<close>, \<open>Record_Codec\<close> and \<open>Recovery\<close> (\<^verbatim>\<open>fabric_persist.cpp\<close>), \<open>Recovery_Failures\<close>;
  the theorems are in \<open>Protocol_Properties\<close> and \<open>Persistence_Properties\<close>.

  \<^bold>\<open>Processes.\<close> \<open>Action_Messages\<close> (the messages of actions), \<open>Coordinator\<close> (handlers, pump, parked
  requests, event loop) and \<open>Coordinator_Runs\<close> (its step relation simulates runs of the runtime, and
  every frame it sends carries a message of its kind), \<open>Reference_Backend\<close> (the scripted backend
  behind the interface of backends), \<open>Local_Driver\<close> and \<open>Driver_Runs\<close> (locale \<open>live_backend\<close>: a
  driver or worker returns when its backend does, interpreted on scripts), \<open>Peers\<close>, \<open>Worker\<close> and
  \<open>Client\<close>. The theorems are in \<open>Coordinator_Properties\<close>, \<open>Script_Properties\<close>, \<open>Driver_Properties\<close>
  and \<open>Worker_Properties\<close>; the last ones follow a candidate from the backend of a worker through its
  frame into the runtime of the coordinator.

  \<^bold>\<open>Environment.\<close> The operating system is an argument: \<^verbatim>\<open>send\<close> and \<^verbatim>\<open>recv\<close> results are lists, each file
  operation of a state write succeeds or fails as its argument says, the file system is a map from
  paths to contents, a gate file is a predicate on paths, clocks and random draws are words. Log
  wording that C++ takes from an error message is a function of the code in the configuration.

  \<^bold>\<open>Bounds and fuel.\<close> \<^verbatim>\<open>advance\<close> repeats at most 64 times and the coordinator's pump 8 rounds, as in the
  source; \<^verbatim>\<open>driver_run\<close> has the round budget of its caller. The cursor of a script may wait for ever
  (at a closed gate, or in a script that ends in a gate), so \<open>consume\<close> has fuel; as many units as the
  script has steps are enough whenever the source returns (\<open>Script_Properties.script_termination\<close>).
  All other recursions are structural or have a measure; the serving loop of a worker ends because
  every frame takes bytes off the stream.

  \<^bold>\<open>Scope of the runs.\<close> C1 to C4 speak of \<open>runtime_step\<close>: any mutating operation with any arguments,
  any recovery that fails, and a successful recovery of the very state that the file was written
  from, in the same or a fresh process with the same limits. A successful recovery from an older or a
  foreign file is no step: \<^verbatim>\<open>recover_state\<close> then replaces every ensemble, and what is lost is shown by
  \<open>Persistence_Properties.stale_recovery_rolls_back\<close>. C6 to C9 speak of \<open>fabric_step\<close>, that is, of one
  process that has not recovered. The state that was saved is within its own limits (\<open>savable\<close>); C39
  shows one that is not and is never recovered.

  \<^bold>\<open>Not modelled.\<close> Sockets, name resolution and listening (operating-system calls); threads and locks:
  every operation runs under the lock of its object, so the model's steps are the critical sections
  (\<^verbatim>\<open>finalize\<close> and \<^verbatim>\<open>restart\<close> have several, which are steps of their own; \<^verbatim>\<open>recover_state\<close> takes the lock
  to install the state and again to invalidate it, which the model does in one step), and the interleaving of connections is the step relation of the coordinator; \<^verbatim>\<open>request_stop\<close> and
  \<^verbatim>\<open>stop\<close> from other threads; the port and stop files; \<^verbatim>\<open>remove_tree\<close>; the wording of errors;
  version strings; command-line tools, examples and tests.
\<close>

section \<open>The fate of a result\<close>

text \<open>
  C1: a committed result is final. Once the runtime holds a result for an ensemble, every run that
  stays on the same ensemble generation and execution keeps exactly that result. A run consists of
  operations with any arguments, failed recoveries, and recoveries of the state that was saved last:
  no resubmission, restart, invalidation, cancellation, supersession, second commit, crash or
  recovery changes or removes the result. A recovery from the file of an older or of another state
  is not part of a run: it can lose the result (\<open>Persistence_Properties.stale_recovery_rolls_back\<close>).
\<close>

theorem committed_result_is_final:
  assumes "runtime_reachable config im" "current_result i im = Ok r" "rtranclp runtime_step im im'"
    "execution_key i im' = execution_key i im"
  shows "current_result i im' = Ok r"
  by (rule runtime_keeps_result[OF assms])

theorem committed_result_is_final_witness:
  "\<exists>trace im' out r. current_result 7 sample_committed = Ok r \<and>
     save_state (good_write sample_committed) 1 ''state'' sample_committed Map.empty = (ok_status, trace) \<and>
     recover_state ''state'' 77 (last trace) (fabric_init config_default) = (im', out) \<and>
     current_result 7 (fst (restart ''crash'' 99 im')) = Ok r"
proof (rule sample_committed_record)
  fix en
  assume "find_ensemble sample_committed 7 = Some en" "en_has_execution en" "ex_has_result (en_execution en)"
  then have r: "current_result 7 sample_committed = Ok (ex_result (en_execution en))" by (simp add: current_result_def)
  obtain trace where save: "save_state (good_write sample_committed) 1 ''state'' sample_committed Map.empty =
      (ok_status, trace)" by (rule good_write_saves[OF sample_committed_savable])
  have lim: "im_limits (fabric_init config_default) = im_limits sample_committed"
    by (simp add: sample_committed_limits fabric_init_def config_default_def)
  obtain im' out where rec: "recover_state ''state'' 77 (last trace) (fabric_init config_default) = (im', out)"
    by fastforce
  have saved: "recovered_from_save sample_committed im'"
    unfolding recovered_from_save_def using sample_committed_savable save lim rec by blast
  have "runtime_step im' (fst (restart ''crash'' 99 im'))" by (rule operation_step) (rule step_restart)
  then have "rtranclp runtime_step sample_committed (fst (restart ''crash'' 99 im'))"
    using recovery_step[OF saved] by (blast intro: rtranclp.rtrancl_into_rtrancl)
  moreover have "execution_key 7 (fst (restart ''crash'' 99 im')) = execution_key 7 sample_committed"
    by (simp add: execution_key_restart execution_key_recovered[OF saved])
  ultimately have "current_result 7 (fst (restart ''crash'' 99 im')) = Ok (ex_result (en_execution en))"
    by (rule committed_result_is_final[OF reachable_in_runtime[OF sample_reachable(6)] r])
  with r save rec show ?thesis by blast
qed

text \<open>
  C2: a fenced execution never commits. If an execution without a result is cancelled, or its
  ensemble is superseded, then no run on the same generation and execution gives it a result; runs
  are those of C1, so they include crashes and recoveries of the state that was saved last, and not
  a recovery from a file that was written before the cancellation.
\<close>

theorem fenced_execution_never_commits:
  assumes "runtime_reachable config im" "find_ensemble im i = Some en" "en_has_execution en"
    "\<not> ex_has_result (en_execution en)" "en_superseded en \<or> ex_cancellation_requested (en_execution en)"
    "rtranclp runtime_step im im'" "execution_key i im' = execution_key i im"
  shows "current_result i im' = Err E_not_found"
proof -
  obtain en' where en': "find_ensemble im' i = Some en'" "abs_ok (abs_ensemble en)"
    "rtranclp abs_step (abs_ensemble en) (abs_ensemble en')"
    using assms(1,2,6) by (rule run_views)
  have "abs_key (abs_ensemble en) = abs_key (abs_ensemble en')"
    using assms(2,7) en' by (simp add: execution_key_def record_key_abs)
  moreover have "abs_fenced (abs_ensemble en)" "abs_result (abs_ensemble en) = None"
    using assms(3-5) by (auto simp: abs_fenced_def abs_result_def abs_ensemble_def)
  ultimately have "abs_result (abs_ensemble en') = None" using abs_run_fenced[OF en'(3,2)] by blast
  then show ?thesis using en'
    by (auto simp: current_result_def abs_result_def abs_ensemble_def split: if_splits)
qed

theorem fenced_execution_never_commits_witness:
  "current_result 7 (fst (commit_result sample_result sample_cancelled)) = Err E_not_found"
proof (rule sample_cancelled_record)
  fix en
  assume en: "find_ensemble sample_cancelled 7 = Some en" "en_has_execution en" "\<not> ex_has_result (en_execution en)"
    "ex_cancellation_requested (en_execution en)"
  have "rtranclp runtime_step sample_cancelled (fst (commit_result sample_result sample_cancelled))"
    by (rule r_into_rtranclp) (rule operation_step, rule step_commit)
  with en show ?thesis
    using fenced_execution_never_commits[OF reachable_in_runtime[OF sample_reachable(5)] en(1-3) _ _
        execution_key_commit] by blast
qed

text \<open>
  C3: ensembles never disappear and their clocks never run backwards. Along every run, in the sense
  of C1, an ensemble record stays present, and its pair of ensemble generation and execution
  identity never decreases in the lexicographic order. Recovery from an older file, which replaces
  all records, is not part of a run.
\<close>

theorem execution_key_monotone:
  assumes "runtime_reachable config im" "find_ensemble im i = Some en" "rtranclp runtime_step im im'"
  shows "\<exists>en'. find_ensemble im' i = Some en' \<and> key_le (record_key en) (record_key en')"
proof -
  obtain en' where "find_ensemble im' i = Some en'" "abs_ok (abs_ensemble en)"
    "rtranclp abs_step (abs_ensemble en) (abs_ensemble en')" using assms by (rule run_views)
  with abs_run(2)[OF this(3,2)] show ?thesis by (auto simp: record_key_abs)
qed

theorem execution_key_monotone_witness:
  "\<exists>en'. find_ensemble sample_dispatched 7 = Some en' \<and> key_le (1, 0) (record_key en')"
proof -
  have "case find_ensemble sample_registered 7 of None \<Rightarrow> False | Some en \<Rightarrow> record_key en = (1, 0)" by code_simp
  then obtain en where en: "find_ensemble sample_registered 7 = Some en" "record_key en = (1, 0)"
    by (auto split: option.splits)
  have "rtranclp fabric_step sample_registered sample_dispatched"
    unfolding sample_dispatched_def sample_open_def
    by (blast intro: rtranclp.rtrancl_into_rtrancl step_open step_advance)
  then show ?thesis
    using execution_key_monotone[OF reachable_in_runtime[OF sample_reachable(2)] en(1)] en(2)
      fabric_run_is_runtime_run by simp
qed

text \<open>
  C4: the runtime refines the lifecycle specification. Whatever operation is called with whatever
  arguments, the step it makes on each existing ensemble is a step that the abstract lifecycle
  allows: stutter, redefine, supersede, open, cancel before a result, or commit once, unfenced,
  under the current generation and execution. The same holds of a recovery that fails and of a
  recovery of the state that was saved, which is a stutter; recovery from any other file replaces
  the ensembles and refines nothing.
\<close>

theorem fabric_refines_lifecycle:
  assumes "runtime_step im im'" "find_ensemble im i = Some en"
  shows "\<exists>en'. find_ensemble im' i = Some en' \<and> abs_step (abs_ensemble en) (abs_ensemble en')"
proof -
  have "view i im = Some (abs_ensemble en)" using assms(2) by (simp add: view_def)
  from runtime_lifecycle.simulates[OF assms(1) this] show ?thesis by (auto simp: view_def)
qed

theorem fabric_refines_lifecycle_witness:
  "\<exists>en en'. find_ensemble sample_dispatched 7 = Some en \<and> find_ensemble sample_committed 7 = Some en' \<and>
     abs_step (abs_ensemble en) (abs_ensemble en')"
proof (rule sample_dispatched_record)
  fix en assume en: "find_ensemble sample_dispatched 7 = Some en"
  have "runtime_step sample_dispatched sample_committed"
    unfolding sample_committed_def by (rule operation_step) (rule step_commit)
  from fabric_refines_lifecycle[OF this en] en show ?thesis by blast
qed

section \<open>Invariants of the reachable states\<close>

text \<open>
  C7: identities are never reused inside an execution. In every reachable state the candidate
  identities of an execution are pairwise distinct, so are the identities of its planned
  evaluations, and all of them lie below the marks of the allocators that issue new ones.
\<close>

theorem reachable_identities_unique:
  assumes "reachable config im" "find_ensemble im i = Some en"
  shows "distinct (map cd_id (ex_candidates (en_execution en))) \<and>
    distinct (map pe_id (ex_pending (en_execution en))) \<and>
    (\<forall>c \<in> set (ex_candidates (en_execution en)). cd_id c < im_candidate_ids im) \<and>
    (\<forall>p \<in> set (ex_pending (en_execution en)). pe_id p < im_evaluation_ids im)"
  using find_ok[OF reachable_ok[OF assms(1)] assms(2)] by (auto simp: ensemble_ok_def ids_ok_alt)

theorem reachable_identities_unique_witness:
  "case find_ensemble sample_dispatched 7 of None \<Rightarrow> False
   | Some en \<Rightarrow> \<forall>c \<in> set (ex_candidates (en_execution en)). cd_id c < im_candidate_ids sample_dispatched"
proof (rule sample_dispatched_record)
  fix en assume "find_ensemble sample_dispatched 7 = Some en"
  with reachable_identities_unique[OF sample_reachable(4) this] show ?thesis by simp
qed

text \<open>
  C8: the retry budget holds. In every reachable state no candidate has been dispatched more often
  than the retry policy of its ensemble allows, and a candidate that waits for a dispatch has an
  attempt left.
\<close>

theorem reachable_attempts_bounded:
  assumes "reachable config im" "find_ensemble im i = Some en" "c \<in> set (ex_candidates (en_execution en))"
  shows "cd_attempts_used c \<le> rt_max_attempts (sp_retry (en_spec en)) \<and>
    (cd_state c = C_declared \<longrightarrow> cd_attempts_used c < rt_max_attempts (sp_retry (en_spec en)))"
  using find_ok[OF reachable_ok[OF assms(1)] assms(2)] assms(3) by (auto simp: ensemble_ok_def attempts_ok_def)

theorem reachable_attempts_bounded_witness:
  "\<exists>en c. find_ensemble sample_dispatched 7 = Some en \<and> c \<in> set (ex_candidates (en_execution en)) \<and>
     cd_attempts_used c \<le> rt_max_attempts (sp_retry (en_spec en))"
proof (rule sample_dispatched_record)
  fix en c assume en: "find_ensemble sample_dispatched 7 = Some en" "ex_candidates (en_execution en) = [c]"
  then have "c \<in> set (ex_candidates (en_execution en))" by simp
  from reachable_attempts_bounded[OF sample_reachable(4) en(1) this] en show ?thesis by auto
qed

text \<open>
  C9: status, result and commit log agree. In every reachable state an execution is committed
  exactly when it holds a result whose decision is a commit; a result names the generation and the
  execution that hold it and fixes the execution status; and at most one commit is on record, none
  without a result.
\<close>

theorem reachable_commit_consistent:
  assumes "reachable config im" "find_ensemble im i = Some en"
  defines "ex \<equiv> en_execution en"
  shows "(ex_status ex = XS_committed \<longleftrightarrow> ex_has_result ex \<and> rs_decision (ex_result ex) = D_committed) \<and>
    (ex_has_result ex \<longrightarrow> ex_status ex = status_for (rs_decision (ex_result ex)) \<and>
       rs_execution (ex_result ex) = ex_id ex \<and> rs_ensemble_generation (ex_result ex) = sp_generation (en_spec en)) \<and>
    length (ex_commits ex) \<le> (if ex_has_result ex then 1 else 0)"
proof -
  have c: "commit_ok en" using find_ok[OF reachable_ok[OF assms(1)] assms(2)] by (simp add: ensemble_ok_def)
  have "status_for d = XS_committed \<longleftrightarrow> d = D_committed" for d by (cases d) simp_all
  with c show ?thesis by (auto simp: commit_ok_def ex_def Let_def split: if_splits)
qed

theorem reachable_commit_consistent_witness:
  "\<exists>en. find_ensemble sample_committed 7 = Some en \<and> length (ex_commits (en_execution en)) \<le> 1"
proof (rule sample_committed_record)
  fix en assume en: "find_ensemble sample_committed 7 = Some en" "ex_has_result (en_execution en)"
  from reachable_commit_consistent[OF sample_reachable(6) en(1)] en show ?thesis by auto
qed

section \<open>Commits\<close>

text \<open>
  C11: commits are idempotent and conflict-safe. Once an execution holds a result, a well-formed
  commit for it returns the stored result when it carries the same commit fingerprint, and fails
  with a conflict otherwise; either way the stored result stays.
\<close>

theorem repeated_commit:
  assumes "find_ensemble im (rs_ensemble r) = Some en" "en_has_execution en" "ex_has_result (en_execution en)"
    "is_ok (validate_result r (en_spec en) (im_epoch im))" "rs_execution r = ex_id (en_execution en)"
  shows "snd (commit_result r im) =
      (if rs_commit_fingerprint (ex_result (en_execution en)) = rs_commit_fingerprint r
       then Ok (ex_result (en_execution en)) else Err E_conflicting_result_commit) \<and>
    current_result (rs_ensemble r) (fst (commit_result r im)) = Ok (ex_result (en_execution en))"
proof -
  obtain u where u: "validate_result r (en_spec en) (im_epoch im) = Ok u"
    using assms(4) by (cases "validate_result r (en_spec en) (im_epoch im)") simp_all
  show ?thesis using assms u
    by (simp add: commit_result_def Let_def current_result_def find_ensemble_def)
qed

theorem repeated_commit_witness:
  "snd (commit_result (sample_result\<lparr>rs_commit_fingerprint := 1 + (case current_result 7 sample_committed of
     Ok r \<Rightarrow> rs_commit_fingerprint r | Err _ \<Rightarrow> 0)\<rparr>) sample_committed) = Err E_conflicting_result_commit"
proof (rule sample_committed_record)
  fix en
  assume en: "find_ensemble sample_committed 7 = Some en" "en_has_execution en" "ex_has_result (en_execution en)"
    "sp_generation (en_spec en) = 1" "ex_id (en_execution en) = 1" "im_epoch sample_committed = 1"
  let ?r = "sample_result\<lparr>rs_commit_fingerprint := 1 + rs_commit_fingerprint (ex_result (en_execution en))\<rparr>"
  have r: "rs_ensemble ?r = 7" "rs_execution ?r = 1" by (simp_all add: sample_result_def)
  have "sp_id (en_spec en) = 7"
    using find_ok[OF reachable_ok[OF sample_reachable(6)] en(1)] by (simp add: ensemble_ok_def)
  then have v: "is_ok (validate_result ?r (en_spec en) (im_epoch sample_committed))"
    using en by (simp add: validate_result_iff sample_result_def)
  have f: "find_ensemble sample_committed (rs_ensemble ?r) = Some en" "rs_execution ?r = ex_id (en_execution en)"
    using r en by simp_all
  from repeated_commit[OF f(1) en(2,3) v f(2)] have "snd (commit_result ?r sample_committed) =
    Err E_conflicting_result_commit" by simp
  then show ?thesis using en by (simp add: current_result_def)
qed

text \<open>
  C10: what a first commit needs. When a commit is accepted on an execution without a result, the
  result names the current ensemble, generation, coordinator epoch and execution, the execution is
  neither cancelled, superseded nor waiting for revalidation, a committed decision has a selected
  candidate, and afterwards the returned result is the current one.
\<close>

theorem first_commit_guarded:
  assumes "commit_result r im = (im', Ok v)" "find_ensemble im (rs_ensemble r) = Some en"
    "\<not> ex_has_result (en_execution en)"
  shows "en_has_execution en \<and> rs_ensemble r = sp_id (en_spec en) \<and>
    rs_ensemble_generation r = sp_generation (en_spec en) \<and> rs_coordinator_epoch r = im_epoch im \<and>
    rs_execution r = ex_id (en_execution en) \<and> \<not> en_superseded en \<and>
    \<not> ex_cancellation_requested (en_execution en) \<and>
    ex_status (en_execution en) \<notin> {XS_cancelled, XS_superseded, XS_revalidation_required} \<and>
    (rs_decision r = D_committed \<longrightarrow> rs_has_selected r) \<and>
    current_result (rs_ensemble r) im' = Ok v \<and> rs_decision v = rs_decision r"
  using assms(1)
proof (cases rule: commit_result_cases)
  case (accepted en0 en1 en' v' x s)
  have en0: "en0 = en" using accepted(1) assms(2) by simp
  have v: "v' = v" using accepted(9) by simp
  have p: "en_has_execution en'" "ex_has_result (en_execution en')" "ex_result (en_execution en') = v"
    "rs_decision v = rs_decision r"
    using accepted(8) accepted(2) unfolding en0 v accepted(7)
    by (auto simp: publish_commit_def store_commit_def map_execution_def Let_def split: if_splits)
  then have "current_result (rs_ensemble r) im' = Ok v"
    using accepted(10) by (simp add: current_result_def find_ensemble_def)
  then show ?thesis using accepted(2-6) p(4) unfolding en0 commit_blocked_None validate_result_iff by auto
qed (use assms in auto)

theorem first_commit_guarded_witness:
  "\<exists>v. commit_result sample_result sample_dispatched = (sample_committed, Ok v) \<and>
     current_result 7 sample_committed = Ok v"
proof (rule sample_dispatched_record)
  fix en
  assume en: "find_ensemble sample_dispatched 7 = Some en" "\<not> ex_has_result (en_execution en)"
  obtain v where v: "commit_result sample_result sample_dispatched = (sample_committed, Ok v)"
    by (rule sample_committed_record) blast
  have r: "rs_ensemble sample_result = 7" by (simp add: sample_result_def)
  then have "find_ensemble sample_dispatched (rs_ensemble sample_result) = Some en" using en by simp
  from first_commit_guarded[OF v this en(2)] v r show ?thesis by auto
qed

section \<open>Authority\<close>

lemma cancel_loop_actions:
  "cancel_loop cs w = (cs', w') \<Longrightarrow> a \<in> set (wk_actions w') \<Longrightarrow>
     a \<in> set (wk_actions w) \<or> (\<exists>x. a = Cancel x \<and> xa_execution x = execution_ref (wk_en w))"
proof (induction cs arbitrary: w cs' w')
  case (Cons c cs)
  obtain c1 w1 where s: "cancel_step c w = (c1, w1)" by (cases "cancel_step c w")
  obtain cs2 w2 where l: "cancel_loop cs w1 = (cs2, w2)" by (cases "cancel_loop cs w1")
  have w1: "wk_en w1 = wk_en w" "set (wk_actions w1) \<subseteq> set (wk_actions w) \<union>
      {Cancel x | x. xa_execution x = execution_ref (wk_en w)}"
    using s by (auto simp: cancel_step_def dest!: wk_next_sequence_frame split: if_splits prod.splits)
  have "w' = w2" using Cons.prems(1) s l by simp
  with Cons.IH[OF l] Cons.prems(2) w1 show ?case by auto
qed simp

lemma emit_cancellation_actions:
  assumes "a \<in> set (wk_actions (emit_cancellation w))"
  shows "a \<in> set (wk_actions w) \<or> (\<exists>x. a = Cancel x \<and> xa_execution x = execution_ref (wk_en w))"
proof (cases "ex_cancellation_emitted (wk_ex w)")
  case True
  then show ?thesis using assms by (simp add: emit_cancellation_def)
next
  case False
  define w1 where "w1 = (wk_map_ex (\<lambda>ex. ex\<lparr>ex_cancellation_emitted := True\<rparr>) w)\<lparr>wk_im := (wk_im w)\<lparr>im_counters :=
    (im_counters (wk_im w))\<lparr>ct_cancellations := ct_cancellations (im_counters (wk_im w)) + 1\<rparr>\<rparr>\<rparr>"
  obtain cs w2 where l: "cancel_loop (ex_candidates (wk_ex w1)) w1 = (cs, w2)"
    by (cases "cancel_loop (ex_candidates (wk_ex w1)) w1")
  have "wk_actions (emit_cancellation w) = wk_actions w2"
    using False l by (simp add: emit_cancellation_def w1_def Let_def)
  moreover have "wk_actions w1 = wk_actions w" "execution_ref (wk_en w1) = execution_ref (wk_en w)"
    by (simp_all add: w1_def execution_ref_def)
  ultimately show ?thesis using cancel_loop_actions[OF l] assms by auto
qed

text \<open>
  C12: the coordinator only ever hands work to current authority. Every action that advance
  returns refers to the current execution, and every dispatch or evaluation request names a
  participant that is registered, current and of the coordinator's own epoch, under its current
  participant generation.
\<close>

theorem advance_actions_authorized:
  assumes "advance i g im = (im', Ok actions)" "find_ensemble im i = Some en" "a \<in> set actions"
  shows "action_authorized (im_epoch im) en a"
proof -
  let ?w = "\<lparr>wk_im = im, wk_en = en, wk_actions = [], wk_progress = True\<rparr>"
  have "authorized_work im en ?w" by (simp add: authorized_work_def runtime_frame_def)
  then have loop: "authorized_work im en (fst (advance_open ?w))" by (rule authorized.inv_advance_open)
  have finish: "finish_advance i r = (im', Ok actions) \<Longrightarrow> a \<in> set (wk_actions (fst r))" for r
    using assms(3) by (auto simp: finish_advance_def split: outcome.splits)
  consider "actions = []" | "finish_advance i (emit_cancellation ?w, ok_status) = (im', Ok actions)"
    | "finish_advance i (wk_map_ex supersede_open_execution ?w, ok_status) = (im', Ok actions)"
    | "finish_advance i (advance_open ?w) = (im', Ok actions)"
    using assms(1,2) by (auto simp: advance_def Let_def split: if_splits)
  then show ?thesis
  proof cases
    case 2
    from finish[OF this] emit_cancellation_actions[of a ?w] show ?thesis by auto
  next
    case 3
    from finish[OF this] show ?thesis by simp
  qed (use assms(3) finish loop in \<open>auto simp: authorized_work_def\<close>)
qed

theorem advance_actions_authorized_witness:
  "case snd (advance 7 1 sample_open) of Err _ \<Rightarrow> False | Ok actions \<Rightarrow>
     (case find_ensemble sample_open 7 of None \<Rightarrow> False | Some en \<Rightarrow>
        \<forall>a \<in> set actions. action_authorized (im_epoch sample_open) en a)"
proof -
  have ok: "is_ok (snd (advance 7 1 sample_open))" by code_simp
  obtain en where en: "find_ensemble sample_open 7 = Some en"
    using ok by (cases "find_ensemble sample_open 7") (simp_all add: advance_def)
  obtain im' actions where "advance 7 1 sample_open = (im', Ok actions)"
    using ok by (cases "advance 7 1 sample_open"; cases "snd (advance 7 1 sample_open)") auto
  then show ?thesis using advance_actions_authorized[OF _ en] en by simp
qed

lemma submit_candidate_Err:
  assumes "submit_candidate sub im = (im', Err e)"
  shows "same_ensembles im im'"
proof (cases "locate_candidate (cs_authority sub) im")
  case (Pair im1 r)
  show ?thesis
  proof (cases r)
    case (Err e')
    then show ?thesis using Pair assms locate_candidate_frame[OF Pair] by (simp add: submit_candidate_def)
  next
    case (Ok l)
    then have "im1 = im" using Pair locate_candidate_Ok by blast
    then show ?thesis using Pair Ok assms reject_submission_frame[of im "lo_candidate l"]
      by (auto simp: submit_candidate_def Let_def split: if_splits prod.splits)
  qed
qed

text \<open>
  C13: only the dispatched participant can deliver a candidate. An accepted candidate submission
  carries a complete authority that agrees with the coordinator epoch, the ensemble generation, the
  execution and attempt, the registered worker and boot of an authoritative participant and the
  candidate's current generation, and its candidate is dispatched; a rejected submission leaves
  every ensemble as it was.
\<close>

theorem submit_candidate_fenced:
  "case submit_candidate sub im of
     (im', Ok _) \<Rightarrow> \<exists>l. located_by (cs_authority sub) im l \<and> cd_state (lo_candidate l) = C_dispatched
   | (im', Err e) \<Rightarrow> im_ensembles im' = im_ensembles im"
proof (cases "submit_candidate sub im")
  case (Pair im' out)
  show ?thesis
  proof (cases out)
    case (Err e)
    then show ?thesis using Pair submit_candidate_Err by (auto simp: same_ensembles_def)
  next
    case (Ok u)
    then show ?thesis using submit_candidate_located[of sub im im' u] Pair by simp
  qed
qed

lemma submit_evaluation_Err:
  "submit_evaluation sub im = (im', Err e) \<Longrightarrow> same_ensembles im im'"
  using submit_evaluation_cases[of im sub]
  by (auto simp: admit_evaluation_def split: if_splits outcome.splits option.splits)

lemma find_set_pending:
  "find_pending ex i = Some q \<Longrightarrow> find_pending (set_pending (q\<lparr>pe_answered := True\<rparr>) ex) i = Some (q\<lparr>pe_answered := True\<rparr>)"
  using find_pendingD[of ex i q] by (simp add: find_pending_def set_pending_def find_update_first)

lemma admit_evaluation_Ok:
  assumes "admit_evaluation sub en p c q im = (im', Ok v)"
  shows "v = ea_evaluation (es_authority sub)" "\<not> pe_answered q" "\<not> pe_abandoned q" "matches_plan sub q"
    "find (same_vote sub) (ex_evaluations (en_execution en)) = None" "im' = record_evaluation sub q c p en im"
  using assms by (auto simp: admit_evaluation_def split: if_splits outcome.splits option.splits)

lemma submit_evaluation_Ok:
  assumes "submit_evaluation sub im = (im', Ok v)"
  obtains en p c q where "find_ensemble im (pa_ensemble (ea_evaluator (es_authority sub))) = Some en"
    "find_participant en (pa_participant (ea_evaluator (es_authority sub))) = Some p" "authoritative (im_epoch im) p"
    "find_candidate (en_execution en) (ea_candidate (es_authority sub)) = Some c" "is_content_state (cd_state c)"
    "find_pending (en_execution en) v = Some q" "admit_evaluation sub en p c q im = (im', Ok v)"
proof -
  from submit_evaluation_cases[of im sub] obtain en p c q where
    f: "find_ensemble im (pa_ensemble (ea_evaluator (es_authority sub))) = Some en"
      "find_participant en (pa_participant (ea_evaluator (es_authority sub))) = Some p" "authoritative (im_epoch im) p"
      "find_candidate (en_execution en) (ea_candidate (es_authority sub)) = Some c" "is_content_state (cd_state c)"
      "find_pending (en_execution en) (ea_evaluation (es_authority sub)) = Some q"
      and s: "submit_evaluation sub im = admit_evaluation sub en p c q im"
    using assms by (elim disjE exE conjE) simp_all
  from s assms have a: "admit_evaluation sub en p c q im = (im', Ok v)" by simp
  show thesis using that[OF f(1-5) _ a] f(6) admit_evaluation_Ok(1)[OF a] by simp
qed

lemma record_evaluation_post:
  assumes "find_pending (en_execution en) v = Some q"
  obtains en' s where
    "find_ensemble (record_evaluation sub q c p en im) (pa_ensemble (ea_evaluator (es_authority sub))) = Some en'"
    "find_pending (en_execution en') v = Some (q\<lparr>pe_answered := True\<rparr>)"
    "ex_evaluations (en_execution en') =
       ex_evaluations (en_execution en) @ [evaluation_record sub q p (im_limits im) (im_epoch im) s]"
proof -
  obtain s im1 where n: "next_sequence im = (s, im1)" by (cases "next_sequence im")
  have l: "im_epoch im1 = im_epoch im" "im_config im1 = im_config im" using next_sequence_pair[OF n] by simp_all
  let ?ex = "(en_execution en)\<lparr>ex_evaluations := ex_evaluations (en_execution en) @
    [evaluation_record sub q p (im_limits im) (im_epoch im) s]\<rparr>"
  let ?en = "set_participant (p\<lparr>pr_evaluations_submitted := pr_evaluations_submitted p + 1\<rparr>)
    (map_execution (\<lambda>_. refresh_summary c (set_pending (q\<lparr>pe_answered := True\<rparr>) ?ex)) en)"
  have e: "en_execution ?en = refresh_summary c (set_pending (q\<lparr>pe_answered := True\<rparr>) ?ex)"
    by (simp add: set_participant_def map_execution_def)
  show thesis
  proof (rule that[of ?en])
    show "find_ensemble (record_evaluation sub q c p en im) (pa_ensemble (ea_evaluator (es_authority sub))) = Some ?en"
      by (simp add: record_evaluation_def n l map_execution_def Let_def)
    have "find_pending ?ex v = Some q" using assms by (simp add: find_pending_def)
    from find_set_pending[OF this] show "find_pending (en_execution ?en) v = Some (q\<lparr>pe_answered := True\<rparr>)"
      unfolding e by (simp add: refresh_summary_def find_pending_def Let_def)
    show "ex_evaluations (en_execution ?en) =
       ex_evaluations (en_execution en) @ [evaluation_record sub q p (im_limits im) (im_epoch im) s]"
      unfolding e by (simp add: refresh_summary_def set_candidate_def set_pending_def Let_def)
  qed
qed

text \<open>
  C14: only the planned evaluator can vote, once. An accepted evaluation comes from an authoritative
  participant under the current epoch, generation and execution, answers an open planned evaluation
  of a candidate that has content, and no evaluation of the same evaluator, candidate and criterion
  was on record. It is recorded as it was submitted behind the earlier ones, its plan is marked as
  answered, and from the state it leaves no submission to the same ensemble is accepted that answers
  the same plan again or repeats the vote. A rejected evaluation leaves every ensemble as it was.
\<close>

theorem submit_evaluation_fenced:
  "case submit_evaluation sub im of
     (im', Ok v) \<Rightarrow> \<exists>en p c q. find_ensemble im (pa_ensemble (ea_evaluator (es_authority sub))) = Some en \<and>
        find_participant en (pa_participant (ea_evaluator (es_authority sub))) = Some p \<and>
        authoritative (im_epoch im) p \<and>
        find_candidate (en_execution en) (ea_candidate (es_authority sub)) = Some c \<and> is_content_state (cd_state c) \<and>
        find_pending (en_execution en) v = Some q \<and> \<not> pe_answered q \<and> \<not> pe_abandoned q \<and> matches_plan sub q \<and>
        find (same_vote sub) (ex_evaluations (en_execution en)) = None \<and>
        (\<exists>en' rec. find_ensemble im' (pa_ensemble (ea_evaluator (es_authority sub))) = Some en' \<and>
           find_pending (en_execution en') v = Some (q\<lparr>pe_answered := True\<rparr>) \<and>
           ex_evaluations (en_execution en') = ex_evaluations (en_execution en) @ [rec] \<and>
           er_id rec = v \<and> same_vote sub rec \<and> er_verification rec = es_verification sub \<and>
           er_judgment rec = es_judgment sub \<and> er_fingerprint rec = fingerprint_evaluation sub \<and>
           \<not> (\<exists>again. is_ok (snd (submit_evaluation again im')) \<and>
                pa_ensemble (ea_evaluator (es_authority again)) = pa_ensemble (ea_evaluator (es_authority sub)) \<and>
                (ea_evaluation (es_authority again) = v \<or> same_vote again rec)))
   | (im', Err e) \<Rightarrow> im_ensembles im' = im_ensembles im"
proof (cases "submit_evaluation sub im")
  case (Pair im' out)
  show ?thesis
  proof (cases out)
    case (Err e)
    with Pair show ?thesis using submit_evaluation_Err by (simp add: same_ensembles_def)
  next
    case (Ok v)
    obtain en p c q where f: "find_ensemble im (pa_ensemble (ea_evaluator (es_authority sub))) = Some en"
      "find_participant en (pa_participant (ea_evaluator (es_authority sub))) = Some p" "authoritative (im_epoch im) p"
      "find_candidate (en_execution en) (ea_candidate (es_authority sub)) = Some c" "is_content_state (cd_state c)"
      "find_pending (en_execution en) v = Some q" and a: "admit_evaluation sub en p c q im = (im', Ok v)"
      by (rule submit_evaluation_Ok[OF Pair[unfolded Ok]])
    note ok = admit_evaluation_Ok[OF a]
    obtain en' s where post: "find_ensemble im' (pa_ensemble (ea_evaluator (es_authority sub))) = Some en'"
      "find_pending (en_execution en') v = Some (q\<lparr>pe_answered := True\<rparr>)"
      "ex_evaluations (en_execution en') =
         ex_evaluations (en_execution en) @ [evaluation_record sub q p (im_limits im) (im_epoch im) s]"
      unfolding ok(6) by (rule record_evaluation_post[OF f(6)])
    let ?rec = "evaluation_record sub q p (im_limits im) (im_epoch im) s"
    have rec: "er_id ?rec = v" "same_vote sub ?rec" "er_verification ?rec = es_verification sub"
      "er_judgment ?rec = es_judgment sub" "er_fingerprint ?rec = fingerprint_evaluation sub"
      using find_pendingD[OF f(6)] by (simp_all add: evaluation_record_def same_vote_def)
    have "\<not> (\<exists>again. is_ok (snd (submit_evaluation again im')) \<and>
        pa_ensemble (ea_evaluator (es_authority again)) = pa_ensemble (ea_evaluator (es_authority sub)) \<and>
        (ea_evaluation (es_authority again) = v \<or> same_vote again ?rec))"
    proof
      assume "\<exists>again. is_ok (snd (submit_evaluation again im')) \<and>
        pa_ensemble (ea_evaluator (es_authority again)) = pa_ensemble (ea_evaluator (es_authority sub)) \<and>
        (ea_evaluation (es_authority again) = v \<or> same_vote again ?rec)"
      then obtain again where again: "is_ok (snd (submit_evaluation again im'))"
        "pa_ensemble (ea_evaluator (es_authority again)) = pa_ensemble (ea_evaluator (es_authority sub))"
        "ea_evaluation (es_authority again) = v \<or> same_vote again ?rec" by blast
      obtain im2 v2 where s2: "submit_evaluation again im' = (im2, Ok v2)"
        using again(1) by (cases "submit_evaluation again im'"; cases "snd (submit_evaluation again im')") auto
      obtain en2 p2 c2 q2 where f2: "find_ensemble im' (pa_ensemble (ea_evaluator (es_authority again))) = Some en2"
        "find_pending (en_execution en2) v2 = Some q2" "admit_evaluation again en2 p2 c2 q2 im' = (im2, Ok v2)"
        using submit_evaluation_Ok[OF s2] by metis
      note ok2 = admit_evaluation_Ok[OF f2(3)]
      have "en2 = en'" using f2(1) post(1) again(2) by simp
      then show False
        using again(3) ok2(1,2,5) f2(2) post(2,3) by (auto simp: find_None_iff)
    qed
    with f ok(2-5) post rec show ?thesis unfolding Pair Ok by auto
  qed
qed

text \<open>
  C15: invalidating dynamic authority leaves nobody in charge. Afterwards no participant of any
  ensemble is authoritative in any epoch and no execution is open, while the stored results stay.
\<close>

theorem invalidate_revokes_authority:
  assumes "find_ensemble (fst (invalidate_dynamic_authority reason im)) i = Some en"
  shows "(\<forall>p \<in> set (en_participants en). \<not> authoritative epoch p) \<and> \<not> execution_open en \<and>
    (current_result i (fst (invalidate_dynamic_authority reason im)) = current_result i im)"
proof -
  obtain en0 where en0: "find_ensemble im i = Some en0" "en = invalidate_ensemble reason en0"
    using assms by (auto simp: find_invalidate)
  have "\<not> execution_open en"
    by (simp add: en0 invalidate_ensemble_def invalidate_execution_def map_execution_def execution_open_def Let_def)
  moreover have "current_result i (fst (invalidate_dynamic_authority reason im)) = current_result i im"
    using invalidate_frame[of en0 reason] en0 assms by (simp add: current_result_def commit_frame_def)
  ultimately show ?thesis
    using invalidate_ensemble_not_authoritative en0(2) by (auto simp: authoritative_def)
qed

theorem invalidate_revokes_authority_witness:
  "\<exists>en. find_ensemble (fst (invalidate_dynamic_authority ''fault'' sample_dispatched)) 7 = Some en \<and>
     \<not> execution_open en \<and> (\<forall>p \<in> set (en_participants en). \<not> authoritative 1 p)"
proof (rule sample_dispatched_record)
  fix en assume "find_ensemble sample_dispatched 7 = Some en"
  then have "find_ensemble (fst (invalidate_dynamic_authority ''fault'' sample_dispatched)) 7 =
      Some (invalidate_ensemble ''fault'' en)" by (simp add: find_invalidate)
  from invalidate_revokes_authority[OF this, of 1] this show ?thesis by blast
qed

text \<open>
  C16: a restart fences the previous epoch. A successful restart moves to a strictly larger
  coordinator epoch, and a candidate or an evaluation that still carries the old epoch is rejected
  without touching any ensemble.
\<close>

theorem restart_fences_old_epoch:
  assumes "restart reason boot im = (im', Ok e)"
  shows "im_epoch im < e \<and> im_epoch im' = e \<and>
    (pa_coordinator_epoch (ca_participant (cs_authority sub)) = im_epoch im \<longrightarrow>
       \<not> is_ok (snd (submit_candidate sub im')) \<and>
       im_ensembles (fst (submit_candidate sub im')) = im_ensembles im') \<and>
    (pa_coordinator_epoch (ea_evaluator (es_authority ev)) = im_epoch im \<longrightarrow>
       \<not> is_ok (snd (submit_evaluation ev im')) \<and>
       im_ensembles (fst (submit_evaluation ev im')) = im_ensembles im')"
proof -
  have e: "im_epoch im \<noteq> - 1" "im_epoch im' = im_epoch im + 1" "e = im_epoch im + 1"
    using assms by (auto simp: restart_unfold Let_def invalidate_dynamic_authority_def split: if_splits)
  then have lt: "im_epoch im < im_epoch im'" using word_less_plus_1 by simp
  have c: "\<not> is_ok (snd (submit_candidate sub im'))"
    if "pa_coordinator_epoch (ca_participant (cs_authority sub)) = im_epoch im"
    using that lt by (auto simp: submit_candidate_def locate_candidate_def locate_execution_def split: outcome.splits)
  have v: "\<not> is_ok (snd (submit_evaluation ev im'))"
    if "pa_coordinator_epoch (ea_evaluator (es_authority ev)) = im_epoch im"
    using that lt by (auto simp: submit_evaluation_def Let_def locate_execution_def split: outcome.splits)
  have "im_ensembles (fst (submit_candidate sub im')) = im_ensembles im'" if "\<not> is_ok (snd (submit_candidate sub im'))"
    using that submit_candidate_Err[of sub im' "fst (submit_candidate sub im')"]
    by (cases "submit_candidate sub im'"; cases "snd (submit_candidate sub im')") (auto simp: same_ensembles_def)
  moreover have "im_ensembles (fst (submit_evaluation ev im')) = im_ensembles im'"
    if "\<not> is_ok (snd (submit_evaluation ev im'))"
    using that submit_evaluation_Err[of ev im' "fst (submit_evaluation ev im')"]
    by (cases "submit_evaluation ev im'"; cases "snd (submit_evaluation ev im')") (auto simp: same_ensembles_def)
  ultimately show ?thesis using lt e c v by simp
qed

theorem restart_fences_old_epoch_witness:
  "\<not> is_ok (snd (submit_candidate \<lparr>cs_authority = sample_authority, cs_payload = [1]\<rparr>
     (fst (restart ''crash'' 99 sample_dispatched))))"
proof (rule sample_dispatched_record)
  assume e: "im_epoch sample_dispatched = 1"
  then have "restart ''crash'' 99 sample_dispatched = (fst (restart ''crash'' 99 sample_dispatched), Ok 2)"
    by (simp add: restart_unfold Let_def invalidate_dynamic_authority_def)
  from restart_fences_old_epoch[OF this, of "\<lparr>cs_authority = sample_authority, cs_payload = [1]\<rparr>"] e
  show ?thesis by (simp add: sample_authority_def)
qed

text \<open>
  C17: a replaced worker gets a fresh participant generation. A registration succeeds only for a
  declared, not currently registered participant, in the coordinator's epoch and the ensemble's
  generation, within its declared roles and compatibility; it makes the participant authoritative
  for the new worker and, if a worker had registered before, advances its generation by one, so
  that everything the old worker still holds is stale.
\<close>

theorem registration_replaces_worker:
  assumes "register_participant r im = (im', Ok g)" "find_ensemble im (rg_ensemble r) = Some en"
    "find_participant en (rg_participant r) = Some p"
  shows "\<not> (pr_registered p \<and> pr_status p = PS_current) \<and> rg_coordinator_epoch r = im_epoch im \<and>
    rg_ensemble_generation r = sp_generation (en_spec en) \<and>
    registration_complete r \<and> roles_contains_all (ps_roles (pr_declaration p)) (rg_claimed_roles r) \<and>
    is_ok (check_compatibility (ps_compatibility (pr_declaration p)) (rg_profile r)) \<and>
    g = (if valid_id (pr_worker_boot p) then pr_generation p + 1 else pr_generation p) \<and>
    (\<exists>en' p'. find_ensemble im' (rg_ensemble r) = Some en' \<and> find_participant en' (rg_participant r) = Some p' \<and>
       authoritative (im_epoch im') p' \<and> pr_generation p' = g \<and> pr_worker p' = rg_worker r \<and>
       pr_worker_boot p' = rg_worker_boot r \<and> pr_profile p' = rg_profile r)"
  using assms(1)
proof (cases rule: register_participant_Ok)
  case (1 en0 p0)
  with assms have eq: "en0 = en" "p0 = p" by simp_all
  have id: "pr_id p = rg_participant r" using assms(3) find_participantD by blast
  let ?p = "admit_participant r p"
  have "find_ensemble im' (rg_ensemble r) = Some (set_participant ?p en)" using 1(9) eq by simp
  moreover have "find_participant (set_participant ?p en) (rg_participant r) = Some ?p"
    using assms(3) id by (simp add: find_set_participant)
  moreover have "authoritative (im_epoch im') ?p" using 1(4,9) by (simp add: authoritative_def)
  ultimately show ?thesis using 1 eq by (simp add: admit_participant_generation)
qed

theorem registration_replaces_worker_witness:
  "\<exists>en p. find_ensemble sample_registered 7 = Some en \<and> find_participant en 1 = Some p \<and>
     authoritative (im_epoch sample_registered) p \<and> pr_worker p = 11"
proof -
  have d: "case find_ensemble sample_defined 7 of None \<Rightarrow> False | Some en \<Rightarrow> find_participant en 1 \<noteq> None" by code_simp
  have r: "is_ok (snd (register_participant sample_registration sample_defined))" by code_simp
  have s: "rg_ensemble sample_registration = 7" "rg_participant sample_registration = 1"
    "rg_worker sample_registration = 11" by (simp_all add: sample_registration_def)
  obtain en p where "find_ensemble sample_defined 7 = Some en" "find_participant en 1 = Some p"
    using d by (auto split: option.splits)
  then have f: "find_ensemble sample_defined (rg_ensemble sample_registration) = Some en"
    "find_participant en (rg_participant sample_registration) = Some p" using s by simp_all
  obtain g where "register_participant sample_registration sample_defined = (sample_registered, Ok g)"
    using r unfolding sample_registered_def
    by (cases "register_participant sample_registration sample_defined";
        cases "snd (register_participant sample_registration sample_defined)") auto
  from registration_replaces_worker[OF this f] s show ?thesis by auto
qed

lemma drop_keeps_last:
  fixes h :: "'a list" and v :: 'a
  assumes "0 < n" defines "xs \<equiv> drop (length (h @ [v]) - n) (h @ [v])"
  shows "length xs \<le> n" "xs \<noteq> []" "last xs = v"
proof -
  show "length xs \<le> n" by (simp add: xs_def del: drop_append)
  show "xs \<noteq> []" using assms by (simp add: xs_def del: drop_append)
  then show "last xs = v" using last_drop[of "length (h @ [v]) - n" "h @ [v]"] by (simp add: xs_def del: drop_append)
qed

text \<open>
  Redefining an ensemble opens the next generation. A definition either fails and leaves every
  ensemble as it was, or stores a validated specification under the next generation (the first one
  for a new ensemble) with all participants unregistered, no execution, and the previous
  generation's result, when there was one, at the end of the bounded history.
\<close>

theorem define_ensemble_generations:
  "case define_ensemble spec im of
     (im', Err e) \<Rightarrow> im_ensembles im' = im_ensembles im
   | (im', Ok g) \<Rightarrow> \<exists>i en'. find_ensemble im' i = Some en' \<and> sp_generation (en_spec en') = g \<and> sp_id (en_spec en') = i \<and>
       (\<exists>sp. is_ok (validate_spec sp (im_limits im)) \<and> en_spec en' = sp\<lparr>sp_fingerprint := compute_spec_fingerprint sp\<rparr>) \<and>
       \<not> en_has_execution en' \<and> \<not> en_superseded en' \<and> list_all (\<lambda>p. \<not> pr_registered p) (en_participants en') \<and>
       (case find_ensemble im i of
          None \<Rightarrow> g = 1 \<and> en_history en' = []
        | Some en \<Rightarrow> unat g = unat (sp_generation (en_spec en)) + 1 \<and>
            (if en_has_execution en \<and> ex_has_result (en_execution en)
             then length (en_history en') \<le> unat (max_retained_results (im_limits im)) \<and>
               en_history en' \<noteq> [] \<and> last (en_history en') = ex_result (en_execution en)
             else en_history en' = en_history en))"
proof (cases "define_ensemble spec im")
  case (Pair im' out)
  show ?thesis
  proof (cases out)
    case (Err e)
    then show ?thesis using Pair define_ensemble_Err by (auto simp: same_ensembles_def)
  next
    case (Ok g)
    have "define_ensemble spec im = (im', Ok g)" using Pair Ok by simp
    then show ?thesis
    proof (cases rule: define_ensemble_Ok)
      case (1 i im1 sp)
      let ?base = "case find_ensemble im i of
          None \<Rightarrow> ensemble_record_init (sp\<lparr>sp_fingerprint := compute_spec_fingerprint sp\<rparr>)
        | Some en \<Rightarrow> retire_generation (im_limits im) en"
      let ?en = "?base\<lparr>en_spec := sp\<lparr>sp_fingerprint := compute_spec_fingerprint sp\<rparr>,
        en_participants := map participant_record_init (sp_participants spec)\<rparr>"
      have f: "find_ensemble im' i = Some ?en" using 1(5) by (simp add: find_ensemble_def)
      have g: "sp_generation (en_spec ?en) = g" "sp_id (en_spec ?en) = i" using 1(3) by simp_all
      have fresh: "\<not> en_has_execution ?base" "\<not> en_superseded ?base"
        by (simp_all add: retire_generation_def ensemble_record_init_def split: option.split)
      have parts: "list_all (\<lambda>p. \<not> pr_registered p) (map participant_record_init (sp_participants spec))"
        by (simp add: list_all_iff participant_record_init_def)
      have "max_retained_results (im_limits im) \<noteq> 0"
        using 1(4) by (auto simp: validate_spec_def validate_limits_def)
      then have pos: "0 < unat (max_retained_results (im_limits im))" by (simp add: unat_gt_0)
      note retained = drop_keeps_last[OF pos]
      have old: "case find_ensemble im i of
          None \<Rightarrow> g = 1 \<and> en_history ?base = []
        | Some en \<Rightarrow> unat g = unat (sp_generation (en_spec en)) + 1 \<and>
            (if en_has_execution en \<and> ex_has_result (en_execution en)
             then length (en_history ?base) \<le> unat (max_retained_results (im_limits im)) \<and>
               en_history ?base \<noteq> [] \<and> last (en_history ?base) = ex_result (en_execution en)
             else en_history ?base = en_history en)"
      proof (cases "find_ensemble im i")
        case None
        then show ?thesis using 1(2) by (simp add: choose_generation_Ok ensemble_record_init_def)
      next
        case (Some en)
        have "unat g = unat (sp_generation (en_spec en)) + 1"
          using 1(2) Some by (simp add: choose_generation_Ok unat_plus_1_64)
        with Some retained[of "en_history en" "ex_result (en_execution en)"] show ?thesis
          by (simp add: retire_generation_def Let_def del: drop_append)
      qed
      show ?thesis using Pair Ok f g fresh parts old 1(4)
        by (auto intro!: exI[of _ i] exI[of _ ?en] split: option.splits)
    qed
  qed
qed

end
